(* ===== verification/Prelude.thy ===== *)
theory Prelude
  imports
    Complex_Main
    "HOL-Library.AList"
    "HOL-Library.Char_ord"
    "HOL-Library.List_Lexorder"
    "HOL-Library.Word"
begin

text \<open>
  The shared vocabulary of the development: the fragment of Python the playground is written
  in. It holds strings and their methods, dicts, JSON values, exceptions, and the lemmas every
  component uses.

  Strings are \<^typ>\<open>string\<close>, a character being a code point below 256. Every wire value
  the playground inspects reaches it through a Latin-1 or ASCII decoding (HTTP headers, DIDs,
  URLs, hex and base64 material), and the methods below follow Python on that whole range,
  superscript digits, the no-break space and the accented capitals included.

  Instants and durations (\<^verbatim>\<open>time.time()\<close>, \<^verbatim>\<open>time.monotonic()\<close>) are real numbers: the
  rounding of binary floats is not modelled. Python's unbounded integers are \<^typ>\<open>int\<close>.

  An operation that can raise returns \<^typ>\<open>'e + 'a\<close>, with the exception on the left.
\<close>

named_theorems py_str \<open>unfolding rules for the string methods\<close>
named_theorems py_exn \<open>unfolding rules for exception plumbing\<close>

section \<open>Characters\<close>

abbreviation ord :: "char \<Rightarrow> nat" where
  "ord c \<equiv> of_char c"

definition newline :: char where
  "newline = CHR 0x0A"

definition is_ascii_digit :: "char \<Rightarrow> bool" where
  "is_ascii_digit c \<longleftrightarrow> 48 \<le> ord c \<and> ord c \<le> 57"

text \<open>\<^verbatim>\<open>str.isdigit\<close> on one character: the ASCII digits and the superscripts two, three, one.\<close>

definition is_digit_char :: "char \<Rightarrow> bool" where
  "is_digit_char c \<longleftrightarrow> is_ascii_digit c \<or> ord c \<in> {178, 179, 185}"

definition is_lower_hex :: "char \<Rightarrow> bool" where
  "is_lower_hex c \<longleftrightarrow> is_ascii_digit c \<or> (97 \<le> ord c \<and> ord c \<le> 102)"

text \<open>\<^verbatim>\<open>str.isspace\<close> on one character below 256: the characters \<^verbatim>\<open>strip()\<close> removes.\<close>

definition is_space_char :: "char \<Rightarrow> bool" where
  "is_space_char c \<longleftrightarrow>
     (9 \<le> ord c \<and> ord c \<le> 13) \<or> (28 \<le> ord c \<and> ord c \<le> 32) \<or> ord c = 133 \<or> ord c = 160"

definition lower_char :: "char \<Rightarrow> char" where
  "lower_char c =
     (if (65 \<le> ord c \<and> ord c \<le> 90) \<or> (192 \<le> ord c \<and> ord c \<le> 222 \<and> ord c \<noteq> 215)
      then char_of (ord c + 32) else c)"

declare newline_def [py_str] is_ascii_digit_def [py_str] is_digit_char_def [py_str]
  is_lower_hex_def [py_str] is_space_char_def [py_str] lower_char_def [py_str]

section \<open>String methods\<close>

definition py_lower :: "string \<Rightarrow> string" where
  "py_lower s = map lower_char s"

definition py_lstrip :: "string \<Rightarrow> string" where
  "py_lstrip s = dropWhile is_space_char s"

definition py_rstrip :: "string \<Rightarrow> string" where
  "py_rstrip s = rev (dropWhile is_space_char (rev s))"

definition py_strip :: "string \<Rightarrow> string" where
  "py_strip s = py_rstrip (py_lstrip s)"

text \<open>\<^verbatim>\<open>s.rstrip(c)\<close> for a single character.\<close>

definition rstrip_char :: "char \<Rightarrow> string \<Rightarrow> string" where
  "rstrip_char c s = rev (dropWhile (\<lambda>x. x = c) (rev s))"

definition py_isdigit :: "string \<Rightarrow> bool" where
  "py_isdigit s \<longleftrightarrow> s \<noteq> [] \<and> list_all is_digit_char s"

definition py_startswith :: "string \<Rightarrow> string \<Rightarrow> bool" where
  "py_startswith s p \<longleftrightarrow> take (length p) s = p"

definition py_endswith :: "string \<Rightarrow> string \<Rightarrow> bool" where
  "py_endswith s p \<longleftrightarrow> length p \<le> length s \<and> drop (length s - length p) s = p"

definition py_removeprefix :: "string \<Rightarrow> string \<Rightarrow> string" where
  "py_removeprefix s p = (if py_startswith s p then drop (length p) s else s)"

text \<open>\<^verbatim>\<open>p in s\<close> for strings.\<close>

fun py_contains :: "string \<Rightarrow> string \<Rightarrow> bool" where
  "py_contains p [] \<longleftrightarrow> p = []"
| "py_contains p (c # s) \<longleftrightarrow> py_startswith (c # s) p \<or> py_contains p s"

text \<open>\<^verbatim>\<open>s.split(c)\<close> with an explicit one-character separator.\<close>

fun py_split :: "char \<Rightarrow> string \<Rightarrow> string list" where
  "py_split c [] = [[]]"
| "py_split c (x # s) =
     (if x = c then [] # py_split c s
      else (case py_split c s of [] \<Rightarrow> [[x]] | w # ws \<Rightarrow> (x # w) # ws))"

text \<open>\<^verbatim>\<open>s.partition(p)\<close>: the part before the first occurrence, whether there is one, the rest.\<close>

fun py_partition :: "string \<Rightarrow> string \<Rightarrow> string \<times> bool \<times> string" where
  "py_partition p [] = (if p = [] then ([], True, []) else ([], False, []))"
| "py_partition p (c # s) =
     (if py_startswith (c # s) p then ([], True, drop (length p) (c # s))
      else (case py_partition p s of (a, found, b) \<Rightarrow> (c # a, found, b)))"

text \<open>\<^verbatim>\<open>s.rpartition(c)\<close> for a single character: before and after the last occurrence.\<close>

definition py_rpartition_char :: "char \<Rightarrow> string \<Rightarrow> string \<times> bool \<times> string" where
  "py_rpartition_char c s =
     (if c \<in> set s
      then (rev (tl (dropWhile (\<lambda>x. x \<noteq> c) (rev s))), True, rev (takeWhile (\<lambda>x. x \<noteq> c) (rev s)))
      else ([], False, s))"

fun py_join :: "string \<Rightarrow> string list \<Rightarrow> string" where
  "py_join sep [] = []"
| "py_join sep [w] = w"
| "py_join sep (w # v # ws) = w @ sep @ py_join sep (v # ws)"

text \<open>
  \<^verbatim>\<open>re.match("^R$", s)\<close> without flags: \<^verbatim>\<open>$\<close> matches at the end of the string and also just
  before a final newline, so a text the pattern accepts may be followed by one newline.
\<close>

definition dollar_match :: "(string \<Rightarrow> bool) \<Rightarrow> string \<Rightarrow> bool" where
  "dollar_match p s \<longleftrightarrow> p s \<or> (s \<noteq> [] \<and> last s = newline \<and> p (butlast s))"

declare py_lower_def [py_str] py_lstrip_def [py_str] py_rstrip_def [py_str] py_strip_def [py_str]
  rstrip_char_def [py_str] py_isdigit_def [py_str] py_startswith_def [py_str]
  py_endswith_def [py_str] py_removeprefix_def [py_str] py_rpartition_char_def [py_str]
  dollar_match_def [py_str]

subsection \<open>Lemmas on the string methods\<close>

lemma py_startswith_append [simp]: "py_startswith (p @ s) p"
  by (simp add: py_startswith_def)

lemma py_startswith_iff: "py_startswith s p \<longleftrightarrow> (\<exists>t. s = p @ t)"
  unfolding py_startswith_def by (metis append_take_drop_id append_eq_conv_conj)

lemma py_removeprefix_append [simp]: "py_removeprefix (p @ s) p = s"
  by (simp add: py_removeprefix_def)

lemma py_startswith_single [simp]: "py_startswith (x # s) [c] \<longleftrightarrow> x = c"
  by (simp add: py_startswith_def)

lemma py_contains_single: "py_contains [c] s \<longleftrightarrow> c \<in> set s"
  by (induction s) auto

lemma py_split_nonempty [simp]: "py_split c s \<noteq> []"
  by (induction s) (auto split: list.splits)

lemma py_split_no_sep: "c \<notin> set s \<Longrightarrow> py_split c s = [s]"
  by (induction s) auto

lemma py_split_append: "c \<notin> set w \<Longrightarrow> py_split c (w @ c # s) = w # py_split c s"
  by (induction w) auto

lemma py_split_snoc: "py_split c (s @ [c]) = py_split c s @ [[]]"
proof (induction s)
  case Nil
  then show ?case by simp
next
  case (Cons x s)
  then show ?case by (cases "py_split c s") auto
qed

lemma set_py_split: "w \<in> set (py_split c s) \<Longrightarrow> c \<notin> set w \<and> set w \<subseteq> set s"
proof (induction s arbitrary: w)
  case Nil
  then show ?case by simp
next
  case (Cons x s)
  obtain v vs where v: "py_split c s = v # vs"
    by (cases "py_split c s") auto
  show ?case
  proof (cases "x = c")
    case True
    with Cons show ?thesis by auto
  next
    case False
    with v Cons.prems have "w = x # v \<or> w \<in> set vs" by auto
    with Cons.IH[of w] Cons.IH[of v] v False show ?thesis by auto
  qed
qed

lemma py_join_split: "py_join [c] (py_split c s) = s"
proof (induction s)
  case Nil
  then show ?case by simp
next
  case (Cons x s)
  obtain v vs where v: "py_split c s = v # vs"
    by (cases "py_split c s") auto
  with Cons show ?case by (cases vs) auto
qed

lemma py_split_join:
  "ws \<noteq> [] \<Longrightarrow> (\<And>w. w \<in> set ws \<Longrightarrow> c \<notin> set w) \<Longrightarrow> py_split c (py_join [c] ws) = ws"
proof (induction ws rule: induct_list012)
  case (3 w v ws)
  then show ?case by (simp add: py_split_append)
qed (auto simp: py_split_no_sep)

lemma py_partition_single_no:
  "c \<notin> set s \<Longrightarrow> py_partition [c] s = (s, False, [])"
  by (induction s) auto

lemma py_partition_single:
  "c \<notin> set w \<Longrightarrow> py_partition [c] (w @ c # s) = (w, True, s)"
  by (induction w) auto

lemma dollar_match_iff:
  "newline \<notin> set s \<Longrightarrow> dollar_match p s \<longleftrightarrow> p s"
  unfolding dollar_match_def using last_in_set by metis

lemma dollar_match_newline [simp]: "p s \<Longrightarrow> dollar_match p (s @ [newline])"
  by (simp add: dollar_match_def)

lemma py_lower_idem_iff: "py_lower s = s \<longleftrightarrow> (\<forall>c \<in> set s. lower_char c = c)"
  by (simp add: py_lower_def map_idI map_eq_conv list_eq_iff_nth_eq) (metis in_set_conv_nth)

lemma py_strip_nonspace: "\<forall>c \<in> set s. \<not> is_space_char c \<Longrightarrow> py_strip s = s"
proof -
  assume s: "\<forall>c \<in> set s. \<not> is_space_char c"
  then have "dropWhile is_space_char s = s" by (cases s) auto
  moreover have "dropWhile is_space_char (rev s) = rev s" 
  proof -
    have "\<forall>c \<in> set (rev s). \<not> is_space_char c" using s by simp
    then show ?thesis by (cases "rev s") auto
  qed
  ultimately show ?thesis by (simp add: py_strip_def py_lstrip_def py_rstrip_def)
qed

section \<open>Lists\<close>

lemma sorted_le_last: "sorted xs \<Longrightarrow> x \<in> set xs \<Longrightarrow> x \<le> last xs"
  by (induction xs) auto

lemma distinct_map_Cons_neq: "distinct (map f (a # xs)) \<Longrightarrow> x \<in> set xs \<Longrightarrow> f x \<noteq> f a"
  by (metis distinct.simps(2) image_eqI list.set_map list.simps(9))

section \<open>Dicts\<close>

text \<open>
  A dict is an association list in insertion order: \<^const>\<open>map_of\<close> is \<^verbatim>\<open>d.get\<close>,
  \<^const>\<open>AList.update\<close> is \<^verbatim>\<open>d[k] = v\<close> (in place when the key is there, at the end otherwise)
  and \<^const>\<open>AList.delete\<close> is \<^verbatim>\<open>d.pop(k, None)\<close>.
\<close>

type_synonym ('k, 'v) dict = "('k \<times> 'v) list"

abbreviation wf_dict :: "('k, 'v) dict \<Rightarrow> bool" where
  "wf_dict d \<equiv> distinct (map fst d)"

definition dict_get_default :: "('k, 'v) dict \<Rightarrow> 'k \<Rightarrow> 'v \<Rightarrow> 'v" where
  "dict_get_default d k v = (case map_of d k of None \<Rightarrow> v | Some w \<Rightarrow> w)"

text \<open>\<^verbatim>\<open>d.update(e)\<close> and \<^verbatim>\<open>{**d, **e}\<close>: the entries of \<open>e\<close> in order.\<close>

definition dict_update :: "('k, 'v) dict \<Rightarrow> ('k, 'v) dict \<Rightarrow> ('k, 'v) dict" where
  "dict_update d e = fold (\<lambda>(k, v) acc. AList.update k v acc) e d"

text \<open>The contract a Python dict keeps towards the components that store their state in one.\<close>

locale dict_store =
  fixes lookup :: "'d \<Rightarrow> 'k \<Rightarrow> 'v option"
    and store :: "'k \<Rightarrow> 'v \<Rightarrow> 'd \<Rightarrow> 'd"
    and drop_key :: "'k \<Rightarrow> 'd \<Rightarrow> 'd"
    and wf :: "'d \<Rightarrow> bool"
  assumes lookup_store: "lookup (store k v d) k' = (if k' = k then Some v else lookup d k')"
    and lookup_drop: "wf d \<Longrightarrow> lookup (drop_key k d) k' = (if k' = k then None else lookup d k')"
    and wf_store: "wf d \<Longrightarrow> wf (store k v d)"
    and wf_drop: "wf d \<Longrightarrow> wf (drop_key k d)"
begin

lemma store_same: "lookup (store k v d) k = Some v"
  by (simp add: lookup_store)

lemma store_other: "k' \<noteq> k \<Longrightarrow> lookup (store k v d) k' = lookup d k'"
  by (simp add: lookup_store)

lemma drop_same: "wf d \<Longrightarrow> lookup (drop_key k d) k = None"
  by (simp add: lookup_drop)

lemma drop_other: "wf d \<Longrightarrow> k' \<noteq> k \<Longrightarrow> lookup (drop_key k d) k' = lookup d k'"
  by (simp add: lookup_drop)

lemma drop_store: "wf d \<Longrightarrow> lookup (drop_key k (store k v d)) k' = lookup (drop_key k d) k'"
  by (simp add: lookup_drop lookup_store wf_store)

end

interpretation py_dict: dict_store map_of AList.update AList.delete wf_dict
proof
  fix d :: "('k, 'v) dict" and k k' :: 'k and v :: 'v
  show "map_of (AList.update k v d) k' = (if k' = k then Some v else map_of d k')"
    by (simp add: update_conv')
  show "map_of (AList.delete k d) k' = (if k' = k then None else map_of d k')"
    by (simp add: delete_conv')
  show "wf_dict d \<Longrightarrow> wf_dict (AList.update k v d)"
    by (rule distinct_update)
  show "wf_dict d \<Longrightarrow> wf_dict (AList.delete k d)"
    by (rule distinct_delete)
qed

declare py_dict.lookup_store [simp]

lemma map_of_delete [simp]: "map_of (AList.delete k d) k' = (if k' = k then None else map_of d k')"
  by (simp add: delete_conv')

lemma map_of_dict_update: "map_of (dict_update d e) = map_of d ++ map_of (rev e)"
  unfolding dict_update_def
proof (induction e arbitrary: d)
  case Nil
  then show ?case by simp
next
  case (Cons kv e)
  obtain k v where kv: "kv = (k, v)" by (cases kv)
  have "map_of (AList.update k v d) ++ map_of (rev e) = map_of d ++ map_of (rev (kv # e))"
    by (rule ext) (simp add: kv map_add_def split: option.splits)
  with Cons[of "AList.update k v d"] kv show ?case by (simp only: fold_Cons o_apply prod.case)
qed

lemma fst_set_update: "fst ` set (AList.update k v d) = insert k (fst ` set d)"
  by (induction d) auto

lemma map_of_rev_wf: "wf_dict d \<Longrightarrow> map_of (rev d) = map_of d"
proof (induction d)
  case (Cons kv d)
  then have "map_of d (fst kv) = None" by (simp add: map_of_eq_None_iff)
  with Cons show ?case by (cases kv) (auto simp: map_add_def split: option.splits)
qed simp

section \<open>JSON values and Python's view of them\<close>

text \<open>A Python float: JSON text may also hold the non-finite ones.\<close>

datatype pyfloat = Fin rat | PosInf | NegInf | NaN

datatype json =
    JNull
  | JBool bool
  | JInt int
  | JFloat pyfloat
  | JStr string
  | JList "json list"
  | JObj "(string, json) dict"

text \<open>\<^verbatim>\<open>bool(x)\<close>.\<close>

fun truthy :: "json \<Rightarrow> bool" where
  "truthy JNull = False"
| "truthy (JBool b) = b"
| "truthy (JInt i) = (i \<noteq> 0)"
| "truthy (JFloat f) = (f \<noteq> Fin 0)"
| "truthy (JStr s) = (s \<noteq> [])"
| "truthy (JList xs) = (xs \<noteq> [])"
| "truthy (JObj kvs) = (kvs \<noteq> [])"

text \<open>\<^verbatim>\<open>isinstance(x, str)\<close>, \<^verbatim>\<open>isinstance(x, dict)\<close> and \<^verbatim>\<open>isinstance(x, list)\<close>, with the value.\<close>

fun as_str :: "json \<Rightarrow> string option" where
  "as_str (JStr s) = Some s"
| "as_str _ = None"

fun as_obj :: "json \<Rightarrow> (string, json) dict option" where
  "as_obj (JObj kvs) = Some kvs"
| "as_obj _ = None"

fun as_list :: "json \<Rightarrow> json list option" where
  "as_list (JList xs) = Some xs"
| "as_list _ = None"

text \<open>\<^verbatim>\<open>d.get(k)\<close> on a decoded object, an absent member being \<^const>\<open>JNull\<close> (Python's None).\<close>

definition obj_get :: "(string, json) dict \<Rightarrow> string \<Rightarrow> json" where
  "obj_get kvs k = dict_get_default kvs k JNull"

lemma as_str_Some [simp]: "as_str j = Some s \<longleftrightarrow> j = JStr s"
  by (cases j) auto

lemma as_obj_Some [simp]: "as_obj j = Some kvs \<longleftrightarrow> j = JObj kvs"
  by (cases j) auto

lemma as_list_Some [simp]: "as_list j = Some xs \<longleftrightarrow> j = JList xs"
  by (cases j) auto

section \<open>Numbers and JSON as text\<close>

text \<open>The decimal digits of a natural number, most significant first.\<close>

fun nat_digits :: "nat \<Rightarrow> string" where
  "nat_digits n = (if n < 10 then [char_of (48 + n)] else nat_digits (n div 10) @ [char_of (48 + n mod 10)])"

declare nat_digits.simps [simp del]

definition str_int :: "int \<Rightarrow> string" where
  "str_int i = (if i < 0 then ''-'' @ nat_digits (nat (- i)) else nat_digits (nat i))"

definition hex4 :: "nat \<Rightarrow> string" where
  "hex4 n = map (\<lambda>k. let d = (n div 16 ^ k) mod 16 in
       if d < 10 then char_of (48 + d) else char_of (87 + d)) [3, 2, 1, 0]"

text \<open>
  \<^verbatim>\<open>json.dumps\<close> with its defaults: a space after each separator, and every character outside the
  printable ASCII range escaped. The text of a float is the caller's (\<^verbatim>\<open>float.__repr__\<close>).
\<close>

definition json_escape_char :: "char \<Rightarrow> string" where
  "json_escape_char c =
     (if c = CHR 0x22 then [CHR 0x5C, CHR 0x22]
      else if c = CHR 0x5C then [CHR 0x5C, CHR 0x5C]
      else if c = CHR 0x0A then [CHR 0x5C, CHR ''n'']
      else if c = CHR 0x0D then [CHR 0x5C, CHR ''r'']
      else if c = CHR 0x09 then [CHR 0x5C, CHR ''t'']
      else if c = CHR 0x0C then [CHR 0x5C, CHR ''f'']
      else if c = CHR 0x08 then [CHR 0x5C, CHR ''b'']
      else if 32 \<le> ord c \<and> ord c \<le> 126 then [c]
      else [CHR 0x5C, CHR ''u''] @ hex4 (ord c))"

definition json_quote :: "string \<Rightarrow> string" where
  "json_quote s = [CHR 0x22] @ concat (map json_escape_char s) @ [CHR 0x22]"

fun json_dumps :: "(pyfloat \<Rightarrow> string) \<Rightarrow> json \<Rightarrow> string" where
  "json_dumps fr JNull = ''null''"
| "json_dumps fr (JBool b) = (if b then ''true'' else ''false'')"
| "json_dumps fr (JInt i) = str_int i"
| "json_dumps fr (JFloat f) = fr f"
| "json_dumps fr (JStr s) = json_quote s"
| "json_dumps fr (JList xs) = ''['' @ py_join '', '' (map (json_dumps fr) xs) @ '']''"
| "json_dumps fr (JObj kvs) =
     ''{'' @ py_join '', '' (map (\<lambda>kv. json_quote (fst kv) @ '': '' @ json_dumps fr (snd kv)) kvs) @ ''}''"

end
