(* ===== verification/Runtime.thy ===== *)
theory Runtime
  imports Prelude
begin

text \<open>
  What the playground's modules share at run time: the exceptions they raise and catch, the
  requests they hand to httpx and the responses they read from it, and the environment (network,
  clock, HTTP-date parser) every effectful operation is a function of.

  httpx is third-party code, so a response is a record of the observations the sources make of
  one, and sending is a parameter: a function of the world's state. The model adds the list of
  requests put on the wire, so that theorems can speak of it.
\<close>

section \<open>Exceptions\<close>

text \<open>The classes \<^verbatim>\<open>_build_http_error\<close> chooses between (acdp_client/client.py).\<close>

datatype http_error_class =
    PlainHTTPError
  | SupersededError
  | NotAuthorizedError
  | PayloadTooLargeError
  | ImmutableFieldError
  | InvalidLifecycleTransitionError
  | InvalidLogProofError

record acdp_http_error =
  he_class :: http_error_class
  he_status :: int
  he_body :: string
  he_url :: string
  he_code :: "string option"
  he_details :: "(string, json) dict"

datatype binding_reason = Mismatch | Malformed | Unverifiable

text \<open>
  Message texts are left out except where code branches on them. \<open>HTTPError\<close> is httpx's transport
  error, \<open>HTTPException\<close> FastAPI's (\<open>HTTPExceptionObj\<close> is the same class with an object as its detail).
  A binding error holds the requested id and what was served in its place, null for nothing. \<open>LocalError\<close> is a class a module derives
  from \<^verbatim>\<open>RuntimeError\<close>, by its name, with its message.
\<close>

datatype exn =
    HTTPError
  | ValueError
  | JSONDecodeError
  | UnicodeDecodeError
  | ValidationError
  | TypeError
  | KeyError
  | IndexError
  | AttributeError
  | OverflowError
  | TimeoutError
  | CancelledError
  | AssertionError
  | SystemExit
  | RuntimeError string
  | SsrfRejected string
  | SsrfError string
  | DataRefHashMismatch
  | ChallengeError
  | TokenIssueError
  | AcdpHTTPError acdp_http_error
  | CtxIdBindingError binding_reason "string option" json
  | CursorError string string
  | HTTPException int string
  | HTTPExceptionObj int "(string, json) dict"
  | RunLimitExceeded string int int
  | OtherException string
  | LocalError string string

text \<open>The subclasses an \<^verbatim>\<open>except ValueError\<close> catches.\<close>

fun is_ValueError :: "exn \<Rightarrow> bool" where
  "is_ValueError ValueError = True"
| "is_ValueError JSONDecodeError = True"
| "is_ValueError UnicodeDecodeError = True"
| "is_ValueError ValidationError = True"
| "is_ValueError _ = False"

text \<open>The subclasses of \<^verbatim>\<open>RuntimeError\<close>.\<close>

fun is_RuntimeError :: "exn \<Rightarrow> bool" where
  "is_RuntimeError (RuntimeError _) = True"
| "is_RuntimeError (SsrfError _) = True"
| "is_RuntimeError DataRefHashMismatch = True"
| "is_RuntimeError ChallengeError = True"
| "is_RuntimeError TokenIssueError = True"
| "is_RuntimeError (AcdpHTTPError _) = True"
| "is_RuntimeError (CtxIdBindingError _ _ _) = True"
| "is_RuntimeError (CursorError _ _) = True"
| "is_RuntimeError (LocalError _ _) = True"
| "is_RuntimeError _ = False"

text \<open>\<^verbatim>\<open>except Exception\<close> lets only the cancellation of a task and interpreter exit through.\<close>

fun is_Exception :: "exn \<Rightarrow> bool" where
  "is_Exception CancelledError = False"
| "is_Exception SystemExit = False"
| "is_Exception _ = True"

type_synonym 'a result = "exn + 'a"

definition rbind :: "'a result \<Rightarrow> ('a \<Rightarrow> 'b result) \<Rightarrow> 'b result" where
  "rbind r f = (case r of Inl e \<Rightarrow> Inl e | Inr a \<Rightarrow> f a)"

lemma rbind_Inl [simp]: "rbind (Inl e) f = Inl e"
  by (simp add: rbind_def)

lemma rbind_Inr [simp]: "rbind (Inr a) f = f a"
  by (simp add: rbind_def)

lemma rbind_eq_Inr [py_exn]: "rbind r f = Inr b \<longleftrightarrow> (\<exists>a. r = Inr a \<and> f a = Inr b)"
  by (cases r) auto

lemma rbind_eq_Inl [py_exn]: "rbind r f = Inl e \<longleftrightarrow> r = Inl e \<or> (\<exists>a. r = Inr a \<and> f a = Inl e)"
  by (cases r) auto

section \<open>Requests, responses and the environment\<close>

datatype payload = NoBody | Content "8 word list" | JsonBody json

record request =
  rq_method :: string
  rq_url :: string
  rq_headers :: "(string, string) dict"
  rq_params :: "(string, json) dict"
  rq_body :: payload

text \<open>
  \<open>resp_header\<close> is \<^verbatim>\<open>r.headers.get\<close>, \<open>resp_json\<close> is what \<^verbatim>\<open>r.json()\<close> returns (None when it raises its
  ValueError), \<open>resp_content\<close> is \<^verbatim>\<open>r.content\<close>.
\<close>

record response =
  status_code :: int
  is_success :: bool
  is_redirect :: bool
  resp_header :: "string \<Rightarrow> string option"
  resp_text :: string
  resp_json :: "json option"
  resp_content :: "8 word list"

record 'w env =
  transport :: "'w \<Rightarrow> request \<Rightarrow> 'w \<times> response result"
  wall_clock :: "'w \<Rightarrow> real"
  sleep_for :: "real \<Rightarrow> 'w \<Rightarrow> 'w"
  parsedate_to_datetime :: "string \<Rightarrow> real option result"
  now_iso :: "'w \<Rightarrow> string"
  float_repr :: "pyfloat \<Rightarrow> string"

text \<open>
  \<open>transport\<close> sends one request and may change the world; \<open>wall_clock\<close> is \<^verbatim>\<open>time.time()\<close>, \<open>now_iso\<close> is
  \<^verbatim>\<open>datetime.now(UTC).isoformat()\<close>, \<open>float_repr\<close> is \<^verbatim>\<open>float.__repr__\<close>.
\<close>

record 'w io =
  world :: 'w
  sent :: "request list"

definition http_send :: "'w env \<Rightarrow> 'w io \<Rightarrow> request \<Rightarrow> 'w io \<times> response result" where
  "http_send env io rq =
     (case transport env (world io) rq of
        (w, r) \<Rightarrow> (io\<lparr>world := w, sent := sent io @ [rq]\<rparr>, r))"

definition io_sleep :: "'w env \<Rightarrow> 'w io \<Rightarrow> real \<Rightarrow> 'w io" where
  "io_sleep env io d = io\<lparr>world := sleep_for env d (world io)\<rparr>"

definition io_now :: "'w env \<Rightarrow> 'w io \<Rightarrow> real" where
  "io_now env io = wall_clock env (world io)"

lemma sent_http_send [simp]: "sent (fst (http_send env io rq)) = sent io @ [rq]"
  by (simp add: http_send_def split: prod.splits)

lemma http_send_sent: "http_send env io rq = (io', r) \<Longrightarrow> sent io' = sent io @ [rq]"
  using sent_http_send[of env io rq] by simp

lemma sent_io_sleep [simp]: "sent (io_sleep env io d) = sent io"
  by (simp add: io_sleep_def)

section \<open>Retry-After (acdp\_client/retry\_after.py)\<close>

fun digits_value :: "string \<Rightarrow> nat \<Rightarrow> nat" where
  "digits_value [] acc = acc"
| "digits_value (c # s) acc = digits_value s (10 * acc + (ord c - 48))"

text \<open>
  \<^verbatim>\<open>float(s)\<close> on a string of digit characters. Python's \<^verbatim>\<open>isdigit\<close> is true of the superscript
  digits, which \<^verbatim>\<open>float\<close> does not accept.
\<close>

definition float_of_digits :: "string \<Rightarrow> real result" where
  "float_of_digits s =
     (if list_all is_ascii_digit s then Inr (real (digits_value s 0)) else Inl ValueError)"

definition parse_retry_after ::
  "(string \<Rightarrow> real option result) \<Rightarrow> string option \<Rightarrow> real \<Rightarrow> real option result" where
  "parse_retry_after parsedate value now =
     (case value of
        None \<Rightarrow> Inr None
      | Some v \<Rightarrow>
          let v = py_strip v in
          if v = [] then Inr None
          else if py_isdigit v then rbind (float_of_digits v) (\<lambda>f. Inr (Some f))
          else (case parsedate v of
                  Inl e \<Rightarrow> if e = TypeError \<or> is_ValueError e then Inr None else Inl e
                | Inr None \<Rightarrow> Inr None
                | Inr (Some ts) \<Rightarrow> Inr (Some (max 0 (ts - now)))))"

lemma parse_retry_after_nonneg:
  "parse_retry_after parsedate value now = Inr (Some d) \<Longrightarrow> 0 \<le> d"
  by (auto simp: parse_retry_after_def float_of_digits_def Let_def rbind_eq_Inr
      split: option.splits if_splits sum.splits)

text \<open>
  The only way out with an exception is a value \<^verbatim>\<open>isdigit\<close> accepts and \<^verbatim>\<open>float\<close> does not, or an
  exception of the date parser that the handler does not name.
\<close>

lemma parse_retry_after_raises:
  assumes "\<And>s e. parsedate s = Inl e \<Longrightarrow> e = TypeError \<or> is_ValueError e"
  shows "parse_retry_after parsedate value now = Inl e \<longleftrightarrow>
     e = ValueError \<and> (\<exists>v. value = Some v \<and> py_isdigit (py_strip v)
        \<and> \<not> list_all is_ascii_digit (py_strip v))"
  using assms
  by (auto simp: parse_retry_after_def float_of_digits_def Let_def rbind_eq_Inl py_isdigit_def
      split: option.splits sum.splits)

section \<open>Integers as text\<close>

text \<open>\<^verbatim>\<open>int(s)\<close> of a string: optional sign, decimal digits, single underscores between digits.\<close>

definition int_of_str :: "string \<Rightarrow> int result" where
  "int_of_str s =
     (let t = py_strip s;
          (neg, u) = (case t of [] \<Rightarrow> (False, []) | c # r \<Rightarrow>
             if c = CHR ''-'' then (True, r) else if c = CHR ''+'' then (False, r) else (False, t));
          gs = py_split CHR ''_'' u
      in if list_all (\<lambda>g. g \<noteq> [] \<and> list_all is_ascii_digit g) gs
         then Inr (let n = int (digits_value (concat gs) 0) in if neg then - n else n)
         else Inl ValueError)"

lemma digits_value_append: "digits_value (s @ [c]) acc = 10 * digits_value s acc + (ord c - 48)"
  by (induction s arbitrary: acc) auto

lemma nat_digits_ok: "digits_value (nat_digits n) 0 = n \<and> nat_digits n \<noteq> [] \<and> list_all is_ascii_digit (nat_digits n)"
proof (induction n rule: nat_digits.induct)
  case (1 n)
  show ?case
  proof (cases "n < 10")
    case True
    then show ?thesis by (simp add: nat_digits.simps[of n] is_ascii_digit_def)
  next
    case False
    with 1 have "digits_value (nat_digits (n div 10)) 0 = n div 10" "list_all is_ascii_digit (nat_digits (n div 10))" by auto
    moreover have "is_ascii_digit (char_of (48 + n mod 10))"
      using mod_less_divisor[of 10 n] by (simp add: is_ascii_digit_def)
    ultimately show ?thesis using False
      by (simp add: nat_digits.simps[of n] digits_value_append)
  qed
qed

lemma is_ascii_digit_plain: "is_ascii_digit c \<Longrightarrow> \<not> is_space_char c \<and> c \<notin> {CHR ''_'', CHR ''-'', CHR ''+'', CHR ''.'', CHR '','', CHR '':''}"
  by (auto simp: is_ascii_digit_def is_space_char_def)

lemma str_int_chars: "c \<in> set (str_int i) \<Longrightarrow> is_ascii_digit c \<or> c = CHR ''-''"
  using nat_digits_ok by (auto simp: str_int_def list_all_iff split: if_splits)

lemma str_int_nonempty [simp]: "str_int i \<noteq> []"
  using nat_digits_ok by (auto simp: str_int_def)

text \<open>Reading a printed integer gives it back.\<close>

lemma int_of_str_str_int: "int_of_str (str_int i) = Inr i"
proof -
  have d: "nat_digits n \<noteq> []" "list_all is_ascii_digit (nat_digits n)" "digits_value (nat_digits n) 0 = n" for n
    using nat_digits_ok by auto
  have us: "py_split CHR ''_'' (nat_digits n) = [nat_digits n]" for n
    using d(2)[of n] is_ascii_digit_plain by (intro py_split_no_sep) (auto simp: list_all_iff)
  have "\<not> is_space_char c" if "c \<in> set (str_int i)" for c
    using str_int_chars[OF that] is_ascii_digit_plain[of c] by (auto simp: is_space_char_def)
  then have strip: "py_strip (str_int i) = str_int i" by (intro py_strip_nonspace) blast
  show ?thesis
  proof (cases "i < 0")
    case True
    then have "str_int i = CHR ''-'' # nat_digits (nat (- i))" by (simp add: str_int_def)
    with True strip us d show ?thesis by (simp add: int_of_str_def)
  next
    case False
    then have s: "str_int i = nat_digits (nat i)" by (simp add: str_int_def)
    obtain c r where c: "nat_digits (nat i) = c # r" using d(1) by (metis neq_Nil_conv)
    with d(2)[of "nat i"] have "c \<noteq> CHR ''-''" "c \<noteq> CHR ''+''" using is_ascii_digit_plain[of c] by auto
    with c have sign: "(case nat_digits (nat i) of [] \<Rightarrow> (False, []) | c # r \<Rightarrow>
        if c = CHR ''-'' then (True, r) else if c = CHR ''+'' then (False, r) else (False, nat_digits (nat i))) = (False, nat_digits (nat i))"
      by simp
    with False strip us d s show ?thesis by (simp add: int_of_str_def)
  qed
qed

section \<open>Environments for the examples\<close>

text \<open>A world without state: every request is answered by a fixed function, and the clock stands still.\<close>

definition stub_env :: "(request \<Rightarrow> response result) \<Rightarrow> unit env" where
  "stub_env answer = \<lparr>transport = (\<lambda>w rq. (w, answer rq)), wall_clock = (\<lambda>w. 0), sleep_for = (\<lambda>d w. w),
     parsedate_to_datetime = (\<lambda>s. Inl ValueError), now_iso = (\<lambda>w. []), float_repr = (\<lambda>f. [])\<rparr>"

definition stub_io :: "unit io" where
  "stub_io = \<lparr>world = (), sent = []\<rparr>"

definition json_answer :: "int \<Rightarrow> json \<Rightarrow> response" where
  "json_answer status j = \<lparr>status_code = status, is_success = (200 \<le> status \<and> status < 300), is_redirect = False,
     resp_header = (\<lambda>h. None), resp_text = [], resp_json = Some j, resp_content = []\<rparr>"

lemma http_send_stub [simp]: "http_send (stub_env answer) io rq = (io\<lparr>sent := sent io @ [rq]\<rparr>, answer rq)"
  by (simp add: http_send_def stub_env_def)

lemma io_now_stub [simp]: "io_now (stub_env answer) io = 0"
  by (simp add: io_now_def stub_env_def)

lemma json_answer_simps [simp]:
  "status_code (json_answer n j) = n" "resp_json (json_answer n j) = Some j"
  "is_success (json_answer n j) = (200 \<le> n \<and> n < 300)" "resp_header (json_answer n j) h = None"
  "is_redirect (json_answer n j) = False"
  by (simp_all add: json_answer_def)

end
