(* ===== verification/Config.thy ===== *)
theory Config
  imports Runtime
begin

text \<open>
  playground/config.py: the settings record, the constraints under which it loads, and the values
  derived from it. Reading the environment and the env file is pydantic-settings' work.
\<close>

datatype llm_provider = Openai | Anthropic | Mock

record settings =
  registry_a_url :: string
  registry_b_url :: string
  registry_a_authority :: string
  registry_b_authority :: string
  llm_provider :: llm_provider
  llm_model :: string
  openai_api_key :: string
  anthropic_api_key :: string
  control_plane_url :: string
  control_plane_hmac_secret :: string
  control_plane_admin_token :: string
  webhook_secret :: string
  receipt_signing_seed_b64 :: string
  default_signature_alg :: string
  tenancy_enabled :: bool
  jwt_signing_alg :: string
  playground_api_key :: string
  playground_require_api_key :: bool
  database_url :: string
  llm_quota_per_ip_per_day :: int
  llm_quota_per_ip_per_month :: int
  llm_quota_global_per_day :: int
  llm_quota_global_per_month :: int
  run_rate_limit_per_ip :: int
  run_rate_limit_window_seconds :: int
  max_concurrent_runs :: int
  run_timeout_seconds :: real
  registry_proxy_timeout_seconds :: real
  log_format :: string
  log_level :: string

text \<open>The \<^verbatim>\<open>Field(..., gt=0)\<close> constraints.\<close>

definition settings_fields_ok :: "settings \<Rightarrow> bool" where
  "settings_fields_ok s \<longleftrightarrow>
     0 < llm_quota_per_ip_per_day s \<and> 0 < llm_quota_per_ip_per_month s
     \<and> 0 < llm_quota_global_per_day s \<and> 0 < llm_quota_global_per_month s
     \<and> 0 < run_rate_limit_per_ip s \<and> 0 < run_rate_limit_window_seconds s
     \<and> 0 < max_concurrent_runs s \<and> 0 < run_timeout_seconds s
     \<and> 0 < registry_proxy_timeout_seconds s"

definition fail_closed_on_missing_api_key :: "settings \<Rightarrow> settings result" where
  "fail_closed_on_missing_api_key s =
     (if playground_require_api_key s \<and> playground_api_key s = [] then Inl ValueError
      else if playground_require_api_key s \<and> webhook_secret s = [] then Inl ValueError
      else Inr s)"

definition load_settings :: "settings \<Rightarrow> settings result" where
  "load_settings s =
     (if settings_fields_ok s then fail_closed_on_missing_api_key s else Inl ValidationError)"

definition control_plane_enabled :: "settings \<Rightarrow> bool" where
  "control_plane_enabled s \<longleftrightarrow> control_plane_url s \<noteq> []"

definition receipts_enabled :: "settings \<Rightarrow> bool" where
  "receipts_enabled s \<longleftrightarrow> receipt_signing_seed_b64 s \<noteq> []"

text \<open>
  The receipt key is derived by the SDK: \<open>b64decode\<close> and \<open>from_seed\<close> (the public key of the
  producer the SDK builds from a seed) are parameters.
\<close>

definition receipt_verification_public_key_b64 ::
  "(string \<Rightarrow> 'b result) \<Rightarrow> ('b \<Rightarrow> string \<Rightarrow> string \<Rightarrow> string result) \<Rightarrow> settings
     \<Rightarrow> string option result" where
  "receipt_verification_public_key_b64 b64decode from_seed s =
     (if receipt_signing_seed_b64 s = [] then Inr None
      else rbind (b64decode (receipt_signing_seed_b64 s)) (\<lambda>seed.
           rbind (from_seed seed ''did:web:receipt-probe:agents:r''
                                 ''did:web:receipt-probe:agents:r#k'') (\<lambda>k. Inr (Some k))))"

definition registry_url_for :: "settings \<Rightarrow> string \<Rightarrow> string option" where
  "registry_url_for s authority =
     (if authority = registry_a_authority s then Some (registry_a_url s)
      else if authority = registry_b_authority s then Some (registry_b_url s)
      else None)"

definition authority_url_map :: "settings \<Rightarrow> (string, string) dict" where
  "authority_url_map s =
     AList.update (registry_b_authority s) (registry_b_url s)
       (AList.update (registry_a_authority s) (registry_a_url s) [])"

lemma load_settings_Inr:
  "load_settings s = Inr s' \<longleftrightarrow> s' = s \<and> settings_fields_ok s
     \<and> (playground_require_api_key s \<longrightarrow> playground_api_key s \<noteq> [] \<and> webhook_secret s \<noteq> [])"
  by (auto simp: load_settings_def fail_closed_on_missing_api_key_def)

lemma settings_limits_pos:
  assumes "settings_fields_ok s"
  shows "0 < run_rate_limit_per_ip s" "0 < run_rate_limit_window_seconds s"
    "0 < max_concurrent_runs s"
    "0 < llm_quota_per_ip_per_day s" "0 < llm_quota_per_ip_per_month s"
    "0 < llm_quota_global_per_day s" "0 < llm_quota_global_per_month s"
  using assms by (simp_all add: settings_fields_ok_def)

text \<open>The two routings agree exactly when the two registries have different authorities or one URL.\<close>

lemma registry_url_for_map:
  "map_of (authority_url_map s) authority = registry_url_for s authority
     \<longleftrightarrow> authority \<noteq> registry_a_authority s \<or> registry_a_authority s \<noteq> registry_b_authority s
        \<or> registry_a_url s = registry_b_url s"
  by (auto simp: authority_url_map_def registry_url_for_def)

text \<open>The defaults of the class, for concrete instances.\<close>

definition default_settings :: settings where
  "default_settings = \<lparr>
     registry_a_url = ''http://localhost:8100'', registry_b_url = ''http://localhost:8200'',
     registry_a_authority = ''registry-a.playground.local'',
     registry_b_authority = ''registry-b.playground.local'',
     llm_provider = Openai, llm_model = ''gpt-4o-mini'', openai_api_key = [], anthropic_api_key = [],
     control_plane_url = [], control_plane_hmac_secret = [], control_plane_admin_token = [],
     webhook_secret = ''playground-dev-secret'',
     receipt_signing_seed_b64 = ''9NKlBoCp1saUEzMgFonzReHSPbkEN9ba8NrAyR2TYYY='',
     default_signature_alg = ''ed25519'', tenancy_enabled = False, jwt_signing_alg = ''HS256'',
     playground_api_key = [], playground_require_api_key = False, database_url = [],
     llm_quota_per_ip_per_day = 30, llm_quota_per_ip_per_month = 300,
     llm_quota_global_per_day = 1000, llm_quota_global_per_month = 10000,
     run_rate_limit_per_ip = 5, run_rate_limit_window_seconds = 600, max_concurrent_runs = 3,
     run_timeout_seconds = 600, registry_proxy_timeout_seconds = 10,
     log_format = ''pretty'', log_level = ''INFO''\<rparr>"

lemma default_settings_load: "load_settings default_settings = Inr default_settings"
  by (simp add: load_settings_Inr settings_fields_ok_def default_settings_def)

end
