(* ===== verification/Models.thy ===== *)
theory Models
  imports Runtime
begin

text \<open>
  acdp\_client/models.py: the wire types the registry returns, the error envelope and its code sets,
  the webhook and step events. Pydantic's validation of JSON into these records is third-party code
  and appears as a parameter of the operations that call it; the records hold what the playground
  reads of a validated value. A field's datetime is an instant.
\<close>

section \<open>Contexts\<close>

record signature =
  sig_algorithm :: string
  sig_key_id :: string
  sig_value :: string

record body =
  b_ctx_id :: string
  b_lineage_id :: string
  b_origin_registry :: string
  b_created_at :: real
  b_content_hash :: string
  b_signature :: signature
  b_version :: int
  b_agent_id :: string
  b_title :: string
  b_type :: string
  b_visibility :: string
  b_derived_from :: "string list"
  b_data_refs :: "json list"
  b_contributors :: "string list"
  b_supersedes :: "string option"
  b_audience :: "string list option"
  b_summary :: "string option"

record registry_state =
  rs_status :: string
  rs_lifecycle_events :: "(string, json) dict list option"

definition rs_is_retracted :: "registry_state \<Rightarrow> bool" where
  "rs_is_retracted rs \<longleftrightarrow> rs_status rs = ''retracted''"

record full_context =
  fc_body :: body
  fc_registry_state :: registry_state
  fc_registry_receipt :: "(string, json) dict option"
  fc_lineage_head_receipt :: "(string, json) dict option"

definition fc_is_retracted :: "full_context \<Rightarrow> bool" where
  "fc_is_retracted fc \<longleftrightarrow> rs_is_retracted (fc_registry_state fc)"

record publish_response =
  pr_ctx_id :: string
  pr_lineage_id :: string
  pr_version :: int
  pr_created_at :: real
  pr_status :: string

record search_hit =
  sh_ctx_id :: string
  sh_title :: "string option"
  sh_agent_id :: "string option"
  sh_context_type :: "string option"
  sh_visibility :: "string option"
  sh_lineage_id :: "string option"
  sh_summary :: "string option"

record search_response =
  sr_matches :: "search_hit list"
  sr_total_estimate :: "int option"
  sr_next_cursor :: "string option"

definition sr_results :: "search_response \<Rightarrow> search_hit list" where
  "sr_results r = sr_matches r"

section \<open>The error envelope (RFC-ACDP-0007)\<close>

text \<open>\<^verbatim>\<open>a or b\<close>.\<close>

definition py_or :: "json \<Rightarrow> json \<Rightarrow> json" where
  "py_or a b = (if truthy a then a else b)"

definition parse_error_envelope ::
  "json \<Rightarrow> string option \<times> string \<times> (string, json) dict option" where
  "parse_error_envelope payload =
     (case as_obj payload of
        None \<Rightarrow> (None, [], None)
      | Some p \<Rightarrow>
          (case as_obj (obj_get p ''error'') of
             Some err \<Rightarrow>
               let code = obj_get err ''code'';
                   message = py_or (py_or (obj_get err ''message'') (obj_get err ''detail'')) (JStr []);
                   details = obj_get err ''details''
               in (as_str code, (case as_str message of Some m \<Rightarrow> m | None \<Rightarrow> []), as_obj details)
           | None \<Rightarrow>
               let code = obj_get p ''code'';
                   message = py_or (py_or (obj_get p ''message'') (obj_get p ''detail'')) (JStr [])
               in (as_str code, (case as_str message of Some m \<Rightarrow> m | None \<Rightarrow> []), None)))"

definition CURSOR_ERROR_CODES :: "string list" where
  "CURSOR_ERROR_CODES = [''invalid_cursor'', ''cursor_expired'']"

definition ERROR_CODES :: "string list" where
  "ERROR_CODES =
     [''invalid_signature'', ''unsupported_algorithm'', ''key_resolution_failed'',
      ''key_resolution_unreachable'', ''not_implemented'', ''not_authorized'', ''hash_mismatch'',
      ''data_ref_hash_mismatch'', ''superseded_target'', ''invalid_cursor'', ''cursor_expired'',
      ''immutable_field'', ''invalid_lifecycle_transition'', ''invalid_log_proof'']"

definition LIFECYCLE_ERROR_CODES :: "string list" where
  "LIFECYCLE_ERROR_CODES = [''immutable_field'', ''invalid_lifecycle_transition'']"

definition SIGNATURE_ERROR_CODES :: "string list" where
  "SIGNATURE_ERROR_CODES =
     [''invalid_signature'', ''unsupported_algorithm'', ''key_resolution_failed'',
      ''key_resolution_unreachable'']"

definition SUPERSEDE_REASONS :: "string list" where
  "SUPERSEDE_REASONS =
     [''not_found'', ''version_mismatch'', ''already_superseded'', ''lineage_mismatch'',
      ''lineage_walk_failed'', ''cross_registry_supersession_unsupported'']"

section \<open>Webhook and step events\<close>

definition webhook_types :: "string list" where
  "webhook_types =
     [''context_published'', ''context_retrieved'', ''context_retracted'', ''context_republished'',
      ''search_executed'']"

record webhook_event =
  we_type :: string
  we_agent_id :: "string option"
  we_registry_authority :: "string option"
  we_run_id :: "string option"
  we_ctx_id :: "string option"
  we_lineage_id :: "string option"
  we_context_type :: "string option"
  we_visibility :: "string option"
  we_version :: "int option"
  we_created_at :: "real option"
  we_derived_from :: "string list"
  we_event_id :: "string option"
  we_schema_version :: "string option"
  we_tenant_id :: "string option"
  we_key_fingerprint :: "string option"
  we_registry_receipt :: "(string, json) dict option"
  we_actor :: "string option"
  we_lifecycle_event_id :: "string option"
  we_reason :: "string option"
  we_at :: "real option"

definition step_event_types :: "string list" where
  "step_event_types =
     [''agent.started'', ''llm.thinking'', ''acdp.publish'', ''acdp.retrieve'', ''acdp.search'',
      ''acdp.verify'', ''acdp.retract'', ''acdp.republish'', ''auth.token'', ''auth.revoke'',
      ''policy.check'', ''scenario.note'', ''llm.quota_exceeded'', ''run.started'', ''run.complete'',
      ''run.error'', ''webhook.received'']"

text \<open>The open model keeps extra members: \<open>se_extra\<close> holds those passed as further keywords.\<close>

record step_event =
  se_type :: string
  se_run_id :: string
  se_ts :: string
  se_agent_id :: "string option"
  se_ctx_id :: "string option"
  se_title :: "string option"
  se_derived_from :: "string list"
  se_preview :: "string option"
  se_contexts_produced :: "int option"
  se_lineage_graph :: "json option"
  se_error :: "string option"
  se_status :: "string option"
  se_scenario_id :: "string option"
  se_framework :: "string option"
  se_registry_authority :: "string option"
  se_tenant_id :: "string option"
  se_event_id :: "string option"
  se_key_fingerprint :: "string option"
  se_receipt_present :: "bool option"
  se_extra :: "(string, json) dict"

text \<open>\<^verbatim>\<open>StepEvent(type=..., run_id=..., ts=...)\<close> with every other field at its default.\<close>

definition mk_step_event :: "string \<Rightarrow> string \<Rightarrow> string \<Rightarrow> step_event" where
  "mk_step_event typ run_id ts = \<lparr>
     se_type = typ, se_run_id = run_id, se_ts = ts, se_agent_id = None, se_ctx_id = None,
     se_title = None, se_derived_from = [], se_preview = None, se_contexts_produced = None,
     se_lineage_graph = None, se_error = None, se_status = None, se_scenario_id = None,
     se_framework = None, se_registry_authority = None, se_tenant_id = None, se_event_id = None,
     se_key_fingerprint = None, se_receipt_present = None, se_extra = []\<rparr>"

definition LIFECYCLE_TITLES :: "(string, string) dict" where
  "LIFECYCLE_TITLES =
     [(''context_retracted'', ''Context retracted''),
      (''context_republished'', ''Context republished'')]"

definition webhook_kinds :: "(string, string) dict" where
  "webhook_kinds =
     [(''context_published'', ''acdp.publish''), (''context_retrieved'', ''acdp.retrieve''),
      (''context_retracted'', ''acdp.retract''), (''context_republished'', ''acdp.republish''),
      (''search_executed'', ''acdp.search'')]"

definition from_webhook :: "string \<Rightarrow> string \<Rightarrow> webhook_event \<Rightarrow> step_event" where
  "from_webhook run_id ts event =
     (let kind = dict_get_default webhook_kinds (we_type event) ''webhook.received'' in
      (mk_step_event kind run_id ts)\<lparr>
        se_agent_id := we_agent_id event,
        se_ctx_id := we_ctx_id event,
        se_derived_from := we_derived_from event,
        se_title := map_of LIFECYCLE_TITLES (we_type event),
        se_preview := we_reason event,
        se_registry_authority := we_registry_authority event,
        se_tenant_id := we_tenant_id event,
        se_event_id := we_event_id event,
        se_key_fingerprint := we_key_fingerprint event,
        se_receipt_present :=
          (if kind = ''acdp.publish'' then Some (we_registry_receipt event \<noteq> None) else None)\<rparr>)"

section \<open>Lemmas\<close>

lemma webhook_kinds_dom: "map fst webhook_kinds = webhook_types"
  by (simp add: webhook_kinds_def webhook_types_def)

lemma webhook_kinds_range: "set (map snd webhook_kinds) \<subseteq> set step_event_types"
  by (simp add: webhook_kinds_def step_event_types_def)

text \<open>Which kind each accepted type gets, in the order of the table.\<close>

lemma from_webhook_type:
  "se_type (from_webhook run_id ts e) = dict_get_default webhook_kinds (we_type e) ''webhook.received''"
  by (simp add: from_webhook_def Let_def mk_step_event_def)

lemma from_webhook_mapped:
  "we_type e \<in> set webhook_types \<Longrightarrow> (we_type e, se_type (from_webhook run_id ts e)) \<in> set webhook_kinds"
  unfolding from_webhook_type by (auto simp: webhook_types_def webhook_kinds_def dict_get_default_def)

lemma parse_error_envelope_code:
  "fst (parse_error_envelope p) = Some c \<Longrightarrow>
     \<exists>kvs. p = JObj kvs \<and>
       (obj_get kvs ''code'' = JStr c \<or> (\<exists>err. obj_get kvs ''error'' = JObj err \<and> obj_get err ''code'' = JStr c))"
  by (auto simp: parse_error_envelope_def Let_def split: option.splits)

section \<open>Properties\<close>

text \<open>
  Webhook events become step events faithfully. Every type that passes validation is mapped to
  a member of \<^verbatim>\<open>StepEventType\<close> other than the generic fallback; the de-duplication id is the envelope's \<^verbatim>\<open>event_id\<close>, whatever the lifecycle event id is;
  \<^verbatim>\<open>receipt_present\<close> is set exactly on publish events and then says whether a receipt came along; an
  unmapped type degrades to \<^verbatim>\<open>webhook.received\<close>.
\<close>

theorem from_webhook_faithful:
  "let st = from_webhook run_id ts e in
     se_run_id st = run_id \<and> se_event_id st = we_event_id e \<and> se_tenant_id st = we_tenant_id e
     \<and> se_ctx_id st = we_ctx_id e \<and> se_type st \<in> set step_event_types
     \<and> (se_type st = ''webhook.received'' \<longleftrightarrow> we_type e \<notin> set webhook_types)
     \<and> (se_receipt_present st \<noteq> None \<longleftrightarrow> we_type e = ''context_published'')
     \<and> (se_receipt_present st = Some True \<longleftrightarrow>
          we_type e = ''context_published'' \<and> we_registry_receipt e \<noteq> None)
     \<and> (se_title st \<noteq> None \<longleftrightarrow> we_type e \<in> {''context_retracted'', ''context_republished''})"
  by (auto simp: Let_def from_webhook_def mk_step_event_def webhook_kinds_def webhook_types_def
      step_event_types_def LIFECYCLE_TITLES_def dict_get_default_def)

text \<open>
  The normative error envelope is read exactly: for \<^verbatim>\<open>{"error": {"code", "message", "details"}}\<close>
  the code, the non-empty message and the details come back as sent, also when legacy members stand
  beside it; the flat legacy spelling gives code and message but never details; a payload that is
  not an object gives nothing.
\<close>

theorem error_envelope_normative:
  "parse_error_envelope (JObj (AList.update ''error''
       (JObj [(''code'', JStr c), (''message'', JStr (x # m)), (''details'', JObj d)]) rest))
     = (Some c, x # m, Some d)
   \<and> snd (snd (parse_error_envelope (JObj (AList.update ''error'' (JStr t) rest)))) = None
   \<and> parse_error_envelope (JObj [(''code'', JStr c), (''detail'', JStr (x # m))]) = (Some c, x # m, None)
   \<and> parse_error_envelope (JList js) = (None, [], None)"
  by (simp add: parse_error_envelope_def Let_def obj_get_def dict_get_default_def py_or_def)

end
