(* ===== verification/Quota.thy ===== *)
theory Quota
  imports Config Models
begin

text \<open>
  playground/quota.py: the four LLM-call counters, the in-memory and the Postgres store behind one
  contract, the per-run quota context, the fail-closed check and the guarded model.

  The Postgres store is a table and a flag saying whether the pool is open; asyncpg is third-party,
  so every database operation may fail with an exception the caller supplies (\<open>db_fault\<close>), including
  a commit whose acknowledgement is lost. Each \<^verbatim>\<open>consume\<close> is one step: the memory store holds its
  lock, the database transaction is serialised by its row locks.
\<close>

section \<open>Calendar dates\<close>

record date =
  d_year :: int
  d_month :: int
  d_day :: int

definition is_leap :: "int \<Rightarrow> bool" where
  "is_leap y \<longleftrightarrow> y mod 4 = 0 \<and> (y mod 100 \<noteq> 0 \<or> y mod 400 = 0)"

definition days_in_month :: "int \<Rightarrow> int \<Rightarrow> int" where
  "days_in_month y m =
     (if m = 2 then (if is_leap y then 29 else 28) else if m \<in> {4, 6, 9, 11} then 30 else 31)"

definition valid_date :: "date \<Rightarrow> bool" where
  "valid_date d \<longleftrightarrow> 1 \<le> d_year d \<and> d_year d \<le> 9999 \<and> 1 \<le> d_month d \<and> d_month d \<le> 12
     \<and> 1 \<le> d_day d \<and> d_day d \<le> days_in_month (d_year d) (d_month d)"

definition date_less :: "date \<Rightarrow> date \<Rightarrow> bool" where
  "date_less a b \<longleftrightarrow> d_year a < d_year b \<or> d_year a = d_year b \<and>
     (d_month a < d_month b \<or> d_month a = d_month b \<and> d_day a < d_day b)"

text \<open>\<^verbatim>\<open>date(y, m, d)\<close> refuses a year past 9999.\<close>

definition mk_date :: "int \<Rightarrow> int \<Rightarrow> int \<Rightarrow> date result" where
  "mk_date y m d =
     (let x = \<lparr>d_year = y, d_month = m, d_day = d\<rparr> in if valid_date x then Inr x else Inl ValueError)"

text \<open>\<^verbatim>\<open>d + timedelta(days=1)\<close>, which overflows after the last representable day.\<close>

definition next_day :: "date \<Rightarrow> date result" where
  "next_day d =
     (if d_day d < days_in_month (d_year d) (d_month d) then Inr (d\<lparr>d_day := d_day d + 1\<rparr>)
      else if d_month d < 12 then Inr \<lparr>d_year = d_year d, d_month = d_month d + 1, d_day = 1\<rparr>
      else if d_year d < 9999 then Inr \<lparr>d_year = d_year d + 1, d_month = 1, d_day = 1\<rparr>
      else Inl OverflowError)"

definition prev_day :: "date \<Rightarrow> date" where
  "prev_day d =
     (if 1 < d_day d then d\<lparr>d_day := d_day d - 1\<rparr>
      else if 1 < d_month d
      then \<lparr>d_year = d_year d, d_month = d_month d - 1,
            d_day = days_in_month (d_year d) (d_month d - 1)\<rparr>
      else \<lparr>d_year = d_year d - 1, d_month = 12, d_day = 31\<rparr>)"

definition first_of_month :: "date \<Rightarrow> date" where
  "first_of_month d = d\<lparr>d_day := 1\<rparr>"

definition next_month :: "date \<Rightarrow> date result" where
  "next_month d =
     mk_date (d_year d + (if d_month d = 12 then 1 else 0)) (d_month d mod 12 + 1) 1"

text \<open>The text of a number in at least \<open>w\<close> digits.\<close>

fun dec_digits :: "nat \<Rightarrow> nat \<Rightarrow> string" where
  "dec_digits 0 n = []"
| "dec_digits (Suc w) n = dec_digits w (n div 10) @ [char_of (48 + n mod 10)]"

text \<open>
  \<^verbatim>\<open>datetime.combine(d, time(), UTC).isoformat().replace("+00:00", "Z")\<close>.
\<close>

definition midnight_rfc3339 :: "date \<Rightarrow> string" where
  "midnight_rfc3339 d =
     dec_digits 4 (nat (d_year d)) @ ''-'' @ dec_digits 2 (nat (d_month d)) @ ''-''
       @ dec_digits 2 (nat (d_day d)) @ ''T00:00:00Z''"

section \<open>Counters\<close>

record quota_denial =
  qd_quota :: string
  qd_limit :: "int option"
  qd_resets_at :: "string option"

type_synonym counter_key = "string \<times> string \<times> date"

text \<open>\<open>c_resets_at\<close> is the day at whose midnight (UTC) the counter starts again.\<close>

record counter =
  c_quota :: string
  c_scope :: string
  c_subject :: string
  c_window_start :: date
  c_limit :: int
  c_resets_at :: date

definition c_key :: "counter \<Rightarrow> counter_key" where
  "c_key c = (c_scope c, c_subject c, c_window_start c)"

definition GLOBAL_SUBJECT :: string where
  "GLOBAL_SUBJECT = ''*''"

definition counters_for :: "string option \<Rightarrow> settings \<Rightarrow> date \<Rightarrow> counter list result" where
  "counters_for ip s today =
     (let month = first_of_month today in
      rbind (next_day today) (\<lambda>day_reset.
      rbind (next_month month) (\<lambda>month_reset.
      Inr ([\<lparr>c_quota = ''global_daily'', c_scope = ''global_day'', c_subject = GLOBAL_SUBJECT,
              c_window_start = today, c_limit = llm_quota_global_per_day s, c_resets_at = day_reset\<rparr>,
            \<lparr>c_quota = ''global_monthly'', c_scope = ''global_month'', c_subject = GLOBAL_SUBJECT,
              c_window_start = month, c_limit = llm_quota_global_per_month s,
              c_resets_at = month_reset\<rparr>]
           @ (case ip of
                None \<Rightarrow> []
              | Some i \<Rightarrow>
                  [\<lparr>c_quota = ''per_ip_daily'', c_scope = ''ip_day'', c_subject = i,
                     c_window_start = today, c_limit = llm_quota_per_ip_per_day s,
                     c_resets_at = day_reset\<rparr>,
                   \<lparr>c_quota = ''per_ip_monthly'', c_scope = ''ip_month'', c_subject = i,
                     c_window_start = month, c_limit = llm_quota_per_ip_per_month s,
                     c_resets_at = month_reset\<rparr>])))))"

definition deny :: "counter \<Rightarrow> quota_denial" where
  "deny c = \<lparr>qd_quota = c_quota c, qd_limit = Some (c_limit c),
             qd_resets_at = Some (midnight_rfc3339 (c_resets_at c))\<rparr>"

definition denial_as_dict :: "quota_denial \<Rightarrow> json" where
  "denial_as_dict d = JObj
     [(''quota'', JStr (qd_quota d)),
      (''limit'', case qd_limit d of None \<Rightarrow> JNull | Some l \<Rightarrow> JInt l),
      (''resets_at'', case qd_resets_at d of None \<Rightarrow> JNull | Some r \<Rightarrow> JStr r)]"

section \<open>The memory store\<close>

type_synonym counts = "(counter_key, int) dict"

definition count_of :: "counts \<Rightarrow> counter_key \<Rightarrow> int" where
  "count_of d k = dict_get_default d k 0"

definition bump :: "counter \<Rightarrow> counts \<Rightarrow> counts" where
  "bump c d = AList.update (c_key c) (count_of d (c_key c) + 1) d"

definition memory_consume :: "counts \<Rightarrow> counter list \<Rightarrow> counts \<times> quota_denial option result" where
  "memory_consume d cs =
     (case find (\<lambda>c. count_of d (c_key c) \<ge> c_limit c) cs of
        Some c \<Rightarrow> (d, Inr (Some (deny c)))
      | None \<Rightarrow> (fold bump cs d, Inr None))"

section \<open>The Postgres store\<close>

text \<open>
  The database operations that may fail, in the order a \<^verbatim>\<open>consume\<close> performs them. \<open>Commit_ack\<close> is a
  failure after the server has committed.
\<close>

datatype db_op = Create_pool | Schema | Prune | Begin | Upsert nat | Commit | Commit_ack

type_synonym db_fault = "db_op \<Rightarrow> exn option"

record pg_store =
  pg_rows :: counts
  pg_pool :: bool

definition prune_cutoff :: "date \<Rightarrow> date" where
  "prune_cutoff today = (prev_day ^^ 62) (first_of_month today)"

definition prune_rows :: "date \<Rightarrow> counts \<Rightarrow> counts" where
  "prune_rows cutoff rows = filter (\<lambda>(k, n). \<not> date_less (snd (snd k)) cutoff) rows"

definition get_pool :: "db_fault \<Rightarrow> date \<Rightarrow> pg_store \<Rightarrow> pg_store \<times> unit result" where
  "get_pool flt today st =
     (if pg_pool st then (st, Inr ())
      else case flt Create_pool of Some e \<Rightarrow> (st, Inl e) | None \<Rightarrow>
      case flt Schema of Some e \<Rightarrow> (st, Inl e) | None \<Rightarrow>
      case flt Prune of Some e \<Rightarrow> (st, Inl e) | None \<Rightarrow>
      (st\<lparr>pg_rows := prune_rows (prune_cutoff today) (pg_rows st), pg_pool := True\<rparr>, Inr ()))"

text \<open>
  The loop inside the transaction: the rows as the transaction sees them, or the counter over its
  limit (\<open>Inr (Inl c)\<close>), or a database error.
\<close>

fun upsert_all :: "db_fault \<Rightarrow> nat \<Rightarrow> counter list \<Rightarrow> counts \<Rightarrow> (counter + counts) result" where
  "upsert_all flt i [] rows = Inr (Inr rows)"
| "upsert_all flt i (c # cs) rows =
     (case flt (Upsert i) of
        Some e \<Rightarrow> Inl e
      | None \<Rightarrow>
          let rows' = bump c rows in
          if count_of rows' (c_key c) > c_limit c then Inr (Inl c)
          else upsert_all flt (Suc i) cs rows')"

definition pg_transaction ::
  "db_fault \<Rightarrow> pg_store \<Rightarrow> counter list \<Rightarrow> pg_store \<times> quota_denial option result" where
  "pg_transaction flt st cs =
     (case flt Begin of Some e \<Rightarrow> (st, Inl e) | None \<Rightarrow>
      case upsert_all flt 0 cs (pg_rows st) of
        Inl e \<Rightarrow> (st, Inl e)
      | Inr (Inl c) \<Rightarrow> (st, Inr (Some (deny c)))
      | Inr (Inr rows) \<Rightarrow>
          (case flt Commit of Some e \<Rightarrow> (st, Inl e) | None \<Rightarrow>
           case flt Commit_ack of
             Some e \<Rightarrow> (st\<lparr>pg_rows := rows\<rparr>, Inl e)
           | None \<Rightarrow> (st\<lparr>pg_rows := rows\<rparr>, Inr None)))"

definition postgres_consume ::
  "db_fault \<times> date \<Rightarrow> pg_store \<Rightarrow> counter list \<Rightarrow> pg_store \<times> quota_denial option result" where
  "postgres_consume x st cs =
     (case get_pool (fst x) (snd x) st of
        (st', Inl e) \<Rightarrow> (st', Inl e)
      | (st', Inr _) \<Rightarrow> pg_transaction (fst x) st' cs)"

definition postgres_aclose :: "pg_store \<Rightarrow> pg_store" where
  "postgres_aclose st = st\<lparr>pg_pool := False\<rparr>"

section \<open>The process-wide store\<close>

datatype store_obj = MemoryQuotaStore counts | PostgresQuotaStore bool

text \<open>\<open>qs_db\<close> is the table, which outlives the store object; \<open>qs_store\<close> the module's \<^verbatim>\<open>_store\<close>.\<close>

record quota_state =
  qs_db :: counts
  qs_store :: "store_obj option"

text \<open>
  The circumstances of one call: the UTC date, its timestamp text, the failures of the database, and
  an exception that reaches the memory store while it waits for its lock. A missed deadline of
  \<^verbatim>\<open>wait_for\<close> is a \<open>TimeoutError\<close> at the point the call had reached.
\<close>

record call_env =
  ce_today :: date
  ce_ts :: string
  ce_fault :: db_fault
  ce_lock :: "exn option"

definition get_quota_store :: "settings \<Rightarrow> quota_state \<Rightarrow> quota_state" where
  "get_quota_store s q =
     (case qs_store q of
        Some _ \<Rightarrow> q
      | None \<Rightarrow> q\<lparr>qs_store := Some (if database_url s \<noteq> [] then PostgresQuotaStore False
                                     else MemoryQuotaStore [])\<rparr>)"

definition reset_quota_store :: "quota_state \<Rightarrow> quota_state" where
  "reset_quota_store q = q\<lparr>qs_store := None\<rparr>"

definition locked_memory_consume ::
  "exn option \<Rightarrow> counts \<Rightarrow> counter list \<Rightarrow> counts \<times> quota_denial option result" where
  "locked_memory_consume lock d cs =
     (case lock of Some e \<Rightarrow> (d, Inl e) | None \<Rightarrow> memory_consume d cs)"

definition store_consume ::
  "settings \<Rightarrow> call_env \<Rightarrow> quota_state \<Rightarrow> counter list \<Rightarrow> quota_state \<times> quota_denial option result" where
  "store_consume s env q cs =
     (let q = get_quota_store s q in
      case qs_store q of
        None \<Rightarrow> (q, Inl AttributeError)
      | Some (MemoryQuotaStore d) \<Rightarrow>
          (case locked_memory_consume (ce_lock env) d cs of
             (d', r) \<Rightarrow> (q\<lparr>qs_store := Some (MemoryQuotaStore d')\<rparr>, r))
      | Some (PostgresQuotaStore pool) \<Rightarrow>
          (case postgres_consume (ce_fault env, ce_today env) \<lparr>pg_rows = qs_db q, pg_pool = pool\<rparr> cs of
             (st, r) \<Rightarrow> (q\<lparr>qs_db := pg_rows st, qs_store := Some (PostgresQuotaStore (pg_pool st))\<rparr>, r)))"

section \<open>The run's quota context and the guarded model\<close>

record quota_ctx =
  qc_run_id :: string
  qc_events :: "step_event list option"
  qc_client_ip :: "string option"
  qc_denials :: "quota_denial list"

definition quota_summary :: "quota_ctx \<Rightarrow> (string, json) dict" where
  "quota_summary ctx =
     (case qc_denials ctx of
        [] \<Rightarrow> []
      | first # _ \<Rightarrow>
          [(''llm_quota_exceeded'', JBool True), (''llm_quota'', denial_as_dict first),
           (''llm_calls_on_mock'', JInt (int (length (qc_denials ctx))))])"

definition store_unavailable :: quota_denial where
  "store_unavailable = \<lparr>qd_quota = ''quota_store_unavailable'', qd_limit = None, qd_resets_at = None\<rparr>"

definition quota_event :: "quota_ctx \<Rightarrow> string \<Rightarrow> quota_denial \<Rightarrow> step_event" where
  "quota_event ctx ts d = (mk_step_event ''llm.quota_exceeded'' (qc_run_id ctx) ts)\<lparr>
     se_error := Some (''LLM quota exceeded ('' @ qd_quota d @ ''); this run continues on the mock LLM''),
     se_extra := [(''llm_quota_exceeded'', JBool True), (''quota'', JStr (qd_quota d)),
       (''limit'', case qd_limit d of None \<Rightarrow> JNull | Some l \<Rightarrow> JInt l),
       (''resets_at'', case qd_resets_at d of None \<Rightarrow> JNull | Some r \<Rightarrow> JStr r)]\<rparr>"

definition note_denial :: "string \<Rightarrow> quota_denial \<Rightarrow> quota_ctx \<Rightarrow> quota_ctx" where
  "note_denial ts d ctx =
     ctx\<lparr>qc_denials := qc_denials ctx @ [d],
         qc_events := (if qc_denials ctx = []
                       then map_option (\<lambda>q. q @ [quota_event ctx ts d]) (qc_events ctx)
                       else qc_events ctx)\<rparr>"

definition check_llm_quota ::
  "settings \<Rightarrow> call_env \<Rightarrow> quota_state \<Rightarrow> quota_ctx option
     \<Rightarrow> quota_state \<times> quota_ctx option \<times> quota_denial option result" where
  "check_llm_quota s env q ctx =
     (case counters_for (Option.bind ctx qc_client_ip) s (ce_today env) of
        Inl e \<Rightarrow> (q, ctx, Inl e)
      | Inr cs \<Rightarrow>
          (case store_consume s env q cs of
             (q', Inr None) \<Rightarrow> (q', ctx, Inr None)
           | (q', Inr (Some d)) \<Rightarrow> (q', map_option (note_denial (ce_ts env) d) ctx, Inr (Some d))
           | (q', Inl e) \<Rightarrow>
               if is_Exception e
               then (q', map_option (note_denial (ce_ts env) store_unavailable) ctx,
                     Inr (Some store_unavailable))
               else (q', ctx, Inl e)))"

datatype model = Inner | Fallback

text \<open>
  \<^verbatim>\<open>QuotaGuardedLLM.ainvoke\<close>. The two chat models are parameters; the answer carries which of them
  was asked.
\<close>

definition guarded_ainvoke ::
  "settings \<Rightarrow> call_env \<Rightarrow> (model \<Rightarrow> 'p \<Rightarrow> 'r result) \<Rightarrow> quota_state \<Rightarrow> quota_ctx option \<Rightarrow> 'p
     \<Rightarrow> quota_state \<times> quota_ctx option \<times> model option \<times> 'r result" where
  "guarded_ainvoke s env llm q ctx prompt =
     (case check_llm_quota s env q ctx of
        (q', ctx', Inl e) \<Rightarrow> (q', ctx', None, Inl e)
      | (q', ctx', Inr (Some d)) \<Rightarrow> (q', ctx', Some Fallback, llm Fallback prompt)
      | (q', ctx', Inr None) \<Rightarrow> (q', ctx', Some Inner, llm Inner prompt))"

section \<open>The contract of a store\<close>

text \<open>
  \<open>live x k\<close> says that counter \<open>k\<close> is not old enough to be dropped under the circumstances \<open>x\<close>.
\<close>

locale quota_store =
  fixes consume :: "'x \<Rightarrow> 's \<Rightarrow> counter list \<Rightarrow> 's \<times> quota_denial option result"
    and count :: "'s \<Rightarrow> counter_key \<Rightarrow> int"
    and live :: "'x \<Rightarrow> counter_key \<Rightarrow> bool"
  assumes granted: "consume x s cs = (s', Inr None) \<Longrightarrow> distinct (map c_key cs) \<Longrightarrow> live x k
      \<Longrightarrow> count s' k = count s k + (if k \<in> c_key ` set cs then 1 else 0)"
    and granted_limit: "consume x s cs = (s', Inr None) \<Longrightarrow> distinct (map c_key cs)
      \<Longrightarrow> c \<in> set cs \<Longrightarrow> live x (c_key c) \<Longrightarrow> count s' (c_key c) \<le> c_limit c"
    and denied: "consume x s cs = (s', Inr (Some d)) \<Longrightarrow> distinct (map c_key cs) \<Longrightarrow> live x k
      \<Longrightarrow> count s' k = count s k"
    and denied_full: "consume x s cs = (s', Inr (Some d)) \<Longrightarrow> distinct (map c_key cs)
      \<Longrightarrow> \<exists>c \<in> set cs. d = deny c \<and> (live x (c_key c) \<longrightarrow> c_limit c \<le> count s (c_key c))"
    and failed: "consume x s cs = (s', Inl e) \<Longrightarrow> distinct (map c_key cs) \<Longrightarrow> live x k
      \<Longrightarrow> count s' k = count s k
        \<or> (\<exists>c \<in> set cs. c_key c = k \<and> count s' k = count s k + 1 \<and> count s' k \<le> c_limit c)"
begin

text \<open>A sequence of calls: the store at the end and, per call, the keys it was granted.\<close>

fun consume_run :: "'s \<Rightarrow> ('x \<times> counter list) list \<Rightarrow> 's \<times> counter_key list list" where
  "consume_run s [] = (s, [])"
| "consume_run s ((x, cs) # evs) =
     (case consume x s cs of (s1, r) \<Rightarrow>
      case consume_run s1 evs of (s2, grants) \<Rightarrow>
        (s2, (if r = Inr None then map c_key cs else []) # grants))"

lemma consume_step:
  assumes "consume x s cs = (s1, r)" "distinct (map c_key cs)" "live x k"
    and "\<And>c. c \<in> set cs \<Longrightarrow> c_key c = k \<Longrightarrow> c_limit c \<le> L" "count s k \<le> L"
  shows "count s1 k \<le> L \<and> count s k + (if r = Inr None \<and> k \<in> c_key ` set cs then 1 else 0) \<le> count s1 k"
proof (cases r)
  case (Inl e)
  with failed[of x s cs s1 e k] assms show ?thesis by fastforce
next
  case (Inr d)
  show ?thesis
  proof (cases d)
    case None
    with Inr assms(1) have ok: "consume x s cs = (s1, Inr None)" by simp
    show ?thesis
    proof (cases "k \<in> c_key ` set cs")
      case True
      then obtain c where c: "c \<in> set cs" "k = c_key c" by auto
      with granted_limit[OF ok assms(2) c(1)] assms(3,4) have "count s1 k \<le> L" by fastforce
      with granted[OF ok assms(2,3)] show ?thesis by simp
    next
      case False
      with granted[OF ok assms(2,3)] assms(5) show ?thesis by simp
    qed
  next
    case (Some y)
    with Inr assms(1) have "consume x s cs = (s1, Inr (Some y))" by simp
    from denied[OF this assms(2,3)] assms(5) Inr Some show ?thesis by simp
  qed
qed

lemma consume_run_bound:
  assumes "consume_run s evs = (s', grants)"
    and "\<And>x cs. (x, cs) \<in> set evs \<Longrightarrow> distinct (map c_key cs) \<and> live x k"
    and "\<And>x cs c. (x, cs) \<in> set evs \<Longrightarrow> c \<in> set cs \<Longrightarrow> c_key c = k \<Longrightarrow> c_limit c \<le> L"
    and "count s k \<le> L"
  shows "count s' k \<le> L \<and> count s k + int (length (filter (\<lambda>ks. k \<in> set ks) grants)) \<le> count s' k"
  using assms
proof (induction evs arbitrary: s grants)
  case Nil
  then show ?case by simp
next
  case (Cons ev evs)
  obtain x cs where ev: "ev = (x, cs)" by (cases ev)
  obtain s1 r where c: "consume x s cs = (s1, r)" by (cases "consume x s cs")
  obtain s2 grants2 where rest: "consume_run s1 evs = (s2, grants2)" by (cases "consume_run s1 evs")
  have grants: "s' = s2" "grants = (if r = Inr None then map c_key cs else []) # grants2"
    using Cons.prems(1) ev c rest by auto
  have mem: "(x, cs) \<in> set (ev # evs)" using ev by simp
  have step: "count s1 k \<le> L
      \<and> count s k + (if r = Inr None \<and> k \<in> c_key ` set cs then 1 else 0) \<le> count s1 k"
    using Cons.prems(2)[OF mem] Cons.prems(3)[OF mem] Cons.prems(4)
    by (intro consume_step[OF c]) auto
  have "count s' k \<le> L \<and> count s1 k + int (length (filter (\<lambda>ks. k \<in> set ks) grants2)) \<le> count s' k"
  proof (rule Cons.IH[OF rest[folded grants(1)]])
    show "distinct (map c_key cs) \<and> live x k" if "(x, cs) \<in> set evs" for x cs
      by (rule Cons.prems(2)) (use that in simp)
    show "c_limit c \<le> L" if "(x, cs) \<in> set evs" "c \<in> set cs" "c_key c = k" for x cs c
      by (rule Cons.prems(3)[of x, OF _ that(2,3)]) (use that(1) in simp)
  qed (use step in simp)
  with step grants show ?case by auto
qed

end

section \<open>The stores keep the contract\<close>

lemma count_of_bump: "count_of (bump c d) k = count_of d k + (if k = c_key c then 1 else 0)"
  by (simp add: bump_def count_of_def dict_get_default_def)

lemma count_of_bumps:
  "distinct (map c_key cs) \<Longrightarrow>
     count_of (fold bump cs d) k = count_of d k + (if k \<in> c_key ` set cs then 1 else 0)"
  by (induction cs arbitrary: d) (auto simp: count_of_bump)

interpretation memory_store:
  quota_store locked_memory_consume count_of "\<lambda>lock k. True"
proof
  fix x and s s' :: counts and cs k c d e
  show "locked_memory_consume x s cs = (s', Inr None) \<Longrightarrow> distinct (map c_key cs)
      \<Longrightarrow> count_of s' k = count_of s k + (if k \<in> c_key ` set cs then 1 else 0)"
    by (auto simp: locked_memory_consume_def memory_consume_def count_of_bumps split: option.splits)
  show "locked_memory_consume x s cs = (s', Inr None) \<Longrightarrow> distinct (map c_key cs)
      \<Longrightarrow> c \<in> set cs \<Longrightarrow> count_of s' (c_key c) \<le> c_limit c"
    by (auto simp: locked_memory_consume_def memory_consume_def count_of_bumps find_None_iff
        split: option.splits)
  show "locked_memory_consume x s cs = (s', Inr (Some d)) \<Longrightarrow> distinct (map c_key cs)
      \<Longrightarrow> count_of s' k = count_of s k"
    by (auto simp: locked_memory_consume_def memory_consume_def split: option.splits)
  show "locked_memory_consume x s cs = (s', Inr (Some d)) \<Longrightarrow> distinct (map c_key cs)
      \<Longrightarrow> \<exists>c \<in> set cs. d = deny c \<and> (True \<longrightarrow> c_limit c \<le> count_of s (c_key c))"
    by (auto simp: locked_memory_consume_def memory_consume_def find_Some_iff split: option.splits)
  show "locked_memory_consume x s cs = (s', Inl e) \<Longrightarrow> distinct (map c_key cs)
      \<Longrightarrow> count_of s' k = count_of s k
        \<or> (\<exists>c \<in> set cs. c_key c = k \<and> count_of s' k = count_of s k + 1 \<and> count_of s' k \<le> c_limit c)"
    by (auto simp: locked_memory_consume_def memory_consume_def split: option.splits)
qed

text \<open>The transaction's loop charges everything or meets the first counter that is full.\<close>

lemma upsert_all_done:
  "upsert_all flt i cs rows = Inr (Inr rows') \<Longrightarrow> rows' = fold bump cs rows"
  by (induction flt i cs rows rule: upsert_all.induct) (auto simp: Let_def split: option.splits if_splits)

lemma upsert_all_limits:
  "upsert_all flt i cs rows = Inr (Inr rows') \<Longrightarrow> distinct (map c_key cs) \<Longrightarrow> c \<in> set cs
     \<Longrightarrow> count_of rows (c_key c) < c_limit c"
proof (induction flt i cs rows rule: upsert_all.induct)
  case (2 flt i a cs rows)
  then show ?case
    by (cases "c = a") (auto simp: Let_def count_of_bump split: option.splits if_splits)
qed simp

lemma upsert_all_over:
  "upsert_all flt i cs rows = Inr (Inl c) \<Longrightarrow> distinct (map c_key cs)
     \<Longrightarrow> c \<in> set cs \<and> c_limit c \<le> count_of rows (c_key c)"
proof (induction flt i cs rows rule: upsert_all.induct)
  case (2 flt i a cs rows)
  have "c \<in> set cs \<Longrightarrow> c_key c \<noteq> c_key a"
    using 2(3) by (rule distinct_map_Cons_neq)
  with 2 show ?case
    by (auto simp: Let_def count_of_bump split: option.splits if_splits)
qed simp

lemma count_of_prune:
  "\<not> date_less (snd (snd k)) cutoff \<Longrightarrow> count_of (prune_rows cutoff rows) k = count_of rows k"
  unfolding count_of_def dict_get_default_def prune_rows_def
  by (induction rows) auto

definition pg_count :: "pg_store \<Rightarrow> counter_key \<Rightarrow> int" where
  "pg_count st k = count_of (pg_rows st) k"

definition pg_live :: "db_fault \<times> date \<Rightarrow> counter_key \<Rightarrow> bool" where
  "pg_live x k \<longleftrightarrow> \<not> date_less (snd (snd k)) (prune_cutoff (snd x))"

lemma get_pool_count:
  "get_pool (fst x) (snd x) st = (st', r) \<Longrightarrow> pg_live x k \<Longrightarrow> pg_count st' k = pg_count st k"
  by (auto simp: get_pool_def pg_live_def pg_count_def count_of_prune split: if_splits option.splits)

lemma pg_transaction_cases:
  assumes "pg_transaction flt st cs = (st', r)" "distinct (map c_key cs)"
  obtains (unchanged) e where "st' = st" "r = Inl e"
    | (over) c where "st' = st" "r = Inr (Some (deny c))" "c \<in> set cs"
        "c_limit c \<le> pg_count st (c_key c)"
    | (charged) "r \<in> {Inr None} \<union> range Inl" "pg_rows st' = fold bump cs (pg_rows st)"
        "\<And>c. c \<in> set cs \<Longrightarrow> pg_count st (c_key c) < c_limit c"
proof (cases "upsert_all flt 0 cs (pg_rows st)")
  case (Inl e)
  with assms(1) unchanged show thesis
    by (auto simp: pg_transaction_def split: option.splits)
next
  case (Inr u)
  show thesis
  proof (cases u)
    case (Inl c)
    with Inr have up: "upsert_all flt 0 cs (pg_rows st) = Inr (Inl c)" by simp
    from upsert_all_over[OF up assms(2)] up assms(1) unchanged over show thesis
      by (auto simp: pg_transaction_def pg_count_def split: option.splits)
  next
    case (Inr rows)
    with \<open>upsert_all flt 0 cs (pg_rows st) = Inr u\<close>
    have up: "upsert_all flt 0 cs (pg_rows st) = Inr (Inr rows)" by simp
    from upsert_all_done[OF up] upsert_all_limits[OF up assms(2)] up assms(1) unchanged charged
    show thesis
      by (auto simp: pg_transaction_def pg_count_def split: option.splits)
  qed
qed

lemma postgres_consume_cases:
  assumes "postgres_consume x st cs = (st', r)" "distinct (map c_key cs)"
  obtains (unchanged) e where "\<And>k. pg_live x k \<Longrightarrow> pg_count st' k = pg_count st k" "r = Inl e"
    | (over) c where "\<And>k. pg_live x k \<Longrightarrow> pg_count st' k = pg_count st k" "r = Inr (Some (deny c))"
        "c \<in> set cs" "pg_live x (c_key c) \<Longrightarrow> c_limit c \<le> pg_count st (c_key c)"
    | (charged) "r \<in> {Inr None} \<union> range Inl"
        "\<And>k. pg_live x k \<Longrightarrow>
          pg_count st' k = pg_count st k + (if k \<in> c_key ` set cs then 1 else 0)"
        "\<And>c. c \<in> set cs \<Longrightarrow> pg_live x (c_key c) \<Longrightarrow> pg_count st (c_key c) < c_limit c"
proof -
  obtain st1 r1 where g: "get_pool (fst x) (snd x) st = (st1, r1)"
    by (cases "get_pool (fst x) (snd x) st")
  note keep = get_pool_count[OF g]
  show thesis
  proof (cases r1)
    case (Inl e)
    with g assms(1) keep unchanged show thesis by (auto simp: postgres_consume_def)
  next
    case (Inr u)
    with g assms(1) have "pg_transaction (fst x) st1 cs = (st', r)"
      by (simp add: postgres_consume_def)
    from this assms(2) show thesis
    proof (cases rule: pg_transaction_cases)
      case unchanged
      with keep that(1) show ?thesis by blast
    next
      case over
      with keep that(2) show ?thesis by metis
    next
      case charged
      have "pg_count st' k = pg_count st k + (if k \<in> c_key ` set cs then 1 else 0)"
        if "pg_live x k" for k
        using charged(2) keep[OF that] count_of_bumps[OF assms(2)] by (simp add: pg_count_def)
      with charged keep that(3) show ?thesis by metis
    qed
  qed
qed

interpretation postgres_store: quota_store postgres_consume pg_count pg_live
proof
  fix x and s s' :: pg_store and cs k c d e
  show "postgres_consume x s cs = (s', Inr None) \<Longrightarrow> distinct (map c_key cs) \<Longrightarrow> pg_live x k
      \<Longrightarrow> pg_count s' k = pg_count s k + (if k \<in> c_key ` set cs then 1 else 0)"
    by (erule postgres_consume_cases) auto
  show "postgres_consume x s cs = (s', Inr None) \<Longrightarrow> distinct (map c_key cs)
      \<Longrightarrow> c \<in> set cs \<Longrightarrow> pg_live x (c_key c) \<Longrightarrow> pg_count s' (c_key c) \<le> c_limit c"
    by (erule postgres_consume_cases) (auto simp: zless_imp_add1_zle)
  show "postgres_consume x s cs = (s', Inr (Some d)) \<Longrightarrow> distinct (map c_key cs) \<Longrightarrow> pg_live x k
      \<Longrightarrow> pg_count s' k = pg_count s k"
    by (erule postgres_consume_cases) auto
  show "postgres_consume x s cs = (s', Inr (Some d)) \<Longrightarrow> distinct (map c_key cs)
      \<Longrightarrow> \<exists>c \<in> set cs. d = deny c \<and> (pg_live x (c_key c) \<longrightarrow> c_limit c \<le> pg_count s (c_key c))"
    by (erule postgres_consume_cases) auto
  show "postgres_consume x s cs = (s', Inl e) \<Longrightarrow> distinct (map c_key cs) \<Longrightarrow> pg_live x k
      \<Longrightarrow> pg_count s' k = pg_count s k
        \<or> (\<exists>c \<in> set cs. c_key c = k \<and> pg_count s' k = pg_count s k + 1 \<and> pg_count s' k \<le> c_limit c)"
    by (erule postgres_consume_cases) fastforce+
qed

subsection \<open>The process-wide store keeps it too\<close>

definition quota_count :: "settings \<Rightarrow> quota_state \<Rightarrow> counter_key \<Rightarrow> int" where
  "quota_count s q k =
     (case qs_store (get_quota_store s q) of
        Some (MemoryQuotaStore d) \<Rightarrow> count_of d k
      | _ \<Rightarrow> count_of (qs_db q) k)"

definition call_live :: "call_env \<Rightarrow> counter_key \<Rightarrow> bool" where
  "call_live env k \<longleftrightarrow> \<not> date_less (snd (snd k)) (prune_cutoff (ce_today env))"

lemma get_quota_store_some: "\<exists>st. qs_store (get_quota_store s q) = Some st"
  by (auto simp: get_quota_store_def split: option.splits)

lemma qs_db_get_quota_store [simp]: "qs_db (get_quota_store s q) = qs_db q"
  by (simp add: get_quota_store_def split: option.splits)

text \<open>A call reaches one of the two stores, and its counts are those of that store.\<close>

lemma store_consume_cases:
  assumes "store_consume s env q cs = (q', r)"
  obtains (memory) d d' where "locked_memory_consume (ce_lock env) d cs = (d', r)"
      "\<And>k. quota_count s q k = count_of d k" "\<And>k. quota_count s q' k = count_of d' k"
    | (postgres) st st' where "postgres_consume (ce_fault env, ce_today env) st cs = (st', r)"
      "\<And>k. quota_count s q k = pg_count st k" "\<And>k. quota_count s q' k = pg_count st' k"
proof -
  obtain st where st: "qs_store (get_quota_store s q) = Some st" using get_quota_store_some by blast
  show thesis
  proof (cases st)
    case (MemoryQuotaStore d)
    with st assms have "locked_memory_consume (ce_lock env) d cs = (fst (locked_memory_consume (ce_lock env) d cs), r)"
      and "q' = (get_quota_store s q)\<lparr>qs_store := Some (MemoryQuotaStore (fst (locked_memory_consume (ce_lock env) d cs)))\<rparr>"
      by (auto simp: store_consume_def Let_def split: prod.splits)
    with st MemoryQuotaStore show thesis
      by (intro memory) (auto simp: quota_count_def get_quota_store_def)
  next
    case (PostgresQuotaStore pool)
    let ?st = "\<lparr>pg_rows = qs_db q, pg_pool = pool\<rparr>"
    let ?r = "postgres_consume (ce_fault env, ce_today env) ?st cs"
    from PostgresQuotaStore st assms have "?r = (fst ?r, r)"
      and "q' = (get_quota_store s q)\<lparr>qs_db := pg_rows (fst ?r),
              qs_store := Some (PostgresQuotaStore (pg_pool (fst ?r)))\<rparr>"
      by (auto simp: store_consume_def Let_def split: prod.splits)
    with st PostgresQuotaStore show thesis
      by (intro postgres) (auto simp: quota_count_def get_quota_store_def pg_count_def)
  qed
qed

interpretation llm_store: quota_store "store_consume s" "quota_count s" call_live for s
proof
  fix x and q q' :: quota_state and cs k c d e
  have live: "call_live x k = pg_live (ce_fault x, ce_today x) k" for k
    by (simp add: call_live_def pg_live_def)
  show "store_consume s x q cs = (q', Inr None) \<Longrightarrow> distinct (map c_key cs) \<Longrightarrow> call_live x k
      \<Longrightarrow> quota_count s q' k = quota_count s q k + (if k \<in> c_key ` set cs then 1 else 0)"
    by (erule store_consume_cases) (simp_all only: live memory_store.granted postgres_store.granted)
  show "store_consume s x q cs = (q', Inr None) \<Longrightarrow> distinct (map c_key cs)
      \<Longrightarrow> c \<in> set cs \<Longrightarrow> call_live x (c_key c) \<Longrightarrow> quota_count s q' (c_key c) \<le> c_limit c"
    by (erule store_consume_cases)
      (simp_all only: live memory_store.granted_limit postgres_store.granted_limit)
  show "store_consume s x q cs = (q', Inr (Some d)) \<Longrightarrow> distinct (map c_key cs) \<Longrightarrow> call_live x k
      \<Longrightarrow> quota_count s q' k = quota_count s q k"
    by (erule store_consume_cases) (simp_all only: live memory_store.denied postgres_store.denied)
  show "store_consume s x q cs = (q', Inr (Some d)) \<Longrightarrow> distinct (map c_key cs)
      \<Longrightarrow> \<exists>c \<in> set cs. d = deny c \<and> (call_live x (c_key c) \<longrightarrow> c_limit c \<le> quota_count s q (c_key c))"
    by (erule store_consume_cases, metis memory_store.denied_full, metis live postgres_store.denied_full)
  show "store_consume s x q cs = (q', Inl e) \<Longrightarrow> distinct (map c_key cs) \<Longrightarrow> call_live x k
      \<Longrightarrow> quota_count s q' k = quota_count s q k \<or>
        (\<exists>c \<in> set cs. c_key c = k \<and> quota_count s q' k = quota_count s q k + 1
           \<and> quota_count s q' k \<le> c_limit c)"
    by (erule store_consume_cases)
      (simp_all only: live memory_store.failed postgres_store.failed)
qed

section \<open>Which counters a call charges\<close>

text \<open>The windows a call of \<open>ip\<close> on day \<open>today\<close> counts in, and the limit of each scope.\<close>

definition quota_windows :: "string option \<Rightarrow> date \<Rightarrow> counter_key list" where
  "quota_windows ip today =
     [(''global_day'', ''*'', today), (''global_month'', ''*'', first_of_month today)]
     @ (case ip of None \<Rightarrow> [] | Some i \<Rightarrow> [(''ip_day'', i, today), (''ip_month'', i, first_of_month today)])"

definition quota_limit :: "settings \<Rightarrow> string \<Rightarrow> int" where
  "quota_limit s scope =
     (if scope = ''global_day'' then llm_quota_global_per_day s
      else if scope = ''global_month'' then llm_quota_global_per_month s
      else if scope = ''ip_day'' then llm_quota_per_ip_per_day s
      else llm_quota_per_ip_per_month s)"

lemma counters_for_shape:
  assumes "counters_for ip s today = Inr cs"
  shows "map c_key cs = quota_windows ip today"
    and "map c_limit cs = map (\<lambda>k. quota_limit s (fst k)) (quota_windows ip today)"
proof -
  obtain dr mr where r: "next_day today = Inr dr" "next_month (first_of_month today) = Inr mr"
    using assms unfolding counters_for_def Let_def rbind_eq_Inr by blast
  have cs: "cs = projr (counters_for ip s today)" using assms by simp
  show "map c_key cs = quota_windows ip today"
    unfolding cs by (cases ip) (simp_all add: counters_for_def quota_windows_def c_key_def
        GLOBAL_SUBJECT_def Let_def r)
  show "map c_limit cs = map (\<lambda>k. quota_limit s (fst k)) (quota_windows ip today)"
    unfolding cs by (cases ip) (simp_all add: counters_for_def quota_windows_def quota_limit_def Let_def r)
qed

lemmas counters_for_keys = counters_for_shape(1)

lemma counters_for_limits:
  assumes "counters_for ip s today = Inr cs" "c \<in> set cs"
  shows "c_limit c = quota_limit s (fst (c_key c))"
  using counters_for_shape[OF assms(1)] assms(2) by (simp add: comp_def flip: counters_for_keys[OF assms(1)])

lemma quota_windows_distinct: "distinct (quota_windows ip today)"
  by (simp add: quota_windows_def split: option.splits)

lemma counters_for_distinct: "counters_for ip s today = Inr cs \<Longrightarrow> distinct (map c_key cs)"
  by (simp add: counters_for_keys quota_windows_distinct)

lemma quota_limit_pos: "settings_fields_ok s \<Longrightarrow> 0 < quota_limit s scope"
  by (simp add: quota_limit_def settings_limits_pos)

text \<open>Dates after which nothing is pruned: the cutoff lies before every window of its day.\<close>

lemma date_less_trans: "date_less a b \<Longrightarrow> date_less b c \<Longrightarrow> date_less a c"
  by (auto simp: date_less_def)

lemma prev_day_less: "date_less (prev_day d) d"
  by (simp add: prev_day_def date_less_def)

lemma prev_days_less: "date_less ((prev_day ^^ Suc n) d) d"
proof (induction n)
  case 0
  then show ?case by (simp add: prev_day_less)
next
  case (Suc n)
  then show ?case using prev_day_less date_less_trans by (metis comp_apply funpow.simps(2))
qed

lemma prune_cutoff_less: "date_less (prune_cutoff today) (first_of_month today)"
  unfolding prune_cutoff_def using prev_days_less[of 61] by simp

lemma call_windows_live:
  assumes "valid_date (ce_today env)" "k \<in> set (quota_windows ip (ce_today env))"
  shows "call_live env k"
proof -
  have "date_less (prune_cutoff (ce_today env)) w"
    if "w = ce_today env \<or> w = first_of_month (ce_today env)" for w
    using that prune_cutoff_less[of "ce_today env"] assms(1)
    by (auto simp: date_less_def first_of_month_def valid_date_def)
  moreover have "snd (snd k) = ce_today env \<or> snd (snd k) = first_of_month (ce_today env)"
    using assms(2) by (auto simp: quota_windows_def split: option.splits)
  ultimately have "date_less (prune_cutoff (ce_today env)) (snd (snd k))" by blast
  then show ?thesis by (auto simp: call_live_def date_less_def)
qed

section \<open>Histories of guarded calls\<close>

type_synonym 'p llm_call = "quota_ctx option \<times> call_env \<times> 'p"

definition call_windows :: "'p llm_call \<Rightarrow> counter_key list" where
  "call_windows ev = quota_windows (Option.bind (fst ev) qc_client_ip) (ce_today (fst (snd ev)))"

text \<open>Calls of any runs in the order they reach the store; the log says which model answered.\<close>

fun guarded_run ::
  "settings \<Rightarrow> (model \<Rightarrow> 'p \<Rightarrow> 'r result) \<Rightarrow> quota_state \<Rightarrow> 'p llm_call list
     \<Rightarrow> quota_state \<times> ('p llm_call \<times> model option) list" where
  "guarded_run s llm q [] = (q, [])"
| "guarded_run s llm q ((ctx, env, p) # evs) =
     (case guarded_ainvoke s env llm q ctx p of (q1, ctx1, m, r) \<Rightarrow>
      case guarded_run s llm q1 evs of (q2, asked) \<Rightarrow> (q2, ((ctx, env, p), m) # asked))"

definition real_calls :: "counter_key \<Rightarrow> ('p llm_call \<times> model option) list \<Rightarrow> nat" where
  "real_calls k asked = length (filter (\<lambda>(ev, m). m = Some Inner \<and> k \<in> set (call_windows ev)) asked)"

text \<open>One guarded call is one \<^verbatim>\<open>consume\<close> of the windows it counts in, or none.\<close>

lemma guarded_ainvoke_consume:
  assumes "guarded_ainvoke s env llm q ctx p = (q1, ctx1, m, r)"
  shows "(q1 = q \<and> m = None) \<or>
    (\<exists>cs res. counters_for (Option.bind ctx qc_client_ip) s (ce_today env) = Inr cs
       \<and> store_consume s env q cs = (q1, res) \<and> (m = Some Inner \<longleftrightarrow> res = Inr None))"
  using assms
  by (auto simp: guarded_ainvoke_def check_llm_quota_def split: sum.splits prod.splits option.splits if_splits)

lemma guarded_ainvoke_count:
  assumes "guarded_ainvoke s env llm q ctx p = (q1, ctx1, m, r)" "call_live env k"
    and "quota_count s q k \<le> quota_limit s (fst k)"
  shows "quota_count s q1 k \<le> quota_limit s (fst k) \<and>
    quota_count s q k + int (real_calls k [((ctx, env, p), m)]) \<le> quota_count s q1 k"
  using guarded_ainvoke_consume[OF assms(1)]
proof (elim disjE exE conjE)
  fix cs res
  assume cs: "counters_for (Option.bind ctx qc_client_ip) s (ce_today env) = Inr cs"
    and c: "store_consume s env q cs = (q1, res)" and m: "m = Some Inner \<longleftrightarrow> res = Inr None"
  have "quota_count s q1 k \<le> quota_limit s (fst k) \<and>
      quota_count s q k + (if res = Inr None \<and> k \<in> c_key ` set cs then 1 else 0) \<le> quota_count s q1 k"
    by (rule llm_store.consume_step[OF c counters_for_distinct[OF cs] assms(2) _ assms(3)])
      (use counters_for_limits[OF cs] in auto)
  moreover have "set (call_windows (ctx, env, p)) = c_key ` set cs"
    using counters_for_keys[OF cs] by (simp add: call_windows_def flip: list.set_map)
  ultimately show ?thesis using m by (auto simp: real_calls_def split: if_splits)
qed (use assms(3) in \<open>simp add: real_calls_def\<close>)

lemma guarded_run_count:
  assumes "guarded_run s llm q evs = (q', asked)"
    and "\<And>ev. ev \<in> set evs \<Longrightarrow> call_live (fst (snd ev)) k"
    and "quota_count s q k \<le> quota_limit s (fst k)"
  shows "quota_count s q' k \<le> quota_limit s (fst k) \<and>
    quota_count s q k + int (real_calls k asked) \<le> quota_count s q' k"
  using assms
proof (induction evs arbitrary: q asked)
  case Nil
  then show ?case by (simp add: real_calls_def)
next
  case (Cons ev evs)
  obtain ctx env p where ev: "ev = (ctx, env, p)" by (cases ev)
  obtain q1 ctx1 m r where g: "guarded_ainvoke s env llm q ctx p = (q1, ctx1, m, r)"
    by (cases "guarded_ainvoke s env llm q ctx p")
  obtain asked2 where rest: "guarded_run s llm q1 evs = (q', asked2)"
    and asked: "asked = ((ctx, env, p), m) # asked2"
    using Cons.prems(1) g ev by (auto split: prod.splits)
  have "call_live env k" using Cons.prems(2)[of ev] ev by simp
  note step = guarded_ainvoke_count[OF g this Cons.prems(3)]
  have "quota_count s q' k \<le> quota_limit s (fst k) \<and>
      quota_count s q1 k + int (real_calls k asked2) \<le> quota_count s q' k"
    by (rule Cons.IH[OF rest Cons.prems(2)]) (use step in auto)
  moreover have "real_calls k asked = real_calls k [((ctx, env, p), m)] + real_calls k asked2"
    by (simp add: asked real_calls_def)
  ultimately show ?case using step by simp
qed

section \<open>Equivalence of the two stores\<close>

fun run_store :: "('s \<Rightarrow> 'i \<Rightarrow> 's \<times> 'o) \<Rightarrow> 's \<Rightarrow> 'i list \<Rightarrow> 's \<times> 'o list" where
  "run_store f s [] = (s, [])"
| "run_store f s (i # is) = (case f s i of (s1, out) \<Rightarrow> case run_store f s1 is of (s2, outs) \<Rightarrow> (s2, out # outs))"

definition memory_call ::
  "settings \<Rightarrow> counts \<Rightarrow> string option \<times> date \<Rightarrow> counts \<times> quota_denial option result" where
  "memory_call s d ev =
     (case counters_for (fst ev) s (snd ev) of Inl e \<Rightarrow> (d, Inl e) | Inr cs \<Rightarrow> memory_consume d cs)"

definition postgres_call ::
  "settings \<Rightarrow> pg_store \<Rightarrow> string option \<times> date \<Rightarrow> pg_store \<times> quota_denial option result" where
  "postgres_call s st ev =
     (case counters_for (fst ev) s (snd ev) of
        Inl e \<Rightarrow> (st, Inl e)
      | Inr cs \<Rightarrow> postgres_consume (\<lambda>op. None, snd ev) st cs)"

lemma upsert_all_no_fault:
  assumes "distinct (map c_key cs)"
  shows "upsert_all (\<lambda>op. None) i cs rows =
     (case find (\<lambda>c. c_limit c \<le> count_of rows (c_key c)) cs of
        Some c \<Rightarrow> Inr (Inl c) | None \<Rightarrow> Inr (Inr (fold bump cs rows)))"
  using assms
proof (induction cs arbitrary: i rows)
  case Nil
  then show ?case by simp
next
  case (Cons a cs)
  have "find (\<lambda>c. c_limit c \<le> count_of (bump a rows) (c_key c)) cs =
        find (\<lambda>c. c_limit c \<le> count_of rows (c_key c)) cs"
    using distinct_map_Cons_neq[OF Cons.prems] by (intro find_cong) (auto simp: count_of_bump)
  with Cons show ?case by (simp add: Let_def count_of_bump split: option.split)
qed

definition stores_agree :: "counts \<Rightarrow> pg_store \<Rightarrow> bool" where
  "stores_agree d st \<longleftrightarrow> pg_rows st = d \<and> (pg_pool st \<or> d = [])"

lemma stores_step:
  assumes "stores_agree d st" "memory_call s d ev = (d', out)"
  shows "\<exists>st'. postgres_call s st ev = (st', out) \<and> stores_agree d' st'"
proof (cases "counters_for (fst ev) s (snd ev)")
  case (Inl e)
  with assms show ?thesis by (simp add: memory_call_def postgres_call_def)
next
  case (Inr cs)
  have pool: "get_pool (\<lambda>op. None) (snd ev) st = (\<lparr>pg_rows = d, pg_pool = True\<rparr>, Inr ())"
    using assms(1) by (auto simp: get_pool_def stores_agree_def prune_rows_def)
  show ?thesis
    using Inr assms(2) pool upsert_all_no_fault[OF counters_for_distinct[OF Inr]]
    by (auto simp: memory_call_def postgres_call_def memory_consume_def postgres_consume_def
        pg_transaction_def stores_agree_def split: option.splits)
qed

lemma stores_run:
  "stores_agree d st \<Longrightarrow> run_store (memory_call s) d evs = (d', outs) \<Longrightarrow>
     \<exists>st'. run_store (postgres_call s) st evs = (st', outs) \<and> stores_agree d' st'"
proof (induction evs arbitrary: d st outs)
  case (Cons ev evs)
  obtain d1 out where c: "memory_call s d ev = (d1, out)" by (cases "memory_call s d ev")
  obtain outs2 where rest: "run_store (memory_call s) d1 evs = (d', outs2)" "outs = out # outs2"
    using Cons.prems(2) c by (auto split: prod.splits)
  obtain st1 where st1: "postgres_call s st ev = (st1, out)" "stores_agree d1 st1"
    using stores_step[OF Cons.prems(1) c] by blast
  from Cons.IH[OF st1(2) rest(1)] st1 rest(2) show ?case by auto
qed simp

section \<open>What one run reports\<close>

text \<open>The calls of one run, its quota context threaded through them.\<close>

fun run_calls ::
  "settings \<Rightarrow> (model \<Rightarrow> 'p \<Rightarrow> 'r result) \<Rightarrow> quota_state \<Rightarrow> quota_ctx \<Rightarrow> (call_env \<times> 'p) list
     \<Rightarrow> quota_state \<times> quota_ctx \<times> model option list" where
  "run_calls s llm q ctx [] = (q, ctx, [])"
| "run_calls s llm q ctx ((env, p) # evs) =
     (case guarded_ainvoke s env llm q (Some ctx) p of (q1, ctx1, m, r) \<Rightarrow>
      case run_calls s llm q1 (the ctx1) evs of (q2, ctx2, ms) \<Rightarrow> (q2, ctx2, m # ms))"

lemma guarded_ainvoke_ctx:
  assumes "guarded_ainvoke s env llm q (Some ctx) p = (q1, ctx1, m, r)"
  shows "\<exists>d. ctx1 = Some (if m = Some Fallback then note_denial (ce_ts env) d ctx else ctx)"
  using assms
  by (auto simp: guarded_ainvoke_def check_llm_quota_def split: sum.splits prod.splits option.splits if_splits)

lemma run_calls_report:
  assumes "run_calls s llm q ctx evs = (q', ctx', ms)" "qc_events ctx = Some evq"
  shows "length (qc_denials ctx') = length (qc_denials ctx) + count_list ms (Some Fallback)
     \<and> (\<exists>ds. qc_denials ctx' = qc_denials ctx @ ds)
     \<and> (\<exists>es. qc_events ctx' = Some (evq @ es) \<and> (\<forall>e \<in> set es. se_type e = ''llm.quota_exceeded'')
          \<and> length es = (if qc_denials ctx = [] \<and> Some Fallback \<in> set ms then 1 else 0))"
  using assms
proof (induction evs arbitrary: q ctx evq ms)
  case Nil
  then show ?case by simp
next
  case (Cons ev evs)
  obtain env p where ev: "ev = (env, p)" by (cases ev)
  obtain q1 ctx1 m r where g: "guarded_ainvoke s env llm q (Some ctx) p = (q1, ctx1, m, r)"
    by (cases "guarded_ainvoke s env llm q (Some ctx) p")
  obtain d where c1: "ctx1 = Some (if m = Some Fallback then note_denial (ce_ts env) d ctx else ctx)"
    using guarded_ainvoke_ctx[OF g] by blast
  obtain ms2 where rest: "run_calls s llm q1 (the ctx1) evs = (q', ctx', ms2)" "ms = m # ms2"
    using Cons.prems(1) g ev by (auto split: prod.splits)
  show ?case
  proof (cases "m = Some Fallback")
    case False
    with Cons.IH[of q1 ctx ms2 evq] rest c1 Cons.prems(2) show ?thesis by simp
  next
    case True
    define e where "e = (if qc_denials ctx = [] then [quota_event ctx (ce_ts env) d] else [])"
    have e: "\<forall>x \<in> set e. se_type x = ''llm.quota_exceeded''"
      by (simp add: e_def quota_event_def mk_step_event_def)
    have "qc_events (the ctx1) = Some (evq @ e)" "qc_denials (the ctx1) = qc_denials ctx @ [d]"
      using c1 True Cons.prems(2) by (simp_all add: note_denial_def e_def)
    note c2 = this
    from Cons.IH[OF rest(1) c2(1)] c2(2) obtain ds es
      where "length (qc_denials ctx') = length (qc_denials ctx) + 1 + count_list ms2 (Some Fallback)"
        and "qc_denials ctx' = qc_denials ctx @ [d] @ ds"
        and "qc_events ctx' = Some (evq @ e @ es)" and "es = []"
      by auto
    with rest(2) True e show ?thesis by (simp add: e_def)
  qed
qed

section \<open>Properties\<close>

text \<open>
  C3. The real model is never asked more often than a quota allows. In any history of guarded calls
  by any runs, whatever the store does (memory or Postgres, database failures, lost commit
  acknowledgements, missed deadlines), the calls answered by the real model that count in a window
  number at most the limit of the window's scope: per client and day or month, and over all clients
  per day or month. The history starts with the window unused, and none of its calls opens the
  database so late that the window's row counts as dead.
\<close>

theorem quota_bounds_real_calls:
  assumes "settings_fields_ok s"
    and "guarded_run s llm q evs = (q', asked)"
    and "quota_count s q k = 0"
    and "\<forall>ev \<in> set evs. call_live (fst (snd ev)) k"
  shows "int (real_calls k asked) \<le> quota_limit s (fst k)"
  using guarded_run_count[OF assms(2) bspec[OF assms(4)]] quota_limit_pos[OF assms(1), of "fst k"] assms(3) by auto

definition demo_date :: date where
  "demo_date = \<lparr>d_year = 2024, d_month = 2, d_day = 29\<rparr>"

definition demo_env :: call_env where
  "demo_env = \<lparr>ce_today = demo_date, ce_ts = [], ce_fault = (\<lambda>op. None), ce_lock = None\<rparr>"

definition demo_ctx :: quota_ctx where
  "demo_ctx = \<lparr>qc_run_id = ''r1'', qc_events = Some [], qc_client_ip = Some ''10.0.0.1'', qc_denials = []\<rparr>"

definition tight_settings :: settings where
  "tight_settings = default_settings\<lparr>llm_quota_per_ip_per_day := 1\<rparr>"

lemma tight_settings_ok: "settings_fields_ok tight_settings"
  by (simp add: tight_settings_def settings_fields_ok_def default_settings_def)

definition empty_quota :: quota_state where
  "empty_quota = \<lparr>qs_db = [], qs_store = None\<rparr>"

definition two_calls :: "nat llm_call list" where
  "two_calls = [(Some demo_ctx, demo_env, 1), (Some demo_ctx, demo_env, 2)]"

lemma demo_call_live: "call_live demo_env (''ip_day'', ''10.0.0.1'', demo_date)"
  by (rule call_windows_live[of _ _ "Some ''10.0.0.1''"]) code_simp+

theorem quota_bounds_real_calls_witness:
  "int (real_calls (''ip_day'', ''10.0.0.1'', demo_date)
     (snd (guarded_run tight_settings (\<lambda>m p. Inr p) empty_quota two_calls)))
   \<le> quota_limit tight_settings ''ip_day''
   \<and> map snd (snd (guarded_run tight_settings (\<lambda>m p. Inr p) empty_quota two_calls))
      = [Some Inner, Some Fallback]"
proof
  show "map snd (snd (guarded_run tight_settings (\<lambda>m p. Inr p) empty_quota two_calls))
      = [Some Inner, Some Fallback]"
    by code_simp
  let ?k = "(''ip_day'', ''10.0.0.1'', demo_date)"
  have "quota_count tight_settings empty_quota ?k = 0" by code_simp
  moreover have "\<forall>ev \<in> set two_calls. call_live (fst (snd ev)) ?k"
    by (simp add: two_calls_def demo_call_live)
  ultimately show "int (real_calls ?k
     (snd (guarded_run tight_settings (\<lambda>m p. Inr p) empty_quota two_calls)))
   \<le> quota_limit tight_settings ''ip_day''"
    by (rule quota_bounds_real_calls[where k = ?k, OF tight_settings_ok prod.collapse[symmetric], unfolded fst_conv])
qed

text \<open>
  C4. The two stores are interchangeable. On the same sequence of calls, from empty counters and
  with no database failure, the Postgres store gives the same grants and the same denials in the
  same order as the memory store and holds the same counts, although it charges as it goes and
  rolls back where the memory store checks before it charges.
\<close>

theorem postgres_equals_memory:
  "snd (run_store (postgres_call s) \<lparr>pg_rows = [], pg_pool = False\<rparr> evs)
     = snd (run_store (memory_call s) [] evs)
   \<and> pg_rows (fst (run_store (postgres_call s) \<lparr>pg_rows = [], pg_pool = False\<rparr> evs))
     = fst (run_store (memory_call s) [] evs)"
proof -
  obtain d outs where m: "run_store (memory_call s) [] evs = (d, outs)"
    by (cases "run_store (memory_call s) [] evs")
  have "stores_agree [] \<lparr>pg_rows = [], pg_pool = False\<rparr>" by (simp add: stores_agree_def)
  from stores_run[OF this m] m show ?thesis by (auto simp: stores_agree_def)
qed

text \<open>
  All or nothing. A granted call charges every window it counts in exactly once and no other; a
  refused call charges none, and names a window whose counter has reached its limit. This holds for
  the process-wide store on any day whose calls do not outlive the row.
\<close>

theorem quota_all_or_nothing:
  assumes "counters_for ip s (ce_today env) = Inr cs"
    and "store_consume s env q cs = (q', Inr out)"
    and "call_live env k" and "valid_date (ce_today env)"
  shows "quota_count s q' k = quota_count s q k
       + (if out = None \<and> k \<in> set (quota_windows ip (ce_today env)) then 1 else 0)
    \<and> (out = None \<or> (\<exists>c \<in> set cs. out = Some (deny c) \<and> c_limit c \<le> quota_count s q (c_key c)))"
proof -
  note dist = counters_for_distinct[OF assms(1)]
  have keys: "c_key ` set cs = set (quota_windows ip (ce_today env))"
    using counters_for_keys[OF assms(1)] by (simp flip: list.set_map)
  show ?thesis
  proof (cases out)
    case None
    with llm_store.granted[of s env q cs q', OF _ dist assms(3)] assms(2) keys show ?thesis by simp
  next
    case (Some d)
    with assms(2) have c: "store_consume s env q cs = (q', Inr (Some d))" by simp
    obtain x where x: "x \<in> set cs" "d = deny x" "call_live env (c_key x) \<longrightarrow> c_limit x \<le> quota_count s q (c_key x)"
      using llm_store.denied_full[OF c dist] by blast
    have "call_live env (c_key x)"
      by (rule call_windows_live[OF assms(4)]) (use x(1) keys in blast)
    with x Some llm_store.denied[OF c dist assms(3)] show ?thesis by auto
  qed
qed

theorem quota_all_or_nothing_witness:
  "quota_count tight_settings (fst (store_consume tight_settings demo_env empty_quota
       (projr (counters_for (Some ''10.0.0.1'') tight_settings demo_date)))) (''ip_day'', ''10.0.0.1'', demo_date) = 1"
proof -
  have *: "counters_for (Some ''10.0.0.1'') tight_settings (ce_today demo_env)
      = Inr (projr (counters_for (Some ''10.0.0.1'') tight_settings demo_date))" by code_simp
  have "snd (store_consume tight_settings demo_env empty_quota
       (projr (counters_for (Some ''10.0.0.1'') tight_settings demo_date))) = Inr None" by code_simp
  then have c: "store_consume tight_settings demo_env empty_quota
       (projr (counters_for (Some ''10.0.0.1'') tight_settings demo_date)) =
      (fst (store_consume tight_settings demo_env empty_quota
       (projr (counters_for (Some ''10.0.0.1'') tight_settings demo_date))), Inr None)"
    by (metis prod.collapse)
  have "valid_date (ce_today demo_env)" by code_simp
  note quota_all_or_nothing[OF * c demo_call_live this]
  moreover have "quota_count tight_settings empty_quota (''ip_day'', ''10.0.0.1'', demo_date) = 0"
    by code_simp
  moreover have "(''ip_day'', ''10.0.0.1'', demo_date) \<in> set (quota_windows (Some ''10.0.0.1'') (ce_today demo_env))"
    by code_simp
  ultimately show ?thesis by simp
qed

text \<open>
  C23. A failing store refuses the call. Whatever exception the store raises, other than the
  cancellation of the task or interpreter exit, the real model is not asked: the mock answers, and
  the run records a \<^verbatim>\<open>quota_store_unavailable\<close> denial.
\<close>

theorem quota_fails_closed:
  assumes "counters_for (qc_client_ip ctx) s (ce_today env) = Inr cs"
    and "store_consume s env q cs = (q', Inl e)" and "is_Exception e"
  shows "\<exists>ctx'. guarded_ainvoke s env llm q (Some ctx) p = (q', Some ctx', Some Fallback, llm Fallback p)
     \<and> qc_denials ctx' = qc_denials ctx @ [store_unavailable]"
  using assms by (simp add: guarded_ainvoke_def check_llm_quota_def note_denial_def)

theorem quota_fails_closed_witness:
  "\<exists>q' ctx'. guarded_ainvoke tight_settings (demo_env\<lparr>ce_lock := Some TimeoutError\<rparr>) (\<lambda>m p. Inr (m, p)) empty_quota
      (Some demo_ctx) (7::nat) = (q', Some ctx', Some Fallback, Inr (Fallback, 7))
     \<and> qc_denials ctx' = qc_denials demo_ctx @ [store_unavailable]"
proof -
  let ?env = "demo_env\<lparr>ce_lock := Some TimeoutError\<rparr>"
  let ?cs = "projr (counters_for (Some ''10.0.0.1'') tight_settings demo_date)"
  have cs: "counters_for (qc_client_ip demo_ctx) tight_settings (ce_today ?env) = Inr ?cs" by code_simp
  have "snd (store_consume tight_settings ?env empty_quota ?cs) = Inl TimeoutError" by code_simp
  then have c: "store_consume tight_settings ?env empty_quota ?cs
      = (fst (store_consume tight_settings ?env empty_quota ?cs), Inl TimeoutError)"
    by (metis prod.collapse)
  from quota_fails_closed[OF cs c, of "\<lambda>m p. Inr (m, p)" "7::nat"] show ?thesis by auto
qed

text \<open>
  Nothing falls back silently. After any calls of a run, the denials on its quota context number
  exactly the calls the mock answered, which is what \<^verbatim>\<open>summary\<close> reports, and the run's stream has
  received one \<^verbatim>\<open>llm.quota_exceeded\<close> event if there was such a call and none otherwise.
\<close>

theorem quota_denials_reported:
  assumes "run_calls s llm q ctx evs = (q', ctx', ms)"
    and "qc_events ctx = Some evq" and "qc_denials ctx = []"
  shows "length (qc_denials ctx') = count_list ms (Some Fallback)
    \<and> (quota_summary ctx' = [] \<longleftrightarrow> Some Fallback \<notin> set ms)
    \<and> (Some Fallback \<in> set ms \<longrightarrow>
        map_of (quota_summary ctx') ''llm_calls_on_mock'' = Some (JInt (int (count_list ms (Some Fallback)))))
    \<and> (\<exists>es. qc_events ctx' = Some (evq @ es) \<and> length es = (if Some Fallback \<in> set ms then 1 else 0)
         \<and> (\<forall>e \<in> set es. se_type e = ''llm.quota_exceeded''))"
proof -
  note report = run_calls_report[OF assms(1,2)]
  then have len: "length (qc_denials ctx') = count_list ms (Some Fallback)" using assms(3) by simp
  moreover have "Some Fallback \<in> set ms \<longleftrightarrow> count_list ms (Some Fallback) \<noteq> 0"
    by (simp add: count_list_0_iff)
  ultimately have "Some Fallback \<in> set ms \<longleftrightarrow> qc_denials ctx' \<noteq> []" by auto
  then show ?thesis
    using report assms(3) len by (auto simp: quota_summary_def split: list.splits)
qed

theorem quota_denials_reported_witness:
  "let (q', ctx', ms) = run_calls tight_settings (\<lambda>m p. Inr p) empty_quota demo_ctx
        [(demo_env, 1::nat), (demo_env, 2), (demo_env, 3)]
   in length (qc_denials ctx') = count_list ms (Some Fallback) \<and> count_list ms (Some Fallback) = 2
      \<and> map_option length (qc_events ctx') = Some 1"
proof -
  let ?evs = "[(demo_env, 1::nat), (demo_env, 2), (demo_env, 3)]"
  obtain q' ctx' ms where r: "run_calls tight_settings (\<lambda>m p. Inr p) empty_quota demo_ctx ?evs = (q', ctx', ms)"
    by (cases "run_calls tight_settings (\<lambda>m p. Inr p) empty_quota demo_ctx ?evs")
  have "snd (snd (run_calls tight_settings (\<lambda>m p. Inr p) empty_quota demo_ctx ?evs))
      = [Some Inner, Some Fallback, Some Fallback]"
    by code_simp
  with r have "ms = [Some Inner, Some Fallback, Some Fallback]" by simp
  with quota_denials_reported[OF r, of "[]"] r show ?thesis by (auto simp: demo_ctx_def)
qed
end
