(* ===== verification/Identifiers.thy ===== *)
theory Identifiers
  imports Runtime Sha256
begin

text \<open>
  acdp\_client/identifiers.py: the authority grammar, the reserved tenant, and the minting and
  checking of \<^verbatim>\<open>ctx_id\<close> and \<^verbatim>\<open>lineage_id\<close> values. The lemmas relate the authority check to the
  DNS-hostname grammar it documents, and show that every minted identifier is conformant.
\<close>

section \<open>Authorities\<close>

definition is_label_char :: "char \<Rightarrow> bool" where
  "is_label_char c \<longleftrightarrow> (97 \<le> ord c \<and> ord c \<le> 122) \<or> is_ascii_digit c \<or> c = CHR ''-''"

text \<open>
  What the body of \<^verbatim>\<open>_LABEL\<close> consumes: one to 63 label characters, no hyphen at either end. The
  pattern is used with \<^verbatim>\<open>match\<close> and ends in \<^verbatim>\<open>$\<close>.
\<close>

definition label_ok :: "string \<Rightarrow> bool" where
  "label_ok w \<longleftrightarrow> w \<noteq> [] \<and> length w \<le> 63 \<and> list_all is_label_char w
     \<and> hd w \<noteq> CHR ''-'' \<and> last w \<noteq> CHR ''-''"

definition label_match :: "string \<Rightarrow> bool" where
  "label_match w = dollar_match label_ok w"

definition is_valid_authority :: "string \<Rightarrow> bool" where
  "is_valid_authority host =
     (if host = [] \<or> host \<noteq> py_lower host then False
      else if CHR '':'' \<in> set host \<or> CHR ''/'' \<in> set host \<or> py_startswith host ''did:'' then False
      else if py_endswith host ''.'' \<or> py_contains ''..'' host then False
      else if length host > 253 then False
      else list_all label_match (py_split CHR ''.'' host))"

definition validate_origin_registry :: "string \<Rightarrow> unit result" where
  "validate_origin_registry v = (if \<not> is_valid_authority v then Inl ValueError else Inr ())"

section \<open>The reserved tenant\<close>

definition RESERVED_TENANT :: string where
  "RESERVED_TENANT = ''default''"

definition is_reserved_tenant :: "string option \<Rightarrow> bool" where
  "is_reserved_tenant t \<longleftrightarrow> t = Some RESERVED_TENANT"

definition reject_reserved_tenant :: "string option \<Rightarrow> unit result" where
  "reject_reserved_tenant t = (if is_reserved_tenant t then Inl ValueError else Inr ())"

lemma reject_reserved_tenant_Inr [simp]:
  "reject_reserved_tenant t = Inr () \<longleftrightarrow> t \<noteq> Some ''default''"
  by (simp add: reject_reserved_tenant_def is_reserved_tenant_def RESERVED_TENANT_def)

lemma reject_reserved_tenant_Inl [simp]:
  "reject_reserved_tenant t = Inl e \<longleftrightarrow> t = Some ''default'' \<and> e = ValueError"
  by (auto simp: reject_reserved_tenant_def is_reserved_tenant_def RESERVED_TENANT_def)

section \<open>Context and lineage identifiers\<close>

definition ctx_id_scheme :: string where
  "ctx_id_scheme = ''acdp://''"

definition lineage_id_prefix :: string where
  "lineage_id_prefix = ''lin:sha256:''"

text \<open>
  \<^verbatim>\<open>_UUID_V4\<close>, anchored with \<^verbatim>\<open>\A\<close> and \<^verbatim>\<open>\Z\<close>: five hyphen-separated groups of lower-case hex
  digits (which hold no hyphen), the third starting with 4 and the fourth with 8, 9, a or b.
\<close>

definition uuid_v4_match :: "string \<Rightarrow> bool" where
  "uuid_v4_match s =
     (case py_split CHR ''-'' s of
        [a, b, c, d, e] \<Rightarrow>
          map length [a, b, c, d, e] = [8, 4, 4, 4, 12]
          \<and> list_all (list_all is_lower_hex) [a, b, c, d, e]
          \<and> hd c = CHR ''4'' \<and> hd d \<in> {CHR ''8'', CHR ''9'', CHR ''a'', CHR ''b''}
      | _ \<Rightarrow> False)"

definition is_conformant_ctx_id :: "string \<Rightarrow> bool" where
  "is_conformant_ctx_id v =
     (if \<not> py_startswith v ctx_id_scheme then False
      else case py_partition ''/'' (drop (length ctx_id_scheme) v) of
             (authority, sep, uuid_str) \<Rightarrow>
               if \<not> sep then False
               else is_valid_authority authority \<and> uuid_v4_match uuid_str)"

text \<open>\<^verbatim>\<open>str(uuid.UUID(bytes=raw))\<close> for 16 bytes.\<close>

definition uuid_str :: "bytes \<Rightarrow> string" where
  "uuid_str raw =
     (let h = hexdigest raw
      in take 8 h @ ''-'' @ take 4 (drop 8 h) @ ''-'' @ take 4 (drop 12 h) @ ''-''
         @ take 4 (drop 16 h) @ ''-'' @ drop 20 h)"

definition stamp_uuid_v4 :: "bytes \<Rightarrow> bytes" where
  "stamp_uuid_v4 raw =
     (let raw = raw[6 := ((raw ! 6 AND 15) OR 64)] in raw[8 := ((raw ! 8 AND 63) OR 128)])"

definition synthetic_ctx_id :: "string \<Rightarrow> string \<Rightarrow> string result" where
  "synthetic_ctx_id authority seed =
     (if \<not> is_valid_authority authority then Inl ValueError
      else let raw = stamp_uuid_v4 (take 16 (sha256 (utf8_encode seed)))
           in Inr (ctx_id_scheme @ authority @ ''/'' @ uuid_str raw))"

definition synthetic_lineage_id :: "string \<Rightarrow> string" where
  "synthetic_lineage_id seed = lineage_id_prefix @ hexdigest (sha256 (utf8_encode seed))"

section \<open>The authority check against the DNS-hostname grammar\<close>

text \<open>The grammar the module documents: at most 253 characters, dot-separated LDH labels.\<close>

definition dns_hostname :: "string \<Rightarrow> bool" where
  "dns_hostname h \<longleftrightarrow> length h \<le> 253 \<and> list_all label_ok (py_split CHR ''.'' h)"

lemma label_char_not_special:
  "is_label_char c \<Longrightarrow> lower_char c = c \<and> c \<noteq> CHR '':'' \<and> c \<noteq> CHR ''/'' \<and> c \<noteq> CHR ''.'' \<and> c \<noteq> newline"
  by (auto simp: is_label_char_def py_str)

lemma double_dot_empty_label: "py_contains ''..'' h \<Longrightarrow> [] \<in> set (tl (py_split CHR ''.'' h))"
proof (induction h)
  case Nil
  then show ?case by simp
next
  case (Cons x h)
  obtain w ws where w: "py_split CHR ''.'' h = w # ws"
    by (cases "py_split CHR ''.'' h") auto
  show ?case
  proof (cases "py_contains ''..'' h")
    case True
    with Cons.IH w show ?thesis by auto
  next
    case False
    with Cons.prems obtain h' where "x = CHR ''.''" "h = CHR ''.'' # h'"
      by (cases h) (auto simp: py_startswith_def)
    then show ?thesis by simp
  qed
qed

lemma trailing_dot_empty_label: "py_endswith h ''.'' \<Longrightarrow> [] \<in> set (py_split CHR ''.'' h)"
proof -
  assume "py_endswith h ''.''"
  then obtain h' where h: "h = h' @ ''.''"
    unfolding py_endswith_def by (metis append_take_drop_id)
  then show ?thesis by (simp add: py_split_snoc)
qed

lemma in_set_py_split: "c \<in> set s \<Longrightarrow> c \<noteq> d \<Longrightarrow> \<exists>w \<in> set (py_split d s). c \<in> set w"
  by (induction s) (auto split: list.splits)

lemma dns_hostname_chars:
  assumes "dns_hostname h" "c \<in> set h"
  shows "is_label_char c \<or> c = CHR ''.''"
  using assms in_set_py_split[of c h "CHR ''.''"]
  by (fastforce simp: dns_hostname_def label_ok_def list_all_iff)

lemma dns_hostname_no_empty: "dns_hostname h \<Longrightarrow> [] \<notin> set (py_split CHR ''.'' h)"
  by (auto simp: dns_hostname_def list_all_iff label_ok_def)

lemma dns_hostname_no_newline: "dns_hostname h \<Longrightarrow> newline \<notin> set h"
  using dns_hostname_chars label_char_not_special by (fastforce simp: newline_def)

lemma dns_hostname_special:
  assumes "dns_hostname h"
  shows "h \<noteq> []" "py_lower h = h" "CHR '':'' \<notin> set h" "CHR ''/'' \<notin> set h"
    "\<not> py_startswith h ''did:''" "\<not> py_endswith h ''.''" "\<not> py_contains ''..'' h"
proof -
  note chars = dns_hostname_chars[OF assms]
  show "h \<noteq> []" using dns_hostname_no_empty[OF assms] by auto
  have "lower_char c = c" if "c \<in> set h" for c
    using chars[OF that] label_char_not_special[of c] by (auto simp: lower_char_def)
  then show "py_lower h = h" by (simp add: py_lower_idem_iff)
  show colon: "CHR '':'' \<notin> set h" and "CHR ''/'' \<notin> set h"
    using chars label_char_not_special by fastforce+
  show "\<not> py_startswith h ''did:''"
    using colon by (auto simp: py_startswith_iff)
  show "\<not> py_endswith h ''.''"
    using trailing_dot_empty_label dns_hostname_no_empty[OF assms] by blast
  have "set (tl (py_split CHR ''.'' h)) \<subseteq> set (py_split CHR ''.'' h)"
    by (simp add: list.set_sel(2) subsetI)
  then show "\<not> py_contains ''..'' h"
    using double_dot_empty_label[of h] dns_hostname_no_empty[OF assms] by blast
qed

lemma label_match_iff: "newline \<notin> set w \<Longrightarrow> label_match w \<longleftrightarrow> label_ok w"
  by (simp add: label_match_def dollar_match_iff)

lemma valid_authority_imp_dns:
  assumes valid: "is_valid_authority h" and nl: "newline \<notin> set h"
  shows "dns_hostname h"
proof -
  have "label_ok w" if "w \<in> set (py_split CHR ''.'' h)" for w
    using that valid nl set_py_split[OF that] label_match_iff[of w]
    by (auto simp: is_valid_authority_def list_all_iff split: if_splits)
  then show ?thesis
    using valid by (auto simp: dns_hostname_def is_valid_authority_def list_all_iff split: if_splits)
qed

lemma dns_imp_valid_authority: "dns_hostname h \<Longrightarrow> is_valid_authority h"
proof -
  assume dns: "dns_hostname h"
  have "label_match w" if "w \<in> set (py_split CHR ''.'' h)" for w
    using that dns by (auto simp: dns_hostname_def list_all_iff label_match_def dollar_match_def)
  then show ?thesis
    using dns_hostname_special[OF dns] dns
    by (auto simp: is_valid_authority_def list_all_iff dns_hostname_def)
qed

lemma valid_authority_no_slash: "is_valid_authority h \<Longrightarrow> CHR ''/'' \<notin> set h"
  by (simp add: is_valid_authority_def split: if_splits)


section \<open>Minted identifiers are conformant\<close>

lemma unat_div16: "unat (w :: byte) div 16 = unat (drop_bit 4 w)"
  by (simp add: unat_drop_bit_eq drop_bit_eq_div [where ?'a = nat])

lemma nibble_version: "unat ((x AND 15) OR (64 :: byte)) div 16 = 4"
proof -
  have "unat ((x AND 15) OR (64 :: byte)) div 16 = unat (drop_bit 4 ((x AND 15) OR (64 :: byte)))"
    by (rule unat_div16)
  also have "drop_bit 4 ((x AND 15) OR (64 :: byte)) = 4"
    by (simp add: drop_bit_and drop_bit_or)
  finally show ?thesis by simp
qed

lemma word_and_3_cases: "(y :: byte) AND 3 \<in> {0, 1, 2, 3}"
proof -
  have "unat (y AND 3) \<le> 3"
    using word_and_le1[of y 3] by (simp add: word_le_nat_alt)
  then have "unat (y AND 3) \<in> {0, 1, 2, 3}" by auto
  then show ?thesis by (auto simp: word_unat_eq_iff)
qed

lemma nibble_variant: "unat ((x AND 63) OR (128 :: byte)) div 16 \<in> {8, 9, 10, 11}"
proof -
  have "unat ((x AND 63) OR (128 :: byte)) div 16 = unat (drop_bit 4 ((x AND 63) OR (128 :: byte)))"
    by (rule unat_div16)
  also have "drop_bit 4 ((x AND 63) OR (128 :: byte)) = (drop_bit 4 x AND 3) OR 8"
    by (simp add: drop_bit_and drop_bit_or)
  finally show ?thesis
    using word_and_3_cases[of "drop_bit 4 x"] by auto
qed

lemma length_16: "length xs = 16 \<Longrightarrow> \<exists>a b c d e f g h i j k l m n p q.
    xs = [a, b, c, d, e, f, g, h, i, j, k, l, m, n, p, q]"
  by (auto simp: length_Suc_conv numeral_eq_Suc)

lemma hex_chars_no_hyphen: "list_all is_lower_hex w \<Longrightarrow> CHR ''-'' \<notin> set w"
  by (auto simp: list_all_iff py_str)

lemma hex_digit_variant: "n \<in> {8, 9, 10, 11} \<Longrightarrow>
    hex_digit n \<in> {CHR ''8'', CHR ''9'', CHR ''a'', CHR ''b''}"
  unfolding hex_digit_def by (elim insertE) (simp_all, code_simp+)

lemma hex_digit_4: "hex_digit 4 = CHR ''4''"
  by code_simp

lemma uuid_groups:
  assumes "length a = 8" "length b = 4" "length c = 4" "length d = 4" "length e = 12"
    and "list_all (list_all is_lower_hex) [a, b, c, d, e]"
    and "hd c = CHR ''4''" "hd d \<in> {CHR ''8'', CHR ''9'', CHR ''a'', CHR ''b''}"
  shows "uuid_v4_match (a @ ''-'' @ b @ ''-'' @ c @ ''-'' @ d @ ''-'' @ e)"
proof -
  have "py_split CHR ''-'' (a @ ''-'' @ b @ ''-'' @ c @ ''-'' @ d @ ''-'' @ e) = [a, b, c, d, e]"
    using assms(6) by (simp add: py_split_append py_split_no_sep hex_chars_no_hyphen)
  with assms show ?thesis by (simp add: uuid_v4_match_def)
qed

lemma uuid_str_v4:
  assumes "length raw = 16"
  shows "uuid_v4_match (uuid_str (stamp_uuid_v4 raw))"
proof -
  obtain a b c d e f g h i j k l m n p q where raw:
    "raw = [a, b, c, d, e, f, g, h, i, j, k, l, m, n, p, q]"
    using length_16[OF assms] by blast
  let ?g = "(g AND 15) OR 64" and ?i = "(i AND 63) OR 128"
  let ?hs = "hexdigest :: bytes \<Rightarrow> string"
  have "uuid_str (stamp_uuid_v4 raw) =
      ?hs [a, b, c, d] @ ''-'' @ ?hs [e, f] @ ''-'' @ ?hs [?g, h] @ ''-'' @ ?hs [?i, j]
      @ ''-'' @ ?hs [k, l, m, n, p, q]"
    by (simp add: uuid_str_def stamp_uuid_v4_def raw hexdigest_def hex_byte_def)
  moreover have "uuid_v4_match \<dots>"
  proof (rule uuid_groups)
    show "hd (?hs [?g, h]) = CHR ''4''"
      by (simp only: hexdigest_Cons hex_byte_def append_Cons list.sel nibble_version hex_digit_4)
    show "hd (?hs [?i, j]) \<in> {CHR ''8'', CHR ''9'', CHR ''a'', CHR ''b''}"
      unfolding hexdigest_Cons hex_byte_def append_Cons list.sel
      by (rule hex_digit_variant) (rule nibble_variant)
  qed (simp_all add: hexdigest_lower_hex)
  ultimately show ?thesis by simp
qed

lemma conformant_ctx_idI:
  assumes "is_valid_authority a" "uuid_v4_match u"
  shows "is_conformant_ctx_id (ctx_id_scheme @ a @ ''/'' @ u)"
proof -
  have "py_partition ''/'' (a @ ''/'' @ u) = (a, True, u)"
    using py_partition_single[OF valid_authority_no_slash[OF assms(1)]] by simp
  with assms show ?thesis by (simp add: is_conformant_ctx_id_def)
qed

section \<open>Properties\<close>

text \<open>
  C25. The synthetic identifiers are conformant. For every seed and every authority the check accepts,
  \<^verbatim>\<open>synthetic_ctx_id\<close> returns an id that \<^verbatim>\<open>is_conformant_ctx_id\<close> accepts, its UUID half a version 4
  UUID; for any other authority it raises \<^verbatim>\<open>ValueError\<close>. \<^verbatim>\<open>synthetic_lineage_id\<close> is the prefix followed by
  64 lower-case hex digits.
\<close>

theorem synthetic_ids_conformant:
  "(if is_valid_authority authority
    then \<exists>v. synthetic_ctx_id authority seed = Inr v \<and> is_conformant_ctx_id v
    else synthetic_ctx_id authority seed = Inl ValueError)
   \<and> (\<exists>h. synthetic_lineage_id seed = ''lin:sha256:'' @ h \<and> length h = 64 \<and> list_all is_lower_hex h)"
  by (simp add: synthetic_ctx_id_def synthetic_lineage_id_def lineage_id_prefix_def Let_def
      conformant_ctx_idI[simplified] uuid_str_v4 hexdigest_lower_hex)

text \<open>
  The authority check is the DNS-hostname grammar. On a host without a newline,
  \<^verbatim>\<open>is_valid_authority\<close> holds exactly of the names of at most 253 characters whose dot-separated labels
  have 1 to 63 lower-case letters, digits or hyphens, with no hyphen at either end. The earlier tests
  for ports, schemes, DIDs, capitals and stray dots refuse nothing more.
\<close>

theorem authority_is_dns_hostname:
  assumes "newline \<notin> set h"
  shows "is_valid_authority h \<longleftrightarrow> dns_hostname h"
  using valid_authority_imp_dns[OF _ assms] dns_imp_valid_authority by blast

theorem authority_is_dns_hostname_witness:
  "is_valid_authority ''registry-a.example'' \<longleftrightarrow> dns_hostname ''registry-a.example''"
  by (rule authority_is_dns_hostname) (simp add: newline_def)

text \<open>
  A trailing newline slips through. The label pattern ends in \<^verbatim>\<open>$\<close>, which also matches before a
  final newline, so a host whose label ends in one passes \<^verbatim>\<open>is_valid_authority\<close> although it is no
  hostname, and a ctx\_id with a newline inside its authority passes as conformant.
\<close>

theorem authority_accepts_trailing_newline:
  "is_valid_authority (''registry.example'' @ [newline])
   \<and> \<not> dns_hostname (''registry.example'' @ [newline])
   \<and> is_conformant_ctx_id (''acdp://registry.example'' @ [newline]
        @ ''/01234567-89ab-4def-8123-456789abcdef'')"
  by code_simp

end
