(* ===== verification/Control_Plane.thy ===== *)
theory Control_Plane
  imports Config Models Identifiers Sha256
begin

text \<open>
  playground/control\_plane.py: the bridge to the control plane. Every operation is a function of the
  environment, the settings and the requests sent so far. The lazily opened httpx client holds no
  state the bridge reads, so opening and closing it has no counterpart here; log lines are left out
  except the text that describes an upstream error.
\<close>

section \<open>Signing and error descriptions\<close>

definition RETRYABLE :: "int list" where
  "RETRYABLE = [429, 502, 503, 504]"

definition MAX_RETRY_DELAY :: real where
  "MAX_RETRY_DELAY = 30"

definition CP_TERMINAL_STATUS :: "(string, string) dict" where
  "CP_TERMINAL_STATUS = [(''complete'', ''completed'')]"

definition cp_sign :: "string \<Rightarrow> bytes \<Rightarrow> string" where
  "cp_sign secret body = ''sha256='' @ hexdigest (hmac_sha256 (utf8_encode secret) body)"

definition describe_cp_error :: "response \<Rightarrow> string" where
  "describe_cp_error r =
     (let status = ''status='' @ str_int (status_code r) in
      case resp_json r of
        None \<Rightarrow> status
      | Some j \<Rightarrow>
          (case parse_error_envelope j of (code, message, details) \<Rightarrow>
            py_join '' ''
              ([status]
               @ (case code of Some c \<Rightarrow> if c \<noteq> [] then [''code='' @ c] else [] | None \<Rightarrow> [])
               @ (case details of
                    Some d \<Rightarrow> (case as_str (obj_get d ''reason'') of
                                 Some rs \<Rightarrow> [''reason='' @ rs] | None \<Rightarrow> [])
                  | None \<Rightarrow> [])
               @ (if message \<noteq> [] then [''message='' @ take 120 message] else []))))"

section \<open>The signed POST with one cooperative retry\<close>

definition cp_url :: "settings \<Rightarrow> string \<Rightarrow> string" where
  "cp_url s path = rstrip_char CHR ''/'' (control_plane_url s) @ path"

definition post_headers :: "settings \<Rightarrow> bytes \<Rightarrow> (string, string) dict \<Rightarrow> (string, string) dict" where
  "post_headers s body extra =
     dict_update
       ([(''Content-Type'', ''application/json'')]
        @ (if control_plane_hmac_secret s \<noteq> []
           then [(''X-ACDP-Signature'', cp_sign (control_plane_hmac_secret s) body)] else []))
       extra"

definition post_request :: "settings \<Rightarrow> string \<Rightarrow> bytes \<Rightarrow> (string, string) dict \<Rightarrow> request" where
  "post_request s path body extra =
     \<lparr>rq_method = ''POST'', rq_url = cp_url s path, rq_headers = post_headers s body extra,
      rq_params = [], rq_body = Content body\<rparr>"

text \<open>Only \<^verbatim>\<open>httpx.HTTPError\<close> is caught.\<close>

definition catch_http :: "'w io \<times> 'a result \<Rightarrow> 'w io \<times> unit result" where
  "catch_http x = (case x of
       (io, Inl HTTPError) \<Rightarrow> (io, Inr ())
     | (io, Inl e) \<Rightarrow> (io, Inl e)
     | (io, Inr _) \<Rightarrow> (io, Inr ()))"

definition cp_post ::
  "'w env \<Rightarrow> settings \<Rightarrow> 'w io \<Rightarrow> string \<Rightarrow> bytes \<Rightarrow> (string, string) dict \<Rightarrow> 'w io \<times> unit result" where
  "cp_post env s io path body extra =
     (if \<not> control_plane_enabled s then (io, Inr ())
      else
        let rq = post_request s path body extra in
        catch_http
          (case http_send env io rq of
             (io1, Inl e) \<Rightarrow> (io1, Inl e)
           | (io1, Inr r) \<Rightarrow>
               if status_code r \<in> set RETRYABLE
               then (case parse_retry_after (parsedate_to_datetime env) (resp_header r ''retry-after'')
                           (io_now env io1) of
                       Inl e \<Rightarrow> (io1, Inl e)
                     | Inr None \<Rightarrow> (io1, Inr r)
                     | Inr (Some delay) \<Rightarrow>
                         http_send env (io_sleep env io1 (min delay MAX_RETRY_DELAY)) rq)
               else (io1, Inr r)))"

section \<open>Run-lifecycle notifications and forwarded webhooks\<close>

definition tenant_header :: "string option \<Rightarrow> (string, string) dict result" where
  "tenant_header tenant_id =
     (case tenant_id of
        None \<Rightarrow> Inr []
      | Some t \<Rightarrow>
          if t = [] then Inr []
          else rbind (reject_reserved_tenant (Some t)) (\<lambda>u. Inr [(''X-Tenant-Id'', t)]))"

definition notify_run_started ::
  "'w env \<Rightarrow> settings \<Rightarrow> 'w io \<Rightarrow> string \<Rightarrow> string \<Rightarrow> (string, json) dict \<Rightarrow> string option
     \<Rightarrow> 'w io \<times> unit result" where
  "notify_run_started env s io run_id scenario_id inputs tenant_id =
     (let payload = JObj [(''run_id'', JStr run_id), (''scenario_id'', JStr scenario_id),
                          (''started_at'', JStr (now_iso env (world io))), (''inputs'', JObj inputs)]
      in case tenant_header tenant_id of
           Inl e \<Rightarrow> (io, Inl e)
         | Inr extra \<Rightarrow>
             cp_post env s io ''/runs/started'' (utf8_encode (json_dumps (float_repr env) payload)) extra)"

definition notify_run_complete ::
  "'w env \<Rightarrow> settings \<Rightarrow> 'w io \<Rightarrow> string \<Rightarrow> string \<Rightarrow> json \<Rightarrow> string option \<Rightarrow> 'w io \<times> unit result" where
  "notify_run_complete env s io run_id status result tenant_id =
     (let payload = JObj [(''run_id'', JStr run_id),
                          (''status'', JStr (dict_get_default CP_TERMINAL_STATUS status status)),
                          (''completed_at'', JStr (now_iso env (world io))), (''result'', result)]
      in case tenant_header tenant_id of
           Inl e \<Rightarrow> (io, Inl e)
         | Inr extra \<Rightarrow>
             cp_post env s io (''/runs/'' @ run_id @ ''/complete'')
               (utf8_encode (json_dumps (float_repr env) payload)) extra)"

text \<open>\<^verbatim>\<open>{k.lower(): v for k, v in headers.items()}\<close>.\<close>

definition lower_keys :: "(string, string) dict \<Rightarrow> (string, string) dict" where
  "lower_keys hs = dict_update [] (map (\<lambda>(k, v). (py_lower k, v)) hs)"

text \<open>\<^verbatim>\<open>if x := d.get(k): extra[name] = x\<close>.\<close>

definition copy_header ::
  "(string, string) dict \<Rightarrow> string \<Rightarrow> string \<Rightarrow> (string, string) dict \<Rightarrow> (string, string) dict" where
  "copy_header lower k name extra =
     (case map_of lower k of
        Some v \<Rightarrow> if v \<noteq> [] then AList.update name v extra else extra
      | None \<Rightarrow> extra)"

definition forward_webhook ::
  "'w env \<Rightarrow> settings \<Rightarrow> 'w io \<Rightarrow> bytes \<Rightarrow> (string, string) dict \<Rightarrow> string option
     \<Rightarrow> 'w io \<times> unit result" where
  "forward_webhook env s io raw_body headers tenant_id =
     (let lower = lower_keys headers;
          extra = copy_header lower ''x-acdp-event'' ''X-ACDP-Event'' [];
          extra = copy_header lower ''x-acdp-event-id'' ''X-ACDP-Event-Id'' extra;
          extra = copy_header lower ''x-run-id'' ''X-Run-Id'' extra;
          tenant = (case tenant_id of Some (c # t) \<Rightarrow> Some (c # t) | _ \<Rightarrow> map_of lower ''x-tenant-id'')
      in case tenant of
           Some (c # t) \<Rightarrow>
             (case reject_reserved_tenant (Some (c # t)) of
                Inl e \<Rightarrow> (io, Inl e)
              | Inr _ \<Rightarrow>
                  cp_post env s io ''/ingest/acdp'' raw_body (AList.update ''X-Tenant-Id'' (c # t) extra))
         | _ \<Rightarrow> cp_post env s io ''/ingest/acdp'' raw_body extra)"

section \<open>The operator surface\<close>

definition admin_headers :: "settings \<Rightarrow> (string, string) dict option" where
  "admin_headers s =
     (if control_plane_admin_token s = [] then None
      else Some [(''Authorization'', ''Bearer '' @ control_plane_admin_token s)])"

text \<open>Send, log and return None on a transport error or a non-2xx answer, else \<^verbatim>\<open>r.json()\<close>.\<close>

definition cp_query :: "'w env \<Rightarrow> 'w io \<Rightarrow> request \<Rightarrow> 'w io \<times> json option result" where
  "cp_query env io rq =
     (case http_send env io rq of
        (io', Inl HTTPError) \<Rightarrow> (io', Inr None)
      | (io', Inl e) \<Rightarrow> (io', Inl e)
      | (io', Inr r) \<Rightarrow>
          if \<not> is_success r then (io', Inr None)
          else (case resp_json r of
                  None \<Rightarrow> (io', Inl JSONDecodeError)
                | Some j \<Rightarrow> (io', Inr (Some j))))"

definition admin_query ::
  "'w env \<Rightarrow> settings \<Rightarrow> 'w io \<Rightarrow> ((string, string) dict \<Rightarrow> request) \<Rightarrow> 'w io \<times> json option result" where
  "admin_query env s io rq =
     (case admin_headers s of
        None \<Rightarrow> (io, Inr None)
      | Some admin \<Rightarrow> if \<not> control_plane_enabled s then (io, Inr None) else cp_query env io (rq admin))"

definition introspect :: "'w env \<Rightarrow> settings \<Rightarrow> 'w io \<Rightarrow> string \<Rightarrow> 'w io \<times> json option result" where
  "introspect env s io token = admin_query env s io (\<lambda>admin.
     \<lparr>rq_method = ''POST'', rq_url = cp_url s ''/auth/introspect'',
      rq_headers = dict_update admin [(''Content-Type'', ''application/json'')], rq_params = [],
      rq_body = JsonBody (JObj [(''token'', JStr token)])\<rparr>)"

definition revocations :: "'w env \<Rightarrow> settings \<Rightarrow> 'w io \<Rightarrow> int \<Rightarrow> int \<Rightarrow> 'w io \<times> json option result" where
  "revocations env s io since_ms limit = admin_query env s io (\<lambda>admin.
     \<lparr>rq_method = ''GET'', rq_url = cp_url s ''/auth/revocations'', rq_headers = admin,
      rq_params = [(''since'', JInt since_ms), (''limit'', JInt limit)], rq_body = NoBody\<rparr>)"

definition opt_param :: "string \<Rightarrow> string option \<Rightarrow> (string, json) dict" where
  "opt_param k v = (case v of None \<Rightarrow> [] | Some x \<Rightarrow> [(k, JStr x)])"

definition cp_events ::
  "'w env \<Rightarrow> settings \<Rightarrow> 'w io \<Rightarrow> string option \<Rightarrow> int \<Rightarrow> string option \<Rightarrow> string option
     \<Rightarrow> 'w io \<times> json option result" where
  "cp_events env s io before_ts limit run_id event_type = admin_query env s io (\<lambda>admin.
     \<lparr>rq_method = ''GET'', rq_url = cp_url s ''/events'', rq_headers = admin,
      rq_params = [(''limit'', JInt limit)] @ opt_param ''beforeTs'' before_ts
        @ opt_param ''runId'' run_id @ opt_param ''eventType'' event_type,
      rq_body = NoBody\<rparr>)"

record capability_decl =
  cd_agent_did :: string
  cd_capability_uri :: string
  cd_declared_at :: string
  cd_key_id :: string
  cd_algorithm :: string
  cd_signature :: string

text \<open>The guard on the admin token and the URL comes before the tenant check.\<close>

definition declare_capability ::
  "'w env \<Rightarrow> settings \<Rightarrow> 'w io \<Rightarrow> capability_decl \<Rightarrow> string option \<Rightarrow> 'w io \<times> json option result" where
  "declare_capability env s io d tenant_id =
     (if \<not> control_plane_enabled s \<or> admin_headers s = None then (io, Inr None)
      else case tenant_header tenant_id of
        Inl e \<Rightarrow> (io, Inl e)
      | Inr extra \<Rightarrow> admin_query env s io (\<lambda>admin.
          \<lparr>rq_method = ''POST'', rq_url = cp_url s ''/capabilities'',
           rq_headers = dict_update (dict_update admin [(''Content-Type'', ''application/json'')]) extra,
           rq_params = [],
           rq_body = JsonBody (JObj
             [(''agent_did'', JStr (cd_agent_did d)), (''capability_uri'', JStr (cd_capability_uri d)),
              (''declared_at'', JStr (cd_declared_at d)), (''key_id'', JStr (cd_key_id d)),
              (''algorithm'', JStr (cd_algorithm d)), (''signature'', JStr (cd_signature d))])\<rparr>))"

definition domain_packs :: "'w env \<Rightarrow> settings \<Rightarrow> 'w io \<Rightarrow> 'w io \<times> json option result" where
  "domain_packs env s io =
     (if \<not> control_plane_enabled s then (io, Inr None)
      else cp_query env io
        \<lparr>rq_method = ''GET'', rq_url = cp_url s ''/domain-packs'', rq_headers = [], rq_params = [],
         rq_body = NoBody\<rparr>)"

definition reload_pinned_keys :: "'w env \<Rightarrow> settings \<Rightarrow> 'w io \<Rightarrow> 'w io \<times> json option result" where
  "reload_pinned_keys env s io = admin_query env s io (\<lambda>admin.
     \<lparr>rq_method = ''POST'', rq_url = cp_url s ''/admin/pinned-keys/reload'', rq_headers = admin,
      rq_params = [], rq_body = NoBody\<rparr>)"

section \<open>Lemmas\<close>

lemma catch_http_io [simp]: "fst (catch_http x) = fst x"
  by (cases x) (auto simp: catch_http_def split: sum.splits exn.splits)

lemma catch_http_Inl: "snd (catch_http x) = Inl e \<longleftrightarrow> snd x = Inl e \<and> e \<noteq> HTTPError"
  by (cases x) (auto simp: catch_http_def split: sum.splits exn.splits)

lemma cp_post_disabled: "\<not> control_plane_enabled s \<Longrightarrow> cp_post env s io path body extra = (io, Inr ())"
  by (simp add: cp_post_def)

text \<open>What is put on the wire: the same request, once or twice.\<close>

lemma cp_post_sent:
  "\<exists>n \<le> 2. sent (fst (cp_post env s io path body extra))
     = sent io @ replicate n (post_request s path body extra)
   \<and> (n = 0 \<longleftrightarrow> \<not> control_plane_enabled s)"
proof (cases "control_plane_enabled s")
  case False
  then show ?thesis by (intro exI[of _ 0]) (simp add: cp_post_def)
next
  case True
  let ?rq = "post_request s path body extra"
  obtain io1 r where s1: "http_send env io ?rq = (io1, r)" by (cases "http_send env io ?rq")
  note sent1 = http_send_sent[OF s1]
  have "sent (fst (cp_post env s io path body extra)) \<in> {sent io @ [?rq], sent io @ [?rq, ?rq]}"
    using True s1 sent1 by (auto simp: cp_post_def Let_def split: sum.splits option.splits)
  then show ?thesis
    using True by (auto intro: exI[of _ 1] exI[of _ 2] simp: numeral_2_eq_2)
qed

lemma http_send_transport:
  "http_send env io rq = (io', r) \<Longrightarrow> transport env (world io) rq = (world io', r)"
  by (auto simp: http_send_def split: prod.splits)

text \<open>An exception comes from the transport, and is no HTTPError, or from a malformed Retry-After.\<close>

lemma cp_post_raises:
  assumes "snd (cp_post env s io path body extra) = Inl e"
  obtains (send) w rq w' where "e \<noteq> HTTPError" "transport env w rq = (w', Inl e)"
    | (retry) w rq w' resp t where "transport env w rq = (w', Inr resp)"
        "parse_retry_after (parsedate_to_datetime env) (resp_header resp ''retry-after'') t = Inl e"
proof -
  have en: "control_plane_enabled s" using assms by (auto simp: cp_post_def split: if_splits)
  let ?rq = "post_request s path body extra"
  obtain io1 r where s1: "http_send env io ?rq = (io1, r)" by (cases "http_send env io ?rq")
  show thesis
  proof (cases r)
    case (Inl e1)
    with assms en s1 have "e1 = e" "e \<noteq> HTTPError" by (auto simp: cp_post_def Let_def catch_http_Inl)
    with send[OF _ http_send_transport] s1 Inl show thesis by blast
  next
    case (Inr resp)
    let ?p = "parse_retry_after (parsedate_to_datetime env) (resp_header resp ''retry-after'') (io_now env io1)"
    have "e \<noteq> HTTPError \<and> (?p = Inl e \<or> (\<exists>io2 io3. http_send env io2 ?rq = (io3, Inl e)))"
      using assms en s1 Inr
      by (auto simp: cp_post_def Let_def catch_http_Inl prod_eq_iff split: if_splits sum.splits option.splits)
    with s1[unfolded Inr, THEN http_send_transport] send[OF _ http_send_transport] retry
    show thesis by blast
  qed
qed

text \<open>The headers a forwarded webhook may add.\<close>

definition forward_names :: "string list" where
  "forward_names = [''X-ACDP-Event'', ''X-ACDP-Event-Id'', ''X-Run-Id'', ''X-Tenant-Id'']"

definition forward_extra :: "(string, string) dict \<Rightarrow> bool" where
  "forward_extra extra \<longleftrightarrow> wf_dict extra \<and> fst ` set extra \<subseteq> set forward_names"

lemma forward_extra_update:
  "forward_extra extra \<Longrightarrow> name \<in> set forward_names \<Longrightarrow> forward_extra (AList.update name v extra)"
  by (auto simp: forward_extra_def fst_set_update distinct_update)

lemma forward_extra_copy:
  "forward_extra extra \<Longrightarrow> name \<in> set forward_names \<Longrightarrow> forward_extra (copy_header lower k name extra)"
  by (auto simp: copy_header_def forward_extra_update split: option.splits)

lemma forward_extra_Nil: "forward_extra []"
  by (simp add: forward_extra_def)

lemma post_headers_lookup:
  assumes "wf_dict extra"
  shows "map_of (post_headers s body extra) k =
    (case map_of extra k of
       Some v \<Rightarrow> Some v
     | None \<Rightarrow> if k = ''Content-Type'' then Some ''application/json''
              else if k = ''X-ACDP-Signature'' \<and> control_plane_hmac_secret s \<noteq> []
              then Some (cp_sign (control_plane_hmac_secret s) body) else None)"
  using assms by (auto simp: post_headers_def map_of_dict_update map_of_rev_wf map_add_def split: option.splits)

lemma forward_webhook_cases:
  assumes "forward_webhook env s io raw headers tenant_id = (io', r)"
  obtains "io' = io" "r = Inl ValueError"
    | extra where "forward_extra extra" "map_of extra ''X-Tenant-Id'' \<noteq> Some ''default''"
        "cp_post env s io ''/ingest/acdp'' raw extra = (io', r)"
proof -
  let ?lower = "lower_keys headers"
  define extra where "extra = copy_header ?lower ''x-run-id'' ''X-Run-Id'' (copy_header ?lower
     ''x-acdp-event-id'' ''X-ACDP-Event-Id'' (copy_header ?lower ''x-acdp-event'' ''X-ACDP-Event'' []))"
  have fx: "forward_extra extra"
    unfolding extra_def by (intro forward_extra_copy forward_extra_Nil) (simp_all add: forward_names_def)
  have nt: "map_of extra ''X-Tenant-Id'' = None"
    by (simp add: extra_def copy_header_def split: option.splits)
  have up: "forward_extra (AList.update ''X-Tenant-Id'' t extra)" for t
    by (rule forward_extra_update[OF fx]) (simp add: forward_names_def)
  show thesis
    using assms that(1) that(2)[OF fx] that(2)[OF up] nt
    unfolding forward_webhook_def Let_def extra_def[symmetric]
    by (auto split: option.splits list.splits sum.splits)
qed

text \<open>A \<^verbatim>\<open>Retry-After\<close> value that \<^verbatim>\<open>parse_retry_after\<close> can read or ignore.\<close>

definition retry_after_ok :: "response \<Rightarrow> bool" where
  "retry_after_ok r =
     (case resp_header r ''retry-after'' of
        None \<Rightarrow> True
      | Some v \<Rightarrow> \<not> py_isdigit (py_strip v) \<or> list_all is_ascii_digit (py_strip v))"

text \<open>
  A network that fails only with httpx transport errors and never sends a digit-like \<^verbatim>\<open>Retry-After\<close>
  outside ASCII, and a date parser that raises only what it documents.
\<close>

definition network_ok :: "'w env \<Rightarrow> bool" where
  "network_ok env \<longleftrightarrow>
     (\<forall>w rq w' e. transport env w rq = (w', Inl e) \<longrightarrow> e = HTTPError)
     \<and> (\<forall>w rq w' r. transport env w rq = (w', Inr r) \<longrightarrow> retry_after_ok r)
     \<and> (\<forall>v e. parsedate_to_datetime env v = Inl e \<longrightarrow> e = TypeError \<or> is_ValueError e)"

lemma cp_post_ok:
  assumes "network_ok env"
  shows "snd (cp_post env s io path body extra) = Inr ()"
proof (cases "snd (cp_post env s io path body extra)")
  case (Inl e)
  then show ?thesis
  proof (cases rule: cp_post_raises)
    case (send w rq w')
    with assms show ?thesis unfolding network_ok_def by blast
  next
    case (retry w rq w' resp t)
    have "\<And>v e. parsedate_to_datetime env v = Inl e \<Longrightarrow> e = TypeError \<or> is_ValueError e"
      using assms by (simp add: network_ok_def)
    note raises = parse_retry_after_raises[OF this]
    have "retry_after_ok resp" using assms retry(1) unfolding network_ok_def by blast
    with retry(2) raises show ?thesis by (auto simp: retry_after_ok_def)
  qed
qed simp

lemma notify_ok:
  assumes "network_ok env"
  shows "snd (notify_run_started env s io run_id scenario_id inputs None) = Inr ()"
    and "snd (notify_run_complete env s io run_id status result None) = Inr ()"
  unfolding notify_run_started_def notify_run_complete_def tenant_header_def Let_def
  by (simp_all only: option.case sum.case cp_post_ok[OF assms])

text \<open>
  What a notification does, with the request written out: it returns, and it has sent no request without a control plane, otherwise the same
  signed POST once, or twice after a transient refusal that says when to come back.
\<close>

definition notified :: "'w env \<Rightarrow> settings \<Rightarrow> 'w io \<Rightarrow> string \<Rightarrow> json \<Rightarrow> 'w io \<times> unit result \<Rightarrow> bool" where
  "notified env s io path payload x \<longleftrightarrow>
     snd x = Inr () \<and>
     (\<exists>n rq body. n \<le> 2 \<and> sent (fst x) = sent io @ replicate n rq \<and> (n = 0 \<longleftrightarrow> control_plane_url s = [])
        \<and> (n = 2 \<longrightarrow> (\<exists>w resp. transport env (world io) rq = (w, Inr resp) \<and> status_code resp \<in> {429, 502, 503, 504}
                 \<and> resp_header resp ''retry-after'' \<noteq> None))
        \<and> body = utf8_encode (json_dumps (float_repr env) payload)
        \<and> rq_method rq = ''POST'' \<and> rq_url rq = rstrip_char CHR ''/'' (control_plane_url s) @ path \<and> rq_body rq = Content body
        \<and> map_of (rq_headers rq) ''X-ACDP-Signature'' =
            (if control_plane_hmac_secret s = [] then None
             else Some (''sha256='' @ hexdigest (hmac_sha256 (utf8_encode (control_plane_hmac_secret s)) body))))"

lemma cp_post_twice:
  assumes "sent (fst (cp_post env s io path body extra)) = sent io @ replicate 2 rq"
  shows "\<exists>w resp. transport env (world io) (post_request s path body extra) = (w, Inr resp) \<and> status_code resp \<in> {429, 502, 503, 504}
    \<and> resp_header resp ''retry-after'' \<noteq> None"
proof -
  let ?rq = "post_request s path body extra"
  obtain io1 r where s1: "http_send env io ?rq = (io1, r)" by (cases "http_send env io ?rq")
  have en: "control_plane_enabled s" using assms by (auto simp: cp_post_def split: if_splits)
  from assms en s1 http_send_sent[OF s1] obtain resp where resp: "r = Inr resp" "status_code resp \<in> set RETRYABLE"
    "parse_retry_after (parsedate_to_datetime env) (resp_header resp ''retry-after'') (io_now env io1) \<noteq> Inr None"
    by (auto simp: cp_post_def Let_def numeral_2_eq_2 split: sum.splits if_splits option.splits)
  then have "resp_header resp ''retry-after'' \<noteq> None" by (cases "resp_header resp ''retry-after''") (simp_all add: parse_retry_after_def)
  with resp http_send_transport[OF s1] show ?thesis by (simp add: RETRYABLE_def)
qed

lemma cp_post_notified:
  assumes "network_ok env"
  shows "notified env s io path payload (cp_post env s io path (utf8_encode (json_dumps (float_repr env) payload)) [])"
proof -
  let ?body = "utf8_encode (json_dumps (float_repr env) payload)"
  obtain n where n: "n \<le> 2" "sent (fst (cp_post env s io path ?body [])) = sent io @ replicate n (post_request s path ?body [])"
    "n = 0 \<longleftrightarrow> \<not> control_plane_enabled s" using cp_post_sent by blast
  have "rq_method (post_request s path ?body []) = ''POST''" "rq_body (post_request s path ?body []) = Content ?body"
    "rq_url (post_request s path ?body []) = rstrip_char CHR ''/'' (control_plane_url s) @ path"
    "map_of (rq_headers (post_request s path ?body [])) ''X-ACDP-Signature'' =
       (if control_plane_hmac_secret s = [] then None
        else Some (''sha256='' @ hexdigest (hmac_sha256 (utf8_encode (control_plane_hmac_secret s)) ?body)))"
    by (simp_all add: post_request_def cp_url_def post_headers_lookup cp_sign_def)
  with n cp_post_twice[of env s io path ?body "[]"] cp_post_ok[OF assms] show ?thesis
    unfolding notified_def by (metis control_plane_enabled_def)
qed

section \<open>Properties\<close>

text \<open>
  C24. Within the stated network, control-plane outages do not break a run. If the transport fails only with httpx errors, no answer carries a
  digit-like \<^verbatim>\<open>Retry-After\<close> outside ASCII and the date parser raises only what it documents, then the start notification and the
  completion notification both return, whatever the control plane answers. Each sends one signed POST of its payload to its own path, repeats it
  at most once, and only when the first answer was a 429, 502, 503 or 504 with a \<^verbatim>\<open>Retry-After\<close>; without a control plane it sends nothing.
  The status \<^verbatim>\<open>complete\<close> is reported as \<^verbatim>\<open>completed\<close>. (The first condition is needed: \<open>cp_retry_after_escapes\<close> below.)
\<close>

theorem cp_notifications_harmless:
  assumes "network_ok env"
  shows "notified env s io ''/runs/started''
      (JObj [(''run_id'', JStr run_id), (''scenario_id'', JStr scenario_id), (''started_at'', JStr (now_iso env (world io))),
         (''inputs'', JObj inputs)])
      (notify_run_started env s io run_id scenario_id inputs None)
    \<and> notified env s io (''/runs/'' @ run_id @ ''/complete'')
      (JObj [(''run_id'', JStr run_id), (''status'', JStr (if status = ''complete'' then ''completed'' else status)),
         (''completed_at'', JStr (now_iso env (world io))), (''result'', result)])
      (notify_run_complete env s io run_id status result None)"
proof -
  have "dict_get_default CP_TERMINAL_STATUS status status = (if status = ''complete'' then ''completed'' else status)"
    by (simp add: CP_TERMINAL_STATUS_def dict_get_default_def)
  then show ?thesis
    unfolding notify_run_started_def notify_run_complete_def tenant_header_def Let_def
    by (simp only: option.case sum.case cp_post_notified[OF assms] simp_thms)
qed

definition quiet_env :: "response \<Rightarrow> unit env" where
  "quiet_env r = \<lparr>transport = (\<lambda>w rq. (w, Inr r)), wall_clock = (\<lambda>w. 0), sleep_for = (\<lambda>d w. w),
     parsedate_to_datetime = (\<lambda>v. Inl ValueError), now_iso = (\<lambda>w. ''2025-01-01T00:00:00+00:00''),
     float_repr = (\<lambda>f. ''0.0'')\<rparr>"

definition busy_response :: "string \<Rightarrow> response" where
  "busy_response v = \<lparr>status_code = 503, is_success = False, is_redirect = False,
     resp_header = (\<lambda>k. if k = ''retry-after'' then Some v else None), resp_text = [],
     resp_json = None, resp_content = []\<rparr>"

definition cp_settings :: settings where
  "cp_settings = default_settings\<lparr>control_plane_url := ''http://cp:3001/'', control_plane_hmac_secret := ''k''\<rparr>"

lemma network_ok_quiet: "retry_after_ok r \<Longrightarrow> network_ok (quiet_env r)"
  by (simp add: network_ok_def quiet_env_def)

theorem cp_notifications_harmless_witness:
  "snd (notify_run_started (quiet_env (busy_response ''2'')) cp_settings \<lparr>world = (), sent = []\<rparr> ''r'' ''s1'' [] None) = Inr ()
   \<and> (\<exists>n rq. n \<le> 2 \<and> n \<noteq> 0 \<and> sent (fst (notify_run_complete (quiet_env (busy_response ''2'')) cp_settings
          \<lparr>world = (), sent = []\<rparr> ''r'' ''complete'' JNull None)) = replicate n rq
        \<and> rq_url rq = ''http://cp:3001/runs/r/complete'')"
proof -
  have "retry_after_ok (busy_response ''2'')" by code_simp
  note n = cp_notifications_harmless[OF network_ok_quiet[OF this], where s = cp_settings and io = "\<lparr>world = (), sent = []\<rparr>"
      and run_id = "''r''" and scenario_id = "''s1''" and inputs = "[]" and status = "''complete''" and result = JNull]
  have "control_plane_url cp_settings = ''http://cp:3001/''" by (simp add: cp_settings_def)
  with n show ?thesis unfolding notified_def by (auto simp: rstrip_char_def)
qed

lemma superscript_breaks_notify:
  "snd (notify_run_started (quiet_env (busy_response [CHR 0xB2])) cp_settings io run_id scenario_id inputs None)
     = Inl ValueError"
  "snd (notify_run_complete (quiet_env (busy_response [CHR 0xB2])) cp_settings io run_id status result None)
     = Inl ValueError"
proof -
  have en: "control_plane_enabled cp_settings" by code_simp
  have "py_strip [CHR 0xB2] = [CHR 0xB2]" "py_isdigit [CHR 0xB2]" "\<not> list_all is_ascii_digit [CHR 0xB2]"
    by code_simp+
  then have "parse_retry_after (\<lambda>v. Inl ValueError) (Some [CHR 0xB2]) t = Inl ValueError" for t
    by (simp add: parse_retry_after_def float_of_digits_def Let_def)
  then have "snd (cp_post (quiet_env (busy_response [CHR 0xB2])) cp_settings io path body extra) = Inl ValueError"
    for io :: "unit io" and path body extra
    by (simp add: cp_post_def en Let_def http_send_def quiet_env_def busy_response_def RETRYABLE_def catch_http_def)
  note post = this
  show "snd (notify_run_started (quiet_env (busy_response [CHR 0xB2])) cp_settings io run_id scenario_id inputs None) = Inl ValueError"
    "snd (notify_run_complete (quiet_env (busy_response [CHR 0xB2])) cp_settings io run_id status result None) = Inl ValueError"
    unfolding notify_run_started_def notify_run_complete_def tenant_header_def Let_def
    by (simp_all only: option.case sum.case post)
qed

text \<open>
  One header breaks the promise. The comment in \<^verbatim>\<open>_post\<close> says a control-plane outage never breaks a
  run, but a 503 whose \<^verbatim>\<open>Retry-After\<close> is a superscript two raises \<^verbatim>\<open>ValueError\<close> out of the start and the
  completion notification: \<^verbatim>\<open>str.isdigit\<close> accepts the character and \<^verbatim>\<open>float\<close> does not.
\<close>

theorem cp_retry_after_escapes:
  "snd (notify_run_started (quiet_env (busy_response [CHR 0xB2])) cp_settings io run_id scenario_id inputs None)
     = Inl ValueError
   \<and> snd (notify_run_complete (quiet_env (busy_response [CHR 0xB2])) cp_settings io run_id status result None)
     = Inl ValueError"
  using superscript_breaks_notify by blast

text \<open>
  The reserved tenant is refused before anything is sent, in the start, completion and webhook
  calls alike, and also when the bridge is disabled, where the module promises a no-op.
\<close>

theorem cp_reserved_tenant_raises:
  "notify_run_started env s io run_id scenario_id inputs (Some ''default'') = (io, Inl ValueError)
   \<and> notify_run_complete env s io run_id status result (Some ''default'') = (io, Inl ValueError)
   \<and> forward_webhook env s io raw headers (Some ''default'') = (io, Inl ValueError)"
  by (simp add: notify_run_started_def notify_run_complete_def forward_webhook_def tenant_header_def
      reject_reserved_tenant_def is_reserved_tenant_def RESERVED_TENANT_def Let_def)

text \<open>
  A forwarded webhook reaches the control plane verbatim and signed. Every request a forward puts
  on the wire is a POST of the raw body to \<^verbatim>\<open>/ingest/acdp\<close> under the configured base; when a secret is
  configured its \<^verbatim>\<open>X-ACDP-Signature\<close> is the HMAC of that body, whatever headers came in; and it never
  asserts the reserved tenant.
\<close>

theorem cp_forward_signed:
  assumes "forward_webhook env s io raw headers tenant_id = (io', r)"
    and "rq \<in> set (drop (length (sent io)) (sent io'))"
  shows "rq_method rq = ''POST'' \<and> rq_url rq = cp_url s ''/ingest/acdp'' \<and> rq_body rq = Content raw
    \<and> map_of (rq_headers rq) ''X-ACDP-Signature'' =
        (if control_plane_hmac_secret s = [] then None else Some (cp_sign (control_plane_hmac_secret s) raw))
    \<and> map_of (rq_headers rq) ''X-Tenant-Id'' \<noteq> Some ''default''"
  using assms(1)
proof (cases rule: forward_webhook_cases)
  case 1
  with assms(2) show ?thesis by simp
next
  case (2 extra)
  then have sent: "sent io' = sent (fst (cp_post env s io ''/ingest/acdp'' raw extra))" by simp
  obtain n where "sent io' = sent io @ replicate n (post_request s ''/ingest/acdp'' raw extra)"
    using cp_post_sent unfolding sent by blast
  with assms(2) have rq: "rq = post_request s ''/ingest/acdp'' raw extra" by (simp split: if_splits)
  have "''X-ACDP-Signature'' \<notin> fst ` set extra"
    using 2(1) by (auto simp: forward_extra_def forward_names_def)
  then have "map_of extra ''X-ACDP-Signature'' = None" by (simp add: map_of_eq_None_iff)
  moreover have "wf_dict extra" using 2(1) by (simp add: forward_extra_def)
  ultimately show ?thesis
    using 2(2) by (auto simp: rq post_request_def post_headers_lookup split: option.splits)
qed

theorem cp_forward_signed_witness:
  "map_of (rq_headers (hd (sent (fst (forward_webhook (quiet_env ((busy_response [])\<lparr>status_code := 200\<rparr>)) cp_settings
      \<lparr>world = (), sent = []\<rparr> [1, 2] [] (Some ''acme''))))))
     ''X-ACDP-Signature'' = Some (cp_sign ''k'' [1, 2])"
proof -
  let ?f = "forward_webhook (quiet_env ((busy_response [])\<lparr>status_code := 200\<rparr>)) cp_settings
      \<lparr>world = (), sent = []\<rparr> [1, 2] [] (Some ''acme'')"
  have en: "control_plane_enabled cp_settings" by code_simp
  have tn: "reject_reserved_tenant (Some ''acme'') = Inr ()" by code_simp
  have "length (sent (fst ?f)) = 1"
    by (simp add: forward_webhook_def lower_keys_def dict_update_def copy_header_def tn cp_post_def en
        Let_def http_send_def quiet_env_def busy_response_def RETRYABLE_def)
  then have mem: "hd (sent (fst ?f)) \<in> set (drop (length (sent \<lparr>world = (), sent = []\<rparr>)) (sent (fst ?f)))"
    by (cases "sent (fst ?f)") auto
  have "control_plane_hmac_secret cp_settings = ''k''" by (simp add: cp_settings_def)
  with cp_forward_signed[OF prod.collapse[symmetric] mem] show ?thesis by simp
qed

end
