(* ===== verification/Runner.thy ===== *)
theory Runner
  imports Quota Control_Plane
begin

text \<open>
  playground/scenarios: the scenario model (models.py), the catalogue (registry.py), the guard that
  narrows SDK rejections (\_sdk\_guard.py) and the run lifecycle (runner.py).

  A scenario body is a parameter: a function of the run's specification that may send requests, put
  events on the run's queue and use its quota, and that returns a result or raises. The runner gives every body a
  deadline (\<open>wait_for\<close>), so a body it runs may also end in a \<open>TimeoutError\<close>. The run's queue is the list of events put on it so far.
\<close>

section \<open>Scenarios and results\<close>

record run_spec =
  sp_run_id :: string
  sp_scenario_id :: string
  sp_inputs :: "(string, json) dict"
  sp_registry_mode :: string

definition agent_seed :: "run_spec \<Rightarrow> string \<Rightarrow> bytes" where
  "agent_seed spec slug = sha256 (utf8_encode (sp_run_id spec @ '':'' @ slug))"

record lineage_node =
  ln_ctx_id :: string
  ln_agent_id :: string
  ln_title :: string
  ln_context_type :: string
  ln_registry_authority :: string
  ln_step :: int

record lineage_graph =
  lg_nodes :: "lineage_node list"
  lg_edges :: "(string \<times> string) list"

record run_result =
  rr_run_id :: string
  rr_scenario_id :: string
  rr_status :: string
  rr_contexts :: "string list"
  rr_lineage_graph :: "lineage_graph option"
  rr_summary :: "(string, json) dict"
  rr_error :: "string option"

definition graph_dump :: "lineage_graph \<Rightarrow> json" where
  "graph_dump g = JObj
     [(''nodes'', JList (map (\<lambda>n. JObj
         [(''ctx_id'', JStr (ln_ctx_id n)), (''agent_id'', JStr (ln_agent_id n)),
          (''title'', JStr (ln_title n)), (''context_type'', JStr (ln_context_type n)),
          (''registry_authority'', JStr (ln_registry_authority n)), (''step'', JInt (ln_step n))])
         (lg_nodes g))),
      (''edges'', JList (map (\<lambda>(a, b). JObj [(''src'', JStr a), (''dst'', JStr b)]) (lg_edges g)))]"

definition result_dump :: "run_result \<Rightarrow> json" where
  "result_dump r = JObj
     [(''run_id'', JStr (rr_run_id r)), (''scenario_id'', JStr (rr_scenario_id r)),
      (''status'', JStr (rr_status r)), (''contexts'', JList (map JStr (rr_contexts r))),
      (''lineage_graph'', case rr_lineage_graph r of None \<Rightarrow> JNull | Some g \<Rightarrow> graph_dump g),
      (''summary'', JObj (rr_summary r)),
      (''error'', case rr_error r of None \<Rightarrow> JNull | Some e \<Rightarrow> JStr e)]"

type_synonym 'w scenario_state = "'w io \<times> quota_ctx"

type_synonym 'w scenario_body = "run_spec \<Rightarrow> 'w scenario_state \<Rightarrow> 'w scenario_state \<times> run_result result"

record 'w scenario =
  sc_id :: string
  sc_name :: string
  sc_description :: string
  sc_registry_mode :: string
  sc_agent_count :: int
  sc_framework :: string
  sc_default_inputs :: "(string, json) dict"
  sc_run :: "'w scenario_body option"

section \<open>The catalogue\<close>

text \<open>A catalogue module exports a scenario, a body, both or neither.\<close>

definition load_catalog ::
  "('w scenario option \<times> 'w scenario_body option) list \<Rightarrow> (string, 'w scenario) dict" where
  "load_catalog mods = fold (\<lambda>m out.
     case m of
       (Some sc, Some run) \<Rightarrow> AList.update (sc_id sc) (sc\<lparr>sc_run := Some run\<rparr>) out
     | _ \<Rightarrow> out) mods []"

definition list_scenarios :: "(string, 'w scenario) dict \<Rightarrow> 'w scenario list" where
  "list_scenarios reg = sort_key sc_id (map snd reg)"

definition get_scenario :: "(string, 'w scenario) dict \<Rightarrow> string \<Rightarrow> 'w scenario option" where
  "get_scenario reg scenario_id = map_of reg scenario_id"

definition serialize_scenario :: "'w scenario \<Rightarrow> json" where
  "serialize_scenario s = JObj
     [(''id'', JStr (sc_id s)), (''name'', JStr (sc_name s)), (''description'', JStr (sc_description s)),
      (''registry_mode'', JStr (sc_registry_mode s)), (''agent_count'', JInt (sc_agent_count s)),
      (''framework'', JStr (sc_framework s)), (''default_inputs'', JObj (sc_default_inputs s))]"

definition api_list_all :: "(string, 'w scenario) dict \<Rightarrow> json" where
  "api_list_all reg = JObj [(''scenarios'', JList (map serialize_scenario (list_scenarios reg)))]"

definition api_get_one :: "(string, 'w scenario) dict \<Rightarrow> string \<Rightarrow> json result" where
  "api_get_one reg scenario_id =
     (case get_scenario reg scenario_id of
        None \<Rightarrow> Inl (HTTPException 404 (''unknown scenario: '' @ scenario_id))
      | Some s \<Rightarrow> Inr (serialize_scenario s))"

section \<open>SDK rejections\<close>

definition SDK_REJECTIONS :: "exn \<Rightarrow> bool" where
  "SDK_REJECTIONS e \<longleftrightarrow> is_RuntimeError e \<or> is_ValueError e \<or>
     (case e of
        OtherException n \<Rightarrow> n \<in> {''ImmutableField'', ''InvalidLifecycleTransition'', ''InvalidLogProof'',
                                   ''InvalidWitnessCosignature''}
      | _ \<Rightarrow> False)"

definition run_guarded :: "(exn \<Rightarrow> bool) \<Rightarrow> 'a result \<Rightarrow> ('a option \<times> exn option) result" where
  "run_guarded allow call =
     (case call of
        Inr v \<Rightarrow> Inr (Some v, None)
      | Inl e \<Rightarrow> if allow e then Inr (None, Some e) else Inl e)"

definition expect_rejection ::
  "(exn \<Rightarrow> string) \<Rightarrow> (exn \<Rightarrow> bool) \<Rightarrow> 'a result \<Rightarrow> (bool \<times> string) result" where
  "expect_rejection str allow call =
     rbind (run_guarded allow call) (\<lambda>(v, e).
       Inr (e \<noteq> None, case e of None \<Rightarrow> [] | Some x \<Rightarrow> str x))"

section \<open>The run lifecycle\<close>

text \<open>How Python prints an exception: \<^verbatim>\<open>type(e).__name__\<close>, \<^verbatim>\<open>str(e)\<close>, \<^verbatim>\<open>repr(e)\<close>, \<^verbatim>\<open>format_exc()\<close>, and \<^verbatim>\<open>:g\<close>.\<close>

record exn_texts =
  et_name :: "exn \<Rightarrow> string"
  et_str :: "exn \<Rightarrow> string"
  et_repr :: "exn \<Rightarrow> string"
  et_tb :: "exn \<Rightarrow> string"
  et_g :: "real \<Rightarrow> string"

definition exn_message :: "exn_texts \<Rightarrow> settings \<Rightarrow> exn \<Rightarrow> string" where
  "exn_message txt s e =
     (if e = TimeoutError then ''run exceeded RUN_TIMEOUT_SECONDS='' @ et_g txt (run_timeout_seconds s)
      else et_str txt e)"

definition put_event :: "step_event \<Rightarrow> quota_ctx \<Rightarrow> quota_ctx" where
  "put_event e ctx = ctx\<lparr>qc_events := map_option (\<lambda>q. q @ [e]) (qc_events ctx)\<rparr>"

record 'w run_state =
  st_io :: "'w io"
  st_ctx :: quota_ctx
  st_results :: "(string, run_result) dict"

definition failed_result :: "exn_texts \<Rightarrow> settings \<Rightarrow> string \<Rightarrow> string \<Rightarrow> quota_ctx \<Rightarrow> exn \<Rightarrow> run_result" where
  "failed_result txt s run_id scenario_id ctx e =
     \<lparr>rr_run_id = run_id, rr_scenario_id = scenario_id, rr_status = ''failed'', rr_contexts = [],
      rr_lineage_graph = None, rr_summary = quota_summary ctx,
      rr_error = Some (et_name txt e @ '': '' @ exn_message txt s e @ [newline] @ et_tb txt e)\<rparr>"

definition started_event :: "string \<Rightarrow> string \<Rightarrow> string \<Rightarrow> step_event" where
  "started_event run_id ts scenario_id =
     (mk_step_event ''run.started'' run_id ts)\<lparr>se_scenario_id := Some scenario_id\<rparr>"

definition error_event :: "string \<Rightarrow> string \<Rightarrow> string \<Rightarrow> string \<Rightarrow> run_result \<Rightarrow> step_event" where
  "error_event run_id ts scenario_id msg result =
     (mk_step_event ''run.error'' run_id ts)\<lparr>se_scenario_id := Some scenario_id, se_error := Some msg,
        se_status := Some (rr_status result)\<rparr>"

definition complete_event :: "string \<Rightarrow> string \<Rightarrow> string \<Rightarrow> run_result \<Rightarrow> quota_ctx \<Rightarrow> step_event" where
  "complete_event run_id ts scenario_id result ctx =
     (mk_step_event ''run.complete'' run_id ts)\<lparr>se_scenario_id := Some scenario_id,
        se_contexts_produced := Some (int (length (rr_contexts result))),
        se_lineage_graph := map_option graph_dump (rr_lineage_graph result),
        se_status := Some (rr_status result), se_extra := quota_summary ctx\<rparr>"

text \<open>
  The two branches after the scenario: the state with the terminal event put, and the result, or the
  exception that \<^verbatim>\<open>except Exception\<close> does not catch.
\<close>

definition conclude ::
  "'w env \<Rightarrow> settings \<Rightarrow> exn_texts \<Rightarrow> 'w scenario \<Rightarrow> run_spec \<Rightarrow> 'w scenario_state \<Rightarrow> run_result result
     \<Rightarrow> quota_ctx \<times> run_result result" where
  "conclude env s txt sc spec st out =
     (let io = fst st; ctx = snd st; ts = now_iso env (world io) in
      case out of
        Inl e \<Rightarrow>
          if is_Exception e
          then let result = failed_result txt s (sp_run_id spec) (sc_id sc) ctx e in
               (put_event (error_event (sp_run_id spec) ts (sc_id sc) (exn_message txt s e) result) ctx,
                Inr result)
          else (ctx, Inl e)
      | Inr r \<Rightarrow>
          let result = r\<lparr>rr_summary := dict_update (rr_summary r) (quota_summary ctx)\<rparr> in
          (put_event (complete_event (sp_run_id spec) ts (sc_id sc) result ctx) ctx, Inr result))"

definition execute_inner ::
  "'w env \<Rightarrow> settings \<Rightarrow> exn_texts \<Rightarrow> 'w scenario \<Rightarrow> run_spec \<Rightarrow> 'w run_state
     \<Rightarrow> 'w run_state \<times> run_result result" where
  "execute_inner env s txt sc spec st =
     (let ts = now_iso env (world (st_io st));
          ctx = put_event (started_event (sp_run_id spec) ts (sc_id sc)) (st_ctx st)
      in case notify_run_started env s (st_io st) (sp_run_id spec) (sc_id sc) (sp_inputs spec) None of
           (io1, Inl e) \<Rightarrow> (st\<lparr>st_io := io1, st_ctx := ctx\<rparr>, Inl e)
         | (io1, Inr _) \<Rightarrow>
             (case (case sc_run sc of
                      None \<Rightarrow> ((io1, ctx), Inl AssertionError)
                    | Some run \<Rightarrow> run spec (io1, ctx)) of
                ((io2, ctx2), out) \<Rightarrow>
                  (case conclude env s txt sc spec (io2, ctx2) out of
                     (ctx3, Inl e) \<Rightarrow> (st\<lparr>st_io := io2, st_ctx := ctx3\<rparr>, Inl e)
                   | (ctx3, Inr result) \<Rightarrow>
                       (case notify_run_complete env s io2 (sp_run_id spec) (rr_status result)
                               (result_dump result) None of
                          (io3, r) \<Rightarrow>
                            (st\<lparr>st_io := io3, st_ctx := ctx3,
                                st_results := AList.update (sp_run_id spec) result (st_results st)\<rparr>,
                             rbind r (\<lambda>u. Inr result))))))"

definition execute ::
  "'w env \<Rightarrow> settings \<Rightarrow> exn_texts \<Rightarrow> 'w scenario \<Rightarrow> run_spec \<Rightarrow> string option
     \<Rightarrow> 'w io \<Rightarrow> (string, run_result) dict \<Rightarrow> step_event list \<Rightarrow> 'w run_state \<times> run_result result" where
  "execute env s txt sc spec client_ip io results queue =
     execute_inner env s txt sc spec
       \<lparr>st_io = io,
        st_ctx = \<lparr>qc_run_id = sp_run_id spec, qc_events = Some queue, qc_client_ip = client_ip, qc_denials = []\<rparr>,
        st_results = results\<rparr>"

text \<open>
  \<^verbatim>\<open>asyncio.wait_for(scenario.run(spec, events), settings.run_timeout_seconds)\<close>. The loop's clock is not part of the model, so
  whether the deadline strikes, and what the cancelled body has done until then, is a parameter: \<open>dl\<close> gives that state. The scenario that
  \<open>execute\<close> gets is the catalogue's with its body under the deadline.
\<close>

definition wait_for :: "('w scenario_state \<Rightarrow> 'w scenario_state option) \<Rightarrow> 'w scenario_body \<Rightarrow> 'w scenario_body" where
  "wait_for dl run spec st = (case dl st of Some st' \<Rightarrow> (st', Inl TimeoutError) | None \<Rightarrow> run spec st)"

definition timed :: "('w scenario_state \<Rightarrow> 'w scenario_state option) \<Rightarrow> 'w scenario \<Rightarrow> 'w scenario" where
  "timed dl sc = sc\<lparr>sc_run := map_option (wait_for dl) (sc_run sc)\<rparr>"

definition get_result :: "(string, run_result) dict \<Rightarrow> string \<Rightarrow> run_result option" where
  "get_result results run_id = map_of results run_id"

definition is_terminal :: "step_event \<Rightarrow> bool" where
  "is_terminal e \<longleftrightarrow> se_type e = ''run.complete'' \<or> se_type e = ''run.error''"

section \<open>Lemmas\<close>

lemma put_event_fields [simp]:
  "qc_denials (put_event e ctx) = qc_denials ctx" "qc_run_id (put_event e ctx) = qc_run_id ctx"
  "qc_events (put_event e ctx) = map_option (\<lambda>q. q @ [e]) (qc_events ctx)"
  by (simp_all add: put_event_def)

lemma quota_summary_put [simp]: "quota_summary (put_event e ctx) = quota_summary ctx"
  by (simp add: quota_summary_def split: list.split)

lemma terminal_events [simp]:
  "is_terminal (error_event run_id ts sid msg r)" "is_terminal (complete_event run_id ts sid r ctx)"
  "\<not> is_terminal (started_event run_id ts sid)"
  by (simp_all add: is_terminal_def error_event_def complete_event_def started_event_def mk_step_event_def)

lemma event_fields:
  "se_type (error_event run_id ts sid msg r) = ''run.error''"
  "se_type (complete_event run_id ts sid r ctx) = ''run.complete''"
  "se_run_id (error_event run_id ts sid msg r) = run_id"
  "se_run_id (complete_event run_id ts sid r ctx) = run_id"
  "se_status (error_event run_id ts sid msg r) = Some (rr_status r)"
  "se_status (complete_event run_id ts sid r ctx) = Some (rr_status r)"
  by (simp_all add: error_event_def complete_event_def mk_step_event_def)

lemma conclude_Inr:
  assumes "conclude env s txt sc spec (io, ctx) out = (ctx', Inr result)"
  shows "\<exists>e. ctx' = put_event e ctx \<and> is_terminal e \<and> se_run_id e = sp_run_id spec
    \<and> se_status e = Some (rr_status result)
    \<and> (se_type e = ''run.complete'' \<longleftrightarrow> \<not> isl out)"
proof (cases out)
  case (Inl x)
  with assms have "is_Exception x" by (auto simp: conclude_def Let_def split: if_splits)
  with Inl assms have "result = failed_result txt s (sp_run_id spec) (sc_id sc) ctx x"
    "ctx' = put_event (error_event (sp_run_id spec) (now_iso env (world io)) (sc_id sc) (exn_message txt s x) result) ctx"
    by (auto simp: conclude_def Let_def)
  with Inl show ?thesis by (auto simp: event_fields intro!: exI)
next
  case (Inr r)
  with assms have "ctx' = put_event (complete_event (sp_run_id spec) (now_iso env (world io)) (sc_id sc) result ctx) ctx"
    by (auto simp: conclude_def Let_def)
  with Inr show ?thesis by (auto simp: event_fields intro!: exI)
qed

lemma conclude_summary:
  assumes "conclude env s txt sc spec (io, ctx) out = (ctx', Inr result)" "qc_denials ctx \<noteq> []"
  shows "map_of (rr_summary result) ''llm_quota_exceeded'' = Some (JBool True)"
proof (cases "qc_denials ctx")
  case (Cons d ds)
  have "map_of (rev (quota_summary ctx)) ''llm_quota_exceeded'' = Some (JBool True)"
    by (simp add: quota_summary_def Cons)
  moreover have "map_of (quota_summary ctx) ''llm_quota_exceeded'' = Some (JBool True)"
    by (simp add: quota_summary_def Cons)
  ultimately show ?thesis
    using assms(1)
    by (auto simp: conclude_def Let_def failed_result_def map_of_dict_update map_add_def
        split: sum.splits if_splits)
qed (use assms(2) in simp)

text \<open>What a scenario body may do to the queue and which exceptions it may raise.\<close>

definition well_behaved :: "'w scenario_body \<Rightarrow> run_spec \<Rightarrow> bool" where
  "well_behaved run spec \<longleftrightarrow>
     (\<forall>io ctx. (\<exists>es. qc_events (snd (fst (run spec (io, ctx)))) = map_option (\<lambda>q. q @ es) (qc_events ctx)
               \<and> (\<forall>e \<in> set es. \<not> is_terminal e))
       \<and> (\<forall>e. snd (run spec (io, ctx)) = Inl e \<longrightarrow> is_Exception e))"

lemma conclude_returns:
  "(\<And>e. out = Inl e \<Longrightarrow> is_Exception e) \<Longrightarrow> \<exists>ctx' r. conclude env s txt sc spec st out = (ctx', Inr r)"
  by (auto simp: conclude_def Let_def split: sum.splits)

lemma execute_inner_Inr:
  assumes "execute_inner env s txt sc spec st = (st', Inr result)"
  obtains io1 io2 ctx2 out where
    "(case sc_run sc of
        None \<Rightarrow> ((io1, put_event (started_event (sp_run_id spec) (now_iso env (world (st_io st))) (sc_id sc)) (st_ctx st)),
                Inl AssertionError)
      | Some run \<Rightarrow> run spec (io1, put_event (started_event (sp_run_id spec) (now_iso env (world (st_io st))) (sc_id sc)) (st_ctx st)))
       = ((io2, ctx2), out)"
    "conclude env s txt sc spec (io2, ctx2) out = (st_ctx st', Inr result)"
    "st_results st' = AList.update (sp_run_id spec) result (st_results st)"
  using assms unfolding execute_inner_def Let_def
  by (auto split: prod.splits sum.splits simp: rbind_eq_Inr)

text \<open>The state a body starts in: after the start notification, with \<open>first\<close> on the queue and no refusal noted.\<close>

definition body_start :: "'w env \<Rightarrow> settings \<Rightarrow> string \<Rightarrow> run_spec \<Rightarrow> string option \<Rightarrow> 'w io \<Rightarrow> step_event list \<Rightarrow> step_event \<Rightarrow> 'w scenario_state" where
  "body_start env s sid spec client_ip io queue first =
     (fst (notify_run_started env s io (sp_run_id spec) sid (sp_inputs spec) None),
      \<lparr>qc_run_id = sp_run_id spec, qc_events = Some (queue @ [first]), qc_client_ip = client_ip, qc_denials = []\<rparr>)"

lemma execute_concluded:
  assumes "network_ok env"
    and "sc_run sc = Some run" and "well_behaved run spec"
    and "execute env s txt sc spec client_ip io results queue = (st, r)"
  obtains io0 ctx0 st2 out result first mid where
    "run spec (io0, ctx0) = (st2, out)" "conclude env s txt sc spec st2 out = (st_ctx st, Inr result)" "r = Inr result"
    "map_of (st_results st) (sp_run_id spec) = Some result" "qc_events (snd st2) = Some (queue @ first # mid)"
    "se_type first = ''run.started''" "\<forall>e \<in> set mid. \<not> is_terminal e"
    "(io0, ctx0) = body_start env s (sc_id sc) spec client_ip io queue first"
proof -
  let ?ctx = "\<lparr>qc_run_id = sp_run_id spec, qc_events = Some queue, qc_client_ip = client_ip, qc_denials = []\<rparr>"
  let ?first = "started_event (sp_run_id spec) (now_iso env (world io)) (sc_id sc)"
  obtain io1 where n1: "notify_run_started env s io (sp_run_id spec) (sc_id sc) (sp_inputs spec) None = (io1, Inr ())"
    using notify_ok(1)[OF assms(1)] by (metis prod.collapse)
  obtain io2 ctx2 out where run: "run spec (io1, put_event ?first ?ctx) = ((io2, ctx2), out)"
    by (metis prod.collapse)
  obtain es where es: "qc_events ctx2 = Some (queue @ ?first # es)" "\<forall>e \<in> set es. \<not> is_terminal e"
    and exc: "\<And>e. out = Inl e \<Longrightarrow> is_Exception e"
    using assms(3)[unfolded well_behaved_def, rule_format, of io1 "put_event ?first ?ctx"] run by auto
  obtain ctx3 result where c: "conclude env s txt sc spec (io2, ctx2) out = (ctx3, Inr result)"
    using conclude_returns[OF exc] by blast
  obtain io3 where n3: "notify_run_complete env s io2 (sp_run_id spec) (rr_status result) (result_dump result) None = (io3, Inr ())"
    using notify_ok(2)[OF assms(1)] by (metis prod.collapse)
  have "st_ctx st = ctx3 \<and> r = Inr result \<and> map_of (st_results st) (sp_run_id spec) = Some result"
    using assms(4) n1 run c n3 assms(2) by (auto simp: execute_def execute_inner_def Let_def)
  moreover have "se_type ?first = ''run.started''" by (simp add: started_event_def mk_step_event_def)
  moreover have "(io1, put_event ?first ?ctx) = body_start env s (sc_id sc) spec client_ip io queue ?first" using n1 by (simp add: body_start_def put_event_def)
  ultimately show ?thesis using es run c by (intro that[of io1 "put_event ?first ?ctx" "(io2, ctx2)" out result ?first es]) simp_all
qed

text \<open>A body that is stopped has put step events on the queue, and no terminal one.\<close>

definition cuts_quietly :: "('w scenario_state \<Rightarrow> 'w scenario_state option) \<Rightarrow> bool" where
  "cuts_quietly dl \<longleftrightarrow> (\<forall>io ctx st'. dl (io, ctx) = Some st' \<longrightarrow>
     (\<exists>es. qc_events (snd st') = map_option (\<lambda>q. q @ es) (qc_events ctx) \<and> (\<forall>e \<in> set es. \<not> is_terminal e)))"

lemma well_behaved_wait_for: "well_behaved run spec \<Longrightarrow> cuts_quietly dl \<Longrightarrow> well_behaved (wait_for dl run) spec"
  unfolding well_behaved_def cuts_quietly_def wait_for_def by (auto split: option.splits)

section \<open>Properties\<close>

text \<open>
  C5. A run ends exactly once, and visibly. If the network behaves and the scenario body only raises
  ordinary exceptions and never emits a terminal event itself, then \<^verbatim>\<open>execute\<close> returns a result, the
  result is stored under the run's id, and the run's queue has received \<^verbatim>\<open>run.started\<close>, then only
  non-terminal events, then exactly one terminal event (\<^verbatim>\<open>run.complete\<close> or \<^verbatim>\<open>run.error\<close>), carrying the
  status of the stored result.
\<close>

theorem run_ends_once:
  assumes "network_ok env"
    and "sc_run sc = Some run" and "well_behaved run spec"
    and "execute env s txt sc spec client_ip io results queue = (st, r)"
  shows "\<exists>result first mid last. r = Inr result
    \<and> map_of (st_results st) (sp_run_id spec) = Some result
    \<and> qc_events (st_ctx st) = Some (queue @ first # mid @ [last])
    \<and> se_type first = ''run.started'' \<and> (\<forall>e \<in> set mid. \<not> is_terminal e)
    \<and> is_terminal last \<and> se_run_id last = sp_run_id spec \<and> se_status last = Some (rr_status result)"
  using assms
proof (rule execute_concluded)
  fix io0 ctx0 st2 out result first mid
  assume c: "conclude env s txt sc spec st2 out = (st_ctx st, Inr result)" and r: "r = Inr result"
    "map_of (st_results st) (sp_run_id spec) = Some result" "qc_events (snd st2) = Some (queue @ first # mid)"
    "se_type first = ''run.started''" "\<forall>e \<in> set mid. \<not> is_terminal e"
  obtain io2 ctx2 where st2: "st2 = (io2, ctx2)" by (cases st2)
  obtain last where "st_ctx st = put_event last ctx2" "is_terminal last" "se_run_id last = sp_run_id spec"
    "se_status last = Some (rr_status result)"
    using conclude_Inr[OF c[unfolded st2]] by blast
  with r st2 show ?thesis by auto
qed

definition demo_spec :: run_spec where
  "demo_spec = \<lparr>sp_run_id = ''r1'', sp_scenario_id = ''s1'', sp_inputs = [], sp_registry_mode = ''single''\<rparr>"

definition demo_scenario :: "unit scenario" where
  "demo_scenario = \<lparr>sc_id = ''s1'', sc_name = [], sc_description = [], sc_registry_mode = ''single'',
     sc_agent_count = 1, sc_framework = ''langchain'', sc_default_inputs = [],
     sc_run = Some (\<lambda>spec st. (st, Inl TimeoutError))\<rparr>"

definition demo_texts :: exn_texts where
  "demo_texts = \<lparr>et_name = (\<lambda>e. ''E''), et_str = (\<lambda>e. ''m''), et_repr = (\<lambda>e. ''E(m)''), et_tb = (\<lambda>e. []), et_g = (\<lambda>x. ''600'')\<rparr>"

theorem run_ends_once_witness:
  "\<exists>result first mid last.
     snd (execute (quiet_env (busy_response ''2'')) default_settings demo_texts demo_scenario demo_spec None
        \<lparr>world = (), sent = []\<rparr> [] []) = Inr result
     \<and> qc_events (st_ctx (fst (execute (quiet_env (busy_response ''2'')) default_settings demo_texts demo_scenario
        demo_spec None \<lparr>world = (), sent = []\<rparr> [] []))) = Some ([] @ first # mid @ [last]) \<and> is_terminal last"
proof -
  have "retry_after_ok (busy_response ''2'')" by code_simp
  note net = network_ok_quiet[OF this]
  have run: "sc_run demo_scenario = Some (\<lambda>spec st. (st, Inl TimeoutError))"
    by (simp add: demo_scenario_def)
  have wb: "well_behaved (\<lambda>spec st. (st, Inl TimeoutError)) demo_spec"
    by (auto simp: well_behaved_def option.map_ident intro!: exI[of _ "[]"])
  show ?thesis
    using run_ends_once[OF net run wb prod.collapse[symmetric], of default_settings demo_texts None
        "\<lparr>world = (), sent = []\<rparr>" "[]" "[]"] by blast
qed

text \<open>
  A quota refusal always shows in the result. Whatever the scenario does, if the run's quota context
  holds a denial when the run ends with a result, that result's summary says \<^verbatim>\<open>llm_quota_exceeded\<close>.
\<close>

theorem quota_refusal_in_summary:
  assumes "execute env s txt sc spec client_ip io results queue = (st, Inr result)"
    and "qc_denials (st_ctx st) \<noteq> []"
  shows "map_of (rr_summary result) ''llm_quota_exceeded'' = Some (JBool True)"
  using assms(1)[unfolded execute_def]
proof (rule execute_inner_Inr)
  fix io1 io2 ctx2 out
  assume c: "conclude env s txt sc spec (io2, ctx2) out = (st_ctx st, Inr result)"
  then have "qc_denials ctx2 \<noteq> []" using conclude_Inr[OF c] assms(2) by auto
  with c show ?thesis by (rule conclude_summary)
qed

theorem quota_refusal_in_summary_witness:
  "let body = (\<lambda>spec (io, ctx). ((io, note_denial [] store_unavailable ctx), Inl TimeoutError));
       x = execute (quiet_env (busy_response ''2'')) default_settings demo_texts
             (demo_scenario\<lparr>sc_run := Some body\<rparr>) demo_spec None \<lparr>world = (), sent = []\<rparr> [] []
   in map_of (rr_summary (projr (snd x))) ''llm_quota_exceeded'' = Some (JBool True)"
proof -
  define body :: "unit scenario_body" where
    "body = (\<lambda>spec (io, ctx). ((io, note_denial [] store_unavailable ctx), Inl TimeoutError))"
  let ?x = "execute (quiet_env (busy_response ''2'')) default_settings demo_texts
             (demo_scenario\<lparr>sc_run := Some body\<rparr>) demo_spec None \<lparr>world = (), sent = []\<rparr> [] []"
  have "\<exists>st result. ?x = (st, Inr result) \<and> qc_denials (st_ctx st) \<noteq> []"
    by (simp add: execute_def execute_inner_def Let_def notify_run_started_def notify_run_complete_def
        tenant_header_def cp_post_def control_plane_enabled_def default_settings_def body_def conclude_def
        note_denial_def)
  then obtain st result where x: "?x = (st, Inr result)" "qc_denials (st_ctx st) \<noteq> []" by blast
  from quota_refusal_in_summary[OF x] x(1) show ?thesis by (simp add: body_def)
qed

text \<open>
  A run can end with neither result nor terminal event. When the control plane answers the start
  notification with a 503 whose \<^verbatim>\<open>Retry-After\<close> is a superscript digit, the task dies with \<^verbatim>\<open>ValueError\<close>
  before the scenario starts: the queue holds only \<^verbatim>\<open>run.started\<close> and nothing is stored, whatever the
  scenario is.
\<close>

theorem run_lost_on_retry_after:
  "let x = execute (quiet_env (busy_response [CHR 0xB2])) cp_settings txt sc spec client_ip io results queue
   in snd x = Inl ValueError \<and> st_results (fst x) = results
      \<and> (\<exists>first. qc_events (st_ctx (fst x)) = Some (queue @ [first]) \<and> se_type first = ''run.started'')"
proof -
  let ?n = "notify_run_started (quiet_env (busy_response [CHR 0xB2])) cp_settings io (sp_run_id spec) (sc_id sc) (sp_inputs spec) None"
  have "?n = (fst ?n, Inl ValueError)" using superscript_breaks_notify(1) by (metis prod.collapse)
  then show ?thesis
    by (cases ?n) (simp add: execute_def execute_inner_def Let_def started_event_def mk_step_event_def)
qed

text \<open>
  A rejection is a verdict of the SDK. \<^verbatim>\<open>expect_rejection\<close> reports a rejection exactly when the call
  raised one of the listed exceptions; a \<^verbatim>\<open>TypeError\<close>, a transport error, an assertion or a
  cancellation is never scored as one but propagates.
\<close>

theorem sdk_rejection_is_verdict:
  "(expect_rejection str SDK_REJECTIONS call = Inr (True, why)
     \<longleftrightarrow> (\<exists>e. call = Inl e \<and> SDK_REJECTIONS e \<and> why = str e))
   \<and> (expect_rejection str SDK_REJECTIONS call = Inr (False, why) \<longleftrightarrow> why = [] \<and> \<not> isl call)
   \<and> list_all (\<lambda>e. expect_rejection str SDK_REJECTIONS (Inl e :: 'a result) = Inl e)
       [TypeError, KeyError, AttributeError, HTTPError, AssertionError, TimeoutError, CancelledError]"
  by (cases call) (auto simp: expect_rejection_def run_guarded_def SDK_REJECTIONS_def rbind_def)

end
