(* ===== verification/Rate_Limit.thy ===== *)
theory Rate_Limit
  imports Config
begin

text \<open>
  playground/rate\_limit.py: the run limiter behind \<^verbatim>\<open>POST /runs\<close>. Its state is the dict of recent
  launch instants per client and the number of runs in flight. The lemmas show the two limits it
  promises: per client never more than \<^verbatim>\<open>run_rate_limit_per_ip\<close> launches in any window, and never
  more than \<^verbatim>\<open>max_concurrent_runs\<close> slots held; and that the \<^verbatim>\<open>Retry-After\<close> it answers is enough.
\<close>

section \<open>The limiter\<close>

record limiter =
  launches :: "(string, real list) dict"
  active :: int

definition new_limiter :: limiter where
  "new_limiter = \<lparr>launches = [], active = 0\<rparr>"

definition CONCURRENCY_RETRY_AFTER_SECONDS :: int where
  "CONCURRENCY_RETRY_AFTER_SECONDS = 10"

definition limiter_prune :: "real \<Rightarrow> (string, real list) dict \<Rightarrow> (string, real list) dict" where
  "limiter_prune cutoff d =
     (if length d < 1024 then d
      else filter (\<lambda>(ip, q). \<not> (q = [] \<or> last q \<le> cutoff)) d)"

definition acquire :: "settings \<Rightarrow> limiter \<Rightarrow> string option \<Rightarrow> real \<Rightarrow> limiter \<times> unit result" where
  "acquire s l client_ip now =
     (if active l \<ge> max_concurrent_runs s
      then (l, Inl (RunLimitExceeded ''max_concurrent_runs'' (max_concurrent_runs s)
                      CONCURRENCY_RETRY_AFTER_SECONDS))
      else case client_ip of
        None \<Rightarrow> (l\<lparr>active := active l + 1\<rparr>, Inr ())
      | Some ip \<Rightarrow>
          let window = real_of_int (run_rate_limit_window_seconds s);
              q = dropWhile (\<lambda>t. t \<le> now - window) (dict_get_default (launches l) ip []);
              l1 = l\<lparr>launches := AList.update ip q (launches l)\<rparr>
          in if int (length q) \<ge> run_rate_limit_per_ip s
             then (l1, case q of
                         [] \<Rightarrow> Inl IndexError
                       | t # _ \<Rightarrow> Inl (RunLimitExceeded ''run_rate_limited''
                                        (run_rate_limit_per_ip s) (max 1 \<lceil>t + window - now\<rceil>)))
             else (l1\<lparr>launches := limiter_prune (now - window)
                                   (AList.update ip (q @ [now]) (launches l1)),
                      active := active l1 + 1\<rparr>, Inr ()))"

definition release :: "limiter \<Rightarrow> limiter" where
  "release l = l\<lparr>active := max 0 (active l - 1)\<rparr>"

section \<open>Slots\<close>

text \<open>
  What the run endpoint relies on: reserving a slot either fails and holds nothing, or holds one
  more within the capacity; releasing gives one back and never goes below zero.
\<close>

locale run_slots =
  fixes acq :: "'s \<Rightarrow> 'r \<Rightarrow> 's \<times> unit result"
    and rel :: "'s \<Rightarrow> 's"
    and held :: "'s \<Rightarrow> int"
    and cap :: int
  assumes acq_ok: "acq s r = (s', Inr ()) \<Longrightarrow> held s' = held s + 1 \<and> held s' \<le> cap"
    and acq_fail: "acq s r = (s', Inl e) \<Longrightarrow> held s' = held s"
    and rel_held: "held (rel s) = max 0 (held s - 1)"
begin

text \<open>
  The endpoint's use of the slots: \<open>Inl r\<close> is a launch request, \<open>Inr ()\<close> the completion of one of
  the tasks in flight (there must be one). The second component counts the tasks in flight.
\<close>

fun slot_step :: "'s \<times> nat \<Rightarrow> 'r + unit \<Rightarrow> 's \<times> nat" where
  "slot_step (s, n) (Inl r) = (case acq s r of (s', Inr _) \<Rightarrow> (s', Suc n) | (s', Inl e) \<Rightarrow> (s', n))"
| "slot_step (s, n) (Inr u) = (if n = 0 then (s, n) else (rel s, n - 1))"

lemma slot_step_inv:
  assumes "held s = int n" "int n \<le> cap" "slot_step (s, n) ev = (s', n')"
  shows "held s' = int n' \<and> int n' \<le> cap"
proof (cases ev)
  case (Inl r)
  obtain s1 x where a: "acq s r = (s1, x)" by (cases "acq s r")
  show ?thesis
  proof (cases x)
    case (Inl e)
    with a have fail: "acq s r = (s1, Inl e)" by simp
    with assms(3) \<open>ev = Inl r\<close> have "s' = s1" "n' = n" by simp_all
    with acq_fail[OF fail] assms(1,2) show ?thesis by simp
  next
    case (Inr u)
    with a have ok: "acq s r = (s1, Inr ())" by simp
    with assms(3) \<open>ev = Inl r\<close> have "s' = s1" "n' = Suc n" by simp_all
    with acq_ok[OF ok] assms(1) show ?thesis by simp
  qed
next
  case (Inr u)
  then have "slot_step (s, n) ev = (if n = 0 then (s, n) else (rel s, n - 1))" by simp
  with assms(3) have "(s', n') = (if n = 0 then (s, n) else (rel s, n - 1))" by simp
  with assms(1,2) rel_held[of s] show ?thesis by (cases "n = 0") auto
qed

lemma slot_run_inv:
  assumes "held s = int n" "int n \<le> cap"
  shows "held (fst (foldl slot_step (s, n) evs)) = int (snd (foldl slot_step (s, n) evs))
       \<and> int (snd (foldl slot_step (s, n) evs)) \<le> cap"
  using assms
proof (induction evs arbitrary: s n)
  case Nil
  then show ?case by simp
next
  case (Cons ev evs)
  obtain s' n' where st: "slot_step (s, n) ev = (s', n')" by (cases "slot_step (s, n) ev")
  with Cons.prems have "held s' = int n' \<and> int n' \<le> cap" by (rule slot_step_inv)
  with Cons.IH[of s' n'] st show ?case by simp
qed

end

lemma acquire_active:
  "acquire s l ip now = (l', Inr u) \<Longrightarrow> active l' = active l + 1 \<and> active l' \<le> max_concurrent_runs s"
  "acquire s l ip now = (l', Inl e) \<Longrightarrow> active l' = active l"
  by (auto simp: acquire_def Let_def split: if_splits option.splits list.splits)

interpretation limiter_slots:
  run_slots "\<lambda>l (ip, now). acquire s l ip now" release active "max_concurrent_runs s" for s
  by unfold_locales (auto simp: release_def dest: acquire_active)


section \<open>The sliding window\<close>

text \<open>
  A history of the limiter: launch requests with the instant they were made, and completions.
  The second component collects the launches admitted for a client, in order.
\<close>

datatype limiter_event = Launch "string option" real | Finish

fun limiter_step ::
  "settings \<Rightarrow> limiter \<times> (string \<times> real) list \<Rightarrow> limiter_event \<Rightarrow> limiter \<times> (string \<times> real) list" where
  "limiter_step s (l, adm) (Launch ip now) =
     (case acquire s l ip now of
        (l', Inr _) \<Rightarrow> (l', adm @ (case ip of None \<Rightarrow> [] | Some i \<Rightarrow> [(i, now)]))
      | (l', Inl _) \<Rightarrow> (l', adm))"
| "limiter_step s (l, adm) Finish = (release l, adm)"

definition limiter_run :: "settings \<Rightarrow> limiter_event list \<Rightarrow> limiter \<times> (string \<times> real) list" where
  "limiter_run s evs = foldl (limiter_step s) (new_limiter, []) evs"

fun launch_times :: "limiter_event list \<Rightarrow> real list" where
  "launch_times [] = []"
| "launch_times (Launch ip t # evs) = t # launch_times evs"
| "launch_times (Finish # evs) = launch_times evs"

definition times_of :: "string \<Rightarrow> (string \<times> real) list \<Rightarrow> real list" where
  "times_of ip adm = map snd (filter (\<lambda>x. fst x = ip) adm)"

text \<open>
  The relation between the admitted instants \<open>h\<close> of one client and its queue \<open>q\<close> at time \<open>T\<close>: the
  queue is what is left of the history after instants that no window of length \<open>W\<close> ending at
  \<open>T\<close> or later can hold.
\<close>

definition window_inv :: "nat \<Rightarrow> real \<Rightarrow> real \<Rightarrow> real list \<Rightarrow> real list \<Rightarrow> bool" where
  "window_inv N W T h q \<longleftrightarrow>
     (\<exists>old. h = old @ q \<and> (\<forall>u \<in> set old. u \<le> T - W)) \<and> length q \<le> N \<and> sorted h
     \<and> (\<forall>u \<in> set h. u \<le> T) \<and> (\<forall>t. length (filter (\<lambda>u. t - W < u \<and> u \<le> t) h) \<le> N)"

lemma window_inv_mono:
  assumes "window_inv N W T h q" "T \<le> T'"
  shows "window_inv N W T' h q"
proof -
  obtain old where "h = old @ q" "\<forall>u \<in> set old. u \<le> T - W"
    using assms(1) by (auto simp: window_inv_def)
  moreover from this assms(2) have "\<forall>u \<in> set old. u \<le> T' - W" by fastforce
  moreover have "\<forall>u \<in> set h. u \<le> T'" using assms by (fastforce simp: window_inv_def)
  ultimately show ?thesis using assms(1) unfolding window_inv_def by blast
qed

lemma window_inv_drop:
  assumes "window_inv N W T h q"
  shows "window_inv N W T h (dropWhile (\<lambda>t. t \<le> T - W) q)"
proof -
  let ?P = "\<lambda>t. t \<le> T - W"
  obtain old where old: "h = old @ q" "\<forall>u \<in> set old. u \<le> T - W"
    using assms by (auto simp: window_inv_def)
  have "h = (old @ takeWhile ?P q) @ dropWhile ?P q" using old(1) by simp
  moreover have "\<forall>u \<in> set (old @ takeWhile ?P q). u \<le> T - W"
    using old(2) set_takeWhileD[of _ ?P q] by auto
  moreover have "length (dropWhile ?P q) \<le> N"
    using assms length_dropWhile_le[of ?P q] by (simp add: window_inv_def)
  ultimately show ?thesis using assms unfolding window_inv_def by blast
qed

lemma window_inv_clear:
  assumes "window_inv N W T h q" "q = [] \<or> last q \<le> T - W"
  shows "window_inv N W T h []"
proof -
  obtain old where old: "h = old @ q" "\<forall>u \<in> set old. u \<le> T - W"
    using assms(1) by (auto simp: window_inv_def)
  have "sorted q" using assms(1) old(1) by (simp add: window_inv_def sorted_append)
  then have "u \<le> last q" if "u \<in> set q" for u
    using that by (rule sorted_le_last)
  with assms(2) old have "\<forall>u \<in> set h. u \<le> T - W" by fastforce
  with assms(1) show ?thesis unfolding window_inv_def by auto
qed

lemma window_inv_push:
  assumes inv: "window_inv N W T h q" and room: "length q < N"
  shows "window_inv N W T (h @ [T]) (q @ [T])"
proof -
  obtain old where old: "h = old @ q" "\<forall>u \<in> set old. u \<le> T - W"
    using inv by (auto simp: window_inv_def)
  have "length (filter (\<lambda>u. t - W < u \<and> u \<le> t) (h @ [T])) \<le> N" for t
  proof (cases "t < T")
    case True
    with inv show ?thesis by (simp add: window_inv_def)
  next
    case False
    then have "filter (\<lambda>u. t - W < u \<and> u \<le> t) old = []"
      using old(2) by (fastforce simp: filter_empty_conv)
    then have "length (filter (\<lambda>u. t - W < u \<and> u \<le> t) (h @ [T])) \<le> length (q @ [T])"
      using old(1) by (simp add: le_SucI)
    with room show ?thesis by simp
  qed
  moreover have "h @ [T] = old @ (q @ [T])" using old(1) by simp
  ultimately show ?thesis
    using inv old(2) room unfolding window_inv_def by (auto simp: sorted_append)
qed

definition lim_inv :: "settings \<Rightarrow> limiter \<Rightarrow> (string \<times> real) list \<Rightarrow> real \<Rightarrow> bool" where
  "lim_inv s l adm T \<longleftrightarrow> wf_dict (launches l) \<and>
     (\<forall>ip. window_inv (nat (run_rate_limit_per_ip s)) (real_of_int (run_rate_limit_window_seconds s)) T
        (times_of ip adm) (dict_get_default (launches l) ip []))"

lemma prune_lookup:
  assumes "wf_dict d"
  shows "dict_get_default (limiter_prune c d) ip [] = dict_get_default d ip [] \<or>
     (dict_get_default (limiter_prune c d) ip [] = []
      \<and> (dict_get_default d ip [] = [] \<or> last (dict_get_default d ip []) \<le> c))"
proof -
  have "map_of (filter (\<lambda>(ip, q). \<not> (q = [] \<or> last q \<le> c)) d) ip =
      (case map_of d ip of None \<Rightarrow> None | Some q \<Rightarrow> if q = [] \<or> last q \<le> c then None else Some q)"
    using assms
  proof (induction d)
    case Nil
    then show ?case by simp
  next
    case (Cons kv d)
    have "map_of d (fst kv) = None"
      using Cons.prems by (simp add: map_of_eq_None_iff)
    with Cons show ?case by (cases kv) (auto split: option.splits)
  qed
  then show ?thesis
    by (auto simp: limiter_prune_def dict_get_default_def split: option.splits)
qed

lemma wf_dict_prune: "wf_dict d \<Longrightarrow> wf_dict (limiter_prune c d)"
  unfolding limiter_prune_def
  by (auto simp: distinct_map inj_on_def)

lemma dict_get_default_update [simp]:
  "dict_get_default (AList.update k v d) k' z = (if k' = k then v else dict_get_default d k' z)"
  by (simp add: dict_get_default_def)


lemma times_of_append: "times_of ip (adm @ [(i, t)]) = times_of ip adm @ (if i = ip then [t] else [])"
  by (simp add: times_of_def)

lemma lim_inv_mono: "lim_inv s l adm T \<Longrightarrow> T \<le> T' \<Longrightarrow> lim_inv s l adm T'"
  unfolding lim_inv_def by (blast intro: window_inv_mono)

lemma lim_inv_new: "lim_inv s new_limiter [] T"
  by (simp add: lim_inv_def new_limiter_def window_inv_def times_of_def dict_get_default_def)

text \<open>Storing the trimmed queue of one client keeps the invariant.\<close>

lemma lim_inv_trim:
  fixes ip :: string
  assumes inv: "lim_inv s l adm now"
  defines "W \<equiv> real_of_int (run_rate_limit_window_seconds s)"
  defines "q \<equiv> dropWhile (\<lambda>t. t \<le> now - W) (dict_get_default (launches l) ip [])"
  shows "lim_inv s (l\<lparr>launches := AList.update ip q (launches l)\<rparr>) adm now"
  using inv window_inv_drop unfolding lim_inv_def q_def W_def
  by (auto intro: distinct_update)

text \<open>So does recording an admitted launch and pruning.\<close>

lemma lim_inv_record:
  assumes inv: "lim_inv s l adm now"
    and q: "dict_get_default (launches l) ip [] = q"
    and room: "int (length q) < run_rate_limit_per_ip s"
  defines "W \<equiv> real_of_int (run_rate_limit_window_seconds s)"
  shows "lim_inv s (l\<lparr>launches := limiter_prune (now - W) (AList.update ip (q @ [now]) (launches l)),
                      active := n\<rparr>) (adm @ [(ip, now)]) now"
proof -
  let ?N = "nat (run_rate_limit_per_ip s)"
  let ?d = "AList.update ip (q @ [now]) (launches l)"
  have wf: "wf_dict ?d" using inv by (simp add: lim_inv_def distinct_update)
  have "window_inv ?N W now (times_of i (adm @ [(ip, now)])) (dict_get_default ?d i [])" for i
    using inv q room window_inv_push[of ?N W now "times_of ip adm" q]
    by (auto simp: lim_inv_def W_def times_of_append)
  then have "window_inv ?N W now (times_of i (adm @ [(ip, now)]))
      (dict_get_default (limiter_prune (now - W) ?d) i [])" for i
    using prune_lookup[OF wf, of "now - W" i] window_inv_clear by metis
  then show ?thesis
    using wf_dict_prune[OF wf] by (simp add: lim_inv_def W_def)
qed

lemma lim_inv_active [simp]: "lim_inv s (l\<lparr>active := n\<rparr>) adm T = lim_inv s l adm T"
  by (simp add: lim_inv_def)

lemma limiter_step_inv:
  assumes inv: "lim_inv s l adm T"
    and mono: "\<And>ip now. ev = Launch ip now \<Longrightarrow> T \<le> now"
    and st: "limiter_step s (l, adm) ev = (l', adm')"
  shows "lim_inv s l' adm' (case ev of Launch ip now \<Rightarrow> now | Finish \<Rightarrow> T)"
proof (cases ev)
  case Finish
  with inv st show ?thesis by (auto simp: release_def)
next
  case (Launch ip now)
  with inv mono have inv': "lim_inv s l adm now" by (blast intro: lim_inv_mono)
  show ?thesis
  proof (cases "active l \<ge> max_concurrent_runs s \<or> ip = None")
    case True
    with inv' st Launch show ?thesis by (auto simp: acquire_def split: if_splits option.splits)
  next
    case False
    then obtain i where i: "ip = Some i" and free: "\<not> active l \<ge> max_concurrent_runs s" by auto
    define q where "q = dropWhile (\<lambda>t. t \<le> now - real_of_int (run_rate_limit_window_seconds s))
                (dict_get_default (launches l) i [])"
    let ?l1 = "l\<lparr>launches := AList.update i q (launches l)\<rparr>"
    have trim: "lim_inv s ?l1 adm now" unfolding q_def by (rule lim_inv_trim[OF inv'])
    show ?thesis
    proof (cases "int (length q) \<ge> run_rate_limit_per_ip s")
      case True
      with i free st Launch have "l' = ?l1 \<and> adm' = adm"
        by (auto simp: acquire_def Let_def simp flip: q_def split: list.splits)
      with trim Launch show ?thesis by simp
    next
      case False
      then have room: "int (length q) < run_rate_limit_per_ip s" by simp
      have "dict_get_default (launches ?l1) i [] = q" by simp
      note lim_inv_record[OF trim this room, of "active l + 1"]
      with i free st Launch False show ?thesis
        by (simp add: acquire_def Let_def flip: q_def)
    qed
  qed
qed

lemma limiter_run_inv:
  assumes "lim_inv s l adm T" "sorted (T # launch_times evs)"
    and "foldl (limiter_step s) (l, adm) evs = (l', adm')"
  shows "\<exists>T'. lim_inv s l' adm' T'"
  using assms
proof (induction evs arbitrary: l adm T)
  case Nil
  then show ?case by auto
next
  case (Cons ev evs)
  obtain l1 adm1 where st: "limiter_step s (l, adm) ev = (l1, adm1)"
    by (cases "limiter_step s (l, adm) ev")
  let ?T = "case ev of Launch ip now \<Rightarrow> now | Finish \<Rightarrow> T"
  have "lim_inv s l1 adm1 ?T"
    using Cons.prems(1,2) by (intro limiter_step_inv[OF _ _ st]) auto
  moreover have "sorted (?T # launch_times evs)"
    using Cons.prems(2) by (cases ev) auto
  moreover have "foldl (limiter_step s) (l1, adm1) evs = (l', adm')"
    using Cons.prems(3) st by simp
  ultimately show ?case by (rule Cons.IH)
qed

lemma lim_inv_window:
  "lim_inv s l adm T \<Longrightarrow>
     length (filter (\<lambda>u. t - real_of_int (run_rate_limit_window_seconds s) < u \<and> u \<le> t)
       (times_of ip adm)) \<le> nat (run_rate_limit_per_ip s)"
  by (simp add: lim_inv_def window_inv_def)

lemma lim_inv_queue:
  "lim_inv s l adm T \<Longrightarrow> length (dict_get_default (launches l) ip []) \<le> nat (run_rate_limit_per_ip s)"
  by (simp add: lim_inv_def window_inv_def)

lemma acquire_rate_limited:
  assumes "acquire s l (Some ip) now = (l', Inl (RunLimitExceeded ''run_rate_limited'' n r))"
  defines "W \<equiv> real_of_int (run_rate_limit_window_seconds s)"
  obtains t q where "dropWhile (\<lambda>t. t \<le> now - W) (dict_get_default (launches l) ip []) = t # q"
    and "r = max 1 \<lceil>t + W - now\<rceil>" and "dict_get_default (launches l') ip [] = t # q"
    and "active l < max_concurrent_runs s"
proof -
  have "\<exists>t q. dropWhile (\<lambda>t. t \<le> now - W) (dict_get_default (launches l) ip []) = t # q
      \<and> r = max 1 \<lceil>t + W - now\<rceil> \<and> dict_get_default (launches l') ip [] = t # q
      \<and> active l < max_concurrent_runs s"
    using assms(1) by (auto simp: acquire_def Let_def W_def split: if_splits list.splits)
  with that show ?thesis by blast
qed

lemma acquire_admits:
  assumes "active l < max_concurrent_runs s"
    and "int (length (dropWhile (\<lambda>t. t \<le> now - real_of_int (run_rate_limit_window_seconds s))
           (dict_get_default (launches l) ip []))) < run_rate_limit_per_ip s"
  shows "snd (acquire s l (Some ip) now) = Inr ()"
  using assms by (simp add: acquire_def Let_def)

section \<open>Properties\<close>

text \<open>
  C1. Sliding-window rate limit. In every history whose launch requests come at non-decreasing
  instants, the launches admitted for any one client within any window of
  \<^verbatim>\<open>run_rate_limit_window_seconds\<close> number at most \<^verbatim>\<open>run_rate_limit_per_ip\<close>, whatever other clients do
  and however often the map of clients is pruned.
\<close>

theorem rate_limit_sliding_window:
  assumes "settings_fields_ok s"
    and "sorted (launch_times evs)"
    and "limiter_run s evs = (l, adm)"
  shows "int (length (filter (\<lambda>u. t - real_of_int (run_rate_limit_window_seconds s) < u \<and> u \<le> t)
            (times_of ip adm))) \<le> run_rate_limit_per_ip s"
proof -
  have "\<exists>T. sorted (T # launch_times evs)"
    using assms(2) by (cases "launch_times evs") auto
  then obtain T where "sorted (T # launch_times evs)" ..
  from limiter_run_inv[OF lim_inv_new this assms(3)[unfolded limiter_run_def]]
  obtain T' where "lim_inv s l adm T'" ..
  from lim_inv_window[OF this] have
    "length (filter (\<lambda>u. t - real_of_int (run_rate_limit_window_seconds s) < u \<and> u \<le> t)
       (times_of ip adm)) \<le> nat (run_rate_limit_per_ip s)" .
  with settings_limits_pos(1)[OF assms(1)] show ?thesis by linarith
qed

theorem rate_limit_sliding_window_witness:
  "int (length (filter (\<lambda>u. 700 - real_of_int (run_rate_limit_window_seconds default_settings) < u \<and> u \<le> 700)
     (times_of ''10.0.0.1'' (snd (limiter_run default_settings
        [Launch (Some ''10.0.0.1'') 1, Launch (Some ''10.0.0.1'') 650, Finish])))))
   \<le> run_rate_limit_per_ip default_settings"
proof (rule rate_limit_sliding_window[OF _ _ prod.collapse[symmetric]])
  show "settings_fields_ok default_settings"
    by (simp add: settings_fields_ok_def default_settings_def)
  show "sorted (launch_times
     [Launch (Some ''10.0.0.1'') 1, Launch (Some ''10.0.0.1'') 650, Finish])"
    by simp
qed


text \<open>
  The \<^verbatim>\<open>Retry-After\<close> of a rate-limited launch is honest: in any state the limiter reaches, if a
  client is refused as \<^verbatim>\<open>run_rate_limited\<close> with a retry delay of \<open>r\<close> seconds, then a retry at least
  \<open>r\<close> seconds later that finds a free slot is admitted.
\<close>

theorem rate_limit_retry_after_sufficient:
  assumes "settings_fields_ok s"
    and "sorted (launch_times evs @ [now])"
    and "limiter_run s evs = (l, adm)"
    and "acquire s l (Some ip) now = (l', Inl (RunLimitExceeded ''run_rate_limited'' n r))"
    and "now + real_of_int r \<le> later"
    and "free < max_concurrent_runs s"
  shows "snd (acquire s (l'\<lparr>active := free\<rparr>) (Some ip) later) = Inr ()"
proof -
  let ?W = "real_of_int (run_rate_limit_window_seconds s)"
  have "\<exists>T. sorted (T # launch_times evs)"
    using assms(2) by (cases "launch_times evs") (auto simp: sorted_append)
  then obtain T where "sorted (T # launch_times evs)" ..
  from limiter_run_inv[OF lim_inv_new this assms(3)[unfolded limiter_run_def]]
  obtain T' where "lim_inv s l adm T'" ..
  then have full: "length (dict_get_default (launches l) ip []) \<le> nat (run_rate_limit_per_ip s)"
    by (rule lim_inv_queue)
  obtain t q where q: "dropWhile (\<lambda>t. t \<le> now - ?W) (dict_get_default (launches l) ip []) = t # q"
    and r: "r = max 1 \<lceil>t + ?W - now\<rceil>" and l': "dict_get_default (launches l') ip [] = t # q"
    by (rule acquire_rate_limited[OF assms(4)])
  have "length (t # q) \<le> nat (run_rate_limit_per_ip s)"
    using full length_dropWhile_le[of "\<lambda>t. t \<le> now - ?W" "dict_get_default (launches l) ip []"] q
    by simp
  then have "int (length q) < run_rate_limit_per_ip s" by simp
  moreover have "t + ?W - now \<le> real_of_int r" unfolding r by linarith
  then have "t \<le> later - ?W" using assms(5) by linarith
  then have "length (dropWhile (\<lambda>t. t \<le> later - ?W) (t # q)) \<le> length q"
    by (simp add: length_dropWhile_le)
  ultimately show ?thesis
    using assms(6) l' by (intro acquire_admits) auto
qed

definition retry_demo :: settings where
  "retry_demo = default_settings\<lparr>run_rate_limit_per_ip := 1\<rparr>"

theorem rate_limit_retry_after_sufficient_witness:
  "snd (acquire retry_demo (fst (acquire retry_demo (fst (limiter_run retry_demo
      [Launch (Some ''ip'') 10])) (Some ''ip'') 20)\<lparr>active := 0\<rparr>) (Some ''ip'') 700) = Inr ()"
proof (rule rate_limit_retry_after_sufficient)
  show "settings_fields_ok retry_demo"
    by (simp add: settings_fields_ok_def default_settings_def retry_demo_def)
  show "sorted (launch_times [Launch (Some ''ip'') 10] @ [20])" by simp
  show "limiter_run retry_demo [Launch (Some ''ip'') 10] =
      (fst (limiter_run retry_demo [Launch (Some ''ip'') 10]), [(''ip'', 10)])"
    by (simp add: limiter_run_def retry_demo_def acquire_def default_settings_def new_limiter_def
        dict_get_default_def)
  show "acquire retry_demo (fst (limiter_run retry_demo [Launch (Some ''ip'') 10])) (Some ''ip'') 20 =
      (fst (acquire retry_demo (fst (limiter_run retry_demo [Launch (Some ''ip'') 10])) (Some ''ip'') 20),
       Inl (RunLimitExceeded ''run_rate_limited'' 1 590))"
    by (simp add: limiter_run_def retry_demo_def acquire_def default_settings_def new_limiter_def
        dict_get_default_def limiter_prune_def)
qed (simp_all add: retry_demo_def default_settings_def)

end
