(* ===== verification/Runs.thy ===== *)
theory Runs
  imports Runner Rate_Limit
begin

text \<open>
  playground/events.py and playground/api/runs.py: the event bus, the run endpoints and the SSE stream,
  as operations on one application state, and the interleavings the event loop allows between them.

  A queue is an object: the bus maps a run id to one, the run's task keeps its own reference, so it
  lives on in the heap of queues after the bus has dropped it. Between two awaits a coroutine is not
  interrupted, so each step below is the code between two awaits.
\<close>

section \<open>The event bus\<close>

record app =
  event_bus :: "(string, nat) dict"
  queues :: "step_event list list"
  results :: "(string, run_result) dict"
  run_limiter :: limiter
  tasks :: "nat list"

definition new_app :: app where
  "new_app = \<lparr>event_bus = [], queues = [], results = [], run_limiter = new_limiter, tasks = []\<rparr>"

definition create_queue :: "app \<Rightarrow> string \<Rightarrow> app \<times> nat" where
  "create_queue a run_id =
     (case map_of (event_bus a) run_id of
        Some q \<Rightarrow> (a, q)
      | None \<Rightarrow>
          let q = length (queues a) in
          (a\<lparr>queues := queues a @ [[]], event_bus := AList.update run_id q (event_bus a)\<rparr>, q))"

definition get_queue :: "app \<Rightarrow> string \<Rightarrow> nat option" where
  "get_queue a run_id = map_of (event_bus a) run_id"

definition drop_queue :: "app \<Rightarrow> string \<Rightarrow> app" where
  "drop_queue a run_id = a\<lparr>event_bus := AList.delete run_id (event_bus a)\<rparr>"

definition queue_put :: "app \<Rightarrow> nat \<Rightarrow> step_event \<Rightarrow> app" where
  "queue_put a q e = a\<lparr>queues := (queues a)[q := queues a ! q @ [e]]\<rparr>"

definition publish :: "app \<Rightarrow> step_event \<Rightarrow> app" where
  "publish a e = (case get_queue a (se_run_id e) of None \<Rightarrow> a | Some q \<Rightarrow> queue_put a q e)"

section \<open>Starting a run\<close>

text \<open>What the middleware left on the request, and the peer address.\<close>

record run_http_request =
  rh_per_ip_limits :: "bool option"
  rh_client_ip :: "string option"
  rh_client_host :: "string option"

definition charged_ip :: "run_http_request \<Rightarrow> string option" where
  "charged_ip rq =
     (if rh_per_ip_limits rq = Some False then None
      else case rh_client_ip rq of
             Some (c # s) \<Rightarrow> Some (c # s)
           | _ \<Rightarrow> rh_client_host rq)"

record run_request =
  rq_scenario_id :: string
  rq_inputs :: "(string, json) dict"
  rq_registry_mode :: "string option"

text \<open>
  The task that is created: its number, queue, specification and charged address. \<open>run_id\<close> is the
  fresh UUID and \<open>now\<close> the monotonic clock. The 429 also carries the message text and, as its Retry-After
  header, the same number of seconds.
\<close>

record run_task =
  rt_queue :: nat
  rt_spec :: run_spec
  rt_client_ip :: "string option"

definition start_run ::
  "settings \<Rightarrow> (string, 'w scenario) dict \<Rightarrow> app \<Rightarrow> run_request \<Rightarrow> run_http_request \<Rightarrow> string \<Rightarrow> real \<Rightarrow> nat
     \<Rightarrow> app \<times> run_task result" where
  "start_run s reg a req rq run_id now task =
     (case get_scenario reg (rq_scenario_id req) of
        None \<Rightarrow> (a, Inl (HTTPException 404 (''unknown scenario: '' @ rq_scenario_id req)))
      | Some sc \<Rightarrow>
          let client_ip = charged_ip rq in
          (case acquire s (run_limiter a) client_ip now of
             (l, Inl (RunLimitExceeded code limit retry_after)) \<Rightarrow>
               (a\<lparr>run_limiter := l\<rparr>, Inl (HTTPExceptionObj 429
                 [(''code'', JStr code), (''limit'', JInt limit), (''retry_after'', JInt retry_after)]))
           | (l, Inl e) \<Rightarrow> (a\<lparr>run_limiter := l\<rparr>, Inl e)
           | (l, Inr _) \<Rightarrow>
               let spec = \<lparr>sp_run_id = run_id, sp_scenario_id = rq_scenario_id req,
                           sp_inputs = dict_update (sc_default_inputs sc) (rq_inputs req),
                           sp_registry_mode = (case rq_registry_mode req of
                                                 Some (c # m) \<Rightarrow> c # m | _ \<Rightarrow> sc_registry_mode sc)\<rparr>
               in case create_queue (a\<lparr>run_limiter := l\<rparr>) run_id of
                    (a', q) \<Rightarrow>
                      (a'\<lparr>tasks := task # tasks a'\<rparr>,
                       Inr \<lparr>rt_queue = q, rt_spec = spec, rt_client_ip = client_ip\<rparr>)))"

text \<open>The two done-callbacks of a task: it leaves the set of tasks and gives its slot back.\<close>

definition task_done :: "app \<Rightarrow> nat \<Rightarrow> app" where
  "task_done a task =
     a\<lparr>tasks := remove1 task (tasks a), run_limiter := release (run_limiter a)\<rparr>"

definition get_run :: "app \<Rightarrow> string \<Rightarrow> (string \<times> run_result option) result" where
  "get_run a run_id =
     (let result = get_result (results a) run_id in
      if result = None \<and> get_queue a run_id = None
      then Inl (HTTPException 404 (''unknown run: '' @ run_id))
      else Inr (case result of Some r \<Rightarrow> rr_status r | None \<Rightarrow> ''running'', result))"

section \<open>The SSE stream\<close>

datatype chunk = Data_result run_result | Data_event step_event | End_complete | Keepalive

datatype sse_stream = Replay "chunk list" | Live nat

definition stream_open :: "app \<Rightarrow> string \<Rightarrow> app \<times> sse_stream result" where
  "stream_open a run_id =
     (let (a1, queue) =
        (case get_queue a run_id of
           Some q \<Rightarrow>
             if queues a ! q = [] \<and> get_result (results a) run_id \<noteq> None
             then (drop_queue a run_id, None) else (a, Some q)
         | None \<Rightarrow> (a, None))
      in case queue of
           Some q \<Rightarrow> (a1, Inr (Live q))
         | None \<Rightarrow>
             (case get_result (results a1) run_id of
                None \<Rightarrow> (a1, Inl (HTTPException 404 (''unknown run: '' @ run_id)))
              | Some r \<Rightarrow> (a1, Inr (Replay [Data_result r, End_complete]))))"

text \<open>
  One turn of the generator's loop: the new state, the chunks it yields, and whether it goes on. An
  empty queue makes the wait time out; a waiting event is taken at once.
\<close>

definition stream_turn :: "app \<Rightarrow> string \<Rightarrow> nat \<Rightarrow> bool \<Rightarrow> app \<times> chunk list \<times> bool" where
  "stream_turn a run_id q disconnected =
     (if disconnected then (a, [], False)
      else case queues a ! q of
        [] \<Rightarrow>
          if get_result (results a) run_id \<noteq> None
          then (drop_queue a run_id, [End_complete], False)
          else (a, [Keepalive], True)
      | event # rest \<Rightarrow>
          let a1 = a\<lparr>queues := (queues a)[q := rest]\<rparr> in
          if is_terminal event
          then (drop_queue a1 run_id, [Data_event event, End_complete], False)
          else (a1, [Data_event event], True))"

definition events_of :: "chunk list \<Rightarrow> step_event list" where
  "events_of cs = List.map_filter (\<lambda>c. case c of Data_event e \<Rightarrow> Some e | _ \<Rightarrow> None) cs"

section \<open>Interleavings\<close>

text \<open>
  The observable part of a step: a task starts, an event reaches a queue, a stream takes events from
  one, a task ends, or none of these.
\<close>

datatype label = L_start nat | L_put nat step_event | L_take nat "step_event list" | L_done nat | L_other

inductive app_step ::
  "settings \<Rightarrow> (string, 'w scenario) dict \<Rightarrow> app \<Rightarrow> label \<Rightarrow> app \<Rightarrow> bool" for s reg where
  start: "start_run s reg a req rq run_id now task = (a', Inr t) \<Longrightarrow> task \<notin> set (tasks a)
    \<Longrightarrow> app_step s reg a (L_start task) a'"
| refuse: "start_run s reg a req rq run_id now task = (a', Inl e) \<Longrightarrow> app_step s reg a L_other a'"
| put: "q < length (queues a) \<Longrightarrow> app_step s reg a (L_put q e) (queue_put a q e)"
| hook: "get_queue a (se_run_id e) = Some q \<Longrightarrow> app_step s reg a (L_put q e) (publish a e)"
| hook_unknown: "get_queue a (se_run_id e) = None \<Longrightarrow> app_step s reg a L_other (publish a e)"
| store: "app_step s reg a L_other (a\<lparr>results := AList.update run_id r (results a)\<rparr>)"
| finish: "task \<in> set (tasks a) \<Longrightarrow> app_step s reg a (L_done task) (task_done a task)"
| open_stream: "stream_open a run_id = (a', x) \<Longrightarrow> app_step s reg a L_other a'"
| turn: "q < length (queues a) \<Longrightarrow> stream_turn a run_id q gone = (a', cs, go)
    \<Longrightarrow> app_step s reg a (L_take q (events_of cs)) a'"

inductive app_reach :: "settings \<Rightarrow> (string, 'w scenario) dict \<Rightarrow> label list \<Rightarrow> app \<Rightarrow> bool" for s reg where
  init: "app_reach s reg [] new_app"
| step: "app_reach s reg tr a \<Longrightarrow> app_step s reg a l a' \<Longrightarrow> app_reach s reg (tr @ [l]) a'"

inductive_cases app_stepE: "app_step s reg a l a'"

definition put_log :: "nat \<Rightarrow> label list \<Rightarrow> step_event list" where
  "put_log q tr = List.map_filter (\<lambda>l. case l of L_put p e \<Rightarrow> if p = q then Some e else None | _ \<Rightarrow> None) tr"

definition taken_log :: "nat \<Rightarrow> label list \<Rightarrow> step_event list" where
  "taken_log q tr = concat (map (\<lambda>l. case l of L_take p es \<Rightarrow> if p = q then es else [] | _ \<Rightarrow> []) tr)"

subsection \<open>Slots\<close>

definition slots_inv :: "settings \<Rightarrow> app \<Rightarrow> bool" where
  "slots_inv s a \<longleftrightarrow> active (run_limiter a) = int (length (tasks a))
     \<and> int (length (tasks a)) \<le> max_concurrent_runs s \<and> distinct (tasks a)"

lemma create_queue_fields [simp]:
  "run_limiter (fst (create_queue a run_id)) = run_limiter a" "tasks (fst (create_queue a run_id)) = tasks a"
  "results (fst (create_queue a run_id)) = results a"
  by (simp_all add: create_queue_def Let_def split: option.splits)

lemma bus_fields [simp]:
  "run_limiter (drop_queue a run_id) = run_limiter a" "tasks (drop_queue a run_id) = tasks a"
  "queues (drop_queue a run_id) = queues a" "results (drop_queue a run_id) = results a"
  "event_bus (queue_put a q e) = event_bus a"
  "run_limiter (queue_put a q e) = run_limiter a" "tasks (queue_put a q e) = tasks a"
  by (simp_all add: drop_queue_def queue_put_def)

lemma publish_fields [simp]:
  "run_limiter (publish a e) = run_limiter a" "tasks (publish a e) = tasks a" "event_bus (publish a e) = event_bus a"
  by (simp_all add: publish_def split: option.splits)

lemma start_run_ok:
  assumes "start_run s reg a req rq run_id now task = (a', Inr t)"
  obtains l where "acquire s (run_limiter a) (charged_ip rq) now = (l, Inr ())"
    "a' = (fst (create_queue (a\<lparr>run_limiter := l\<rparr>) run_id))\<lparr>tasks := task # tasks a\<rparr>"
    "rt_queue t = snd (create_queue (a\<lparr>run_limiter := l\<rparr>) run_id)"
proof -
  obtain l r where acq: "acquire s (run_limiter a) (charged_ip rq) now = (l, r)"
    by (cases "acquire s (run_limiter a) (charged_ip rq) now")
  with assms have "r = Inr ()"
    by (cases r) (auto simp: start_run_def Let_def split: option.splits exn.splits)
  obtain a1 q where c: "create_queue (a\<lparr>run_limiter := l\<rparr>) run_id = (a1, q)"
    by (cases "create_queue (a\<lparr>run_limiter := l\<rparr>) run_id")
  have "tasks a1 = tasks a" using create_queue_fields(2)[of "a\<lparr>run_limiter := l\<rparr>" run_id] c by simp
  with assms acq \<open>r = Inr ()\<close> c show thesis
    by (intro that[of l]) (auto simp: start_run_def Let_def split: option.splits)
qed

lemma start_run_refused:
  assumes "start_run s reg a req rq run_id now task = (a', Inl e)"
  shows "a' = a \<or> (\<exists>l e'. acquire s (run_limiter a) (charged_ip rq) now = (l, Inl e') \<and> a' = a\<lparr>run_limiter := l\<rparr>)"
proof -
  obtain l r where acq: "acquire s (run_limiter a) (charged_ip rq) now = (l, r)"
    by (cases "acquire s (run_limiter a) (charged_ip rq) now")
  with assms show ?thesis
    by (cases r) (auto simp: start_run_def Let_def split: option.splits prod.splits exn.splits)
qed

lemma stream_open_fields:
  assumes "stream_open a run_id = (a', x)"
  shows "run_limiter a' = run_limiter a" "tasks a' = tasks a" "queues a' = queues a" "results a' = results a"
  using assms by (auto simp: stream_open_def Let_def split: option.splits if_splits)

lemma stream_turn_fields:
  assumes "stream_turn a run_id q gone = (a', cs, go)"
  shows "run_limiter a' = run_limiter a" "tasks a' = tasks a" "results a' = results a"
    "length (queues a') = length (queues a)"
  using assms by (auto simp: stream_turn_def Let_def split: list.splits if_splits)

lemma slots_step:
  assumes "app_step s reg a l a'" "slots_inv s a"
  shows "slots_inv s a'"
  using assms(1)
proof (cases rule: app_step.cases)
  case (start req rq run_id now task t)
  from start(2) show ?thesis
  proof (rule start_run_ok)
    fix l1 assume l1: "acquire s (run_limiter a) (charged_ip rq) now = (l1, Inr ())"
      "a' = (fst (create_queue (a\<lparr>run_limiter := l1\<rparr>) run_id))\<lparr>tasks := task # tasks a\<rparr>"
    with limiter_slots.acq_ok[of s "run_limiter a" "(charged_ip rq, now)" l1] assms(2) start(3)
    show ?thesis by (simp add: slots_inv_def)
  qed
next
  case (refuse req rq run_id now task e)
  from start_run_refused[OF refuse(2)] show ?thesis
  proof
    assume "\<exists>l1 e'. acquire s (run_limiter a) (charged_ip rq) now = (l1, Inl e') \<and> a' = a\<lparr>run_limiter := l1\<rparr>"
    then obtain l1 e' where "acquire s (run_limiter a) (charged_ip rq) now = (l1, Inl e')" "a' = a\<lparr>run_limiter := l1\<rparr>"
      by blast
    with limiter_slots.acq_fail[of s "run_limiter a" "(charged_ip rq, now)" l1 e'] assms(2)
    show ?thesis by (simp add: slots_inv_def)
  qed (use assms(2) in simp)
next
  case (finish task)
  have "0 < length (tasks a)" using finish(3) by (rule length_pos_if_in_set)
  then have "1 \<le> length (tasks a)" by linarith
  moreover have "length (remove1 task (tasks a)) = length (tasks a) - 1"
    using finish(3) by (simp add: length_remove1)
  ultimately show ?thesis using finish(2) assms(2) limiter_slots.rel_held[of "run_limiter a"]
    by (auto simp: slots_inv_def task_done_def distinct_remove1)
next
  case (open_stream run_id x)
  with stream_open_fields[OF open_stream(2)] assms(2) show ?thesis by (simp add: slots_inv_def)
next
  case (turn q run_id gone cs go)
  with stream_turn_fields[OF turn(3)] assms(2) show ?thesis by (simp add: slots_inv_def)
qed (use assms(2) in \<open>auto simp: slots_inv_def\<close>)

lemma slots_reach:
  "app_reach s reg tr a \<Longrightarrow> 0 < max_concurrent_runs s \<Longrightarrow> slots_inv s a"
proof (induction rule: app_reach.induct)
  case init
  then show ?case by (simp add: slots_inv_def new_app_def new_limiter_def)
next
  case (step tr a l a')
  then show ?case by (blast intro: slots_step)
qed

subsection \<open>Queues\<close>

definition queue_inv :: "label list \<Rightarrow> app \<Rightarrow> bool" where
  "queue_inv tr a \<longleftrightarrow>
     (\<forall>q. put_log q tr = taken_log q tr @ (if q < length (queues a) then queues a ! q else []))
     \<and> (\<forall>r q. map_of (event_bus a) r = Some q \<longrightarrow> q < length (queues a))
     \<and> wf_dict (event_bus a)"

lemma logs_snoc:
  "put_log q (tr @ [l]) = put_log q tr @ (case l of L_put p e \<Rightarrow> if p = q then [e] else [] | _ \<Rightarrow> [])"
  "taken_log q (tr @ [l]) = taken_log q tr @ (case l of L_take p es \<Rightarrow> if p = q then es else [] | _ \<Rightarrow> [])"
  by (auto simp: put_log_def taken_log_def map_filter_simps List.map_filter_def split: label.splits)

lemma create_queue_bus:
  assumes "create_queue a run_id = (a', q)"
  shows "queues a' = queues a \<and> event_bus a' = event_bus a \<and> map_of (event_bus a) run_id = Some q
    \<or> queues a' = queues a @ [[]] \<and> event_bus a' = AList.update run_id (length (queues a)) (event_bus a)
        \<and> q = length (queues a)"
  using assms by (auto simp: create_queue_def Let_def split: option.splits)

lemma queue_inv_bus:
  assumes "queue_inv tr a" "queues a' = queues a" "event_bus a' = event_bus a \<or> event_bus a' = AList.delete r (event_bus a)"
    and "\<And>q. put_log q tr' = put_log q tr" "\<And>q. taken_log q tr' = taken_log q tr"
  shows "queue_inv tr' a'"
  using assms by (auto simp: queue_inv_def distinct_delete split: if_splits)

lemma queue_inv_put:
  assumes "queue_inv tr a" "q < length (queues a)"
  shows "queue_inv (tr @ [L_put q e]) (queue_put a q e)"
proof -
  have "put_log p (tr @ [L_put q e]) = taken_log p (tr @ [L_put q e])
      @ (if p < length (queues (queue_put a q e)) then queues (queue_put a q e) ! p else [])" for p
    using assms by (auto simp: queue_inv_def logs_snoc queue_put_def nth_list_update)
  with assms show ?thesis by (simp add: queue_inv_def queue_put_def)
qed

lemma stream_turn_queue:
  assumes "stream_turn a run_id q gone = (a', cs, go)" "q < length (queues a)"
  shows "queues a ! q = events_of cs @ queues a' ! q" "p \<noteq> q \<Longrightarrow> queues a' ! p = queues a ! p"
    "event_bus a' = event_bus a \<or> event_bus a' = AList.delete run_id (event_bus a)"
  using assms
  by (auto simp: stream_turn_def Let_def events_of_def map_filter_simps drop_queue_def nth_list_update
      split: list.splits if_splits)

lemma queue_inv_turn:
  assumes "queue_inv tr a" "q < length (queues a)" "stream_turn a run_id q gone = (a', cs, go)"
  shows "queue_inv (tr @ [L_take q (events_of cs)]) a'"
proof -
  note t = stream_turn_queue[OF assms(3,2)] stream_turn_fields(4)[OF assms(3)]
  have "put_log p (tr @ [L_take q (events_of cs)]) = taken_log p (tr @ [L_take q (events_of cs)])
      @ (if p < length (queues a') then queues a' ! p else [])" for p
    using assms(1,2) t by (cases "p = q") (auto simp: queue_inv_def logs_snoc)
  with assms(1) t show ?thesis by (auto simp: queue_inv_def distinct_delete split: if_splits)
qed

lemma queue_inv_start:
  assumes "queue_inv tr a" "start_run s reg a req rq run_id now task = (a', Inr t)"
  shows "queue_inv (tr @ [L_start task]) a'"
  using assms(2)
proof (rule start_run_ok)
  fix l assume a': "a' = (fst (create_queue (a\<lparr>run_limiter := l\<rparr>) run_id))\<lparr>tasks := task # tasks a\<rparr>"
  obtain a1 q where c: "create_queue (a\<lparr>run_limiter := l\<rparr>) run_id = (a1, q)"
    by (cases "create_queue (a\<lparr>run_limiter := l\<rparr>) run_id")
  then have bus: "queues a1 = queues a \<and> event_bus a1 = event_bus a
    \<or> queues a1 = queues a @ [[]] \<and> event_bus a1 = AList.update run_id (length (queues a)) (event_bus a)"
    using create_queue_bus[OF c] by auto
  have "queues a' = queues a1" "event_bus a' = event_bus a1" using a' c by simp_all
  with bus assms(1) show ?thesis
    by (auto simp: queue_inv_def logs_snoc nth_append distinct_update less_Suc_eq split: if_splits)
qed

lemma queue_step:
  assumes "app_step s reg a l a'" "queue_inv tr a"
  shows "queue_inv (tr @ [l]) a'"
  using assms(1)
proof (cases rule: app_step.cases)
  case (start req rq run_id now task t)
  with assms(2) show ?thesis by (auto intro: queue_inv_start)
next
  case (refuse req rq run_id now task e)
  with start_run_refused[OF refuse(2)] show ?thesis
    by (intro queue_inv_bus[OF assms(2)]) (auto simp: logs_snoc)
next
  case (put q e)
  with assms(2) show ?thesis by (simp add: queue_inv_put)
next
  case (hook e q)
  then have "q < length (queues a)" using assms(2) by (simp add: queue_inv_def get_queue_def)
  with hook assms(2) show ?thesis by (simp add: publish_def queue_inv_put)
next
  case (turn q run_id gone cs go)
  with assms(2) show ?thesis by (simp add: queue_inv_turn)
next
  case (open_stream run_id x)
  then have "queues a' = queues a" "event_bus a' = event_bus a \<or> event_bus a' = AList.delete run_id (event_bus a)"
    by (auto simp: stream_open_def Let_def drop_queue_def split: option.splits if_splits)
  then show ?thesis by (rule queue_inv_bus[OF assms(2)]) (simp_all add: open_stream(1) logs_snoc)
next
  case (hook_unknown e)
  then have "a' = a" by (simp add: publish_def)
  with hook_unknown(1) show ?thesis by (intro queue_inv_bus[OF assms(2)]) (auto simp: logs_snoc)
next
  case (store run_id r)
  then show ?thesis by (intro queue_inv_bus[OF assms(2)]) (auto simp: logs_snoc)
next
  case (finish task)
  then show ?thesis by (intro queue_inv_bus[OF assms(2)]) (auto simp: logs_snoc task_done_def)
qed

lemma queue_reach: "app_reach s reg tr a \<Longrightarrow> queue_inv tr a"
proof (induction rule: app_reach.induct)
  case init
  then show ?case by (simp add: queue_inv_def new_app_def put_log_def taken_log_def map_filter_simps)
next
  case (step tr a l a')
  then show ?case by (blast intro: queue_step)
qed

section \<open>Streams of finished runs\<close>

text \<open>A connected client reading on, with no event arriving meanwhile; at most \<open>n\<close> turns.\<close>

fun stream_turns :: "nat \<Rightarrow> app \<Rightarrow> string \<Rightarrow> nat \<Rightarrow> app \<times> chunk list \<times> bool" where
  "stream_turns 0 a run_id q = (a, [], False)"
| "stream_turns (Suc n) a run_id q =
     (case stream_turn a run_id q False of
        (a', cs, False) \<Rightarrow> (a', cs, True)
      | (a', cs, True) \<Rightarrow> (case stream_turns n a' run_id q of (a2, cs2, e) \<Rightarrow> (a2, cs @ cs2, e)))"

lemma stream_turns_end:
  assumes "map_of (results a) run_id \<noteq> None" "q < length (queues a)"
  shows "\<exists>a' cs. stream_turns (Suc (length (queues a ! q))) a run_id q = (a', cs @ [End_complete], True)
      \<and> map_of (event_bus a') run_id = None \<and> (\<exists>rest. queues a ! q = events_of cs @ rest)"
  using assms
proof (induction "queues a ! q" arbitrary: a)
  case Nil
  then have "stream_turn a run_id q False = (drop_queue a run_id, [End_complete], False)"
    by (simp add: stream_turn_def get_result_def flip: Nil(1))
  then show ?case
    by (simp add: drop_queue_def events_of_def map_filter_simps)
next
  case (Cons e es)
  let ?a1 = "a\<lparr>queues := (queues a)[q := es]\<rparr>"
  show ?case
  proof (cases "is_terminal e")
    case True
    then have "stream_turn a run_id q False = (drop_queue ?a1 run_id, [Data_event e, End_complete], False)"
      by (simp add: stream_turn_def Let_def flip: Cons(2))
    then show ?thesis
      by (intro exI[of _ "drop_queue ?a1 run_id"] exI[of _ "[Data_event e]"])
        (simp add: drop_queue_def events_of_def map_filter_simps flip: Cons(2))
  next
    case False
    then have t: "stream_turn a run_id q False = (?a1, [Data_event e], True)"
      by (simp add: stream_turn_def Let_def flip: Cons(2))
    have "es = queues ?a1 ! q" "map_of (results ?a1) run_id \<noteq> None" "q < length (queues ?a1)"
      using Cons.prems by simp_all
    note rest = Cons.hyps(1)[OF this, folded \<open>es = queues ?a1 ! q\<close>]
    then obtain a' cs r where "stream_turns (Suc (length es)) ?a1 run_id q = (a', cs @ [End_complete], True)"
      "map_of (event_bus a') run_id = None" "es = events_of cs @ r"
      by blast
    note rest = this
    have qe: "queues a ! q = e # es" using Cons(2) by simp
    have "stream_turns (Suc (Suc (length es))) a run_id q = (a', (Data_event e # cs) @ [End_complete], True)"
      by (simp only: stream_turns.simps(2)[of "Suc (length es)"] t rest(1) prod.case bool.case append_Cons append_Nil)
    moreover have "queues a ! q = events_of (Data_event e # cs) @ r"
      using qe rest(3) by (simp add: events_of_def map_filter_simps)
    ultimately show ?thesis using rest(2) qe by (metis length_Cons)
  qed
qed

section \<open>A short history\<close>

text \<open>One run is launched, emits an event, and a stream takes it.\<close>

definition demo_reg :: "(string, unit scenario) dict" where
  "demo_reg = [(''s1'', demo_scenario)]"

definition demo_start :: "app \<times> run_task result" where
  "demo_start = start_run default_settings demo_reg new_app
     \<lparr>rq_scenario_id = ''s1'', rq_inputs = [], rq_registry_mode = None\<rparr>
     \<lparr>rh_per_ip_limits = Some False, rh_client_ip = None, rh_client_host = None\<rparr> ''r1'' 0 7"

definition demo_note :: step_event where
  "demo_note = mk_step_event ''scenario.note'' ''r1'' ''t''"

definition demo_app :: app where
  "demo_app = (queue_put (fst demo_start) 0 demo_note)\<lparr>queues := [[]]\<rparr>"

definition demo_trace :: "label list" where
  "demo_trace = [L_start 7, L_put 0 demo_note, L_take 0 [demo_note]]"

lemma demo_start_eval:
  "demo_start = (\<lparr>event_bus = [(''r1'', 0)], queues = [[]], results = [],
      run_limiter = \<lparr>launches = [], active = 1\<rparr>, tasks = [7]\<rparr>,
    Inr \<lparr>rt_queue = 0, rt_spec = \<lparr>sp_run_id = ''r1'', sp_scenario_id = ''s1'', sp_inputs = [],
      sp_registry_mode = ''single''\<rparr>, rt_client_ip = None\<rparr>)"
  by (simp add: demo_start_def start_run_def demo_reg_def demo_scenario_def get_scenario_def charged_ip_def
      acquire_def new_app_def new_limiter_def default_settings_def create_queue_def dict_update_def Let_def)

lemma demo_reach: "app_reach default_settings demo_reg demo_trace demo_app"
proof -
  let ?a = "fst demo_start"
  have "app_step default_settings demo_reg new_app (L_start 7) ?a"
    by (rule app_step.start[OF _, where t = "projr (snd demo_start)"])
      (use demo_start_eval in \<open>simp_all add: demo_start_def new_app_def\<close>)
  from app_reach.step[OF app_reach.init this]
  have r1: "app_reach default_settings demo_reg [L_start 7] ?a" by simp
  have "app_step default_settings demo_reg ?a (L_put 0 demo_note) (queue_put ?a 0 demo_note)"
    by (rule app_step.put) (simp add: demo_start_eval)
  from app_reach.step[OF r1 this]
  have r2: "app_reach default_settings demo_reg [L_start 7, L_put 0 demo_note] (queue_put ?a 0 demo_note)" by simp
  have t: "stream_turn (queue_put ?a 0 demo_note) ''r1'' 0 False = (demo_app, [Data_event demo_note], True)"
    by (simp add: stream_turn_def queue_put_def demo_start_eval demo_app_def is_terminal_def demo_note_def
        mk_step_event_def Let_def)
  have "app_step default_settings demo_reg (queue_put ?a 0 demo_note) (L_take 0 (events_of [Data_event demo_note])) demo_app"
    by (rule app_step.turn[OF _ t]) (simp add: queue_put_def demo_start_eval)
  from app_reach.step[OF r2 this] show ?thesis
    by (simp add: demo_trace_def events_of_def map_filter_simps)
qed

lemma demo_app_eval:
  "demo_app = \<lparr>event_bus = [(''r1'', 0)], queues = [[]], results = [],
      run_limiter = \<lparr>launches = [], active = 1\<rparr>, tasks = [7]\<rparr>"
  by (simp add: demo_app_def queue_put_def demo_start_eval)

definition ended_app :: app where
  "ended_app = demo_app\<lparr>queues := [[demo_note]],
     results := [(''r1'', \<lparr>rr_run_id = ''r1'', rr_scenario_id = ''s1'', rr_status = ''failed'', rr_contexts = [],
       rr_lineage_graph = None, rr_summary = [], rr_error = None\<rparr>)]\<rparr>"

section \<open>Properties\<close>

text \<open>
  C2. Slots are neither leaked nor oversubscribed. In every state the service can reach, by any
  interleaving of launches, refusals, event deliveries, streams and task completions, the limiter's
  count of active runs is the number of tasks in flight, and at most \<^verbatim>\<open>max_concurrent_runs\<close>.
\<close>

theorem active_runs_are_tasks:
  assumes "settings_fields_ok s" and "app_reach s reg tr a"
  shows "active (run_limiter a) = int (length (tasks a)) \<and> int (length (tasks a)) \<le> max_concurrent_runs s"
  using slots_reach[OF assms(2) settings_limits_pos(3)[OF assms(1)]] by (simp add: slots_inv_def)

theorem active_runs_are_tasks_witness:
  "active (run_limiter demo_app) = int (length (tasks demo_app)) \<and> length (tasks demo_app) = 1"
proof -
  have "settings_fields_ok default_settings" using default_settings_load by (simp add: load_settings_Inr)
  from active_runs_are_tasks[OF this demo_reach] show ?thesis by (simp add: demo_app_eval)
qed

text \<open>
  C6. The stream delivers every event once and in order. In every reachable state, for each queue, the
  events the streams have taken from it, across disconnects and reconnects, followed by those still
  waiting are exactly the events put on it, in the order they were put.
\<close>

theorem sse_in_order_exactly_once:
  assumes "app_reach s reg tr a" and "q < length (queues a)"
  shows "put_log q tr = taken_log q tr @ queues a ! q"
  using queue_reach[OF assms(1)] assms(2) by (simp add: queue_inv_def)

theorem sse_in_order_exactly_once_witness:
  "put_log 0 demo_trace = taken_log 0 demo_trace @ queues demo_app ! 0 \<and> put_log 0 demo_trace = [demo_note]"
  using sse_in_order_exactly_once[OF demo_reach, of 0]
  by (simp add: demo_app_eval demo_trace_def put_log_def map_filter_simps)

text \<open>
  A stream ends only when the run has ended: a turn yields the end marker only together with a
  terminal event or when a result is stored for the run.
\<close>

theorem sse_end_is_justified:
  assumes "stream_turn a run_id q gone = (a', cs, go)" and "End_complete \<in> set cs"
  shows "(\<exists>e. Data_event e \<in> set cs \<and> is_terminal e) \<or> map_of (results a) run_id \<noteq> None"
  using assms by (auto simp: stream_turn_def Let_def get_result_def split: list.splits if_splits)

theorem sse_end_is_justified_witness:
  "map_of (results (ended_app\<lparr>queues := [[]]\<rparr>)) ''r1'' \<noteq> None"
proof -
  let ?a = "ended_app\<lparr>queues := [[]]\<rparr>"
  have "stream_turn ?a ''r1'' 0 False = (drop_queue ?a ''r1'', [End_complete], False)"
    by (simp add: stream_turn_def get_result_def ended_app_def)
  from sse_end_is_justified[OF this] show ?thesis by simp
qed

text \<open>
  C7. A client that follows a finished run is not left waiting. Once a result is stored, opening the
  stream either replays the result and ends, or serves the queue; and a connected client of the queue
  is sent the waiting events in order up to the end marker within one more turn than events wait,
  even if the terminal event itself was lost, after which the bus no longer holds the queue.
\<close>

theorem finished_stream_terminates:
  assumes "map_of (results a) run_id \<noteq> None" and "q < length (queues a)"
  shows "(\<exists>a' x. stream_open a run_id = (a', Inr x))
    \<and> (\<exists>a' cs rest. stream_turns (Suc (length (queues a ! q))) a run_id q = (a', cs @ [End_complete], True)
        \<and> map_of (event_bus a') run_id = None \<and> queues a ! q = events_of cs @ rest)"
proof
  show "\<exists>a' x. stream_open a run_id = (a', Inr x)"
    using assms(1) by (auto simp: stream_open_def Let_def get_result_def split: option.splits)
qed (use stream_turns_end[OF assms] in blast)

theorem finished_stream_terminates_witness:
  "\<exists>a' cs rest. stream_turns 2 ended_app ''r1'' 0 = (a', cs @ [End_complete], True)
     \<and> map_of (event_bus a') ''r1'' = None \<and> [demo_note] = events_of cs @ rest"
proof -
  have r: "map_of (results ended_app) ''r1'' \<noteq> None" and q: "0 < length (queues ended_app)"
    and n: "queues ended_app ! 0 = [demo_note]"
    by (simp_all add: ended_app_def)
  from finished_stream_terminates[OF r q] n show ?thesis by (simp add: numeral_2_eq_2)
qed

end
