(* ===== verification/Webhooks.thy ===== *)
theory Webhooks
  imports Runs
begin

text \<open>
  playground/api/webhooks.py: the receiver of registry webhooks. Decoding the body and validating it
  into a \<^verbatim>\<open>WebhookEvent\<close> (json and pydantic) are parameters. The forward to the control plane is a task of
  its own, so the receiver returns what that task is to send.
\<close>

section \<open>The signature\<close>

text \<open>\<^verbatim>\<open>hmac.compare_digest\<close> on two strings raises \<^verbatim>\<open>TypeError\<close> unless both are ASCII.\<close>

definition compare_digest_str :: "string \<Rightarrow> string \<Rightarrow> bool result" where
  "compare_digest_str a b =
     (if list_all (\<lambda>c. ord c < 128) a \<and> list_all (\<lambda>c. ord c < 128) b then Inr (a = b) else Inl TypeError)"

definition webhook_verify :: "string \<Rightarrow> bytes \<Rightarrow> string option \<Rightarrow> unit result" where
  "webhook_verify secret body header =
     (if secret = [] then Inr ()
      else case header of
        None \<Rightarrow> Inl (HTTPException 401 ''missing X-ACDP-Signature'')
      | Some h \<Rightarrow>
          if h = [] then Inl (HTTPException 401 ''missing X-ACDP-Signature'')
          else if \<not> py_startswith h ''sha256='' then Inl (HTTPException 401 ''unsupported signature algorithm'')
          else rbind (compare_digest_str (hexdigest (hmac_sha256 (utf8_encode secret) body)) (drop 7 h)) (\<lambda>eq.
               if eq then Inr () else Inl (HTTPException 401 ''invalid signature'')))"

section \<open>The receiver\<close>

record webhook_forward =
  wf_body :: bytes
  wf_headers :: "(string, string) dict"
  wf_tenant :: "string option"

text \<open>The three routing fields the registry carries in headers, taken only where the body has none.\<close>

definition lift_headers :: "(string, string) dict \<Rightarrow> webhook_event \<Rightarrow> webhook_event" where
  "lift_headers headers e =
     (let e = (if we_tenant_id e = None then e\<lparr>we_tenant_id := map_of headers ''x-tenant-id''\<rparr> else e);
          e = (if we_event_id e = None then e\<lparr>we_event_id := map_of headers ''x-acdp-event-id''\<rparr> else e)
      in if we_run_id e = None then e\<lparr>we_run_id := map_of headers ''x-run-id''\<rparr> else e)"

definition fan_out :: "app \<Rightarrow> string \<Rightarrow> webhook_event \<Rightarrow> app" where
  "fan_out a ts e =
     (case we_run_id e of
        Some (c # r) \<Rightarrow>
          (case get_queue a (c # r) of
             None \<Rightarrow> a
           | Some q \<Rightarrow> queue_put a q (from_webhook (c # r) ts e))
      | _ \<Rightarrow> a)"

definition receive_acdp_webhook ::
  "settings \<Rightarrow> (bytes \<Rightarrow> json result) \<Rightarrow> (json \<Rightarrow> webhook_event result) \<Rightarrow> string \<Rightarrow> app \<Rightarrow> bytes
     \<Rightarrow> (string, string) dict \<Rightarrow> app \<times> webhook_forward option result" where
  "receive_acdp_webhook s loads validate ts a body headers =
     (case webhook_verify (webhook_secret s) body (map_of headers ''x-acdp-signature'') of
        Inl e \<Rightarrow> (a, Inl e)
      | Inr _ \<Rightarrow>
          (case loads body of
             Inl JSONDecodeError \<Rightarrow> (a, Inl (HTTPException 400 ''invalid JSON''))
           | Inl e \<Rightarrow> (a, Inl e)
           | Inr payload \<Rightarrow>
               (case validate payload of
                  Inl e \<Rightarrow> if is_Exception e then (a, Inr None) else (a, Inl e)
                | Inr event \<Rightarrow>
                    let event = lift_headers headers event in
                    (fan_out a ts event,
                     Inr (Some \<lparr>wf_body = body, wf_headers = headers, wf_tenant = we_tenant_id event\<rparr>)))))"

section \<open>Lemmas\<close>

lemma hex_ascii: "list_all is_lower_hex h \<Longrightarrow> list_all (\<lambda>c. ord c < 128) h"
  by (auto simp: list_all_iff is_lower_hex_def is_ascii_digit_def)

lemma webhook_verify_iff:
  assumes "secret \<noteq> []"
  shows "webhook_verify secret body header = Inr () \<longleftrightarrow> header = Some (cp_sign secret body)"
proof
  assume ok: "webhook_verify secret body header = Inr ()"
  then obtain h where h: "header = Some h" "h \<noteq> []" "py_startswith h ''sha256=''"
    using assms by (auto simp: webhook_verify_def split: option.splits if_splits)
  with ok assms have "hexdigest (hmac_sha256 (utf8_encode secret) body) = drop 7 h"
    by (auto simp: webhook_verify_def compare_digest_str_def rbind_eq_Inr split: if_splits)
  moreover from h(3) obtain t where "h = ''sha256='' @ t" by (auto simp: py_startswith_iff)
  ultimately show "header = Some (cp_sign secret body)" using h(1) by (simp add: cp_sign_def)
next
  assume h: "header = Some (cp_sign secret body)"
  have asc: "list_all (\<lambda>c. ord c < 128) (hexdigest (hmac_sha256 (utf8_encode secret) body))"
    by (rule hex_ascii) (rule hexdigest_lower_hex)
  have "py_startswith (''sha256='' @ t) ''sha256=''" for t by (rule py_startswith_append)
  with asc show "webhook_verify secret body header = Inr ()"
    using assms by (simp add: webhook_verify_def h cp_sign_def compare_digest_str_def)
qed

lemma lift_headers_fields:
  "we_type (lift_headers hs e) = we_type e" "we_ctx_id (lift_headers hs e) = we_ctx_id e"
  "we_tenant_id (lift_headers hs e) = (if we_tenant_id e = None then map_of hs ''x-tenant-id'' else we_tenant_id e)"
  "we_event_id (lift_headers hs e) = (if we_event_id e = None then map_of hs ''x-acdp-event-id'' else we_event_id e)"
  "we_run_id (lift_headers hs e) = (if we_run_id e = None then map_of hs ''x-run-id'' else we_run_id e)"
  by (cases "we_tenant_id e"; cases "we_event_id e"; cases "we_run_id e"; simp add: lift_headers_def)+

lemma from_webhook_fields:
  "se_run_id (from_webhook r ts e) = r" "se_event_id (from_webhook r ts e) = we_event_id e"
  "se_tenant_id (from_webhook r ts e) = we_tenant_id e"
  by (simp_all add: from_webhook_def Let_def mk_step_event_def)

section \<open>Properties\<close>

text \<open>
  C11. No unsigned webhook has any effect. With a secret configured, a delivery changes a queue or is
  forwarded only if its \<^verbatim>\<open>X-ACDP-Signature\<close> is exactly \<^verbatim>\<open>sha256=\<close> and the HMAC-SHA256 of the raw body under
  the secret; with that signature, verification passes.
\<close>

theorem webhook_needs_signature:
  assumes "webhook_secret s \<noteq> []"
    and "receive_acdp_webhook s loads validate ts a body headers = (a', r)"
  shows "(a' \<noteq> a \<or> (\<exists>f. r = Inr (Some f)) \<longrightarrow>
      map_of headers ''x-acdp-signature'' = Some (cp_sign (webhook_secret s) body))
    \<and> (map_of headers ''x-acdp-signature'' = Some (cp_sign (webhook_secret s) body)
       \<longrightarrow> webhook_verify (webhook_secret s) body (map_of headers ''x-acdp-signature'') = Inr ())"
proof (cases "webhook_verify (webhook_secret s) body (map_of headers ''x-acdp-signature'')")
  case (Inl e)
  with assms webhook_verify_iff[OF assms(1)] show ?thesis by (auto simp: receive_acdp_webhook_def)
next
  case (Inr u)
  with webhook_verify_iff[OF assms(1), of body "map_of headers ''x-acdp-signature''"] show ?thesis by simp
qed

theorem webhook_needs_signature_witness:
  "fst (receive_acdp_webhook default_settings (\<lambda>b. Inr JNull) (\<lambda>j. Inl ValidationError) ''t'' demo_app [1]
      [(''x-acdp-signature'', ''sha256=00'')]) = demo_app"
proof -
  let ?hs = "[(''x-acdp-signature'', ''sha256=00'')]"
  let ?r = "receive_acdp_webhook default_settings (\<lambda>b. Inr JNull) (\<lambda>j. Inl ValidationError) ''t'' demo_app [1] ?hs"
  have "length (cp_sign x b) = 71" for x b by (simp add: cp_sign_def)
  from this[of "webhook_secret default_settings" "[1]"]
  have "cp_sign (webhook_secret default_settings) [1] \<noteq> ''sha256=00''" by auto
  moreover have "webhook_secret default_settings \<noteq> []" by (simp add: default_settings_def)
  ultimately show ?thesis
    using webhook_needs_signature[OF _ prod.collapse[symmetric, of ?r]] by auto
qed

text \<open>
  A forged signature need not be answered with 401. If the header holds a character outside ASCII
  after \<^verbatim>\<open>sha256=\<close>, the comparison itself raises \<^verbatim>\<open>TypeError\<close>, which the receiver does not catch, so the
  registry sees a server error.
\<close>

theorem webhook_nonascii_signature_raises:
  "receive_acdp_webhook default_settings loads validate ts a body
     [(''x-acdp-signature'', ''sha256='' @ [CHR 0xE9])] = (a, Inl TypeError)"
  by (simp add: receive_acdp_webhook_def webhook_verify_def default_settings_def compare_digest_str_def py_startswith_def)

text \<open>
  An accepted webhook reaches its run's stream once and the control plane once. The event put on the
  queue carries the run's id; tenant and de-duplication id are those of the body or, where the body has
  none, of the headers; no other queue changes; a run that is not live costs nothing; and the forward
  carries the raw body, the headers and the same tenant.
\<close>

theorem webhook_fan_out:
  assumes "webhook_verify (webhook_secret s) body (map_of headers ''x-acdp-signature'') = Inr ()"
    and "loads body = Inr payload" and "validate payload = Inr e"
    and "we_run_id (lift_headers headers e) = Some (c # rid)"
  shows "\<exists>a'. receive_acdp_webhook s loads validate ts a body headers =
      (a', Inr (Some \<lparr>wf_body = body, wf_headers = headers,
         wf_tenant = (if we_tenant_id e = None then map_of headers ''x-tenant-id'' else we_tenant_id e)\<rparr>))
    \<and> (case get_queue a (c # rid) of
        None \<Rightarrow> a' = a
      | Some q \<Rightarrow> \<exists>st. a' = queue_put a q st \<and> se_run_id st = c # rid
          \<and> se_tenant_id st = (if we_tenant_id e = None then map_of headers ''x-tenant-id'' else we_tenant_id e)
          \<and> se_event_id st = (if we_event_id e = None then map_of headers ''x-acdp-event-id'' else we_event_id e))"
  using assms
  by (auto simp: receive_acdp_webhook_def Let_def fan_out_def from_webhook_fields lift_headers_fields
      split: option.splits)

definition demo_webhook :: webhook_event where
  "demo_webhook = \<lparr>we_type = ''context_published'', we_agent_id = None, we_registry_authority = None,
     we_run_id = None, we_ctx_id = None, we_lineage_id = None, we_context_type = None, we_visibility = None,
     we_version = None, we_created_at = None, we_derived_from = [], we_event_id = None, we_schema_version = None,
     we_tenant_id = None, we_key_fingerprint = None, we_registry_receipt = None, we_actor = None,
     we_lifecycle_event_id = None, we_reason = None, we_at = None\<rparr>"

theorem webhook_fan_out_witness:
  "\<exists>a' st. receive_acdp_webhook (default_settings\<lparr>webhook_secret := []\<rparr>) (\<lambda>b. Inr JNull) (\<lambda>j. Inr demo_webhook)
       ''t'' demo_app [1] [(''x-run-id'', ''r1''), (''x-tenant-id'', ''acme'')] =
      (a', Inr (Some \<lparr>wf_body = [1], wf_headers = [(''x-run-id'', ''r1''), (''x-tenant-id'', ''acme'')],
         wf_tenant = Some ''acme''\<rparr>))
    \<and> a' = queue_put demo_app 0 st \<and> se_run_id st = ''r1'' \<and> se_tenant_id st = Some ''acme''"
proof -
  let ?s = "default_settings\<lparr>webhook_secret := []\<rparr>"
  let ?hs = "[(''x-run-id'', ''r1''), (''x-tenant-id'', ''acme'')]"
  have v: "webhook_verify (webhook_secret ?s) [1] (map_of ?hs ''x-acdp-signature'') = Inr ()"
    by (simp add: webhook_verify_def)
  have r: "we_run_id (lift_headers ?hs demo_webhook) = Some (CHR ''r'' # ''1'')"
    by (simp add: lift_headers_fields demo_webhook_def)
  have q: "get_queue demo_app ''r1'' = Some 0" by (simp add: get_queue_def demo_app_eval)
  have t: "we_tenant_id demo_webhook = None" by (simp add: demo_webhook_def)
  from webhook_fan_out[where loads = "\<lambda>b. Inr JNull" and validate = "\<lambda>j. Inr demo_webhook" and ts = "''t''"
      and a = demo_app, OF v refl refl r]
  show ?thesis unfolding q by (auto simp: t)
qed

end
