(* ===== verification/Security.thy ===== *)
theory Security
  imports Config Sha256
begin

text \<open>
  playground/security.py: the key gate and the client-address resolution, with the part of Python's
  \<^verbatim>\<open>ipaddress\<close> they use: parsing of IPv4 and IPv6 text, the IPv4-mapped form, the enclosing /64 and the
  canonical text of an address.
\<close>

section \<open>IPv4 text\<close>

definition octet :: "string \<Rightarrow> nat option" where
  "octet w =
     (if w = [] \<or> \<not> list_all is_ascii_digit w \<or> length w > 3 then None
      else if length w > 1 \<and> hd w = CHR ''0'' then None
      else let n = digits_value w 0 in if n > 255 then None else Some n)"

definition ipv4_parse :: "string \<Rightarrow> nat option" where
  "ipv4_parse s =
     (case py_split CHR ''.'' s of
        [a, b, c, d] \<Rightarrow>
          (case (octet a, octet b, octet c, octet d) of
             (Some a, Some b, Some c, Some d) \<Rightarrow> Some (((a * 256 + b) * 256 + c) * 256 + d)
           | _ \<Rightarrow> None)
      | _ \<Rightarrow> None)"

definition ipv4_str :: "nat \<Rightarrow> string" where
  "ipv4_str n = py_join ''.'' (map (\<lambda>k. nat_digits (n div 256 ^ k mod 256)) [3, 2, 1, 0])"

section \<open>IPv6 text\<close>

definition hex_value :: "char \<Rightarrow> nat option" where
  "hex_value c =
     (if is_ascii_digit c then Some (ord c - 48)
      else if 97 \<le> ord c \<and> ord c \<le> 102 then Some (ord c - 87)
      else if 65 \<le> ord c \<and> ord c \<le> 70 then Some (ord c - 55)
      else None)"

fun hex_number :: "string \<Rightarrow> nat \<Rightarrow> nat option" where
  "hex_number [] acc = Some acc"
| "hex_number (c # s) acc = (case hex_value c of None \<Rightarrow> None | Some d \<Rightarrow> hex_number s (16 * acc + d))"

definition hextet :: "string \<Rightarrow> nat option" where
  "hextet w = (if w = [] \<or> length w > 4 then None else hex_number w 0)"

fun all_some :: "'a option list \<Rightarrow> 'a list option" where
  "all_some [] = Some []"
| "all_some (None # xs) = None"
| "all_some (Some x # xs) = map_option ((#) x) (all_some xs)"

text \<open>The hexadecimal text of a number without leading zeros.\<close>

fun nat_hex :: "nat \<Rightarrow> string" where
  "nat_hex n = (if n < 16 then [hex_digit n] else nat_hex (n div 16) @ [hex_digit (n mod 16)])"

declare nat_hex.simps [simp del]

text \<open>A dotted quad in the last group stands for two groups.\<close>

definition expand_quad :: "string list \<Rightarrow> string list option" where
  "expand_quad parts =
     (if CHR ''.'' \<in> set (last parts)
      then (case ipv4_parse (last parts) of
              None \<Rightarrow> None
            | Some n \<Rightarrow> Some (butlast parts @ [nat_hex (n div 65536), nat_hex (n mod 65536)]))
      else Some parts)"

text \<open>The groups left of, skipped by, and right of the double colon.\<close>

definition skip_layout :: "string list \<Rightarrow> (nat \<times> nat \<times> nat) option" where
  "skip_layout parts =
     (let n = length parts;
          empties = filter (\<lambda>i. parts ! i = []) [1..<n - 1]
      in case empties of
           [] \<Rightarrow> if n \<noteq> 8 \<or> parts ! 0 = [] \<or> last parts = [] then None else Some (8, 0, 0)
         | [i] \<Rightarrow>
             let hi = (if parts ! 0 = [] then i - 1 else i);
                 lo = (if last parts = [] then n - i - 2 else n - i - 1)
             in if parts ! 0 = [] \<and> hi \<noteq> 0 \<or> last parts = [] \<and> lo \<noteq> 0 \<or> hi + lo > 7 then None
                else Some (hi, 8 - (hi + lo), lo)
         | _ \<Rightarrow> None)"

definition ipv6_groups :: "string \<Rightarrow> nat list option" where
  "ipv6_groups s =
     (let parts = py_split CHR '':'' s in
      if s = [] \<or> length parts < 3 then None
      else case expand_quad parts of
        None \<Rightarrow> None
      | Some parts \<Rightarrow>
          if length parts > 9 then None
          else case skip_layout parts of
            None \<Rightarrow> None
          | Some (hi, skipped, lo) \<Rightarrow>
              (case (all_some (map hextet (take hi parts)),
                     all_some (map hextet (drop (length parts - lo) parts))) of
                 (Some a, Some b) \<Rightarrow> Some (a @ replicate skipped 0 @ b)
               | _ \<Rightarrow> None))"

definition groups_value :: "nat list \<Rightarrow> nat" where
  "groups_value gs = foldl (\<lambda>acc g. acc * 65536 + g) 0 gs"

datatype ip_addr = IPv4 nat | IPv6 nat "string option"

definition ipv6_parse :: "string \<Rightarrow> (nat \<times> string option) option" where
  "ipv6_parse s =
     (case py_partition ''%'' s of
        (addr, sep, scope) \<Rightarrow>
          if sep \<and> (scope = [] \<or> CHR ''%'' \<in> set scope) then None
          else map_option (\<lambda>gs. (groups_value gs, if sep then Some scope else None)) (ipv6_groups addr))"

text \<open>\<^verbatim>\<open>ipaddress.ip_address\<close>, None where it raises its ValueError.\<close>

definition ip_address :: "string \<Rightarrow> ip_addr option" where
  "ip_address s =
     (if CHR ''/'' \<in> set s then None
      else case ipv4_parse s of
        Some n \<Rightarrow> Some (IPv4 n)
      | None \<Rightarrow> map_option (\<lambda>(n, sc). IPv6 n sc) (ipv6_parse s))"

text \<open>The canonical text: the first longest run of at least two zero groups becomes a double colon.\<close>

fun zero_run :: "nat list \<Rightarrow> nat" where
  "zero_run [] = 0"
| "zero_run (g # gs) = (if g = 0 then Suc (zero_run gs) else 0)"

definition best_run :: "nat list \<Rightarrow> nat \<times> nat" where
  "best_run gs = foldl (\<lambda>(b, len) i. let l = zero_run (drop i gs) in if l > len then (i, l) else (b, len))
     (0, 0) [0..<length gs]"

definition compress_groups :: "nat list \<Rightarrow> string list" where
  "compress_groups gs =
     (case best_run gs of
        (b, len) \<Rightarrow>
          if len \<le> 1 then map nat_hex gs
          else (if b = 0 then [[]] else []) @ map nat_hex (take b gs) @ [[]]
               @ map nat_hex (drop (b + len) gs) @ (if b + len = length gs then [[]] else []))"

definition groups_of :: "nat \<Rightarrow> nat list" where
  "groups_of n = map (\<lambda>k. n div 65536 ^ k mod 65536) [7, 6, 5, 4, 3, 2, 1, 0]"

definition ipv6_str :: "nat \<Rightarrow> string option \<Rightarrow> string" where
  "ipv6_str n scope =
     py_join '':'' (compress_groups (groups_of n)) @ (case scope of None \<Rightarrow> [] | Some sc \<Rightarrow> ''%'' @ sc)"

definition ipv4_mapped :: "nat \<Rightarrow> nat option" where
  "ipv4_mapped n = (if n div 2 ^ 32 = 65535 then Some (n mod 2 ^ 32) else None)"

text \<open>
  \<^verbatim>\<open>str(ip_network(f"{ip}/64", strict=False))\<close>: the host bits are cleared, and with them the zone id,
  unless they were zero already.
\<close>

definition network64_str :: "nat \<Rightarrow> string option \<Rightarrow> string" where
  "network64_str n scope =
     (let net = (n div 2 ^ 64) * 2 ^ 64
      in (if net = n then ipv6_str n scope else ipv6_str net None) @ ''/64'')"

section \<open>The gate\<close>

definition API_KEY_HEADER :: string where "API_KEY_HEADER = ''x-api-key''"
definition CLIENT_IP_HEADER :: string where "CLIENT_IP_HEADER = ''x-acdp-client-ip''"
definition EXEMPT_PATHS :: "string list" where "EXEMPT_PATHS = [''/healthz'', ''/webhooks/acdp'']"

text \<open>\<^verbatim>\<open>bytes.lower()\<close> touches ASCII letters only.\<close>

definition ascii_lower :: "string \<Rightarrow> string" where
  "ascii_lower s = map (\<lambda>c. if 65 \<le> ord c \<and> ord c \<le> 90 then char_of (ord c + 32) else c) s"

record scope =
  sc_type :: string
  sc_path :: string
  sc_headers :: "(string \<times> string) list"
  sc_client :: "string option"

definition scope_header :: "scope \<Rightarrow> string \<Rightarrow> string option" where
  "scope_header sc name = map_option snd (find (\<lambda>kv. ascii_lower (fst kv) = name) (sc_headers sc))"

definition key_matches :: "string option \<Rightarrow> string \<Rightarrow> bool" where
  "key_matches presented configured =
     (if configured = [] then False
      else case presented of
             None \<Rightarrow> False
           | Some p \<Rightarrow> utf8_encode p = utf8_encode configured)"

definition parse_ip :: "string option \<Rightarrow> string option" where
  "parse_ip value =
     (case value of
        None \<Rightarrow> None
      | Some v \<Rightarrow>
          if v = [] then None
          else case ip_address (py_strip v) of
            None \<Rightarrow> None
          | Some (IPv4 n) \<Rightarrow> Some (ipv4_str n)
          | Some (IPv6 n sc) \<Rightarrow>
              (case ipv4_mapped n of
                 Some m \<Rightarrow> Some (ipv4_str m)
               | None \<Rightarrow> Some (network64_str n sc)))"

definition resolve_client_ip :: "scope \<Rightarrow> bool \<Rightarrow> string" where
  "resolve_client_ip sc trusted =
     (case (if trusted then parse_ip (scope_header sc CLIENT_IP_HEADER) else None) of
        Some ip \<Rightarrow> ip
      | None \<Rightarrow> (case sc_client sc of Some h \<Rightarrow> h | None \<Rightarrow> ''unknown''))"

record request_state =
  api_key_valid :: bool
  client_ip :: string
  per_ip_limits :: bool

datatype gate = Forward "request_state option" | Websocket_close int | Unauthorized

definition api_key_middleware :: "settings \<Rightarrow> scope \<Rightarrow> gate" where
  "api_key_middleware s sc =
     (if sc_type sc \<noteq> ''http'' \<and> sc_type sc \<noteq> ''websocket'' then Forward None
      else
        let presented = scope_header sc API_KEY_HEADER;
            valid = key_matches presented (playground_api_key s);
            enforced = playground_require_api_key s;
            state = \<lparr>api_key_valid = valid, client_ip = resolve_client_ip sc valid,
                     per_ip_limits = (valid \<or> enforced)\<rparr>
        in if sc_path sc \<in> set EXEMPT_PATHS \<or> valid then Forward (Some state)
           else if \<not> enforced then Forward (Some state)
           else if sc_type sc = ''websocket'' then Websocket_close 1008
           else Unauthorized)"

section \<open>Lemmas\<close>

lemma key_matches_iff: "key_matches p k \<longleftrightarrow> k \<noteq> [] \<and> p = Some k"
  by (auto simp: key_matches_def utf8_encode_inj split: option.splits)

text \<open>Hexadecimal text reads back as the number it was printed from.\<close>

lemma hex_value_digit: "d < 16 \<Longrightarrow> hex_value (hex_digit d) = Some d"
  by (simp add: hex_value_def is_ascii_digit_def ord_hex_digit)

lemma hex_number_append:
  "hex_number (s @ t) acc = (case hex_number s acc of None \<Rightarrow> None | Some n \<Rightarrow> hex_number t n)"
  by (induction s arbitrary: acc) (auto split: option.splits)

lemma hex_number_nat_hex: "hex_number (nat_hex n) 0 = Some n"
proof (induction n rule: nat_hex.induct)
  case (1 n)
  show ?case
  proof (cases "n < 16")
    case True
    then show ?thesis by (simp add: nat_hex.simps[of n] hex_value_digit)
  next
    case False
    with 1 show ?thesis by (simp add: nat_hex.simps[of n] hex_number_append hex_value_digit)
  qed
qed

lemma length_nat_hex: "0 < k \<Longrightarrow> n < 16 ^ k \<Longrightarrow> length (nat_hex n) \<le> k \<and> nat_hex n \<noteq> []"
proof (induction k arbitrary: n)
  case (Suc k)
  show ?case
  proof (cases "n < 16")
    case True
    then show ?thesis by (simp add: nat_hex.simps[of n])
  next
    case False
    then have "0 < k" using Suc.prems by (cases k) auto
    moreover have "n div 16 < 16 ^ k" using Suc.prems(2) by (simp add: less_mult_imp_div_less mult.commute)
    ultimately show ?thesis using Suc.IH[of "n div 16"] False by (simp add: nat_hex.simps[of n])
  qed
qed simp

lemma hextet_nat_hex: "n < 65536 \<Longrightarrow> hextet (nat_hex n) = Some n"
  using length_nat_hex[of 4 n] by (simp add: hextet_def hex_number_nat_hex)

text \<open>The characters of a dotted quad.\<close>

lemma octet_chars: "octet w = Some n \<Longrightarrow> list_all is_ascii_digit w \<and> n \<le> 255"
  by (auto simp: octet_def Let_def split: if_splits)

lemma ipv4_parse_chars:
  assumes "ipv4_parse s = Some n"
  shows "\<forall>c \<in> set s. is_ascii_digit c \<or> c = CHR ''.''" "n < 2 ^ 32" "CHR ''.'' \<in> set s"
proof -
  obtain a b c d where sp: "py_split CHR ''.'' s = [a, b, c, d]"
    using assms by (auto simp: ipv4_parse_def split: list.splits)
  then obtain x y z u where o: "octet a = Some x" "octet b = Some y" "octet c = Some z" "octet d = Some u"
    and n: "n = ((x * 256 + y) * 256 + z) * 256 + u"
    using assms by (auto simp: ipv4_parse_def split: option.splits)
  have s: "s = a @ ''.'' @ b @ ''.'' @ c @ ''.'' @ d"
    using py_join_split[of "CHR ''.''" s] by (simp add: sp)
  show "CHR ''.'' \<in> set s" by (simp add: s)
  show "\<forall>c \<in> set s. is_ascii_digit c \<or> c = CHR ''.''"
    using o[THEN octet_chars] by (auto simp: s list_all_iff)
  show "n < 2 ^ 32" using o[THEN octet_chars] by (simp add: n)
qed

lemma octet_nonspace: "is_ascii_digit c \<or> c = CHR ''.'' \<Longrightarrow> \<not> is_space_char c"
  by (auto simp: py_str)

lemma ipv4_text_chars:
  assumes "ipv4_parse q = Some n"
  shows "CHR '':'' \<notin> set q" "CHR ''%'' \<notin> set q" "CHR ''/'' \<notin> set q" "py_strip q = q" "q \<noteq> []"
proof -
  note c = ipv4_parse_chars(1)[OF assms]
  show "CHR '':'' \<notin> set q" "CHR ''%'' \<notin> set q" "CHR ''/'' \<notin> set q" using c by (auto simp: py_str)
  show "py_strip q = q" using c octet_nonspace by (metis py_strip_nonspace)
  show "q \<noteq> []" using ipv4_parse_chars(3)[OF assms] by auto
qed

lemma mapped_groups:
  assumes "ipv4_parse q = Some n"
  shows "ipv6_groups (''::ffff:'' @ q) = Some [0, 0, 0, 0, 0, 65535, n div 65536, n mod 65536]"
proof -
  have "py_split CHR '':'' (''::ffff:'' @ q) = [[], [], ''ffff'', q]"
    using ipv4_text_chars(1)[OF assms] by (simp add: py_split_no_sep)
  moreover have "expand_quad [[], [], ''ffff'', q] = Some [[], [], ''ffff'', nat_hex (n div 65536), nat_hex (n mod 65536)]"
    using assms ipv4_parse_chars(3)[OF assms] by (simp add: expand_quad_def)
  moreover have n: "n div 65536 < 65536" "n mod 65536 < 65536" using ipv4_parse_chars(2)[OF assms] by simp_all
  moreover have ne: "nat_hex m \<noteq> []" for m by (subst nat_hex.simps) simp
  have up: "[1..<4] = [1, 2, 3::nat]" by (simp add: upt_rec)
  have "skip_layout [[], [], ''ffff'', nat_hex (n div 65536), nat_hex (n mod 65536)] = Some (0, 5, 3)"
    using ne by (simp add: skip_layout_def Let_def up)
  moreover have "hextet ''ffff'' = Some 65535"
    by (simp add: hextet_def hex_value_def is_ascii_digit_def)
  moreover have "replicate 5 (0::nat) = [0, 0, 0, 0, 0]" by code_simp
  ultimately show ?thesis
    by (simp add: ipv6_groups_def hextet_nat_hex)
qed

lemma mapped_value: "n < 2 ^ 32 \<Longrightarrow> ipv4_mapped (groups_value [0, 0, 0, 0, 0, 65535, n div 65536, n mod 65536]) = Some n"
proof -
  assume n: "n < 2 ^ 32"
  have v: "groups_value [0, 0, 0, 0, 0, 65535, n div 65536, n mod 65536] = 65535 * 2 ^ 32 + n"
    using div_mult_mod_eq[of n 65536] by (simp add: groups_value_def)
  have "(65535 * 2 ^ 32 + n) div 2 ^ 32 = 65535 + n div 2 ^ 32" by (rule div_mult_self3) simp
  moreover have "(65535 * 2 ^ 32 + n) mod 2 ^ 32 = n mod 2 ^ 32" by (rule mod_mult_self3)
  ultimately show ?thesis
    unfolding v ipv4_mapped_def using n by (simp only: div_less mod_less add_0_right refl if_True)
qed

lemma mapped_address:
  assumes "ipv4_parse q = Some n"
  shows "\<exists>v. ip_address (''::ffff:'' @ q) = Some (IPv6 v None) \<and> ipv4_mapped v = Some n"
proof -
  note c = ipv4_text_chars[OF assms]
  have "py_partition ''%'' (''::ffff:'' @ q) = (''::ffff:'' @ q, False, [])"
    using py_partition_single_no[of "CHR ''%''" "''::ffff:'' @ q"] c(2) by simp
  then have v6: "ipv6_parse (''::ffff:'' @ q) = Some (groups_value [0, 0, 0, 0, 0, 65535, n div 65536, n mod 65536], None)"
    using mapped_groups[OF assms] by (simp only: ipv6_parse_def prod.case option.map(2)) simp
  have "ipv4_parse (''::ffff:'' @ q) = None"
  proof (cases "ipv4_parse (''::ffff:'' @ q)")
    case (Some m)
    from ipv4_text_chars(1)[OF this] show ?thesis by simp
  qed
  with v6 c(3) mapped_value[OF ipv4_parse_chars(2)[OF assms]] show ?thesis
    by (auto simp: ip_address_def)
qed

text \<open>Evaluation of the parser on literal text.\<close>

lemma small_lists:
  "[Suc 0..<2] = [1]" "[Suc 0..<3] = [1, 2]" "[Suc 0..<4] = [1, 2, 3]"
  "replicate 4 (0::nat) = [0, 0, 0, 0]" "replicate 5 (0::nat) = [0, 0, 0, 0, 0]" "replicate 7 (0::nat) = [0, 0, 0, 0, 0, 0, 0]"
  by (simp_all add: upt_rec numeral_eq_Suc)

lemmas ip_parse_eval = ip_address_def ipv4_parse_def octet_def ipv6_parse_def ipv6_groups_def
  expand_quad_def skip_layout_def hextet_def hex_value_def is_ascii_digit_def groups_value_def Let_def
  small_lists

section \<open>Properties\<close>

text \<open>
  C8. The gate is fail-closed. Under settings that load with enforcement on, an HTTP or websocket
  request is forwarded exactly when its path is one of the two exempt ones or its \<^verbatim>\<open>x-api-key\<close> header is
  the configured key; every other one is refused, a websocket with close code 1008 and an HTTP request
  with 401.
\<close>

theorem gate_fail_closed:
  assumes "load_settings s = Inr s" and "playground_require_api_key s"
    and "sc_type sc = ''http'' \<or> sc_type sc = ''websocket''"
  shows "if sc_path sc = ''/healthz'' \<or> sc_path sc = ''/webhooks/acdp''
        \<or> scope_header sc ''x-api-key'' = Some (playground_api_key s)
    then \<exists>st. api_key_middleware s sc = Forward (Some st)
    else api_key_middleware s sc = (if sc_type sc = ''websocket'' then Websocket_close 1008 else Unauthorized)"
  using assms
  by (auto simp: api_key_middleware_def Let_def key_matches_iff EXEMPT_PATHS_def API_KEY_HEADER_def load_settings_Inr)

definition locked_settings :: settings where
  "locked_settings = default_settings\<lparr>playground_require_api_key := True, playground_api_key := ''s3cret''\<rparr>"

lemma locked_settings_load: "load_settings locked_settings = Inr locked_settings"
  by (simp add: locked_settings_def load_settings_Inr settings_fields_ok_def default_settings_def)

theorem gate_fail_closed_witness:
  "api_key_middleware locked_settings \<lparr>sc_type = ''http'', sc_path = ''/docs'',
     sc_headers = [(''X-Api-Key'', ''s3cre'')], sc_client = None\<rparr> = Unauthorized"
proof -
  let ?sc = "\<lparr>sc_type = ''http'', sc_path = ''/docs'', sc_headers = [(''X-Api-Key'', ''s3cre'')], sc_client = None\<rparr>"
  have "scope_header ?sc ''x-api-key'' = Some ''s3cre''" by code_simp
  with gate_fail_closed[OF locked_settings_load, of ?sc] show ?thesis
    by (simp add: locked_settings_def)
qed

text \<open>
  C9. Without the key nobody chooses a rate-limit bucket. Whatever headers a forwarded request carries,
  if its key is not the configured one its \<^verbatim>\<open>client_ip\<close> is the socket peer (or \<^verbatim>\<open>unknown\<close>), and per-address
  limits apply to it exactly when enforcement is on.
\<close>

theorem keyless_ip_is_peer:
  assumes "api_key_middleware s sc = Forward (Some st)"
    and "scope_header sc ''x-api-key'' \<noteq> Some (playground_api_key s)"
  shows "client_ip st = (case sc_client sc of Some h \<Rightarrow> h | None \<Rightarrow> ''unknown'')
    \<and> per_ip_limits st = playground_require_api_key s \<and> \<not> api_key_valid st"
  using assms
  by (auto simp: api_key_middleware_def Let_def key_matches_iff API_KEY_HEADER_def resolve_client_ip_def
      split: if_splits)

theorem keyless_ip_is_peer_witness:
  "\<exists>st. api_key_middleware default_settings \<lparr>sc_type = ''http'', sc_path = ''/runs'',
       sc_headers = [(''x-acdp-client-ip'', ''1.2.3.4'')], sc_client = Some ''10.0.0.9''\<rparr> = Forward (Some st)
     \<and> client_ip st = ''10.0.0.9''"
proof -
  let ?sc = "\<lparr>sc_type = ''http'', sc_path = ''/runs'', sc_headers = [(''x-acdp-client-ip'', ''1.2.3.4'')],
     sc_client = Some ''10.0.0.9''\<rparr>"
  have k: "scope_header ?sc ''x-api-key'' \<noteq> Some (playground_api_key default_settings)" by code_simp
  have "\<exists>st. api_key_middleware default_settings ?sc = Forward (Some st)"
    by (auto simp: api_key_middleware_def Let_def key_matches_iff EXEMPT_PATHS_def default_settings_def)
  then obtain st where st: "api_key_middleware default_settings ?sc = Forward (Some st)" ..
  from keyless_ip_is_peer[OF st k] st show ?thesis by auto
qed

text \<open>
  One bucket per subscriber. A trusted caller's IPv6 address counts as its /64: two addresses without
  a zone id that share their upper 64 bits resolve to the same text, so rotating through a prefix gives
  no fresh bucket. An IPv4 address written in its mapped IPv6 form resolves to the same text as plain.
\<close>

theorem ipv6_prefix_bucket:
  assumes "ip_address (py_strip v) = Some (IPv6 n None)" and "ip_address (py_strip w) = Some (IPv6 m None)"
    and "n div 2 ^ 64 = m div 2 ^ 64" and "ipv4_mapped n = None" and "ipv4_mapped m = None"
    and "ipv4_parse q = Some a"
  shows "parse_ip (Some v) = parse_ip (Some w) \<and> parse_ip (Some (''::ffff:'' @ q)) = parse_ip (Some q)
    \<and> parse_ip (Some q) = Some (ipv4_str a)"
proof -
  have "v \<noteq> []" "w \<noteq> []" using assms(1,2) by (auto simp: py_str ip_address_def ipv4_parse_def ipv6_parse_def ipv6_groups_def)
  then have "parse_ip (Some v) = parse_ip (Some w)"
    using assms(1-5) by (simp add: parse_ip_def network64_str_def Let_def)
  moreover note c = ipv4_text_chars[OF assms(6)]
  obtain u where u: "ip_address (''::ffff:'' @ q) = Some (IPv6 u None)" "ipv4_mapped u = Some a"
    using mapped_address[OF assms(6)] by blast
  have "py_strip (''::ffff:'' @ q) = ''::ffff:'' @ q"
    using ipv4_parse_chars(1)[OF assms(6)] octet_nonspace by (intro py_strip_nonspace) (auto simp: is_space_char_def)
  with u have "parse_ip (Some (''::ffff:'' @ q)) = Some (ipv4_str a)" by (simp add: parse_ip_def)
  moreover have "parse_ip (Some q) = Some (ipv4_str a)"
    using c assms(6) by (simp add: parse_ip_def ip_address_def)
  ultimately show ?thesis by simp
qed

theorem ipv6_prefix_bucket_witness:
  "parse_ip (Some ''2001:db8::1'') = parse_ip (Some ''2001:db8::ffff:2'')
   \<and> parse_ip (Some ''::ffff:10.0.0.1'') = parse_ip (Some ''10.0.0.1'')"
proof -
  have st: "py_strip ''2001:db8::1'' = ''2001:db8::1''" "py_strip ''2001:db8::ffff:2'' = ''2001:db8::ffff:2''"
    by code_simp+
  have a: "ip_address (py_strip ''2001:db8::1'') = Some (IPv6 42540766411282592856903984951653826561 None)"
    unfolding st by (simp add: ip_parse_eval)
  have b: "ip_address (py_strip ''2001:db8::ffff:2'') = Some (IPv6 42540766411282592856903984955948728322 None)"
    unfolding st by (simp add: ip_parse_eval)
  have q: "ipv4_parse ''10.0.0.1'' = Some 167772161"
    by (simp add: ip_parse_eval)
  from ipv6_prefix_bucket[OF a b _ _ _ q] show ?thesis by (simp add: ipv4_mapped_def)
qed

text \<open>
  A zone id reopens the door. An IPv6 address with zero host bits keeps its zone id, so a caller that
  varies it gets a fresh bucket each time, although the comment promises one bucket per end site.
\<close>

theorem ipv6_zone_splits_bucket:
  "parse_ip (Some ''fe80::%a'') = Some ''fe80::%a/64'' \<and> parse_ip (Some ''fe80::%b'') = Some ''fe80::%b/64''"
proof -
  have st: "py_strip ''fe80::%a'' = ''fe80::%a''" "py_strip ''fe80::%b'' = ''fe80::%b''"
    by code_simp+
  have a: "ip_address ''fe80::%a'' = Some (IPv6 338288524927261089654018896841347694592 (Some ''a''))"
    "ip_address ''fe80::%b'' = Some (IPv6 338288524927261089654018896841347694592 (Some ''b''))"
    by (simp_all add: ip_parse_eval)
  have h: "nat_hex 65152 = ''fe80''"
    by (simp add: nat_hex.simps hex_digit_def) code_simp
  have "best_run [65152, 0, 0, 0, 0, 0, 0, 0] = (1, 7)" by (simp add: best_run_def Let_def upt_rec)
  then have "ipv6_str 338288524927261089654018896841347694592 sc = ''fe80::'' @ (case sc of None \<Rightarrow> [] | Some z \<Rightarrow> ''%'' @ z)" for sc
    by (simp add: ipv6_str_def groups_of_def compress_groups_def h)
  with a show ?thesis by (simp add: parse_ip_def st network64_str_def ipv4_mapped_def Let_def)
qed

end
