(* ===== verification/Url.thy ===== *)
theory Url
  imports Sha256
begin

text \<open>
  The part of \<^verbatim>\<open>urllib.parse\<close> the playground calls, shared by the registry proxy, the registry client and the
  SSRF guard: percent encoding with its inverse, and the splitting of a URL into its components.
\<close>

section \<open>Percent encoding\<close>

definition upper_hex :: "nat \<Rightarrow> char" where
  "upper_hex n = (if n < 10 then char_of (48 + n) else char_of (55 + n))"

definition is_unreserved :: "nat \<Rightarrow> bool" where
  "is_unreserved n \<longleftrightarrow> (97 \<le> n \<and> n \<le> 122) \<or> (65 \<le> n \<and> n \<le> 90) \<or> (48 \<le> n \<and> n \<le> 57) \<or> n \<in> {95, 46, 45, 126}"

text \<open>\<^verbatim>\<open>quote(s, safe)\<close>: the UTF-8 bytes, each kept or written as a percent sign and two digits.\<close>

definition quote_byte :: "string \<Rightarrow> byte \<Rightarrow> string" where
  "quote_byte safe b =
     (let n = unat b in
      if is_unreserved n \<or> n \<in> ord ` set safe then [char_of n]
      else [CHR ''%'', upper_hex (n div 16), upper_hex (n mod 16)])"

definition url_quote :: "string \<Rightarrow> string \<Rightarrow> string" where
  "url_quote safe s = concat (map (quote_byte safe) (utf8_encode s))"

definition quoted_char :: "char \<Rightarrow> bool" where
  "quoted_char c \<longleftrightarrow> is_unreserved (ord c) \<or> c \<in> {CHR '':'', CHR ''@'', CHR ''%''}"

lemma ord_char_of_unat: "ord (char_of (unat (b :: byte))) = unat b"
  using unat_byte_less[of b] by simp

lemma upper_hex_unreserved: "n < 16 \<Longrightarrow> is_unreserved (ord (upper_hex n))"
  by (auto simp: upper_hex_def is_unreserved_def)

lemma char_of_safe: "char_of (58::nat) = CHR '':''" "char_of (64::nat) = CHR ''@''"
  by code_simp+

lemma quote_byte_chars: "c \<in> set (quote_byte '':@'' b) \<Longrightarrow> quoted_char c"
  using unat_byte_less[of b]
  by (auto simp: quote_byte_def Let_def quoted_char_def ord_char_of_unat upper_hex_unreserved char_of_safe split: if_splits)

lemma url_quote_chars: "c \<in> set (url_quote '':@'' s) \<Longrightarrow> quoted_char c"
  by (auto simp: url_quote_def dest: quote_byte_chars)

lemma quoted_char_special: "quoted_char c \<Longrightarrow> c \<notin> {CHR ''/'', CHR ''?'', CHR ''#'', CHR 0x5C, newline}"
  by (auto simp: quoted_char_def is_unreserved_def newline_def)

text \<open>A text that comes out of the encoding without a percent sign went in as it is.\<close>

lemma quote_byte_plain: "CHR ''%'' \<notin> set (quote_byte safe b) \<Longrightarrow> quote_byte safe b = [char_of (unat b)]"
  by (auto simp: quote_byte_def Let_def split: if_splits)

lemma quote_char_plain:
  assumes "CHR ''%'' \<notin> set (concat (map (quote_byte '':@'') (utf8_char c)))"
  shows "concat (map (quote_byte '':@'') (utf8_char c)) = [c]"
proof (cases "ord c < 128")
  case True
  then have "unat (word_of_nat (ord c) :: byte) = ord c" by (simp add: unat_of_nat)
  with assms True quote_byte_plain[of "'':@''" "word_of_nat (ord c)"] show ?thesis
    by (simp add: utf8_char_def)
next
  case False
  have "ord c div 64 < 4" by (simp add: less_mult_imp_div_less)
  then have "unat (word_of_nat (192 + ord c div 64) :: byte) = 192 + ord c div 64"
    by (intro unat_small_byte) simp
  then have "CHR ''%'' \<in> set (quote_byte '':@'' (word_of_nat (192 + ord c div 64)))"
    unfolding quote_byte_def Let_def by (simp add: is_unreserved_def del: of_nat_add)
  with assms False show ?thesis by (simp add: utf8_char_def)
qed

lemma url_quote_plain: "CHR ''%'' \<notin> set (url_quote '':@'' s) \<Longrightarrow> url_quote '':@'' s = s"
proof (induction s)
  case (Cons c s)
  have q: "url_quote '':@'' (c # s) = concat (map (quote_byte '':@'') (utf8_char c)) @ url_quote '':@'' s"
    by (simp add: url_quote_def utf8_encode_def)
  have "CHR ''%'' \<notin> set (concat (map (quote_byte '':@'') (utf8_char c)))"
    and "CHR ''%'' \<notin> set (url_quote '':@'' s)"
    using Cons.prems unfolding q set_append by blast+
  with quote_char_plain[of c] Cons.IH show ?case unfolding q by simp
qed (simp add: url_quote_def utf8_encode_def)

lemma set_py_join: "set (py_join sep ws) \<subseteq> set sep \<union> \<Union> (set ` set ws)"
  by (induction sep ws rule: py_join.induct) auto


subsection \<open>Decoding\<close>

definition pct_value :: "char \<Rightarrow> nat" where
  "pct_value c = (if ord c \<le> 57 then ord c - 48 else ord c - 55)"

text \<open>The bytes an encoded text stands for, as a server decodes them.\<close>

fun unquote_bytes :: "string \<Rightarrow> bytes" where
  "unquote_bytes [] = []"
| "unquote_bytes (c # s) =
     (case s of
        a # b # r \<Rightarrow> if c = CHR ''%'' then word_of_nat (16 * pct_value a + pct_value b) # unquote_bytes r
                     else word_of_nat (ord c) # unquote_bytes s
      | _ \<Rightarrow> word_of_nat (ord c) # unquote_bytes s)"

lemma pct_value_upper: "n < 16 \<Longrightarrow> pct_value (upper_hex n) = n"
  by (auto simp: pct_value_def upper_hex_def)

lemma unquote_plain: "c \<noteq> CHR ''%'' \<Longrightarrow> unquote_bytes (c # s) = word_of_nat (ord c) # unquote_bytes s"
  by (auto split: list.splits)

lemma unquote_quote_byte:
  assumes "CHR ''%'' \<notin> set safe"
  shows "unquote_bytes (quote_byte safe b @ s) = b # unquote_bytes s"
proof (cases "is_unreserved (unat b) \<or> unat b \<in> ord ` set safe")
  case True
  have "char_of (unat b) \<noteq> CHR ''%''"
  proof
    assume p: "char_of (unat b) = CHR ''%''"
    then have "unat b = 37" using ord_char_of_unat[of b] by simp
    with True have "37 \<in> ord ` set safe" by (simp add: is_unreserved_def)
    then obtain c where "c \<in> set safe" "ord c = 37" by auto
    then have "c = CHR ''%''" using p \<open>unat b = 37\<close> by (metis of_char_eq_iff ord_char_of_unat)
    with \<open>c \<in> set safe\<close> assms show False by simp
  qed
  moreover have "quote_byte safe b = [char_of (unat b)]" using True by (simp add: quote_byte_def Let_def)
  moreover have "word_of_nat (ord (char_of (unat b))) = b" unfolding ord_char_of_unat by simp
  ultimately show ?thesis by (simp add: unquote_plain del: unquote_bytes.simps)
next
  case False
  have "unat b div 16 < 16" using unat_byte_less[of b] by simp
  then have "16 * pct_value (upper_hex (unat b div 16)) + pct_value (upper_hex (unat b mod 16)) = unat b"
    by (simp add: pct_value_upper)
  then have "word_of_nat (16 * pct_value (upper_hex (unat b div 16)) + pct_value (upper_hex (unat b mod 16))) = b"
    by simp
  with False show ?thesis by (simp add: quote_byte_def Let_def del: of_nat_add of_nat_mult)
qed

lemma unquote_url_quote: "CHR ''%'' \<notin> set safe \<Longrightarrow> unquote_bytes (url_quote safe s) = utf8_encode s"
proof -
  assume safe: "CHR ''%'' \<notin> set safe"
  have "unquote_bytes (concat (map (quote_byte safe) bs)) = bs" for bs
    by (induction bs) (auto simp: unquote_quote_byte[OF safe])
  then show ?thesis by (simp add: url_quote_def)
qed

end
