(* ===== verification/Registry_Proxy.thy ===== *)
theory Registry_Proxy
  imports Config Url
begin

text \<open>
  playground/api/registry\_proxy.py: the allow-listed read proxy to the two registries. The shared httpx
  client it opens lazily (no redirects) has no state the route reads. The lemmas show which request can
  reach a registry. Of the object that is the detail of the 502 only the code is kept.
\<close>

section \<open>The allow list\<close>

text \<open>\<^verbatim>\<open>[^/]+\<close> after a prefix, up to the end; and the same with \<^verbatim>\<open>/current\<close> behind it.\<close>

definition lineage_path :: "string \<Rightarrow> bool" where
  "lineage_path s \<longleftrightarrow> py_startswith s ''lineages/'' \<and>
     (let x = drop 9 s in x \<noteq> [] \<and> CHR ''/'' \<notin> set x)"

definition lineage_current_path :: "string \<Rightarrow> bool" where
  "lineage_current_path s \<longleftrightarrow> py_endswith s ''/current'' \<and> lineage_path (take (length s - 8) s)"

definition ALLOWED_PATHS :: "(string \<Rightarrow> bool) list" where
  "ALLOWED_PATHS =
     [\<lambda>s. s = ''healthz'', \<lambda>s. s = ''contexts/search'', lineage_path, lineage_current_path,
      \<lambda>s. s = ''.well-known/acdp.json'', \<lambda>s. s = ''.well-known/jwks.json'', \<lambda>s. s = ''.well-known/did.json'']"

definition is_allowed :: "string \<Rightarrow> bool" where
  "is_allowed path \<longleftrightarrow>
     \<not> list_ex (\<lambda>seg. seg = [] \<or> seg = ''.'' \<or> seg = ''..'') (py_split CHR ''/'' path)
     \<and> list_ex (\<lambda>p. dollar_match p path) ALLOWED_PATHS"

section \<open>The route\<close>

datatype registry = RegA | RegB

definition FORWARD_REQUEST_HEADERS :: "string list" where
  "FORWARD_REQUEST_HEADERS = [''accept'', ''if-none-match'']"

definition FORWARD_RESPONSE_HEADERS :: "string list" where
  "FORWARD_RESPONSE_HEADERS =
     [''content-type'', ''cache-control'', ''etag'', ''last-modified'', ''retry-after'', ''vary'']"

definition registry_base :: "settings \<Rightarrow> registry \<Rightarrow> string" where
  "registry_base s reg = (case reg of RegA \<Rightarrow> registry_a_url s | RegB \<Rightarrow> registry_b_url s)"

definition proxy_path :: "string \<Rightarrow> string" where
  "proxy_path path = py_join ''/'' (map (url_quote '':@'') (py_split CHR ''/'' path))"

definition proxy_url :: "settings \<Rightarrow> registry \<Rightarrow> string \<Rightarrow> string \<Rightarrow> string" where
  "proxy_url s reg path query =
     rstrip_char CHR ''/'' (registry_base s reg) @ ''/'' @ proxy_path path
       @ (if query \<noteq> [] then ''?'' @ query else [])"

definition forward_headers :: "(string \<Rightarrow> string option) \<Rightarrow> (string, string) dict" where
  "forward_headers get = List.map_filter
     (\<lambda>h. case get h of Some (c # v) \<Rightarrow> Some (h, c # v) | _ \<Rightarrow> None) FORWARD_REQUEST_HEADERS"

definition out_headers :: "(string \<Rightarrow> string option) \<Rightarrow> (string, string) dict" where
  "out_headers get = List.map_filter (\<lambda>h. map_option (\<lambda>v. (h, v)) (get h)) FORWARD_RESPONSE_HEADERS"

record proxy_response =
  px_status :: int
  px_content :: bytes
  px_headers :: "(string, string) dict"

definition proxy ::
  "'w env \<Rightarrow> settings \<Rightarrow> 'w io \<Rightarrow> registry \<Rightarrow> string \<Rightarrow> string \<Rightarrow> (string \<Rightarrow> string option)
     \<Rightarrow> 'w io \<times> proxy_response result" where
  "proxy env s io reg path query get =
     (if \<not> is_allowed path then (io, Inl (HTTPException 404 (''not an allow-listed registry path: /'' @ path)))
      else case http_send env io
             \<lparr>rq_method = ''GET'', rq_url = proxy_url s reg path query, rq_headers = forward_headers get,
              rq_params = [], rq_body = NoBody\<rparr> of
        (io', Inl HTTPError) \<Rightarrow> (io', Inl (HTTPException 502 ''registry_unreachable''))
      | (io', Inl e) \<Rightarrow> (io', Inl e)
      | (io', Inr r) \<Rightarrow>
          (io', Inr \<lparr>px_status = status_code r, px_content = resp_content r,
                     px_headers = out_headers (resp_header r)\<rparr>))"

section \<open>Lemmas\<close>

lemma proxy_path_split: "py_split CHR ''/'' (proxy_path path) = map (url_quote '':@'') (py_split CHR ''/'' path)"
  unfolding proxy_path_def
proof (rule py_split_join)
  show "CHR ''/'' \<notin> set w" if "w \<in> set (map (url_quote '':@'') (py_split CHR ''/'' path))" for w
    using that url_quote_chars quoted_char_special by fastforce
qed simp

lemma proxy_path_chars: "c \<in> set (proxy_path path) \<Longrightarrow> quoted_char c \<or> c = CHR ''/''"
  unfolding proxy_path_def using set_py_join[of "''/''" "map (url_quote '':@'') (py_split CHR ''/'' path)"]
  by (auto dest: url_quote_chars)

lemma proxy_path_no_dots:
  assumes "is_allowed path"
  shows "[] \<notin> set (py_split CHR ''/'' (proxy_path path)) \<and> ''.'' \<notin> set (py_split CHR ''/'' (proxy_path path))
    \<and> ''..'' \<notin> set (py_split CHR ''/'' (proxy_path path))"
proof -
  have "url_quote '':@'' w \<noteq> d" if "w \<in> set (py_split CHR ''/'' path)" "d \<in> {[], ''.'', ''..''}" for w d
  proof
    assume q: "url_quote '':@'' w = d"
    with that(2) have "CHR ''%'' \<notin> set (url_quote '':@'' w)" by auto
    from url_quote_plain[OF this] q have "w = d" by simp
    with assms that show False by (auto simp: is_allowed_def list_ex_iff)
  qed
  then show ?thesis unfolding proxy_path_split by fastforce
qed

section \<open>Properties\<close>

text \<open>
  C10. The proxy cannot be steered. Whatever path, query and headers the caller sends, at most one
  request is made, and only for an allow-listed path; it is a GET under the configured base of the chosen
  registry; between the base and the query the caller's path contributes only unreserved characters,
  colons, at-signs, percent escapes and slashes, with no empty or dot segment, so it can neither open a
  query or fragment of its own nor climb; and no header but \<^verbatim>\<open>Accept\<close> and \<^verbatim>\<open>If-None-Match\<close> is passed on.
\<close>

theorem proxy_request_confined:
  assumes "proxy env s io reg path query get = (io', r)"
  shows "sent io' = sent io \<or>
    (\<exists>rq. sent io' = sent io @ [rq] \<and> is_allowed path \<and> rq_method rq = ''GET''
      \<and> rq_url rq = rstrip_char CHR ''/'' (registry_base s reg) @ ''/'' @ proxy_path path
           @ (if query \<noteq> [] then ''?'' @ query else [])
      \<and> (\<forall>c \<in> set (proxy_path path). c \<notin> {CHR ''?'', CHR ''#'', CHR 0x5C, newline})
      \<and> ''..'' \<notin> set (py_split CHR ''/'' (proxy_path path)) \<and> [] \<notin> set (py_split CHR ''/'' (proxy_path path))
      \<and> fst ` set (rq_headers rq) \<subseteq> {''accept'', ''if-none-match''})"
proof (cases "is_allowed path")
  case False
  with assms show ?thesis by (simp add: proxy_def)
next
  case True
  let ?rq = "\<lparr>rq_method = ''GET'', rq_url = proxy_url s reg path query, rq_headers = forward_headers get,
              rq_params = [], rq_body = NoBody\<rparr>"
  have "sent io' = sent io @ [?rq]"
    using assms True sent_http_send[of env io ?rq]
    by (cases "http_send env io ?rq") (auto simp: proxy_def split: sum.splits exn.splits)
  moreover have "fst ` set (forward_headers get) \<subseteq> {''accept'', ''if-none-match''}"
    by (auto simp: forward_headers_def FORWARD_REQUEST_HEADERS_def map_filter_simps split: option.splits list.splits)
  moreover have "c \<notin> {CHR ''?'', CHR ''#'', CHR 0x5C, newline}" if "c \<in> set (proxy_path path)" for c
    using proxy_path_chars[OF that] quoted_char_special[of c] by (auto simp: newline_def)
  ultimately show ?thesis
    using True proxy_path_no_dots[OF True] by (auto simp: proxy_url_def)
qed

theorem proxy_request_confined_witness:
  "let io' = fst (proxy \<lparr>transport = (\<lambda>w rq. (w, Inl HTTPError)), wall_clock = (\<lambda>w. 0), sleep_for = (\<lambda>d w. w),
        parsedate_to_datetime = (\<lambda>v. Inr None), now_iso = (\<lambda>w. []), float_repr = (\<lambda>f. [])\<rparr>
      default_settings \<lparr>world = (), sent = []\<rparr> RegA ''lineages/lin:x?#y'' [] (\<lambda>h. Some ''k''))
   in length (sent io') \<le> 1 \<and> proxy_path ''lineages/lin:x?#y'' = ''lineages/lin:x%3F%23y''"
proof -
  let ?p = "proxy \<lparr>transport = (\<lambda>w rq. (w, Inl HTTPError)), wall_clock = (\<lambda>w. 0), sleep_for = (\<lambda>d w. w),
        parsedate_to_datetime = (\<lambda>v. Inr None), now_iso = (\<lambda>w. []), float_repr = (\<lambda>f. [])\<rparr>
      default_settings \<lparr>world = (), sent = []\<rparr> RegA ''lineages/lin:x?#y'' [] (\<lambda>h. Some ''k'')"
  have "proxy_path ''lineages/lin:x?#y'' = ''lineages/lin:x%3F%23y''" by code_simp
  with proxy_request_confined[OF prod.collapse[symmetric, of ?p]] show ?thesis by auto
qed

text \<open>
  The allow list admits a little more than the exact read paths. Its patterns end in \<^verbatim>\<open>$\<close>, so a path
  with one trailing newline is allowed, and \<^verbatim>\<open>healthz\<close> followed by an encoded newline goes upstream.
\<close>

theorem proxy_accepts_trailing_newline:
  "is_allowed (''healthz'' @ [newline]) \<and> proxy_path (''healthz'' @ [newline]) = ''healthz%0A''"
  by code_simp

end
