(* ===== verification/Token_Manager.thy ===== *)
theory Token_Manager
  imports Runtime Sha256
begin

text \<open>
  acdp\_client/signing.py and acdp\_client/token\_manager.py: the producer's algorithm, the challenge, sign
  and token round trip, the token cache, and the interleavings of coroutines that ask for tokens at
  the same time.

  The producer is an object of the SDK: \<open>sign_challenge\<close>, the request builders (functions of their keyword
  arguments, None being \<^const>\<open>JNull\<close>) and the key material are its fields. Reading a
  JWT payload (base64 and JSON) is a parameter, as is the text Python gives a value that is no string.
\<close>

section \<open>Producers (signing.py)\<close>

record producer =
  agent_did :: string
  key_id :: string
  class_name :: string
  sign_challenge :: "json \<Rightarrow> string result"
  public_key_b64 :: string
  public_key_sec1_b64 :: string
  public_key_jwk :: string
  did_verification_method :: "string \<Rightarrow> string \<Rightarrow> string result"
  build_publish_request :: "(string, json) dict \<Rightarrow> string result"
  build_supersede_request :: "(string, json) dict \<Rightarrow> string result"

definition ALG_ED25519 :: string where "ALG_ED25519 = ''ed25519''"
definition ALG_P256 :: string where "ALG_P256 = ''ecdsa-p256''"

definition producer_algorithm :: "producer \<Rightarrow> string" where
  "producer_algorithm p =
     (if class_name p = ''AcdpP256Producer'' \<or> class_name p = ''PyAcdpP256Producer'' then ALG_P256
      else ALG_ED25519)"

definition is_p256 :: "producer \<Rightarrow> bool" where
  "is_p256 p \<longleftrightarrow> producer_algorithm p = ALG_P256"

definition public_key_material :: "producer \<Rightarrow> string" where
  "public_key_material p = (if is_p256 p then public_key_sec1_b64 p else public_key_b64 p)"

text \<open>The two verifiers of the SDK are parameters.\<close>

definition verify_signature ::
  "(string \<Rightarrow> string \<Rightarrow> string \<Rightarrow> bool result) \<Rightarrow> (string \<Rightarrow> string \<Rightarrow> string \<Rightarrow> bool result)
     \<Rightarrow> string \<Rightarrow> string \<Rightarrow> string \<Rightarrow> string \<Rightarrow> bool result" where
  "verify_signature verify_ed25519 verify_p256 algorithm material signature_b64 content_hash =
     (if algorithm = ALG_ED25519 then verify_ed25519 material signature_b64 content_hash
      else if algorithm = ALG_P256 then verify_p256 material signature_b64 content_hash
      else Inl ValueError)"

section \<open>Reading JSON the way Python does\<close>

text \<open>\<^verbatim>\<open>x[k]\<close> with a string key.\<close>

fun json_index :: "json \<Rightarrow> string \<Rightarrow> json result" where
  "json_index (JObj kvs) k = (case map_of kvs k of Some v \<Rightarrow> Inr v | None \<Rightarrow> Inl KeyError)"
| "json_index _ k = Inl TypeError"

fun py_int :: "json \<Rightarrow> int result" where
  "py_int (JInt i) = Inr i"
| "py_int (JBool b) = Inr (if b then 1 else 0)"
| "py_int (JStr s) = int_of_str s"
| "py_int (JFloat (Fin q)) = Inr (if q < 0 then \<lceil>q\<rceil> else \<lfloor>q\<rfloor>)"
| "py_int (JFloat NaN) = Inl ValueError"
| "py_int (JFloat _) = Inl OverflowError"
| "py_int _ = Inl TypeError"

record jwt_env =
  jwt_payload :: "string \<Rightarrow> json result"
  py_repr :: "json \<Rightarrow> string"

text \<open>\<open>jwt_payload\<close> is \<^verbatim>\<open>json.loads(base64.urlsafe_b64decode(part + padding))\<close>.\<close>

definition decode_unverified_claims :: "jwt_env \<Rightarrow> string \<Rightarrow> (string, json) dict result" where
  "decode_unverified_claims je token =
     (case py_split CHR ''.'' token of
        a # payload_b64 # rest \<Rightarrow>
          (case jwt_payload je payload_b64 of
             Inl e \<Rightarrow> if is_ValueError e then Inr [] else Inl e
           | Inr (JObj kvs) \<Rightarrow> Inr kvs
           | Inr _ \<Rightarrow> Inr [])
      | _ \<Rightarrow> Inr [])"

definition str_json :: "jwt_env \<Rightarrow> json \<Rightarrow> string" where
  "str_json je j = (case j of JStr s \<Rightarrow> s | JInt i \<Rightarrow> str_int i | _ \<Rightarrow> py_repr je j)"

definition nonempty :: "string \<Rightarrow> string option" where
  "nonempty s = (if s = [] then None else Some s)"

definition normalize_aud :: "jwt_env \<Rightarrow> json \<Rightarrow> string option" where
  "normalize_aud je aud_claim =
     (case aud_claim of
        JStr s \<Rightarrow> nonempty s
      | JList xs \<Rightarrow> nonempty (py_join '','' (map (str_json je) (filter truthy xs)))
      | _ \<Rightarrow> None)"

section \<open>Cached tokens and the manager's state\<close>

datatype refresh_reason = FIRST_USE | PROACTIVE_REFRESH | REACTIVE_401

record cached_token =
  ct_token :: string
  ct_token_type :: json
  ct_expires_at :: int
  ct_tenant :: "string option"
  ct_jti :: "string option"
  ct_aud :: "string option"

definition is_fresh :: "cached_token \<Rightarrow> real \<Rightarrow> int \<Rightarrow> bool" where
  "is_fresh c now leeway \<longleftrightarrow> now + real_of_int leeway < real_of_int (ct_expires_at c)"

type_synonym tm_key = "string \<times> string"

record token_manager =
  tm_leeway :: int
  tm_cache :: "(tm_key, cached_token) dict"
  tm_pending :: "(tm_key, refresh_reason) dict"

definition new_token_manager :: "int \<Rightarrow> token_manager" where
  "new_token_manager leeway = \<lparr>tm_leeway = leeway, tm_cache = [], tm_pending = []\<rparr>"

definition tm_key_of :: "producer \<Rightarrow> string \<Rightarrow> tm_key" where
  "tm_key_of p base = (agent_did p, rstrip_char CHR ''/'' base)"

definition fresh_cached :: "token_manager \<Rightarrow> real \<Rightarrow> tm_key \<Rightarrow> cached_token option" where
  "fresh_cached tm now key =
     (case map_of (tm_cache tm) key of
        Some c \<Rightarrow> if is_fresh c now (tm_leeway tm) then Some c else None
      | None \<Rightarrow> None)"

definition invalidate :: "token_manager \<Rightarrow> producer \<Rightarrow> string \<Rightarrow> refresh_reason \<Rightarrow> token_manager" where
  "invalidate tm p base reason =
     (let key = tm_key_of p base in
      tm\<lparr>tm_cache := AList.delete key (tm_cache tm), tm_pending := AList.update key reason (tm_pending tm)\<rparr>)"

text \<open>The reason for the imminent mint; a pending one is popped.\<close>

definition classify_refresh :: "token_manager \<Rightarrow> tm_key \<Rightarrow> token_manager \<times> refresh_reason" where
  "classify_refresh tm key =
     (case map_of (tm_pending tm) key of
        Some r \<Rightarrow> (tm\<lparr>tm_pending := AList.delete key (tm_pending tm)\<rparr>, r)
      | None \<Rightarrow> (tm, if map_of (tm_cache tm) key \<noteq> None then PROACTIVE_REFRESH else FIRST_USE))"

section \<open>Minting\<close>

definition json_post :: "string \<Rightarrow> (string, string) dict \<Rightarrow> json \<Rightarrow> request" where
  "json_post url headers body =
     \<lparr>rq_method = ''POST'', rq_url = url, rq_headers = headers, rq_params = [], rq_body = JsonBody body\<rparr>"

definition post_cooperative :: "'w env \<Rightarrow> 'w io \<Rightarrow> string \<Rightarrow> json \<Rightarrow> 'w io \<times> response result" where
  "post_cooperative env io url body =
     (case http_send env io (json_post url [] body) of
        (io1, Inl e) \<Rightarrow> (io1, Inl e)
      | (io1, Inr r) \<Rightarrow>
          if status_code r \<noteq> 429 \<and> status_code r \<noteq> 503 then (io1, Inr r)
          else (case parse_retry_after (parsedate_to_datetime env) (resp_header r ''retry-after'') (io_now env io1) of
                  Inl e \<Rightarrow> (io1, Inl e)
                | Inr None \<Rightarrow> (io1, Inr r)
                | Inr (Some delay) \<Rightarrow>
                    http_send env (io_sleep env io1 (min delay 30)) (json_post url [] body)))"

text \<open>
  A POST step of the mint: a transport error or a refusal becomes \<open>err\<close>; \<^verbatim>\<open>resp.json()\<close> stands outside
  the handler, so its ValueError escapes.
\<close>

definition mint_post :: "'w env \<Rightarrow> 'w io \<Rightarrow> exn \<Rightarrow> string \<Rightarrow> json \<Rightarrow> 'w io \<times> json result" where
  "mint_post env io err url body =
     (case post_cooperative env io url body of
        (io', Inl HTTPError) \<Rightarrow> (io', Inl err)
      | (io', Inl e) \<Rightarrow> (io', Inl e)
      | (io', Inr r) \<Rightarrow>
          if \<not> is_success r then (io', Inl err)
          else (case resp_json r of None \<Rightarrow> (io', Inl JSONDecodeError) | Some j \<Rightarrow> (io', Inr j)))"

text \<open>\<^verbatim>\<open>except (KeyError, ValueError)\<close>.\<close>

definition malformed_as :: "exn \<Rightarrow> 'a result \<Rightarrow> 'a result" where
  "malformed_as err r = (case r of Inl e \<Rightarrow> if e = KeyError \<or> is_ValueError e then Inl err else Inl e | Inr a \<Rightarrow> Inr a)"

definition read_challenge :: "json \<Rightarrow> (json \<times> int \<times> json) result" where
  "read_challenge ch = malformed_as ChallengeError
     (rbind (json_index ch ''nonce'') (\<lambda>nonce.
      rbind (rbind (json_index ch ''expires_at'') py_int) (\<lambda>expires_at.
      rbind (json_index ch ''signing_input'') (\<lambda>signing_input. Inr (nonce, expires_at, signing_input)))))"

definition read_token :: "jwt_env \<Rightarrow> json \<Rightarrow> cached_token result" where
  "read_token je tk = malformed_as TokenIssueError
     (rbind (json_index tk ''token'') (\<lambda>token.
      case as_str token of
        None \<Rightarrow> Inl AttributeError
      | Some t \<Rightarrow>
          rbind (decode_unverified_claims je t) (\<lambda>claims.
          rbind (rbind (json_index tk ''expires_at'') py_int) (\<lambda>exp.
          Inr \<lparr>ct_token = t,
               ct_token_type = (case as_obj tk of Some kvs \<Rightarrow> dict_get_default kvs ''token_type'' (JStr ''Bearer'')
                                 | None \<Rightarrow> JNull),
               ct_expires_at = exp,
               ct_tenant = as_str (obj_get claims ''tenant''),
               ct_jti = as_str (obj_get claims ''jti''),
               ct_aud = normalize_aud je (obj_get claims ''aud'')\<rparr>))))"

definition token_request :: "producer \<Rightarrow> json \<Rightarrow> int \<Rightarrow> string \<Rightarrow> json" where
  "token_request p nonce expires_at signature = JObj
     [(''agent_id'', JStr (agent_did p)), (''key_id'', JStr (key_id p)), (''nonce'', nonce),
      (''expires_at'', JInt expires_at), (''algorithm'', JStr (producer_algorithm p)),
      (''signature'', JStr signature)]"

definition mint :: "'w env \<Rightarrow> jwt_env \<Rightarrow> 'w io \<Rightarrow> producer \<Rightarrow> string \<Rightarrow> 'w io \<times> cached_token result" where
  "mint env je io p base =
     (case mint_post env io ChallengeError (base @ ''/auth/challenge'') (JObj [(''agent_id'', JStr (agent_did p))]) of
        (io1, Inl e) \<Rightarrow> (io1, Inl e)
      | (io1, Inr ch) \<Rightarrow>
          (case rbind (read_challenge ch) (\<lambda>(nonce, expires_at, signing_input).
                  rbind (sign_challenge p signing_input) (\<lambda>sig. Inr (token_request p nonce expires_at sig))) of
             Inl e \<Rightarrow> (io1, Inl e)
           | Inr tk_req \<Rightarrow>
               (case mint_post env io1 TokenIssueError (base @ ''/auth/token'') tk_req of
                  (io2, Inl e) \<Rightarrow> (io2, Inl e)
                | (io2, Inr tk) \<Rightarrow> (io2, read_token je tk))))"

section \<open>The public operations\<close>

definition token_for ::
  "'w env \<Rightarrow> jwt_env \<Rightarrow> 'w io \<Rightarrow> token_manager \<Rightarrow> producer \<Rightarrow> string
     \<Rightarrow> 'w io \<times> token_manager \<times> cached_token result" where
  "token_for env je io tm p base =
     (let key = tm_key_of p base in
      case fresh_cached tm (io_now env io) key of
        Some c \<Rightarrow> (io, tm, Inr c)
      | None \<Rightarrow>
          (case classify_refresh tm key of
             (tm1, reason) \<Rightarrow>
               (case mint env je io p (snd key) of
                  (io1, Inl e) \<Rightarrow> (io1, tm1, Inl e)
                | (io1, Inr c) \<Rightarrow> (io1, tm1\<lparr>tm_cache := AList.update key c (tm_cache tm1)\<rparr>, Inr c))))"

definition revoke ::
  "'w env \<Rightarrow> jwt_env \<Rightarrow> 'w io \<Rightarrow> token_manager \<Rightarrow> producer \<Rightarrow> string \<Rightarrow> 'w io \<times> token_manager \<times> bool result" where
  "revoke env je io tm p registry_base_url =
     (let base = rstrip_char CHR ''/'' registry_base_url in
      case token_for env je io tm p base of
        (io1, tm1, Inl e) \<Rightarrow> (io1, tm1, Inl e)
      | (io1, tm1, Inr c) \<Rightarrow>
          (case ct_jti c of
             Some (x # jti) \<Rightarrow>
               (case http_send env io1 (json_post (base @ ''/auth/token/revoke'')
                       [(''Authorization'', ''Bearer '' @ ct_token c), (''Content-Type'', ''application/json'')]
                       (JObj [(''jti'', JStr (x # jti))])) of
                  (io2, Inl HTTPError) \<Rightarrow> (io2, invalidate tm1 p base REACTIVE_401, Inr False)
                | (io2, Inl e) \<Rightarrow> (io2, tm1, Inl e)
                | (io2, Inr r) \<Rightarrow> (io2, invalidate tm1 p base REACTIVE_401, Inr (is_success r)))
           | _ \<Rightarrow> (io1, tm1, Inr False)))"

section \<open>What reaches the wire\<close>

lemma post_cooperative_sent:
  assumes "post_cooperative env io url body = (io', r)"
  shows "\<exists>n. 1 \<le> n \<and> n \<le> 2 \<and> sent io' = sent io @ replicate n (json_post url [] body)"
proof -
  let ?rq = "json_post url [] body"
  obtain io1 r1 where s1: "http_send env io ?rq = (io1, r1)" by (cases "http_send env io ?rq")
  have "sent io' \<in> {sent io @ [?rq], sent io @ [?rq, ?rq]}"
    using assms s1 http_send_sent[OF s1] sent_http_send[of env "io_sleep env io1 _" ?rq]
    by (auto simp: post_cooperative_def dest!: http_send_sent split: sum.splits if_splits option.splits)
  then show ?thesis
    by (auto intro: exI[of _ 1] exI[of _ 2] simp: numeral_2_eq_2)
qed

lemma mint_post_sent:
  assumes "mint_post env io err url body = (io', r)"
  shows "\<exists>n. 1 \<le> n \<and> n \<le> 2 \<and> sent io' = sent io @ replicate n (json_post url [] body)"
proof -
  obtain io1 r1 where p: "post_cooperative env io url body = (io1, r1)"
    by (cases "post_cooperative env io url body")
  with assms have "io' = io1"
    by (auto simp: mint_post_def split: sum.splits exn.splits if_splits option.splits)
  with post_cooperative_sent[OF p] show ?thesis by simp
qed

definition auth_urls :: "string \<Rightarrow> string set" where
  "auth_urls base = {base @ ''/auth/challenge'', base @ ''/auth/token''}"

lemma mint_sent:
  assumes "mint env je io p base = (io', r)"
  shows "\<exists>rqs. sent io' = sent io @ rqs \<and> 1 \<le> length rqs \<and> length rqs \<le> 4
    \<and> (\<forall>rq \<in> set rqs. rq_method rq = ''POST'' \<and> rq_url rq \<in> auth_urls base)"
proof -
  let ?ch = "json_post (base @ ''/auth/challenge'') [] (JObj [(''agent_id'', JStr (agent_did p))])"
  obtain io1 r1 where c: "mint_post env io ChallengeError (base @ ''/auth/challenge'')
      (JObj [(''agent_id'', JStr (agent_did p))]) = (io1, r1)"
    by (metis prod.collapse)
  obtain n where n: "1 \<le> n" "n \<le> 2" "sent io1 = sent io @ replicate n ?ch"
    using mint_post_sent[OF c] by blast
  have "io' = io1 \<or> (\<exists>tk io2 r2. mint_post env io1 TokenIssueError (base @ ''/auth/token'') tk = (io2, r2) \<and> io' = io2)"
    using assms c by (auto simp: mint_def split: sum.splits prod.splits)
  then show ?thesis
  proof
    assume "io' = io1"
    with n show ?thesis by (intro exI[of _ "replicate n ?ch"]) (auto simp: json_post_def auth_urls_def)
  next
    assume "\<exists>tk io2 r2. mint_post env io1 TokenIssueError (base @ ''/auth/token'') tk = (io2, r2) \<and> io' = io2"
    then obtain tk r2 where t: "mint_post env io1 TokenIssueError (base @ ''/auth/token'') tk = (io', r2)" by blast
    obtain m where m: "1 \<le> m" "m \<le> 2" "sent io' = sent io1 @ replicate m (json_post (base @ ''/auth/token'') [] tk)"
      using mint_post_sent[OF t] by blast
    with n show ?thesis
      by (intro exI[of _ "replicate n ?ch @ replicate m (json_post (base @ ''/auth/token'') [] tk)"])
        (auto simp: json_post_def auth_urls_def)
  qed
qed

lemma classify_refresh_cache [simp]:
  "tm_cache (fst (classify_refresh tm key)) = tm_cache tm" "tm_leeway (fst (classify_refresh tm key)) = tm_leeway tm"
  by (simp_all add: classify_refresh_def split: option.splits)

lemma token_for_hit:
  "fresh_cached tm (io_now env io) (tm_key_of p base) = Some c \<Longrightarrow> token_for env je io tm p base = (io, tm, Inr c)"
  by (simp add: token_for_def)

lemma token_for_miss:
  assumes "token_for env je io tm p base = (io', tm', r)"
    and "fresh_cached tm (io_now env io) (tm_key_of p base) = None"
  shows "mint env je io p (snd (tm_key_of p base)) = (io', r)
    \<and> tm' = (case r of
        Inl e \<Rightarrow> fst (classify_refresh tm (tm_key_of p base))
      | Inr c \<Rightarrow> (fst (classify_refresh tm (tm_key_of p base)))\<lparr>tm_cache := AList.update (tm_key_of p base) c (tm_cache tm)\<rparr>)"
proof -
  obtain tm1 reason where cl: "classify_refresh tm (tm_key_of p base) = (tm1, reason)"
    by (cases "classify_refresh tm (tm_key_of p base)")
  have "tm_cache tm1 = tm_cache tm" using classify_refresh_cache(1)[of tm "tm_key_of p base"] cl by simp
  with assms cl show ?thesis by (auto simp: token_for_def Let_def split: prod.splits sum.splits)
qed

lemma fresh_cached_invalidate [simp]: "fresh_cached (invalidate tm p base reason) now (tm_key_of p base) = None"
  by (simp add: fresh_cached_def invalidate_def Let_def)


lemma fresh_cached_invalidate_other:
  "k \<noteq> tm_key_of p base \<Longrightarrow> fresh_cached (invalidate tm p base reason) now k = fresh_cached tm now k"
  by (simp add: fresh_cached_def invalidate_def Let_def split: option.splits)

lemma snd_tm_key_of [simp]: "snd (tm_key_of p base) = rstrip_char CHR ''/'' base"
  by (simp add: tm_key_of_def)

lemma fresh_cached_Some:
  "fresh_cached tm now k = Some c \<longleftrightarrow> map_of (tm_cache tm) k = Some c \<and> is_fresh c now (tm_leeway tm)"
  by (auto simp: fresh_cached_def split: option.splits if_splits)

lemma is_fresh_mono: "is_fresh c now' leeway \<Longrightarrow> now \<le> now' \<Longrightarrow> is_fresh c now leeway"
  by (simp add: is_fresh_def)

subsection \<open>The interface the client relies on\<close>

text \<open>
  A source of tokens: a live token is handed out without a request, everything a source sends is
  authentication traffic, at most four requests for a token, and what was forgotten is asked for again.
\<close>

locale token_source =
  fixes obtain_token :: "'w io \<Rightarrow> 'm \<Rightarrow> 'w io \<times> 'm \<times> cached_token result"
    and forget :: "'m \<Rightarrow> 'm"
    and live :: "'w io \<Rightarrow> 'm \<Rightarrow> bool"
    and auth :: "request \<Rightarrow> bool"
  assumes live_silent: "live io m \<Longrightarrow> fst (obtain_token io m) = io"
    and wire: "obtain_token io m = (io', m', r) \<Longrightarrow>
      \<exists>rqs. sent io' = sent io @ rqs \<and> list_all auth rqs \<and> length rqs \<le> 4 \<and> (\<not> live io m \<longrightarrow> rqs \<noteq> [])"
    and forget_dead: "\<not> live io (forget m)"
begin

lemma forget_asks:
  "obtain_token io (forget m) = (io', m', r) \<Longrightarrow>
     \<exists>rqs. sent io' = sent io @ rqs \<and> list_all auth rqs \<and> rqs \<noteq> []"
  using wire forget_dead by metis

lemma live_same_wire: "live io m \<Longrightarrow> obtain_token io m = (io', m', r) \<Longrightarrow> sent io' = sent io"
  using live_silent[of io m] by simp

end

definition is_auth_request :: "string \<Rightarrow> request \<Rightarrow> bool" where
  "is_auth_request base rq \<longleftrightarrow> rq_method rq = ''POST'' \<and> rq_url rq \<in> auth_urls base"

interpretation managed_token: token_source
  "\<lambda>io tm. token_for env je io tm p base" "\<lambda>tm. invalidate tm p base reason"
  "\<lambda>io tm. fresh_cached tm (io_now env io) (tm_key_of p base) \<noteq> None"
  "is_auth_request (rstrip_char CHR ''/'' base)"
  for env je p base reason
proof
  fix io io' :: "'a io" and tm tm' r
  show "fresh_cached tm (io_now env io) (tm_key_of p base) \<noteq> None \<Longrightarrow> fst (token_for env je io tm p base) = io"
    using token_for_hit[of tm env io p base _ je] by auto
  assume t: "token_for env je io tm p base = (io', tm', r)"
  show "\<exists>rqs. sent io' = sent io @ rqs \<and> list_all (is_auth_request (rstrip_char CHR ''/'' base)) rqs \<and> length rqs \<le> 4
     \<and> (\<not> fresh_cached tm (io_now env io) (tm_key_of p base) \<noteq> None \<longrightarrow> rqs \<noteq> [])"
  proof (cases "fresh_cached tm (io_now env io) (tm_key_of p base)")
    case None
    with token_for_miss[OF t] mint_sent[of env je io p "rstrip_char CHR ''/'' base" io' r] show ?thesis
      by (auto simp: is_auth_request_def list_all_iff)
  next
    case (Some c)
    with t token_for_hit[OF Some, of je] show ?thesis by simp
  qed
qed simp

text \<open>
  C19. A call with a fresh token in the cache sends nothing and returns it. Any other call sends between
  one and four POSTs, all to the challenge and token endpoints of the registry asked for; a token it
  returns is in the cache afterwards, an error leaves the cache as it was, and the tokens of other
  agents and registries are never touched. After \<open>invalidate\<close> the next call always goes to the wire.
\<close>

theorem token_for_contract:
  assumes "token_for env je io tm p base = (io', tm', r)"
  shows "(case fresh_cached tm (io_now env io) (tm_key_of p base) of
       Some c \<Rightarrow> io' = io \<and> tm' = tm \<and> r = Inr c
     | None \<Rightarrow> (\<exists>rqs. sent io' = sent io @ rqs \<and> 1 \<le> length rqs \<and> length rqs \<le> 4
           \<and> (\<forall>rq \<in> set rqs. rq_method rq = ''POST'' \<and> rq_url rq \<in> auth_urls (rstrip_char CHR ''/'' base)))
         \<and> (case r of Inl e \<Rightarrow> tm_cache tm' = tm_cache tm
             | Inr c \<Rightarrow> map_of (tm_cache tm') (tm_key_of p base) = Some c))
   \<and> (\<forall>k. k \<noteq> tm_key_of p base \<longrightarrow> map_of (tm_cache tm') k = map_of (tm_cache tm) k)
   \<and> fresh_cached (invalidate tm' p base reason) (io_now env io') (tm_key_of p base) = None"
proof (cases "fresh_cached tm (io_now env io) (tm_key_of p base)")
  case None
  note miss = token_for_miss[OF assms None]
  then have "\<exists>rqs. sent io' = sent io @ rqs \<and> 1 \<le> length rqs \<and> length rqs \<le> 4
     \<and> (\<forall>rq \<in> set rqs. rq_method rq = ''POST'' \<and> rq_url rq \<in> auth_urls (snd (tm_key_of p base)))"
    by (intro mint_sent) auto
  with miss None show ?thesis by (cases r) auto
next
  case (Some c)
  with assms token_for_hit[OF Some, of je] show ?thesis by simp
qed

section \<open>Coroutines that ask at the same time\<close>

text \<open>
  Between two awaits a coroutine runs alone, so the steps below cut \<open>token_for\<close> where it awaits: at the
  lock and inside the mint. The first look at the cache, the look under the lock with
  \<open>classify_refresh\<close>, and the store of the minted token are each one step. The locks are a dict that only
  grows; the value under a key is the coroutine that holds it. A cancelled coroutine leaves the lock like one
  whose mint raised. The log of mints is not in the code: it records the keys \<open>_mint\<close> was called for.
\<close>

datatype tm_pc =
    Idle
  | Waiting tm_key
  | Minting tm_key refresh_reason
  | Returned tm_key cached_token
  | Raised tm_key exn

record tm_sys =
  sys_tm :: token_manager
  sys_now :: real
  sys_pc :: "nat \<Rightarrow> tm_pc"
  sys_locks :: "(tm_key, nat option) dict"
  sys_mints :: "tm_key list"

definition lock_for :: "(tm_key, nat option) dict \<Rightarrow> tm_key \<Rightarrow> (tm_key, nat option) dict" where
  "lock_for locks key = (case map_of locks key of None \<Rightarrow> AList.update key None locks | Some h \<Rightarrow> locks)"

datatype tm_act =
    Enter nat tm_key
  | Lock nat
  | Finish nat "cached_token result"
  | Cancel nat exn
  | Again nat
  | Invalidate producer string refresh_reason
  | Tick real

definition enter :: "nat \<Rightarrow> tm_key \<Rightarrow> tm_sys \<Rightarrow> tm_sys" where
  "enter i key s =
     (case fresh_cached (sys_tm s) (sys_now s) key of
        Some c \<Rightarrow> s\<lparr>sys_pc := (sys_pc s)(i := Returned key c)\<rparr>
      | None \<Rightarrow> s\<lparr>sys_locks := lock_for (sys_locks s) key, sys_pc := (sys_pc s)(i := Waiting key)\<rparr>)"

definition locked :: "nat \<Rightarrow> tm_key \<Rightarrow> tm_sys \<Rightarrow> tm_sys" where
  "locked i key s =
     (case fresh_cached (sys_tm s) (sys_now s) key of
        Some c \<Rightarrow> s\<lparr>sys_pc := (sys_pc s)(i := Returned key c)\<rparr>
      | None \<Rightarrow>
          (case classify_refresh (sys_tm s) key of
             (tm, reason) \<Rightarrow> s\<lparr>sys_tm := tm, sys_pc := (sys_pc s)(i := Minting key reason),
               sys_locks := AList.update key (Some i) (sys_locks s), sys_mints := sys_mints s @ [key]\<rparr>))"

definition finish :: "nat \<Rightarrow> tm_key \<Rightarrow> cached_token result \<Rightarrow> tm_sys \<Rightarrow> tm_sys" where
  "finish i key r s =
     (case r of
        Inl e \<Rightarrow> s\<lparr>sys_pc := (sys_pc s)(i := Raised key e), sys_locks := AList.update key None (sys_locks s)\<rparr>
      | Inr c \<Rightarrow> s\<lparr>sys_tm := (sys_tm s)\<lparr>tm_cache := AList.update key c (tm_cache (sys_tm s))\<rparr>,
          sys_pc := (sys_pc s)(i := Returned key c), sys_locks := AList.update key None (sys_locks s)\<rparr>)"

inductive tm_step :: "tm_sys \<Rightarrow> tm_act \<Rightarrow> tm_sys \<Rightarrow> bool" where
  step_enter: "sys_pc s i = Idle \<Longrightarrow> tm_step s (Enter i key) (enter i key s)"
| step_lock: "sys_pc s i = Waiting key \<Longrightarrow> map_of (sys_locks s) key = Some None
    \<Longrightarrow> tm_step s (Lock i) (locked i key s)"
| step_finish: "sys_pc s i = Minting key reason \<Longrightarrow> tm_step s (Finish i r) (finish i key r s)"
| step_cancel: "sys_pc s i = Waiting key \<Longrightarrow> tm_step s (Cancel i e) (s\<lparr>sys_pc := (sys_pc s)(i := Raised key e)\<rparr>)"
| step_again: "sys_pc s i \<in> {Returned key c, Raised key e} \<Longrightarrow> tm_step s (Again i) (s\<lparr>sys_pc := (sys_pc s)(i := Idle)\<rparr>)"
| step_invalidate: "tm_step s (Invalidate p base reason) (s\<lparr>sys_tm := invalidate (sys_tm s) p base reason\<rparr>)"
| step_tick: "0 \<le> d \<Longrightarrow> tm_step s (Tick d) (s\<lparr>sys_now := sys_now s + d\<rparr>)"

inductive_cases tm_step_E: "tm_step s a s'"

inductive tm_run :: "tm_sys \<Rightarrow> tm_act list \<Rightarrow> tm_sys \<Rightarrow> bool" where
  run_nil: "tm_run s [] s"
| run_snoc: "tm_run s acts s' \<Longrightarrow> tm_step s' a s'' \<Longrightarrow> tm_run s (acts @ [a]) s''"

definition tm_init :: "int \<Rightarrow> real \<Rightarrow> tm_sys" where
  "tm_init leeway now = \<lparr>sys_tm = new_token_manager leeway, sys_now = now, sys_pc = (\<lambda>_. Idle), sys_locks = [], sys_mints = []\<rparr>"

text \<open>
  The coroutine that mints for a key is the holder of that key's lock, the lock exists once someone
  waits for it, and while it is held the cache has no fresh token for the key.
\<close>

definition tm_inv :: "tm_sys \<Rightarrow> bool" where
  "tm_inv s \<longleftrightarrow>
     (\<forall>i k. map_of (sys_locks s) k = Some (Some i) \<longleftrightarrow> (\<exists>r. sys_pc s i = Minting k r))
   \<and> (\<forall>i k. sys_pc s i = Waiting k \<longrightarrow> map_of (sys_locks s) k \<noteq> None)
   \<and> (\<forall>i k r. sys_pc s i = Minting k r \<longrightarrow> fresh_cached (sys_tm s) (sys_now s) k = None)"

lemma tm_inv_init: "tm_inv (tm_init leeway now)"
  by (simp add: tm_inv_def tm_init_def)

lemma map_of_lock_for: "map_of (lock_for locks key) k =
    (if k = key then Some (case map_of locks key of None \<Rightarrow> None | Some h \<Rightarrow> h) else map_of locks k)"
  by (auto simp: lock_for_def split: option.splits)

lemma fresh_cached_classify [simp]: "fresh_cached (fst (classify_refresh tm key)) now k = fresh_cached tm now k"
  by (simp add: fresh_cached_def split: option.splits)

lemma fresh_cached_later:
  "fresh_cached tm now k = None \<Longrightarrow> now \<le> now' \<Longrightarrow> fresh_cached tm now' k = None"
  using is_fresh_mono by (auto simp: fresh_cached_def split: option.splits if_splits)

lemma tm_invI:
  assumes "\<And>i k. map_of (sys_locks s) k = Some (Some i) \<longleftrightarrow> (\<exists>r. sys_pc s i = Minting k r)"
    and "\<And>i k. sys_pc s i = Waiting k \<Longrightarrow> map_of (sys_locks s) k \<noteq> None"
    and "\<And>i k r. sys_pc s i = Minting k r \<Longrightarrow> fresh_cached (sys_tm s) (sys_now s) k = None"
  shows "tm_inv s"
  unfolding tm_inv_def using assms by blast

lemma tm_inv_holder: "tm_inv s \<Longrightarrow> map_of (sys_locks s) k = Some (Some i) \<longleftrightarrow> (\<exists>r. sys_pc s i = Minting k r)"
  and tm_inv_waiting: "tm_inv s \<Longrightarrow> sys_pc s i = Waiting k \<Longrightarrow> map_of (sys_locks s) k \<noteq> None"
  and tm_inv_stale: "tm_inv s \<Longrightarrow> sys_pc s i = Minting k r \<Longrightarrow> fresh_cached (sys_tm s) (sys_now s) k = None"
  unfolding tm_inv_def by blast+

lemma tm_inv_minter_unique:
  "tm_inv s \<Longrightarrow> sys_pc s i = Minting k r \<Longrightarrow> sys_pc s j = Minting k r' \<Longrightarrow> i = j"
  by (metis tm_inv_holder option.inject)

lemma tm_inv_pc:
  assumes inv: "tm_inv s" and old: "\<And>k r. sys_pc s i \<noteq> Minting k r"
    and new: "\<And>k r. pc \<noteq> Minting k r" "\<And>k. pc = Waiting k \<Longrightarrow> map_of (sys_locks s) k \<noteq> None"
  shows "tm_inv (s\<lparr>sys_pc := (sys_pc s)(i := pc)\<rparr>)"
proof (rule tm_invI)
  fix j k
  show "map_of (sys_locks (s\<lparr>sys_pc := (sys_pc s)(i := pc)\<rparr>)) k = Some (Some j) \<longleftrightarrow>
      (\<exists>r. sys_pc (s\<lparr>sys_pc := (sys_pc s)(i := pc)\<rparr>) j = Minting k r)"
    using tm_inv_holder[OF inv, of k j] old new(1) by auto
qed (use inv new in \<open>auto simp del: split_paired_All split: if_splits dest: tm_inv_waiting tm_inv_stale\<close>)

lemma tm_inv_lock_for:
  assumes inv: "tm_inv s"
  shows "tm_inv (s\<lparr>sys_locks := lock_for (sys_locks s) key\<rparr>)"
proof (rule tm_invI)
  fix j k
  show "map_of (sys_locks (s\<lparr>sys_locks := lock_for (sys_locks s) key\<rparr>)) k = Some (Some j) \<longleftrightarrow>
      (\<exists>r. sys_pc (s\<lparr>sys_locks := lock_for (sys_locks s) key\<rparr>) j = Minting k r)"
    using tm_inv_holder[OF inv, of k j] by (auto simp: map_of_lock_for split: option.splits)
qed (use inv in \<open>auto simp: map_of_lock_for dest: tm_inv_waiting tm_inv_stale\<close>)

lemma tm_inv_enter:
  assumes inv: "tm_inv s" and idle: "sys_pc s i = Idle"
  shows "tm_inv (enter i key s)"
proof (cases "fresh_cached (sys_tm s) (sys_now s) key")
  case None
  have "tm_inv ((s\<lparr>sys_locks := lock_for (sys_locks s) key\<rparr>)
      \<lparr>sys_pc := (sys_pc (s\<lparr>sys_locks := lock_for (sys_locks s) key\<rparr>))(i := Waiting key)\<rparr>)"
    by (rule tm_inv_pc[OF tm_inv_lock_for[OF inv]]) (use idle in \<open>auto simp: map_of_lock_for\<close>)
  with None show ?thesis by (simp add: enter_def)
next
  case (Some c)
  with inv idle show ?thesis by (auto simp: enter_def intro!: tm_inv_pc)
qed

lemma tm_inv_locked:
  assumes inv: "tm_inv s" and wait: "sys_pc s i = Waiting key" and free: "map_of (sys_locks s) key = Some None"
  shows "tm_inv (locked i key s)"
proof (cases "fresh_cached (sys_tm s) (sys_now s) key")
  case None
  obtain tm reason where cl: "classify_refresh (sys_tm s) key = (tm, reason)" by (metis prod.collapse)
  then have fr: "fresh_cached tm now k = fresh_cached (sys_tm s) now k" for now k
    using fresh_cached_classify[of "sys_tm s" key now k] by simp
  have none: "sys_pc s j \<noteq> Minting key r" for j r
    using tm_inv_holder[OF inv, of key j] free by auto
  from None cl have eq: "locked i key s = s\<lparr>sys_tm := tm, sys_pc := (sys_pc s)(i := Minting key reason),
      sys_locks := AList.update key (Some i) (sys_locks s), sys_mints := sys_mints s @ [key]\<rparr>"
    by (simp add: locked_def)
  show ?thesis unfolding eq
  proof (rule tm_invI, goal_cases)
    case (1 j k)
    show ?case using tm_inv_holder[OF inv, of k j] wait none[of j] by auto
  next
    case (2 j k)
    then show ?case using tm_inv_waiting[OF inv, of j k] by (auto split: if_splits)
  next
    case (3 j k r)
    then show ?case using tm_inv_stale[OF inv, of j k r] None by (auto simp: fr split: if_splits)
  qed
next
  case (Some c)
  with inv wait show ?thesis by (auto simp: locked_def intro!: tm_inv_pc)
qed

lemma tm_inv_finish:
  assumes inv: "tm_inv s" and mint: "sys_pc s i = Minting key reason"
  shows "tm_inv (finish i key r s)"
proof -
  have uniq: "sys_pc s j \<noteq> Minting key r'" if "j \<noteq> i" for j r'
    using tm_inv_minter_unique[OF inv _ mint] that by blast
  have key: "map_of (sys_locks s) key = Some (Some i)" using tm_inv_holder[OF inv] mint by blast
  show ?thesis
  proof (rule tm_invI, goal_cases)
    case (1 j k)
    show ?case using tm_inv_holder[OF inv, of k j] uniq[of j] key mint
      by (cases r) (auto simp: finish_def)
  next
    case (2 j k)
    then show ?case using tm_inv_waiting[OF inv, of j k]
      by (cases r) (auto simp: finish_def split: if_splits)
  next
    case (3 j k r')
    then show ?case using tm_inv_stale[OF inv, of j k r'] uniq[of j]
      by (cases r) (auto simp: finish_def fresh_cached_def split: if_splits option.splits)
  qed
qed

lemma tm_inv_invalidate:
  assumes inv: "tm_inv s"
  shows "tm_inv (s\<lparr>sys_tm := invalidate (sys_tm s) p base reason\<rparr>)"
proof (rule tm_invI, goal_cases)
  case (3 j k r)
  then show ?case
    using tm_inv_stale[OF inv, of j k r] fresh_cached_invalidate_other[of k p base "sys_tm s" reason "sys_now s"]
    by (cases "k = tm_key_of p base") auto
qed (use inv in \<open>auto simp: tm_inv_holder dest: tm_inv_waiting\<close>)

lemma tm_inv_tick:
  assumes inv: "tm_inv s" and d: "0 \<le> d"
  shows "tm_inv (s\<lparr>sys_now := sys_now s + d\<rparr>)"
proof (rule tm_invI, goal_cases)
  case (3 j k r)
  then show ?case using fresh_cached_later[OF tm_inv_stale[OF inv, of j k r]] d by simp
qed (use inv in \<open>auto simp: tm_inv_holder dest: tm_inv_waiting\<close>)

lemma tm_inv_step: "tm_step s a s' \<Longrightarrow> tm_inv s \<Longrightarrow> tm_inv s'"
  by (induction rule: tm_step.induct)
    (auto intro!: tm_inv_enter tm_inv_locked tm_inv_finish tm_inv_invalidate tm_inv_tick tm_inv_pc)

lemma tm_inv_run: "tm_run s acts s' \<Longrightarrow> tm_inv s \<Longrightarrow> tm_inv s'"
  by (induction rule: tm_run.induct) (auto intro: tm_inv_step)

definition spares :: "tm_key \<Rightarrow> tm_act \<Rightarrow> bool" where
  "spares k a = (case a of Invalidate p base reason \<Rightarrow> tm_key_of p base \<noteq> k | _ \<Rightarrow> True)"

lemma leeway_classify: "classify_refresh tm k = (tm', r) \<Longrightarrow> tm_leeway tm' = tm_leeway tm"
  and cache_classify: "classify_refresh tm k = (tm', r) \<Longrightarrow> tm_cache tm' = tm_cache tm"
  by (metis classify_refresh_cache fst_conv)+

lemma tm_step_clock: "tm_step s a s' \<Longrightarrow> sys_now s \<le> sys_now s' \<and> tm_leeway (sys_tm s') = tm_leeway (sys_tm s)"
  by (induction rule: tm_step.induct)
    (auto simp: enter_def locked_def finish_def invalidate_def Let_def dest: leeway_classify split: option.splits sum.splits prod.splits)

lemma tm_step_shared:
  assumes "tm_step s a s'" "tm_inv s" "spares k a" "fresh_cached (sys_tm s) (sys_now s) k = Some c"
  shows "map_of (tm_cache (sys_tm s')) k = Some c \<and> count_list (sys_mints s') k = count_list (sys_mints s) k"
  using assms
proof (induction rule: tm_step.induct)
  case (step_lock s i key)
  then show ?case by (auto simp: locked_def fresh_cached_Some dest: cache_classify split: option.splits prod.splits)
next
  case (step_finish s i key reason r)
  then have "key \<noteq> k" using tm_inv_stale by fastforce
  with step_finish show ?case by (auto simp: finish_def fresh_cached_Some split: sum.splits)
qed (auto simp: enter_def invalidate_def Let_def spares_def fresh_cached_Some split: option.splits)

lemma tm_run_shared:
  assumes "tm_run s acts s'" "tm_inv s" "map_of (tm_cache (sys_tm s)) k = Some c"
    and "list_all (spares k) acts" "is_fresh c (sys_now s') (tm_leeway (sys_tm s'))"
  shows "map_of (tm_cache (sys_tm s')) k = Some c \<and> count_list (sys_mints s') k = count_list (sys_mints s) k"
  using assms
proof (induction rule: tm_run.induct)
  case (run_snoc s acts s' a s'')
  note clock = tm_step_clock[OF run_snoc.hyps(2)]
  with run_snoc.prems(4) have fresh: "is_fresh c (sys_now s') (tm_leeway (sys_tm s'))"
    using is_fresh_mono by simp
  with run_snoc have "map_of (tm_cache (sys_tm s')) k = Some c \<and> count_list (sys_mints s') k = count_list (sys_mints s) k"
    by simp
  with tm_step_shared[OF run_snoc.hyps(2) tm_inv_run[OF run_snoc.hyps(1)], of k c] run_snoc.prems fresh
  show ?case by (simp add: fresh_cached_Some)
qed simp

text \<open>
  C18. However the coroutines interleave, at most one of them mints for a given agent and registry at
  any moment, and it holds the lock.
\<close>

theorem token_single_flight:
  assumes "tm_run (tm_init leeway now) acts s"
    and "sys_pc s i = Minting k r" "sys_pc s j = Minting k r'"
  shows "i = j \<and> map_of (sys_locks s) k = Some (Some i)"
  using tm_inv_minter_unique tm_inv_holder tm_inv_run[OF assms(1) tm_inv_init] assms(2,3) by metis

definition a_key :: tm_key where "a_key = (''did:web:a'', ''http://r'')"

definition demo_producer :: producer where
  "demo_producer = \<lparr>agent_did = ''did:web:a'', key_id = ''k'', class_name = ''AcdpProducer'',
     sign_challenge = (\<lambda>j. Inr ''s''), public_key_b64 = [], public_key_sec1_b64 = [], public_key_jwk = ''{}'',
     did_verification_method = (\<lambda>k d. Inr ''{}''), build_publish_request = (\<lambda>kw. Inr ''{}''),
     build_supersede_request = (\<lambda>kw. Inr ''{}'')\<rparr>"

definition a_token :: "int \<Rightarrow> cached_token" where
  "a_token expires = \<lparr>ct_token = ''t'', ct_token_type = JStr ''Bearer'', ct_expires_at = expires, ct_tenant = None, ct_jti = None, ct_aud = None\<rparr>"

definition both_waiting :: tm_sys where "both_waiting = enter 1 a_key (enter 0 a_key (tm_init 30 0))"

lemmas tm_example = both_waiting_def tm_init_def enter_def locked_def finish_def new_token_manager_def
  fresh_cached_def lock_for_def classify_refresh_def is_fresh_def a_token_def spares_def

lemma tm_run_one: "tm_run s acts s' \<Longrightarrow> tm_step s' a s'' \<Longrightarrow> as = acts @ [a] \<Longrightarrow> tm_run s as s''"
  by (simp add: run_snoc)

lemma both_waiting_run: "tm_run (tm_init 30 0) [Enter 0 a_key, Enter 1 a_key] both_waiting"
proof -
  have "tm_run (tm_init 30 0) [Enter 0 a_key] (enter 0 a_key (tm_init 30 0))"
    by (rule tm_run_one[OF run_nil step_enter]) (simp_all add: tm_init_def)
  then show ?thesis unfolding both_waiting_def
    by (rule tm_run_one[OF _ step_enter]) (simp_all add: tm_example)
qed

lemma one_minting_run: "tm_run (tm_init 30 0) [Enter 0 a_key, Enter 1 a_key, Lock 0] (locked 0 a_key both_waiting)"
  by (rule tm_run_one[OF both_waiting_run step_lock]) (simp_all add: tm_example)

lemma one_minting_pc: "sys_pc (locked 0 a_key both_waiting) 0 = Minting a_key FIRST_USE"
  by (simp add: tm_example)

theorem token_single_flight_witness:
  "map_of (sys_locks (locked 0 a_key both_waiting)) a_key = Some (Some 0)"
  using token_single_flight[OF one_minting_run one_minting_pc one_minting_pc] by simp

text \<open>
  C13. Once a token for an agent and registry is in the cache, no coroutine starts another mint for
  them until that token is stale or invalidated: every caller in between shares it.
\<close>

theorem token_shared_until_stale:
  assumes "tm_run (tm_init leeway now) before s" "tm_run s acts s'"
    and "map_of (tm_cache (sys_tm s)) k = Some c"
    and "list_all (spares k) acts" "is_fresh c (sys_now s') leeway"
  shows "map_of (tm_cache (sys_tm s')) k = Some c \<and> count_list (sys_mints s') k = count_list (sys_mints s) k"
proof -
  have lw: "tm_leeway (sys_tm s2) = tm_leeway (sys_tm s1)" if "tm_run s1 as s2" for s1 as s2
    using that by (induction rule: tm_run.induct) (auto dest: tm_step_clock)
  have "tm_leeway (sys_tm s') = leeway"
    using lw[OF assms(1)] lw[OF assms(2)] by (simp add: tm_init_def new_token_manager_def)
  with assms tm_run_shared[OF assms(2) tm_inv_run[OF assms(1) tm_inv_init]] show ?thesis by simp
qed

lemma minted_run: "tm_run (tm_init 30 0) [Enter 0 a_key, Enter 1 a_key, Lock 0, Finish 0 (Inr (a_token 100))]
    (finish 0 a_key (Inr (a_token 100)) (locked 0 a_key both_waiting))"
  by (rule tm_run_one[OF one_minting_run step_finish[OF one_minting_pc]]) simp

lemma waiter_run:
  "tm_run (finish 0 a_key (Inr (a_token 100)) (locked 0 a_key both_waiting)) [Lock 1]
     (locked 1 a_key (finish 0 a_key (Inr (a_token 100)) (locked 0 a_key both_waiting)))"
  by (rule tm_run_one[OF run_nil step_lock]) (simp_all add: tm_example)

theorem token_shared_until_stale_witness:
  "count_list (sys_mints (locked 1 a_key (finish 0 a_key (Inr (a_token 100)) (locked 0 a_key both_waiting)))) a_key = 1
   \<and> sys_pc (locked 1 a_key (finish 0 a_key (Inr (a_token 100)) (locked 0 a_key both_waiting))) 1 = Returned a_key (a_token 100)"
  using token_shared_until_stale[OF minted_run waiter_run, of a_key "a_token 100"] by (simp add: tm_example)

theorem token_for_contract_witness:
  "fresh_cached (new_token_manager 30) 0 (a_key) = None
   \<and> (\<exists>rqs. sent (fst (token_for (stub_env (\<lambda>rq. Inl HTTPError)) \<lparr>jwt_payload = (\<lambda>s. Inr (JObj [])), py_repr = (\<lambda>j. [])\<rparr> stub_io
        (new_token_manager 30) demo_producer ''http://r/'')) = rqs
      \<and> 1 \<le> length rqs \<and> length rqs \<le> 4)"
proof -
  let ?je = "\<lparr>jwt_payload = (\<lambda>s. Inr (JObj [])), py_repr = (\<lambda>j. [])\<rparr>"
  obtain io' tm' r where t: "token_for (stub_env (\<lambda>rq. Inl HTTPError)) ?je stub_io (new_token_manager 30) demo_producer ''http://r/'' = (io', tm', r)"
    by (metis prod.collapse)
  have none: "fresh_cached (new_token_manager 30) now k = None" for now k
    by (simp add: fresh_cached_def new_token_manager_def)
  show ?thesis using token_for_contract[OF t, of FIRST_USE] t none by (auto simp: stub_io_def)
qed

section \<open>Where the code leaves its comments\<close>

lemma mint_post_answer:
  "mint_post (stub_env (\<lambda>rq. Inr (json_answer 200 j))) io err url body = (io\<lparr>sent := sent io @ [json_post url [] body]\<rparr>, Inr j)"
  by (simp add: mint_post_def post_cooperative_def)

lemma token_for_empty:
  assumes "mint env je io p (rstrip_char CHR ''/'' base) = (io1, r)"
  shows "snd (snd (token_for env je io (new_token_manager leeway) p base)) = r"
  using assms by (simp add: token_for_def fresh_cached_def new_token_manager_def classify_refresh_def Let_def split: sum.splits)

text \<open>
  A challenge whose \<^verbatim>\<open>expires_at\<close> is null makes \<open>int\<close> raise TypeError, which the handler does not name, so
  \<open>token_for\<close> raises something that is no TokenError.
\<close>

theorem token_error_escapes:
  "snd (snd (token_for (stub_env (\<lambda>rq. Inr (json_answer 200
      (JObj [(''nonce'', JStr ''n''), (''expires_at'', JNull), (''signing_input'', JStr ''x'')]))))
      je stub_io (new_token_manager leeway) p base)) = Inl TypeError"
proof (rule token_for_empty)
  show "mint (stub_env (\<lambda>rq. Inr (json_answer 200 (JObj [(''nonce'', JStr ''n''), (''expires_at'', JNull), (''signing_input'', JStr ''x'')]))))
      je stub_io p (rstrip_char CHR ''/'' base) = (stub_io\<lparr>sent := sent stub_io @
        [json_post (rstrip_char CHR ''/'' base @ ''/auth/challenge'') [] (JObj [(''agent_id'', JStr (agent_did p))])]\<rparr>, Inl TypeError)"
    by (simp add: mint_def mint_post_answer read_challenge_def malformed_as_def)
qed

text \<open>
  The reason \<open>invalidate\<close> recorded is gone once a mint was attempted, also when the mint failed: the
  retry is then reported as a first use.
\<close>

theorem pending_reason_lost:
  assumes "token_for env je io tm p base = (io', tm', Inl e)"
  shows "map_of (tm_pending tm') (tm_key_of p base) = None
    \<and> (map_of (tm_cache tm) (tm_key_of p base) = None \<longrightarrow> snd (classify_refresh tm' (tm_key_of p base)) = FIRST_USE)"
proof -
  have none: "fresh_cached tm (io_now env io) (tm_key_of p base) = None"
    using assms token_for_hit[of tm env io p base _ je] by (cases "fresh_cached tm (io_now env io) (tm_key_of p base)") auto
  have "tm' = fst (classify_refresh tm (tm_key_of p base))" using token_for_miss[OF assms none] by simp
  then show ?thesis by (auto simp: classify_refresh_def split: option.splits)
qed

text \<open>
  A token that is stale when it arrives is cached and returned all the same: nothing checks the freshness of
  what was just minted.
\<close>

theorem minted_token_may_be_stale:
  "\<exists>c. snd (snd (token_for (stub_env (\<lambda>rq. Inr (json_answer 200
      (JObj [(''nonce'', JStr ''n''), (''expires_at'', JInt (- 1)), (''signing_input'', JStr ''x''), (''token'', JStr ''t'')]))))
      \<lparr>jwt_payload = (\<lambda>s. Inr (JObj [])), py_repr = (\<lambda>j. [])\<rparr> stub_io (new_token_manager 30)
      demo_producer ''http://r'')) = Inr c
    \<and> \<not> is_fresh c 0 30"
proof -
  let ?ans = "JObj [(''nonce'', JStr ''n''), (''expires_at'', JInt (- 1)), (''signing_input'', JStr ''x''), (''token'', JStr ''t'')]"
  let ?je = "\<lparr>jwt_payload = (\<lambda>s. Inr (JObj [])), py_repr = (\<lambda>j. [])\<rparr>"
  have ch: "read_challenge ?ans = Inr (JStr ''n'', - 1, JStr ''x'')"
    by (simp add: read_challenge_def malformed_as_def)
  have tk: "read_token ?je ?ans = Inr (a_token (- 1))"
    by (simp add: read_token_def malformed_as_def decode_unverified_claims_def a_token_def dict_get_default_def
        obj_get_def normalize_aud_def)
  have "\<exists>io1. mint (stub_env (\<lambda>rq. Inr (json_answer 200 ?ans))) ?je stub_io demo_producer (rstrip_char CHR ''/'' ''http://r'') = (io1, Inr (a_token (- 1)))"
    by (simp add: mint_def mint_post_answer ch tk demo_producer_def del: json_index.simps)
  then show ?thesis using token_for_empty by (fastforce simp: a_token_def is_fresh_def)
qed

text \<open>
  Revoking sends at most one request more than \<open>token_for\<close>, and whatever the registry answers the token is
  out of the cache afterwards unless it carries no \<^verbatim>\<open>jti\<close>.
\<close>

theorem revoke_drops_token:
  assumes "token_for env je io tm p (rstrip_char CHR ''/'' base) = (io1, tm1, Inr c)" "ct_jti c \<noteq> None" "ct_jti c \<noteq> Some []"
    and "revoke env je io tm p base = (io', tm', Inr ok)"
  shows "fresh_cached tm' now (tm_key_of p base) = None \<and> length (sent io') = Suc (length (sent io1))"
proof -
  obtain x jti where j: "ct_jti c = Some (x # jti)" using assms(2,3) by (metis list.exhaust option.exhaust)
  have key: "tm_key_of p (rstrip_char CHR ''/'' base) = tm_key_of p base"
    by (auto simp: tm_key_of_def rstrip_char_def dropWhile_eq_self_iff hd_dropWhile)
  have inv: "fresh_cached (invalidate t p (rstrip_char CHR ''/'' base) re) now (tm_key_of p base) = None" for t re
    using fresh_cached_invalidate[of t p "rstrip_char CHR ''/'' base" re now] by (simp only: key)
  from assms(1,4) j show ?thesis
    by (auto simp: revoke_def Let_def inv split: prod.splits sum.splits exn.splits dest!: http_send_sent)
qed

end
