(* ===== verification/Client.thy ===== *)
theory Client
  imports Token_Manager Models Identifiers Url
begin

text \<open>
  acdp\_client/client.py: the asynchronous client of one registry. It holds the error classes, the
  headers with the bearer token and the tenant, the single retry on 401, the binding of served bodies to the
  requested \<^verbatim>\<open>ctx_id\<close>, and the publish, retrieve, lifecycle, log, search and lineage calls.

  A call is a function of the outside world and of the token manager it shares with other calls. The SDK's
  binding check and pydantic's validation are parameters (\<open>client_env\<close>). Opening and closing the
  httpx client is left out.
\<close>

section \<open>Calls: state and exceptions\<close>

type_synonym ('w, 'a) call = "'w io \<Rightarrow> token_manager \<Rightarrow> 'w io \<times> token_manager \<times> 'a result"

definition areturn :: "'a \<Rightarrow> ('w, 'a) call" where
  "areturn a io tm = (io, tm, Inr a)"

definition alift :: "'a result \<Rightarrow> ('w, 'a) call" where
  "alift r io tm = (io, tm, r)"

definition abind :: "('w, 'a) call \<Rightarrow> ('a \<Rightarrow> ('w, 'b) call) \<Rightarrow> ('w, 'b) call" where
  "abind m f io tm =
     (case m io tm of
        (io', tm', Inl e) \<Rightarrow> (io', tm', Inl e)
      | (io', tm', Inr a) \<Rightarrow> f a io' tm')"

section \<open>Errors of the registry\<close>

record client_env =
  ce_jwt :: jwt_env
  url_text :: "request \<Rightarrow> string"
  verify_ctx_id_binding :: "json \<Rightarrow> string \<Rightarrow> unit result"
  validate_publish :: "json \<Rightarrow> publish_response result"
  validate_context :: "json \<Rightarrow> full_context result"
  validate_body :: "json \<Rightarrow> body result"
  validate_search :: "json \<Rightarrow> search_response result"

text \<open>
  \<open>url_text\<close> is \<^verbatim>\<open>str(r.request.url)\<close>; a response is passed around with the request it answers.
  \<open>verify_ctx_id_binding\<close> takes the body as a value: the SDK gets the text \<^verbatim>\<open>json.dumps\<close> makes of it.
\<close>

definition error_class_of :: "int \<Rightarrow> string option \<Rightarrow> http_error_class" where
  "error_class_of status code =
     (if status = 413 then PayloadTooLargeError
      else if code = Some ''superseded_target'' then SupersededError
      else if code = Some ''not_authorized'' then NotAuthorizedError
      else if code = Some ''immutable_field'' then ImmutableFieldError
      else if code = Some ''invalid_lifecycle_transition'' then InvalidLifecycleTransitionError
      else if code = Some ''invalid_log_proof'' then InvalidLogProofError
      else PlainHTTPError)"

definition build_http_error :: "client_env \<Rightarrow> request \<Rightarrow> response \<Rightarrow> acdp_http_error" where
  "build_http_error ce rq r =
     (case (case resp_json r of Some j \<Rightarrow> parse_error_envelope j | None \<Rightarrow> (None, [], None)) of
        (code, message, details) \<Rightarrow>
          \<lparr>he_class = error_class_of (status_code r) code, he_status = status_code r, he_body = resp_text r,
           he_url = url_text ce rq, he_code = code,
           he_details = (case details of Some d \<Rightarrow> d | None \<Rightarrow> [])\<rparr>)"

definition he_reason :: "acdp_http_error \<Rightarrow> string option" where
  "he_reason e = as_str (obj_get (he_details e) ''reason'')"

definition raise_for_status :: "client_env \<Rightarrow> request \<Rightarrow> response \<Rightarrow> unit result" where
  "raise_for_status ce rq r = (if is_success r then Inr () else Inl (AcdpHTTPError (build_http_error ce rq r)))"

definition json_of :: "response \<Rightarrow> json result" where
  "json_of r = (case resp_json r of Some j \<Rightarrow> Inr j | None \<Rightarrow> Inl JSONDecodeError)"

section \<open>The client and its headers\<close>

datatype tenant_mode = Fallback | Always | Never

record client =
  cl_base :: string
  cl_static_bearer :: "string option"
  cl_run_id :: "string option"
  cl_producer :: "producer option"
  cl_has_token_manager :: bool
  cl_tenant_id :: "string option"
  cl_tenant_mode :: tenant_mode
  cl_verify_binding :: bool

definition new_client ::
  "string \<Rightarrow> string option \<Rightarrow> string option \<Rightarrow> producer option \<Rightarrow> bool \<Rightarrow> string option \<Rightarrow> tenant_mode \<Rightarrow> bool
     \<Rightarrow> client result" where
  "new_client base_url bearer_token run_id p has_tm tenant_id mode verify_binding =
     rbind (reject_reserved_tenant tenant_id) (\<lambda>_. Inr
       \<lparr>cl_base = rstrip_char CHR ''/'' base_url, cl_static_bearer = bearer_token, cl_run_id = run_id,
        cl_producer = p, cl_has_token_manager = has_tm, cl_tenant_id = tenant_id, cl_tenant_mode = mode,
        cl_verify_binding = verify_binding\<rparr>)"

definition plain_client :: "string \<Rightarrow> client" where
  "plain_client base_url =
     \<lparr>cl_base = rstrip_char CHR ''/'' base_url, cl_static_bearer = None, cl_run_id = None, cl_producer = None,
      cl_has_token_manager = False, cl_tenant_id = None, cl_tenant_mode = Fallback, cl_verify_binding = True\<rparr>"

text \<open>The producer whose tokens are managed, when there is one: \<^verbatim>\<open>self._producer and self._token_manager\<close>.\<close>

definition managed :: "client \<Rightarrow> producer option" where
  "managed cl = (if cl_has_token_manager cl then cl_producer cl else None)"

definition nonempty_str :: "string option \<Rightarrow> string option" where
  "nonempty_str s = (case s of Some [] \<Rightarrow> None | _ \<Rightarrow> s)"

definition bearer_token :: "'w env \<Rightarrow> client_env \<Rightarrow> client \<Rightarrow> ('w, string option) call" where
  "bearer_token env ce cl io tm =
     (case nonempty_str (cl_static_bearer cl) of
        Some t \<Rightarrow> (io, tm, Inr (Some t))
      | None \<Rightarrow>
          (case managed cl of
             Some p \<Rightarrow>
               (case token_for env (ce_jwt ce) io tm p (cl_base cl) of
                  (io', tm', Inl e) \<Rightarrow> (io', tm', Inl e)
                | (io', tm', Inr cached) \<Rightarrow> (io', tm', Inr (Some (ct_token cached))))
           | None \<Rightarrow> (io, tm, Inr None)))"

definition tenant_header_value :: "client \<Rightarrow> bool \<Rightarrow> string option" where
  "tenant_header_value cl authenticated =
     (if cl_tenant_id cl = None \<or> cl_tenant_mode cl = Never then None
      else if cl_tenant_mode cl = Always then cl_tenant_id cl
      else if authenticated then None else cl_tenant_id cl)"

definition put_opt :: "string \<Rightarrow> string option \<Rightarrow> (string, string) dict \<Rightarrow> (string, string) dict" where
  "put_opt k v h = (case v of Some x \<Rightarrow> AList.update k x h | None \<Rightarrow> h)"

definition header_dict :: "client \<Rightarrow> string option \<Rightarrow> (string, string) dict \<Rightarrow> (string, string) dict" where
  "header_dict cl token extra =
     (let t = nonempty_str token;
          h0 = [(''Content-Type'', ''application/json''), (''Accept'', ''application/acdp+json, application/json'')];
          h1 = put_opt ''Authorization'' (map_option (\<lambda>x. ''Bearer '' @ x) t) h0;
          h2 = put_opt ''X-Run-Id'' (nonempty_str (cl_run_id cl)) h1;
          h3 = put_opt ''X-Tenant-Id'' (tenant_header_value cl (t \<noteq> None)) h2
      in dict_update h3 extra)"

definition client_headers ::
  "'w env \<Rightarrow> client_env \<Rightarrow> client \<Rightarrow> (string, string) dict \<Rightarrow> ('w, (string, string) dict) call" where
  "client_headers env ce cl extra = abind (bearer_token env ce cl) (\<lambda>token. areturn (header_dict cl token extra))"

section \<open>Sending, with one retry on 401\<close>

definition http_call :: "'w env \<Rightarrow> request \<Rightarrow> ('w, request \<times> response) call" where
  "http_call env rq io tm =
     (case http_send env io rq of
        (io', Inl e) \<Rightarrow> (io', tm, Inl e)
      | (io', Inr r) \<Rightarrow> (io', tm, Inr (rq, r)))"

definition drop_token :: "client \<Rightarrow> producer \<Rightarrow> ('w, unit) call" where
  "drop_token cl p io tm = (io, invalidate tm p (cl_base cl) REACTIVE_401, Inr ())"

text \<open>\<open>mk\<close> is the closure \<^verbatim>\<open>send\<close> of the callers: the request as a function of its headers.\<close>

definition retrying ::
  "'w env \<Rightarrow> client_env \<Rightarrow> client \<Rightarrow> ((string, string) dict \<Rightarrow> request) \<Rightarrow> (string, string) dict
     \<Rightarrow> ('w, request \<times> response) call" where
  "retrying env ce cl mk extra =
     abind (client_headers env ce cl extra) (\<lambda>h.
     abind (http_call env (mk h)) (\<lambda>(rq, r).
       case managed cl of
         Some p \<Rightarrow>
           if status_code r \<noteq> 401 then areturn (rq, r)
           else abind (drop_token cl p) (\<lambda>_.
                abind (client_headers env ce cl extra) (\<lambda>h'. http_call env (mk h')))
       | None \<Rightarrow> areturn (rq, r)))"

definition get_request :: "string \<Rightarrow> (string, json) dict \<Rightarrow> (string, string) dict \<Rightarrow> request" where
  "get_request url params h =
     \<lparr>rq_method = ''GET'', rq_url = url, rq_headers = h, rq_params = params, rq_body = NoBody\<rparr>"

definition content_post :: "string \<Rightarrow> string \<Rightarrow> (string, string) dict \<Rightarrow> request" where
  "content_post url content h =
     \<lparr>rq_method = ''POST'', rq_url = url, rq_headers = h, rq_params = [], rq_body = Content (utf8_encode content)\<rparr>"

text \<open>Send, raise for a refusal, decode: what every call does with the response.\<close>

definition fetch_json ::
  "'w env \<Rightarrow> client_env \<Rightarrow> client \<Rightarrow> ((string, string) dict \<Rightarrow> request) \<Rightarrow> (string, string) dict \<Rightarrow> ('w, json) call" where
  "fetch_json env ce cl mk extra =
     abind (retrying env ce cl mk extra) (\<lambda>(rq, r).
       alift (rbind (raise_for_status ce rq r) (\<lambda>_. json_of r)))"

section \<open>Publish\<close>

definition publish_context ::
  "'w env \<Rightarrow> client_env \<Rightarrow> client \<Rightarrow> string \<Rightarrow> string option \<Rightarrow> ('w, publish_response) call" where
  "publish_context env ce cl request_json idempotency_key =
     abind (fetch_json env ce cl (content_post (cl_base cl @ ''/contexts'') request_json)
        (case nonempty_str idempotency_key of Some k \<Rightarrow> [(''Idempotency-Key'', k)] | None \<Rightarrow> []))
       (\<lambda>j. alift (validate_publish ce j))"

section \<open>Served bodies and their binding\<close>

datatype body_shape = Envelope | Bare | Envelope_List

definition envelope_bodies :: "json \<Rightarrow> json list" where
  "envelope_bodies payload =
     (case as_obj payload of
        Some kvs \<Rightarrow> (case map_of kvs ''body'' of Some b \<Rightarrow> [b] | None \<Rightarrow> [])
      | None \<Rightarrow> [payload])"

definition served_bodies :: "json \<Rightarrow> body_shape \<Rightarrow> json list" where
  "served_bodies payload shape =
     (case shape of
        Bare \<Rightarrow> [payload]
      | Envelope_List \<Rightarrow>
          concat (map envelope_bodies (case as_list payload of Some items \<Rightarrow> items | None \<Rightarrow> [payload]))
      | Envelope \<Rightarrow> envelope_bodies payload)"

definition bind_body :: "client_env \<Rightarrow> string option \<Rightarrow> json \<Rightarrow> unit result" where
  "bind_body ce expected body =
     (case as_obj body of
        None \<Rightarrow> Inl (CtxIdBindingError Unverifiable expected JNull)
      | Some kvs \<Rightarrow>
          (case as_str (obj_get kvs ''ctx_id'') of
             None \<Rightarrow> Inl (CtxIdBindingError Unverifiable expected JNull)
           | Some served \<Rightarrow>
               (case verify_ctx_id_binding ce body (case expected of None \<Rightarrow> served | Some x \<Rightarrow> x) of
                  Inr _ \<Rightarrow> Inr ()
                | Inl e \<Rightarrow>
                    if is_ValueError e then Inl (CtxIdBindingError Malformed expected (JStr served))
                    else if is_RuntimeError e then Inl (CtxIdBindingError Mismatch expected (JStr served))
                    else Inl e)))"

text \<open>\<^verbatim>\<open>for x in xs: check(x)\<close>, stopping at the first raise.\<close>

fun check_each :: "('a \<Rightarrow> unit result) \<Rightarrow> 'a list \<Rightarrow> unit result" where
  "check_each f [] = Inr ()"
| "check_each f (x # xs) = rbind (f x) (\<lambda>_. check_each f xs)"

definition bind_served_ctx_id ::
  "client_env \<Rightarrow> client \<Rightarrow> json \<Rightarrow> body_shape \<Rightarrow> string option \<Rightarrow> bool option \<Rightarrow> unit result" where
  "bind_served_ctx_id ce cl payload shape expected verify_binding =
     (if \<not> (case verify_binding of None \<Rightarrow> cl_verify_binding cl | Some v \<Rightarrow> v) then Inr ()
      else check_each (bind_body ce expected) (served_bodies payload shape))"

section \<open>Retrieve and lifecycle\<close>

definition encode_ctx :: "string \<Rightarrow> string" where
  "encode_ctx ctx_id = url_quote [] ctx_id"

definition context_url :: "client \<Rightarrow> string \<Rightarrow> string \<Rightarrow> string" where
  "context_url cl ctx_id path_suffix = cl_base cl @ ''/contexts/'' @ encode_ctx ctx_id @ path_suffix"

definition get_full_context ::
  "'w env \<Rightarrow> client_env \<Rightarrow> client \<Rightarrow> string \<Rightarrow> string \<Rightarrow> string option \<Rightarrow> body_shape \<Rightarrow> bool option \<Rightarrow> ('w, json) call" where
  "get_full_context env ce cl ctx_id path_suffix content shape verify_binding =
     (let url = context_url cl ctx_id path_suffix in
      abind (fetch_json env ce cl
               (case content of None \<Rightarrow> get_request url [] | Some c \<Rightarrow> content_post url c) [])
        (\<lambda>payload. alift (rbind (bind_served_ctx_id ce cl payload shape (Some ctx_id) verify_binding)
           (\<lambda>_. Inr payload))))"

definition retrieve :: "'w env \<Rightarrow> client_env \<Rightarrow> client \<Rightarrow> string \<Rightarrow> ('w, full_context) call" where
  "retrieve env ce cl ctx_id =
     abind (get_full_context env ce cl ctx_id [] None Envelope None) (\<lambda>j. alift (validate_context ce j))"

definition retrieve_raw :: "'w env \<Rightarrow> client_env \<Rightarrow> client \<Rightarrow> string \<Rightarrow> bool option \<Rightarrow> ('w, json) call" where
  "retrieve_raw env ce cl ctx_id verify_binding = get_full_context env ce cl ctx_id [] None Envelope verify_binding"

definition retrieve_body :: "'w env \<Rightarrow> client_env \<Rightarrow> client \<Rightarrow> string \<Rightarrow> ('w, body) call" where
  "retrieve_body env ce cl ctx_id =
     abind (get_full_context env ce cl ctx_id ''/body'' None Bare None) (\<lambda>j. alift (validate_body ce j))"

definition event_envelope :: "string \<Rightarrow> string" where
  "event_envelope event_json = [CHR ''{'', CHR 0x22] @ ''event'' @ [CHR 0x22, CHR '':''] @ event_json @ ''}''"

definition lifecycle :: "'w env \<Rightarrow> client_env \<Rightarrow> client \<Rightarrow> string \<Rightarrow> string \<Rightarrow> string \<Rightarrow> ('w, full_context) call" where
  "lifecycle env ce cl ctx_id action event_json =
     abind (get_full_context env ce cl ctx_id (''/'' @ action) (Some (event_envelope event_json)) Envelope None)
       (\<lambda>j. alift (validate_context ce j))"

definition retract :: "'w env \<Rightarrow> client_env \<Rightarrow> client \<Rightarrow> string \<Rightarrow> string \<Rightarrow> ('w, full_context) call" where
  "retract env ce cl ctx_id event_json = lifecycle env ce cl ctx_id ''retract'' event_json"

definition republish :: "'w env \<Rightarrow> client_env \<Rightarrow> client \<Rightarrow> string \<Rightarrow> string \<Rightarrow> ('w, full_context) call" where
  "republish env ce cl ctx_id event_json = lifecycle env ce cl ctx_id ''republish'' event_json"

section \<open>Transparency log\<close>

definition opt_param :: "string \<Rightarrow> ('a \<Rightarrow> json) \<Rightarrow> 'a option \<Rightarrow> (string, json) dict" where
  "opt_param k f v = (case v of Some x \<Rightarrow> [(k, f x)] | None \<Rightarrow> [])"

text \<open>A decoded value as the parameter, left out when it is null.\<close>

definition opt_value :: "string \<Rightarrow> json \<Rightarrow> (string, json) dict" where
  "opt_value k v = (if v = JNull then [] else [(k, v)])"

definition log_checkpoint :: "'w env \<Rightarrow> client_env \<Rightarrow> client \<Rightarrow> ('w, json) call" where
  "log_checkpoint env ce cl = fetch_json env ce cl (get_request (cl_base cl @ ''/log/checkpoint'') []) []"

definition log_proof ::
  "'w env \<Rightarrow> client_env \<Rightarrow> client \<Rightarrow> string option \<Rightarrow> int option \<Rightarrow> int option \<Rightarrow> json \<Rightarrow> json
     \<Rightarrow> ('w, json) call" where
  "log_proof env ce cl ctx_id leaf_index tree_size first second =
     fetch_json env ce cl (get_request (cl_base cl @ ''/log/proof'')
       (opt_param ''ctx_id'' JStr ctx_id @ opt_param ''leaf_index'' JInt leaf_index
         @ opt_param ''tree_size'' JInt tree_size @ opt_value ''first'' first @ opt_value ''second'' second)) []"

definition log_entries :: "'w env \<Rightarrow> client_env \<Rightarrow> client \<Rightarrow> int \<Rightarrow> int \<Rightarrow> ('w, json) call" where
  "log_entries env ce cl start stop =
     fetch_json env ce cl (get_request (cl_base cl @ ''/log/entries'') [(''start'', JInt start), (''end'', JInt stop)]) []"

section \<open>Search\<close>

record search_query =
  sq_q :: "string option"
  sq_context_type :: "string option"
  sq_domain :: "string option"
  sq_agent_id :: "string option"
  sq_tags :: "string list option"
  sq_derived_from :: "string option"
  sq_visibility :: "string option"

definition search_params :: "search_query \<Rightarrow> int \<Rightarrow> string option \<Rightarrow> (string, json) dict" where
  "search_params sq limit cursor =
     opt_param ''q'' JStr (sq_q sq) @ opt_param ''type'' JStr (sq_context_type sq)
     @ opt_param ''domain'' JStr (sq_domain sq) @ opt_param ''agent_id'' JStr (sq_agent_id sq)
     @ (case sq_tags sq of Some (t # ts) \<Rightarrow> [(''tags'', JStr (py_join '','' (t # ts)))] | _ \<Rightarrow> [])
     @ opt_param ''derived_from'' JStr (nonempty_str (sq_derived_from sq))
     @ opt_param ''visibility'' JStr (sq_visibility sq)
     @ [(''limit'', JInt limit)] @ opt_param ''cursor'' JStr cursor"

definition raise_cursor_error :: "response \<Rightarrow> unit result" where
  "raise_cursor_error r =
     (if status_code r \<noteq> 400 then Inr ()
      else case resp_json r of
             None \<Rightarrow> Inr ()
           | Some j \<Rightarrow>
               (case parse_error_envelope j of
                  (Some code, message, _) \<Rightarrow>
                    if code \<in> set CURSOR_ERROR_CODES then Inl (CursorError code message) else Inr ()
                | _ \<Rightarrow> Inr ()))"

definition search ::
  "'w env \<Rightarrow> client_env \<Rightarrow> client \<Rightarrow> search_query \<Rightarrow> int \<Rightarrow> string option \<Rightarrow> ('w, search_response) call" where
  "search env ce cl sq limit cursor =
     abind (retrying env ce cl (get_request (cl_base cl @ ''/contexts/search'') (search_params sq limit cursor)) [])
       (\<lambda>(rq, r). alift (rbind (raise_cursor_error r) (\<lambda>_. rbind (raise_for_status ce rq r) (\<lambda>_.
          rbind (json_of r) (validate_search ce)))))"

text \<open>
  The generator \<^verbatim>\<open>search_all\<close>, drained: the hits it yields and the exception that ends it, if one does.
  Its bound \<^verbatim>\<open>max_pages\<close> is the number of turns of the loop.
\<close>

fun search_pages ::
  "nat \<Rightarrow> ('w, search_response) call \<Rightarrow> (string \<Rightarrow> ('w, search_response) call) \<Rightarrow> 'w io \<Rightarrow> token_manager
     \<Rightarrow> 'w io \<times> token_manager \<times> search_hit list \<times> exn option" where
  "search_pages 0 page next io tm = (io, tm, [], None)"
| "search_pages (Suc n) page next io tm =
     (case page io tm of
        (io1, tm1, Inl e) \<Rightarrow> (io1, tm1, [], Some e)
      | (io1, tm1, Inr resp) \<Rightarrow>
          (case nonempty_str (sr_next_cursor resp) of
             None \<Rightarrow> (io1, tm1, sr_matches resp, None)
           | Some cursor \<Rightarrow>
               (case search_pages n (next cursor) next io1 tm1 of
                  (io2, tm2, hits, e) \<Rightarrow> (io2, tm2, sr_matches resp @ hits, e))))"

definition search_all ::
  "'w env \<Rightarrow> client_env \<Rightarrow> client \<Rightarrow> search_query \<Rightarrow> int \<Rightarrow> int \<Rightarrow> 'w io \<Rightarrow> token_manager
     \<Rightarrow> 'w io \<times> token_manager \<times> search_hit list \<times> exn option" where
  "search_all env ce cl sq page_size max_pages io tm =
     search_pages (nat max_pages) (search env ce cl sq page_size None)
       (\<lambda>cursor. search env ce cl sq page_size (Some cursor)) io tm"

section \<open>Lineage\<close>

definition lineage_body_ok :: "string \<Rightarrow> json \<Rightarrow> unit result" where
  "lineage_body_ok lineage_id body =
     (case as_obj body of
        None \<Rightarrow> Inr ()
      | Some kvs \<Rightarrow>
          if obj_get kvs ''lineage_id'' \<noteq> JStr lineage_id
          then Inl (CtxIdBindingError Mismatch (Some lineage_id) (obj_get kvs ''lineage_id'')) else Inr ())"

definition get_lineage ::
  "'w env \<Rightarrow> client_env \<Rightarrow> client \<Rightarrow> string \<Rightarrow> string \<Rightarrow> body_shape \<Rightarrow> ('w, json) call" where
  "get_lineage env ce cl path lineage_id shape =
     abind (fetch_json env ce cl (get_request (cl_base cl @ path) []) [])
       (\<lambda>payload. alift (rbind (bind_served_ctx_id ce cl payload shape None None) (\<lambda>_.
          rbind (check_each (lineage_body_ok lineage_id) (served_bodies payload shape)) (\<lambda>_. Inr payload))))"

text \<open>\<^verbatim>\<open>for x in payload\<close> over a decoded value.\<close>

fun py_iter :: "json \<Rightarrow> json list result" where
  "py_iter (JList xs) = Inr xs"
| "py_iter (JObj kvs) = Inr (map (\<lambda>kv. JStr (fst kv)) kvs)"
| "py_iter (JStr s) = Inr (map (\<lambda>c. JStr [c]) s)"
| "py_iter _ = Inl TypeError"

fun map_result :: "('a \<Rightarrow> 'b result) \<Rightarrow> 'a list \<Rightarrow> 'b list result" where
  "map_result f [] = Inr []"
| "map_result f (x # xs) = rbind (f x) (\<lambda>y. rbind (map_result f xs) (\<lambda>ys. Inr (y # ys)))"

definition lineage :: "'w env \<Rightarrow> client_env \<Rightarrow> client \<Rightarrow> string \<Rightarrow> ('w, full_context list) call" where
  "lineage env ce cl lineage_id =
     abind (get_lineage env ce cl (''/lineages/'' @ lineage_id) lineage_id Envelope_List)
       (\<lambda>payload. alift (rbind (py_iter payload) (map_result (validate_context ce))))"

definition current :: "'w env \<Rightarrow> client_env \<Rightarrow> client \<Rightarrow> string \<Rightarrow> ('w, full_context) call" where
  "current env ce cl lineage_id =
     abind (get_lineage env ce cl (''/lineages/'' @ lineage_id @ ''/current'') lineage_id Envelope)
       (\<lambda>payload. alift (validate_context ce payload))"

section \<open>Routing and health\<close>

definition authority_of :: "string \<Rightarrow> string" where
  "authority_of ctx_id = hd (py_split CHR ''/'' (py_removeprefix ctx_id ''acdp://''))"

definition resolve ::
  "'w env \<Rightarrow> client_env \<Rightarrow> client \<Rightarrow> string \<Rightarrow> (string, client) dict \<Rightarrow> ('w, full_context) call" where
  "resolve env ce cl ctx_id authority_map =
     retrieve env ce (dict_get_default authority_map (authority_of ctx_id) cl) ctx_id"

definition healthz :: "'w env \<Rightarrow> client \<Rightarrow> ('w, bool) call" where
  "healthz env cl io tm =
     (case http_send env io (get_request (cl_base cl @ ''/healthz'') [] []) of
        (io', Inr r) \<Rightarrow> (io', tm, Inr (is_success r))
      | (io', Inl HTTPError) \<Rightarrow> (io', tm, Inr False)
      | (io', Inl e) \<Rightarrow> (io', tm, Inl e))"

section \<open>Lemmas\<close>

subsection \<open>Calls\<close>

lemma abind_Inr [py_exn]: "abind m f io tm = (io', tm', Inr b) \<longleftrightarrow>
    (\<exists>io1 tm1 a. m io tm = (io1, tm1, Inr a) \<and> f a io1 tm1 = (io', tm', Inr b))"
  by (auto simp: abind_def split: prod.splits sum.splits)

lemma abind_ok: "m io tm = (io1, tm1, Inr a) \<Longrightarrow> abind m f io tm = f a io1 tm1"
  and abind_err: "m io tm = (io1, tm1, Inl e) \<Longrightarrow> abind m f io tm = (io1, tm1, Inl e)"
  by (simp_all add: abind_def)

lemma abind_cases:
  assumes "abind m f io tm = (io', tm', r)"
  obtains (err) e where "m io tm = (io', tm', Inl e)" "r = Inl e"
    | (ok) io1 tm1 a where "m io tm = (io1, tm1, Inr a)" "f a io1 tm1 = (io', tm', r)"
  using assms by (auto simp: abind_def split: prod.splits sum.splits)

lemma alift_iff [simp]: "alift r io tm = (io', tm', r') \<longleftrightarrow> io' = io \<and> tm' = tm \<and> r = r'"
  by (auto simp: alift_def)

lemma areturn_iff [simp]: "areturn a io tm = (io', tm', r) \<longleftrightarrow> io' = io \<and> tm' = tm \<and> r = Inr a"
  by (auto simp: areturn_def)

lemma http_call_iff: "http_call env rq io tm = (io', tm', r) \<longleftrightarrow>
    tm' = tm \<and> (\<exists>x. http_send env io rq = (io', x) \<and> r = map_sum id (Pair rq) x)"
  by (auto simp: http_call_def split: prod.splits sum.splits)

lemma http_call_Inr: "http_call env rq io tm = (io', tm', Inr x) \<longleftrightarrow>
    tm' = tm \<and> (\<exists>r. http_send env io rq = (io', Inr r) \<and> x = (rq, r))"
  by (auto simp: http_call_def split: prod.splits sum.splits)

lemma http_call_sent: "http_call env rq io tm = (io', tm', r) \<Longrightarrow> sent io' = sent io @ [rq]"
  by (auto simp: http_call_iff dest: http_send_sent)

lemma drop_token_iff [simp]: "drop_token cl p io tm = (io', tm', r) \<longleftrightarrow>
    io' = io \<and> tm' = invalidate tm p (cl_base cl) REACTIVE_401 \<and> r = Inr ()"
  by (auto simp: drop_token_def)

subsection \<open>Tokens and headers\<close>

abbreviation client_auth :: "client \<Rightarrow> request \<Rightarrow> bool" where
  "client_auth cl \<equiv> is_auth_request (rstrip_char CHR ''/'' (cl_base cl))"

lemma bearer_token_wire:
  assumes "bearer_token env ce cl io tm = (io', tm', r)"
  shows "\<exists>rqs. sent io' = sent io @ rqs \<and> list_all (client_auth cl) rqs"
proof (cases "nonempty_str (cl_static_bearer cl) = None \<and> managed cl \<noteq> None")
  case True
  then obtain p where p: "managed cl = Some p" by blast
  obtain io1 tm1 r1 where t: "token_for env (ce_jwt ce) io tm p (cl_base cl) = (io1, tm1, r1)" by (metis prod.collapse)
  with assms True p have "io' = io1" by (auto simp: bearer_token_def split: sum.splits)
  with managed_token.wire[OF t] show ?thesis by blast
next
  case False
  with assms show ?thesis by (auto simp: bearer_token_def intro: exI[of _ "[]"] split: option.splits)
qed

lemma client_headers_iff: "client_headers env ce cl extra io tm = (io', tm', r) \<longleftrightarrow>
    (\<exists>x. bearer_token env ce cl io tm = (io', tm', x) \<and> r = map_sum id (\<lambda>t. header_dict cl t extra) x)"
  by (auto simp: client_headers_def abind_def areturn_def split: prod.splits sum.splits)

lemma Inl_map_sum: "Inl e = map_sum id f y \<longleftrightarrow> y = Inl e"
  and Inr_map_sum: "Inr b = map_sum id f y \<longleftrightarrow> (\<exists>a. y = Inr a \<and> b = f a)"
  by (cases y; auto)+

lemma client_headers_wire:
  "client_headers env ce cl extra io tm = (io', tm', r) \<Longrightarrow>
     \<exists>rqs. sent io' = sent io @ rqs \<and> list_all (client_auth cl) rqs"
  by (auto simp: client_headers_iff dest: bearer_token_wire)

text \<open>After the token was dropped the next headers are made with a newly issued one, which is cached again.\<close>

lemma client_headers_after_drop:
  assumes "client_headers env ce cl extra io (invalidate tm p (cl_base cl) REACTIVE_401) = (io', tm', r)"
    and "managed cl = Some p" "nonempty_str (cl_static_bearer cl) = None"
  shows "\<exists>y rqs. mint env (ce_jwt ce) io p (rstrip_char CHR ''/'' (cl_base cl)) = (io', y)
    \<and> r = map_sum id (\<lambda>c. header_dict cl (Some (ct_token c)) extra) y
    \<and> (\<forall>c. y = Inr c \<longrightarrow> map_of (tm_cache tm') (tm_key_of p (cl_base cl)) = Some c)
    \<and> sent io' = sent io @ rqs \<and> list_all (client_auth cl) rqs \<and> rqs \<noteq> []"
proof -
  let ?tm = "invalidate tm p (cl_base cl) REACTIVE_401"
  obtain io1 tm1 y where t: "token_for env (ce_jwt ce) io ?tm p (cl_base cl) = (io1, tm1, y)" by (metis prod.collapse)
  have same: "io' = io1" "tm' = tm1" "r = map_sum id (\<lambda>c. header_dict cl (Some (ct_token c)) extra) y"
    using assms t by (auto simp: client_headers_iff bearer_token_def split: sum.splits)
  have "mint env (ce_jwt ce) io p (rstrip_char CHR ''/'' (cl_base cl)) = (io1, y)"
    "\<forall>c. y = Inr c \<longrightarrow> map_of (tm_cache tm1) (tm_key_of p (cl_base cl)) = Some c"
    using token_for_miss[OF t] by (auto simp: update_conv')
  with same managed_token.forget_asks[OF t] show ?thesis by blast
qed

lemma exI2: "P a b \<Longrightarrow> \<exists>x y. P x y"
  by blast

lemma client_headers_static:
  "nonempty_str (cl_static_bearer cl) = Some t \<Longrightarrow> client_headers env ce cl extra io tm = (io, tm, Inr (header_dict cl (Some t) extra))"
  by (auto simp: client_headers_iff bearer_token_def)

lemma header_dict_bearer:
  assumes "t \<noteq> []" "map_of extra ''Authorization'' = None"
  shows "map_of (header_dict cl (Some t) extra) ''Authorization'' = Some (''Bearer '' @ t)"
proof -
  have "map_of (rev extra) ''Authorization'' = None" using assms(2) by (simp add: map_of_eq_None_iff)
  with assms(1) show ?thesis
    by (auto simp: header_dict_def Let_def put_opt_def nonempty_str_def map_of_dict_update map_add_def update_conv' split: option.splits list.splits)
qed

text \<open>The last leg of a call: one request, whose outcome is the outcome of the call.\<close>

definition answered_by :: "'w env \<Rightarrow> 'w io \<Rightarrow> request \<Rightarrow> 'w io \<Rightarrow> (request \<times> response) result \<Rightarrow> bool" where
  "answered_by env io rq io' r \<longleftrightarrow> (\<exists>x. http_send env io rq = (io', x) \<and> r = map_sum id (Pair rq) x)"

lemma http_call_answered: "http_call env rq io tm = (io', tm', r) \<longleftrightarrow> tm' = tm \<and> answered_by env io rq io' r"
  by (simp add: http_call_iff answered_by_def)

lemma answered_by_sent: "answered_by env io rq io' r \<Longrightarrow> sent io' = sent io @ [rq]"
  by (auto simp: answered_by_def dest: http_send_sent)

text \<open>What follows a 401: with a static token the same request, otherwise a mint and a request under the new token.\<close>

lemma second_attempt:
  assumes "abind (client_headers env ce cl extra) (\<lambda>h'. http_call env (mk h')) io
      (invalidate tm p (cl_base cl) REACTIVE_401) = (io', tm', r)" and p: "managed cl = Some p"
  shows "case nonempty_str (cl_static_bearer cl) of
      Some t \<Rightarrow> answered_by env io (mk (header_dict cl (Some t) extra)) io' r
    | None \<Rightarrow> \<exists>b io1 y. mint env (ce_jwt ce) io p (rstrip_char CHR ''/'' (cl_base cl)) = (io1, y)
        \<and> sent io1 = sent io @ b \<and> b \<noteq> [] \<and> list_all (client_auth cl) b
        \<and> (case y of
             Inl e \<Rightarrow> io' = io1 \<and> r = Inl e
           | Inr c \<Rightarrow> answered_by env io1 (mk (header_dict cl (Some (ct_token c)) extra)) io' r
               \<and> map_of (tm_cache tm') (tm_key_of p (cl_base cl)) = Some c)"
proof (cases "nonempty_str (cl_static_bearer cl)")
  case None
  from assms(1) show ?thesis
  proof (cases rule: abind_cases)
    case (err e)
    obtain y b where "mint env (ce_jwt ce) io p (rstrip_char CHR ''/'' (cl_base cl)) = (io', y)" "y = Inl e"
      "sent io' = sent io @ b" "b \<noteq> []" "list_all (client_auth cl) b"
      using client_headers_after_drop[OF err(1) p None] by (auto simp: Inl_map_sum)
    with err(2) None show ?thesis by (auto intro!: exI[of _ b] exI[of _ io'] exI[of _ "Inl e"])
  next
    case (ok io1 tm1 h')
    obtain c b where "mint env (ce_jwt ce) io p (rstrip_char CHR ''/'' (cl_base cl)) = (io1, Inr c)"
      "h' = header_dict cl (Some (ct_token c)) extra" "map_of (tm_cache tm1) (tm_key_of p (cl_base cl)) = Some c"
      "sent io1 = sent io @ b" "b \<noteq> []" "list_all (client_auth cl) b"
      using client_headers_after_drop[OF ok(1) p None] by (auto simp: Inr_map_sum)
    with ok(2) None show ?thesis by (auto simp: http_call_answered intro!: exI[of _ b] exI[of _ io1] exI[of _ "Inr c"])
  qed
next
  case (Some t)
  with assms(1) show ?thesis by (simp add: abind_def client_headers_static http_call_answered)
qed

section \<open>Properties\<close>

text \<open>
  C15. One retry, on 401 only, and under a new token. A call sends authentication traffic and then the request itself, with the headers of some
  bearer token. Any answer but a 401, a 403 among them, and any 401 of a client that manages no token, is the result as it came. After a 401
  of a client with managed tokens the request goes out once more and the result is the second answer, whatever it is: the token of the second
  request is the one the mint that ran after the 401 returned, it is the value of the \<^verbatim>\<open>Authorization\<close> header and it is cached
  afterwards; when that mint fails nothing more is sent and its error is the result. A static token is sent again as it is.
\<close>

theorem unauthorized_retried_once:
  assumes "retrying env ce cl mk extra io tm = (io', tm', r)"
  shows "\<exists>a rest. sent io' = sent io @ a @ rest \<and> list_all (client_auth cl) a \<and>
     ((rest = [] \<and> isl r)
      \<or> (\<exists>t io1. rest = [mk (header_dict cl t extra)] \<and> answered_by env io1 (mk (header_dict cl t extra)) io' r
           \<and> (\<forall>rq resp. r = Inr (rq, resp) \<longrightarrow> status_code resp \<noteq> 401 \<or> managed cl = None))
      \<or> (\<exists>p t io1 io2 resp. managed cl = Some p \<and> http_send env io1 (mk (header_dict cl t extra)) = (io2, Inr resp)
           \<and> status_code resp = 401
           \<and> (case nonempty_str (cl_static_bearer cl) of
                Some tok \<Rightarrow> t = Some tok \<and> rest = [mk (header_dict cl t extra), mk (header_dict cl t extra)]
                  \<and> answered_by env io2 (mk (header_dict cl t extra)) io' r
              | None \<Rightarrow> (\<exists>b io3 y. mint env (ce_jwt ce) io2 p (rstrip_char CHR ''/'' (cl_base cl)) = (io3, y)
                  \<and> b \<noteq> [] \<and> list_all (client_auth cl) b
                  \<and> (case y of
                       Inl e \<Rightarrow> rest = mk (header_dict cl t extra) # b \<and> r = Inl e
                     | Inr c \<Rightarrow> rest = mk (header_dict cl t extra) # b @ [mk (header_dict cl (Some (ct_token c)) extra)]
                         \<and> answered_by env io3 (mk (header_dict cl (Some (ct_token c)) extra)) io' r
                         \<and> map_of (tm_cache tm') (tm_key_of p (cl_base cl)) = Some c
                         \<and> (ct_token c \<noteq> [] \<longrightarrow> map_of extra ''Authorization'' = None \<longrightarrow>
                              map_of (header_dict cl (Some (ct_token c)) extra) ''Authorization'' = Some (''Bearer '' @ ct_token c)))))))"
  using assms unfolding retrying_def
proof (cases rule: abind_cases)
  case (err e)
  obtain a where "sent io' = sent io @ a" "list_all (client_auth cl) a" using client_headers_wire[OF err(1)] by blast
  with err(2) show ?thesis by (intro exI[of _ a] exI[of _ "[]"]) simp
next
  case (ok io1 tm1 h)
  obtain a where a: "sent io1 = sent io @ a" "list_all (client_auth cl) a" using client_headers_wire[OF ok(1)] by blast
  obtain t where t: "h = header_dict cl t extra" "\<And>tok. nonempty_str (cl_static_bearer cl) = Some tok \<Longrightarrow> t = Some tok"
    using ok(1) by (cases "nonempty_str (cl_static_bearer cl)")
      (auto simp: client_headers_static client_headers_iff Inr_map_sum)
  from ok(2) show ?thesis
  proof (cases rule: abind_cases)
    case (err e)
    then have "answered_by env io1 (mk h) io' r" by (auto simp: http_call_answered)
    with a t(1) err(2) answered_by_sent[OF this] show ?thesis by (intro exI2[of _ a "[mk h]"]) auto
  next
    case inner: (ok io2 tm2 x)
    then obtain resp where x: "x = (mk h, resp)" "http_send env io1 (mk h) = (io2, Inr resp)"
      by (auto simp: http_call_Inr)
    then have s2: "sent io2 = sent io1 @ [mk h]" by (blast dest: http_send_sent)
    show ?thesis
    proof (cases "managed cl = None \<or> status_code resp \<noteq> 401")
      case True
      with inner(2) x have "io' = io2" "r = Inr (mk h, resp)" by (auto split: option.splits)
      moreover from this x(2) have "answered_by env io1 (mk h) io' r" by (simp add: answered_by_def)
      ultimately show ?thesis using a s2 True t(1) by (intro exI2[of _ a "[mk h]"]) auto
    next
      case False
      then obtain p where p: "managed cl = Some p" and st: "status_code resp = 401" by auto
      from inner(2) x p st have "abind (client_headers env ce cl extra) (\<lambda>h'. http_call env (mk h')) io2
          (invalidate tm2 p (cl_base cl) REACTIVE_401) = (io', tm', r)"
        by (simp add: abind_def drop_token_def)
      note again = second_attempt[OF this p]
      show ?thesis
      proof (cases "nonempty_str (cl_static_bearer cl)")
        case None
        with again obtain b io3 y where b: "mint env (ce_jwt ce) io2 p (rstrip_char CHR ''/'' (cl_base cl)) = (io3, y)"
          "sent io3 = sent io2 @ b" "b \<noteq> []" "list_all (client_auth cl) b"
          and y: "case y of Inl e \<Rightarrow> io' = io3 \<and> r = Inl e
             | Inr c \<Rightarrow> answered_by env io3 (mk (header_dict cl (Some (ct_token c)) extra)) io' r
                 \<and> map_of (tm_cache tm') (tm_key_of p (cl_base cl)) = Some c" by auto
        define tail where "tail = (case y of Inl e \<Rightarrow> [] | Inr c \<Rightarrow> [mk (header_dict cl (Some (ct_token c)) extra)])"
        have "sent io' = sent io3 @ tail" using y by (auto simp: tail_def answered_by_sent split: sum.splits)
        with a s2 b(2) have "sent io' = sent io @ a @ mk h # b @ tail" by simp
        with None p x(2) st b a(2) y t(1) header_dict_bearer show ?thesis
          by (intro exI2[of _ a "mk h # b @ tail"] conjI disjI2 exI[of _ p] exI[of _ t] exI[of _ io1] exI[of _ io2] exI[of _ resp])
            (auto simp: tail_def split: sum.splits)
      next
        case (Some tok)
        with again t have ans: "answered_by env io2 (mk h) io' r" by simp
        with a s2 answered_by_sent have "sent io' = sent io @ a @ [mk h, mk h]" by fastforce
        with Some ans p x(2) st a(2) t show ?thesis
          by (intro exI2[of _ a "[mk h, mk h]"] conjI disjI2 exI[of _ p] exI[of _ t] exI[of _ io1] exI[of _ io2] exI[of _ resp]) auto
      qed
    qed
  qed
qed

definition demo_env :: client_env where
  "demo_env = \<lparr>ce_jwt = \<lparr>jwt_payload = (\<lambda>s. Inr (JObj [])), py_repr = (\<lambda>j. [])\<rparr>, url_text = rq_url,
     verify_ctx_id_binding = (\<lambda>b e. case as_obj b of
        Some kvs \<Rightarrow> if map_of kvs ''ctx_id'' = Some (JStr e) then Inr () else Inl (RuntimeError [])
      | None \<Rightarrow> Inl ValueError),
     validate_publish = (\<lambda>j. Inl ValidationError), validate_context = (\<lambda>j. Inl ValidationError),
     validate_body = (\<lambda>j. Inl ValidationError), validate_search = (\<lambda>j. Inl ValidationError)\<rparr>"

text \<open>A registry that refuses the token \<open>t\<close> and issues the token \<open>n\<close>, and a client whose cache holds \<open>t\<close>.\<close>

definition picky_registry :: "request \<Rightarrow> response result" where
  "picky_registry rq =
     (if rq_method rq = ''POST''
      then Inr (json_answer 200 (JObj [(''nonce'', JStr ''1''), (''expires_at'', JInt 100), (''signing_input'', JStr ''i''), (''token'', JStr ''n'')]))
      else Inr (json_answer (if map_of (rq_headers rq) ''Authorization'' = Some ''Bearer t'' then 401 else 200) JNull))"

definition token_client :: client where
  "token_client = (plain_client ''http://r'')\<lparr>cl_producer := Some demo_producer, cl_has_token_manager := True\<rparr>"

definition stale_cache :: token_manager where
  "stale_cache = (new_token_manager 30)\<lparr>tm_cache := [(tm_key_of demo_producer ''http://r'', a_token 100)]\<rparr>"

lemma token_client_simps:
  "cl_base token_client = ''http://r''" "managed token_client = Some demo_producer" "nonempty_str (cl_static_bearer token_client) = None"
  by (simp_all add: token_client_def plain_client_def managed_def nonempty_str_def rstrip_char_def)

lemma picky_mint:
  "mint (stub_env picky_registry) (ce_jwt demo_env) io demo_producer base
     = (io\<lparr>sent := sent io @ [json_post (base @ ''/auth/challenge'') [] (JObj [(''agent_id'', JStr ''did:web:a'')]),
          json_post (base @ ''/auth/token'') [] (token_request demo_producer (JStr ''1'') 100 ''s'')]\<rparr>, Inr ((a_token 100)\<lparr>ct_token := ''n''\<rparr>))"
  by (simp add: mint_def mint_post_def post_cooperative_def picky_registry_def json_post_def read_challenge_def read_token_def malformed_as_def
      demo_producer_def a_token_def demo_env_def decode_unverified_claims_def obj_get_def dict_get_default_def normalize_aud_def)

theorem unauthorized_retried_once_witness:
  "\<exists>io' tm' resp a b h c. retrying (stub_env picky_registry) demo_env token_client (get_request ''http://r/x'' []) [] stub_io stale_cache
       = (io', tm', Inr (get_request ''http://r/x'' [] h, resp))
     \<and> status_code resp = 200 \<and> sent io' = a @ get_request ''http://r/x'' [] (header_dict token_client (Some ''t'') []) # b @ [get_request ''http://r/x'' [] h]
     \<and> map_of h ''Authorization'' = Some ''Bearer n''
     \<and> map_of (tm_cache tm') (tm_key_of demo_producer ''http://r'') = Some c \<and> ct_token c = ''n''"
proof -
  let ?mk = "get_request ''http://r/x'' []" and ?env = "stub_env picky_registry"
  let ?old = "?mk (header_dict token_client (Some ''t'') [])" and ?new = "?mk (header_dict token_client (Some ''n'') [])"
  have auth: "map_of (header_dict token_client (Some tok) []) ''Authorization'' = Some (''Bearer '' @ tok)" if "tok \<noteq> []" for tok
    by (rule header_dict_bearer) (use that in simp_all)
  have old: "client_headers ?env demo_env token_client [] stub_io stale_cache = (stub_io, stale_cache, Inr (header_dict token_client (Some ''t'') []))"
    by (simp add: client_headers_iff bearer_token_def token_client_simps token_for_def fresh_cached_def stale_cache_def is_fresh_def a_token_def
        new_token_manager_def)
  have answers: "picky_registry ?old = Inr (json_answer 401 JNull)" "picky_registry ?new = Inr (json_answer 200 JNull)"
    using auth[of "''t''"] auth[of "''n''"] by (simp_all add: picky_registry_def get_request_def)
  have again: "\<exists>tm2. client_headers ?env demo_env token_client [] io (invalidate stale_cache demo_producer ''http://r'' REACTIVE_401)
      = (fst (mint ?env (ce_jwt demo_env) io demo_producer ''http://r''), tm2, Inr (header_dict token_client (Some ''n'') []))" for io
    by (simp add: client_headers_iff bearer_token_def token_client_simps token_for_def Let_def classify_refresh_def invalidate_def
        fresh_cached_def rstrip_char_def picky_mint a_token_def stale_cache_def)
  have "\<exists>io' tm' p1 p2. retrying ?env demo_env token_client ?mk [] stub_io stale_cache = (io', tm', Inr (?new, json_answer 200 JNull))
      \<and> sent io' = [?old, p1, p2, ?new]"
    using again[of "stub_io\<lparr>sent := [?old]\<rparr>"]
    by (auto simp: retrying_def abind_def old[unfolded stub_io_def] http_call_def answers token_client_simps drop_token_def picky_mint stub_io_def)
  then obtain io' tm' p1 p2 where run: "retrying ?env demo_env token_client ?mk [] stub_io stale_cache = (io', tm', Inr (?new, json_answer 200 JNull))"
    and wire: "sent io' = [?old, p1, p2, ?new]" by blast
  from unauthorized_retried_once[OF run, unfolded token_client_simps wire]
  obtain a rest where ar: "[?old, p1, p2, ?new] = a @ rest" "list_all (client_auth token_client) a"
    and shape: "length rest = 4 \<Longrightarrow> \<exists>t b c. rest = ?mk (header_dict token_client t []) # b @ [?mk (header_dict token_client (Some (ct_token c)) [])]
      \<and> ct_token c = ''n'' \<and> map_of (tm_cache tm') (tm_key_of demo_producer ''http://r'') = Some c"
    by (fastforce simp: stub_io_def token_client_simps picky_mint rstrip_char_def)
  have "a = []" using ar by (cases a) (auto simp: is_auth_request_def get_request_def)
  with ar shape run wire auth[of "''n''"] show ?thesis by fastforce
qed

subsection \<open>Binding\<close>

lemma check_each_Inr: "check_each f xs = Inr () \<longleftrightarrow> (\<forall>x \<in> set xs. f x = Inr ())"
  by (induction xs) (auto simp: rbind_eq_Inr)

lemma check_each_Inl: "check_each f xs = Inl e \<Longrightarrow> \<exists>x \<in> set xs. f x = Inl e"
  by (induction xs) (auto simp: rbind_eq_Inl)

lemma obj_get_str: "obj_get kvs k = JStr s \<longleftrightarrow> map_of kvs k = Some (JStr s)"
  by (auto simp: obj_get_def dict_get_default_def split: option.splits)

text \<open>What it means for a served body to be bound to the id that was asked for.\<close>

definition bound :: "client_env \<Rightarrow> string option \<Rightarrow> json \<Rightarrow> bool" where
  "bound ce expected b \<longleftrightarrow> (\<exists>kvs s. b = JObj kvs \<and> map_of kvs ''ctx_id'' = Some (JStr s)
     \<and> verify_ctx_id_binding ce b (case expected of None \<Rightarrow> s | Some x \<Rightarrow> x) = Inr ())"

lemma bind_body_Inr: "bind_body ce expected b = Inr () \<longleftrightarrow> bound ce expected b"
proof (cases "\<exists>kvs s. b = JObj kvs \<and> map_of kvs ''ctx_id'' = Some (JStr s)")
  case True
  then obtain kvs s where "b = JObj kvs" "map_of kvs ''ctx_id'' = Some (JStr s)" by blast
  then show ?thesis by (auto simp: bind_body_def bound_def obj_get_def dict_get_default_def split: sum.splits)
next
  case False
  then show ?thesis by (auto simp: bind_body_def bound_def obj_get_str split: option.splits)
qed

lemma bind_body_Inl:
  assumes "bind_body ce expected b = Inl e"
    and "\<forall>b x e. verify_ctx_id_binding ce b x = Inl e \<longrightarrow> is_ValueError e \<or> is_RuntimeError e"
  shows "\<exists>reason s. e = CtxIdBindingError reason expected s"
proof -
  have "is_ValueError x \<or> is_RuntimeError x" if "verify_ctx_id_binding ce b y = Inl x" for x y
    using assms(2) that by blast
  with assms(1) show ?thesis unfolding bind_body_def
    by (auto split: option.splits sum.splits if_splits)
qed

text \<open>
  Binding fails closed. With the check on, a payload passes exactly when every body in it is an object
  with a string \<^verbatim>\<open>ctx_id\<close> that the SDK accepts for the requested id; anything else, a body that is no object
  or carries no id included, raises \<^verbatim>\<open>CtxIdBindingError\<close> naming the requested id.
\<close>

theorem binding_fail_closed:
  assumes "\<forall>b x e. verify_ctx_id_binding ce b x = Inl e \<longrightarrow> is_ValueError e \<or> is_RuntimeError e"
  shows "(bind_served_ctx_id ce cl payload shape expected (Some True) = Inr () \<longleftrightarrow>
       (\<forall>b \<in> set (served_bodies payload shape). bound ce expected b))
    \<and> (\<forall>e. bind_served_ctx_id ce cl payload shape expected (Some True) = Inl e \<longrightarrow>
         (\<exists>reason s. e = CtxIdBindingError reason expected s))"
  using assms by (auto simp: bind_served_ctx_id_def check_each_Inr bind_body_Inr dest!: check_each_Inl bind_body_Inl)

theorem binding_fail_closed_witness:
  "(bind_served_ctx_id demo_env (plain_client ''http://r'') (JObj [(''body'', JObj [])]) Envelope (Some ''acdp://a/b'') (Some True) = Inr ()
      \<longleftrightarrow> (\<forall>b \<in> set (served_bodies (JObj [(''body'', JObj [])]) Envelope). bound demo_env (Some ''acdp://a/b'') b))
   \<and> bind_served_ctx_id demo_env (plain_client ''http://r'') (JObj [(''body'', JObj [])]) Envelope (Some ''acdp://a/b'') (Some True)
      = Inl (CtxIdBindingError Unverifiable (Some ''acdp://a/b'') JNull)"
proof -
  have "\<forall>b x e. verify_ctx_id_binding demo_env b x = Inl e \<longrightarrow> is_ValueError e \<or> is_RuntimeError e"
    by (auto simp: demo_env_def split: option.splits if_splits)
  from binding_fail_closed[OF this, of "plain_client ''http://r''" "JObj [(''body'', JObj [])]" Envelope "Some ''acdp://a/b''"]
  show ?thesis
    by (auto simp: bind_served_ctx_id_def served_bodies_def envelope_bodies_def bind_body_def obj_get_def dict_get_default_def)
qed

text \<open>
  What the client relies on outside its own code: pydantic accepts only an object whose body has the
  string ids it then holds, and the SDK accepts a body only under the id the body carries.
\<close>

definition faithful_validation :: "client_env \<Rightarrow> bool" where
  "faithful_validation ce \<longleftrightarrow> (\<forall>j fc. validate_context ce j = Inr fc \<longrightarrow>
     (\<exists>kvs b. j = JObj kvs \<and> map_of kvs ''body'' = Some (JObj b)
        \<and> map_of b ''ctx_id'' = Some (JStr (b_ctx_id (fc_body fc)))
        \<and> map_of b ''lineage_id'' = Some (JStr (b_lineage_id (fc_body fc)))))"

definition faithful_binding :: "client_env \<Rightarrow> bool" where
  "faithful_binding ce \<longleftrightarrow> (\<forall>kvs x s. verify_ctx_id_binding ce (JObj kvs) x = Inr () \<longrightarrow>
     map_of kvs ''ctx_id'' = Some (JStr s) \<longrightarrow> s = x)"

lemma get_full_context_bound:
  assumes "get_full_context env ce cl ctx_id suffix content shape vb io tm = (io', tm', Inr payload)"
    and "case vb of None \<Rightarrow> cl_verify_binding cl | Some v \<Rightarrow> v"
  shows "\<forall>b \<in> set (served_bodies payload shape). bound ce (Some ctx_id) b"
  using assms
  by (auto simp: get_full_context_def Let_def abind_Inr rbind_eq_Inr bind_served_ctx_id_def check_each_Inr bind_body_Inr)

lemma validated_body:
  assumes "faithful_validation ce" "validate_context ce j = Inr fc"
  shows "\<exists>b. served_bodies j Envelope = [JObj b] \<and> map_of b ''ctx_id'' = Some (JStr (b_ctx_id (fc_body fc)))
    \<and> map_of b ''lineage_id'' = Some (JStr (b_lineage_id (fc_body fc)))"
  using assms by (fastforce simp: faithful_validation_def served_bodies_def envelope_bodies_def)

lemma bound_context_id:
  assumes "faithful_validation ce" "faithful_binding ce" "validate_context ce j = Inr fc"
    and "\<forall>b \<in> set (served_bodies j Envelope). bound ce (Some ctx_id) b"
  shows "b_ctx_id (fc_body fc) = ctx_id"
proof -
  obtain b where b: "served_bodies j Envelope = [JObj b]" "map_of b ''ctx_id'' = Some (JStr (b_ctx_id (fc_body fc)))"
    using validated_body[OF assms(1,3)] by blast
  with assms(4) have "verify_ctx_id_binding ce (JObj b) ctx_id = Inr ()" by (auto simp: bound_def)
  with assms(2) b show ?thesis unfolding faithful_binding_def by blast
qed

definition demo_context :: "string \<Rightarrow> string \<Rightarrow> full_context" where
  "demo_context c l = \<lparr>fc_body = \<lparr>b_ctx_id = c, b_lineage_id = l, b_origin_registry = [], b_created_at = 0, b_content_hash = [],
      b_signature = \<lparr>sig_algorithm = [], sig_key_id = [], sig_value = []\<rparr>, b_version = 1, b_agent_id = [], b_title = [],
      b_type = [], b_visibility = ''public'', b_derived_from = [], b_data_refs = [], b_contributors = [],
      b_supersedes = None, b_audience = None, b_summary = None\<rparr>,
    fc_registry_state = \<lparr>rs_status = ''active'', rs_lifecycle_events = None\<rparr>, fc_registry_receipt = None,
    fc_lineage_head_receipt = None\<rparr>"

definition demo_validate :: "json \<Rightarrow> full_context result" where
  "demo_validate j = (case j of
     JObj kvs \<Rightarrow> (case map_of kvs ''body'' of
        Some (JObj b) \<Rightarrow> (case (map_of b ''ctx_id'', map_of b ''lineage_id'') of
           (Some (JStr c), Some (JStr l)) \<Rightarrow> Inr (demo_context c l) | _ \<Rightarrow> Inl ValidationError)
      | _ \<Rightarrow> Inl ValidationError)
   | _ \<Rightarrow> Inl ValidationError)"

definition demo_env2 :: client_env where
  "demo_env2 = demo_env\<lparr>validate_context := demo_validate\<rparr>"

lemma demo_faithful: "faithful_validation demo_env2" "faithful_binding demo_env2"
proof -
  show "faithful_validation demo_env2" unfolding faithful_validation_def demo_env2_def
    by (auto simp: demo_validate_def demo_context_def split: json.splits option.splits)
  show "faithful_binding demo_env2" unfolding faithful_binding_def demo_env2_def demo_env_def by auto
qed

definition demo_answer :: json where
  "demo_answer = JObj [(''body'', JObj [(''ctx_id'', JStr ''acdp://a/b''), (''lineage_id'', JStr ''lin:1'')])]"

lemma demo_retrying:
  "retrying (stub_env (\<lambda>rq. Inr (json_answer 200 j))) ce (plain_client base) mk extra io tm
     = (io\<lparr>sent := sent io @ [mk (header_dict (plain_client base) None extra)]\<rparr>, tm,
        Inr (mk (header_dict (plain_client base) None extra), json_answer 200 j))"
proof -
  have "client_headers (stub_env (\<lambda>rq. Inr (json_answer 200 j))) ce (plain_client base) extra io tm
      = (io, tm, Inr (header_dict (plain_client base) None extra))"
    by (auto simp: client_headers_iff bearer_token_def plain_client_def nonempty_str_def managed_def)
  then show ?thesis by (simp add: retrying_def abind_def http_call_def managed_def plain_client_def areturn_def)
qed

lemma demo_fetch_json:
  "fetch_json (stub_env (\<lambda>rq. Inr (json_answer 200 j))) ce (plain_client base) mk extra io tm
     = (io\<lparr>sent := sent io @ [mk (header_dict (plain_client base) None extra)]\<rparr>, tm, Inr j)"
  by (simp add: fetch_json_def abind_def demo_retrying alift_def raise_for_status_def json_of_def)

lemma demo_retrieve:
  "\<exists>io'. retrieve (stub_env (\<lambda>rq. Inr (json_answer 200 demo_answer))) demo_env2 (plain_client ''http://r'') ''acdp://a/b''
     stub_io (new_token_manager 30) = (io', new_token_manager 30, Inr (demo_context ''acdp://a/b'' ''lin:1''))"
proof -
  have "bind_served_ctx_id demo_env2 (plain_client ''http://r'') demo_answer Envelope (Some ''acdp://a/b'') None = Inr ()"
    by (simp add: bind_served_ctx_id_def plain_client_def served_bodies_def envelope_bodies_def demo_answer_def bind_body_def
        obj_get_def dict_get_default_def demo_env2_def demo_env_def)
  moreover have "validate_context demo_env2 demo_answer = Inr (demo_context ''acdp://a/b'' ''lin:1'')"
    by (simp add: demo_env2_def demo_validate_def demo_answer_def)
  ultimately show ?thesis
    by (simp add: retrieve_def get_full_context_def abind_def demo_fetch_json alift_def Let_def)
qed

text \<open>
  C12. A context comes back only under its own id. Whatever the registry answers, a context that
  \<^verbatim>\<open>retrieve\<close>, \<^verbatim>\<open>retract\<close> or \<^verbatim>\<open>republish\<close> returns with binding on has the \<^verbatim>\<open>ctx_id\<close> that was asked for; no other
  context can be substituted for it.
\<close>

theorem served_context_is_bound:
  assumes "call \<in> {retrieve env ce cl ctx_id, retract env ce cl ctx_id event, republish env ce cl ctx_id event}"
    and "call io tm = (io', tm', Inr fc)" "cl_verify_binding cl"
    and "faithful_validation ce" "faithful_binding ce"
  shows "b_ctx_id (fc_body fc) = ctx_id"
proof -
  obtain suffix content io1 tm1 j where
      g: "get_full_context env ce cl ctx_id suffix content Envelope None io tm = (io1, tm1, Inr j)"
    and v: "validate_context ce j = Inr fc"
    using assms(1,2) by (auto simp: retrieve_def retract_def republish_def lifecycle_def abind_Inr)
  show ?thesis
    by (rule bound_context_id[OF assms(4,5) v get_full_context_bound[OF g]]) (use assms(3) in simp)
qed

theorem served_context_is_bound_witness:
  "b_ctx_id (fc_body (demo_context ''acdp://a/b'' ''lin:1'')) = ''acdp://a/b''"
proof -
  obtain io' where r: "retrieve (stub_env (\<lambda>rq. Inr (json_answer 200 demo_answer))) demo_env2 (plain_client ''http://r'') ''acdp://a/b''
     stub_io (new_token_manager 30) = (io', new_token_manager 30, Inr (demo_context ''acdp://a/b'' ''lin:1''))"
    using demo_retrieve by blast
  show ?thesis
    using served_context_is_bound[of "retrieve (stub_env (\<lambda>rq. Inr (json_answer 200 demo_answer))) demo_env2 (plain_client ''http://r'') ''acdp://a/b''"
        "stub_env (\<lambda>rq. Inr (json_answer 200 demo_answer))" demo_env2 "plain_client ''http://r''" "''acdp://a/b''" "[]", OF _ r _ demo_faithful]
    by (simp add: plain_client_def)
qed

lemma get_lineage_checked:
  assumes "get_lineage env ce cl path lid shape io tm = (io', tm', Inr payload)"
  shows "\<forall>kvs. JObj kvs \<in> set (served_bodies payload shape) \<longrightarrow> map_of kvs ''lineage_id'' = Some (JStr lid)"
proof -
  have "\<forall>b \<in> set (served_bodies payload shape). lineage_body_ok lid b = Inr ()"
    using assms by (auto simp: get_lineage_def abind_Inr rbind_eq_Inr check_each_Inr)
  then show ?thesis by (fastforce simp: lineage_body_ok_def obj_get_str split: if_splits)
qed

lemma map_result_Inr: "map_result f xs = Inr ys \<Longrightarrow> y \<in> set ys \<Longrightarrow> \<exists>x \<in> set xs. f x = Inr y"
  by (induction xs arbitrary: ys) (auto simp: rbind_eq_Inr)

lemma validated_lineage:
  assumes "faithful_validation ce" "validate_context ce j = Inr fc"
    and "\<forall>kvs. JObj kvs \<in> set (envelope_bodies j) \<longrightarrow> map_of kvs ''lineage_id'' = Some (JStr lid)"
  shows "b_lineage_id (fc_body fc) = lid"
  using validated_body[OF assms(1,2)] assms(3) by (auto simp: served_bodies_def)

text \<open>
  C17. A lineage comes back only under its own id, also when the client was built with binding off: every
  context \<^verbatim>\<open>lineage\<close> or \<^verbatim>\<open>current\<close> returns belongs to the lineage that was asked for.
\<close>

theorem served_lineage_is_bound:
  assumes "faithful_validation ce"
    and "lineage env ce cl lid io tm = (io1, tm1, Inr fcs) \<or> (current env ce cl lid io tm = (io1, tm1, Inr fc) \<and> fcs = [fc])"
    and "x \<in> set fcs"
  shows "b_lineage_id (fc_body x) = lid"
  using assms(2)
proof
  assume "lineage env ce cl lid io tm = (io1, tm1, Inr fcs)"
  then obtain io2 tm2 j xs where g: "get_lineage env ce cl (''/lineages/'' @ lid) lid Envelope_List io tm = (io2, tm2, Inr j)"
    and it: "py_iter j = Inr xs" "map_result (validate_context ce) xs = Inr fcs"
    by (auto simp: lineage_def abind_Inr rbind_eq_Inr)
  then obtain y where y: "y \<in> set xs" "validate_context ce y = Inr x" using map_result_Inr assms(3) by metis
  obtain kvs where obj: "y = JObj kvs" using y(2) assms(1) unfolding faithful_validation_def by blast
  with y(1) it(1) have "j = JList xs" by (cases j) auto
  with y(1) get_lineage_checked[OF g] have "\<forall>kvs. JObj kvs \<in> set (envelope_bodies y) \<longrightarrow> map_of kvs ''lineage_id'' = Some (JStr lid)"
    by (auto simp: served_bodies_def)
  from validated_lineage[OF assms(1) y(2) this] show ?thesis .
next
  assume "current env ce cl lid io tm = (io1, tm1, Inr fc) \<and> fcs = [fc]"
  then obtain io2 tm2 j where g: "get_lineage env ce cl (''/lineages/'' @ lid @ ''/current'') lid Envelope io tm = (io2, tm2, Inr j)"
    and v: "validate_context ce j = Inr x"
    using assms(3) by (auto simp: current_def abind_Inr)
  with get_lineage_checked[OF g] show ?thesis
    by (intro validated_lineage[OF assms(1) v]) (simp add: served_bodies_def)
qed

theorem served_lineage_is_bound_witness:
  "\<exists>fc. snd (snd (current (stub_env (\<lambda>rq. Inr (json_answer 200 demo_answer))) demo_env2 (plain_client ''http://r'') ''lin:1''
      stub_io (new_token_manager 30))) = Inr fc \<and> b_lineage_id (fc_body fc) = ''lin:1''"
proof -
  let ?c = "current (stub_env (\<lambda>rq. Inr (json_answer 200 demo_answer))) demo_env2 (plain_client ''http://r'') ''lin:1''
      stub_io (new_token_manager 30)"
  have b: "bind_served_ctx_id demo_env2 (plain_client ''http://r'') demo_answer Envelope None None = Inr ()"
    by (simp add: bind_served_ctx_id_def plain_client_def served_bodies_def envelope_bodies_def demo_answer_def bind_body_def
        obj_get_def dict_get_default_def demo_env2_def demo_env_def)
  have l: "check_each (lineage_body_ok ''lin:1'') (served_bodies demo_answer Envelope) = Inr ()"
    by (simp add: served_bodies_def envelope_bodies_def demo_answer_def lineage_body_ok_def obj_get_def dict_get_default_def)
  have "validate_context demo_env2 demo_answer = Inr (demo_context ''acdp://a/b'' ''lin:1'')"
    by (simp add: demo_env2_def demo_validate_def demo_answer_def)
  with b l have "\<exists>io1. ?c = (io1, new_token_manager 30, Inr (demo_context ''acdp://a/b'' ''lin:1''))"
    by (simp add: current_def get_lineage_def abind_def demo_fetch_json alift_def)
  then obtain io1 where c: "?c = (io1, new_token_manager 30, Inr (demo_context ''acdp://a/b'' ''lin:1''))" by blast
  with served_lineage_is_bound[OF demo_faithful(1) disjI2[OF conjI[OF c refl]]] show ?thesis by simp
qed

subsection \<open>Headers\<close>

lemma map_of_put_opt: "map_of (put_opt k v h) k' = (if k' = k \<and> v \<noteq> None then v else map_of h k')"
  by (auto simp: put_opt_def split: option.splits)

lemma map_of_header_dict:
  assumes "k \<notin> fst ` set extra"
  shows "map_of (header_dict cl token extra) k =
    (if k = ''X-Tenant-Id'' then tenant_header_value cl (nonempty_str token \<noteq> None)
     else if k = ''Authorization'' then map_option (\<lambda>t. ''Bearer '' @ t) (nonempty_str token)
     else if k = ''X-Run-Id'' then nonempty_str (cl_run_id cl)
     else map_of [(''Content-Type'', ''application/json''), (''Accept'', ''application/acdp+json, application/json'')] k)"
proof -
  have "map_of (rev extra) k = None" using assms by (simp add: map_of_eq_None_iff image_iff)
  then have "map_of (dict_update h extra) k = map_of h k" for h
    by (simp add: map_of_dict_update map_add_def)
  then show ?thesis by (simp add: header_dict_def Let_def map_of_put_opt split: if_splits)
qed

text \<open>
  The tenant header is only ever a fallback. A client that was built successfully never asserts the reserved
  tenant; the header it sends is its own tenant; in the default mode it is sent exactly when no bearer
  token goes along, so it can never contradict the token's claim.
\<close>

theorem tenant_header_policy:
  assumes "new_client base_url bearer run_id p has_tm tenant mode vb = Inr cl"
    and "client_headers env ce cl extra io tm = (io', tm', Inr h)"
    and "\<forall>k \<in> fst ` set extra. k = ''Idempotency-Key''"
  shows "map_of h ''X-Tenant-Id'' \<noteq> Some ''default''
    \<and> (map_of h ''X-Tenant-Id'' \<noteq> None \<longrightarrow> map_of h ''X-Tenant-Id'' = tenant \<and> mode \<noteq> Never)
    \<and> (mode = Fallback \<longrightarrow> (map_of h ''X-Tenant-Id'' \<noteq> None \<longleftrightarrow> tenant \<noteq> None \<and> map_of h ''Authorization'' = None))"
proof -
  obtain token where h: "h = header_dict cl token extra" using assms(2) by (auto simp: client_headers_def abind_Inr)
  have k: "''X-Tenant-Id'' \<notin> fst ` set extra" "''Authorization'' \<notin> fst ` set extra" using assms(3) by auto
  from assms(1) have "cl_tenant_id cl = tenant" "cl_tenant_mode cl = mode" "tenant \<noteq> Some ''default''"
    by (auto simp: new_client_def rbind_eq_Inr)
  then show ?thesis unfolding h using map_of_header_dict[OF k(1)] map_of_header_dict[OF k(2)]
    by (auto simp: tenant_header_value_def)
qed

theorem tenant_header_policy_witness:
  "map_of (header_dict \<lparr>cl_base = ''http://r'', cl_static_bearer = Some ''t'', cl_run_id = None, cl_producer = None,
      cl_has_token_manager = False, cl_tenant_id = Some ''acme'', cl_tenant_mode = Fallback, cl_verify_binding = True\<rparr> (Some ''t'') [])
      ''X-Tenant-Id'' = None"
proof -
  let ?cl = "\<lparr>cl_base = ''http://r'', cl_static_bearer = Some ''t'', cl_run_id = None, cl_producer = None,
      cl_has_token_manager = False, cl_tenant_id = Some ''acme'', cl_tenant_mode = Fallback, cl_verify_binding = True\<rparr>"
  have n: "new_client ''http://r'' (Some ''t'') None None False (Some ''acme'') Fallback True = Inr ?cl"
    by (simp add: new_client_def reject_reserved_tenant_def is_reserved_tenant_def RESERVED_TENANT_def rstrip_char_def)
  have h: "client_headers (stub_env (\<lambda>rq. Inl HTTPError)) demo_env ?cl [] stub_io (new_token_manager 30)
      = (stub_io, new_token_manager 30, Inr (header_dict ?cl (Some ''t'') []))"
    by (auto simp: client_headers_iff bearer_token_def nonempty_str_def)
  have "map_of (header_dict ?cl (Some ''t'') []) ''Authorization'' = Some ''Bearer t''"
    by (simp add: map_of_header_dict nonempty_str_def)
  with tenant_header_policy[OF n h] show ?thesis by simp
qed

subsection \<open>Paging\<close>

text \<open>
  A registry that serves the list \<open>xs\<close> in storage pages of \<open>k\<close> rows and leaves out the rows the caller may not
  see: the page at an offset, with the cursor of the next one.
\<close>

definition storage_page :: "(search_hit \<Rightarrow> bool) \<Rightarrow> (nat \<Rightarrow> string) \<Rightarrow> search_hit list \<Rightarrow> nat \<Rightarrow> nat \<Rightarrow> search_response" where
  "storage_page vis enc xs k off =
     \<lparr>sr_matches = filter vis (take k (drop off xs)), sr_total_estimate = None,
      sr_next_cursor = (if off + k < length xs then Some (enc (off + k)) else None)\<rparr>"

lemma search_pages_complete:
  assumes k: "0 < k" and enc: "\<forall>off. enc off \<noteq> []"
    and serve: "\<forall>off io tm. off = 0 \<or> off < length xs \<longrightarrow>
      (\<exists>io' tm'. (if off = 0 then page else next (enc off)) io tm = (io', tm', Inr (storage_page vis enc xs k off)))"
    and "off = 0 \<or> off < length xs" "length xs \<le> off + k * n" "0 < n"
  shows "\<exists>io' tm'. search_pages n (if off = 0 then page else next (enc off)) next io tm = (io', tm', filter vis (drop off xs), None)"
  using assms(4-6)
proof (induction n arbitrary: off io tm)
  case (Suc n)
  let ?resp = "storage_page vis enc xs k off"
  obtain io1 tm1 where p: "(if off = 0 then page else next (enc off)) io tm = (io1, tm1, Inr ?resp)"
    using serve Suc.prems(1) by blast
  show ?case
  proof (cases "off + k < length xs")
    case True
    then have cur: "nonempty_str (sr_next_cursor ?resp) = Some (enc (off + k))"
      using enc by (simp add: storage_page_def nonempty_str_def split: list.splits)
    have "0 < n" using True Suc.prems(2) by (cases n) auto
    moreover have "length xs \<le> off + k + k * n" using Suc.prems(2) by simp
    ultimately obtain io2 tm2 where rest: "search_pages n (next (enc (off + k))) next io1 tm1
        = (io2, tm2, filter vis (drop (off + k) xs), None)"
      using Suc.IH[of "off + k" io1 tm1] True k by auto
    have "filter vis (take k (drop off xs)) @ filter vis (drop (off + k) xs) = filter vis (drop off xs)"
      by (metis add.commute append_take_drop_id drop_drop filter_append)
    with p cur rest show ?thesis by (simp add: storage_page_def)
  next
    case False
    then have "nonempty_str (sr_next_cursor ?resp) = None" "take k (drop off xs) = drop off xs"
      by (simp_all add: storage_page_def nonempty_str_def)
    with p show ?thesis by (simp add: storage_page_def)
  qed
qed simp

text \<open>
  C16. Searching everything finds everything. Against a registry that pages its matches and hides rows, the generator
  yields every visible match exactly once and in order, without an error, as long as \<^verbatim>\<open>max_pages\<close> pages hold all
  rows; a page whose rows are all hidden does not end the search.
\<close>

theorem search_all_complete:
  assumes "0 < k" "\<forall>off. enc off \<noteq> []" "int (length xs) \<le> int k * max_pages" "0 < max_pages"
    and "\<forall>off io tm. off = 0 \<or> off < length xs \<longrightarrow>
      (\<exists>io' tm'. search env ce cl sq (int k) (if off = 0 then None else Some (enc off)) io tm
         = (io', tm', Inr (storage_page vis enc xs k off)))"
  shows "\<exists>io' tm'. search_all env ce cl sq (int k) max_pages io tm = (io', tm', filter vis xs, None)"
proof -
  let ?next = "\<lambda>cursor. search env ce cl sq (int k) (Some cursor)"
  have eq: "(if off = 0 then search env ce cl sq (int k) None else ?next (enc off)) =
      search env ce cl sq (int k) (if off = 0 then None else Some (enc off))" for off by simp
  have serve: "\<forall>off io tm. off = 0 \<or> off < length xs \<longrightarrow>
      (\<exists>io' tm'. (if off = 0 then search env ce cl sq (int k) None else ?next (enc off)) io tm = (io', tm', Inr (storage_page vis enc xs k off)))"
    using assms(5) by (simp only: eq)
  have len: "length xs \<le> 0 + k * nat max_pages" using assms(3,4) by (simp add: nat_int_comparison(3))
  from search_pages_complete[OF assms(1,2) serve _ len, of io tm] assms(4) show ?thesis
    by (simp add: search_all_def)
qed

definition demo_hit :: "string \<Rightarrow> search_hit" where
  "demo_hit c = \<lparr>sh_ctx_id = c, sh_title = None, sh_agent_id = None, sh_context_type = None, sh_visibility = None,
     sh_lineage_id = None, sh_summary = None\<rparr>"

definition demo_search_env :: client_env where
  "demo_search_env = demo_env\<lparr>validate_search := (\<lambda>j. Inr (storage_page (\<lambda>h. sh_ctx_id h = ''b'') (\<lambda>_. ''c'') [demo_hit ''a'', demo_hit ''b''] 1
     (if j = JInt 1 then 1 else 0)))\<rparr>"

definition demo_query :: search_query where
  "demo_query = \<lparr>sq_q = None, sq_context_type = None, sq_domain = None, sq_agent_id = None, sq_tags = None, sq_derived_from = None, sq_visibility = None\<rparr>"

definition demo_registry :: "request \<Rightarrow> response result" where
  "demo_registry rq = Inr (json_answer 200 (if map_of (rq_params rq) ''cursor'' = Some (JStr ''c'') then JInt 1 else JInt 0))"

lemma demo_search:
  "\<exists>io' tm'. search (stub_env demo_registry) demo_search_env (plain_client ''http://r'') demo_query 1 (if off = (0::nat) then None else Some ''c'') io tm
     = (io', tm', Inr (storage_page (\<lambda>h. sh_ctx_id h = ''b'') (\<lambda>_. ''c'') [demo_hit ''a'', demo_hit ''b''] 1 (if off = 0 then 0 else 1)))"
proof -
  let ?j = "if off = 0 then JInt 0 else JInt 1"
  let ?mk = "get_request (cl_base (plain_client ''http://r'') @ ''/contexts/search'') (search_params demo_query 1 (if off = 0 then None else Some ''c''))"
  have "client_headers (stub_env demo_registry) demo_search_env (plain_client ''http://r'') [] io tm
      = (io, tm, Inr (header_dict (plain_client ''http://r'') None []))"
    by (auto simp: client_headers_iff bearer_token_def plain_client_def nonempty_str_def managed_def)
  moreover have "demo_registry (?mk h) = Inr (json_answer 200 ?j)" for h
    by (simp add: demo_registry_def get_request_def search_params_def demo_query_def opt_param_def nonempty_str_def)
  ultimately have "\<exists>io' rq. retrying (stub_env demo_registry) demo_search_env (plain_client ''http://r'') ?mk [] io tm
      = (io', tm, Inr (rq, json_answer 200 ?j))"
    by (simp add: retrying_def abind_def http_call_def managed_def plain_client_def areturn_def)
  then show ?thesis
    by (auto simp: search_def abind_def alift_def raise_cursor_error_def raise_for_status_def json_of_def demo_search_env_def)
qed

theorem search_all_complete_witness:
  "\<exists>io' tm'. search_all (stub_env demo_registry) demo_search_env (plain_client ''http://r'') demo_query 1 5 stub_io (new_token_manager 30)
     = (io', tm', [demo_hit ''b''], None)"
proof -
  have "\<forall>off io tm. off = 0 \<or> off < length [demo_hit ''a'', demo_hit ''b''] \<longrightarrow>
      (\<exists>io' tm'. search (stub_env demo_registry) demo_search_env (plain_client ''http://r'') demo_query (int 1) (if off = 0 then None else Some ''c'') io tm
         = (io', tm', Inr (storage_page (\<lambda>h. sh_ctx_id h = ''b'') (\<lambda>_. ''c'') [demo_hit ''a'', demo_hit ''b''] 1 off)))"
    using demo_search[of 0] demo_search[of 1] by (auto simp: less_Suc_eq)
  from search_all_complete[OF _ _ _ _ this, of 5 stub_io "new_token_manager 30"] show ?thesis by (simp add: demo_hit_def)
qed

subsection \<open>Paths and errors\<close>

text \<open>
  C21. A \<^verbatim>\<open>ctx_id\<close> is one path segment and survives the trip: the encoded text holds only unreserved
  characters and percent escapes (no slash, query or fragment), and decoding it gives back the id's
  bytes, so two ids never share a URL.
\<close>

theorem ctx_id_path_roundtrip:
  "unquote_bytes (encode_ctx s) = utf8_encode s \<and> (encode_ctx s = encode_ctx t \<longleftrightarrow> s = t)
   \<and> list_all (\<lambda>c. is_unreserved (ord c) \<or> c = CHR ''%'') (encode_ctx s)"
proof -
  have rt: "unquote_bytes (encode_ctx x) = utf8_encode x" for x
    unfolding encode_ctx_def by (rule unquote_url_quote) simp
  have "is_unreserved (ord c) \<or> c = CHR ''%''" if "c \<in> set (quote_byte [] b)" for c b
    using that unat_byte_less[of b] by (auto simp: quote_byte_def Let_def ord_char_of_unat upper_hex_unreserved split: if_splits)
  then have "list_all (\<lambda>c. is_unreserved (ord c) \<or> c = CHR ''%'') (encode_ctx s)"
    by (auto simp: encode_ctx_def url_quote_def list_all_iff)
  with rt show ?thesis by (metis utf8_encode_inj)
qed

text \<open>
  Refusals are typed. A 2xx never raises; any other answer raises an error that carries its status; 413 wins
  over any code in the body; for every other status the normative envelope's code alone decides the class, and its
  \<^verbatim>\<open>details.reason\<close> is what the error reports.
\<close>

theorem http_error_classified:
  "(raise_for_status ce rq r = Inr () \<longleftrightarrow> is_success r)
   \<and> (\<not> is_success r \<longrightarrow> raise_for_status ce rq r = Inl (AcdpHTTPError (build_http_error ce rq r)))
   \<and> he_status (build_http_error ce rq r) = status_code r
   \<and> (he_class (build_http_error ce rq r) = PayloadTooLargeError \<longleftrightarrow> status_code r = 413)
   \<and> (status_code r \<noteq> 413 \<longrightarrow> resp_json r = Some (JObj [(''error'', JObj [(''code'', JStr c), (''details'', JObj [(''reason'', JStr s)])])]) \<longrightarrow>
        he_class (build_http_error ce rq r) = error_class_of 0 (Some c) \<and> he_reason (build_http_error ce rq r) = Some s)
   \<and> (status_code r \<noteq> 413 \<longrightarrow> resp_json r = None \<longrightarrow> he_class (build_http_error ce rq r) = PlainHTTPError)"
  by (auto simp: raise_for_status_def build_http_error_def error_class_of_def he_reason_def parse_error_envelope_def
      obj_get_def dict_get_default_def py_or_def Let_def split: prod.splits option.splits)

theorem http_error_classified_witness:
  "he_reason (build_http_error demo_env (get_request ''u'' [] []) (json_answer 409 (JObj [(''error'',
      JObj [(''code'', JStr ''superseded_target''), (''details'', JObj [(''reason'', JStr ''not_found'')])])]))) = Some ''not_found''"
  using http_error_classified[of demo_env "get_request ''u'' [] []" "json_answer 409 (JObj [(''error'',
      JObj [(''code'', JStr ''superseded_target''), (''details'', JObj [(''reason'', JStr ''not_found'')])])])" "''superseded_target''" "''not_found''"]
  by simp

end
