(* ===== verification/Endpoints.thy ===== *)
theory Endpoints
  imports Client Config
begin

text \<open>
  playground/api/contexts.py and playground/api/health.py: the retrieval endpoint, which routes by the authority of
  the id and turns the client's errors into responses, and the readiness probe of both registries. The
  text of a binding error is a parameter.
\<close>

definition reason_text :: "binding_reason \<Rightarrow> string" where
  "reason_text r = (case r of Mismatch \<Rightarrow> ''mismatch'' | Malformed \<Rightarrow> ''malformed'' | Unverifiable \<Rightarrow> ''unverifiable'')"

definition context_authority :: "string \<Rightarrow> string" where
  "context_authority ctx_id = hd (py_split CHR ''/'' (py_removeprefix ctx_id ''acdp://''))"

definition context_error :: "(exn \<Rightarrow> string) \<Rightarrow> exn \<Rightarrow> exn" where
  "context_error msg e =
     (case e of
        AcdpHTTPError h \<Rightarrow> HTTPException (he_status h) (if he_body h = [] then ''registry error'' else he_body h)
      | CtxIdBindingError reason requested served \<Rightarrow>
          HTTPExceptionObj 502
            [(''code'', JStr ''context_binding_failed''), (''reason'', JStr (reason_text reason)),
             (''requested_ctx_id'', (case requested of Some x \<Rightarrow> JStr x | None \<Rightarrow> JNull)),
             (''served_ctx_id'', served), (''detail'', JStr (msg e))]
      | _ \<Rightarrow> e)"

definition get_context ::
  "'w env \<Rightarrow> client_env \<Rightarrow> (exn \<Rightarrow> string) \<Rightarrow> settings \<Rightarrow> string \<Rightarrow> ('w, full_context) call" where
  "get_context env ce msg s ctx_id io tm =
     (case registry_url_for s (context_authority ctx_id) of
        None \<Rightarrow> (io, tm, Inl (HTTPException 404 (''no registry mapped for authority: '' @ context_authority ctx_id)))
      | Some url \<Rightarrow>
          (case retrieve env ce (plain_client url) ctx_id io tm of
             (io', tm', Inl e) \<Rightarrow> (io', tm', Inl (context_error msg e))
           | (io', tm', Inr fc) \<Rightarrow> (io', tm', Inr fc)))"

record readiness =
  rd_ok :: bool
  rd_registry_a :: bool
  rd_registry_b :: bool

text \<open>The two pings of \<^verbatim>\<open>asyncio.gather\<close>, in the order they are started.\<close>

definition readyz :: "'w env \<Rightarrow> settings \<Rightarrow> ('w, readiness) call" where
  "readyz env s =
     abind (healthz env (plain_client (registry_a_url s))) (\<lambda>ok_a.
     abind (healthz env (plain_client (registry_b_url s))) (\<lambda>ok_b.
       areturn \<lparr>rd_ok = (ok_a \<and> ok_b), rd_registry_a = ok_a, rd_registry_b = ok_b\<rparr>))"

section \<open>Lemmas and properties\<close>

lemma anonymous_retrying:
  "retrying env ce (plain_client url) mk extra io tm = http_call env (mk (header_dict (plain_client url) None extra)) io tm"
proof -
  have "client_headers env ce (plain_client url) extra io tm = (io, tm, Inr (header_dict (plain_client url) None extra))"
    by (auto simp: client_headers_iff bearer_token_def plain_client_def nonempty_str_def managed_def)
  then show ?thesis
    by (auto simp: retrying_def abind_def http_call_def managed_def plain_client_def areturn_def split: prod.splits sum.splits)
qed

text \<open>A retrieval without credentials, as a function of the one answer it gets.\<close>

lemma anonymous_retrieve:
  assumes "http_send env io (get_request (context_url (plain_client url) ctx_id []) [] (header_dict (plain_client url) None [])) = (io', x)"
  shows "retrieve env ce (plain_client url) ctx_id io tm = (io', tm,
     rbind x (\<lambda>r. rbind (raise_for_status ce (get_request (context_url (plain_client url) ctx_id []) [] (header_dict (plain_client url) None [])) r) (\<lambda>_.
     rbind (json_of r) (\<lambda>j. rbind (check_each (bind_body ce (Some ctx_id)) (served_bodies j Envelope)) (\<lambda>_. validate_context ce j)))))"
proof -
  have "cl_verify_binding (plain_client url)" by (simp add: plain_client_def)
  with assms show ?thesis
    by (auto simp: retrieve_def get_full_context_def fetch_json_def anonymous_retrying http_call_def abind_def alift_def Let_def bind_served_ctx_id_def
        rbind_def split: sum.splits)
qed

text \<open>
  What the SDK documents of its binding check: a body or an id it cannot read raises \<^verbatim>\<open>ValueError\<close>, a substitution \<^verbatim>\<open>RuntimeError\<close>.
\<close>

definition binding_raises :: "client_env \<Rightarrow> bool" where
  "binding_raises ce \<longleftrightarrow> (\<forall>b x e. verify_ctx_id_binding ce b x = Inl e \<longrightarrow> is_ValueError e \<or> is_RuntimeError e)"

text \<open>The errors of the registry client are its own; httpx and pydantic raise others.\<close>

definition client_error :: "exn \<Rightarrow> bool" where
  "client_error e \<longleftrightarrow> (\<exists>h. e = AcdpHTTPError h) \<or> (\<exists>a b c. e = CtxIdBindingError a b c)"

text \<open>The 502 of a body that is not bound to the requested id.\<close>

definition binding_refused :: "string \<Rightarrow> string \<Rightarrow> json \<Rightarrow> full_context result \<Rightarrow> bool" where
  "binding_refused ctx_id reason served r \<longleftrightarrow> (\<exists>detail. r = Inl (HTTPExceptionObj 502
     [(''code'', JStr ''context_binding_failed''), (''reason'', JStr reason), (''requested_ctx_id'', JStr ctx_id),
      (''served_ctx_id'', served), (''detail'', JStr detail)]))"

definition body_verdict :: "client_env \<Rightarrow> string \<Rightarrow> json \<Rightarrow> (string \<times> json) option" where
  "body_verdict ce ctx_id b =
     (case b of
        JObj kvs \<Rightarrow>
          (case map_of kvs ''ctx_id'' of
             Some (JStr served) \<Rightarrow>
               (case verify_ctx_id_binding ce b ctx_id of
                  Inr _ \<Rightarrow> None
                | Inl e \<Rightarrow> Some (if is_ValueError e then ''malformed'' else ''mismatch'', JStr served))
           | _ \<Rightarrow> Some (''unverifiable'', JNull))
      | _ \<Rightarrow> Some (''unverifiable'', JNull))"

lemma bind_body_verdict:
  assumes "binding_raises ce"
  shows "case body_verdict ce ctx_id b of
      None \<Rightarrow> bind_body ce (Some ctx_id) b = Inr ()
    | Some (reason, served) \<Rightarrow> \<exists>x. bind_body ce (Some ctx_id) b = Inl (CtxIdBindingError x (Some ctx_id) served) \<and> reason = reason_text x"
proof -
  have "is_RuntimeError e" if "verify_ctx_id_binding ce b x = Inl e" "\<not> is_ValueError e" for b x e
    using assms that unfolding binding_raises_def by blast
  then show ?thesis
    by (auto simp: body_verdict_def bind_body_def obj_get_def dict_get_default_def reason_text_def split: json.splits option.splits sum.splits)
qed

text \<open>What the endpoint owes its caller for each answer of the registry.\<close>

definition endpoint_reply :: "client_env \<Rightarrow> string \<Rightarrow> response result \<Rightarrow> full_context result \<Rightarrow> bool" where
  "endpoint_reply ce ctx_id answer r \<longleftrightarrow>
     (case answer of
        Inl e \<Rightarrow> \<not> client_error e \<longrightarrow> r = Inl e
      | Inr resp \<Rightarrow>
          if \<not> is_success resp
          then r = Inl (HTTPException (status_code resp) (if resp_text resp = [] then ''registry error'' else resp_text resp))
          else (case resp_json resp of
             None \<Rightarrow> r = Inl JSONDecodeError
           | Some j \<Rightarrow>
               (case map (body_verdict ce ctx_id) (served_bodies j Envelope) of
                  Some (reason, served) # _ \<Rightarrow> binding_refused ctx_id reason served r
                | _ \<Rightarrow>
                    (case validate_context ce j of
                       Inl e \<Rightarrow> \<not> client_error e \<longrightarrow> r = Inl e
                     | Inr fc \<Rightarrow> r = Inr fc \<and> b_ctx_id (fc_body fc) = ctx_id))))"

lemma context_error_other: "\<not> client_error e \<Longrightarrow> context_error msg e = e"
  by (auto simp: client_error_def context_error_def split: exn.splits)

lemma context_error_http:
  "context_error msg (AcdpHTTPError h) = HTTPException (he_status h) (if he_body h = [] then ''registry error'' else he_body h)"
  and context_error_json: "context_error msg JSONDecodeError = JSONDecodeError"
  and context_error_binding: "context_error msg (CtxIdBindingError reason (Some requested) served) =
    HTTPExceptionObj 502 [(''code'', JStr ''context_binding_failed''), (''reason'', JStr (reason_text reason)),
      (''requested_ctx_id'', JStr requested), (''served_ctx_id'', served),
      (''detail'', JStr (msg (CtxIdBindingError reason (Some requested) served)))]"
  by (simp_all add: context_error_def)

lemma served_envelope: "served_bodies j Envelope = [] \<or> (\<exists>b. served_bodies j Envelope = [b])"
  by (auto simp: served_bodies_def envelope_bodies_def split: option.splits)

lemma endpoint_replies:
  assumes "faithful_validation ce" "faithful_binding ce" "binding_raises ce"
  shows "endpoint_reply ce ctx_id x
    (case rbind x (\<lambda>r. rbind (raise_for_status ce rq r) (\<lambda>_. rbind (json_of r) (\<lambda>j.
        rbind (check_each (bind_body ce (Some ctx_id)) (served_bodies j Envelope)) (\<lambda>_. validate_context ce j)))) of
       Inl e \<Rightarrow> Inl (context_error msg e) | Inr fc \<Rightarrow> Inr fc)"
proof (cases "\<exists>resp j. x = Inr resp \<and> is_success resp \<and> resp_json resp = Some j")
  case False
  then show ?thesis
    by (cases x) (auto simp: endpoint_reply_def context_error_other raise_for_status_def json_of_def context_error_http context_error_json build_http_error_def
        split: option.splits prod.splits)
next
  case True
  then obtain resp j where j: "x = Inr resp" "is_success resp" "resp_json resp = Some j" by blast
  have id: "b_ctx_id (fc_body fc) = ctx_id" if "validate_context ce j = Inr fc" "check_each (bind_body ce (Some ctx_id)) (served_bodies j Envelope) = Inr ()" for fc
    by (rule bound_context_id[OF assms(1,2) that(1)]) (use that(2) in \<open>simp add: check_each_Inr bind_body_Inr\<close>)
  have verdict: "case body_verdict ce ctx_id b of None \<Rightarrow> bind_body ce (Some ctx_id) b = Inr ()
      | Some (reason, served) \<Rightarrow> \<exists>y. bind_body ce (Some ctx_id) b = Inl (CtxIdBindingError y (Some ctx_id) served) \<and> reason = reason_text y" for b
    by (rule bind_body_verdict[OF assms(3)])
  from served_envelope[of j] show ?thesis
  proof
    assume "served_bodies j Envelope = []"
    with j id show ?thesis
      by (auto simp: endpoint_reply_def context_error_other raise_for_status_def json_of_def split: sum.splits)
  next
    assume "\<exists>b. served_bodies j Envelope = [b]"
    then obtain b where "served_bodies j Envelope = [b]" by blast
    with j id verdict[of b] show ?thesis
      by (cases "body_verdict ce ctx_id b") (auto simp: endpoint_reply_def context_error_other raise_for_status_def json_of_def binding_refused_def
          context_error_binding split: sum.splits)
  qed
qed

text \<open>
  C20. The retrieval endpoint never launders a context and says why. An authority it does not know is a 404 and nothing is sent. Otherwise
  exactly one anonymous GET for the encoded id goes to the registry that owns the authority, and its answer decides: a refusal keeps the registry's
  status and text; a body that is no object with a text id, that the SDK cannot read, or that the SDK finds to be another context, is a 502 with the code
  \<^verbatim>\<open>context_binding_failed\<close>, the reason \<^verbatim>\<open>unverifiable\<close>, \<^verbatim>\<open>malformed\<close> or \<^verbatim>\<open>mismatch\<close>, the id asked for and the id served; and what it
  returns is the validated context, whose id is the one asked for. A transport error, a body that is no JSON and a failed validation are not turned into
  responses: they leave the handler as they are.
\<close>

theorem context_endpoint_sound:
  assumes "get_context env ce msg s ctx_id io tm = (io', tm', r)" "faithful_validation ce" "faithful_binding ce" "binding_raises ce"
  shows "tm' = tm \<and> (case registry_url_for s (context_authority ctx_id) of
       None \<Rightarrow> io' = io \<and> r = Inl (HTTPException 404 (''no registry mapped for authority: '' @ context_authority ctx_id))
     | Some url \<Rightarrow> \<exists>answer. http_send env io (get_request (rstrip_char CHR ''/'' url @ ''/contexts/'' @ encode_ctx ctx_id) []
           (header_dict (plain_client url) None [])) = (io', answer) \<and> endpoint_reply ce ctx_id answer r)"
proof (cases "registry_url_for s (context_authority ctx_id)")
  case None
  with assms(1) show ?thesis by (auto simp: get_context_def)
next
  case (Some url)
  have url: "context_url (plain_client url) ctx_id [] = rstrip_char CHR ''/'' url @ ''/contexts/'' @ encode_ctx ctx_id"
    by (simp add: context_url_def plain_client_def)
  let ?rq = "get_request (rstrip_char CHR ''/'' url @ ''/contexts/'' @ encode_ctx ctx_id) [] (header_dict (plain_client url) None [])"
  obtain io1 x where x: "http_send env io ?rq = (io1, x)" by (metis prod.collapse)
  note ret = anonymous_retrieve[of env io url ctx_id io1 x ce tm, unfolded url, OF x]
  let ?got = "rbind x (\<lambda>r. rbind (raise_for_status ce ?rq r) (\<lambda>_. rbind (json_of r) (\<lambda>j.
      rbind (check_each (bind_body ce (Some ctx_id)) (served_bodies j Envelope)) (\<lambda>_. validate_context ce j))))"
  have r: "tm' = tm" "io' = io1" "r = (case ?got of Inl e \<Rightarrow> Inl (context_error msg e) | Inr fc \<Rightarrow> Inr fc)"
    using assms(1) Some ret by (auto simp: get_context_def split: sum.splits)
  have "endpoint_reply ce ctx_id x (case ?got of Inl e \<Rightarrow> Inl (context_error msg e) | Inr fc \<Rightarrow> Inr fc)"
    by (rule endpoint_replies[OF assms(2-4)])
  with r x Some show ?thesis by simp
qed

theorem context_endpoint_sound_witness:
  "snd (snd (get_context (stub_env (\<lambda>rq. Inr (json_answer 200 demo_answer))) demo_env2 (\<lambda>e. []) default_settings ''acdp://elsewhere/b''
      stub_io (new_token_manager 30))) = Inl (HTTPException 404 (''no registry mapped for authority: elsewhere''))
   \<and> binding_refused ''acdp://registry-a.playground.local/b'' ''mismatch'' (JStr ''acdp://a/b'')
      (snd (snd (get_context (stub_env (\<lambda>rq. Inr (json_answer 200 demo_answer))) demo_env2 (\<lambda>e. []) default_settings
         ''acdp://registry-a.playground.local/b'' stub_io (new_token_manager 30))))"
proof -
  let ?g = "get_context (stub_env (\<lambda>rq. Inr (json_answer 200 demo_answer))) demo_env2 (\<lambda>e. []) default_settings"
  have raises: "binding_raises demo_env2"
    unfolding binding_raises_def demo_env2_def demo_env_def by (auto split: option.splits if_splits)
  note sound = context_endpoint_sound[OF _ demo_faithful raises]
  obtain io1 tm1 r1 where g1: "?g ''acdp://elsewhere/b'' stub_io (new_token_manager 30) = (io1, tm1, r1)" by (metis prod.collapse)
  obtain io2 tm2 r2 where g2: "?g ''acdp://registry-a.playground.local/b'' stub_io (new_token_manager 30) = (io2, tm2, r2)" by (metis prod.collapse)
  have "registry_url_for default_settings (context_authority ''acdp://elsewhere/b'') = None"
    "context_authority ''acdp://elsewhere/b'' = ''elsewhere''"
    "registry_url_for default_settings (context_authority ''acdp://registry-a.playground.local/b'') \<noteq> None"
    by (simp_all add: registry_url_for_def default_settings_def context_authority_def py_removeprefix_def py_startswith_def)
  moreover have "map (body_verdict demo_env2 ''acdp://registry-a.playground.local/b'') (served_bodies demo_answer Envelope)
      = [Some (''mismatch'', JStr ''acdp://a/b'')]"
    by (simp add: body_verdict_def served_bodies_def envelope_bodies_def demo_answer_def demo_env2_def demo_env_def)
  ultimately show ?thesis using sound[OF g1] sound[OF g2] g1 g2 by (auto simp: endpoint_reply_def)
qed

text \<open>
  Readiness is the conjunction of the two registries' health: for a transport whose only error is httpx's, the
  probe always answers, sends one ping to each, and reports a registry as ready only when it answered with success.
\<close>

theorem readyz_reports_both:
  assumes "\<forall>w rq e. snd (transport env w rq) = Inl e \<longrightarrow> e = HTTPError"
  shows "\<exists>io' rd. readyz env s io tm = (io', tm, Inr rd) \<and> (rd_ok rd \<longleftrightarrow> rd_registry_a rd \<and> rd_registry_b rd)
    \<and> map rq_url (sent io') = map rq_url (sent io) @ [rstrip_char CHR ''/'' (registry_a_url s) @ ''/healthz'',
        rstrip_char CHR ''/'' (registry_b_url s) @ ''/healthz'']"
proof -
  have h: "\<exists>io' ok. healthz env (plain_client u) io tm = (io', tm, Inr ok)
      \<and> map rq_url (sent io') = map rq_url (sent io) @ [rstrip_char CHR ''/'' u @ ''/healthz'']" for u io
  proof -
    let ?rq = "get_request (cl_base (plain_client u) @ ''/healthz'') [] []"
    obtain io' x where x: "http_send env io ?rq = (io', x)" by (metis prod.collapse)
    have "x = Inl e \<Longrightarrow> e = HTTPError" for e
      using x assms by (auto simp: http_send_def split: prod.splits) (metis snd_conv)
    with x http_send_sent[OF x] show ?thesis
      by (cases x) (auto simp: healthz_def get_request_def plain_client_def)
  qed
  obtain io1 a where 1: "healthz env (plain_client (registry_a_url s)) io tm = (io1, tm, Inr a)"
    "map rq_url (sent io1) = map rq_url (sent io) @ [rstrip_char CHR ''/'' (registry_a_url s) @ ''/healthz'']" using h by metis
  obtain io2 b where 2: "healthz env (plain_client (registry_b_url s)) io1 tm = (io2, tm, Inr b)"
    "map rq_url (sent io2) = map rq_url (sent io1) @ [rstrip_char CHR ''/'' (registry_b_url s) @ ''/healthz'']" using h by metis
  from 1 2 show ?thesis by (simp add: readyz_def abind_def)
qed

end
