(* ===== verification/Pinned_Keys.thy ===== *)
theory Pinned_Keys
  imports Runtime "HOL-Library.Multiset"
begin

text \<open>
  playground/pinned\_keys.py and scripts/pinned\_keys\_diff.py: validity windows of pinned keys, and the
  translation between registry pins and the control plane's environment value, with its merge and diff. Reading the
  TOML files, the JSON rendering and the command line are not modelled.
\<close>

section \<open>Validity windows\<close>

record pinned_key =
  pk_agent_did :: string
  pk_public_key :: string
  pk_algorithm :: string
  pk_valid_from :: "int option"
  pk_valid_until :: "int option"

definition active_at :: "pinned_key \<Rightarrow> int \<Rightarrow> bool" where
  "active_at k now =
     (if (case pk_valid_from k of Some lo \<Rightarrow> now < lo | None \<Rightarrow> False) then False
      else \<not> (case pk_valid_until k of Some hi \<Rightarrow> now \<ge> hi | None \<Rightarrow> False))"

definition active_keys :: "pinned_key list \<Rightarrow> int \<Rightarrow> pinned_key list" where
  "active_keys keys now = filter (\<lambda>k. active_at k now) keys"

section \<open>The environment value\<close>

record pinned_entry =
  pe_agent_did :: string
  pe_public_key_b64 :: string
  pe_algorithm :: string
  pe_valid_from :: "int option"
  pe_valid_until :: "int option"

definition opt_int :: "int option \<Rightarrow> string" where
  "opt_int v = (case v of Some i \<Rightarrow> str_int i | None \<Rightarrow> [])"

definition to_env_token :: "pinned_entry \<Rightarrow> string" where
  "to_env_token e =
     (let has_window = (pe_valid_from e \<noteq> None \<or> pe_valid_until e \<noteq> None) in
      pe_agent_did e @ ''='' @ pe_public_key_b64 e
        @ (if pe_algorithm e \<noteq> ''ed25519'' \<or> has_window then '':'' @ pe_algorithm e else [])
        @ (if has_window then '':'' @ opt_int (pe_valid_from e) @ ''..'' @ opt_int (pe_valid_until e) else []))"

definition entry_identity :: "pinned_entry \<Rightarrow> string \<times> string \<times> int option \<times> int option" where
  "entry_identity e = (pe_public_key_b64 e, pe_algorithm e, pe_valid_from e, pe_valid_until e)"

definition to_env_value :: "pinned_entry list \<Rightarrow> string" where
  "to_env_value entries = py_join '','' (map to_env_token entries)"

definition int_or_none :: "string \<Rightarrow> int option result" where
  "int_or_none s = (if s = [] then Inr None else rbind (int_of_str s) (\<lambda>i. Inr (Some i)))"

text \<open>The segments after the key: a window when it holds two dots, an algorithm otherwise; the last of each wins.\<close>

fun parse_segs :: "string list \<Rightarrow> string \<times> int option \<times> int option \<Rightarrow> (string \<times> int option \<times> int option) result" where
  "parse_segs [] acc = Inr acc"
| "parse_segs (seg # segs) (algorithm, valid_from, valid_until) =
     (if py_contains ''..'' seg then
        (case py_partition ''..'' seg of
           (lo, _, hi) \<Rightarrow> rbind (int_or_none lo) (\<lambda>vf. rbind (int_or_none hi) (\<lambda>vu.
             parse_segs segs (algorithm, vf, vu))))
      else if seg \<noteq> [] then parse_segs segs (seg, valid_from, valid_until)
      else parse_segs segs (algorithm, valid_from, valid_until))"

definition parse_token :: "string \<Rightarrow> pinned_entry result" where
  "parse_token token =
     (if CHR ''='' \<notin> set token then Inl SystemExit
      else case py_partition ''='' token of
        (did, _, v) \<Rightarrow>
          (case py_split CHR '':'' (py_strip v) of
             [] \<Rightarrow> Inl IndexError
           | pub # segs \<Rightarrow>
               rbind (parse_segs segs (''ed25519'', None, None)) (\<lambda>(algorithm, valid_from, valid_until).
                 Inr \<lparr>pe_agent_did = py_strip did, pe_public_key_b64 = pub, pe_algorithm = algorithm,
                      pe_valid_from = valid_from, pe_valid_until = valid_until\<rparr>)))"

fun parse_tokens :: "string list \<Rightarrow> pinned_entry list result" where
  "parse_tokens [] = Inr []"
| "parse_tokens (t # ts) =
     (let token = py_strip t in
      if token = [] then parse_tokens ts
      else rbind (parse_token token) (\<lambda>e. rbind (parse_tokens ts) (\<lambda>es. Inr (e # es))))"

definition parse_env_value :: "string \<Rightarrow> pinned_entry list result" where
  "parse_env_value raw = parse_tokens (py_split CHR '','' raw)"

section \<open>Merging and comparing\<close>

definition merge_dedup :: "pinned_entry list list \<Rightarrow> pinned_entry list" where
  "merge_dedup entry_lists =
     sort_key pe_agent_did
       (map snd (fold (\<lambda>e out. AList.update (pe_agent_did e) e out) (concat entry_lists) []))"

definition entry_map :: "pinned_entry list \<Rightarrow> (string, pinned_entry) dict" where
  "entry_map entries = fold (\<lambda>e out. AList.update (pe_agent_did e) e out) entries []"

text \<open>
  The changed pairs come in the order of the set of common keys, which Python does not fix; here they are in the
  order of the current entries.
\<close>

definition diff_entries ::
  "pinned_entry list \<Rightarrow> pinned_entry list \<Rightarrow> pinned_entry list \<times> pinned_entry list \<times> (pinned_entry \<times> pinned_entry) list" where
  "diff_entries desired cur =
     (let cur_map = entry_map cur; des_map = entry_map desired in
      (filter (\<lambda>e. map_of cur_map (pe_agent_did e) = None) desired,
       filter (\<lambda>e. map_of des_map (pe_agent_did e) = None) cur,
       List.map_filter (\<lambda>(did, old). case map_of des_map did of
            Some new \<Rightarrow> if entry_identity old \<noteq> entry_identity new then Some (old, new) else None
          | None \<Rightarrow> None) cur_map))"

text \<open>The exit status of \<^verbatim>\<open>--diff\<close>.\<close>

definition diff_status :: "pinned_entry list list \<Rightarrow> string \<Rightarrow> int result" where
  "diff_status entry_lists current_raw =
     rbind (parse_env_value current_raw) (\<lambda>cur.
       case diff_entries (merge_dedup entry_lists) cur of
         (a, b, c) \<Rightarrow> Inr (if a = [] \<and> b = [] \<and> c = [] then 0 else 2))"

section \<open>Lemmas\<close>

lemma find_snoc: "find P (xs @ [y]) = (case find P xs of Some z \<Rightarrow> Some z | None \<Rightarrow> if P y then Some y else None)"
  by (induction xs) auto

lemma map_of_entry_fold:
  "map_of (fold (\<lambda>e out. AList.update (pe_agent_did e) e out) es d) did =
     (case find (\<lambda>e. pe_agent_did e = did) (rev es) of Some e \<Rightarrow> Some e | None \<Rightarrow> map_of d did)"
proof (induction es arbitrary: d)
  case (Cons e es)
  show ?case by (auto simp: Cons find_snoc split: option.splits)
qed simp

lemma map_of_entry_map: "map_of (entry_map es) did = find (\<lambda>e. pe_agent_did e = did) (rev es)"
  by (simp add: entry_map_def map_of_entry_fold split: option.splits)

lemma wf_entry_fold: "wf_dict d \<Longrightarrow> wf_dict (fold (\<lambda>e out. AList.update (pe_agent_did e) e out) es d)"
  by (induction es arbitrary: d) (auto simp: distinct_update)

lemma keys_entry_fold:
  "\<forall>(k, e) \<in> set d. pe_agent_did e = k \<Longrightarrow>
     \<forall>(k, e) \<in> set (fold (\<lambda>e out. AList.update (pe_agent_did e) e out) es d). pe_agent_did e = k"
proof (induction es arbitrary: d)
  case (Cons e es)
  have "\<forall>(k, x) \<in> set (AList.update (pe_agent_did e) e d). pe_agent_did x = k"
    using Cons.prems by (induction d) (auto split: if_splits)
  with Cons.IH show ?case by simp
qed simp

lemma entry_map_wf: "wf_dict (entry_map es)" "(k, e) \<in> set (entry_map es) \<Longrightarrow> pe_agent_did e = k"
  unfolding entry_map_def using wf_entry_fold[of "[]" es] keys_entry_fold[of "[]" es] by auto

lemma find_None_rev: "find P (rev xs) = None \<longleftrightarrow> (\<forall>x \<in> set xs. \<not> P x)"
  by (auto simp: find_None_iff)

subsection \<open>Reading back what was written\<close>

definition plain_text :: "string \<Rightarrow> bool" where
  "plain_text s \<longleftrightarrow> (\<forall>c \<in> set s. \<not> is_space_char c \<and> c \<noteq> CHR '','')"

definition wf_entry :: "pinned_entry \<Rightarrow> bool" where
  "wf_entry e \<longleftrightarrow> plain_text (pe_agent_did e) \<and> CHR ''='' \<notin> set (pe_agent_did e)
     \<and> plain_text (pe_public_key_b64 e) \<and> CHR '':'' \<notin> set (pe_public_key_b64 e)
     \<and> plain_text (pe_algorithm e) \<and> CHR '':'' \<notin> set (pe_algorithm e) \<and> pe_algorithm e \<noteq> []
     \<and> \<not> py_contains ''..'' (pe_algorithm e)"

lemma opt_int_chars: "c \<in> set (opt_int v) \<Longrightarrow> is_ascii_digit c \<or> c = CHR ''-''"
  by (auto simp: opt_int_def dest: str_int_chars split: option.splits)

lemma int_or_none_opt_int: "int_or_none (opt_int v) = Inr v"
  by (cases v) (auto simp: int_or_none_def opt_int_def int_of_str_str_int)

lemma py_partition_dots: "CHR ''.'' \<notin> set s \<Longrightarrow> py_partition ''..'' (s @ ''..'' @ t) = (s, True, t)"
  by (induction s) (auto simp: py_startswith_def)

lemma py_contains_dots: "py_contains ''..'' (s @ ''..'' @ t)"
  by (induction s) (auto simp: py_startswith_def)

definition env_segs :: "pinned_entry \<Rightarrow> string list" where
  "env_segs e =
     (let has_window = (pe_valid_from e \<noteq> None \<or> pe_valid_until e \<noteq> None) in
      (if pe_algorithm e \<noteq> ''ed25519'' \<or> has_window then [pe_algorithm e] else [])
      @ (if has_window then [opt_int (pe_valid_from e) @ ''..'' @ opt_int (pe_valid_until e)] else []))"

lemma to_env_token_join:
  "to_env_token e = pe_agent_did e @ CHR ''='' # py_join '':'' (pe_public_key_b64 e # env_segs e)"
  by (auto simp: to_env_token_def env_segs_def Let_def)

lemma plain_append: "plain_text (s @ t) \<longleftrightarrow> plain_text s \<and> plain_text t"
  and plain_Cons: "plain_text (c # t) \<longleftrightarrow> (\<not> is_space_char c \<and> c \<noteq> CHR '','') \<and> plain_text t"
  and plain_Nil: "plain_text []"
  by (auto simp: plain_text_def)

lemma separator_plain: "\<not> is_space_char CHR ''.''" "\<not> is_space_char CHR '':''" "\<not> is_space_char CHR ''=''"
  by (simp_all add: is_space_char_def)

lemmas plain_simps = plain_append plain_Cons plain_Nil separator_plain

lemma opt_int_plain: "c \<in> set (opt_int v) \<Longrightarrow> \<not> is_space_char c \<and> c \<noteq> CHR '','' \<and> c \<noteq> CHR '':'' \<and> c \<noteq> CHR ''.''"
  using opt_int_chars[of c v] is_ascii_digit_plain[of c] by (auto simp: is_space_char_def)

lemma plain_opt_int: "plain_text (opt_int v)"
  using opt_int_plain[of _ v] by (simp add: plain_text_def)

lemma env_segs_plain: "wf_entry e \<Longrightarrow> s \<in> set (pe_public_key_b64 e # env_segs e) \<Longrightarrow> plain_text s \<and> CHR '':'' \<notin> set s"
proof -
  assume e: "wf_entry e" and s: "s \<in> set (pe_public_key_b64 e # env_segs e)"
  have w: "plain_text (opt_int a @ ''..'' @ opt_int b) \<and> CHR '':'' \<notin> set (opt_int a @ ''..'' @ opt_int b)" for a b
    using opt_int_plain[of "CHR '':''" a] opt_int_plain[of "CHR '':''" b] by (auto simp: plain_simps plain_opt_int)
  from s have "s = pe_public_key_b64 e \<or> s = pe_algorithm e \<or> s = opt_int (pe_valid_from e) @ ''..'' @ opt_int (pe_valid_until e)"
    by (auto simp: env_segs_def Let_def split: if_splits)
  then show ?thesis using e w unfolding wf_entry_def by blast
qed

lemma parse_segs_env: "wf_entry e \<Longrightarrow>
    parse_segs (env_segs e) (''ed25519'', None, None) = Inr (pe_algorithm e, pe_valid_from e, pe_valid_until e)"
proof -
  assume e: "wf_entry e"
  have dots: "CHR ''.'' \<notin> set (opt_int v)" for v using opt_int_plain[of "CHR ''.''" v] by blast
  have w: "parse_segs [opt_int a @ ''..'' @ opt_int b] (alg, x, y) = Inr (alg, a, b)" for a b alg x y
    using py_partition_dots[OF dots, of a "opt_int b"] py_contains_dots[of "opt_int a" "opt_int b"]
    by (simp add: int_or_none_opt_int del: py_contains.simps py_partition.simps)
  have alg: "parse_segs (pe_algorithm e # segs) (''ed25519'', None, None) = parse_segs segs (pe_algorithm e, None, None)" for segs
    using e by (simp add: wf_entry_def)
  show ?thesis
  proof (cases "pe_valid_from e = None \<and> pe_valid_until e = None")
    case True
    then show ?thesis using alg[of "[]"] by (simp add: env_segs_def Let_def)
  next
    case False
    then have "env_segs e = [pe_algorithm e, opt_int (pe_valid_from e) @ ''..'' @ opt_int (pe_valid_until e)]"
      by (auto simp: env_segs_def Let_def)
    then show ?thesis by (simp only: alg w)
  qed
qed

lemma plain_join: "\<forall>s \<in> set ws. plain_text s \<Longrightarrow> plain_text (py_join '':'' ws)"
  by (induction ws rule: induct_list012) (simp_all add: plain_simps)

lemma parse_to_env_token:
  assumes "wf_entry e"
  shows "parse_token (to_env_token e) = Inr e \<and> plain_text (to_env_token e) \<and> to_env_token e \<noteq> []"
proof -
  let ?v = "py_join '':'' (pe_public_key_b64 e # env_segs e)"
  have pv: "plain_text ?v" using env_segs_plain[OF assms] by (intro plain_join) blast
  have pd: "plain_text (pe_agent_did e)" "CHR ''='' \<notin> set (pe_agent_did e)" using assms by (auto simp: wf_entry_def)
  have strip: "py_strip s = s" if "plain_text s" for s using that by (intro py_strip_nonspace) (simp add: plain_text_def)
  have sp: "py_split CHR '':'' ?v = pe_public_key_b64 e # env_segs e"
    by (rule py_split_join) (use env_segs_plain[OF assms] in \<open>simp_all\<close>)
  have "parse_token (to_env_token e) = Inr e" unfolding to_env_token_join
    by (simp add: parse_token_def py_partition_single[OF pd(2)] strip[OF pv] strip[OF pd(1)] sp parse_segs_env[OF assms] del: py_join.simps)
  moreover have "plain_text (to_env_token e)" unfolding to_env_token_join
    using pv pd by (simp add: plain_simps del: py_join.simps)
  ultimately show ?thesis by (simp add: to_env_token_join del: py_join.simps)
qed

lemma parse_tokens_map: "(\<And>e. e \<in> set es \<Longrightarrow> wf_entry e) \<Longrightarrow> parse_tokens (map to_env_token es) = Inr es"
proof (induction es)
  case (Cons e es)
  have "py_strip (to_env_token e) = to_env_token e"
    using parse_to_env_token[of e] Cons.prems by (intro py_strip_nonspace) (simp add: plain_text_def)
  with parse_to_env_token[of e] Cons show ?case by (simp add: Let_def)
qed simp

section \<open>Properties\<close>

text \<open>
  The environment value is a faithful transport: for entries whose parts hold no separator, parsing the
  rendered value gives back exactly the entries, algorithms and half-open windows included.
\<close>

theorem pinned_env_roundtrip:
  assumes "\<forall>e \<in> set es. wf_entry e"
  shows "parse_env_value (to_env_value es) = Inr es"
proof (cases es)
  case Nil
  then show ?thesis by (simp add: parse_env_value_def to_env_value_def py_strip_def py_lstrip_def py_rstrip_def)
next
  case (Cons e rest)
  have "py_split CHR '','' (to_env_value es) = map to_env_token es" unfolding to_env_value_def
  proof (rule py_split_join)
    show "CHR '','' \<notin> set w" if "w \<in> set (map to_env_token es)" for w
      using that assms parse_to_env_token by (auto simp: plain_text_def)
  qed (simp add: Cons)
  then show ?thesis using assms by (simp add: parse_env_value_def parse_tokens_map)
qed

theorem pinned_env_roundtrip_witness:
  "parse_env_value (to_env_value [\<lparr>pe_agent_did = ''did:web:a'', pe_public_key_b64 = ''AA=='', pe_algorithm = ''ed25519'',
      pe_valid_from = Some 5, pe_valid_until = None\<rparr>])
    = Inr [\<lparr>pe_agent_did = ''did:web:a'', pe_public_key_b64 = ''AA=='', pe_algorithm = ''ed25519'', pe_valid_from = Some 5, pe_valid_until = None\<rparr>]"
  by (rule pinned_env_roundtrip) (simp add: wf_entry_def plain_text_def is_space_char_def py_startswith_def)

lemma merge_dedup_entry_map: "merge_dedup ls = sort_key pe_agent_did (map snd (entry_map (concat ls)))"
  by (simp add: merge_dedup_def entry_map_def)

lemma map_fst_entry_map: "map pe_agent_did (map snd (entry_map es)) = map fst (entry_map es)"
  using entry_map_wf(2)[of _ _ es] by (auto simp: list.map_comp)

lemma find_unique:
  assumes "distinct (map f xs)" "x \<in> set xs" "f x = k"
  shows "find (\<lambda>e. f e = k) xs = Some x"
  using assms by (induction xs) (auto simp: image_iff)

lemma entry_map_find:
  assumes "distinct (map pe_agent_did xs)" "set xs = snd ` set (entry_map es)"
  shows "find (\<lambda>e. pe_agent_did e = did) xs = map_of (entry_map es) did"
proof (cases "map_of (entry_map es) did")
  case None
  then have no: "did \<notin> fst ` set (entry_map es)" by (simp add: map_of_eq_None_iff)
  have "pe_agent_did e \<noteq> did" if "e \<in> set xs" for e
  proof -
    from that assms(2) obtain k where k: "(k, e) \<in> set (entry_map es)" by auto
    with no have "k \<noteq> did" by force
    with entry_map_wf(2)[OF k] show ?thesis by simp
  qed
  with None show ?thesis by (auto simp: find_None_iff)
next
  case (Some e)
  then have "(did, e) \<in> set (entry_map es)" by (rule map_of_SomeD)
  then have "e \<in> set xs" "pe_agent_did e = did" using assms(2) entry_map_wf(2) by (force, blast)
  with Some find_unique[OF assms(1)] show ?thesis by simp
qed

lemma merge_dedup_distinct: "distinct (map pe_agent_did (merge_dedup ls))"
proof -
  have "mset (map pe_agent_did (merge_dedup ls)) = mset (map fst (entry_map (concat ls)))"
    by (simp only: merge_dedup_entry_map map_fst_entry_map[symmetric] mset_map mset_sort)
  then show ?thesis using entry_map_wf(1)[of "concat ls"] by (metis mset_eq_imp_distinct_iff)
qed

text \<open>
  Merging is deterministic: the result is sorted by agent, has one entry for each agent, and that entry is the last one
  given for the agent over all the files in order.
\<close>

theorem merge_last_wins:
  "sorted (map pe_agent_did (merge_dedup ls)) \<and> distinct (map pe_agent_did (merge_dedup ls))
   \<and> find (\<lambda>e. pe_agent_did e = did) (merge_dedup ls) = find (\<lambda>e. pe_agent_did e = did) (rev (concat ls))"
proof -
  have "set (merge_dedup ls) = snd ` set (entry_map (concat ls))" by (simp add: merge_dedup_entry_map)
  from entry_map_find[OF merge_dedup_distinct this] have "find (\<lambda>e. pe_agent_did e = did) (merge_dedup ls) = find (\<lambda>e. pe_agent_did e = did) (rev (concat ls))"
    by (simp only: map_of_entry_map)
  moreover have "sorted (map pe_agent_did (merge_dedup ls))" by (simp add: merge_dedup_entry_map)
  ultimately show ?thesis using merge_dedup_distinct by blast
qed

lemma identity_eq: "pe_agent_did a = pe_agent_did b \<Longrightarrow> entry_identity a = entry_identity b \<longleftrightarrow> a = b" for a b :: pinned_entry
  by (auto simp: entry_identity_def intro: pinned_entry.equality)

lemma diff_changed_empty:
  assumes "\<forall>(k, e) \<in> set d. pe_agent_did e = k"
  shows "List.map_filter (\<lambda>(did, old). case map_of (entry_map es) did of
            Some new \<Rightarrow> if entry_identity old \<noteq> entry_identity new then Some (old, new) else None
          | None \<Rightarrow> None) d = [] \<longleftrightarrow> (\<forall>(k, e) \<in> set d. \<forall>new. map_of (entry_map es) k = Some new \<longrightarrow> e = new)"
  using assms
proof (induction d)
  case (Cons ke d)
  obtain k e where ke: "ke = (k, e)" by (cases ke)
  have "pe_agent_did new = k" if "map_of (entry_map es) k = Some new" for new
    using that entry_map_wf(2) by (blast dest: map_of_SomeD)
  with Cons ke identity_eq[of e] show ?case by (auto simp: map_filter_simps split: option.splits)
qed (simp add: map_filter_simps)

lemma dom_entry_map: "dom (map_of (entry_map es)) = pe_agent_did ` set es"
proof -
  have "map_of (entry_map es) did = None \<longleftrightarrow> did \<notin> pe_agent_did ` set es" for did
    unfolding map_of_entry_map find_None_rev by auto
  then show ?thesis by (auto simp: dom_def)
qed

lemma diff_entries_empty: "diff_entries des cur = ([], [], []) \<longleftrightarrow> map_of (entry_map des) = map_of (entry_map cur)"
proof -
  have keys: "\<forall>(k, e) \<in> set (entry_map cur). pe_agent_did e = k" using entry_map_wf(2) by blast
  have 1: "filter (\<lambda>e. map_of (entry_map b) (pe_agent_did e) = None) a = [] \<longleftrightarrow> dom (map_of (entry_map a)) \<subseteq> dom (map_of (entry_map b))" for a b
    unfolding dom_entry_map[of a] by (auto simp: filter_empty_conv domIff)
  have 3: "(\<forall>(k, e) \<in> set (entry_map cur). \<forall>new. map_of (entry_map des) k = Some new \<longrightarrow> e = new)
      \<longleftrightarrow> (\<forall>k e new. map_of (entry_map cur) k = Some e \<longrightarrow> map_of (entry_map des) k = Some new \<longrightarrow> e = new)"
    using entry_map_wf(1)[of cur] by (auto simp: map_of_eq_Some_iff)
  have ext: "a = b \<longleftrightarrow> dom a \<subseteq> dom b \<and> dom b \<subseteq> dom a \<and> (\<forall>k x y. b k = Some x \<longrightarrow> a k = Some y \<longrightarrow> x = y)"
    for a b :: "string \<Rightarrow> pinned_entry option"
  proof
    assume r: "dom a \<subseteq> dom b \<and> dom b \<subseteq> dom a \<and> (\<forall>k x y. b k = Some x \<longrightarrow> a k = Some y \<longrightarrow> x = y)"
    show "a = b"
    proof
      fix k
      show "a k = b k" using r by (cases "a k"; cases "b k") (auto simp: dom_def subset_iff)
    qed
  qed auto
  show ?thesis unfolding diff_entries_def Let_def using diff_changed_empty[OF keys, of des] 1[of cur des] 1[of des cur] 3 ext
    by simp
qed

text \<open>
  The diff reports exactly the differences: it exits 0 when the parsed environment value and the merged
  registry pins hold the same entry for every agent, and 2 otherwise.
\<close>

theorem pinned_diff_exact:
  assumes "parse_env_value raw = Inr cur"
  shows "diff_status ls raw = Inr (if (\<forall>did. find (\<lambda>e. pe_agent_did e = did) (rev (merge_dedup ls)) = find (\<lambda>e. pe_agent_did e = did) (rev cur))
    then 0 else 2)"
proof -
  obtain a b c where d: "diff_entries (merge_dedup ls) cur = (a, b, c)" by (metis prod_cases3)
  have "(a = [] \<and> b = [] \<and> c = []) \<longleftrightarrow> map_of (entry_map (merge_dedup ls)) = map_of (entry_map cur)"
    using diff_entries_empty[of "merge_dedup ls" cur] d by simp
  then have "(a = [] \<and> b = [] \<and> c = []) \<longleftrightarrow> (\<forall>did. find (\<lambda>e. pe_agent_did e = did) (rev (merge_dedup ls)) = find (\<lambda>e. pe_agent_did e = did) (rev cur))"
    by (simp add: fun_eq_iff map_of_entry_map)
  with assms d show ?thesis by (simp add: diff_status_def)
qed

definition pin :: "string \<Rightarrow> int option \<Rightarrow> int option \<Rightarrow> pinned_entry" where
  "pin key lo hi = \<lparr>pe_agent_did = ''did:web:a'', pe_public_key_b64 = key, pe_algorithm = ''ed25519'', pe_valid_from = lo, pe_valid_until = hi\<rparr>"

theorem pinned_diff_exact_witness: "diff_status [[pin ''K'' None None]] ''did:web:a=K'' = Inr 0"
proof -
  have "parse_env_value ''did:web:a=K'' = Inr [pin ''K'' None None]" by code_simp
  from pinned_diff_exact[OF this, of "[[pin ''K'' None None]]"] show ?thesis
    by (simp add: merge_dedup_def)
qed

text \<open>
  A key is active from its first second to just before its last: the windows of an outgoing and an incoming key
  that meet leave no gap and no overlap, and overlapping windows make both active.
\<close>

theorem active_window_half_open:
  "active_at k now \<longleftrightarrow> (\<forall>lo. pk_valid_from k = Some lo \<longrightarrow> lo \<le> now) \<and> (\<forall>hi. pk_valid_until k = Some hi \<longrightarrow> now < hi)"
  by (auto simp: active_at_def split: option.splits)

text \<open>
  Merging keeps one entry for each agent, so of two keys of one agent whose windows overlap for a rotation only the
  later one reaches the control plane.
\<close>

theorem merge_drops_rotation:
  "merge_dedup [[pin ''OLD'' None (Some 20), pin ''NEW'' (Some 10) None]] = [pin ''NEW'' (Some 10) None]"
  by (simp add: merge_dedup_def pin_def)

end
