(* ===== verification/Conformance.thy ===== *)
theory Conformance
  imports Client Config
begin

text \<open>
  playground/conformance.py: the probes that drive a live registry and control plane, one externally visible
  contract each. A probe sends requests and either passes, is skipped because the registry does not advertise
  the profile, or raises; the one-line summaries are left out.

  The signed publish requests and the lifecycle event are built by the SDK from fixed seeds and fields: they are
  parameters (\<open>conf_env\<close>), and so are the header names httpx puts on the wire and the text of a value that
  is no string.
\<close>

section \<open>Probes: state and exceptions\<close>

type_synonym ('w, 'a) probe = "'w io \<Rightarrow> 'w io \<times> 'a result"

definition pbind :: "('w, 'a) probe \<Rightarrow> ('a \<Rightarrow> ('w, 'b) probe) \<Rightarrow> ('w, 'b) probe" where
  "pbind m f io = (case m io of (io', Inl e) \<Rightarrow> (io', Inl e) | (io', Inr a) \<Rightarrow> f a io')"

definition plift :: "'a result \<Rightarrow> ('w, 'a) probe" where
  "plift r io = (io, r)"

text \<open>\<^verbatim>\<open>assert\<close>.\<close>

definition passert :: "bool \<Rightarrow> ('w, unit) probe" where
  "passert b io = (io, if b then Inr () else Inl AssertionError)"

definition psend :: "'w env \<Rightarrow> request \<Rightarrow> ('w, response) probe" where
  "psend env rq io = http_send env io rq"

datatype verdict = Passed | Skipped

datatype request_kind = Media_Type | Interim_Revocation | Anchor_Version | Self_Signed_Revocation | Probe_Context

record conf_env =
  build_request :: "request_kind \<Rightarrow> string result"
  signed_event :: "string \<Rightarrow> string \<Rightarrow> string result"
  wire_header_names :: "request \<Rightarrow> string list"
  py_str :: "json \<Rightarrow> string"

section \<open>Reading answers the way Python does\<close>

text \<open>\<^verbatim>\<open>x.get(k, d)\<close>, \<^verbatim>\<open>k in x\<close>, \<^verbatim>\<open>isinstance(x, int)\<close>, \<^verbatim>\<open>==\<close> and \<^verbatim>\<open>>=\<close> on decoded values. Booleans are integers and numbers
  compare by value; other values are compared as they are.\<close>

definition json_get :: "json \<Rightarrow> string \<Rightarrow> json \<Rightarrow> json result" where
  "json_get j k d = (case as_obj j of Some kvs \<Rightarrow> Inr (dict_get_default kvs k d) | None \<Rightarrow> Inl AttributeError)"

fun json_has :: "json \<Rightarrow> string \<Rightarrow> bool result" where
  "json_has (JObj kvs) k = Inr (map_of kvs k \<noteq> None)"
| "json_has (JList xs) k = Inr (JStr k \<in> set xs)"
| "json_has (JStr s) k = Inr (py_contains k s)"
| "json_has _ k = Inl TypeError"

fun as_int :: "json \<Rightarrow> int option" where
  "as_int (JInt i) = Some i"
| "as_int (JBool b) = Some (if b then 1 else 0)"
| "as_int _ = None"

fun num_of :: "json \<Rightarrow> rat option" where
  "num_of (JFloat (Fin q)) = Some q"
| "num_of j = map_option of_int (as_int j)"

definition py_eq :: "json \<Rightarrow> json \<Rightarrow> bool" where
  "py_eq a b = (case (num_of a, num_of b) of (Some x, Some y) \<Rightarrow> x = y | _ \<Rightarrow> a = b)"

definition py_ge :: "json \<Rightarrow> json \<Rightarrow> bool result" where
  "py_ge a b =
     (case (num_of a, num_of b) of
        (Some x, Some y) \<Rightarrow> Inr (y \<le> x)
      | (None, Some y) \<Rightarrow> (case a of JFloat f \<Rightarrow> Inr (f = PosInf) | _ \<Rightarrow> Inl TypeError)
      | _ \<Rightarrow> Inl TypeError)"

section \<open>Versions\<close>

definition version_group :: "string \<Rightarrow> nat option" where
  "version_group s =
     (if s = ''0'' then Some 0
      else if s \<noteq> [] \<and> length s \<le> 6 \<and> list_all is_ascii_digit s \<and> hd s \<noteq> CHR ''0'' then Some (digits_value s 0)
      else None)"

type_synonym version = "nat \<times> nat \<times> nat"

definition parse_acdp_version :: "json \<Rightarrow> version option" where
  "parse_acdp_version raw =
     (case as_str raw of
        None \<Rightarrow> None
      | Some s \<Rightarrow>
          (case py_split CHR ''.'' s of
             [a, b, c] \<Rightarrow>
               (case (version_group a, version_group b, version_group c) of
                  (Some x, Some y, Some z) \<Rightarrow> Some (x, y, z) | _ \<Rightarrow> None)
           | _ \<Rightarrow> None))"

definition version_less :: "version \<Rightarrow> version \<Rightarrow> bool" where
  "version_less v w = (case (v, w) of ((a, b, c), (x, y, z)) \<Rightarrow> a < x \<or> a = x \<and> (b < y \<or> b = y \<and> c < z))"

definition MIN_ACDP_VERSION :: version where "MIN_ACDP_VERSION = (0, 2, 0)"
definition ANCHORS_AND_RETIREMENT_VERSION :: version where "ANCHORS_AND_RETIREMENT_VERSION = (0, 5, 0)"

section \<open>Targets and envelopes\<close>

record live_config =
  lc_registry_url :: string
  lc_receipts_registry_url :: string
  lc_control_plane_url :: string
  lc_admin_token :: string
  lc_api_key :: string

text \<open>\<open>getenv\<close> is \<^verbatim>\<open>os.environ.get\<close>.\<close>

definition from_settings :: "(string \<Rightarrow> string option) \<Rightarrow> settings \<Rightarrow> live_config" where
  "from_settings getenv s =
     (let admin = (if control_plane_admin_token s \<noteq> [] then control_plane_admin_token s
                   else case getenv ''CONTROL_PLANE_ADMIN_TOKEN'' of Some t \<Rightarrow> t | None \<Rightarrow> ''playground-cp-admin'');
          api_key = (case getenv ''CONTROL_PLANE_API_KEY'' of Some t \<Rightarrow> t | None \<Rightarrow> admin)
      in \<lparr>lc_registry_url = rstrip_char CHR ''/'' (registry_a_url s),
          lc_receipts_registry_url = rstrip_char CHR ''/'' (registry_a_url s),
          lc_control_plane_url = rstrip_char CHR ''/''
            (if control_plane_url s \<noteq> [] then control_plane_url s else ''http://localhost:3001''),
          lc_admin_token = admin, lc_api_key = api_key\<rparr>)"

definition PROBE_CTX_ID :: string where
  "PROBE_CTX_ID = ''acdp://registry-a.playground.local/00000000-0000-4000-8000-0000000000ff''"

definition RECEIPTS_PROBE_CTX_ID :: string where
  "RECEIPTS_PROBE_CTX_ID = ''acdp://registry-a.playground.local/00000000-0000-4000-8000-0000000000fe''"

definition LIFECYCLE_PROFILE :: string where "LIFECYCLE_PROFILE = ''acdp-registry-lifecycle''"
definition HEAD_RECEIPTS_PROFILE :: string where "HEAD_RECEIPTS_PROFILE = ''acdp-registry-head-receipts''"
definition LOG_PROFILE :: string where "LOG_PROFILE = ''acdp-registry-transparency-log''"

definition probe_envelope :: "response \<Rightarrow> string option \<times> string" where
  "probe_envelope r =
     (case resp_json r of
        None \<Rightarrow> (None, [])
      | Some j \<Rightarrow> (case parse_error_envelope j of (code, msg, details) \<Rightarrow> (code, msg)))"

definition envelope_code :: "response \<Rightarrow> string option" where
  "envelope_code r = fst (probe_envelope r)"

definition acdp_content_type :: "response \<Rightarrow> bool" where
  "acdp_content_type r \<longleftrightarrow>
     py_contains ''application/acdp+json'' (case resp_header r ''content-type'' of Some c \<Rightarrow> c | None \<Rightarrow> [])"

definition probe_get :: "'w env \<Rightarrow> string \<Rightarrow> (string, string) dict \<Rightarrow> ('w, response) probe" where
  "probe_get env url h = psend env (get_request url [] h)"

section \<open>Registry probes\<close>

definition probe_reserved_tenant_400 :: "'w env \<Rightarrow> live_config \<Rightarrow> ('w, verdict) probe" where
  "probe_reserved_tenant_400 env cfg =
     pbind (probe_get env (lc_registry_url cfg @ ''/contexts/'' @ encode_ctx PROBE_CTX_ID) [(''X-Tenant-Id'', ''default'')]) (\<lambda>r.
     pbind (passert (status_code r = 400)) (\<lambda>_.
     pbind (passert (envelope_code r = Some ''schema_violation'')) (\<lambda>_. plift (Inr Passed))))"

definition probe_error_envelope_content_type :: "'w env \<Rightarrow> live_config \<Rightarrow> ('w, verdict) probe" where
  "probe_error_envelope_content_type env cfg =
     pbind (probe_get env (lc_registry_url cfg @ ''/contexts/'' @ encode_ctx PROBE_CTX_ID) []) (\<lambda>r.
     pbind (passert (status_code r = 404)) (\<lambda>_.
     pbind (passert (acdp_content_type r)) (\<lambda>_.
     pbind (passert (nonempty_str (envelope_code r) \<noteq> None)) (\<lambda>_. plift (Inr Passed)))))"

definition capabilities :: "'w env \<Rightarrow> string \<Rightarrow> ('w, json) probe" where
  "capabilities env base =
     pbind (probe_get env (base @ ''/.well-known/acdp.json'') []) (\<lambda>r.
     pbind (passert (status_code r = 200)) (\<lambda>_. plift (json_of r)))"

definition probe_receipts_profile_advertised :: "'w env \<Rightarrow> live_config \<Rightarrow> ('w, verdict) probe" where
  "probe_receipts_profile_advertised env cfg =
     pbind (capabilities env (lc_receipts_registry_url cfg)) (\<lambda>body.
     pbind (plift (json_get body ''profiles'' (JList []))) (\<lambda>profiles.
     pbind (passert (as_list profiles \<noteq> None)) (\<lambda>_.
     pbind (passert (JStr ''acdp-registry-receipts'' \<in> set (case as_list profiles of Some xs \<Rightarrow> xs | None \<Rightarrow> []))) (\<lambda>_.
     pbind (plift (json_get body ''acdp_version'' JNull)) (\<lambda>raw.
     pbind (passert (parse_acdp_version raw \<noteq> None)) (\<lambda>_.
     pbind (passert (\<not> version_less (the (parse_acdp_version raw)) MIN_ACDP_VERSION)) (\<lambda>_. plift (Inr Passed))))))))"

definition probe_did_key_method_advertised :: "'w env \<Rightarrow> live_config \<Rightarrow> ('w, verdict) probe" where
  "probe_did_key_method_advertised env cfg =
     pbind (capabilities env (lc_receipts_registry_url cfg)) (\<lambda>body.
     pbind (plift (json_get body ''supported_did_methods'' (JList []))) (\<lambda>methods.
     pbind (passert (as_list methods \<noteq> None)) (\<lambda>_.
     pbind (passert (JStr ''did:key'' \<in> set (case as_list methods of Some xs \<Rightarrow> xs | None \<Rightarrow> []))) (\<lambda>_. plift (Inr Passed)))))"

definition post_bytes :: "string \<Rightarrow> bytes \<Rightarrow> (string, string) dict \<Rightarrow> request" where
  "post_bytes url content h =
     \<lparr>rq_method = ''POST'', rq_url = url, rq_headers = h, rq_params = [], rq_body = Content content\<rparr>"

definition probe_ingest_body_limit_413 :: "'w env \<Rightarrow> live_config \<Rightarrow> ('w, verdict) probe" where
  "probe_ingest_body_limit_413 env cfg =
     pbind (psend env (post_bytes (lc_registry_url cfg @ ''/contexts'')
        (utf8_encode ([CHR ''{'', CHR 0x22, CHR ''x'', CHR 0x22, CHR '':'', CHR 0x22]) @ replicate (1048576 + 1) 97
           @ utf8_encode [CHR 0x22, CHR ''}'']) [(''Content-Type'', ''application/json'')])) (\<lambda>r.
     pbind (passert (status_code r = 413)) (\<lambda>_. plift (Inr Passed)))"

definition accepted :: "response \<Rightarrow> bool" where
  "accepted r \<longleftrightarrow> status_code r = 200 \<or> status_code r = 201"

text \<open>The probe context; its ids come back as the decoded values they are.\<close>

definition publish_probe_context :: "'w env \<Rightarrow> conf_env \<Rightarrow> string \<Rightarrow> ('w, json \<times> json) probe" where
  "publish_probe_context env cf base =
     pbind (plift (build_request cf Probe_Context)) (\<lambda>raw.
     pbind (psend env (content_post (base @ ''/contexts'') raw
        [(''Content-Type'', ''application/json''),
         (''Idempotency-Key'', ''acdp-playground-conformance-probe-context:'' @ base)])) (\<lambda>r.
     pbind (passert (accepted r)) (\<lambda>_.
     pbind (plift (json_of r)) (\<lambda>body.
     pbind (plift (json_index body ''ctx_id'')) (\<lambda>ctx_id.
     pbind (plift (json_index body ''lineage_id'')) (\<lambda>lineage_id. plift (Inr (ctx_id, lineage_id))))))))"

text \<open>\<^verbatim>\<open>_encode\<close>: \<^verbatim>\<open>quote\<close> of something that is no string raises TypeError.\<close>

definition probe_encode :: "json \<Rightarrow> string result" where
  "probe_encode j = (case as_str j of Some s \<Rightarrow> Inr (encode_ctx s) | None \<Rightarrow> Inl TypeError)"

definition probe_served_ctx_id_binding :: "'w env \<Rightarrow> conf_env \<Rightarrow> live_config \<Rightarrow> ('w, verdict) probe" where
  "probe_served_ctx_id_binding env cf cfg =
     pbind (publish_probe_context env cf (lc_registry_url cfg)) (\<lambda>(ctx_id, _).
     pbind (plift (probe_encode ctx_id)) (\<lambda>encoded.
     pbind (probe_get env (lc_registry_url cfg @ ''/contexts/'' @ encoded) []) (\<lambda>r.
     pbind (passert (status_code r = 200)) (\<lambda>_.
     pbind (plift (rbind (json_of r) (\<lambda>j. json_get j ''body'' JNull))) (\<lambda>body.
     pbind (passert (as_obj body \<noteq> None)) (\<lambda>_.
     pbind (plift (json_get body ''ctx_id'' JNull)) (\<lambda>served.
     pbind (passert (py_eq served ctx_id)) (\<lambda>_.
     pbind (probe_get env (lc_registry_url cfg @ ''/contexts/'' @ encoded @ ''/body'') []) (\<lambda>rb.
     pbind (passert (status_code rb = 200)) (\<lambda>_.
     pbind (plift (json_of rb)) (\<lambda>bare.
     pbind (passert (as_obj bare \<noteq> None)) (\<lambda>_.
     pbind (plift (json_get bare ''ctx_id'' JNull)) (\<lambda>served_bare.
     pbind (passert (py_eq served_bare ctx_id)) (\<lambda>_. plift (Inr Passed)))))))))))))))"

definition advertised_acdp_version :: "'w env \<Rightarrow> string \<Rightarrow> ('w, version) probe" where
  "advertised_acdp_version env base =
     pbind (capabilities env base) (\<lambda>body.
     pbind (plift (json_get body ''acdp_version'' JNull)) (\<lambda>raw.
     pbind (passert (parse_acdp_version raw \<noteq> None)) (\<lambda>_. plift (Inr (the (parse_acdp_version raw))))))"

definition published_id :: "response \<Rightarrow> ('w, unit) probe" where
  "published_id r =
     pbind (plift (rbind (json_of r) (\<lambda>j. json_get j ''ctx_id'' JNull))) (\<lambda>c. passert (truthy c))"

definition probe_media_type_gate :: "'w env \<Rightarrow> conf_env \<Rightarrow> live_config \<Rightarrow> ('w, verdict) probe" where
  "probe_media_type_gate env cf cfg =
     (let url = lc_registry_url cfg @ ''/contexts'';
          absent_headers = [(''Idempotency-Key'', ''acdp-playground-conformance-media-type-gate:absent'')] in
     pbind (plift (build_request cf Media_Type)) (\<lambda>raw.
     pbind (psend env (content_post url raw [(''Content-Type'', ''text/plain'')])) (\<lambda>refused.
     pbind (passert (status_code refused = 415)) (\<lambda>_.
     pbind (passert (acdp_content_type refused)) (\<lambda>_.
     pbind (passert (envelope_code refused = Some ''unsupported_media_type'')) (\<lambda>_.
     pbind (psend env (content_post url raw
        [(''Idempotency-Key'', ''acdp-playground-conformance-media-type-gate:charset''),
         (''Content-Type'', ''application/json; charset=utf-8'')])) (\<lambda>charset.
     pbind (passert (accepted charset)) (\<lambda>_.
     pbind (published_id charset) (\<lambda>_.
     pbind (psend env (content_post url raw absent_headers)) (\<lambda>absent.
     pbind (passert (''content-type'' \<notin> set (map py_lower (wire_header_names cf (content_post url raw absent_headers))))) (\<lambda>_.
     pbind (passert (accepted absent)) (\<lambda>_.
     pbind (published_id absent) (\<lambda>_. plift (Inr Passed))))))))))))))"

text \<open>What the three rejection probes assert of a refusal: status, envelope type, code, and words of the message.\<close>

definition assert_refusal :: "int \<Rightarrow> string \<Rightarrow> string list \<Rightarrow> response \<Rightarrow> ('w, unit) probe" where
  "assert_refusal status code needles r =
     pbind (passert (status_code r = status)) (\<lambda>_.
     pbind (passert (acdp_content_type r)) (\<lambda>_.
     pbind (passert (fst (probe_envelope r) = Some code)) (\<lambda>_.
     passert (list_all (\<lambda>n. py_contains n (snd (probe_envelope r))) needles))))"

definition probe_interim_revocation_type_rejected :: "'w env \<Rightarrow> conf_env \<Rightarrow> live_config \<Rightarrow> ('w, verdict) probe" where
  "probe_interim_revocation_type_rejected env cf cfg =
     pbind (advertised_acdp_version env (lc_registry_url cfg)) (\<lambda>version.
     if version_less version ANCHORS_AND_RETIREMENT_VERSION then plift (Inr Skipped)
     else pbind (plift (build_request cf Interim_Revocation)) (\<lambda>raw.
          pbind (psend env (content_post (lc_registry_url cfg @ ''/contexts'') raw [(''Content-Type'', ''application/json'')])) (\<lambda>r.
          pbind (assert_refusal 400 ''schema_violation'' [''acdp:key-revocation''] r) (\<lambda>_. plift (Inr Passed)))))"

definition probe_anchors_require_0_5_0 :: "'w env \<Rightarrow> conf_env \<Rightarrow> live_config \<Rightarrow> ('w, verdict) probe" where
  "probe_anchors_require_0_5_0 env cf cfg =
     pbind (plift (build_request cf Anchor_Version)) (\<lambda>raw.
     pbind (psend env (content_post (lc_registry_url cfg @ ''/contexts'') raw [(''Content-Type'', ''application/json'')])) (\<lambda>r.
     pbind (assert_refusal 400 ''schema_violation'' [''anchors'', ''0.5.0''] r) (\<lambda>_. plift (Inr Passed))))"

definition probe_key_revocation_self_sign_rejected :: "'w env \<Rightarrow> conf_env \<Rightarrow> live_config \<Rightarrow> ('w, verdict) probe" where
  "probe_key_revocation_self_sign_rejected env cf cfg =
     pbind (advertised_acdp_version env (lc_registry_url cfg)) (\<lambda>version.
     if version_less version (0, 3, 0) then plift (Inr Skipped)
     else pbind (plift (build_request cf Self_Signed_Revocation)) (\<lambda>raw.
          pbind (psend env (content_post (lc_registry_url cfg @ ''/contexts'') raw [(''Content-Type'', ''application/json'')])) (\<lambda>r.
          pbind (assert_refusal 403 ''key_not_authorized'' [''signed by that same key''] r) (\<lambda>_. plift (Inr Passed)))))"

section \<open>Endpoint probes of the 0.3.0 profiles\<close>

definition advertises :: "'w env \<Rightarrow> string \<Rightarrow> string \<Rightarrow> ('w, bool) probe" where
  "advertises env base profile =
     pbind (capabilities env base) (\<lambda>body.
     pbind (plift (json_get body ''profiles'' JNull)) (\<lambda>p.
     pbind (passert (as_list (py_or p (JList [])) \<noteq> None)) (\<lambda>_.
     plift (Inr (JStr profile \<in> set (case as_list (py_or p (JList [])) of Some xs \<Rightarrow> xs | None \<Rightarrow> []))))))"

text \<open>A signature block: \<^verbatim>\<open>sig.get\<close> of algorithm, key id and value.\<close>

definition assert_signature :: "json \<Rightarrow> ('w, unit) probe" where
  "assert_signature holder =
     pbind (plift (json_get holder ''signature'' JNull)) (\<lambda>s.
     pbind (plift (json_get (py_or s (JObj [])) ''algorithm'' JNull)) (\<lambda>alg.
     pbind (passert (alg = JStr ''ed25519'')) (\<lambda>_.
     pbind (plift (json_get (py_or s (JObj [])) ''key_id'' JNull)) (\<lambda>key_id.
     pbind (plift (json_get (py_or s (JObj [])) ''value'' JNull)) (\<lambda>v. passert (truthy key_id \<and> truthy v))))))"

definition probe_log_checkpoint_signed :: "'w env \<Rightarrow> live_config \<Rightarrow> ('w, verdict) probe" where
  "probe_log_checkpoint_signed env cfg =
     pbind (advertises env (lc_receipts_registry_url cfg) LOG_PROFILE) (\<lambda>adv.
     if \<not> adv then plift (Inr Skipped)
     else pbind (probe_get env (lc_receipts_registry_url cfg @ ''/log/checkpoint'') []) (\<lambda>r.
          pbind (passert (status_code r = 200)) (\<lambda>_.
          pbind (plift (json_of r)) (\<lambda>c.
          pbind (plift (json_get c ''checkpoint_version'' JNull)) (\<lambda>v.
          pbind (passert (v = JStr ''acdp-log/1'')) (\<lambda>_.
          pbind (plift (json_get c ''tree_size'' JNull)) (\<lambda>size.
          pbind (passert (as_int size \<noteq> None)) (\<lambda>_.
          pbind (plift (json_get c ''root_hash'' (JStr []))) (\<lambda>root.
          pbind (passert (case as_str root of Some h \<Rightarrow> py_startswith h ''sha256:'' | None \<Rightarrow> False)) (\<lambda>_.
          pbind (plift (json_get c ''log_id'' JNull)) (\<lambda>log_id.
          pbind (passert (truthy log_id)) (\<lambda>_.
          pbind (assert_signature c) (\<lambda>_. plift (Inr Passed))))))))))))))"

fun assert_members :: "json \<Rightarrow> string list \<Rightarrow> ('w, unit) probe" where
  "assert_members j [] = plift (Inr ())"
| "assert_members j (k # ks) = pbind (plift (json_has j k)) (\<lambda>b. pbind (passert b) (\<lambda>_. assert_members j ks))"

definition log_proof_request :: "live_config \<Rightarrow> (string, json) dict \<Rightarrow> request" where
  "log_proof_request cfg params = get_request (lc_receipts_registry_url cfg @ ''/log/proof'') params []"

definition assert_inclusion :: "json \<Rightarrow> ('w, unit) probe" where
  "assert_inclusion ip =
     pbind (assert_members ip [''log_id'', ''leaf_index'', ''tree_size'', ''inclusion_path'', ''log_checkpoint'']) (\<lambda>_.
     pbind (plift (json_index ip ''inclusion_path'')) (\<lambda>path.
     pbind (passert (as_list path \<noteq> None)) (\<lambda>_.
     pbind (plift (json_index ip ''log_checkpoint'')) (\<lambda>ck.
     pbind (plift (json_get ck ''checkpoint_version'' JNull)) (\<lambda>v.
     pbind (passert (v = JStr ''acdp-log/1'')) (\<lambda>_.
     pbind (plift (json_index ip ''tree_size'')) (\<lambda>size.
     pbind (plift (json_index ck ''tree_size'')) (\<lambda>ck_size. passert (py_eq size ck_size)))))))))"

definition assert_consistency :: "json \<Rightarrow> json \<Rightarrow> ('w, unit) probe" where
  "assert_consistency cp sz =
     pbind (assert_members cp [''log_id'', ''first_tree_size'', ''second_tree_size'', ''consistency_path'', ''log_checkpoint'']) (\<lambda>_.
     pbind (plift (json_index cp ''consistency_path'')) (\<lambda>path.
     pbind (passert (as_list path \<noteq> None)) (\<lambda>_.
     pbind (plift (json_index cp ''first_tree_size'')) (\<lambda>first.
     pbind (plift (json_index cp ''second_tree_size'')) (\<lambda>second.
     pbind (passert (py_eq first (JInt 1) \<and> py_eq second sz)) (\<lambda>_.
     pbind (plift (rbind (json_index cp ''log_checkpoint'') (\<lambda>ck. json_index ck ''tree_size''))) (\<lambda>ck_size.
     pbind (plift (py_ge ck_size second)) (\<lambda>b. passert b))))))))"

definition probe_log_proof_inclusion_and_consistency :: "'w env \<Rightarrow> conf_env \<Rightarrow> live_config \<Rightarrow> ('w, verdict) probe" where
  "probe_log_proof_inclusion_and_consistency env cf cfg =
     pbind (advertises env (lc_receipts_registry_url cfg) LOG_PROFILE) (\<lambda>adv.
     if \<not> adv then plift (Inr Skipped)
     else pbind (publish_probe_context env cf (lc_receipts_registry_url cfg)) (\<lambda>(ctx_id, _).
          pbind (probe_get env (lc_receipts_registry_url cfg @ ''/log/checkpoint'') []) (\<lambda>rk.
          pbind (plift (rbind (json_of rk) (\<lambda>ck. json_index ck ''tree_size''))) (\<lambda>size.
          pbind (passert (case as_int size of Some n \<Rightarrow> n \<ge> 1 | None \<Rightarrow> False)) (\<lambda>_.
          pbind (psend env (log_proof_request cfg [(''ctx_id'', ctx_id)])) (\<lambda>inc.
          pbind (passert (status_code inc = 200)) (\<lambda>_.
          pbind (plift (json_of inc)) (\<lambda>ip.
          pbind (assert_inclusion ip) (\<lambda>_.
          pbind (psend env (log_proof_request cfg [(''first'', JInt 1), (''second'', size)])) (\<lambda>con.
          pbind (passert (status_code con = 200)) (\<lambda>_.
          pbind (plift (json_of con)) (\<lambda>cp.
          pbind (assert_consistency cp size) (\<lambda>_. plift (Inr Passed))))))))))))))"

definition probe_head_receipt_on_current :: "'w env \<Rightarrow> conf_env \<Rightarrow> live_config \<Rightarrow> ('w, verdict) probe" where
  "probe_head_receipt_on_current env cf cfg =
     pbind (advertises env (lc_receipts_registry_url cfg) HEAD_RECEIPTS_PROFILE) (\<lambda>adv.
     if \<not> adv then plift (Inr Skipped)
     else pbind (publish_probe_context env cf (lc_receipts_registry_url cfg)) (\<lambda>(_, lineage_id).
          pbind (probe_get env (lc_receipts_registry_url cfg @ ''/lineages/''
             @ (case as_str lineage_id of Some l \<Rightarrow> l | None \<Rightarrow> py_str cf lineage_id) @ ''/current'') []) (\<lambda>r.
          pbind (passert (status_code r = 200)) (\<lambda>_.
          pbind (plift (rbind (json_of r) (\<lambda>j. json_get j ''lineage_head_receipt'' JNull))) (\<lambda>hr.
          pbind (passert (hr \<noteq> JNull)) (\<lambda>_.
          pbind (plift (json_get hr ''receipt_version'' JNull)) (\<lambda>v.
          pbind (passert (v = JStr ''acdp-lhr/1'')) (\<lambda>_.
          pbind (assert_members hr [''registry_did'', ''lineage_id'', ''head_ctx_id'', ''head_version'', ''head_status'', ''as_of'']) (\<lambda>_.
          pbind (assert_signature hr) (\<lambda>_.
          pbind (plift (json_index hr ''lineage_id'')) (\<lambda>l.
          pbind (passert (py_eq l lineage_id)) (\<lambda>_. plift (Inr Passed)))))))))))))"

definition probe_retract_endpoint_fails_closed :: "'w env \<Rightarrow> conf_env \<Rightarrow> live_config \<Rightarrow> ('w, verdict) probe" where
  "probe_retract_endpoint_fails_closed env cf cfg =
     pbind (advertises env (lc_receipts_registry_url cfg) LIFECYCLE_PROFILE) (\<lambda>adv.
     if \<not> adv then plift (Inr Skipped)
     else pbind (plift (signed_event cf RECEIPTS_PROBE_CTX_ID ''retracted'')) (\<lambda>event_json.
          pbind (psend env (content_post
             (lc_receipts_registry_url cfg @ ''/contexts/'' @ url_quote [] RECEIPTS_PROBE_CTX_ID @ ''/retract'')
             (event_envelope event_json) [(''Content-Type'', ''application/json'')])) (\<lambda>r.
          pbind (passert (\<not> is_success r)) (\<lambda>_.
          pbind (passert (status_code r \<in> {400, 401, 403, 404, 409, 422})) (\<lambda>_.
          pbind (passert (acdp_content_type r)) (\<lambda>_.
          pbind (passert (nonempty_str (envelope_code r) \<noteq> None)) (\<lambda>_. plift (Inr Passed))))))))"

section \<open>Control-plane probes\<close>

definition bearer :: "string \<Rightarrow> (string, string) dict" where
  "bearer token = [(''Authorization'', ''Bearer '' @ token)]"

definition probe_cp_events_cap :: "'w env \<Rightarrow> live_config \<Rightarrow> ('w, verdict) probe" where
  "probe_cp_events_cap env cfg =
     (let url = lc_control_plane_url cfg @ ''/events''; h = bearer (lc_admin_token cfg) in
     pbind (psend env (get_request url [(''limit'', JInt 100000)] h)) (\<lambda>over.
     pbind (passert (status_code over = 400)) (\<lambda>_.
     pbind (psend env (get_request url [(''limit'', JInt 1000)] h)) (\<lambda>ok.
     pbind (passert (status_code ok = 200)) (\<lambda>_.
     pbind (plift (rbind (json_of ok) (\<lambda>j. json_has j ''nextCursor''))) (\<lambda>b.
     pbind (passert b) (\<lambda>_. plift (Inr Passed))))))))"

definition probe_cp_revocations_shape :: "'w env \<Rightarrow> live_config \<Rightarrow> ('w, verdict) probe" where
  "probe_cp_revocations_shape env cfg =
     pbind (psend env (get_request (lc_control_plane_url cfg @ ''/auth/revocations'')
        [(''since'', JInt 0), (''limit'', JInt 10)] (bearer (lc_admin_token cfg)))) (\<lambda>r.
     pbind (passert (status_code r = 200)) (\<lambda>_.
     pbind (plift (json_of r)) (\<lambda>body.
     pbind (plift (json_has body ''entries'')) (\<lambda>a.
     pbind (if a then plift (json_has body ''next_cursor'') else plift (Inr False)) (\<lambda>b.
     pbind (passert b) (\<lambda>_.
     pbind (plift (json_index body ''entries'')) (\<lambda>entries.
     pbind (passert (as_list entries \<noteq> None)) (\<lambda>_. plift (Inr Passed)))))))))"

definition probe_cp_pinned_keys_reload :: "'w env \<Rightarrow> live_config \<Rightarrow> ('w, verdict) probe" where
  "probe_cp_pinned_keys_reload env cfg =
     pbind (psend env \<lparr>rq_method = ''POST'', rq_url = lc_control_plane_url cfg @ ''/admin/pinned-keys/reload'',
        rq_headers = bearer (lc_admin_token cfg), rq_params = [], rq_body = NoBody\<rparr>) (\<lambda>r.
     pbind (passert (is_success r)) (\<lambda>_. plift (Inr Passed)))"

definition capability_body :: json where
  "capability_body = JObj
     [(''agent_did'', JStr ''did:web:registry-a.playground.local:agents:probe''),
      (''capability_uri'', JStr ''urn:acdp:cap:publish:data_snapshot:finance''),
      (''declared_at'', JStr ''2026-06-08T00:00:00Z''),
      (''key_id'', JStr ''did:web:registry-a.playground.local:agents:probe#key-1''),
      (''algorithm'', JStr ''ecdsa-p256''), (''signature'', JStr ''AAAA'')]"

definition rejected_for_alg :: "response \<Rightarrow> bool" where
  "rejected_for_alg r \<longleftrightarrow> (let blob = py_lower (resp_text r) in
     status_code r = 400 \<and> py_contains ''algorithm'' blob
     \<and> (py_contains ''ed25519'' blob \<or> py_contains ''isin'' blob \<or> py_contains ''must be one of'' blob))"

definition probe_capability_algorithm_accepted :: "'w env \<Rightarrow> live_config \<Rightarrow> ('w, verdict) probe" where
  "probe_capability_algorithm_accepted env cfg =
     pbind (psend env (json_post (lc_control_plane_url cfg @ ''/capabilities'') (bearer (lc_api_key cfg)) capability_body)) (\<lambda>r.
     pbind (passert (\<not> rejected_for_alg r)) (\<lambda>_. plift (Inr Passed)))"

section \<open>The suites\<close>

definition REGISTRY_PROBES :: "'w env \<Rightarrow> conf_env \<Rightarrow> live_config \<Rightarrow> ('w, verdict) probe list" where
  "REGISTRY_PROBES env cf cfg =
     [probe_reserved_tenant_400 env cfg, probe_error_envelope_content_type env cfg, probe_ingest_body_limit_413 env cfg,
      probe_receipts_profile_advertised env cfg, probe_did_key_method_advertised env cfg,
      probe_served_ctx_id_binding env cf cfg, probe_media_type_gate env cf cfg,
      probe_interim_revocation_type_rejected env cf cfg, probe_anchors_require_0_5_0 env cf cfg,
      probe_key_revocation_self_sign_rejected env cf cfg]"

definition ENDPOINT_0_3_0_PROBES :: "'w env \<Rightarrow> conf_env \<Rightarrow> live_config \<Rightarrow> ('w, verdict) probe list" where
  "ENDPOINT_0_3_0_PROBES env cf cfg =
     [probe_log_checkpoint_signed env cfg, probe_log_proof_inclusion_and_consistency env cf cfg,
      probe_head_receipt_on_current env cf cfg, probe_retract_endpoint_fails_closed env cf cfg]"

definition CONTROL_PLANE_PROBES :: "'w env \<Rightarrow> live_config \<Rightarrow> ('w, verdict) probe list" where
  "CONTROL_PLANE_PROBES env cfg =
     [probe_cp_events_cap env cfg, probe_cp_revocations_shape env cfg, probe_cp_pinned_keys_reload env cfg,
      probe_capability_algorithm_accepted env cfg]"

definition ALL_PROBES :: "'w env \<Rightarrow> conf_env \<Rightarrow> live_config \<Rightarrow> ('w, verdict) probe list" where
  "ALL_PROBES env cf cfg = REGISTRY_PROBES env cf cfg @ ENDPOINT_0_3_0_PROBES env cf cfg @ CONTROL_PLANE_PROBES env cfg"

section \<open>Lemmas\<close>

lemma pbind_Inr: "pbind m f io = (io', Inr b) \<longleftrightarrow> (\<exists>io1 a. m io = (io1, Inr a) \<and> f a io1 = (io', Inr b))"
  by (auto simp: pbind_def split: prod.splits sum.splits)

lemma passert_Inr: "passert b io = (io', Inr x) \<longleftrightarrow> io' = io \<and> b"
  by (auto simp: passert_def)

lemma plift_iff: "plift r io = (io', r') \<longleftrightarrow> io' = io \<and> r = r'"
  by (auto simp: plift_def)

lemma psend_iff: "psend env rq io = (io', r) \<longleftrightarrow> http_send env io rq = (io', r)"
  by (simp add: psend_def)

lemmas probe_simps = pbind_Inr passert_Inr plift_iff psend_iff rbind_eq_Inr

lemma json_get_Inr: "json_get j k d = Inr x \<longleftrightarrow> (\<exists>kvs. j = JObj kvs \<and> x = dict_get_default kvs k d)"
  by (auto simp: json_get_def split: option.splits)

lemma json_of_Inr: "json_of r = Inr j \<longleftrightarrow> resp_json r = Some j"
  by (simp add: json_of_def split: option.splits)

lemma py_eq_str: "py_eq j (JStr s) \<longleftrightarrow> j = JStr s"
  by (cases "num_of j") (auto simp: py_eq_def)

subsection \<open>Version texts\<close>

lemma digits_value_bound: "list_all is_ascii_digit s \<Longrightarrow> digits_value s 0 < 10 ^ length s"
proof (induction s rule: rev_induct)
  case (snoc c s)
  then have "digits_value s 0 < 10 ^ length s" "ord c - 48 < 10" by (auto simp: is_ascii_digit_def)
  then have "10 * digits_value s 0 + (ord c - 48) < 10 * 10 ^ length s" by linarith
  then show ?case by (simp add: digits_value_append)
qed simp

lemma digits_value_pos: "list_all is_ascii_digit s \<Longrightarrow> s \<noteq> [] \<Longrightarrow> hd s \<noteq> CHR ''0'' \<Longrightarrow> 0 < digits_value s 0"
proof (induction s rule: rev_induct)
  case (snoc c s)
  show ?case
  proof (cases "s = []")
    case True
    have "ord c \<noteq> 48"
    proof
      assume "ord c = 48"
      then have "of_char c = (of_char CHR ''0'' :: nat)" by simp
      then have "c = CHR ''0''" by (simp only: of_char_eq_iff)
      with True snoc.prems show False by simp
    qed
    with True snoc.prems show ?thesis by (auto simp: is_ascii_digit_def)
  next
    case False
    with snoc have "0 < digits_value s 0" by simp
    then show ?thesis by (simp add: digits_value_append)
  qed
qed simp

lemma digit_char: "is_ascii_digit c \<Longrightarrow> char_of (48 + (ord c - 48)) = c"
  by (simp add: is_ascii_digit_def)

lemma nat_digits_value:
  "list_all is_ascii_digit s \<Longrightarrow> s \<noteq> [] \<Longrightarrow> hd s \<noteq> CHR ''0'' \<Longrightarrow> nat_digits (digits_value s 0) = s"
proof (induction s rule: rev_induct)
  case (snoc c s)
  have c: "is_ascii_digit c" "ord c - 48 < 10" using snoc.prems by (auto simp: is_ascii_digit_def)
  show ?case
  proof (cases "s = []")
    case True
    with c show ?thesis by (simp add: nat_digits.simps digit_char)
  next
    case False
    with snoc.prems have s: "list_all is_ascii_digit s" "hd s \<noteq> CHR ''0''" by auto
    with snoc.IH False have "nat_digits (digits_value s 0) = s" by simp
    moreover have "0 < digits_value s 0" by (rule digits_value_pos[OF s(1) False s(2)])
    moreover have "(10 * digits_value s 0 + (ord c - 48)) div 10 = digits_value s 0" "(10 * digits_value s 0 + (ord c - 48)) mod 10 = ord c - 48"
      using c(2) by simp_all
    ultimately show ?thesis using c(1)
      by (simp add: digits_value_append nat_digits.simps[of "10 * digits_value s 0 + (ord c - 48)"] digit_char)
  qed
qed simp

lemma nat_digits_shape: "0 < n \<Longrightarrow> hd (nat_digits n) \<noteq> CHR ''0'' \<and> (n < 10 ^ k \<longrightarrow> length (nat_digits n) \<le> k)"
proof (induction n arbitrary: k rule: nat_digits.induct)
  case (1 n)
  show ?case
  proof (cases "n < 10")
    case True
    have "char_of (48 + n) \<noteq> CHR ''0''"
    proof
      assume "char_of (48 + n) = CHR ''0''"
      then have "ord (char_of (48 + n)) = 48" by simp
      with True 1(2) show False by simp
    qed
    moreover have "n < 10 ^ k \<longrightarrow> 1 \<le> k" using 1(2) by (cases k) auto
    ultimately show ?thesis using True by (simp add: nat_digits.simps[of n])
  next
    case False
    then have "0 < n div 10" by simp
    from 1(1)[OF False this, of "k - 1"] have ih: "hd (nat_digits (n div 10)) \<noteq> CHR ''0''"
      "n div 10 < 10 ^ (k - 1) \<longrightarrow> length (nat_digits (n div 10)) \<le> k - 1" by auto
    have "n < 10 ^ k \<longrightarrow> 0 < k \<and> n div 10 < 10 ^ (k - 1)" using False by (cases k) auto
    with ih False nat_digits_ok[of "n div 10"] show ?thesis by (auto simp: nat_digits.simps[of n])
  qed
qed

lemma version_group_iff: "version_group s = Some n \<longleftrightarrow> s = nat_digits n \<and> n < 10 ^ 6"
proof
  assume v: "version_group s = Some n"
  show "s = nat_digits n \<and> n < 10 ^ 6"
  proof (cases "s = ''0''")
    case True
    with v show ?thesis by (simp add: version_group_def nat_digits.simps) code_simp
  next
    case False
    with v have s: "s \<noteq> []" "length s \<le> 6" "list_all is_ascii_digit s" "hd s \<noteq> CHR ''0''" "n = digits_value s 0"
      by (auto simp: version_group_def split: if_splits)
    have "n < 10 ^ length s" using digits_value_bound[OF s(3)] s(5) by simp
    also have "\<dots> \<le> (10::nat) ^ 6" using s(2) by (intro power_increasing) auto
    finally show ?thesis using nat_digits_value[OF s(3,1,4)] s(5) by simp
  qed
next
  assume n: "s = nat_digits n \<and> n < 10 ^ 6"
  show "version_group s = Some n"
  proof (cases "n = 0")
    case True
    have "nat_digits 0 = ''0''" by code_simp
    with True n show ?thesis by (simp add: version_group_def)
  next
    case False
    then have "hd (nat_digits n) \<noteq> CHR ''0''" "length (nat_digits n) \<le> 6" using nat_digits_shape[of n 6] n by auto
    with n nat_digits_ok[of n] show ?thesis by (auto simp: version_group_def)
  qed
qed

section \<open>Properties\<close>

text \<open>
  The version parser accepts exactly the canonical texts: three decimal numbers below a million without leading
  zeros, joined by dots, and it returns those numbers. No suffix, sign, space or other digit passes.
\<close>

theorem version_text_exact:
  "parse_acdp_version (JStr s) = Some (a, b, c) \<longleftrightarrow>
     s = nat_digits a @ ''.'' @ nat_digits b @ ''.'' @ nat_digits c \<and> a < 10 ^ 6 \<and> b < 10 ^ 6 \<and> c < 10 ^ 6"
proof -
  have dot: "CHR ''.'' \<notin> set (nat_digits n)" for n
    using nat_digits_ok[of n] is_ascii_digit_plain[of "CHR ''.''"] by (auto simp: list_all_iff)
  have split: "py_split CHR ''.'' s = [nat_digits a, nat_digits b, nat_digits c] \<longleftrightarrow> s = nat_digits a @ ''.'' @ nat_digits b @ ''.'' @ nat_digits c"
  proof
    assume "py_split CHR ''.'' s = [nat_digits a, nat_digits b, nat_digits c]"
    then have "py_join ''.'' [nat_digits a, nat_digits b, nat_digits c] = s" using py_join_split[of "CHR ''.''" s] by simp
    then show "s = nat_digits a @ ''.'' @ nat_digits b @ ''.'' @ nat_digits c" by simp
  next
    assume "s = nat_digits a @ ''.'' @ nat_digits b @ ''.'' @ nat_digits c"
    then have "s = py_join ''.'' [nat_digits a, nat_digits b, nat_digits c]" by simp
    then show "py_split CHR ''.'' s = [nat_digits a, nat_digits b, nat_digits c]"
      using dot py_split_join[of "[nat_digits a, nat_digits b, nat_digits c]" "CHR ''.''"] by auto
  qed
  have "parse_acdp_version (JStr s) = Some (a, b, c) \<longleftrightarrow> (\<exists>x y z. py_split CHR ''.'' s = [x, y, z]
      \<and> version_group x = Some a \<and> version_group y = Some b \<and> version_group z = Some c)"
    by (auto simp: parse_acdp_version_def split: list.splits option.splits)
  then show ?thesis unfolding version_group_iff using split by auto
qed

lemma probe_encode_Inr: "probe_encode j = Inr e \<longleftrightarrow> (\<exists>c. j = JStr c \<and> e = encode_ctx c)"
  by (auto simp: probe_encode_def split: option.splits)

lemma binding_probe_passed:
  assumes "probe_served_ctx_id_binding env cf cfg io = (io', Inr v)"
  obtains c io1 io2 r1 r2 b1 k1 k2 where
     "http_send env io1 (get_request (lc_registry_url cfg @ ''/contexts/'' @ encode_ctx c) [] []) = (io2, Inr r1)"
     "resp_json r1 = Some (JObj k1)" "JObj b1 = obj_get k1 ''body''" "map_of b1 ''ctx_id'' = Some (JStr c)"
     "http_send env io2 (get_request (lc_registry_url cfg @ ''/contexts/'' @ encode_ctx c @ ''/body'') [] []) = (io', Inr r2)"
     "resp_json r2 = Some (JObj k2)" "map_of k2 ''ctx_id'' = Some (JStr c)"
  using assms
  unfolding probe_served_ctx_id_binding_def
  by (auto simp: probe_simps probe_get_def json_get_Inr json_of_Inr probe_encode_Inr py_eq_str obj_get_str
      obj_get_def[symmetric] split: prod.splits intro: that)

text \<open>
  C22. What the binding probe passes, the client does not see as substitution. When the probe passes, the registry served
  the probe context under its own id on both routes, and the client's binding check of those very payloads,
  run with any SDK that reports a mismatch only for differing ids, cannot end in a mismatch.
\<close>

theorem binding_probe_excludes_substitution:
  assumes "probe_served_ctx_id_binding env cf cfg io = (io', Inr v)"
    and "\<forall>kvs c e. map_of kvs ''ctx_id'' = Some (JStr c) \<longrightarrow> verify_ctx_id_binding ce (JObj kvs) c = Inl e \<longrightarrow> is_ValueError e"
  shows "\<exists>c io1 io2 r1 r2 j1 j2.
     http_send env io1 (get_request (lc_registry_url cfg @ ''/contexts/'' @ encode_ctx c) [] []) = (io2, Inr r1) \<and> resp_json r1 = Some j1
   \<and> http_send env io2 (get_request (lc_registry_url cfg @ ''/contexts/'' @ encode_ctx c @ ''/body'') [] []) = (io', Inr r2) \<and> resp_json r2 = Some j2
   \<and> (\<forall>req x. bind_served_ctx_id ce cl j1 Envelope (Some c) (Some True) \<noteq> Inl (CtxIdBindingError Mismatch req x))
   \<and> (\<forall>req x. bind_served_ctx_id ce cl j2 Bare (Some c) (Some True) \<noteq> Inl (CtxIdBindingError Mismatch req x))"
proof -
  obtain c io1 io2 r1 r2 b1 k1 k2 where p:
    "http_send env io1 (get_request (lc_registry_url cfg @ ''/contexts/'' @ encode_ctx c) [] []) = (io2, Inr r1)"
    "resp_json r1 = Some (JObj k1)" "JObj b1 = obj_get k1 ''body''" "map_of b1 ''ctx_id'' = Some (JStr c)"
    "http_send env io2 (get_request (lc_registry_url cfg @ ''/contexts/'' @ encode_ctx c @ ''/body'') [] []) = (io', Inr r2)"
    "resp_json r2 = Some (JObj k2)" "map_of k2 ''ctx_id'' = Some (JStr c)"
    by (rule binding_probe_passed[OF assms(1)])
  have nm: "bind_body ce (Some c) (JObj kvs) \<noteq> Inl (CtxIdBindingError Mismatch req x)"
    if "map_of kvs ''ctx_id'' = Some (JStr c)" for kvs req x
  proof -
    have o: "obj_get kvs ''ctx_id'' = JStr c" using that obj_get_str by blast
    show ?thesis using assms(2) that by (auto simp: bind_body_def o split: sum.splits)
  qed
  have "map_of k1 ''body'' = Some (JObj b1)" using p(3) by (auto simp: obj_get_def dict_get_default_def split: option.splits)
  then have "served_bodies (JObj k1) Envelope = [JObj b1]" "served_bodies (JObj k2) Bare = [JObj k2]"
    by (simp_all add: served_bodies_def envelope_bodies_def)
  with nm[OF p(4)] nm[OF p(7)]
  have "\<forall>req x. bind_served_ctx_id ce cl (JObj k1) Envelope (Some c) (Some True) \<noteq> Inl (CtxIdBindingError Mismatch req x)"
    "\<forall>req x. bind_served_ctx_id ce cl (JObj k2) Bare (Some c) (Some True) \<noteq> Inl (CtxIdBindingError Mismatch req x)"
    by (auto simp: bind_served_ctx_id_def rbind_eq_Inl)
  with p show ?thesis by blast
qed

definition probe_answer :: json where
  "probe_answer = JObj [(''ctx_id'', JStr ''acdp://a/b''), (''lineage_id'', JStr ''lin:1''),
     (''body'', JObj [(''ctx_id'', JStr ''acdp://a/b'')]), (''profiles'', JList [])]"

definition demo_conf :: conf_env where
  "demo_conf = \<lparr>build_request = (\<lambda>k. Inr ''r''), signed_event = (\<lambda>c t. Inr ''e''), wire_header_names = (\<lambda>rq. []), py_str = (\<lambda>j. [])\<rparr>"

definition demo_live :: live_config where
  "demo_live = \<lparr>lc_registry_url = ''http://r'', lc_receipts_registry_url = ''http://r'', lc_control_plane_url = ''http://c'',
     lc_admin_token = ''a'', lc_api_key = ''k''\<rparr>"

abbreviation demo_stack :: "unit env" where
  "demo_stack \<equiv> stub_env (\<lambda>rq. Inr (json_answer 200 probe_answer))"

lemma demo_publish:
  "\<exists>io'. publish_probe_context demo_stack demo_conf base io = (io', Inr (JStr ''acdp://a/b'', JStr ''lin:1''))"
  by (simp add: publish_probe_context_def pbind_def plift_def psend_def passert_def demo_conf_def accepted_def json_of_def probe_answer_def)

lemma demo_binding_probe: "\<exists>io'. probe_served_ctx_id_binding demo_stack demo_conf demo_live stub_io = (io', Inr Passed)"
proof -
  obtain io1 where 1: "publish_probe_context demo_stack demo_conf (lc_registry_url demo_live) stub_io = (io1, Inr (JStr ''acdp://a/b'', JStr ''lin:1''))"
    using demo_publish by blast
  have j: "json_of (json_answer 200 probe_answer) = Inr probe_answer" by (simp add: json_of_def)
  have g: "json_get probe_answer ''body'' JNull = Inr (JObj [(''ctx_id'', JStr ''acdp://a/b'')])"
    "json_get probe_answer ''ctx_id'' JNull = Inr (JStr ''acdp://a/b'')" "as_obj probe_answer \<noteq> None"
    "json_get (JObj [(''ctx_id'', JStr ''acdp://a/b'')]) ''ctx_id'' JNull = Inr (JStr ''acdp://a/b'')"
    by (simp_all add: json_get_def probe_answer_def dict_get_default_def)
  have o: "\<exists>kvs. probe_answer = JObj kvs" by (simp add: probe_answer_def)
  show ?thesis unfolding probe_served_ctx_id_binding_def pbind_def[of "publish_probe_context demo_stack demo_conf (lc_registry_url demo_live)"] 1
    by (simp add: pbind_def plift_def passert_def probe_get_def psend_def probe_encode_def j g py_eq_str o)
qed

theorem binding_probe_excludes_substitution_witness:
  "\<exists>c j1. resp_json (json_answer 200 probe_answer) = Some j1
     \<and> (\<forall>req x. bind_served_ctx_id demo_env (plain_client ''http://r'') j1 Envelope (Some c) (Some True) \<noteq> Inl (CtxIdBindingError Mismatch req x))"
proof -
  obtain io' where p: "probe_served_ctx_id_binding demo_stack demo_conf demo_live stub_io = (io', Inr Passed)"
    using demo_binding_probe by blast
  have "\<forall>kvs c e. map_of kvs ''ctx_id'' = Some (JStr c) \<longrightarrow> verify_ctx_id_binding demo_env (JObj kvs) c = Inl e \<longrightarrow> is_ValueError e"
    by (simp add: demo_env_def)
  from binding_probe_excludes_substitution[OF p this, of "plain_client ''http://r''"] show ?thesis by auto
qed

lemma advertises_Inr:
  assumes "advertises env base profile io = (io', Inr adv)"
  shows "\<exists>r kvs. http_send env io (get_request (base @ ''/.well-known/acdp.json'') [] []) = (io', Inr r)
    \<and> status_code r = 200 \<and> resp_json r = Some (JObj kvs)
    \<and> (adv \<longleftrightarrow> (\<exists>xs. obj_get kvs ''profiles'' = JList xs \<and> JStr profile \<in> set xs))"
proof -
  obtain r kvs where r: "http_send env io (get_request (base @ ''/.well-known/acdp.json'') [] []) = (io', Inr r)"
    "status_code r = 200" "resp_json r = Some (JObj kvs)"
    and l: "as_list (py_or (obj_get kvs ''profiles'') (JList [])) \<noteq> None"
    and a: "adv = (JStr profile \<in> set (case as_list (py_or (obj_get kvs ''profiles'') (JList [])) of Some xs \<Rightarrow> xs | None \<Rightarrow> []))"
    using assms unfolding advertises_def capabilities_def
    by (auto simp: probe_simps probe_get_def json_get_Inr json_of_Inr obj_get_def)
  have "adv \<longleftrightarrow> (\<exists>xs. obj_get kvs ''profiles'' = JList xs \<and> JStr profile \<in> set xs)"
    using l a by (cases "obj_get kvs ''profiles''") (auto simp: py_or_def split: if_splits)
  with r show ?thesis by blast
qed

text \<open>
  A skip is never a disguise for drift. An endpoint probe is skipped only when the capabilities document was
  served and does not list the probe's profile, and then nothing but that document was asked for; where the profile
  is advertised the probe passes or fails.
\<close>

theorem advertised_never_skipped:
  assumes "(p, profile) \<in> {(probe_log_checkpoint_signed env cfg, LOG_PROFILE),
      (probe_log_proof_inclusion_and_consistency env cf cfg, LOG_PROFILE),
      (probe_head_receipt_on_current env cf cfg, HEAD_RECEIPTS_PROFILE),
      (probe_retract_endpoint_fails_closed env cf cfg, LIFECYCLE_PROFILE)}"
    and "p io = (io', Inr Skipped)"
  shows "\<exists>r kvs. http_send env io (get_request (lc_receipts_registry_url cfg @ ''/.well-known/acdp.json'') [] []) = (io', Inr r)
    \<and> status_code r = 200 \<and> resp_json r = Some (JObj kvs)
    \<and> \<not> (\<exists>xs. obj_get kvs ''profiles'' = JList xs \<and> JStr profile \<in> set xs)"
proof -
  have "advertises env (lc_receipts_registry_url cfg) profile io = (io', Inr False)"
    using assms unfolding probe_log_checkpoint_signed_def probe_log_proof_inclusion_and_consistency_def
      probe_head_receipt_on_current_def probe_retract_endpoint_fails_closed_def
    by (auto simp: probe_simps split: if_splits prod.splits)
  from advertises_Inr[OF this] show ?thesis by blast
qed

theorem advertised_never_skipped_witness:
  "\<exists>io'. probe_log_checkpoint_signed demo_stack demo_live stub_io = (io', Inr Skipped)
     \<and> (\<exists>kvs. probe_answer = JObj kvs \<and> \<not> (\<exists>xs. obj_get kvs ''profiles'' = JList xs \<and> JStr LOG_PROFILE \<in> set xs))"
proof -
  have "\<exists>io'. probe_log_checkpoint_signed demo_stack demo_live stub_io = (io', Inr Skipped)"
    by (simp add: probe_log_checkpoint_signed_def advertises_def capabilities_def probe_get_def psend_def pbind_def plift_def
        passert_def json_of_def json_get_def probe_answer_def dict_get_default_def py_or_def)
  then obtain io' where p: "probe_log_checkpoint_signed demo_stack demo_live stub_io = (io', Inr Skipped)" by blast
  from advertised_never_skipped[of "probe_log_checkpoint_signed demo_stack demo_live" LOG_PROFILE demo_stack demo_live demo_conf, OF _ p]
  obtain r kvs where "snd (http_send demo_stack stub_io (get_request (lc_receipts_registry_url demo_live @ ''/.well-known/acdp.json'') [] [])) = Inr r"
    "resp_json r = Some (JObj kvs)" "\<not> (\<exists>xs. obj_get kvs ''profiles'' = JList xs \<and> JStr LOG_PROFILE \<in> set xs)" by auto
  with p show ?thesis by auto
qed

end
