(* ===== verification/Json.thy ===== *)
theory Json
  imports Runtime
begin

text \<open>
  Python's \<^verbatim>\<open>json.loads\<close>, as the sources use it: the scanner of the standard library over the model's
  strings, and the round trip with \<^const>\<open>json_dumps\<close>.

  The decimal value of a number with a fraction or an exponent is kept exactly, since the rounding of
  binary floats is not modelled. A \<^verbatim>\<open>\u\<close> escape beyond U+00FF has no character in the model's
  strings; a text that holds one is refused here.
\<close>

section \<open>The scanner\<close>

definition is_json_ws :: "char \<Rightarrow> bool" where
  "is_json_ws c \<longleftrightarrow> ord c \<in> {32, 9, 10, 13}"

definition skip_ws :: "string \<Rightarrow> string" where
  "skip_ws s = dropWhile is_json_ws s"

definition hex_value :: "char \<Rightarrow> nat option" where
  "hex_value c =
     (if is_ascii_digit c then Some (ord c - 48)
      else if 97 \<le> ord c \<and> ord c \<le> 102 then Some (ord c - 87)
      else if 65 \<le> ord c \<and> ord c \<le> 70 then Some (ord c - 55) else None)"

definition hex4_value :: "string \<Rightarrow> nat option" where
  "hex4_value s =
     (case map hex_value s of
        [Some a, Some b, Some c, Some d] \<Rightarrow> Some (((a * 16 + b) * 16 + c) * 16 + d)
      | _ \<Rightarrow> None)"

definition json_escapes :: "(char, char) dict" where
  "json_escapes = [(CHR 0x22, CHR 0x22), (CHR 0x5C, CHR 0x5C), (CHR ''/'', CHR ''/''), (CHR ''b'', CHR 0x08),
     (CHR ''f'', CHR 0x0C), (CHR ''n'', CHR 0x0A), (CHR ''r'', CHR 0x0D), (CHR ''t'', CHR 0x09)]"

text \<open>The rest of a string literal after its opening quote.\<close>

function json_string :: "string \<Rightarrow> (string \<times> string) option" where
  "json_string [] = None"
| "json_string (c # s) =
     (if c = CHR 0x22 then Some ([], s)
      else if c = CHR 0x5C then
        (case s of
           [] \<Rightarrow> None
         | e # r \<Rightarrow>
             if e = CHR ''u'' then
               (case hex4_value (take 4 r) of
                  Some n \<Rightarrow>
                    if n < 256 then map_option (\<lambda>(x, t). (char_of n # x, t)) (json_string (drop 4 r)) else None
                | None \<Rightarrow> None)
             else (case map_of json_escapes e of
                     Some x \<Rightarrow> map_option (\<lambda>(y, t). (x # y, t)) (json_string r)
                   | None \<Rightarrow> None))
      else if ord c < 32 then None
      else map_option (\<lambda>(x, t). (c # x, t)) (json_string s))"
  by pat_completeness auto
termination by (relation "measure length") auto

definition pow10 :: "int \<Rightarrow> rat" where
  "pow10 k = (if 0 \<le> k then 10 ^ nat k else 1 / 10 ^ nat (- k))"

definition int_part :: "string \<Rightarrow> string \<times> string" where
  "int_part s =
     (case s of
        [] \<Rightarrow> ([], [])
      | c # r \<Rightarrow> if c = CHR ''0'' then ([c], r) else (takeWhile is_ascii_digit s, dropWhile is_ascii_digit s))"

text \<open>The digits after a point, and the exponent; absent unless at least one digit follows.\<close>

definition frac_part :: "string \<Rightarrow> string option \<times> string" where
  "frac_part s =
     (case s of
        c # r \<Rightarrow>
          if c = CHR ''.'' \<and> takeWhile is_ascii_digit r \<noteq> []
          then (Some (takeWhile is_ascii_digit r), dropWhile is_ascii_digit r) else (None, s)
      | [] \<Rightarrow> (None, s))"

definition exp_part :: "string \<Rightarrow> int option \<times> string" where
  "exp_part s =
     (case s of
        c # r \<Rightarrow>
          let (neg, t) = (case r of d # u \<Rightarrow> if d = CHR ''-'' then (True, u) else if d = CHR ''+'' then (False, u) else (False, r)
                          | [] \<Rightarrow> (False, []));
              ds = takeWhile is_ascii_digit t;
              n = int (digits_value ds 0)
          in if c \<in> {CHR ''e'', CHR ''E''} \<and> ds \<noteq> [] then (Some (if neg then - n else n), dropWhile is_ascii_digit t)
             else (None, s)
      | [] \<Rightarrow> (None, s))"

definition json_number :: "string \<Rightarrow> (json \<times> string) option" where
  "json_number s =
     (let (neg, t) = (case s of c # r \<Rightarrow> if c = CHR ''-'' then (True, r) else (False, s) | [] \<Rightarrow> (False, []));
          (ip, r1) = int_part t;
          (fp, r2) = frac_part r1;
          (ex, r3) = exp_part r2;
          fd = (case fp of Some d \<Rightarrow> d | None \<Rightarrow> []);
          n = int (digits_value (ip @ fd) 0);
          m = (if neg then - n else n)
      in if ip = [] then None
         else if fp = None \<and> ex = None then Some (JInt m, r1)
         else Some (JFloat (Fin (of_int m * pow10 ((case ex of Some e \<Rightarrow> e | None \<Rightarrow> 0) - int (length fd)))), r3))"

definition json_words :: "(string, json) dict" where
  "json_words = [(''null'', JNull), (''true'', JBool True), (''false'', JBool False), (''NaN'', JFloat NaN),
     (''Infinity'', JFloat PosInf), (''-Infinity'', JFloat NegInf)]"

definition json_atom :: "string \<Rightarrow> (json \<times> string) option" where
  "json_atom s =
     (case filter (\<lambda>(w, j). py_startswith s w) json_words of
        (w, j) # _ \<Rightarrow> Some (j, drop (length w) s)
      | [] \<Rightarrow> json_number s)"

lemma length_skip_ws [simp]: "length (skip_ws s) \<le> length s"
  by (simp add: skip_ws_def length_dropWhile_le)

lemma skip_ws_Cons: "skip_ws s = c # t \<Longrightarrow> length t < length s"
  by (metis length_skip_ws Suc_le_eq length_Cons)

lemma json_string_shorter: "json_string s = Some (x, t) \<Longrightarrow> length t < length s"
proof (induction s arbitrary: x t rule: json_string.induct)
  case (2 c s)
  then show ?case
    by (auto split: if_splits list.splits option.splits simp: le_SucI dest!: less_imp_le) fastforce+
qed simp

text \<open>The measure of the three readers, over the text left.\<close>

definition scan_size :: "string + string + string \<Rightarrow> nat" where
  "scan_size x = (case x of Inl s \<Rightarrow> 2 * length s | Inr (Inl s) \<Rightarrow> 2 * length s + 1 | Inr (Inr s) \<Rightarrow> 2 * length s + 1)"

lemma length_skip_ws_less: "length u < n \<Longrightarrow> length (skip_ws u) < n"
  by (rule le_less_trans[OF length_skip_ws])

lemma length_skip_ws_Suc: "length (skip_ws u) < Suc (length u)"
  by (simp add: less_Suc_eq_le)

lemma members_decreases:
  assumes "json_string r = Some (k, t)" "skip_ws t = c # u"
  shows "length (skip_ws u) < Suc (length r)"
proof -
  have "length u < length r" using json_string_shorter[OF assms(1)] skip_ws_Cons[OF assms(2)] by simp
  then show ?thesis by (intro length_skip_ws_less) simp
qed

lemma scan_size_decreases:
  "s = c # r \<Longrightarrow> (Inr (Inr (skip_ws r)), Inl s) \<in> measure scan_size"
  "s = c # r \<Longrightarrow> (Inr (Inl (skip_ws r)), Inl s) \<in> measure scan_size"
  "(Inl s, Inr (Inl s)) \<in> measure scan_size"
  "b \<and> length u < length s \<Longrightarrow> (Inr (Inl (skip_ws u)), Inr (Inl s)) \<in> measure scan_size"
  "b \<and> length u < length s \<Longrightarrow> (Inr (Inr (skip_ws u)), Inr (Inr s)) \<in> measure scan_size"
  using length_skip_ws_Suc[of r] length_skip_ws_less[of u "length s"] by (auto simp: scan_size_def)

lemma scan_size_member:
  "s = q # r \<Longrightarrow> json_string r = Some x \<Longrightarrow> (k, t) = x \<Longrightarrow> skip_ws t = c # u \<Longrightarrow> (Inl (skip_ws u), Inr (Inr s)) \<in> measure scan_size"
  using members_decreases[of r k t c u] by (auto simp: scan_size_def)

text \<open>
  The guards on lengths hold whenever they are reached: a value takes at least one character.
\<close>

function json_value :: "string \<Rightarrow> (json \<times> string) option"
  and json_elems :: "string \<Rightarrow> (json list \<times> string) option"
  and json_members :: "string \<Rightarrow> ((string, json) dict \<times> string) option" where
  "json_value s =
     (case s of
        [] \<Rightarrow> None
      | c # r \<Rightarrow>
          if c = CHR 0x22 then map_option (\<lambda>(x, t). (JStr x, t)) (json_string r)
          else if c = CHR ''{'' then
            (case skip_ws r of
               [] \<Rightarrow> None
             | d # t \<Rightarrow> if d = CHR ''}'' then Some (JObj [], t)
                        else map_option (\<lambda>(kvs, u). (JObj (dict_update [] kvs), u)) (json_members (skip_ws r)))
          else if c = CHR ''['' then
            (case skip_ws r of
               [] \<Rightarrow> None
             | d # t \<Rightarrow> if d = CHR '']'' then Some (JList [], t)
                        else map_option (\<lambda>(vs, u). (JList vs, u)) (json_elems (skip_ws r)))
          else json_atom s)"
| "json_elems s =
     (case json_value s of
        None \<Rightarrow> None
      | Some (v, t) \<Rightarrow>
          (case skip_ws t of
             [] \<Rightarrow> None
           | c # u \<Rightarrow>
               if c = CHR '']'' then Some ([v], u)
               else if c = CHR '','' \<and> length u < length s
               then map_option (\<lambda>(vs, x). (v # vs, x)) (json_elems (skip_ws u)) else None))"
| "json_members s =
     (case s of
        [] \<Rightarrow> None
      | q # r \<Rightarrow>
          if q \<noteq> CHR 0x22 then None
          else (case json_string r of
             None \<Rightarrow> None
           | Some (k, t) \<Rightarrow>
               (case skip_ws t of
                  [] \<Rightarrow> None
                | c # u \<Rightarrow>
                    if c \<noteq> CHR '':'' then None
                    else (case json_value (skip_ws u) of
                       None \<Rightarrow> None
                     | Some (v, w) \<Rightarrow>
                         (case skip_ws w of
                            [] \<Rightarrow> None
                          | d # x \<Rightarrow>
                              if d = CHR ''}'' then Some ([(k, v)], x)
                              else if d = CHR '','' \<and> length x < length s
                              then map_option (\<lambda>(kvs, y). ((k, v) # kvs, y)) (json_members (skip_ws x))
                              else None)))))"
  by pat_completeness auto

termination
  apply (relation "measure scan_size")
        apply (rule wf_measure)
       apply (erule scan_size_decreases)
      apply (erule scan_size_decreases)
     apply (rule scan_size_decreases)
    apply (erule scan_size_decreases)
   apply (erule (3) scan_size_member)
  apply (erule scan_size_decreases)
  done

declare json_value.simps [simp del] json_elems.simps [simp del] json_members.simps [simp del]

definition json_loads :: "string \<Rightarrow> json result" where
  "json_loads s =
     (case json_value (skip_ws s) of
        Some (j, t) \<Rightarrow> if skip_ws t = [] then Inr j else Inl JSONDecodeError
      | None \<Rightarrow> Inl JSONDecodeError)"


section \<open>Reading what was written\<close>

text \<open>A value whose text does not depend on how floats are printed, with each key once.\<close>

fun json_plain :: "json \<Rightarrow> bool" where
  "json_plain (JFloat f) = False"
| "json_plain (JList xs) = list_all json_plain xs"
| "json_plain (JObj kvs) = (wf_dict kvs \<and> list_all (\<lambda>kv. json_plain (snd kv)) kvs)"
| "json_plain _ = True"

definition hex_nibble :: "nat \<Rightarrow> char" where
  "hex_nibble d = (if d < 10 then char_of (48 + d) else char_of (87 + d))"

lemma hex_nibble_value: "d < 16 \<Longrightarrow> hex_value (hex_nibble d) = Some d"
  by (simp add: hex_value_def hex_nibble_def is_ascii_digit_def)

lemma hex4_nibbles:
  "hex4 n = [hex_nibble (n div 4096 mod 16), hex_nibble (n div 256 mod 16), hex_nibble (n div 16 mod 16), hex_nibble (n mod 16)]"
  unfolding hex4_def hex_nibble_def Let_def by simp

lemma hex4_value_hex4: "n < 65536 \<Longrightarrow> hex4_value (hex4 n) = Some n"
proof -
  assume n: "n < 65536"
  have "hex4_value (hex4 n) = Some ((((n div 4096 mod 16) * 16 + n div 256 mod 16) * 16 + n div 16 mod 16) * 16 + n mod 16)"
    unfolding hex4_nibbles hex4_value_def by (simp only: list.map hex_nibble_value mod_less_divisor option.case list.case zero_less_numeral)
  also have "(((n div 4096 mod 16) * 16 + n div 256 mod 16) * 16 + n div 16 mod 16) * 16 + n mod 16 = n"
  proof -
    have "n div 16 div 16 = n div 256" "n div 256 div 16 = n div 4096" by (simp_all add: div_mult2_eq[symmetric])
    moreover have "n div 4096 mod 16 = n div 4096" using n by simp
    ultimately show ?thesis
      using div_mult_mod_eq[of n 16] div_mult_mod_eq[of "n div 16" 16] div_mult_mod_eq[of "n div 256" 16] by simp
  qed
  finally show ?thesis .
qed

lemma length_hex4 [simp]: "length (hex4 n) = 4"
  by (simp add: hex4_def)

lemma json_string_escape: "json_string (json_escape_char c @ s) = map_option (\<lambda>(x, t). (c # x, t)) (json_string s)"
proof (cases "c \<in> {CHR 0x22, CHR 0x5C, CHR 0x0A, CHR 0x0D, CHR 0x09, CHR 0x0C, CHR 0x08}")
  case True
  then show ?thesis by (auto simp: json_escape_char_def json_escapes_def)
next
  case False
  show ?thesis
  proof (cases "32 \<le> ord c \<and> ord c \<le> 126")
    case True
    with False show ?thesis by (simp add: json_escape_char_def)
  next
    case out: False
    have "ord c < 256" by simp
    then have "ord c < 65536" by linarith
    then have "hex4_value (hex4 (ord c)) = Some (ord c)" by (rule hex4_value_hex4)
    moreover have "json_escape_char c = [CHR 0x5C, CHR ''u''] @ hex4 (ord c)"
      using False out by (auto simp: json_escape_char_def)
    ultimately show ?thesis by simp
  qed
qed

lemma json_string_quote: "json_string (concat (map json_escape_char s) @ CHR 0x22 # t) = Some (s, t)"
  by (induction s) (simp_all add: json_string_escape)

text \<open>What may follow a number without being read as part of it.\<close>

definition ends_number :: "string \<Rightarrow> bool" where
  "ends_number t \<longleftrightarrow> t = [] \<or> (\<not> is_ascii_digit (hd t) \<and> hd t \<notin> {CHR ''.'', CHR ''e'', CHR ''E''})"

lemma ends_number_simps [simp]: "ends_number []" "ends_number (CHR '','' # t)" "ends_number (CHR '']'' # t)" "ends_number (CHR ''}'' # t)"
  by (simp_all add: ends_number_def is_ascii_digit_def)

lemma nat_digits_hd: "n \<noteq> 0 \<Longrightarrow> hd (nat_digits n) \<noteq> CHR ''0''"
proof (induction n rule: nat_digits.induct)
  case (1 n)
  show ?case
  proof (cases "n < 10")
    case True
    with 1 show ?thesis by (auto simp: nat_digits.simps[of n] dest!: arg_cong[of _ _ ord])
  next
    case False
    then have "hd (nat_digits n) = hd (nat_digits (n div 10))"
      using nat_digits_ok[of "n div 10"] by (simp add: nat_digits.simps[of n])
    with 1 False show ?thesis by simp
  qed
qed

lemma int_part_digits:
  assumes "ends_number t"
  shows "int_part (nat_digits n @ t) = (nat_digits n, t)"
proof -
  have d: "\<And>c. c \<in> set (nat_digits n) \<Longrightarrow> is_ascii_digit c" using nat_digits_ok[of n] by (auto simp: list_all_iff)
  have t: "takeWhile is_ascii_digit t = []" "dropWhile is_ascii_digit t = t"
    using assms by (cases t; auto simp: ends_number_def)+
  show ?thesis
  proof (cases "n = 0")
    case True
    have "char_of (48 :: nat) = CHR ''0''" by code_simp
    with True show ?thesis by (simp add: nat_digits.simps[of 0] int_part_def)
  next
    case False
    obtain c r where c: "nat_digits n = c # r" using nat_digits_ok[of n] by (cases "nat_digits n") auto
    with nat_digits_hd[OF False] have "c \<noteq> CHR ''0''" by simp
    moreover have "takeWhile is_ascii_digit (nat_digits n @ t) = nat_digits n" "dropWhile is_ascii_digit (nat_digits n @ t) = t"
      using d t by (simp_all add: takeWhile_append2 dropWhile_append2)
    ultimately show ?thesis using c by (simp add: int_part_def)
  qed
qed

lemma json_number_str_int:
  assumes t: "ends_number t"
  shows "json_number (str_int i @ t) = Some (JInt i, t)"
proof -
  have rest: "frac_part t = (None, t)" "exp_part t = (None, t)"
    using t by (auto simp: frac_part_def exp_part_def ends_number_def Let_def split: list.splits)
  have digits: "nat_digits n \<noteq> []" "digits_value (nat_digits n) 0 = n" "hd (nat_digits n) \<noteq> CHR ''-''" for n
  proof -
    from nat_digits_ok[of n] show "nat_digits n \<noteq> []" "digits_value (nat_digits n) 0 = n" by auto
    with nat_digits_ok[of n] show "hd (nat_digits n) \<noteq> CHR ''-''" by (cases "nat_digits n") (auto simp: is_ascii_digit_def)
  qed
  show ?thesis
  proof (cases "i < 0")
    case True
    then show ?thesis using rest digits int_part_digits[OF t, of "nat (- i)"] by (simp add: json_number_def str_int_def)
  next
    case False
    moreover obtain c r where c: "nat_digits (nat i) = c # r" using digits(1) by (metis neq_Nil_conv)
    moreover have "c \<noteq> CHR ''-''" using c digits(3)[of "nat i"] by simp
    ultimately show ?thesis using rest digits(2)[of "nat i"] int_part_digits[OF t, of "nat i"]
      by (simp add: json_number_def str_int_def)
  qed
qed

lemma str_int_hd: "\<exists>c r. str_int i = c # r \<and> (is_ascii_digit c \<or> c = CHR ''-'') \<and> (c = CHR ''-'' \<longrightarrow> (\<exists>d u. r = d # u \<and> is_ascii_digit d))"
proof -
  have "\<exists>c r. nat_digits n = c # r \<and> is_ascii_digit c" for n
    using nat_digits_ok[of n] by (cases "nat_digits n") auto
  moreover from this have "is_ascii_digit c \<Longrightarrow> c \<noteq> CHR ''-''" for c by (auto simp: is_ascii_digit_def)
  ultimately show ?thesis by (auto simp: str_int_def) metis+
qed

lemma json_atom_str_int: "ends_number t \<Longrightarrow> json_atom (str_int i @ t) = Some (JInt i, t)"
proof -
  assume t: "ends_number t"
  obtain c r where c: "str_int i = c # r" "is_ascii_digit c \<or> c = CHR ''-''" "c = CHR ''-'' \<longrightarrow> (\<exists>d u. r = d # u \<and> is_ascii_digit d)"
    using str_int_hd[of i] by (elim exE conjE)
  have "\<not> py_startswith (c # r @ t) w" if w: "w \<in> fst ` set json_words" for w
  proof (cases "c = CHR ''-''")
    case True
    with c(3) obtain d u where "r = d # u" "is_ascii_digit d" by blast
    moreover from this have "d \<noteq> CHR ''I''" by (auto simp: is_ascii_digit_def)
    moreover have "w \<in> {''null'', ''true'', ''false'', ''NaN'', ''Infinity'', ''-Infinity''}"
      using w by (simp add: json_words_def)
    ultimately show ?thesis using True by (elim insertE) (simp_all add: py_startswith_def)
  next
    case False
    with c(2) have "48 \<le> ord c" "ord c \<le> 57" by (simp_all add: is_ascii_digit_def)
    moreover have "hd w \<in> set ''ntfNI-'' \<and> w \<noteq> []" using w by (auto simp: json_words_def)
    ultimately show ?thesis using False by (cases w) (auto simp: py_startswith_def)
  qed
  then have "filter (\<lambda>(w, j). py_startswith (c # r @ t) w) json_words = []"
    by (simp add: filter_empty_conv split_beta)
  then show ?thesis using json_number_str_int[OF t, of i] c(1) by (simp add: json_atom_def)
qed


lemma skip_ws_id: "\<not> is_json_ws c \<Longrightarrow> skip_ws (c # t) = c # t"
  by (simp add: skip_ws_def)

lemma json_dumps_hd: "json_plain j \<Longrightarrow> \<exists>c r. json_dumps fr j = c # r \<and> \<not> is_json_ws c \<and> c \<notin> {CHR ''}'', CHR '']''}"
proof (cases j)
  case (JInt i)
  with str_int_hd[of i] show ?thesis by (auto simp: is_json_ws_def is_ascii_digit_def)
qed (auto simp: is_json_ws_def json_quote_def)

lemma skip_ws_dumps: "json_plain j \<Longrightarrow> skip_ws (json_dumps fr j @ t) = json_dumps fr j @ t"
  using json_dumps_hd[of j fr] skip_ws_id by auto

lemma skip_ws_comma: "skip_ws ('', '' @ s) = '', '' @ s" "skip_ws (CHR '' '' # s) = skip_ws s"
  by (simp_all add: skip_ws_def is_json_ws_def)

definition reads_back :: "(pyfloat \<Rightarrow> string) \<Rightarrow> json \<Rightarrow> bool" where
  "reads_back fr j \<longleftrightarrow> (\<forall>t. ends_number t \<longrightarrow> json_value (json_dumps fr j @ t) = Some (j, t))"

lemma json_elems_dumps:
  "xs \<noteq> [] \<Longrightarrow> (\<And>x. x \<in> set xs \<Longrightarrow> reads_back fr x \<and> json_plain x) \<Longrightarrow>
     json_elems (py_join '', '' (map (json_dumps fr) xs) @ CHR '']'' # t) = Some (xs, t)"
proof (induction xs rule: induct_list012)
  case (2 x)
  then have "json_value (json_dumps fr x @ CHR '']'' # t) = Some (x, CHR '']'' # t)" by (simp add: reads_back_def)
  then show ?case by (simp add: json_elems.simps skip_ws_id is_json_ws_def)
next
  case (3 x y zs)
  let ?rest = "py_join '', '' (map (json_dumps fr) (y # zs)) @ CHR '']'' # t"
  have "json_value (json_dumps fr x @ CHR '','' # CHR '' '' # ?rest) = Some (x, CHR '','' # CHR '' '' # ?rest)"
    using 3(4)[of x] by (simp add: reads_back_def)
  moreover have "\<exists>s. ?rest = json_dumps fr y @ s" by (cases zs) auto
  then have "skip_ws ?rest = ?rest" using skip_ws_dumps 3(4)[of y] by auto
  moreover have "json_elems ?rest = Some (y # zs, t)" using 3(2) 3(4) by simp
  ultimately show ?case
    by (simp add: json_elems.simps[of "json_dumps fr x @ _"] skip_ws_id is_json_ws_def skip_ws_comma(2))
qed simp

abbreviation member_text :: "(pyfloat \<Rightarrow> string) \<Rightarrow> string \<times> json \<Rightarrow> string" where
  "member_text fr kv \<equiv> json_quote (fst kv) @ '': '' @ json_dumps fr (snd kv)"

lemma json_member_head:
  assumes "reads_back fr v" "json_plain v" "ends_number t"
  shows "json_members (member_text fr (k, v) @ t) =
    (case skip_ws t of
       [] \<Rightarrow> None
     | d # x \<Rightarrow>
         if d = CHR ''}'' then Some ([(k, v)], x)
         else if d = CHR '','' \<and> length x < length (member_text fr (k, v) @ t)
         then map_option (\<lambda>(kvs, y). ((k, v) # kvs, y)) (json_members (skip_ws x)) else None)"
proof -
  have "json_string (concat (map json_escape_char k) @ CHR 0x22 # '': '' @ json_dumps fr v @ t) = Some (k, '': '' @ json_dumps fr v @ t)"
    by (rule json_string_quote)
  moreover have "json_value (skip_ws (CHR '' '' # json_dumps fr v @ t)) = Some (v, t)"
    using assms by (simp add: skip_ws_comma(2) skip_ws_dumps reads_back_def)
  ultimately show ?thesis
    by (subst json_members.simps) (simp add: json_quote_def skip_ws_id is_json_ws_def)
qed

lemma json_members_dumps:
  "kvs \<noteq> [] \<Longrightarrow> (\<And>kv. kv \<in> set kvs \<Longrightarrow> reads_back fr (snd kv) \<and> json_plain (snd kv)) \<Longrightarrow>
     json_members (py_join '', '' (map (member_text fr) kvs) @ CHR ''}'' # t) = Some (kvs, t)"
proof (induction kvs rule: induct_list012)
  case (2 kv)
  obtain k v where kv: "kv = (k, v)" by (cases kv)
  show ?case using json_member_head[of fr v "CHR ''}'' # t" k] 2 by (simp add: kv skip_ws_id is_json_ws_def)
next
  case (3 kv y zs)
  obtain k v where kv: "kv = (k, v)" by (cases kv)
  let ?rest = "py_join '', '' (map (member_text fr) (y # zs)) @ CHR ''}'' # t"
  have "\<exists>s. ?rest = member_text fr y @ s" by (cases zs) auto
  then have "skip_ws ?rest = ?rest" by (auto simp: json_quote_def skip_ws_id is_json_ws_def)
  moreover have "json_members ?rest = Some (y # zs, t)" using 3(2) 3(4) by simp
  moreover have "py_join '', '' (map (member_text fr) (kv # y # zs)) @ CHR ''}'' # t = member_text fr (k, v) @ CHR '','' # CHR '' '' # ?rest"
    by (simp add: kv)
  ultimately show ?case using json_member_head[of fr v "CHR '','' # CHR '' '' # ?rest" k] 3(4)[of kv]
    by (simp only:) (simp add: kv skip_ws_id is_json_ws_def skip_ws_comma(2))
qed simp

lemma dict_update_wf: "wf_dict kvs \<Longrightarrow> dict_update [] kvs = kvs"
proof -
  have upd: "k \<notin> fst ` set d \<Longrightarrow> AList.update k v d = d @ [(k, v)]" for k :: 'a and v :: 'b and d
    by (induction d) auto
  have "wf_dict (d @ kvs) \<Longrightarrow> dict_update d kvs = d @ kvs" for d :: "('a \<times> 'b) list"
  proof (induction kvs arbitrary: d)
    case (Cons kv kvs)
    then have "dict_update (d @ [kv]) kvs = (d @ [kv]) @ kvs" by (intro Cons.IH) simp
    moreover have "AList.update (fst kv) (snd kv) d = d @ [kv]" using Cons.prems by (subst upd) auto
    ultimately show ?case by (simp add: dict_update_def split_beta)
  qed (simp add: dict_update_def)
  from this[of "[]"] show "wf_dict kvs \<Longrightarrow> dict_update [] kvs = kvs" by simp
qed

lemma reads_back_plain: "json_plain j \<Longrightarrow> reads_back fr j"
proof (induction j)
  case (JList xs)
  then have xs: "\<And>x. x \<in> set xs \<Longrightarrow> reads_back fr x \<and> json_plain x" by (auto simp: list_all_iff)
  show ?case
  proof (cases xs)
    case (Cons x ys)
    have "\<exists>s. py_join '', '' (map (json_dumps fr) xs) = json_dumps fr x @ s" using Cons by (cases ys) auto
    then obtain c r where c: "py_join '', '' (map (json_dumps fr) xs) = c # r" "\<not> is_json_ws c" "c \<noteq> CHR '']''"
      using json_dumps_hd[of x fr] xs Cons by auto
    show ?thesis
      unfolding reads_back_def
    proof (intro allI impI)
      fix t :: string
      have "json_elems (c # r @ CHR '']'' # t) = Some (xs, t)"
        using json_elems_dumps[of xs fr t] xs Cons c(1) by simp
      with c show "json_value (json_dumps fr (JList xs) @ t) = Some (JList xs, t)"
        by (simp add: json_value.simps skip_ws_id)
    qed
  qed (simp add: reads_back_def json_value.simps skip_ws_id is_json_ws_def)
next
  case (JObj kvs)
  then have kvs: "\<And>kv. kv \<in> set kvs \<Longrightarrow> reads_back fr (snd kv) \<and> json_plain (snd kv)" and wf: "wf_dict kvs"
    by (auto simp: list_all_iff)
  show ?case
  proof (cases kvs)
    case (Cons kv rest)
    have "\<exists>r. py_join '', '' (map (member_text fr) kvs) = CHR 0x22 # r" using Cons by (cases rest) (auto simp: json_quote_def)
    then obtain r where r: "py_join '', '' (map (member_text fr) kvs) = CHR 0x22 # r" by blast
    show ?thesis
      unfolding reads_back_def
    proof (intro allI impI)
      fix t :: string
      have "json_members (CHR 0x22 # r @ CHR ''}'' # t) = Some (kvs, t)"
        using json_members_dumps[of kvs fr t] kvs Cons r by simp
      with r wf show "json_value (json_dumps fr (JObj kvs) @ t) = Some (JObj kvs, t)"
        by (simp add: json_value.simps skip_ws_id is_json_ws_def dict_update_wf)
    qed
  qed (simp add: reads_back_def json_value.simps skip_ws_id is_json_ws_def)
next
  case (JInt i)
  show ?case
    unfolding reads_back_def
  proof (intro allI impI)
    fix t :: string
    assume "ends_number t"
    then have "json_atom (str_int i @ t) = Some (JInt i, t)" by (rule json_atom_str_int)
    moreover obtain c r where "str_int i = c # r" "is_ascii_digit c \<or> c = CHR ''-''" using str_int_hd[of i] by (elim exE conjE)
    ultimately show "json_value (json_dumps fr (JInt i) @ t) = Some (JInt i, t)"
      by (auto simp: json_value.simps is_ascii_digit_def)
  qed
next
  case (JStr s)
  show ?case
    using json_string_quote by (simp add: reads_back_def json_value.simps json_quote_def)
qed (auto simp: reads_back_def json_value.simps json_atom_def json_words_def py_startswith_def)

section \<open>Properties\<close>

text \<open>
  Reading a dumped value gives it back. For every value without floats whose objects hold each key once,
  \<^verbatim>\<open>json.loads(json.dumps(x)) == x\<close>, whitespace around the text included, whatever the characters of its
  strings.
\<close>

theorem json_roundtrip:
  assumes "json_plain j"
  shows "json_loads (json_dumps fr j) = Inr j"
  using reads_back_plain[OF assms, of fr, unfolded reads_back_def, rule_format, of "[]"] skip_ws_dumps[OF assms, of fr "[]"]
  by (simp add: json_loads_def skip_ws_def)

theorem json_roundtrip_witness:
  "json_loads (json_dumps (\<lambda>f. []) (JObj [(''a'', JList [JInt (- 7), JStr [CHR 0x22, CHR 0x0A, CHR 0xE9]]), (''b'', JNull)]))
     = Inr (JObj [(''a'', JList [JInt (- 7), JStr [CHR 0x22, CHR 0x0A, CHR 0xE9]]), (''b'', JNull)])"
  by (rule json_roundtrip) simp

end
