(* ===== verification/Base64.thy ===== *)
theory Base64
  imports Runtime Sha256
begin

text \<open>
  Python's \<^verbatim>\<open>base64\<close> module, as the sources use it: \<^verbatim>\<open>b64encode\<close>, \<^verbatim>\<open>urlsafe_b64encode\<close> and the lenient
  decoder behind \<^verbatim>\<open>b64decode\<close>, which skips characters outside the alphabet and stops at a complete
  padding.
\<close>

section \<open>Encoding\<close>

definition b64_char :: "nat \<Rightarrow> char" where
  "b64_char n =
     (if n < 26 then char_of (65 + n) else if n < 52 then char_of (71 + n)
      else if n < 62 then char_of (n - 4) else if n = 62 then CHR ''+'' else CHR ''/'')"

definition b64_index :: "char \<Rightarrow> nat option" where
  "b64_index c =
     (let n = ord c in
      if 65 \<le> n \<and> n \<le> 90 then Some (n - 65) else if 97 \<le> n \<and> n \<le> 122 then Some (n - 71)
      else if 48 \<le> n \<and> n \<le> 57 then Some (n + 4)
      else if c = CHR ''+'' then Some 62 else if c = CHR ''/'' then Some 63 else None)"

fun b64encode :: "bytes \<Rightarrow> string" where
  "b64encode [] = []"
| "b64encode [a] = [b64_char (unat a div 4), b64_char (unat a mod 4 * 16), CHR ''='', CHR ''='']"
| "b64encode [a, b] =
     [b64_char (unat a div 4), b64_char (unat a mod 4 * 16 + unat b div 16), b64_char (unat b mod 16 * 4), CHR ''='']"
| "b64encode (a # b # c # r) =
     [b64_char (unat a div 4), b64_char (unat a mod 4 * 16 + unat b div 16),
      b64_char (unat b mod 16 * 4 + unat c div 64), b64_char (unat c mod 64)] @ b64encode r"

definition urlsafe_char :: "char \<Rightarrow> char" where
  "urlsafe_char c = (if c = CHR ''+'' then CHR ''-'' else if c = CHR ''/'' then CHR ''_'' else c)"

definition urlsafe_b64encode :: "bytes \<Rightarrow> string" where
  "urlsafe_b64encode bs = map urlsafe_char (b64encode bs)"

section \<open>Decoding\<close>

text \<open>
  \<^verbatim>\<open>binascii.a2b_base64\<close> in its lenient mode: the position in the current group of four, the bits left
  over from the last character, and the padding characters seen in a row.
\<close>

fun a2b_base64 :: "nat \<Rightarrow> nat \<Rightarrow> nat \<Rightarrow> string \<Rightarrow> bytes result" where
  "a2b_base64 quad left pads [] = (if quad = 0 then Inr [] else Inl ValueError)"
| "a2b_base64 quad left pads (c # s) =
     (if c = CHR ''='' then
        if 2 \<le> quad then (if 4 \<le> quad + (pads + 1) then Inr [] else a2b_base64 quad left (pads + 1) s)
        else a2b_base64 quad left pads s
      else (case b64_index c of
              None \<Rightarrow> a2b_base64 quad left pads s
            | Some v \<Rightarrow>
                if quad = 0 then a2b_base64 1 v 0 s
                else if quad = 1 then rbind (a2b_base64 2 (v mod 16) 0 s) (\<lambda>bs. Inr (of_nat (left * 4 + v div 16) # bs))
                else if quad = 2 then rbind (a2b_base64 3 (v mod 4) 0 s) (\<lambda>bs. Inr (of_nat (left * 16 + v div 4) # bs))
                else rbind (a2b_base64 0 0 0 s) (\<lambda>bs. Inr (of_nat (left * 64 + v) # bs))))"

text \<open>\<^verbatim>\<open>base64.b64decode(s)\<close> of a string, which must be ASCII.\<close>

definition b64decode :: "string \<Rightarrow> bytes result" where
  "b64decode s = (if list_all (\<lambda>c. ord c < 128) s then a2b_base64 0 0 0 s else Inl ValueError)"

section \<open>Round trip\<close>

lemma b64_index_char: "n < 64 \<Longrightarrow> b64_index (b64_char n) = Some n"
  by (auto simp: b64_index_def b64_char_def Let_def)

lemma b64_char_not_pad: "n < 64 \<Longrightarrow> b64_char n \<noteq> CHR ''='' \<and> ord (b64_char n) < 128"
proof -
  assume "n < 64"
  moreover have "list_all (\<lambda>n. b64_char n \<noteq> CHR ''='' \<and> ord (b64_char n) < 128) [0..<64]" by code_simp
  ultimately show ?thesis unfolding list_all_iff set_upt by (meson atLeastLessThan_iff zero_le)
qed

lemma a2b_step:
  assumes "v < 64"
  shows "a2b_base64 0 left pads (b64_char v # s) = a2b_base64 1 v 0 s"
    "a2b_base64 (Suc 0) left pads (b64_char v # s) = rbind (a2b_base64 2 (v mod 16) 0 s) (\<lambda>bs. Inr (of_nat (left * 4 + v div 16) # bs))"
    "a2b_base64 2 left pads (b64_char v # s) = rbind (a2b_base64 3 (v mod 4) 0 s) (\<lambda>bs. Inr (of_nat (left * 16 + v div 4) # bs))"
    "a2b_base64 3 left pads (b64_char v # s) = rbind (a2b_base64 0 0 0 s) (\<lambda>bs. Inr (of_nat (left * 64 + v) # bs))"
  using b64_index_char[OF assms] b64_char_not_pad[OF assms] by simp_all

lemma byte_bounds: "unat (a :: byte) < 256" "unat a div 4 < 64" "unat a mod 4 * 16 < 64" "unat a mod 16 * 4 < 64" "unat a mod 64 < 64"
proof -
  show a: "unat a < 256" using unsigned_less[of a, where 'a = nat] by simp
  then show "unat a div 4 < 64" by (simp add: less_mult_imp_div_less)
  show "unat a mod 4 * 16 < 64" "unat a mod 16 * 4 < 64" by simp_all
  show "unat a mod 64 < 64" by simp
qed

lemma sextet_bounds: "unat (a :: byte) mod 4 * 16 + unat (b :: byte) div 16 < 64" "unat a mod 16 * 4 + unat b div 64 < 64"
proof -
  have b: "unat b < 256" by (rule byte_bounds)
  then have "unat b div 16 < 16" "unat b div 64 < 4" by (simp_all add: less_mult_imp_div_less)
  moreover have "unat a mod 4 < 4" "unat a mod 16 < 16" by simp_all
  ultimately show "unat a mod 4 * 16 + unat b div 16 < 64" "unat a mod 16 * 4 + unat b div 64 < 64" by linarith+
qed

lemma octets:
  "(of_nat (unat a div 4 * 4 + (unat a mod 4 * 16 + unat b div 16) div 16) :: byte) = a"
  "(of_nat ((unat a mod 4 * 16 + unat b div 16) mod 16 * 16 + (unat b mod 16 * 4 + unat c div 64) div 4) :: byte) = b"
  "(of_nat ((unat b mod 16 * 4 + unat c div 64) mod 4 * 64 + unat c mod 64) :: byte) = c"
  for a b c :: byte
proof -
  have bc: "unat b div 16 < 16" "unat c div 64 < 4"
    using byte_bounds(1)[of b] byte_bounds(1)[of c] by (simp_all add: less_mult_imp_div_less)
  have "unat a div 4 * 4 + (unat a mod 4 * 16 + unat b div 16) div 16 = unat a" using bc(1) by simp
  then show "(of_nat (unat a div 4 * 4 + (unat a mod 4 * 16 + unat b div 16) div 16) :: byte) = a" by simp
  have "(unat a mod 4 * 16 + unat b div 16) mod 16 * 16 + (unat b mod 16 * 4 + unat c div 64) div 4 = unat b"
    using bc by (simp add: mod_mult_self4 mult.commute)
  then show "(of_nat ((unat a mod 4 * 16 + unat b div 16) mod 16 * 16 + (unat b mod 16 * 4 + unat c div 64) div 4) :: byte) = b"
    by simp
  have "(unat b mod 16 * 4 + unat c div 64) mod 4 * 64 + unat c mod 64 = unat c"
    using bc(2) by (simp add: mod_mult_self4 mult.commute)
  then show "(of_nat ((unat b mod 16 * 4 + unat c div 64) mod 4 * 64 + unat c mod 64) :: byte) = c" by simp
qed

lemma octets_end:
  "(of_nat (unat a div 4 * 4 + unat a mod 4 * 16 div 16) :: byte) = a"
  "(of_nat ((unat a mod 4 * 16 + unat b div 16) mod 16 * 16 + unat b mod 16 * 4 div 4) :: byte) = b"
  for a b :: byte
  using octets(1)[of a 0] octets(2)[of a b 0] by simp_all

lemma a2b_b64encode: "a2b_base64 0 0 0 (b64encode bs) = Inr bs"
proof (induction bs rule: b64encode.induct)
  case (2 a)
  show ?case using byte_bounds(2,3)[of a] octets_end(1)[of a] by (simp add: a2b_step del: a2b_base64.simps(2)) simp
next
  case (3 a b)
  show ?case using byte_bounds(2)[of a] byte_bounds(4)[of b] sextet_bounds(1)[of a b] octets(1)[of a b] octets_end(2)[of a b]
    by (simp add: a2b_step del: a2b_base64.simps(2)) simp
next
  case (4 a b c r)
  show ?case
    using 4 byte_bounds(2)[of a] byte_bounds(5)[of c] sextet_bounds(1)[of a b] sextet_bounds(2)[of b c] octets(1)[of a b] octets(2)[of a b c] octets(3)[of b c]
    by (simp add: a2b_step del: a2b_base64.simps(2))
qed simp

lemma b64encode_ascii: "c \<in> set (b64encode bs) \<Longrightarrow> ord c < 128"
proof (induction bs rule: b64encode.induct)
  case (2 a)
  then show ?case using byte_bounds[of a] b64_char_not_pad by auto
next
  case (3 a b)
  then show ?case using byte_bounds[of a] byte_bounds[of b] sextet_bounds(1)[of a b] b64_char_not_pad by auto
next
  case (4 a b c r)
  then show ?case using byte_bounds[of a] byte_bounds[of c] sextet_bounds(1)[of a b] sextet_bounds(2)[of b c] b64_char_not_pad by auto
qed simp

text \<open>Decoding an encoding gives the bytes back.\<close>

theorem b64_roundtrip: "b64decode (b64encode bs) = Inr bs"
  using b64encode_ascii[of _ bs] a2b_b64encode by (simp add: b64decode_def list_all_iff)

end
