(* ===== verification/Receipts.thy ===== *)
theory Receipts
  imports Json Base64 Token_Manager
begin

text \<open>
  playground/scenarios/\_receipts.py: DID documents with current and retired keys, the one signing
  construction the minted artifacts share, the model of a served body, and the four mint helpers.

  The SDK's canonicaliser and verifier are parameters (\<open>sdk\<close>), and so are the texts Python gives a
  float (\<open>fr\<close>) and an exception (\<open>str_exn\<close>).
\<close>

section \<open>DID documents\<close>

record sdk =
  canonicalize :: "string \<Rightarrow> string result"
  verify_body_offline :: "string \<Rightarrow> unit result"
  verify_content_hash :: "string \<Rightarrow> json \<Rightarrow> unit result"

type_synonym obj = "(string, json) dict"

definition ed25519_jwk_vm :: "json \<Rightarrow> string \<Rightarrow> string \<Rightarrow> obj result" where
  "ed25519_jwk_vm kid controller pub =
     rbind (b64decode pub) (\<lambda>raw.
       let x = rstrip_char CHR ''='' (urlsafe_b64encode raw) in
       Inr [(''id'', kid), (''type'', JStr ''JsonWebKey2020''), (''controller'', JStr controller),
            (''publicKeyJwk'', JObj [(''kty'', JStr ''OKP''), (''crv'', JStr ''Ed25519''), (''x'', JStr x)])])"

fun vm_ids :: "obj list \<Rightarrow> json list result" where
  "vm_ids [] = Inr []"
| "vm_ids (vm # vms) =
     (case map_of vm ''id'' of None \<Rightarrow> Inl KeyError | Some i \<Rightarrow> rbind (vm_ids vms) (\<lambda>is. Inr (i # is)))"

definition did_document_value :: "string \<Rightarrow> obj list \<Rightarrow> obj list option \<Rightarrow> json result" where
  "did_document_value did current retired =
     (let vms = (case retired of None \<Rightarrow> [] | Some r \<Rightarrow> r) @ current in
      rbind (vm_ids current) (\<lambda>ids.
        Inr (JObj [(''@context'', JList [JStr ''https://www.w3.org/ns/did/v1'']), (''id'', JStr did),
                   (''verificationMethod'', JList (map JObj vms)), (''assertionMethod'', JList ids)])))"

definition did_document :: "(pyfloat \<Rightarrow> string) \<Rightarrow> string \<Rightarrow> obj list \<Rightarrow> obj list option \<Rightarrow> string result" where
  "did_document fr did current retired =
     rbind (did_document_value did current retired) (\<lambda>doc. Inr (json_dumps fr doc))"

section \<open>Signing\<close>

text \<open>The string the signature covers, for an object without its signature.\<close>

definition preimage :: "(pyfloat \<Rightarrow> string) \<Rightarrow> sdk \<Rightarrow> obj \<Rightarrow> string result" where
  "preimage fr sdk x =
     rbind (canonicalize sdk (json_dumps fr (JObj x))) (\<lambda>canonical.
       Inr (''sha256:'' @ hexdigest (sha256 (utf8_encode canonical))))"

definition signed :: "(pyfloat \<Rightarrow> string) \<Rightarrow> sdk \<Rightarrow> obj \<Rightarrow> producer \<Rightarrow> string \<Rightarrow> obj result" where
  "signed fr sdk x signer kid =
     rbind (preimage fr sdk x) (\<lambda>p.
     rbind (sign_challenge signer (JStr p)) (\<lambda>sig.
       Inr (AList.update ''signature''
              (JObj [(''algorithm'', JStr ''ed25519''), (''key_id'', JStr kid), (''value'', JStr sig)]) x)))"

section \<open>The body a registry would serve\<close>

definition MS_RFC3339 :: string where
  "MS_RFC3339 = ''dddd-dd-ddTdd:dd:dd.dddZ''"

definition ms_rfc3339_match :: "string \<Rightarrow> bool" where
  "ms_rfc3339_match s \<longleftrightarrow> list_all2 (\<lambda>p c. if p = CHR ''d'' then is_ascii_digit c else c = p) MS_RFC3339 s"

definition REGISTRY_ONLY_FIELDS :: "string list" where
  "REGISTRY_ONLY_FIELDS = [''ctx_id'', ''origin_registry'', ''created_at'']"

definition OFFLINE_KEY_RESOLUTION :: string where
  "OFFLINE_KEY_RESOLUTION = ''key resolution failed:''"

text \<open>\<^verbatim>\<open>k in x\<close> for a decoded value.\<close>

fun py_in :: "string \<Rightarrow> json \<Rightarrow> bool result" where
  "py_in k (JObj kvs) = Inr (map_of kvs k \<noteq> None)"
| "py_in k (JList xs) = Inr (JStr k \<in> set xs)"
| "py_in k (JStr s) = Inr (py_contains k s)"
| "py_in k _ = Inl TypeError"

fun collisions :: "json \<Rightarrow> string list \<Rightarrow> string list result" where
  "collisions request [] = Inr []"
| "collisions request (f # fs) =
     rbind (py_in f request) (\<lambda>hit. rbind (collisions request fs) (\<lambda>rest. Inr (if hit then f # rest else rest)))"

text \<open>\<^verbatim>\<open>str(request.get("agent_id", "")).startswith("did:key:")\<close>: the text of a value that is no string begins otherwise.\<close>

definition did_key_agent :: "obj \<Rightarrow> bool" where
  "did_key_agent request =
     (case map_of request ''agent_id'' of Some (JStr a) \<Rightarrow> py_startswith a ''did:key:'' | _ \<Rightarrow> False)"

definition offline_check :: "(exn \<Rightarrow> string) \<Rightarrow> sdk \<Rightarrow> obj \<Rightarrow> string \<Rightarrow> unit result" where
  "offline_check str_exn sdk request body_json =
     (case verify_body_offline sdk body_json of
        Inr _ \<Rightarrow> Inr ()
      | Inl e \<Rightarrow>
          if is_RuntimeError e \<and> \<not> (did_key_agent request \<or> \<not> py_contains OFFLINE_KEY_RESOLUTION (str_exn e))
          then Inr () else Inl e)"

definition served_body :: "obj \<Rightarrow> string \<Rightarrow> string \<Rightarrow> string \<Rightarrow> string \<Rightarrow> obj" where
  "served_body request ctx_id lineage_id origin_registry created_at =
     dict_update request [(''ctx_id'', JStr ctx_id), (''lineage_id'', JStr lineage_id),
       (''origin_registry'', JStr origin_registry), (''created_at'', JStr created_at)]"

definition synthesize_retrieval_body ::
  "(pyfloat \<Rightarrow> string) \<Rightarrow> (exn \<Rightarrow> string) \<Rightarrow> sdk \<Rightarrow> string \<Rightarrow> string \<Rightarrow> string \<Rightarrow> string \<Rightarrow> string \<Rightarrow> obj result" where
  "synthesize_retrieval_body fr str_exn sdk publish_request_json ctx_id lineage_id origin_registry created_at =
     (if \<not> ms_rfc3339_match created_at then Inl ValueError
      else rbind (json_loads publish_request_json) (\<lambda>request.
           rbind (collisions request REGISTRY_ONLY_FIELDS) (\<lambda>cs.
             if cs \<noteq> [] then Inl ValueError
             else (case request of
                JObj req \<Rightarrow>
                  let declared = obj_get req ''lineage_id'' in
                  if declared \<noteq> JNull \<and> declared \<noteq> JStr lineage_id then Inl ValueError
                  else let body = served_body req ctx_id lineage_id origin_registry created_at;
                           body_json = json_dumps fr (JObj body) in
                       rbind (offline_check str_exn sdk req body_json) (\<lambda>_.
                       rbind (json_index (JObj body) ''content_hash'') (\<lambda>h.
                       rbind (verify_content_hash sdk body_json h) (\<lambda>_. Inr body)))
              | _ \<Rightarrow> Inl AttributeError))))"

section \<open>Minting\<close>

definition mint_receipt ::
  "(pyfloat \<Rightarrow> string) \<Rightarrow> sdk \<Rightarrow> producer \<Rightarrow> string \<Rightarrow> string \<Rightarrow> string \<Rightarrow> string \<Rightarrow> string \<Rightarrow> string \<Rightarrow> json \<Rightarrow> json
     \<Rightarrow> obj result" where
  "mint_receipt fr sdk signer kid registry_did ctx_id lineage_id origin_registry created_at content_hash key_fingerprint =
     signed fr sdk
       [(''registry_did'', JStr registry_did), (''ctx_id'', JStr ctx_id), (''lineage_id'', JStr lineage_id),
        (''origin_registry'', JStr origin_registry), (''created_at'', JStr created_at),
        (''content_hash'', content_hash), (''key_fingerprint'', key_fingerprint)] signer kid"

definition mint_lifecycle_event ::
  "(pyfloat \<Rightarrow> string) \<Rightarrow> sdk \<Rightarrow> producer \<Rightarrow> string \<Rightarrow> string \<Rightarrow> string \<Rightarrow> string \<Rightarrow> string option \<Rightarrow> string option
     \<Rightarrow> obj result" where
  "mint_lifecycle_event fr sdk signer event_id ctx_id event_type occurred_at reason kid =
     signed fr sdk
       ([(''event_id'', JStr event_id), (''ctx_id'', JStr ctx_id), (''event_type'', JStr event_type),
         (''occurred_at'', JStr occurred_at), (''actor'', JStr (agent_did signer))]
        @ (case reason of None \<Rightarrow> [] | Some r \<Rightarrow> [(''reason'', JStr r)]))
       signer (case kid of Some (c # k) \<Rightarrow> c # k | _ \<Rightarrow> key_id signer)"

definition mint_lineage_head_receipt ::
  "(pyfloat \<Rightarrow> string) \<Rightarrow> sdk \<Rightarrow> producer \<Rightarrow> string \<Rightarrow> string \<Rightarrow> string \<Rightarrow> string \<Rightarrow> int \<Rightarrow> string \<Rightarrow> string
     \<Rightarrow> obj result" where
  "mint_lineage_head_receipt fr sdk signer kid registry_did lineage_id head_ctx_id head_version head_status as_of =
     signed fr sdk
       [(''receipt_version'', JStr ''acdp-lhr/1''), (''registry_did'', JStr registry_did), (''lineage_id'', JStr lineage_id),
        (''head_ctx_id'', JStr head_ctx_id), (''head_version'', JInt head_version), (''head_status'', JStr head_status),
        (''as_of'', JStr as_of)] signer kid"

definition mint_log_checkpoint ::
  "(pyfloat \<Rightarrow> string) \<Rightarrow> sdk \<Rightarrow> producer \<Rightarrow> string \<Rightarrow> string \<Rightarrow> int \<Rightarrow> json \<Rightarrow> string \<Rightarrow> obj result" where
  "mint_log_checkpoint fr sdk signer kid log_id tree_size root_hash timestamp =
     signed fr sdk
       [(''checkpoint_version'', JStr ''acdp-log/1''), (''log_id'', JStr log_id), (''tree_size'', JInt tree_size),
        (''root_hash'', root_hash), (''timestamp'', JStr timestamp)] signer kid"

section \<open>Lemmas\<close>

lemma update_new_key: "k \<notin> fst ` set d \<Longrightarrow> AList.update k v d = d @ [(k, v)]"
  by (induction d) auto

lemma collisions_obj: "collisions (JObj req) fs = Inr (filter (\<lambda>f. map_of req f \<noteq> None) fs)"
  by (induction fs) auto

text \<open>
  What a verifier recomputes from an artifact alone, written out: take the members other than \<open>signature\<close>, canonicalise their JSON text,
  hash its UTF-8 bytes with SHA-256; the value under \<open>signature\<close> must be the signer's answer to the text \<^verbatim>\<open>sha256:<hex>\<close>, under the named key.
\<close>

definition unsigned :: "obj \<Rightarrow> obj" where
  "unsigned art = filter (\<lambda>(k, v). k \<noteq> ''signature'') art"

definition carries_signature :: "(pyfloat \<Rightarrow> string) \<Rightarrow> sdk \<Rightarrow> producer \<Rightarrow> string \<Rightarrow> obj \<Rightarrow> bool" where
  "carries_signature fr sdk signer kid art \<longleftrightarrow>
     (\<exists>canonical sig. canonicalize sdk (json_dumps fr (JObj (unsigned art))) = Inr canonical
        \<and> sign_challenge signer (JStr (''sha256:'' @ hexdigest (sha256 (utf8_encode canonical)))) = Inr sig
        \<and> map_of art ''signature'' = Some (JObj [(''algorithm'', JStr ''ed25519''), (''key_id'', JStr kid), (''value'', JStr sig)]))"

lemma preimage_Inr: "preimage fr sdk x = Inr p \<longleftrightarrow>
    (\<exists>canonical. canonicalize sdk (json_dumps fr (JObj x)) = Inr canonical \<and> p = ''sha256:'' @ hexdigest (sha256 (utf8_encode canonical)))"
  by (auto simp: preimage_def rbind_eq_Inr)

lemma signed_iff:
  assumes "''signature'' \<notin> fst ` set x"
  shows "signed fr sdk x signer kid = Inr art \<longleftrightarrow>
    (\<exists>v. art = x @ [(''signature'', v)]) \<and> carries_signature fr sdk signer kid art"
proof -
  have plain: "unsigned (x @ [(''signature'', v)]) = x" for v
    using assms by (force simp: unsigned_def filter_id_conv)
  have none: "map_of x ''signature'' = None" using map_of_eq_None_iff[of x "''signature''"] assms by simp
  show ?thesis unfolding carries_signature_def signed_def
    by (auto simp: rbind_eq_Inr preimage_Inr update_new_key[OF assms] plain map_add_def none)
qed

text \<open>The members are the ones given.\<close>

lemma signed_unsigned:
  assumes "signed fr sdk x signer kid = Inr art" "''signature'' \<notin> fst ` set x"
  shows "unsigned art = x \<and> carries_signature fr sdk signer kid art"
  using assms(1) unfolding signed_iff[OF assms(2)] using assms(2) by (force simp: unsigned_def filter_id_conv)

lemma signed_returns:
  "(\<exists>art. signed fr sdk x signer kid = Inr art) \<longleftrightarrow>
     (\<exists>p sig. preimage fr sdk x = Inr p \<and> sign_challenge signer (JStr p) = Inr sig)"
  by (auto simp: signed_def rbind_eq_Inr)

lemma vm_ids_Inr: "vm_ids vms = Inr is \<longleftrightarrow> map (\<lambda>vm. map_of vm ''id'') vms = map Some is"
  by (induction vms arbitrary: "is") (auto simp: rbind_eq_Inr Cons_eq_map_conv split: option.splits)

lemma ed25519_jwk_vm_plain:
  "ed25519_jwk_vm kid controller pub = Inr vm \<Longrightarrow> json_plain kid \<Longrightarrow> json_plain (JObj vm) \<and> map_of vm ''id'' = Some kid"
  by (auto simp: ed25519_jwk_vm_def Let_def rbind_eq_Inr)

lemma py_contains_iff: "py_contains p s \<longleftrightarrow> (\<exists>a b. s = a @ p @ b)"
proof (induction s)
  case (Cons c s)
  have "(\<exists>a b. c # s = a @ p @ b) \<longleftrightarrow> (\<exists>b. c # s = p @ b) \<or> (\<exists>a b. s = a @ p @ b)"
    by (metis append_Cons append_Nil list.inject neq_Nil_conv)
  with Cons show ?case by (simp add: py_startswith_iff)
qed auto

lemma map_of_served_body:
  "map_of (served_body req c l og ca) k =
     (if k = ''created_at'' then Some (JStr ca) else if k = ''origin_registry'' then Some (JStr og)
      else if k = ''lineage_id'' then Some (JStr l) else if k = ''ctx_id'' then Some (JStr c) else map_of req k)"
  by (simp add: served_body_def map_of_dict_update map_add_def)

section \<open>Properties\<close>

text \<open>The pattern of the timestamp, field by field.\<close>

definition ms_timestamp :: "string \<Rightarrow> bool" where
  "ms_timestamp t \<longleftrightarrow> (\<exists>fields. map length fields = [4, 2, 2, 2, 2, 2, 3] \<and> list_all (list_all is_ascii_digit) fields
     \<and> t = concat (map2 (@) fields [''-'', ''-'', ''T'', '':'', '':'', ''.'', ''Z'']))"

lemma ms_rfc3339_fields: "ms_rfc3339_match t \<longleftrightarrow> ms_timestamp t"
proof
  assume "ms_rfc3339_match t"
  then obtain y0 y1 y2 y3 m0 m1 d0 d1 h0 h1 i0 i1 s0 s1 f0 f1 f2 where
    "t = [y0, y1, y2, y3, CHR ''-'', m0, m1, CHR ''-'', d0, d1, CHR ''T'', h0, h1, CHR '':'', i0, i1, CHR '':'', s0, s1, CHR ''.'', f0, f1, f2, CHR ''Z'']"
    "list_all is_ascii_digit [y0, y1, y2, y3, m0, m1, d0, d1, h0, h1, i0, i1, s0, s1, f0, f1, f2]"
    unfolding ms_rfc3339_match_def MS_RFC3339_def by (auto simp: list_all2_Cons1)
  then show "ms_timestamp t" unfolding ms_timestamp_def
    by (intro exI[of _ "[[y0, y1, y2, y3], [m0, m1], [d0, d1], [h0, h1], [i0, i1], [s0, s1], [f0, f1, f2]]"]) simp
next
  assume "ms_timestamp t"
  then show "ms_rfc3339_match t" unfolding ms_rfc3339_match_def MS_RFC3339_def ms_timestamp_def
    by (auto simp: length_Suc_conv numeral_eq_Suc)
qed

text \<open>The one refusal of the offline check that is tolerated: the key of an agent that is no \<^verbatim>\<open>did:key\<close> cannot be resolved offline.\<close>

definition unresolvable :: "(exn \<Rightarrow> string) \<Rightarrow> obj \<Rightarrow> exn \<Rightarrow> bool" where
  "unresolvable str_exn req e \<longleftrightarrow> is_RuntimeError e \<and> (\<exists>a b. str_exn e = a @ ''key resolution failed:'' @ b)
     \<and> (\<nexists>rest. map_of req ''agent_id'' = Some (JStr (''did:key:'' @ rest)))"

definition well_posed :: "obj \<Rightarrow> string \<Rightarrow> string \<Rightarrow> bool" where
  "well_posed req lineage_id created_at \<longleftrightarrow> ms_timestamp created_at
     \<and> (\<forall>f \<in> {''ctx_id'', ''origin_registry'', ''created_at''}. map_of req f = None)
     \<and> map_of req ''lineage_id'' \<in> {None, Some JNull, Some (JStr lineage_id)}"

lemma offline_check_outcome:
  "offline_check str_exn sdk req bj =
     (case verify_body_offline sdk bj of Inr _ \<Rightarrow> Inr () | Inl e \<Rightarrow> if unresolvable str_exn req e then Inr () else Inl e)"
proof -
  have "did_key_agent req \<longleftrightarrow> (\<exists>rest. map_of req ''agent_id'' = Some (JStr (''did:key:'' @ rest)))"
    by (auto simp: did_key_agent_def py_startswith_iff split: option.splits json.splits)
  moreover have "py_contains OFFLINE_KEY_RESOLUTION x \<longleftrightarrow> (\<exists>a b. x = a @ ''key resolution failed:'' @ b)" for x
    by (simp add: OFFLINE_KEY_RESOLUTION_def py_contains_iff)
  ultimately show ?thesis by (auto simp: offline_check_def unresolvable_def split: sum.splits)
qed

text \<open>
  C27. A synthesised body is the producer's request with exactly the registry's four fields set, and only for a request the SDK stands by.
  For a request that is an object the helper returns a body exactly when the timestamp is \<^verbatim>\<open>YYYY-MM-DDTHH:MM:SS.mmmZ\<close>, the request has
  none of the registry's three fields, a lineage it declares is the one it is served under, the SDK's offline check accepts the body or fails to
  resolve the key of an agent that is no \<^verbatim>\<open>did:key\<close>, and the SDK confirms the content hash the request carries. Otherwise it raises:
  \<^verbatim>\<open>ValueError\<close> for the first three, \<^verbatim>\<open>KeyError\<close> without a content hash, and every other refusal of the SDK as it came. The body
  has the four fields set and every other member as the producer wrote it.
\<close>

theorem synthesized_body_exact:
  assumes "json_loads text = Inr (JObj req)"
  shows "(synthesize_retrieval_body fr str_exn sdk text ctx_id lineage_id origin created_at = Inr r \<longleftrightarrow>
       r = served_body req ctx_id lineage_id origin created_at \<and> well_posed req lineage_id created_at
       \<and> (case verify_body_offline sdk (json_dumps fr (JObj r)) of Inr _ \<Rightarrow> True | Inl e \<Rightarrow> unresolvable str_exn req e)
       \<and> (\<exists>h. map_of req ''content_hash'' = Some h \<and> verify_content_hash sdk (json_dumps fr (JObj r)) h = Inr ()))
   \<and> (synthesize_retrieval_body fr str_exn sdk text ctx_id lineage_id origin created_at = Inl e \<longrightarrow>
        (let body_json = json_dumps fr (JObj (served_body req ctx_id lineage_id origin created_at)) in
           \<not> well_posed req lineage_id created_at \<and> e = ValueError
         \<or> verify_body_offline sdk body_json = Inl e \<and> \<not> unresolvable str_exn req e
         \<or> map_of req ''content_hash'' = None \<and> e = KeyError
         \<or> (\<exists>h. map_of req ''content_hash'' = Some h \<and> verify_content_hash sdk body_json h = Inl e)))
   \<and> map_of (served_body req ctx_id lineage_id origin created_at) =
        (map_of req)(''ctx_id'' \<mapsto> JStr ctx_id, ''lineage_id'' \<mapsto> JStr lineage_id, ''origin_registry'' \<mapsto> JStr origin,
                     ''created_at'' \<mapsto> JStr created_at)"
proof -
  let ?body = "served_body req ctx_id lineage_id origin created_at"
  let ?made = "synthesize_retrieval_body fr str_exn sdk text ctx_id lineage_id origin created_at"
  have made: "?made = (if \<not> well_posed req lineage_id created_at then Inl ValueError
      else rbind (offline_check str_exn sdk req (json_dumps fr (JObj ?body))) (\<lambda>_.
        case map_of req ''content_hash'' of None \<Rightarrow> Inl KeyError
        | Some h \<Rightarrow> rbind (verify_content_hash sdk (json_dumps fr (JObj ?body)) h) (\<lambda>_. Inr ?body)))"
    unfolding synthesize_retrieval_body_def well_posed_def ms_rfc3339_fields[symmetric]
    by (auto simp: assms collisions_obj REGISTRY_ONLY_FIELDS_def filter_empty_conv Let_def obj_get_def dict_get_default_def
        map_of_served_body split: option.splits if_splits)
  have "map_of ?body k = ((map_of req)(''ctx_id'' \<mapsto> JStr ctx_id, ''lineage_id'' \<mapsto> JStr lineage_id, ''origin_registry'' \<mapsto> JStr origin,
      ''created_at'' \<mapsto> JStr created_at)) k" for k by (simp add: map_of_served_body)
  then show ?thesis
    by (intro conjI ext) (auto simp: made offline_check_outcome rbind_eq_Inr rbind_eq_Inl Let_def split: sum.splits if_splits option.splits)
qed

definition plain_sdk :: sdk where
  "plain_sdk = \<lparr>canonicalize = (\<lambda>s. Inr s), verify_body_offline = (\<lambda>s. Inl (RuntimeError ''key resolution failed: x'')),
     verify_content_hash = (\<lambda>s h. Inr ())\<rparr>"

definition demo_request :: obj where
  "demo_request = [(''agent_id'', JStr ''did:web:a''), (''content_hash'', JStr ''sha256:0'')]"

theorem synthesized_body_exact_witness:
  "synthesize_retrieval_body (\<lambda>f. []) (\<lambda>e. case e of RuntimeError m \<Rightarrow> m | _ \<Rightarrow> []) plain_sdk
      (json_dumps (\<lambda>f. []) (JObj demo_request)) ''c'' ''l'' ''o'' ''2026-07-05T08:00:00.000Z''
    = Inr (served_body demo_request ''c'' ''l'' ''o'' ''2026-07-05T08:00:00.000Z'')"
proof -
  have plain: "json_plain (JObj demo_request)" by (simp add: demo_request_def)
  have "ms_rfc3339_match ''2026-07-05T08:00:00.000Z''" by code_simp
  then have wp: "well_posed demo_request ''l'' ''2026-07-05T08:00:00.000Z''" by (simp add: well_posed_def ms_rfc3339_fields demo_request_def)
  have un: "unresolvable (\<lambda>e. case e of RuntimeError m \<Rightarrow> m | _ \<Rightarrow> []) demo_request (RuntimeError ''key resolution failed: x'')"
    unfolding unresolvable_def by (auto simp: demo_request_def intro: exI[of _ "[]"])
  show ?thesis
    by (subst synthesized_body_exact[OF json_roundtrip[OF plain], THEN conjunct1]) (use wp un in \<open>simp add: plain_sdk_def demo_request_def\<close>)
qed

text \<open>
  C28. Every minted artifact carries its own proof. A receipt, a lifecycle event, a lineage-head receipt or a log checkpoint that a helper
  returns consists of exactly the members written below and a signature. A verifier that takes those members, canonicalises them, hashes the
  text and writes the digest as \<^verbatim>\<open>sha256:<hex>\<close> has the very string the signer signed, under the key the artifact names; a lifecycle event
  names its signer as the actor, and its key is the one asked for or, when none or an empty one was, the signer's own.
\<close>

theorem minted_artifacts_signed:
  "(mint_receipt fr sdk sg kid rd c l og ca ch fp = Inr r \<longrightarrow> carries_signature fr sdk sg kid r
     \<and> unsigned r = [(''registry_did'', JStr rd), (''ctx_id'', JStr c), (''lineage_id'', JStr l), (''origin_registry'', JStr og),
         (''created_at'', JStr ca), (''content_hash'', ch), (''key_fingerprint'', fp)])
   \<and> (mint_lifecycle_event fr sdk sg ev c ty oc reason key = Inr e \<longrightarrow>
     carries_signature fr sdk sg (if key \<in> {None, Some []} then key_id sg else the key) e
     \<and> unsigned e = [(''event_id'', JStr ev), (''ctx_id'', JStr c), (''event_type'', JStr ty), (''occurred_at'', JStr oc),
         (''actor'', JStr (agent_did sg))] @ (if reason = None then [] else [(''reason'', JStr (the reason))]))
   \<and> (mint_lineage_head_receipt fr sdk sg kid rd l h n st t = Inr hr \<longrightarrow> carries_signature fr sdk sg kid hr
     \<and> unsigned hr = [(''receipt_version'', JStr ''acdp-lhr/1''), (''registry_did'', JStr rd), (''lineage_id'', JStr l),
         (''head_ctx_id'', JStr h), (''head_version'', JInt n), (''head_status'', JStr st), (''as_of'', JStr t)])
   \<and> (mint_log_checkpoint fr sdk sg kid lid ts rh t = Inr cp \<longrightarrow> carries_signature fr sdk sg kid cp
     \<and> unsigned cp = [(''checkpoint_version'', JStr ''acdp-log/1''), (''log_id'', JStr lid), (''tree_size'', JInt ts), (''root_hash'', rh),
         (''timestamp'', JStr t)])"
proof -
  have key: "(case key of Some (c # k) \<Rightarrow> c # k | _ \<Rightarrow> key_id sg) = (if key \<in> {None, Some []} then key_id sg else the key)"
    by (auto split: option.splits list.splits)
  show ?thesis
    unfolding mint_receipt_def mint_lifecycle_event_def mint_lineage_head_receipt_def mint_log_checkpoint_def key
    by (intro conjI impI; drule signed_unsigned) (auto split: option.splits)
qed

theorem minted_artifacts_signed_witness:
  "\<exists>r e. mint_receipt (\<lambda>f. []) plain_sdk demo_producer ''k'' ''d'' ''c'' ''l'' ''o'' ''t'' (JStr ''h'') (JStr ''f'') = Inr r
     \<and> map_of (unsigned r) ''content_hash'' = Some (JStr ''h'') \<and> carries_signature (\<lambda>f. []) plain_sdk demo_producer ''k'' r
     \<and> mint_lifecycle_event (\<lambda>f. []) plain_sdk demo_producer ''e'' ''c'' ''retracted'' ''t'' None (Some ''k2'') = Inr e
     \<and> map_of (unsigned e) ''actor'' = Some (JStr ''did:web:a'') \<and> carries_signature (\<lambda>f. []) plain_sdk demo_producer ''k2'' e"
proof -
  have ok: "\<exists>art. signed (\<lambda>f. []) plain_sdk x demo_producer kid = Inr art" for x kid
    unfolding signed_returns by (simp add: preimage_def plain_sdk_def demo_producer_def)
  obtain r where r: "mint_receipt (\<lambda>f. []) plain_sdk demo_producer ''k'' ''d'' ''c'' ''l'' ''o'' ''t'' (JStr ''h'') (JStr ''f'') = Inr r"
    using ok unfolding mint_receipt_def by blast
  obtain e where e: "mint_lifecycle_event (\<lambda>f. []) plain_sdk demo_producer ''e'' ''c'' ''retracted'' ''t'' None (Some ''k2'') = Inr e"
    using ok unfolding mint_lifecycle_event_def by blast
  show ?thesis using r e
      minted_artifacts_signed[of "\<lambda>f. []" plain_sdk demo_producer "''k''" "''d''" "''c''" "''l''" "''o''" "''t''" "JStr ''h''" "JStr ''f''" r
        "''e''" "''retracted''" "''t''" None "Some ''k2''" e]
    by (auto simp: demo_producer_def)
qed

text \<open>
  A DID document keeps retired keys resolvable and unauthorised. Reading the document back gives every
  retired and current verification method, and \<^verbatim>\<open>assertionMethod\<close> lists exactly the identifiers of the
  current ones, in order.
\<close>

theorem did_document_lifecycle:
  assumes "list_all (\<lambda>vm. json_plain (JObj vm)) (retired @ current)"
    and "map (\<lambda>vm. map_of vm ''id'') current = map Some ids"
  shows "\<exists>text. did_document fr did current (Some retired) = Inr text
    \<and> json_loads text = Inr (JObj [(''@context'', JList [JStr ''https://www.w3.org/ns/did/v1'']), (''id'', JStr did),
         (''verificationMethod'', JList (map JObj (retired @ current))), (''assertionMethod'', JList ids)])"
proof -
  have ids: "vm_ids current = Inr ids" using assms(2) by (simp add: vm_ids_Inr)
  have "json_plain i" if i: "i \<in> set ids" for i
  proof -
    have "Some i \<in> (\<lambda>vm. map_of vm ''id'') ` set current" using i assms(2) by (metis image_eqI list.set_map)
    then obtain vm where "vm \<in> set current" "map_of vm ''id'' = Some i" by force
    then show ?thesis using assms(1) map_of_SomeD by (fastforce simp: list_all_iff)
  qed
  with assms(1) have "json_plain (JObj [(''@context'', JList [JStr ''https://www.w3.org/ns/did/v1'']), (''id'', JStr did),
         (''verificationMethod'', JList (map JObj (retired @ current))), (''assertionMethod'', JList ids)])"
    by (auto simp: list_all_iff)
  from json_roundtrip[OF this, of fr] show ?thesis
    by (simp add: did_document_def did_document_value_def ids)
qed

theorem did_document_lifecycle_witness:
  "\<exists>text old new. ed25519_jwk_vm (JStr ''d#1'') ''d'' ''AAEC'' = Inr old \<and> ed25519_jwk_vm (JStr ''d#2'') ''d'' ''AwQF'' = Inr new
     \<and> did_document (\<lambda>f. []) ''d'' [new] (Some [old]) = Inr text
     \<and> (\<exists>kvs. json_loads text = Inr (JObj kvs) \<and> obj_get kvs ''assertionMethod'' = JList [JStr ''d#2''])"
proof -
  have "b64decode ''AAEC'' = Inr [0, 1, 2]" "b64decode ''AwQF'' = Inr [3, 4, 5]" by code_simp+
  then obtain old new where vm: "ed25519_jwk_vm (JStr ''d#1'') ''d'' ''AAEC'' = Inr old" "ed25519_jwk_vm (JStr ''d#2'') ''d'' ''AwQF'' = Inr new"
    by (auto simp: ed25519_jwk_vm_def Let_def)
  note p = ed25519_jwk_vm_plain[OF vm(1)] ed25519_jwk_vm_plain[OF vm(2)]
  show ?thesis
    using did_document_lifecycle[of "[old]" "[new]" "[JStr ''d#2'']" "\<lambda>f. []" "''d''"] p vm
    by (auto simp: obj_get_def dict_get_default_def)
qed

end
