(* ===== verification/Safe_Http.thy ===== *)
theory Safe_Http
  imports Client Security
begin

text \<open>
  acdp\_client/safe\_http.py: the guard under which a consumer follows the location of a data reference. The
  verdict on a single address or URL and on a redirect is the SDK's policy, a parameter (\<open>ssrf_env\<close>), as are
  name resolution and httpx's URL join. What the module itself does is here: the userinfo check, the
  rejection of mixed answers, the redirect loop with its cap, the size bound and the hash check.
\<close>

section \<open>Splitting URLs (urllib.parse.urlsplit)\<close>

definition strip_url :: "string \<Rightarrow> string" where
  "strip_url url = filter (\<lambda>c. c \<notin> {CHR 0x09, CHR 0x0A, CHR 0x0D}) (dropWhile (\<lambda>c. ord c \<le> 32) url)"

definition is_ascii_alpha :: "char \<Rightarrow> bool" where
  "is_ascii_alpha c \<longleftrightarrow> (65 \<le> ord c \<and> ord c \<le> 90) \<or> (97 \<le> ord c \<and> ord c \<le> 122)"

definition is_scheme_char :: "char \<Rightarrow> bool" where
  "is_scheme_char c \<longleftrightarrow> is_ascii_alpha c \<or> is_ascii_digit c \<or> c \<in> {CHR ''+'', CHR ''-'', CHR ''.''}"

text \<open>What follows the scheme, when there is one.\<close>

definition after_scheme :: "string \<Rightarrow> string" where
  "after_scheme url =
     (case py_partition '':'' url of
        (s, found, rest) \<Rightarrow>
          if found \<and> s \<noteq> [] \<and> is_ascii_alpha (hd s) \<and> list_all is_scheme_char s then rest else url)"

definition is_ascii_hex :: "char \<Rightarrow> bool" where
  "is_ascii_hex c \<longleftrightarrow> is_ascii_digit c \<or> (65 \<le> ord c \<and> ord c \<le> 70) \<or> (97 \<le> ord c \<and> ord c \<le> 102)"

text \<open>\<^verbatim>\<open>_check_bracketed_host\<close>: a future address version, or an IPv6 address.\<close>

definition bracketed_host_ok :: "string \<Rightarrow> bool" where
  "bracketed_host_ok h =
     (if py_startswith h ''v''
      then (case py_partition ''.'' (tl h) of
              (a, found, b) \<Rightarrow> found \<and> a \<noteq> [] \<and> list_all is_ascii_hex a \<and> b \<noteq> [] \<and> newline \<notin> set b)
      else (case ip_address h of Some (IPv6 n z) \<Rightarrow> True | _ \<Rightarrow> False))"

definition url_netloc :: "string \<Rightarrow> string result" where
  "url_netloc url =
     (let rest = after_scheme (strip_url url) in
      if \<not> py_startswith rest ''//'' then Inr []
      else
        let netloc = takeWhile (\<lambda>c. c \<notin> {CHR ''/'', CHR ''?'', CHR ''#''}) (drop 2 rest);
            opening = CHR ''['' \<in> set netloc; closing = CHR '']'' \<in> set netloc
        in if opening \<noteq> closing then Inl ValueError
           else if opening \<and> \<not> bracketed_host_ok (fst (py_partition '']'' (snd (snd (py_partition ''['' netloc)))))
           then Inl ValueError
           else Inr netloc)"

text \<open>\<^verbatim>\<open>parts.username\<close>, \<^verbatim>\<open>parts.password\<close> and \<^verbatim>\<open>parts.hostname\<close>.\<close>

definition netloc_username :: "string \<Rightarrow> string option" where
  "netloc_username netloc =
     (case py_rpartition_char CHR ''@'' netloc of
        (userinfo, have_info, _) \<Rightarrow> if have_info then Some (fst (py_partition '':'' userinfo)) else None)"

definition netloc_password :: "string \<Rightarrow> string option" where
  "netloc_password netloc =
     (case py_rpartition_char CHR ''@'' netloc of
        (userinfo, have_info, _) \<Rightarrow>
          if have_info \<and> fst (snd (py_partition '':'' userinfo)) then Some (snd (snd (py_partition '':'' userinfo))) else None)"

definition netloc_hostname :: "string \<Rightarrow> string option" where
  "netloc_hostname netloc =
     (let hostinfo = snd (snd (py_rpartition_char CHR ''@'' netloc));
          hostname = (case py_partition ''['' hostinfo of
             (_, have_open_br, bracketed) \<Rightarrow>
               if have_open_br then fst (py_partition '']'' bracketed) else fst (py_partition '':'' hostinfo))
      in if hostname = [] then None
         else case py_partition ''%'' hostname of
           (h, percent, zone) \<Rightarrow> Some (py_lower h @ (if percent then ''%'' else []) @ zone))"

section \<open>Policy\<close>

record ssrf_policy =
  allow_loopback :: bool
  max_redirects :: int
  max_bytes :: int

definition production :: ssrf_policy where
  "production = \<lparr>allow_loopback = False, max_redirects = 3, max_bytes = 1048576\<rparr>"

definition allow_test_loopback :: ssrf_policy where
  "allow_test_loopback = production\<lparr>allow_loopback := True\<rparr>"

text \<open>
  The SDK's policy objects, chosen by \<open>allow_loopback\<close> (\<^verbatim>\<open>_rust\<close>). A resolver sees the world, so answers may
  change over time; \<open>getaddrinfo\<close> stands for the system's.
\<close>

record 'w ssrf_env =
  check_ip :: "bool \<Rightarrow> string \<Rightarrow> unit result"
  check_url_sdk :: "bool \<Rightarrow> string \<Rightarrow> unit result"
  check_redirect_authority :: "string \<Rightarrow> string \<Rightarrow> unit result"
  getaddrinfo :: "'w \<Rightarrow> string \<Rightarrow> string list result"
  url_join :: "string \<Rightarrow> string \<Rightarrow> string result"

definition ip_is_forbidden :: "'w ssrf_env \<Rightarrow> string \<Rightarrow> ssrf_policy \<Rightarrow> string option result" where
  "ip_is_forbidden se ip_text pol =
     (case check_ip se (allow_loopback pol) ip_text of
        Inr _ \<Rightarrow> Inr None
      | Inl (SsrfRejected reason) \<Rightarrow> Inr (Some reason)
      | Inl e \<Rightarrow> if is_ValueError e then Inr (Some ''unparseable_ip'') else Inl e)"

definition check_url :: "'w ssrf_env \<Rightarrow> string \<Rightarrow> ssrf_policy \<Rightarrow> unit result" where
  "check_url se url pol =
     rbind (url_netloc url) (\<lambda>netloc.
       if nonempty_str (netloc_username netloc) \<noteq> None \<or> nonempty_str (netloc_password netloc) \<noteq> None
       then Inl (SsrfError ''forbidden_userinfo'')
       else case check_url_sdk se (allow_loopback pol) url of
              Inl (SsrfRejected reason) \<Rightarrow> Inl (SsrfError reason)
            | r \<Rightarrow> r)"

definition same_authority :: "'w ssrf_env \<Rightarrow> string \<Rightarrow> string \<Rightarrow> bool result" where
  "same_authority se u1 u2 =
     (case check_redirect_authority se u1 u2 of
        Inr _ \<Rightarrow> Inr True
      | Inl (SsrfRejected reason) \<Rightarrow> Inr False
      | Inl e \<Rightarrow> if is_ValueError e then Inr False else Inl e)"

definition gaierror :: exn where "gaierror = OtherException ''gaierror''"

definition default_resolver :: "'w ssrf_env \<Rightarrow> 'w \<Rightarrow> string \<Rightarrow> string list result" where
  "default_resolver se w host =
     (case getaddrinfo se w host of
        Inl e \<Rightarrow> if e = gaierror then Inl (SsrfError ''dns_failure'') else Inl e
      | Inr infos \<Rightarrow> Inr infos)"

fun screen_addrs :: "'w ssrf_env \<Rightarrow> ssrf_policy \<Rightarrow> string list \<Rightarrow> unit result" where
  "screen_addrs se pol [] = Inr ()"
| "screen_addrs se pol (a # as) =
     rbind (ip_is_forbidden se a pol) (\<lambda>reason.
       case reason of Some r \<Rightarrow> Inl (SsrfError r) | None \<Rightarrow> screen_addrs se pol as)"

text \<open>\<open>resolver\<close> is the injected one, \<open>None\<close> for the default.\<close>

definition screen_host ::
  "'w ssrf_env \<Rightarrow> 'w \<Rightarrow> string \<Rightarrow> ssrf_policy \<Rightarrow> ('w \<Rightarrow> string \<Rightarrow> string list result) option \<Rightarrow> string list result" where
  "screen_host se w host pol resolver =
     rbind ((case resolver of Some f \<Rightarrow> f | None \<Rightarrow> default_resolver se) w host) (\<lambda>addrs.
       if addrs = [] then Inl (SsrfError ''dns_failure'')
       else rbind (screen_addrs se pol addrs) (\<lambda>_. Inr addrs))"

section \<open>Fetching\<close>

text \<open>The loop of \<^verbatim>\<open>fetch\<close>, with the number of turns it has left.\<close>

fun fetch_loop ::
  "nat \<Rightarrow> 'w env \<Rightarrow> 'w ssrf_env \<Rightarrow> ssrf_policy \<Rightarrow> ('w \<Rightarrow> string \<Rightarrow> string list result) option \<Rightarrow> 'w io \<Rightarrow> string
     \<Rightarrow> 'w io \<times> bytes result" where
  "fetch_loop 0 env se pol resolver io cur = (io, Inl (SsrfError ''too_many_redirects''))"
| "fetch_loop (Suc n) env se pol resolver io cur =
     (case rbind (check_url se cur pol) (\<lambda>_. rbind (url_netloc cur) (\<lambda>netloc.
             screen_host se (world io) (case netloc_hostname netloc of Some h \<Rightarrow> h | None \<Rightarrow> []) pol resolver)) of
        Inl e \<Rightarrow> (io, Inl e)
      | Inr addrs \<Rightarrow>
          (case http_send env io (get_request cur [] []) of
             (io1, Inl e) \<Rightarrow> (io1, Inl e)
           | (io1, Inr resp) \<Rightarrow>
               if is_redirect resp then
                 (case nonempty_str (resp_header resp ''location'') of
                    None \<Rightarrow> (io1, Inl (SsrfError ''bad_redirect''))
                  | Some location \<Rightarrow>
                      (case rbind (url_join se cur location) (\<lambda>target.
                              rbind (same_authority se cur target) (\<lambda>same. Inr (target, same))) of
                         Inl e \<Rightarrow> (io1, Inl e)
                       | Inr (target, same) \<Rightarrow>
                           if \<not> same then (io1, Inl (SsrfError ''cross_authority_redirect''))
                           else fetch_loop n env se pol resolver io1 target))
               else if int (length (resp_content resp)) > max_bytes pol
               then (io1, Inl (SsrfError ''response_too_large''))
               else (io1, Inr (resp_content resp))))"

definition fetch ::
  "'w env \<Rightarrow> 'w ssrf_env \<Rightarrow> string \<Rightarrow> ssrf_policy option \<Rightarrow> ('w \<Rightarrow> string \<Rightarrow> string list result) option \<Rightarrow> 'w io
     \<Rightarrow> 'w io \<times> bytes result" where
  "fetch env se url policy resolver io =
     (let pol = (case policy of Some p \<Rightarrow> p | None \<Rightarrow> production)
      in fetch_loop (nat (max_redirects pol + 1)) env se pol resolver io url)"

text \<open>The members of the reference are decoded JSON; a truthy value that is no string has no \<^verbatim>\<open>partition\<close> or \<^verbatim>\<open>decode\<close>.\<close>

definition verify_data :: "json \<Rightarrow> bytes \<Rightarrow> bytes result" where
  "verify_data expected data =
     (if \<not> truthy expected then Inr data
      else case as_str expected of
        None \<Rightarrow> Inl AttributeError
      | Some x \<Rightarrow>
          (case py_partition '':'' x of
             (algo, _, digest) \<Rightarrow>
               if algo \<noteq> ''sha256'' then Inl DataRefHashMismatch
               else if hexdigest (sha256 data) \<noteq> digest then Inl DataRefHashMismatch
               else Inr data))"

definition fetch_data_ref ::
  "'w env \<Rightarrow> 'w ssrf_env \<Rightarrow> (string, json) dict \<Rightarrow> ssrf_policy option \<Rightarrow> ('w \<Rightarrow> string \<Rightarrow> string list result) option \<Rightarrow> 'w io
     \<Rightarrow> 'w io \<times> bytes result" where
  "fetch_data_ref env se data_ref policy resolver io =
     (if \<not> truthy (obj_get data_ref ''location'') then (io, Inl (SsrfError ''no_location''))
      else case as_str (obj_get data_ref ''location'') of
        None \<Rightarrow> (io, Inl AttributeError)
      | Some location \<Rightarrow>
          (case fetch env se location policy resolver io of
             (io', Inl e) \<Rightarrow> (io', Inl e)
           | (io', Inr data) \<Rightarrow> (io', verify_data (obj_get data_ref ''content_hash'') data)))"

text \<open>The client's method of the same name (acdp\_client/client.py) uses the default resolver.\<close>

definition client_fetch_data_ref ::
  "'w env \<Rightarrow> 'w ssrf_env \<Rightarrow> (string, json) dict \<Rightarrow> ssrf_policy option \<Rightarrow> ('w, bytes) call" where
  "client_fetch_data_ref env se data_ref policy io tm =
     (case fetch_data_ref env se data_ref policy None io of (io', r) \<Rightarrow> (io', tm, r))"

section \<open>Lemmas\<close>

text \<open>A URL that was checked: no userinfo, accepted by the SDK, and its host resolved to permitted addresses only.\<close>

definition screened :: "'w ssrf_env \<Rightarrow> ssrf_policy \<Rightarrow> ('w \<Rightarrow> string \<Rightarrow> string list result) option \<Rightarrow> 'w \<Rightarrow> string \<Rightarrow> bool" where
  "screened se pol resolver w url \<longleftrightarrow> (\<exists>netloc addrs.
     url_netloc url = Inr netloc \<and> nonempty_str (netloc_username netloc) = None \<and> nonempty_str (netloc_password netloc) = None
     \<and> check_url_sdk se (allow_loopback pol) url = Inr ()
     \<and> (case resolver of Some f \<Rightarrow> f | None \<Rightarrow> default_resolver se) w (case netloc_hostname netloc of Some h \<Rightarrow> h | None \<Rightarrow> []) = Inr addrs
     \<and> addrs \<noteq> [] \<and> (\<forall>a \<in> set addrs. check_ip se (allow_loopback pol) a = Inr ()))"

lemma ip_allowed: "ip_is_forbidden se a pol = Inr None \<longleftrightarrow> check_ip se (allow_loopback pol) a = Inr ()"
  by (auto simp: ip_is_forbidden_def split: sum.splits exn.splits)

lemma screen_addrs_Inr: "screen_addrs se pol as = Inr () \<longleftrightarrow> (\<forall>a \<in> set as. check_ip se (allow_loopback pol) a = Inr ())"
  by (induction as) (auto simp: rbind_eq_Inr ip_allowed split: option.splits dest: ip_allowed[THEN iffD2])

lemma check_url_Inr: "check_url se url pol = Inr () \<longleftrightarrow>
    (\<exists>netloc. url_netloc url = Inr netloc \<and> nonempty_str (netloc_username netloc) = None
       \<and> nonempty_str (netloc_password netloc) = None \<and> check_url_sdk se (allow_loopback pol) url = Inr ())"
  by (auto simp: check_url_def rbind_eq_Inr split: sum.splits exn.splits if_splits)

lemma screen_host_Inr: "screen_host se w host pol resolver = Inr addrs \<longleftrightarrow>
    (case resolver of Some f \<Rightarrow> f | None \<Rightarrow> default_resolver se) w host = Inr addrs
    \<and> addrs \<noteq> [] \<and> (\<forall>a \<in> set addrs. check_ip se (allow_loopback pol) a = Inr ())"
  by (auto simp: screen_host_def rbind_eq_Inr screen_addrs_Inr[symmetric] split: if_splits)

lemma screened_if:
  "rbind (check_url se url pol) (\<lambda>_. rbind (url_netloc url) (\<lambda>netloc.
       screen_host se w (case netloc_hostname netloc of Some h \<Rightarrow> h | None \<Rightarrow> []) pol resolver)) = Inr addrs
   \<Longrightarrow> screened se pol resolver w url"
  unfolding screened_def rbind_eq_Inr screen_host_Inr by (auto simp: check_url_Inr)

lemma same_authority_True: "same_authority se a b = Inr True \<longleftrightarrow> check_redirect_authority se a b = Inr ()"
  by (auto simp: same_authority_def split: sum.splits exn.splits)

fun chained :: "('a \<Rightarrow> 'a \<Rightarrow> bool) \<Rightarrow> 'a list \<Rightarrow> bool" where
  "chained P (a # b # xs) \<longleftrightarrow> P a b \<and> chained P (b # xs)"
| "chained P _ \<longleftrightarrow> True"

lemma fetch_loop_confined:
  assumes "fetch_loop n env se pol resolver io url = (io', r)"
  shows "\<exists>urls. sent io' = sent io @ map (\<lambda>u. get_request u [] []) urls \<and> length urls \<le> n
    \<and> (urls \<noteq> [] \<longrightarrow> hd urls = url) \<and> (\<forall>u \<in> set urls. \<exists>w. screened se pol resolver w u)
    \<and> chained (\<lambda>a b. check_redirect_authority se a b = Inr ()) urls
    \<and> (\<forall>data. r = Inr data \<longrightarrow> int (length data) \<le> max_bytes pol \<and> urls \<noteq> [])"
  using assms
proof (induction n arbitrary: io url)
  case 0
  then show ?case by (intro exI[of _ "[]"]) auto
next
  case (Suc n)
  let ?screen = "rbind (check_url se url pol) (\<lambda>_. rbind (url_netloc url) (\<lambda>netloc.
       screen_host se (world io) (case netloc_hostname netloc of Some h \<Rightarrow> h | None \<Rightarrow> []) pol resolver))"
  show ?case
  proof (cases ?screen)
    case (Inl e)
    with Suc.prems have "io' = io" "r = Inl e" by auto
    then show ?thesis by (intro exI[of _ "[]"]) auto
  next
    case (Inr addrs)
    then have scr: "screened se pol resolver (world io) url" by (rule screened_if)
    obtain io1 x where x: "http_send env io (get_request url [] []) = (io1, x)" by (metis prod.collapse)
    note s1 = http_send_sent[OF x]
    show ?thesis
    proof (cases "\<exists>target. \<exists>resp location. x = Inr resp \<and> is_redirect resp
        \<and> nonempty_str (resp_header resp ''location'') = Some location \<and> url_join se url location = Inr target
        \<and> same_authority se url target = Inr True")
      case True
      then obtain target resp location where t: "x = Inr resp" "is_redirect resp"
        "nonempty_str (resp_header resp ''location'') = Some location" "url_join se url location = Inr target"
        "same_authority se url target = Inr True" by blast
      with Suc.prems Inr x have "fetch_loop n env se pol resolver io1 target = (io', r)" by simp
      from Suc.IH[OF this] obtain urls where u: "sent io' = sent io1 @ map (\<lambda>u. get_request u [] []) urls" "length urls \<le> n"
        "urls \<noteq> [] \<longrightarrow> hd urls = target" "\<forall>u \<in> set urls. \<exists>w. screened se pol resolver w u"
        "chained (\<lambda>a b. check_redirect_authority se a b = Inr ()) urls"
        "\<forall>data. r = Inr data \<longrightarrow> int (length data) \<le> max_bytes pol \<and> urls \<noteq> []" by (elim exE conjE)
      have "chained (\<lambda>a b. check_redirect_authority se a b = Inr ()) (url # urls)"
        using u(3,5) t(5) by (cases urls) (auto simp: same_authority_True)
      with u s1 scr show ?thesis by (intro exI[of _ "url # urls"]) auto
    next
      case False
      have "io' = io1 \<and> (\<forall>data. r = Inr data \<longrightarrow> int (length data) \<le> max_bytes pol)"
        using Suc.prems Inr x False
        by (auto simp: rbind_def split: sum.splits if_splits option.splits)
      with s1 scr show ?thesis by (intro exI[of _ "[url]"]) auto
    qed
  qed
qed

section \<open>Properties\<close>

text \<open>
  C14. A guarded fetch is confined. Every request it sends is a plain GET of a URL that carries no credentials, that
  the SDK's policy accepts, and whose host resolved, when it was looked at, to a non-empty set of
  addresses each of which is permitted: one forbidden address refuses the whole answer. It starts at the given URL,
  follows a redirect only when the SDK finds the authority unchanged, sends at most \<^verbatim>\<open>max_redirects\<close> + 1 requests,
  and returns at most \<^verbatim>\<open>max_bytes\<close> bytes.
\<close>

theorem fetch_confined:
  assumes "fetch env se url (Some pol) resolver io = (io', r)"
  shows "\<exists>urls. sent io' = sent io @ map (\<lambda>u. get_request u [] []) urls \<and> int (length urls) \<le> max 0 (max_redirects pol + 1)
    \<and> (urls \<noteq> [] \<longrightarrow> hd urls = url) \<and> (\<forall>u \<in> set urls. \<exists>w. screened se pol resolver w u)
    \<and> chained (\<lambda>a b. check_redirect_authority se a b = Inr ()) urls
    \<and> (\<forall>data. r = Inr data \<longrightarrow> int (length data) \<le> max_bytes pol \<and> urls \<noteq> [])"
proof -
  have "fetch_loop (nat (max_redirects pol + 1)) env se pol resolver io url = (io', r)"
    using assms by (simp add: fetch_def)
  from fetch_loop_confined[OF this] obtain urls where u: "sent io' = sent io @ map (\<lambda>u. get_request u [] []) urls"
    "length urls \<le> nat (max_redirects pol + 1)" "urls \<noteq> [] \<longrightarrow> hd urls = url" "\<forall>u \<in> set urls. \<exists>w. screened se pol resolver w u"
    "chained (\<lambda>a b. check_redirect_authority se a b = Inr ()) urls"
    "\<forall>data. r = Inr data \<longrightarrow> int (length data) \<le> max_bytes pol \<and> urls \<noteq> []" by (elim exE conjE)
  have "int (length urls) \<le> max 0 (max_redirects pol + 1)" using u(2) by linarith
  with u show ?thesis by (intro exI[of _ urls]) auto
qed

definition demo_ssrf :: "unit ssrf_env" where
  "demo_ssrf = \<lparr>check_ip = (\<lambda>l a. if py_startswith a ''10.'' then Inl (SsrfRejected ''private'') else Inr ()),
     check_url_sdk = (\<lambda>l u. if py_startswith u ''https://'' then Inr () else Inl (SsrfRejected ''non_https'')),
     check_redirect_authority = (\<lambda>a b. if a = b then Inr () else Inl (SsrfRejected ''cross_authority'')),
     getaddrinfo = (\<lambda>w h. if h = ''mixed'' then Inr [''1.2.3.4'', ''10.0.0.1''] else Inr [''1.2.3.4'']),
     url_join = (\<lambda>b l. Inr l)\<rparr>"

theorem fetch_confined_witness:
  "\<exists>urls. sent (fst (fetch (stub_env (\<lambda>rq. Inr (json_answer 200 JNull))) demo_ssrf ''https://data.example/x'' (Some production) None stub_io))
     = map (\<lambda>u. get_request u [] []) urls \<and> length urls \<le> 4"
proof -
  obtain io' r where f: "fetch (stub_env (\<lambda>rq. Inr (json_answer 200 JNull))) demo_ssrf ''https://data.example/x'' (Some production) None stub_io = (io', r)"
    by (metis prod.collapse)
  from fetch_confined[OF f] obtain urls where "sent io' = sent stub_io @ map (\<lambda>u. get_request u [] []) urls"
    "int (length urls) \<le> max 0 (max_redirects production + 1)" by (elim exE conjE)
  then show ?thesis using f by (intro exI[of _ urls]) (simp add: production_def stub_io_def)
qed

lemma py_partition_found: "py_partition [c] s = (a, True, b) \<Longrightarrow> s = a @ c # b"
  by (induction s arbitrary: a) (auto split: if_splits prod.splits)

lemma py_partition_missing: "py_partition [c] s = (a, False, b) \<Longrightarrow> a = s \<and> b = []"
  by (induction s arbitrary: a b) (auto split: if_splits prod.splits)

text \<open>
  Data comes back only with its hash. When the reference carries a content hash, the bytes returned are
  those whose SHA-256 it names, digit for digit; any other algorithm or digest raises, and a reference without a
  location sends nothing.
\<close>

theorem data_ref_verified:
  assumes "fetch_data_ref env se data_ref policy resolver io = (io', r)"
  shows "(\<forall>data. r = Inr data \<longrightarrow> truthy (obj_get data_ref ''content_hash'') \<longrightarrow>
        obj_get data_ref ''content_hash'' = JStr (''sha256:'' @ hexdigest (sha256 data)))
    \<and> (\<not> truthy (obj_get data_ref ''location'') \<longrightarrow> io' = io \<and> r = Inl (SsrfError ''no_location''))"
proof -
  have "x = JStr (''sha256:'' @ hexdigest (sha256 data))" if v: "verify_data x d = Inr data" "truthy x" for x d data
  proof -
    obtain t where x: "x = JStr t" using v by (cases "as_str x") (auto simp: verify_data_def)
    obtain a f b where "py_partition '':'' t = (a, f, b)" by (metis prod_cases3)
    with x have t: "x = JStr t" "py_partition '':'' t = (a, f, b)" by simp_all
    with v have ok: "a = ''sha256''" "b = hexdigest (sha256 data)" by (auto simp: verify_data_def split: if_splits)
    have "length b = 64" using ok(2) by simp
    with t(2) have "f" using py_partition_missing[of "CHR '':''" t a b] by (cases f) auto
    with t ok py_partition_found[of "CHR '':''" t a b] show ?thesis by simp
  qed
  with assms show ?thesis
    by (auto simp: fetch_data_ref_def split: if_splits option.splits prod.splits sum.splits)
qed

theorem data_ref_verified_witness:
  "snd (fetch_data_ref (stub_env (\<lambda>rq. Inr (json_answer 200 JNull))) demo_ssrf [(''content_hash'', JStr ''sha256:00'')] None None stub_io)
     = Inl (SsrfError ''no_location'')"
proof -
  obtain io' r where f: "fetch_data_ref (stub_env (\<lambda>rq. Inr (json_answer 200 JNull))) demo_ssrf [(''content_hash'', JStr ''sha256:00'')] None None stub_io = (io', r)"
    by (metis prod.collapse)
  with data_ref_verified[OF f] show ?thesis by (simp add: obj_get_def dict_get_default_def)
qed

text \<open>
  The guard refuses credentials only when they are not empty: a URL whose authority is an at-sign with nothing
  before it passes the userinfo check.
\<close>

theorem empty_userinfo_accepted:
  "check_url demo_ssrf ''https://:@data.example/x'' production = Inr ()
   \<and> check_url demo_ssrf ''https://u:p@data.example/x'' production = Inl (SsrfError ''forbidden_userinfo'')"
  by code_simp

text \<open>A malformed bracket in the authority leaves the guard as \<^verbatim>\<open>ValueError\<close>, not as \<^verbatim>\<open>SsrfError\<close>.\<close>

theorem bad_bracket_raises_value_error:
  "snd (fetch env se ''https://[::1/x'' (Some production) resolver io) = Inl ValueError"
proof -
  have "url_netloc ''https://[::1/x'' = Inl ValueError" by code_simp
  then show ?thesis by (simp add: fetch_def production_def check_url_def nat_eq_iff eval_nat_numeral)
qed

end
