(* ===== verification/Acts.thy ===== *)
theory Acts
  imports Client Runner Receipts Safe_Http
begin

text \<open>
  The computations scenario code is made of: functions of the run's state that end with a value or
  an exception, with Python's \<^verbatim>\<open>try\<close>, \<^verbatim>\<open>for\<close> and \<^verbatim>\<open>asyncio.gather\<close>, the client's calls, and the events put on the
  run's queue.

  \<open>quiet\<close> is the discipline the event stream needs from every scenario: only ordinary exceptions, and no
  terminal event of its own. The collection \<open>quiet\<close> holds one rule for each combinator.
\<close>

section \<open>State and environment\<close>

text \<open>
  \<open>r_clients\<close> and \<open>r_has_tm\<close> are the cache and the lazily made token manager of the run's
  \<^verbatim>\<open>AgentBundle\<close>; \<open>r_tm\<close> is that manager.
\<close>

datatype registry = Registry_A | Registry_B

type_synonym client_key = "registry \<times> string option \<times> string option \<times> tenant_mode"

record 'w rst =
  r_io :: "'w io"
  r_ctx :: quota_ctx
  r_tm :: token_manager
  r_has_tm :: bool
  r_clients :: "(client_key, client) dict"

text \<open>
  What scenario code reaches outside the repository. The world holds the process-wide quota store
  (\<open>quota_of\<close>, \<open>set_quota\<close>) and the circumstances of a quota check. \<open>real_llm\<close> is the provider's chat model,
  answering with the \<^verbatim>\<open>content\<close> of its response; \<open>chat_model\<close> says whether its constructor raises; \<open>crew_llm\<close>
  runs a CrewAI task. \<open>gather_order\<close> is the order in which the event loop happens to run gathered coroutines.
  The other fields are constructors of the SDK's producers, its static verification methods (\<open>sdk_fun\<close>, by name), its
  SSRF policies, \<^verbatim>\<open>getattr(e, "reason", "?")\<close> and the clock printed by \<^verbatim>\<open>strftime("%Y-%m-%dT%H:%M:%SZ")\<close>
  and by \<^verbatim>\<open>strftime("%Y-%m-%dT%H:%M:%S.%f")[:-3] + "Z"\<close>. \<open>fresh_uuid\<close> is \<^verbatim>\<open>str(uuid.uuid4())\<close>, and \<open>sdk_hosts\<close> the host names a call
  of the SDK looks up through Python's \<^verbatim>\<open>socket\<close> module.
\<close>

record 'w scen_env =
  sn_env :: "'w env"
  sn_client :: client_env
  sn_sdk :: sdk
  sn_texts :: exn_texts
  sn_settings :: settings
  quota_of :: "'w \<Rightarrow> quota_state"
  set_quota :: "quota_state \<Rightarrow> 'w \<Rightarrow> 'w"
  quota_call :: "'w \<Rightarrow> call_env"
  real_llm :: "'w \<Rightarrow> string \<Rightarrow> 'w \<times> json result"
  chat_model :: "llm_provider \<Rightarrow> string \<Rightarrow> string option \<Rightarrow> unit result"
  crew_llm :: "'w \<Rightarrow> string \<Rightarrow> 'w \<times> string result"
  gather_order :: "'w \<Rightarrow> nat list"
  from_seed :: "bytes \<Rightarrow> string \<Rightarrow> string \<Rightarrow> producer result"
  from_seed_did_key :: "bytes \<Rightarrow> producer result"
  p256_from_seed :: "(bytes \<Rightarrow> string \<Rightarrow> string \<Rightarrow> producer result) option"
  p256_from_seed_did_key :: "bytes \<Rightarrow> producer result"
  sdk_fun :: "string \<Rightarrow> json list \<Rightarrow> json result"
  sn_ssrf :: "'w ssrf_env"
  exn_reason :: "exn \<Rightarrow> string"
  now_z :: "'w \<Rightarrow> string"
  now_ms :: "'w \<Rightarrow> string"
  fresh_uuid :: "'w \<Rightarrow> 'w \<times> string"
  sdk_hosts :: "string \<Rightarrow> json list \<Rightarrow> string list"

type_synonym ('w, 'a) act = "'w rst \<Rightarrow> 'w rst \<times> 'a result"

definition mret :: "'a \<Rightarrow> ('w, 'a) act" where
  "mret a st = (st, Inr a)"

definition mraise :: "exn \<Rightarrow> ('w, 'a) act" where
  "mraise e st = (st, Inl e)"

definition mlift :: "'a result \<Rightarrow> ('w, 'a) act" where
  "mlift r st = (st, r)"

definition mbind :: "('w, 'a) act \<Rightarrow> ('a \<Rightarrow> ('w, 'b) act) \<Rightarrow> ('w, 'b) act" where
  "mbind m f st = (case m st of (st', Inl e) \<Rightarrow> (st', Inl e) | (st', Inr a) \<Rightarrow> f a st')"

text \<open>\<^verbatim>\<open>try: m except ... as e: h(e)\<close>; the handler raises again what it does not name.\<close>

definition mtry :: "('w, 'a) act \<Rightarrow> (exn \<Rightarrow> ('w, 'a) act) \<Rightarrow> ('w, 'a) act" where
  "mtry m h st = (case m st of (st', Inl e) \<Rightarrow> h e st' | (st', Inr a) \<Rightarrow> (st', Inr a))"

fun mfor :: "('x \<Rightarrow> ('w, 'a) act) \<Rightarrow> 'x list \<Rightarrow> ('w, 'a list) act" where
  "mfor f [] = mret []"
| "mfor f (x # xs) = mbind (f x) (\<lambda>a. mbind (mfor f xs) (\<lambda>as. mret (a # as)))"

text \<open>A client's call inside a run.\<close>

definition mcall :: "('w, 'a) call \<Rightarrow> ('w, 'a) act" where
  "mcall m st = (case m (r_io st) (r_tm st) of (io, tm, r) \<Rightarrow> (st\<lparr>r_io := io, r_tm := tm\<rparr>, r))"

text \<open>A plain request of an httpx client the scenario opened itself.\<close>

definition mhttp :: "'w scen_env \<Rightarrow> request \<Rightarrow> ('w, response) act" where
  "mhttp sn rq st = (case http_send (sn_env sn) (r_io st) rq of (io, r) \<Rightarrow> (st\<lparr>r_io := io\<rparr>, r))"

definition mget :: "('w rst \<Rightarrow> 'a) \<Rightarrow> ('w, 'a) act" where
  "mget f st = (st, Inr (f st))"

text \<open>\<^verbatim>\<open>datetime.now(UTC).isoformat()\<close>.\<close>

definition mnow :: "'w scen_env \<Rightarrow> ('w, string) act" where
  "mnow sn = mget (\<lambda>st. now_iso (sn_env sn) (world (r_io st)))"

definition mput :: "step_event \<Rightarrow> ('w, unit) act" where
  "mput e st = (st\<lparr>r_ctx := put_event e (r_ctx st)\<rparr>, Inr ())"

text \<open>
  \<^verbatim>\<open>await asyncio.gather(*coros)\<close>. The coroutines run in the order the loop happens to take them, each to its end;
  the results come in the order of the arguments. The first failure in time is raised; the coroutines
  left keep running in the background, so their effects are there as well. Interleavings inside two
  coroutines are not modelled.
\<close>

definition schedule_order :: "nat \<Rightarrow> nat list \<Rightarrow> nat list" where
  "schedule_order n order = remdups (filter (\<lambda>i. i < n) order @ [0..<n])"

fun run_all :: "(nat \<times> ('w, 'a) act) list \<Rightarrow> 'w rst \<Rightarrow> 'w rst \<times> (nat \<times> 'a result) list" where
  "run_all [] st = (st, [])"
| "run_all ((i, m) # ms) st =
     (case m st of (st1, r) \<Rightarrow> (case run_all ms st1 of (st2, rs) \<Rightarrow> (st2, (i, r) # rs)))"

definition first_failure :: "(nat \<times> 'a result) list \<Rightarrow> exn option" where
  "first_failure rs = (case concat (map (\<lambda>(i, r). case r of Inl e \<Rightarrow> [e] | Inr _ \<Rightarrow> []) rs) of [] \<Rightarrow> None | e # _ \<Rightarrow> Some e)"

definition mgather :: "'w scen_env \<Rightarrow> ('w, 'a) act list \<Rightarrow> ('w, 'a list) act" where
  "mgather sn ms st =
     (let order = schedule_order (length ms) (gather_order sn (world (r_io st))) in
      case run_all (map (\<lambda>i. (i, ms ! i)) order) st of
        (st', rs) \<Rightarrow>
          (st', case first_failure rs of
                  Some e \<Rightarrow> Inl e
                | None \<Rightarrow> Inr (map (\<lambda>i. projr (the (map_of rs i))) [0..<length ms])))"

section \<open>Laws\<close>

lemma mret_iff [simp]: "mret a st = (st', r) \<longleftrightarrow> st' = st \<and> r = Inr a"
  by (auto simp: mret_def)

lemma mraise_iff [simp]: "mraise e st = (st', r) \<longleftrightarrow> st' = st \<and> r = Inl e"
  by (auto simp: mraise_def)

lemma mlift_iff [simp]: "mlift x st = (st', r) \<longleftrightarrow> st' = st \<and> r = x"
  by (auto simp: mlift_def)

lemma mget_iff [simp]: "mget f st = (st', r) \<longleftrightarrow> st' = st \<and> r = Inr (f st)"
  by (auto simp: mget_def)

lemma mnow_iff [simp]: "mnow sn st = (st', r) \<longleftrightarrow> st' = st \<and> r = Inr (now_iso (sn_env sn) (world (r_io st)))"
  by (simp add: mnow_def)

lemma mput_iff [simp]: "mput e st = (st', r) \<longleftrightarrow> st' = st\<lparr>r_ctx := put_event e (r_ctx st)\<rparr> \<and> r = Inr ()"
  by (auto simp: mput_def)

lemma mbind_Inr [py_exn]: "mbind m f st = (st', Inr b) \<longleftrightarrow> (\<exists>st1 a. m st = (st1, Inr a) \<and> f a st1 = (st', Inr b))"
  by (auto simp: mbind_def split: prod.splits sum.splits)

lemma mbind_cases:
  assumes "mbind m f st = (st', r)"
  obtains (err) e where "m st = (st', Inl e)" "r = Inl e"
    | (ok) st1 a where "m st = (st1, Inr a)" "f a st1 = (st', r)"
  using assms by (auto simp: mbind_def split: prod.splits sum.splits)

lemma mtry_cases:
  assumes "mtry m h st = (st', r)"
  obtains (ok) a where "m st = (st', Inr a)" "r = Inr a"
    | (caught) st1 e where "m st = (st1, Inl e)" "h e st1 = (st', r)"
  using assms by (auto simp: mtry_def split: prod.splits sum.splits)

lemma mbind_simps [simp]:
  "mbind (mret a) f = f a" "mbind (mraise e) f = mraise e" "mbind (mlift (Inr a)) f = f a" "mbind (mlift (Inl e)) f = mraise e"
  "mbind (mbind m f) g = mbind m (\<lambda>x. mbind (f x) g)"
  by (rule ext; auto simp: mbind_def mret_def mraise_def mlift_def split: prod.splits sum.splits)+

lemma mtry_simps [simp]: "mtry (mret a) h = mret a" "mtry (mraise e) h = h e"
  by (rule ext; simp add: mtry_def mret_def mraise_def)+

lemma schedule_order_perm: "distinct (schedule_order n order)" "set (schedule_order n order) = {0..<n}"
  by (auto simp: schedule_order_def)

section \<open>Quiet computations\<close>

named_theorems quiet \<open>introduction rules for quiet computations\<close>

text \<open>
  Third-party code raises ordinary exceptions only: the SDK's producers, the transport, the validators.
  A client is civil when the producer it signs with is.
\<close>

definition ordinary :: "'a result \<Rightarrow> bool" where
  "ordinary r \<longleftrightarrow> (\<forall>e. r = Inl e \<longrightarrow> is_Exception e)"

definition civil_producer :: "producer \<Rightarrow> bool" where
  "civil_producer p \<longleftrightarrow> (\<forall>j. ordinary (sign_challenge p j)) \<and> (\<forall>kw. ordinary (build_publish_request p kw))
     \<and> (\<forall>kw. ordinary (build_supersede_request p kw)) \<and> (\<forall>k d. ordinary (did_verification_method p k d))"

definition civil_client :: "client \<Rightarrow> bool" where
  "civil_client cl \<longleftrightarrow> (\<forall>p. cl_producer cl = Some p \<longrightarrow> civil_producer p)"

definition civil_state :: "'w rst \<Rightarrow> bool" where
  "civil_state st \<longleftrightarrow> (\<forall>cl \<in> snd ` set (r_clients st). civil_client cl)"

definition adds_quietly :: "'w rst \<Rightarrow> 'w rst \<Rightarrow> bool" where
  "adds_quietly st st' \<longleftrightarrow> civil_state st' \<and>
     (\<exists>es. qc_events (r_ctx st') = map_option (\<lambda>q. q @ es) (qc_events (r_ctx st)) \<and> (\<forall>e \<in> set es. \<not> is_terminal e))"

definition quiet_act :: "('w, 'a) act \<Rightarrow> bool" where
  "quiet_act m \<longleftrightarrow> (\<forall>st st' r. civil_state st \<longrightarrow> m st = (st', r) \<longrightarrow> adds_quietly st st' \<and> ordinary r)"

lemma ordinary_simps [simp]: "ordinary (Inr a)" "ordinary (Inl e) \<longleftrightarrow> is_Exception e"
  by (auto simp: ordinary_def)

lemma ordinary_rbind: "ordinary r \<Longrightarrow> (\<And>a. r = Inr a \<Longrightarrow> ordinary (f a)) \<Longrightarrow> ordinary (rbind r f)"
  by (cases r) auto

lemma ordinaryD: "ordinary r \<Longrightarrow> r = Inl e \<Longrightarrow> is_Exception e"
  by simp

lemma quiet_actI:
  "(\<And>st st' r. civil_state st \<Longrightarrow> m st = (st', r) \<Longrightarrow> adds_quietly st st' \<and> ordinary r) \<Longrightarrow> quiet_act m"
  by (simp add: quiet_act_def)

lemma quiet_actD:
  "quiet_act m \<Longrightarrow> civil_state st \<Longrightarrow> m st = (st', r) \<Longrightarrow> adds_quietly st st'"
  "quiet_act m \<Longrightarrow> civil_state st \<Longrightarrow> m st = (st', Inl e) \<Longrightarrow> is_Exception e"
  "quiet_act m \<Longrightarrow> civil_state st \<Longrightarrow> m st = (st', r) \<Longrightarrow> civil_state st'"
  "quiet_act m \<Longrightarrow> civil_state st \<Longrightarrow> m st = (st', r) \<Longrightarrow> ordinary r"
  unfolding quiet_act_def adds_quietly_def by (blast, fastforce, blast, blast)

lemma adds_quietly_civil: "adds_quietly st st' \<Longrightarrow> civil_state st'"
  by (simp add: adds_quietly_def)

lemma adds_quietly_same: "civil_state st' \<Longrightarrow> qc_events (r_ctx st') = qc_events (r_ctx st) \<Longrightarrow> adds_quietly st st'"
  by (auto simp: adds_quietly_def option.map_ident intro!: exI[of _ "[]"])

lemma adds_quietly_trans: "adds_quietly st st1 \<Longrightarrow> adds_quietly st1 st2 \<Longrightarrow> adds_quietly st st2"
proof -
  assume "adds_quietly st st1" "adds_quietly st1 st2"
  then obtain es es' where
    "qc_events (r_ctx st1) = map_option (\<lambda>q. q @ es) (qc_events (r_ctx st))" "\<forall>e \<in> set es. \<not> is_terminal e"
    "qc_events (r_ctx st2) = map_option (\<lambda>q. q @ es') (qc_events (r_ctx st1))" "\<forall>e \<in> set es'. \<not> is_terminal e"
    "civil_state st2"
    by (auto simp: adds_quietly_def)
  then show ?thesis
    by (cases "qc_events (r_ctx st)") (auto simp: adds_quietly_def intro!: exI[of _ "es @ es'"])
qed

lemma quiet_mret [quiet]: "quiet_act (mret a)"
  and quiet_mraise [quiet]: "is_Exception e \<Longrightarrow> quiet_act (mraise e)"
  and quiet_mget [quiet]: "quiet_act (mget f)"
  and quiet_mnow [quiet]: "quiet_act (mnow sn)"
  by (auto intro!: quiet_actI adds_quietly_same)

lemma quiet_mlift [quiet]: "ordinary r \<Longrightarrow> quiet_act (mlift r)"
  by (auto intro!: quiet_actI adds_quietly_same)

lemma quiet_mbind_post:
  assumes "quiet_act m" "\<And>st st' a. civil_state st \<Longrightarrow> m st = (st', Inr a) \<Longrightarrow> P a" "\<And>a. P a \<Longrightarrow> quiet_act (f a)"
  shows "quiet_act (mbind m f)"
proof (rule quiet_actI, erule mbind_cases)
  fix st st' r e
  assume "civil_state st" "m st = (st', Inl e)" "r = Inl e"
  then show "adds_quietly st st' \<and> ordinary r" using assms(1) by (auto dest: quiet_actD)
next
  fix st st' r st1 a
  assume st: "civil_state st" "m st = (st1, Inr a)" "f a st1 = (st', r)"
  then have "adds_quietly st st1" "civil_state st1" using assms(1) by (auto dest: quiet_actD)
  moreover have "quiet_act (f a)" using st assms(2,3) by blast
  ultimately show "adds_quietly st st' \<and> ordinary r" using st by (auto dest: quiet_actD intro: adds_quietly_trans)
qed

lemma quiet_mbind [quiet]: "quiet_act m \<Longrightarrow> (\<And>a. quiet_act (f a)) \<Longrightarrow> quiet_act (mbind m f)"
  by (rule quiet_mbind_post[where P = "\<lambda>_. True"]) simp_all

lemma quiet_mtry [quiet]: "quiet_act m \<Longrightarrow> (\<And>e. is_Exception e \<Longrightarrow> quiet_act (h e)) \<Longrightarrow> quiet_act (mtry m h)"
proof (rule quiet_actI, erule mtry_cases)
  fix st st' r st1 e
  assume m: "quiet_act m" and h: "\<And>e. is_Exception e \<Longrightarrow> quiet_act (h e)"
    and e: "civil_state st" "m st = (st1, Inl e)" "h e st1 = (st', r)"
  from m e have "quiet_act (h e)" by (intro h) (rule quiet_actD)
  moreover have "adds_quietly st st1" "civil_state st1" using m e by (auto dest: quiet_actD)
  ultimately show "adds_quietly st st' \<and> ordinary r"
    using e by (auto dest: quiet_actD intro: adds_quietly_trans)
qed (auto dest: quiet_actD)

lemma quiet_if [quiet]: "quiet_act a \<Longrightarrow> quiet_act b \<Longrightarrow> quiet_act (if c then a else b)"
  by simp

lemma quiet_if_guard [quiet]: "(c \<Longrightarrow> quiet_act a) \<Longrightarrow> (\<not> c \<Longrightarrow> quiet_act b) \<Longrightarrow> quiet_act (if c then a else b)"
  by simp

lemma quiet_option [quiet]: "quiet_act a \<Longrightarrow> (\<And>x. quiet_act (f x)) \<Longrightarrow> quiet_act (case v of None \<Rightarrow> a | Some x \<Rightarrow> f x)"
  by (simp split: option.split)

lemma quiet_prod [quiet]: "(\<And>x y. quiet_act (f x y)) \<Longrightarrow> quiet_act (case p of (x, y) \<Rightarrow> f x y)"
  by (simp split: prod.split)

lemma quiet_let [quiet]: "(\<And>x. quiet_act (f x)) \<Longrightarrow> quiet_act (let x = a in f x)"
  by simp

lemma quiet_mput [quiet]: "\<not> is_terminal e \<Longrightarrow> quiet_act (mput e)"
  by (rule quiet_actI) (auto simp: adds_quietly_def civil_state_def intro!: exI[of _ "[e]"])

lemma quiet_mfor [quiet]: "(\<And>x. quiet_act (f x)) \<Longrightarrow> quiet_act (mfor f xs)"
  by (induction xs) (auto intro!: quiet)

lemma run_all_quiet:
  "run_all ms st = (st', rs) \<Longrightarrow> civil_state st \<Longrightarrow> (\<And>i m. (i, m) \<in> set ms \<Longrightarrow> quiet_act m) \<Longrightarrow>
     adds_quietly st st' \<and> (\<forall>i e. (i, Inl e) \<in> set rs \<longrightarrow> is_Exception e)"
proof (induction ms arbitrary: st st' rs)
  case Nil
  then show ?case by (auto intro: adds_quietly_same)
next
  case (Cons im ms)
  obtain i m where im: "im = (i, m)" by (cases im)
  obtain st1 r where m: "m st = (st1, r)" by (cases "m st")
  obtain st2 rs2 where rest: "run_all ms st1 = (st2, rs2)" by (cases "run_all ms st1")
  have "st' = st2" "rs = (i, r) # rs2" using Cons.prems(1) im m rest by auto
  moreover have "adds_quietly st st1" "\<And>e. r = Inl e \<Longrightarrow> is_Exception e"
    using Cons.prems(2) Cons.prems(3)[of i m] im m by (auto dest: quiet_actD)
  ultimately show ?case using Cons.IH[OF rest] Cons.prems(3) by (auto intro: adds_quietly_trans dest: adds_quietly_civil)
qed

lemma first_failure_in: "first_failure rs = Some e \<Longrightarrow> \<exists>i. (i, Inl e) \<in> set rs"
  by (induction rs) (auto simp: first_failure_def split: sum.splits list.splits)

lemma quiet_mgather [quiet]: "(\<And>m. m \<in> set ms \<Longrightarrow> quiet_act m) \<Longrightarrow> quiet_act (mgather sn ms)"
proof (rule quiet_actI)
  fix st st' r
  assume q: "\<And>m. m \<in> set ms \<Longrightarrow> quiet_act m" and c: "civil_state st" and g: "mgather sn ms st = (st', r)"
  let ?o = "schedule_order (length ms) (gather_order sn (world (r_io st)))"
  obtain rs where run: "run_all (map (\<lambda>i. (i, ms ! i)) ?o) st = (st', rs)"
    and r: "r = (case first_failure rs of Some e \<Rightarrow> Inl e | None \<Rightarrow> Inr (map (\<lambda>i. projr (the (map_of rs i))) [0..<length ms]))"
    using g by (auto simp: mgather_def Let_def split: prod.splits)
  have "adds_quietly st st' \<and> (\<forall>i e. (i, Inl e) \<in> set rs \<longrightarrow> is_Exception e)"
    by (rule run_all_quiet[OF run c]) (use q schedule_order_perm(2) in auto)
  then show "adds_quietly st st' \<and> ordinary r"
    using r first_failure_in by (auto split: option.splits)
qed


section \<open>The client's calls are quiet\<close>

definition civil_env :: "'w env \<Rightarrow> client_env \<Rightarrow> bool" where
  "civil_env env ce \<longleftrightarrow>
     (\<forall>w rq. ordinary (snd (transport env w rq))) \<and> (\<forall>s. ordinary (parsedate_to_datetime env s))
     \<and> (\<forall>s. ordinary (jwt_payload (ce_jwt ce) s)) \<and> (\<forall>j c. ordinary (verify_ctx_id_binding ce j c))
     \<and> (\<forall>j. ordinary (validate_publish ce j)) \<and> (\<forall>j. ordinary (validate_context ce j))
     \<and> (\<forall>j. ordinary (validate_body ce j)) \<and> (\<forall>j. ordinary (validate_search ce j))"

lemma civil_envD:
  assumes "civil_env env ce"
  shows "ordinary (snd (http_send env io rq))" "ordinary (parsedate_to_datetime env s)" "ordinary (jwt_payload (ce_jwt ce) s)"
    "ordinary (verify_ctx_id_binding ce j c)" "ordinary (validate_publish ce j)" "ordinary (validate_context ce j)"
    "ordinary (validate_body ce j)" "ordinary (validate_search ce j)"
proof -
  have "ordinary (snd (transport env (world io) rq))" using assms by (simp add: civil_env_def)
  then show "ordinary (snd (http_send env io rq))" by (cases "transport env (world io) rq") (simp add: http_send_def)
qed (use assms in \<open>simp_all add: civil_env_def\<close>)

definition safe_call :: "('w, 'a) call \<Rightarrow> bool" where
  "safe_call m \<longleftrightarrow> (\<forall>io tm. ordinary (snd (snd (m io tm))))"

lemma safe_abind: "safe_call m \<Longrightarrow> (\<And>a. safe_call (f a)) \<Longrightarrow> safe_call (abind m f)"
  unfolding safe_call_def by (auto simp: abind_def ordinary_def split: prod.splits sum.splits) (metis snd_conv)+

lemma safe_alift: "ordinary r \<Longrightarrow> safe_call (alift r)"
  and safe_areturn: "safe_call (areturn a)"
  and safe_drop_token: "safe_call (drop_token cl p)"
  by (simp_all add: safe_call_def alift_def areturn_def drop_token_def)

lemma safe_http_call: "civil_env env ce \<Longrightarrow> safe_call (http_call env rq)"
  unfolding safe_call_def http_call_def using civil_envD(1)[of env ce]
  by (auto split: prod.splits sum.splits) (metis ordinary_simps(2) snd_conv)

lemma ordinary_case:
  "ordinary (snd x) \<Longrightarrow> (\<And>s a. x = (s, Inr a) \<Longrightarrow> ordinary (snd (g s a))) \<Longrightarrow>
     ordinary (snd (case x of (s, Inl e) \<Rightarrow> (s, Inl e) | (s, Inr a) \<Rightarrow> g s a))"
  by (cases x; cases "snd x") auto

lemma ordinary_case_sum:
  "ordinary r \<Longrightarrow> (\<And>a. r = Inr a \<Longrightarrow> ordinary (snd (g a))) \<Longrightarrow>
     ordinary (snd (case r of Inl e \<Rightarrow> (io, Inl e) | Inr a \<Rightarrow> g a))"
  by (cases r) auto

lemma parse_retry_after_ordinary:
  "(\<And>s. ordinary (parsedate s)) \<Longrightarrow> ordinary (parse_retry_after parsedate v now)"
  by (auto simp: parse_retry_after_def float_of_digits_def Let_def rbind_def ordinary_def split: option.splits sum.splits)

lemma post_cooperative_ordinary:
  assumes "civil_env env ce"
  shows "ordinary (snd (post_cooperative env io url body))"
  unfolding post_cooperative_def
  by (intro ordinary_case civil_envD(1)[OF assms])
     (auto intro!: ordinary_case_sum parse_retry_after_ordinary civil_envD[OF assms] split: option.split)

lemma mint_post_ordinary:
  "civil_env env ce \<Longrightarrow> is_Exception err \<Longrightarrow> ordinary (snd (mint_post env io err url body))"
  using post_cooperative_ordinary[of env ce io url body]
  by (auto simp: mint_post_def split: prod.splits sum.splits option.splits exn.splits)

lemma malformed_as_ordinary: "is_Exception err \<Longrightarrow> ordinary r \<Longrightarrow> ordinary (malformed_as err r)"
  by (auto simp: malformed_as_def split: sum.splits)

lemma json_index_ordinary [simp]: "ordinary (json_index j k)"
  by (cases "(j, k)" rule: json_index.cases) (auto split: option.splits)

lemma int_of_str_ordinary [simp]: "ordinary (int_of_str s)"
  by (simp add: int_of_str_def Let_def split: prod.splits)

lemma py_int_ordinary [simp]: "ordinary (py_int j)"
  by (cases j rule: py_int.cases) auto

lemma decode_claims_ordinary: "(\<And>s. ordinary (jwt_payload je s)) \<Longrightarrow> ordinary (decode_unverified_claims je t)"
  by (auto simp: decode_unverified_claims_def ordinary_def split: list.splits sum.splits json.splits)

lemma mint_ordinary:
  assumes "civil_env env ce" "civil_producer p"
  shows "ordinary (snd (mint env (ce_jwt ce) io p base))"
proof -
  have ch: "ordinary (read_challenge j)" for j
    unfolding read_challenge_def by (intro malformed_as_ordinary ordinary_rbind) auto
  have tk: "ordinary (read_token (ce_jwt ce) j)" for j
    unfolding read_token_def
    by (intro malformed_as_ordinary ordinary_rbind)
       (auto intro!: ordinary_rbind decode_claims_ordinary civil_envD(3)[OF assms(1)] split: option.split)
  have sign: "ordinary (sign_challenge p j)" for j using assms(2) by (simp add: civil_producer_def)
  show ?thesis
    unfolding mint_def
    by (intro ordinary_case ordinary_case_sum mint_post_ordinary[OF assms(1)] ordinary_rbind[OF ch])
       (auto intro!: ordinary_rbind[OF sign] tk)
qed

lemma token_for_ordinary:
  assumes "civil_env env ce" "civil_producer p"
  shows "ordinary (snd (snd (token_for env (ce_jwt ce) io tm p base)))"
  using mint_ordinary[OF assms, of io "snd (tm_key_of p base)"]
  by (auto simp: token_for_def Let_def split: option.splits prod.splits sum.splits)

lemma ordinary_revoke_tail:
  assumes "ordinary (snd x)"
  shows "ordinary (snd (snd (case x of
      (io2, Inl HTTPError) \<Rightarrow> (io2, tm2, Inr False)
    | (io2, Inl e) \<Rightarrow> (io2, tm1, Inl e)
    | (io2, Inr r) \<Rightarrow> (io2, tm2, Inr (is_success r)))))"
proof -
  obtain io2 r where x: "x = (io2, r)" by (cases x)
  show ?thesis
  proof (cases r)
    case (Inl e)
    with x assms show ?thesis by (cases e) simp_all
  qed (simp add: x)
qed

lemma revoke_ordinary:
  assumes "civil_env env ce" "civil_producer p"
  shows "ordinary (snd (snd (revoke env (ce_jwt ce) io tm p base)))"
proof -
  obtain io1 tm1 r where t: "token_for env (ce_jwt ce) io tm p (rstrip_char CHR ''/'' base) = (io1, tm1, r)"
    by (metis prod.collapse)
  with token_for_ordinary[OF assms, of io tm "rstrip_char CHR ''/'' base"] have r: "ordinary r" by simp
  show ?thesis
  proof (cases r)
    case (Inl e)
    with r t show ?thesis by (simp add: revoke_def Let_def)
  next
    case (Inr c)
    with t show ?thesis
      by (cases "ct_jti c" rule: option.exhaust; cases "the (ct_jti c)")
         (simp_all add: revoke_def Let_def ordinary_revoke_tail[OF civil_envD(1)[OF assms(1)]])
  qed
qed

lemma safe_client_headers:
  assumes "civil_env env ce" "civil_client cl"
  shows "safe_call (client_headers env ce cl extra)"
proof -
  have "ordinary (snd (snd (bearer_token env ce cl io tm)))" for io tm
  proof (cases "nonempty_str (cl_static_bearer cl) = None \<and> managed cl \<noteq> None")
    case True
    then obtain p where p: "managed cl = Some p" by blast
    then have "civil_producer p" using assms(2) by (auto simp: managed_def civil_client_def split: if_splits)
    from token_for_ordinary[OF assms(1) this, of io tm "cl_base cl"] True p show ?thesis
      by (auto simp: bearer_token_def split: prod.splits sum.splits)
  next
    case False
    then show ?thesis by (auto simp: bearer_token_def split: option.splits)
  qed
  then have "safe_call (bearer_token env ce cl)" by (simp add: safe_call_def)
  then show ?thesis unfolding client_headers_def by (intro safe_abind safe_areturn)
qed

lemma safe_retrying:
  assumes "civil_env env ce" "civil_client cl"
  shows "safe_call (retrying env ce cl mk extra)"
  unfolding retrying_def
  by (auto intro!: safe_abind safe_areturn safe_drop_token safe_http_call[OF assms(1)] safe_client_headers[OF assms]
      split: option.split prod.split)

lemma safe_fetch_json:
  assumes "civil_env env ce" "civil_client cl"
  shows "safe_call (fetch_json env ce cl mk extra)"
  unfolding fetch_json_def raise_for_status_def json_of_def
  by (auto intro!: safe_abind safe_retrying[OF assms] safe_alift split: option.split)

lemma bind_served_ordinary:
  assumes "civil_env env ce"
  shows "ordinary (bind_served_ctx_id ce cl payload shape expected v)"
proof -
  have "ordinary (bind_body ce expected b)" for b
    using civil_envD(4)[OF assms] by (auto simp: bind_body_def ordinary_def split: option.splits sum.splits)
  then have "ordinary (check_each (bind_body ce expected) bs)" for bs
    by (induction bs) (auto intro!: ordinary_rbind)
  then show ?thesis by (simp add: bind_served_ctx_id_def)
qed

lemma safe_get_full_context:
  assumes "civil_env env ce" "civil_client cl"
  shows "safe_call (get_full_context env ce cl c suffix content shape v)"
  unfolding get_full_context_def Let_def
  by (intro safe_abind safe_fetch_json[OF assms] safe_alift ordinary_rbind bind_served_ordinary[OF assms(1)]) auto

lemma map_result_ordinary: "(\<And>x. ordinary (f x)) \<Longrightarrow> ordinary (map_result f xs)"
  by (induction xs) (auto intro!: ordinary_rbind)

lemma lineage_checks_ordinary: "ordinary (check_each (lineage_body_ok l) bs)"
  by (induction bs) (auto simp: lineage_body_ok_def intro!: ordinary_rbind split: option.splits)

lemma safe_get_lineage:
  assumes "civil_env env ce" "civil_client cl"
  shows "safe_call (get_lineage env ce cl path l shape)"
  unfolding get_lineage_def
  by (intro safe_abind safe_fetch_json[OF assms] safe_alift ordinary_rbind bind_served_ordinary[OF assms(1)] lineage_checks_ordinary) auto

lemma py_iter_ordinary [simp]: "ordinary (py_iter j)"
  by (cases j) auto

lemma safe_calls:
  assumes "civil_env env ce" "civil_client cl"
  shows "safe_call (publish_context env ce cl req key)" "safe_call (retrieve env ce cl c)"
    "safe_call (retrieve_raw env ce cl c v)" "safe_call (lineage env ce cl l)" "safe_call (current env ce cl l)"
    "safe_call (search env ce cl sq limit cursor)" "safe_call (log_checkpoint env ce cl)"
    "safe_call (log_proof env ce cl co li ts fi se)" "safe_call (retract env ce cl c ev)" "safe_call (republish env ce cl c ev)"
  unfolding publish_context_def retrieve_def retrieve_raw_def lineage_def current_def log_checkpoint_def log_proof_def
    retract_def republish_def lifecycle_def search_def
  by (auto intro!: safe_abind safe_fetch_json[OF assms] safe_alift safe_get_full_context[OF assms] safe_get_lineage[OF assms]
      safe_retrying[OF assms] ordinary_rbind map_result_ordinary civil_envD[OF assms(1)]
      simp: raise_for_status_def json_of_def raise_cursor_error_def split: option.splits prod.splits)

lemma quiet_mcall: "safe_call m \<Longrightarrow> quiet_act (mcall m)"
  by (rule quiet_actI) (auto simp: mcall_def safe_call_def civil_state_def intro!: adds_quietly_same split: prod.splits, metis snd_conv)

lemma quiet_mhttp: "civil_env (sn_env sn) ce \<Longrightarrow> quiet_act (mhttp sn rq)"
  by (rule quiet_actI) (use civil_envD(1)[of "sn_env sn" ce] in \<open>auto simp: mhttp_def civil_state_def intro!: adds_quietly_same split: prod.splits, metis snd_conv\<close>)

section \<open>Quiet computations with a postcondition\<close>

text \<open>
  \<open>quietly P m\<close>: a quiet computation whose value, if it has one, satisfies \<open>P\<close>. The collection \<open>vcg\<close> holds one rule for
  each construct; \<open>quietly_post\<close> is the rule for a first step whose postcondition is needed later.
\<close>

named_theorems vcg \<open>rules for quiet computations with a postcondition\<close>

definition quietly :: "('a \<Rightarrow> bool) \<Rightarrow> ('w, 'a) act \<Rightarrow> bool" where
  "quietly P m \<longleftrightarrow> quiet_act m \<and> (\<forall>st st' a. civil_state st \<longrightarrow> m st = (st', Inr a) \<longrightarrow> P a)"

lemma quietlyD:
  "quietly P m \<Longrightarrow> quiet_act m"
  "quietly P m \<Longrightarrow> civil_state st \<Longrightarrow> m st = (st', Inr a) \<Longrightarrow> P a"
  by (auto simp: quietly_def)

lemma quietly_any: "quiet_act m \<Longrightarrow> quietly (\<lambda>_. True) m"
  by (simp add: quietly_def)

lemma quietly_conseq: "quietly Q m \<Longrightarrow> (\<And>a. Q a \<Longrightarrow> P a) \<Longrightarrow> quietly P m"
  by (auto simp: quietly_def)

lemma quietly_post: "quietly Q m \<Longrightarrow> (\<And>a. Q a \<Longrightarrow> quietly P (f a)) \<Longrightarrow> quietly P (mbind m f)"
proof -
  assume m: "quietly Q m" and f: "\<And>a. Q a \<Longrightarrow> quietly P (f a)"
  have "quiet_act (mbind m f)"
    by (rule quiet_mbind_post[where P = Q]) (use m f in \<open>auto dest: quietlyD\<close>)
  moreover have "P b" if "civil_state st" "mbind m f st = (st', Inr b)" for st st' b
  proof -
    obtain st1 a where a: "m st = (st1, Inr a)" "f a st1 = (st', Inr b)" using \<open>mbind m f st = (st', Inr b)\<close> by (auto simp: mbind_Inr)
    have "civil_state st1" using quiet_actD(3)[OF quietlyD(1)[OF m] that(1) a(1)] .
    from quietlyD(2)[OF f[OF quietlyD(2)[OF m that(1) a(1)]] this a(2)] show ?thesis .
  qed
  ultimately show ?thesis by (auto simp: quietly_def)
qed

lemma vcg_mbind [vcg]: "quietly (\<lambda>_. True) m \<Longrightarrow> (\<And>a. quietly P (f a)) \<Longrightarrow> quietly P (mbind m f)"
  by (rule quietly_post)

lemma vcg_mtry [vcg]:
  assumes "quietly P m" "\<And>e. is_Exception e \<Longrightarrow> quietly P (h e)"
  shows "quietly P (mtry m h)"
proof -
  have "P a" if "civil_state st" "mtry m h st = (st', Inr a)" for st st' a
    using that(2)
  proof (cases rule: mtry_cases)
    case (caught st1 e)
    then have "is_Exception e" "civil_state st1" using assms(1) that(1) by (auto dest: quietlyD quiet_actD)
    with assms(2) caught(2) show ?thesis by (auto dest: quietlyD)
  qed (use assms(1) that(1) in \<open>auto dest: quietlyD\<close>)
  with assms show ?thesis by (auto simp: quietly_def intro: quiet_mtry)
qed

lemma vcg_mret [vcg]: "P a \<Longrightarrow> quietly P (mret a)"
  and vcg_mraise [vcg]: "is_Exception e \<Longrightarrow> quietly P (mraise e)"
  by (auto simp: quietly_def intro: quiet)

lemma vcg_mget [vcg]: "(\<And>st. P (f st)) \<Longrightarrow> quietly P (mget f)"
  by (auto simp: quietly_def intro: quiet)

lemma vcg_mnow [vcg]: "(\<And>ts. P ts) \<Longrightarrow> quietly P (mnow sn)"
  by (auto simp: quietly_def intro: quiet)

lemma vcg_mput [vcg]: "\<not> is_terminal ev \<Longrightarrow> P () \<Longrightarrow> quietly P (mput ev)"
  by (auto simp: quietly_def intro: quiet)

lemma vcg_mlift [vcg]: "ordinary r \<Longrightarrow> (\<And>a. r = Inr a \<Longrightarrow> P a) \<Longrightarrow> quietly P (mlift r)"
  by (auto simp: quietly_def intro: quiet)

lemma vcg_branches [vcg]:
  "(c \<Longrightarrow> quietly P a) \<Longrightarrow> (\<not> c \<Longrightarrow> quietly P b) \<Longrightarrow> quietly P (if c then a else b)"
  "(v = None \<Longrightarrow> quietly P a) \<Longrightarrow> (\<And>x. v = Some x \<Longrightarrow> quietly P (f x)) \<Longrightarrow> quietly P (case v of None \<Rightarrow> a | Some x \<Rightarrow> f x)"
  "(\<And>x y. p = (x, y) \<Longrightarrow> quietly P (g x y)) \<Longrightarrow> quietly P (case p of (x, y) \<Rightarrow> g x y)"
  "(\<And>x. quietly P (k x)) \<Longrightarrow> quietly P (let x = t in k x)"
  by (auto split: option.split prod.split)

lemma quietly_mfor: "(\<And>x. quietly Q (f x)) \<Longrightarrow> quietly (\<lambda>ys. length ys = length xs \<and> list_all Q ys) (mfor f xs)"
proof (induction xs)
  case (Cons x xs)
  show ?case unfolding mfor.simps
    by (rule quietly_post[OF Cons.prems], rule quietly_post[OF Cons.IH[OF Cons.prems]]) (auto intro: vcg)
qed (auto intro: vcg)

lemma vcg_mfor [vcg]: "(\<And>x. quietly (\<lambda>_. True) (f x)) \<Longrightarrow> quietly (\<lambda>_. True) (mfor f xs)"
  by (auto simp: quietly_def intro: quiet_mfor)

lemma mgather_length: "mgather sn ms st = (st', Inr as) \<Longrightarrow> length as = length ms"
  by (auto simp: mgather_def Let_def split: prod.splits option.splits)

lemma vcg_mgather:
  "list_all (quietly (\<lambda>_. True)) ms \<Longrightarrow> quietly (\<lambda>as. length as = length ms) (mgather sn ms)"
  by (auto simp: quietly_def list_all_iff intro!: quiet_mgather dest: mgather_length)

lemma vcg_mcall [vcg]: "safe_call m \<Longrightarrow> quietly (\<lambda>_. True) (mcall m)"
  by (rule quietly_any[OF quiet_mcall])

end
