(* ===== verification/Agents.thy ===== *)
theory Agents
  imports Acts
begin

text \<open>
  playground/agents: the base agent (base.py), its LangChain, LangGraph and CrewAI subclasses, the mock
  model and the text of a chat response.

  An em dash, beyond the model's characters, is written as its Windows-1252 code, so that it stays one
  character. The graph LangGraph compiles runs its two nodes in order; CrewAI runs one task.
\<close>

section \<open>Text\<close>

definition em_dash :: string where
  "em_dash = [CHR 0x97]"

text \<open>\<^verbatim>\<open>s[:n]\<close>, counting from the end for a negative \<open>n\<close>.\<close>

definition py_take :: "int \<Rightarrow> 'a list \<Rightarrow> 'a list" where
  "py_take n s = (if 0 \<le> n then take (nat n) s else take (length s - nat (- n)) s)"

definition is_line_break :: "char \<Rightarrow> bool" where
  "is_line_break c \<longleftrightarrow> ord c \<in> {10, 11, 12, 13, 28, 29, 30, 133}"

text \<open>\<^verbatim>\<open>s.splitlines()[0]\<close>.\<close>

definition first_line :: "string \<Rightarrow> string result" where
  "first_line s = (if s = [] then Inl IndexError else Inr (takeWhile (\<lambda>c. \<not> is_line_break c) s))"

definition block_text :: "jwt_env \<Rightarrow> json \<Rightarrow> string" where
  "block_text je block =
     (case block of
        JStr s \<Rightarrow> s
      | JObj kvs \<Rightarrow> if obj_get kvs ''type'' = JStr ''text'' then str_json je (dict_get_default kvs ''text'' (JStr [])) else []
      | _ \<Rightarrow> [])"

text \<open>\<open>content\<close> is \<^verbatim>\<open>getattr(resp, "content", resp)\<close>.\<close>

definition response_text :: "jwt_env \<Rightarrow> json \<Rightarrow> string" where
  "response_text je content =
     (case content of
        JStr s \<Rightarrow> s
      | JList blocks \<Rightarrow> concat (map (block_text je) blocks)
      | _ \<Rightarrow> str_json je content)"

section \<open>Models\<close>

datatype llm = MockLLM | RealLLM | GuardedLLM

definition mock_ainvoke :: "string \<Rightarrow> json result" where
  "mock_ainvoke prompt =
     rbind (first_line (py_strip prompt)) (\<lambda>line. Inr (JStr (''MOCK_LLM_RESPONSE :: '' @ ''echoing first line: ''
       @ py_take 80 line @ '' :: '' @ ''this would be an LLM-generated answer in production.'')))"

definition build_llm :: "'w scen_env \<Rightarrow> llm_provider \<Rightarrow> string \<Rightarrow> string \<Rightarrow> llm result" where
  "build_llm sn provider model_name api_key =
     (case provider of
        Mock \<Rightarrow> Inr MockLLM
      | _ \<Rightarrow> rbind (chat_model sn provider model_name (nonempty api_key)) (\<lambda>_. Inr RealLLM))"

definition llm_for_settings :: "'w scen_env \<Rightarrow> llm result" where
  "llm_for_settings sn =
     (let s = sn_settings sn in
      if llm_provider s = Mock then Inr MockLLM
      else rbind (build_llm sn (llm_provider s) (llm_model s)
                   (if llm_provider s = Openai then openai_api_key s else anthropic_api_key s)) (\<lambda>_. Inr GuardedLLM))"

definition call_real :: "'w scen_env \<Rightarrow> string \<Rightarrow> ('w, json) act" where
  "call_real sn prompt st =
     (case real_llm sn (world (r_io st)) prompt of (w, r) \<Rightarrow> (st\<lparr>r_io := (r_io st)\<lparr>world := w\<rparr>\<rparr>, r))"

text \<open>A computation of the quota module inside a run: its store is in the world, its context is the run's.\<close>

definition in_quota :: "'w scen_env \<Rightarrow> (call_env \<Rightarrow> quota_state \<Rightarrow> quota_ctx option \<Rightarrow> quota_state \<times> quota_ctx option \<times> 'a result)
     \<Rightarrow> ('w, 'a) act" where
  "in_quota sn f st =
     (let w = world (r_io st) in
      case f (quota_call sn w) (quota_of sn w) (Some (r_ctx st)) of
        (q, ctx, r) \<Rightarrow>
          (st\<lparr>r_io := (r_io st)\<lparr>world := set_quota sn q w\<rparr>, r_ctx := (case ctx of Some c \<Rightarrow> c | None \<Rightarrow> r_ctx st)\<rparr>, r))"

definition ainvoke :: "'w scen_env \<Rightarrow> llm \<Rightarrow> string \<Rightarrow> ('w, json) act" where
  "ainvoke sn llm prompt =
     (case llm of
        MockLLM \<Rightarrow> mlift (mock_ainvoke prompt)
      | RealLLM \<Rightarrow> call_real sn prompt
      | GuardedLLM \<Rightarrow>
          mbind (in_quota sn (\<lambda>env q ctx. case guarded_ainvoke (sn_settings sn) env (\<lambda>m p. Inr m) q ctx prompt of
                    (q', ctx', m, r) \<Rightarrow> (q', ctx', r)))
            (\<lambda>m. case m of Inner \<Rightarrow> call_real sn prompt | Quota.Fallback \<Rightarrow> mlift (mock_ainvoke prompt)))"

section \<open>Tasks and agents\<close>

record agent_task =
  tk_prompt :: string
  tk_title :: string
  tk_context_type :: string
  tk_visibility :: string
  tk_domain :: "string option"
  tk_tags :: "string list"
  tk_derived_from :: "string list"
  tk_audience :: "string list"
  tk_contributors :: "string list"
  tk_metadata :: "obj option"
  tk_data_refs :: "obj list"
  tk_data_period :: "(string, string) dict option"
  tk_expires_at :: "string option"
  tk_schema_uri :: "string option"
  tk_idempotency_key :: "string option"
  tk_summary_chars :: int
  tk_override_response :: "string option"

text \<open>A task with its defaults.\<close>

definition new_task :: "string \<Rightarrow> string \<Rightarrow> agent_task" where
  "new_task prompt title = \<lparr>tk_prompt = prompt, tk_title = title, tk_context_type = ''data_snapshot'',
     tk_visibility = ''public'', tk_domain = None, tk_tags = [], tk_derived_from = [], tk_audience = [], tk_contributors = [],
     tk_metadata = None, tk_data_refs = [], tk_data_period = None, tk_expires_at = None, tk_schema_uri = None,
     tk_idempotency_key = None, tk_summary_chars = 500, tk_override_response = None\<rparr>"

record agent_output =
  ao_ctx_id :: string
  ao_lineage_id :: string
  ao_version :: int
  ao_title :: string
  ao_llm_response :: string
  ao_content_hash :: string

datatype agent_kind = BaseAgent | LangChainAgent llm | LangGraphAgent "llm option" | CrewAIAgent

record agent =
  ag_producer :: producer
  ag_client :: client
  ag_run_id :: string
  ag_authority_map :: "(string, client) dict"
  ag_slug :: "string option"
  ag_kind :: agent_kind

definition framework :: "agent \<Rightarrow> string" where
  "framework ag =
     (case ag_kind ag of
        BaseAgent \<Rightarrow> ''base'' | LangChainAgent _ \<Rightarrow> ''langchain'' | LangGraphAgent _ \<Rightarrow> ''langgraph'' | CrewAIAgent \<Rightarrow> ''crewai'')"

definition emit :: "'w scen_env \<Rightarrow> agent \<Rightarrow> string \<Rightarrow> (step_event \<Rightarrow> step_event) \<Rightarrow> ('w, unit) act" where
  "emit sn ag event_type upd =
     mbind (mnow sn) (\<lambda>ts. mput (upd ((mk_step_event event_type (ag_run_id ag) ts)\<lparr>
       se_agent_id := Some (agent_did (ag_producer ag)), se_framework := Some (framework ag)\<rparr>)))"

section \<open>Publishing\<close>

definition str_or_none :: "string option \<Rightarrow> json" where
  "str_or_none v = (case v of None \<Rightarrow> JNull | Some s \<Rightarrow> JStr s)"

definition list_or_none :: "string list \<Rightarrow> json" where
  "list_or_none xs = (if xs = [] then JNull else JList (map JStr xs))"

definition agent_metadata :: "agent \<Rightarrow> agent_task \<Rightarrow> obj" where
  "agent_metadata ag task =
     (let m = dict_update [(''agent_framework'', JStr (framework ag)), (''run_id'', JStr (ag_run_id ag))]
                (case tk_metadata task of Some d \<Rightarrow> d | None \<Rightarrow> [])
      in case nonempty_str (ag_slug ag) of Some s \<Rightarrow> AList.update ''agent_slug'' (JStr s) m | None \<Rightarrow> m)"

abbreviation dumps :: "'w scen_env \<Rightarrow> json \<Rightarrow> string" where
  "dumps sn \<equiv> json_dumps (float_repr (sn_env sn))"

definition extended_kwargs :: "'w scen_env \<Rightarrow> agent_task \<Rightarrow> obj" where
  "extended_kwargs sn task =
     (if tk_data_refs task \<noteq> [] then [(''data_refs'', JStr (dumps sn (JList (map JObj (tk_data_refs task)))))] else [])
     @ (case tk_data_period task of
          Some (p # ps) \<Rightarrow> [(''data_period'', JStr (dumps sn (JObj (map (\<lambda>(k, v). (k, JStr v)) (p # ps)))))] | _ \<Rightarrow> [])
     @ (case nonempty_str (tk_expires_at task) of Some e \<Rightarrow> [(''expires_at'', JStr e)] | None \<Rightarrow> [])"

definition publish_kwargs :: "'w scen_env \<Rightarrow> agent \<Rightarrow> agent_task \<Rightarrow> string \<Rightarrow> obj" where
  "publish_kwargs sn ag task llm_result =
     [(''title'', JStr (tk_title task)), (''context_type'', JStr (tk_context_type task)),
      (''visibility'', JStr (tk_visibility task)), (''summary'', JStr (py_take (tk_summary_chars task) llm_result)),
      (''domain'', str_or_none (tk_domain task)), (''tags'', list_or_none (tk_tags task)),
      (''derived_from'', list_or_none (tk_derived_from task)), (''audience'', list_or_none (tk_audience task)),
      (''contributors'', list_or_none (tk_contributors task)), (''schema_uri'', str_or_none (tk_schema_uri task)),
      (''metadata'', JStr (dumps sn (JObj (agent_metadata ag task))))] @ extended_kwargs sn task"

definition supersede_kwargs :: "'w scen_env \<Rightarrow> agent \<Rightarrow> string \<Rightarrow> agent_task \<Rightarrow> string \<Rightarrow> string option \<Rightarrow> obj" where
  "supersede_kwargs sn ag previous_body_json task llm_result expected_lineage_id =
     [(''previous_body_json'', JStr previous_body_json), (''title'', JStr (tk_title task)),
      (''summary'', JStr (py_take (tk_summary_chars task) llm_result)), (''tags'', list_or_none (tk_tags task)),
      (''domain'', str_or_none (tk_domain task)), (''metadata'', JStr (dumps sn (JObj (agent_metadata ag task))))]
     @ extended_kwargs sn task
     @ (case expected_lineage_id of Some l \<Rightarrow> [(''expected_lineage_id'', JStr l)] | None \<Rightarrow> [])"

text \<open>\<^verbatim>\<open>json.loads(req_json)["content_hash"]\<close> as the output record takes it.\<close>

definition request_hash :: "string \<Rightarrow> string result" where
  "request_hash req_json =
     rbind (json_loads req_json) (\<lambda>req. rbind (json_index req ''content_hash'') (\<lambda>h.
       case h of JStr s \<Rightarrow> Inr s | _ \<Rightarrow> Inl ValidationError))"

text \<open>The part \<^verbatim>\<open>publish\<close> and \<^verbatim>\<open>supersede\<close> share: send the request built, describe it, announce it.\<close>

definition send_request ::
  "'w scen_env \<Rightarrow> agent \<Rightarrow> agent_task \<Rightarrow> string \<Rightarrow> string option \<Rightarrow> string \<Rightarrow> ('w, agent_output) act" where
  "send_request sn ag task llm_result idempotency_key req_json =
     mbind (mcall (publish_context (sn_env sn) (sn_client sn) (ag_client ag) req_json idempotency_key)) (\<lambda>resp.
     mbind (mlift (request_hash req_json)) (\<lambda>h.
     let out = \<lparr>ao_ctx_id = pr_ctx_id resp, ao_lineage_id = pr_lineage_id resp, ao_version = pr_version resp,
                ao_title = tk_title task, ao_llm_response = llm_result, ao_content_hash = h\<rparr> in
     mbind (emit sn ag ''acdp.publish'' (\<lambda>e. e\<lparr>se_ctx_id := Some (ao_ctx_id out), se_title := Some (tk_title task),
              se_derived_from := tk_derived_from task, se_preview := Some (py_take 100 llm_result)\<rparr>)) (\<lambda>_.
     mret out)))"

definition agent_publish :: "'w scen_env \<Rightarrow> agent \<Rightarrow> agent_task \<Rightarrow> string \<Rightarrow> ('w, agent_output) act" where
  "agent_publish sn ag task llm_result =
     mbind (mlift (build_publish_request (ag_producer ag) (publish_kwargs sn ag task llm_result))) (\<lambda>req_json.
       send_request sn ag task llm_result (tk_idempotency_key task) req_json)"

definition agent_supersede ::
  "'w scen_env \<Rightarrow> agent \<Rightarrow> string \<Rightarrow> agent_task \<Rightarrow> string \<Rightarrow> string option \<Rightarrow> ('w, agent_output) act" where
  "agent_supersede sn ag previous_body_json task llm_result expected_lineage_id =
     mbind (mlift (build_supersede_request (ag_producer ag)
              (supersede_kwargs sn ag previous_body_json task llm_result expected_lineage_id))) (\<lambda>req_json.
       send_request sn ag task llm_result None req_json)"

section \<open>Reading and running\<close>

definition agent_retrieve :: "'w scen_env \<Rightarrow> agent \<Rightarrow> string \<Rightarrow> ('w, full_context) act" where
  "agent_retrieve sn ag ctx_id =
     mbind (mcall (resolve (sn_env sn) (sn_client sn) (ag_client ag) ctx_id (ag_authority_map ag))) (\<lambda>ctx.
     mbind (emit sn ag ''acdp.retrieve'' (\<lambda>e. e\<lparr>se_ctx_id := Some ctx_id\<rparr>)) (\<lambda>_. mret ctx))"

text \<open>\<open>filters\<close> is the text Python gives the keyword arguments of the search.\<close>

definition agent_search ::
  "'w scen_env \<Rightarrow> agent \<Rightarrow> search_query \<Rightarrow> int \<Rightarrow> string option \<Rightarrow> string \<Rightarrow> ('w, search_response) act" where
  "agent_search sn ag sq limit cursor filters =
     mbind (mcall (search (sn_env sn) (sn_client sn) (ag_client ag) sq limit cursor)) (\<lambda>results.
     mbind (emit sn ag ''acdp.search'' (\<lambda>e. e\<lparr>se_title := Some filters\<rparr>)) (\<lambda>_. mret results))"

definition langgraph_draft :: "string \<Rightarrow> string" where
  "langgraph_draft prompt = ''Outline:'' @ [newline] @ ''- key risk'' @ [newline] @ ''- opportunity'' @ [newline]
     @ ''- recommendation'' @ [newline, newline] @ prompt"

definition ask :: "'w scen_env \<Rightarrow> llm \<Rightarrow> string \<Rightarrow> ('w, string) act" where
  "ask sn llm prompt = mbind (ainvoke sn llm prompt) (\<lambda>c. mret (response_text (ce_jwt (sn_client sn)) c))"

definition crew_task :: "'w scen_env \<Rightarrow> string \<Rightarrow> ('w, string) act" where
  "crew_task sn prompt st =
     (case crew_llm sn (world (r_io st)) prompt of (w, r) \<Rightarrow> (st\<lparr>r_io := (r_io st)\<lparr>world := w\<rparr>\<rparr>, r))"

definition crew_call :: "'w scen_env \<Rightarrow> string \<Rightarrow> ('w, string) act" where
  "crew_call sn prompt =
     (if llm_provider (sn_settings sn) = Mock then ask sn MockLLM prompt
      else mbind (in_quota sn (check_llm_quota (sn_settings sn))) (\<lambda>denial.
           if denial \<noteq> None then ask sn MockLLM prompt else crew_task sn prompt))"

definition call_llm :: "'w scen_env \<Rightarrow> agent \<Rightarrow> string \<Rightarrow> ('w, string) act" where
  "call_llm sn ag prompt =
     (case ag_kind ag of
        BaseAgent \<Rightarrow> mraise (OtherException ''NotImplementedError'')
      | LangChainAgent llm \<Rightarrow> ask sn llm prompt
      | LangGraphAgent own \<Rightarrow>
          mbind (case own of Some l \<Rightarrow> mret l | None \<Rightarrow> mlift (llm_for_settings sn)) (\<lambda>l. ask sn l (langgraph_draft prompt))
      | CrewAIAgent \<Rightarrow> crew_call sn prompt)"

definition ground_text :: "full_context \<Rightarrow> string" where
  "ground_text ctx =
     (let b = fc_body ctx in
      [newline, newline] @ ''[ground: '' @ last (py_split CHR '':'' (b_agent_id b)) @ '' '' @ em_dash @ '' '' @ b_title b @ '']''
        @ [newline] @ (case b_summary b of Some s \<Rightarrow> s | None \<Rightarrow> []))"

definition grounded_prompt :: "string \<Rightarrow> string \<Rightarrow> string" where
  "grounded_prompt prompt grounding =
     (if grounding = [] then prompt else prompt @ [newline, newline] @ ''Use this grounding material:'' @ grounding)"

definition agent_run :: "'w scen_env \<Rightarrow> agent \<Rightarrow> agent_task \<Rightarrow> ('w, agent_output) act" where
  "agent_run sn ag task =
     mbind (emit sn ag ''agent.started'' (\<lambda>e. e\<lparr>se_title := Some (tk_title task)\<rparr>)) (\<lambda>_.
     mbind (mfor (\<lambda>ctx_id. mbind (agent_retrieve sn ag ctx_id) (\<lambda>ctx. mret (ground_text ctx))) (take 2 (tk_derived_from task))) (\<lambda>gs.
     let prompt = grounded_prompt (tk_prompt task) (concat gs) in
     mbind (case tk_override_response task of
              Some r \<Rightarrow> mret r
            | None \<Rightarrow>
                mbind (emit sn ag ''llm.thinking'' (\<lambda>e. e\<lparr>se_preview := Some (py_take 100 prompt)\<rparr>)) (\<lambda>_.
                  call_llm sn ag prompt))
       (\<lambda>llm_result. agent_publish sn ag task llm_result)))"


section \<open>Events an operation adds\<close>

definition adds :: "step_event list \<Rightarrow> 'w rst \<Rightarrow> 'w rst \<Rightarrow> bool" where
  "adds es st st' \<longleftrightarrow> qc_events (r_ctx st') = map_option (\<lambda>q. q @ es) (qc_events (r_ctx st))"

lemma adds_refl [simp]: "adds [] st st"
  by (simp add: adds_def option.map_ident)

lemma adds_trans: "adds es st st1 \<Longrightarrow> adds es' st1 st2 \<Longrightarrow> adds (es @ es') st st2"
  by (cases "qc_events (r_ctx st)") (auto simp: adds_def)

lemma adds_mcall: "mcall m st = (st', r) \<Longrightarrow> adds [] st st'"
  by (auto simp: mcall_def adds_def option.map_ident split: prod.splits)

definition agent_event :: "'w scen_env \<Rightarrow> agent \<Rightarrow> string \<Rightarrow> (step_event \<Rightarrow> step_event) \<Rightarrow> 'w rst \<Rightarrow> step_event" where
  "agent_event sn ag typ upd st = upd ((mk_step_event typ (ag_run_id ag) (now_iso (sn_env sn) (world (r_io st))))\<lparr>
     se_agent_id := Some (agent_did (ag_producer ag)), se_framework := Some (framework ag)\<rparr>)"

lemma emit_eq: "emit sn ag typ upd st = (st\<lparr>r_ctx := put_event (agent_event sn ag typ upd st) (r_ctx st)\<rparr>, Inr ())"
  by (simp add: emit_def agent_event_def mbind_def mnow_def mget_def mput_def)

lemma adds_emit: "emit sn ag typ upd st = (st', r) \<Longrightarrow> r = Inr () \<and> adds [agent_event sn ag typ upd st] st st'"
  by (auto simp: emit_eq adds_def)

lemma se_type_agent_event: "(\<And>e. se_type (upd e) = se_type e) \<Longrightarrow> se_type (agent_event sn ag typ upd st) = typ"
  by (simp add: agent_event_def mk_step_event_def)

text \<open>A quota check adds at most the event that says the quota is exhausted.\<close>

definition civil_call :: "call_env \<Rightarrow> bool" where
  "civil_call env \<longleftrightarrow> (\<forall>op e. ce_fault env op = Some e \<longrightarrow> is_Exception e) \<and> (\<forall>e. ce_lock env = Some e \<longrightarrow> is_Exception e)"

lemma upsert_all_ordinary: "(\<And>op e. flt op = Some e \<Longrightarrow> is_Exception e) \<Longrightarrow> ordinary (upsert_all flt i cs rows)"
  by (induction flt i cs rows rule: upsert_all.induct) (auto simp: Let_def split: option.splits)

lemma postgres_consume_ordinary:
  assumes "\<And>op e. fst x op = Some e \<Longrightarrow> is_Exception e"
  shows "ordinary (snd (postgres_consume x st cs))"
proof -
  have "ordinary (snd (pg_transaction (fst x) st' cs))" for st'
    using upsert_all_ordinary[of "fst x" 0 cs "pg_rows st'"] assms
    by (auto simp: pg_transaction_def split: option.splits sum.splits)
  moreover have "ordinary (snd (get_pool (fst x) (snd x) st))"
    using assms by (auto simp: get_pool_def split: option.splits)
  ultimately show ?thesis unfolding postgres_consume_def by (intro ordinary_case)
qed

lemma store_consume_ordinary:
  assumes "civil_call env"
  shows "ordinary (snd (store_consume s env q cs))"
proof (cases "qs_store (get_quota_store s q)")
  case (Some x)
  show ?thesis
  proof (cases x)
    case (MemoryQuotaStore d)
    have "ordinary (snd (locked_memory_consume (ce_lock env) d cs))"
      using assms by (auto simp: civil_call_def locked_memory_consume_def memory_consume_def split: option.splits)
    then show ?thesis using Some MemoryQuotaStore by (auto simp: store_consume_def Let_def split: prod.splits)
  next
    case (PostgresQuotaStore pool)
    have "ordinary (snd (postgres_consume (ce_fault env, ce_today env) st cs))" for st
      using assms by (intro postgres_consume_ordinary) (auto simp: civil_call_def)
    then show ?thesis using Some PostgresQuotaStore by (auto simp: store_consume_def Let_def split: prod.splits) (metis snd_conv)
  qed
qed (simp add: store_consume_def)

definition quota_note :: "step_event list \<Rightarrow> bool" where
  "quota_note es \<longleftrightarrow> es = [] \<or> (\<exists>e. es = [e] \<and> se_type e = ''llm.quota_exceeded'')"

lemma note_denial_adds: "\<exists>es. qc_events (note_denial ts d ctx) = map_option (\<lambda>q. q @ es) (qc_events ctx) \<and> quota_note es"
proof (cases "qc_denials ctx = []")
  case True
  then show ?thesis
    by (intro exI[of _ "[quota_event ctx ts d]"]) (simp add: note_denial_def quota_note_def quota_event_def mk_step_event_def)
next
  case False
  then show ?thesis by (intro exI[of _ "[]"]) (simp add: note_denial_def quota_note_def option.map_ident)
qed

lemma check_llm_quota_adds:
  assumes "check_llm_quota s env q (Some ctx) = (q', ctx', r)"
  shows "\<exists>c es. ctx' = Some c \<and> qc_events c = map_option (\<lambda>q. q @ es) (qc_events ctx) \<and> quota_note es"
proof -
  obtain c where c: "ctx' = Some c" "c = ctx \<or> (\<exists>d. c = note_denial (ce_ts env) d ctx)"
    using assms by (auto simp: check_llm_quota_def split: sum.splits prod.splits option.splits if_splits)
  from c(2) show ?thesis
  proof
    assume "c = ctx"
    then show ?thesis using c(1) by (intro exI[of _ c] exI[of _ "[]"]) (simp add: quota_note_def option.map_ident)
  next
    assume "\<exists>d. c = note_denial (ce_ts env) d ctx"
    then obtain d where d: "c = note_denial (ce_ts env) d ctx" ..
    obtain es where "qc_events c = map_option (\<lambda>q. q @ es) (qc_events ctx)" "quota_note es"
      using note_denial_adds[of "ce_ts env" d ctx] d by blast
    then show ?thesis using c(1) by blast
  qed
qed

lemma check_llm_quota_ordinary:
  assumes "civil_call env"
  shows "ordinary (snd (snd (check_llm_quota s env q ctx)))"
proof -
  have "ordinary (next_day d)" "ordinary (next_month d)" for d by (auto simp: next_day_def next_month_def mk_date_def Let_def)
  then have "ordinary (counters_for ip s (ce_today env))" for ip
    by (auto simp: counters_for_def Let_def intro!: ordinary_rbind)
  then show ?thesis using store_consume_ordinary[OF assms, of s q]
    by (auto simp: check_llm_quota_def split: sum.splits prod.splits option.splits) (metis ordinary_simps(2) snd_conv)+
qed

lemma in_quota_adds:
  assumes "in_quota sn f st = (st', r)"
    and "\<And>env q ctx q' ctx' r. f env q (Some ctx) = (q', ctx', r) \<Longrightarrow>
      \<exists>c es. ctx' = Some c \<and> qc_events c = map_option (\<lambda>q. q @ es) (qc_events ctx) \<and> quota_note es"
  shows "(\<exists>es. adds es st st' \<and> quota_note es) \<and> r_clients st' = r_clients st"
proof -
  obtain q' ctx' where f: "f (quota_call sn (world (r_io st))) (quota_of sn (world (r_io st))) (Some (r_ctx st)) = (q', ctx', r)"
    and st': "st' = st\<lparr>r_io := (r_io st)\<lparr>world := set_quota sn q' (world (r_io st))\<rparr>, r_ctx := (case ctx' of Some c \<Rightarrow> c | None \<Rightarrow> r_ctx st)\<rparr>"
    using assms(1) by (auto simp: in_quota_def Let_def split: prod.splits)
  from assms(2)[OF f] st' show ?thesis by (auto simp: adds_def)
qed

lemma guarded_ainvoke_check:
  "(case guarded_ainvoke s env (\<lambda>m p. Inr m) q ctx prompt of (q', ctx', m, r) \<Rightarrow> (q', ctx', r)) =
   (case check_llm_quota s env q ctx of
      (q', ctx', Inl e) \<Rightarrow> (q', ctx', Inl e) | (q', ctx', Inr (Some d)) \<Rightarrow> (q', ctx', Inr Quota.Fallback)
    | (q', ctx', Inr None) \<Rightarrow> (q', ctx', Inr Inner))"
  by (auto simp: guarded_ainvoke_def split: prod.splits sum.splits option.splits)

lemma guarded_adds:
  "(case guarded_ainvoke s env (\<lambda>m p. Inr m) q (Some ctx) prompt of (q', ctx', m, r) \<Rightarrow> (q', ctx', r)) = (q1, ctx1, r1) \<Longrightarrow>
     \<exists>c es. ctx1 = Some c \<and> qc_events c = map_option (\<lambda>q. q @ es) (qc_events ctx) \<and> quota_note es"
  unfolding guarded_ainvoke_check
  by (cases "check_llm_quota s env q (Some ctx)") (auto dest!: check_llm_quota_adds split: sum.splits option.splits)

lemma guarded_in_quota:
  "in_quota sn (\<lambda>env q ctx. case guarded_ainvoke s env (\<lambda>m p. Inr m) q ctx prompt of (q', ctx', m, r) \<Rightarrow> (q', ctx', r)) st = (st', r) \<Longrightarrow>
     (\<exists>es. adds es st st' \<and> quota_note es) \<and> r_clients st' = r_clients st"
  by (erule in_quota_adds) (rule guarded_adds)

lemma checked_in_quota:
  "in_quota sn (check_llm_quota s) st = (st', r) \<Longrightarrow> (\<exists>es. adds es st st' \<and> quota_note es) \<and> r_clients st' = r_clients st"
  by (erule in_quota_adds) (rule check_llm_quota_adds)

lemma call_real_same: "call_real sn p st = (st', r) \<Longrightarrow> adds [] st st' \<and> r_clients st' = r_clients st"
  and crew_task_same: "crew_task sn p st = (st', s) \<Longrightarrow> adds [] st st' \<and> r_clients st' = r_clients st"
  by (auto simp: call_real_def crew_task_def adds_def option.map_ident split: prod.splits)

lemma ask_adds: "ask sn llm p st = (st', r) \<Longrightarrow> (\<exists>es. adds es st st' \<and> quota_note es) \<and> r_clients st' = r_clients st"
proof -
  assume "ask sn llm p st = (st', r)"
  then obtain x where a: "ainvoke sn llm p st = (st', x)"
    unfolding ask_def by (rule mbind_cases) auto
  have none: "quota_note []" by (simp add: quota_note_def)
  show ?thesis
  proof (cases llm)
    case GuardedLLM
    let ?f = "\<lambda>env q ctx. case guarded_ainvoke (sn_settings sn) env (\<lambda>m p. Inr m) q ctx p of (q', ctx', m, r) \<Rightarrow> (q', ctx', r)"
    from a GuardedLLM have "mbind (in_quota sn ?f) (\<lambda>m. case m of Inner \<Rightarrow> call_real sn p | Quota.Fallback \<Rightarrow> mlift (mock_ainvoke p)) st = (st', x)"
      by (simp add: ainvoke_def)
    then show ?thesis
    proof (cases rule: mbind_cases)
      case (err e)
      from guarded_in_quota[OF err(1)] show ?thesis .
    next
      case (ok st1 m)
      from guarded_in_quota[OF ok(1)] obtain es where es: "adds es st st1" "quota_note es" "r_clients st1 = r_clients st" by auto
      have "adds [] st1 st' \<and> r_clients st' = r_clients st1" using ok(2) call_real_same[of sn p st1 st'] by (cases m) auto
      with es adds_trans[of es st st1 "[]" st'] show ?thesis by auto
    qed
  next
    case RealLLM
    with a call_real_same[of sn p st st' x] none show ?thesis by (auto simp: ainvoke_def)
  next
    case MockLLM
    with a have "st' = st" by (auto simp: ainvoke_def)
    with none show ?thesis by (intro conjI exI[of _ "[]"]) simp_all
  qed
qed

lemma call_llm_adds: "call_llm sn ag p st = (st', r) \<Longrightarrow> (\<exists>es. adds es st st' \<and> quota_note es) \<and> r_clients st' = r_clients st"
proof -
  assume c: "call_llm sn ag p st = (st', r)"
  have none: "quota_note []" by (simp add: quota_note_def)
  show ?thesis
  proof (cases "ag_kind ag")
    case BaseAgent
    with c have "st' = st" by (auto simp: call_llm_def)
    with none show ?thesis by (intro conjI exI[of _ "[]"]) simp_all
  next
    case (LangChainAgent llm)
    with c ask_adds[of sn llm p st st' r] show ?thesis by (simp add: call_llm_def)
  next
    case (LangGraphAgent own)
    with c have "mbind (mlift (case own of Some l \<Rightarrow> Inr l | None \<Rightarrow> llm_for_settings sn)) (\<lambda>l. ask sn l (langgraph_draft p)) st = (st', r)"
      by (cases own) (auto simp: call_llm_def)
    then show ?thesis
    proof (cases rule: mbind_cases)
      case (err e)
      then have "st' = st" by simp
      with none show ?thesis by (intro conjI exI[of _ "[]"]) simp_all
    next
      case (ok st1 l)
      then show ?thesis using ask_adds[of sn l "langgraph_draft p" st st' r] by simp
    qed
  next
    case CrewAIAgent
    with c have cc: "crew_call sn p st = (st', r)" by (simp add: call_llm_def)
    show ?thesis
    proof (cases "llm_provider (sn_settings sn) = Mock")
      case True
      with cc ask_adds[of sn MockLLM p st st' r] show ?thesis by (simp add: crew_call_def)
    next
      case False
      with cc have "mbind (in_quota sn (check_llm_quota (sn_settings sn))) (\<lambda>denial.
           if denial \<noteq> None then ask sn MockLLM p else crew_task sn p) st = (st', r)" by (simp add: crew_call_def)
      then show ?thesis
      proof (cases rule: mbind_cases)
        case (err e)
        from checked_in_quota[OF err(1)] show ?thesis .
      next
        case (ok st1 d)
        from checked_in_quota[OF ok(1)] obtain es where es: "adds es st st1" "quota_note es" "r_clients st1 = r_clients st" by auto
        have "adds [] st1 st' \<and> r_clients st' = r_clients st1"
        proof (cases "d = None")
          case True
          with ok(2) crew_task_same[of sn p st1 st' r] show ?thesis by simp
        next
          case False
          with ok(2) have "st' = st1" by (auto simp: ask_def ainvoke_def elim: mbind_cases)
          then show ?thesis by simp
        qed
        with es adds_trans[of es st st1 "[]" st'] show ?thesis by auto
      qed
    qed
  qed
qed


section \<open>Agents are quiet\<close>

definition civil_ssrf :: "'w ssrf_env \<Rightarrow> bool" where
  "civil_ssrf se \<longleftrightarrow> (\<forall>l s. ordinary (check_ip se l s)) \<and> (\<forall>l s. ordinary (check_url_sdk se l s)) \<and> (\<forall>a b. ordinary (check_redirect_authority se a b))"

definition civil_scen :: "'w scen_env \<Rightarrow> bool" where
  "civil_scen sn \<longleftrightarrow> civil_env (sn_env sn) (sn_client sn) \<and> (\<forall>w. civil_call (quota_call sn w))
     \<and> (\<forall>w p. ordinary (snd (real_llm sn w p))) \<and> (\<forall>w p. ordinary (snd (crew_llm sn w p))) \<and> (\<forall>p m k. ordinary (chat_model sn p m k))
     \<and> (\<forall>s d k. pred_sum is_Exception civil_producer (from_seed sn s d k)) \<and> (\<forall>s. pred_sum is_Exception civil_producer (from_seed_did_key sn s))
     \<and> (\<forall>f s d k. p256_from_seed sn = Some f \<longrightarrow> pred_sum is_Exception civil_producer (f s d k))
     \<and> (\<forall>s. pred_sum is_Exception civil_producer (p256_from_seed_did_key sn s))
     \<and> (\<forall>s. ordinary (canonicalize (sn_sdk sn) s)) \<and> (\<forall>s. ordinary (verify_body_offline (sn_sdk sn) s))
     \<and> (\<forall>s h. ordinary (verify_content_hash (sn_sdk sn) s h)) \<and> (\<forall>f xs. ordinary (sdk_fun sn f xs)) \<and> civil_ssrf (sn_ssrf sn)"

lemma civil_scen_env: "civil_scen sn \<Longrightarrow> civil_env (sn_env sn) (sn_client sn)"
  by (simp add: civil_scen_def)

definition civil_agent :: "agent \<Rightarrow> bool" where
  "civil_agent ag \<longleftrightarrow> civil_producer (ag_producer ag) \<and> civil_client (ag_client ag)
     \<and> (\<forall>cl \<in> snd ` set (ag_authority_map ag). civil_client cl)"

lemma quiet_same:
  "(\<And>st st' r. m st = (st', r) \<Longrightarrow> (\<exists>es. adds es st st' \<and> quota_note es) \<and> r_clients st' = r_clients st) \<Longrightarrow>
   (\<And>st st' r. m st = (st', r) \<Longrightarrow> ordinary r) \<Longrightarrow> quiet_act m"
proof (rule quiet_actI)
  fix st st' r
  assume a: "\<And>st st' r. m st = (st', r) \<Longrightarrow> (\<exists>es. adds es st st' \<and> quota_note es) \<and> r_clients st' = r_clients st"
    and o: "\<And>st st' r. m st = (st', r) \<Longrightarrow> ordinary r" and c: "civil_state st" and m: "m st = (st', r)"
  obtain es where es: "adds es st st'" "quota_note es" "r_clients st' = r_clients st" using a[OF m] by blast
  then have "\<forall>e \<in> set es. \<not> is_terminal e" by (auto simp: quota_note_def is_terminal_def)
  with es c o[OF m] show "adds_quietly st st' \<and> ordinary r" by (auto simp: adds_quietly_def adds_def civil_state_def)
qed

lemma quiet_emit [quiet]:
  assumes "typ \<noteq> ''run.complete''" "typ \<noteq> ''run.error''" "\<And>e. se_type (upd e) = se_type e"
  shows "quiet_act (emit sn ag typ upd)"
  unfolding emit_def by (intro quiet) (simp add: is_terminal_def assms mk_step_event_def)

lemma quiet_ask:
  assumes "civil_scen sn"
  shows "quiet_act (ask sn llm p)"
proof (rule quiet_same[OF ask_adds])
  fix st st' r
  have mock: "ordinary (mock_ainvoke p)" by (auto simp: mock_ainvoke_def first_line_def)
  have real: "call_real sn p st = (st', x) \<Longrightarrow> ordinary x" for st st' x
    using assms unfolding civil_scen_def by (auto simp: call_real_def split: prod.splits) (metis snd_conv)
  let ?f = "\<lambda>env q ctx. case guarded_ainvoke (sn_settings sn) env (\<lambda>m p. Inr m) q ctx p of (q', ctx', m, r) \<Rightarrow> (q', ctx', r)"
  have chk: "in_quota sn ?f st = (st', y) \<Longrightarrow> ordinary y" for st st' y
  proof -
    assume q: "in_quota sn ?f st = (st', y)"
    let ?w = "world (r_io st)"
    have "civil_call (quota_call sn ?w)" using assms by (simp add: civil_scen_def)
    from check_llm_quota_ordinary[OF this, of "sn_settings sn" "quota_of sn ?w" "Some (r_ctx st)"]
    have "ordinary (snd (snd (?f (quota_call sn ?w) (quota_of sn ?w) (Some (r_ctx st)))))"
      unfolding guarded_ainvoke_check by (auto split: prod.splits sum.splits option.splits)
    with q show ?thesis by (auto simp: in_quota_def Let_def split: prod.splits)
  qed
  assume "ask sn llm p st = (st', r)"
  then obtain x where a: "ainvoke sn llm p st = (st', x)" "r = map_sum id (response_text (ce_jwt (sn_client sn))) x"
    unfolding ask_def by (rule mbind_cases) auto
  have "ordinary x"
  proof (cases llm)
    case GuardedLLM
    with a(1) show ?thesis
      by (simp add: ainvoke_def) (erule mbind_cases, auto dest: chk real simp: mock split: model.splits)
  qed (use a(1) mock real in \<open>auto simp: ainvoke_def\<close>)
  with a(2) show "ordinary r" by (cases x) auto
qed

lemma quiet_call_llm:
  assumes "civil_scen sn"
  shows "quiet_act (call_llm sn ag p)"
proof -
  have settings: "ordinary (llm_for_settings sn)"
    using assms by (auto simp: civil_scen_def llm_for_settings_def build_llm_def Let_def intro!: ordinary_rbind split: llm_provider.splits)
  have crew: "quiet_act (crew_task sn p)"
    by (rule quiet_same) (use assms crew_task_same in \<open>fastforce simp: quota_note_def\<close>,
        use assms in \<open>auto simp: civil_scen_def crew_task_def split: prod.splits, metis snd_conv\<close>)
  have chk: "quiet_act (in_quota sn (check_llm_quota (sn_settings sn)))"
  proof (rule quiet_same[OF checked_in_quota])
    fix st st' r
    assume q: "in_quota sn (check_llm_quota (sn_settings sn)) st = (st', r)"
    have "civil_call (quota_call sn (world (r_io st)))" using assms by (simp add: civil_scen_def)
    from check_llm_quota_ordinary[OF this] q show "ordinary r"
      by (auto simp: in_quota_def Let_def split: prod.splits) (metis snd_conv)
  qed
  show ?thesis
    unfolding call_llm_def crew_call_def
    by (auto intro!: quiet quiet_ask[OF assms] settings crew chk split: agent_kind.split option.split)
qed

lemma request_hash_ordinary: "ordinary (request_hash r)"
  by (auto simp: request_hash_def json_loads_def intro!: ordinary_rbind split: json.splits option.splits)

lemma quiet_send_request:
  assumes "civil_scen sn" "civil_agent ag"
  shows "quiet_act (send_request sn ag task r k req)"
  unfolding send_request_def Let_def
  by (intro quiet quiet_mcall safe_calls civil_scen_env[OF assms(1)] request_hash_ordinary)
     (use assms(2) in \<open>simp_all add: civil_agent_def\<close>)

lemma quiet_agent_publish:
  assumes "civil_scen sn" "civil_agent ag"
  shows "quiet_act (agent_publish sn ag task r)"
  unfolding agent_publish_def
  by (intro quiet quiet_send_request[OF assms]) (use assms(2) in \<open>simp add: civil_agent_def civil_producer_def\<close>)

lemma quiet_agent_supersede:
  assumes "civil_scen sn" "civil_agent ag"
  shows "quiet_act (agent_supersede sn ag prev task r l)"
  unfolding agent_supersede_def
  by (intro quiet quiet_send_request[OF assms]) (use assms(2) in \<open>simp add: civil_agent_def civil_producer_def\<close>)

lemma quiet_agent_retrieve:
  assumes "civil_scen sn" "civil_agent ag"
  shows "quiet_act (agent_retrieve sn ag c)"
proof -
  let ?cl = "dict_get_default (ag_authority_map ag) (authority_of c) (ag_client ag)"
  have "civil_client ?cl" using assms(2) map_of_SomeD[of "ag_authority_map ag" "authority_of c"]
    by (force simp: civil_agent_def dict_get_default_def split: option.splits)
  then show ?thesis unfolding agent_retrieve_def resolve_def
    by (intro quiet quiet_mcall safe_calls civil_scen_env[OF assms(1)]) simp_all
qed

lemma quiet_agent_run:
  assumes "civil_scen sn" "civil_agent ag"
  shows "quiet_act (agent_run sn ag task)"
  unfolding agent_run_def Let_def
  by (intro quiet quiet_agent_retrieve[OF assms] quiet_call_llm[OF assms(1)] quiet_agent_publish[OF assms]) simp_all


section \<open>Properties\<close>

lemma retrying_answered:
  assumes "retrying env ce cl mk extra io tm = (io', tm', Inr (rq, r))"
  shows "\<exists>h. rq = mk h \<and> rq \<in> set (sent io')"
proof -
  obtain io1 tm1 h where "client_headers env ce cl extra io tm = (io1, tm1, Inr h)"
    and k: "abind (http_call env (mk h)) (\<lambda>(rq, r). case managed cl of
         Some p \<Rightarrow> if status_code r \<noteq> 401 then areturn (rq, r)
           else abind (drop_token cl p) (\<lambda>_. abind (client_headers env ce cl extra) (\<lambda>h'. http_call env (mk h')))
       | None \<Rightarrow> areturn (rq, r)) io1 tm1 = (io', tm', Inr (rq, r))"
    using assms unfolding retrying_def abind_Inr by blast
  then obtain io2 tm2 r1 where h: "http_call env (mk h) io1 tm1 = (io2, tm2, Inr (mk h, r1))"
    and k2: "(case managed cl of
         Some p \<Rightarrow> if status_code r1 \<noteq> 401 then areturn (mk h, r1)
           else abind (drop_token cl p) (\<lambda>_. abind (client_headers env ce cl extra) (\<lambda>h'. http_call env (mk h')))
       | None \<Rightarrow> areturn (mk h, r1)) io2 tm2 = (io', tm', Inr (rq, r))"
    unfolding abind_Inr by (fastforce simp: http_call_Inr)
  have first: "mk h \<in> set (sent io2)" using http_call_sent[OF h] by simp
  show ?thesis
  proof (cases "managed cl = None \<or> status_code r1 \<noteq> 401")
    case True
    with k2 have "rq = mk h" "io' = io2" by (auto split: option.splits if_splits)
    with first show ?thesis by blast
  next
    case False
    with k2 obtain io3 tm3 h' where h3: "http_call env (mk h') io3 tm3 = (io', tm', Inr (rq, r))"
      by (auto simp: abind_Inr split: option.splits)
    then show ?thesis using http_call_sent[OF h3] by (auto simp: http_call_Inr)
  qed
qed

lemma publish_context_sent:
  assumes "publish_context env ce cl req key io tm = (io', tm', Inr resp)"
  shows "\<exists>h. content_post (cl_base cl @ ''/contexts'') req h \<in> set (sent io')"
proof -
  obtain j where "fetch_json env ce cl (content_post (cl_base cl @ ''/contexts'') req)
        (case nonempty_str key of Some k \<Rightarrow> [(''Idempotency-Key'', k)] | None \<Rightarrow> []) io tm = (io', tm', Inr j)"
    using assms unfolding publish_context_def abind_Inr by auto
  then obtain rq r where "retrying env ce cl (content_post (cl_base cl @ ''/contexts'') req)
        (case nonempty_str key of Some k \<Rightarrow> [(''Idempotency-Key'', k)] | None \<Rightarrow> []) io tm = (io', tm', Inr (rq, r))"
    unfolding fetch_json_def abind_Inr by auto
  from retrying_answered[OF this] show ?thesis by auto
qed

lemma send_request_outcome:
  assumes "send_request sn ag task text key req st = (st', r)"
  shows "(\<forall>e. r = Inl e \<longrightarrow> adds [] st st') \<and>
    (\<forall>out. r = Inr out \<longrightarrow> (\<exists>resp ev.
        publish_context (sn_env sn) (sn_client sn) (ag_client ag) req key (r_io st) (r_tm st) = (r_io st', r_tm st', Inr resp)
      \<and> ao_ctx_id out = pr_ctx_id resp \<and> ao_lineage_id out = pr_lineage_id resp \<and> ao_version out = pr_version resp
      \<and> ao_title out = tk_title task \<and> request_hash req = Inr (ao_content_hash out)
      \<and> adds [ev] st st' \<and> se_type ev = ''acdp.publish'' \<and> se_ctx_id ev = Some (ao_ctx_id out)
      \<and> se_agent_id ev = Some (agent_did (ag_producer ag)) \<and> se_derived_from ev = tk_derived_from task))"
  using assms unfolding send_request_def Let_def
proof (cases rule: mbind_cases)
  case (err e)
  then show ?thesis using adds_mcall[OF err(1)] by simp
next
  case (ok st1 resp)
  note a1 = adds_mcall[OF ok(1)]
  have call: "publish_context (sn_env sn) (sn_client sn) (ag_client ag) req key (r_io st) (r_tm st) = (r_io st1, r_tm st1, Inr resp)"
    using ok(1) by (auto simp: mcall_def split: prod.splits)
  show ?thesis
  proof (cases "request_hash req")
    case (Inl e)
    with ok(2) have "r = Inl e" "st' = st1" by (simp_all add: mraise_def)
    with a1 show ?thesis by simp
  next
    case (Inr h)
    let ?ev = "agent_event sn ag ''acdp.publish'' (\<lambda>e. e\<lparr>se_ctx_id := Some (pr_ctx_id resp), se_title := Some (tk_title task),
              se_derived_from := tk_derived_from task, se_preview := Some (py_take 100 text)\<rparr>) st1"
    have st': "st' = st1\<lparr>r_ctx := put_event ?ev (r_ctx st1)\<rparr>"
      and r: "r = Inr \<lparr>ao_ctx_id = pr_ctx_id resp, ao_lineage_id = pr_lineage_id resp, ao_version = pr_version resp,
                ao_title = tk_title task, ao_llm_response = text, ao_content_hash = h\<rparr>"
      using ok(2) Inr by (auto simp: mbind_def emit_eq mret_def)
    have "adds [?ev] st1 st'" by (simp add: st' adds_def)
    with adds_trans[OF a1] have "adds [?ev] st st'" by fastforce
    then show ?thesis using call r st' Inr by (auto simp: agent_event_def mk_step_event_def)
  qed
qed

text \<open>
  C29. What an agent reports is what the registry acknowledged. When \<^verbatim>\<open>publish\<close> returns, the request its
  producer signed for this task went over the wire to the registry's \<^verbatim>\<open>/contexts\<close>, the identifiers returned are those of the
  registry's answer, the content hash is the one inside the signed request, and exactly one
  \<^verbatim>\<open>acdp.publish\<close> event with that context was put on the stream; when it raises, nothing was announced.
\<close>

theorem publish_reports_registry:
  assumes "agent_publish sn ag task text st = (st', r)"
  shows "(\<forall>e. r = Inl e \<longrightarrow> adds [] st st') \<and>
    (\<forall>out. r = Inr out \<longrightarrow> (\<exists>req h resp ev.
        build_publish_request (ag_producer ag) (publish_kwargs sn ag task text) = Inr req
      \<and> content_post (cl_base (ag_client ag) @ ''/contexts'') req h \<in> set (sent (r_io st'))
      \<and> publish_context (sn_env sn) (sn_client sn) (ag_client ag) req (tk_idempotency_key task) (r_io st) (r_tm st)
          = (r_io st', r_tm st', Inr resp)
      \<and> ao_ctx_id out = pr_ctx_id resp \<and> ao_lineage_id out = pr_lineage_id resp \<and> ao_version out = pr_version resp
      \<and> request_hash req = Inr (ao_content_hash out)
      \<and> adds [ev] st st' \<and> se_type ev = ''acdp.publish'' \<and> se_ctx_id ev = Some (ao_ctx_id out)
      \<and> se_agent_id ev = Some (agent_did (ag_producer ag))))"
proof (cases "build_publish_request (ag_producer ag) (publish_kwargs sn ag task text)")
  case (Inl e)
  with assms show ?thesis by (auto simp: agent_publish_def mraise_def)
next
  case (Inr req)
  with assms have s: "send_request sn ag task text (tk_idempotency_key task) req st = (st', r)"
    by (simp add: agent_publish_def)
  show ?thesis
  proof (cases r)
    case (Inl e)
    with send_request_outcome[OF s] show ?thesis by simp
  next
    case r: (Inr out)
    from send_request_outcome[OF s, THEN conjunct2, rule_format, OF r] obtain resp ev where *:
      "publish_context (sn_env sn) (sn_client sn) (ag_client ag) req (tk_idempotency_key task) (r_io st) (r_tm st) = (r_io st', r_tm st', Inr resp)"
      "ao_ctx_id out = pr_ctx_id resp \<and> ao_lineage_id out = pr_lineage_id resp \<and> ao_version out = pr_version resp
       \<and> request_hash req = Inr (ao_content_hash out) \<and> adds [ev] st st' \<and> se_type ev = ''acdp.publish''
       \<and> se_ctx_id ev = Some (ao_ctx_id out) \<and> se_agent_id ev = Some (agent_did (ag_producer ag))" by blast
    obtain h where "content_post (cl_base (ag_client ag) @ ''/contexts'') req h \<in> set (sent (r_io st'))"
      using publish_context_sent[OF *(1)] by blast
    with * r Inr show ?thesis by blast
  qed
qed


text \<open>An environment whose registry acknowledges every publish with the same identifiers.\<close>

definition demo_client_env :: client_env where
  "demo_client_env = Client.demo_env\<lparr>validate_publish := (\<lambda>j. Inr \<lparr>pr_ctx_id = ''acdp://a/1'', pr_lineage_id = ''lin:1'',
     pr_version = 1, pr_created_at = 0, pr_status = ''active''\<rparr>)\<rparr>"

definition request_text :: string where
  "request_text = json_dumps (\<lambda>f. []) (JObj [(''content_hash'', JStr ''sha256:1'')])"

definition demo_signer :: producer where
  "demo_signer = demo_producer\<lparr>build_publish_request := (\<lambda>kw. Inr request_text)\<rparr>"

definition demo_scen :: "(request \<Rightarrow> response result) \<Rightarrow> unit scen_env" where
  "demo_scen answer = \<lparr>sn_env = stub_env answer, sn_client = demo_client_env, sn_sdk = plain_sdk, sn_texts = demo_texts,
     sn_settings = default_settings\<lparr>llm_provider := Mock\<rparr>, quota_of = (\<lambda>w. empty_quota), set_quota = (\<lambda>q w. w),
     quota_call = (\<lambda>w. Quota.demo_env), real_llm = (\<lambda>w p. (w, Inr (JStr p))), chat_model = (\<lambda>p m k. Inr ()),
     crew_llm = (\<lambda>w p. (w, Inr p)), gather_order = (\<lambda>w. []), from_seed = (\<lambda>s d k. Inr demo_signer),
     from_seed_did_key = (\<lambda>s. Inr demo_signer), p256_from_seed = Some (\<lambda>s d k. Inr demo_signer),
     p256_from_seed_did_key = (\<lambda>s. Inr demo_signer), sdk_fun = (\<lambda>f xs. Inr (JBool True)),
     sn_ssrf = \<lparr>check_ip = (\<lambda>l s. Inr ()), check_url_sdk = (\<lambda>l s. Inr ()), check_redirect_authority = (\<lambda>a b. Inr ()),
       getaddrinfo = (\<lambda>w h. Inr []), url_join = (\<lambda>a b. Inr b)\<rparr>, exn_reason = (\<lambda>e. ''?''), now_z = (\<lambda>w. []), now_ms = (\<lambda>w. []), fresh_uuid = (\<lambda>w. (w, ''u'')),
     sdk_hosts = (\<lambda>f xs. [])\<rparr>"

definition demo_rst :: "unit rst" where
  "demo_rst = \<lparr>r_io = stub_io, r_ctx = \<lparr>qc_run_id = ''r1'', qc_events = Some [], qc_client_ip = None, qc_denials = []\<rparr>,
     r_tm = new_token_manager 30, r_has_tm = False, r_clients = []\<rparr>"

definition demo_agent :: agent where
  "demo_agent = \<lparr>ag_producer = demo_signer, ag_client = plain_client ''http://r'', ag_run_id = ''r1'', ag_authority_map = [],
     ag_slug = None, ag_kind = LangChainAgent MockLLM\<rparr>"

lemma demo_publish_call:
  "publish_context (stub_env (\<lambda>rq. Inr (json_answer 200 JNull))) demo_client_env (plain_client ''http://r'') req None io tm
     = (io\<lparr>sent := sent io @ [content_post ''http://r/contexts'' req
          [(''Content-Type'', ''application/json''), (''Accept'', ''application/acdp+json, application/json'')]]\<rparr>, tm,
        Inr \<lparr>pr_ctx_id = ''acdp://a/1'', pr_lineage_id = ''lin:1'', pr_version = 1, pr_created_at = 0, pr_status = ''active''\<rparr>)"
  by (simp add: publish_context_def fetch_json_def retrying_def abind_def client_headers_def bearer_token_def managed_def plain_client_def
      areturn_def header_dict_def Let_def put_opt_def tenant_header_value_def http_call_def raise_for_status_def json_of_def alift_def
      demo_client_env_def nonempty_str_def dict_update_def rstrip_char_def)

lemma request_text_hash: "request_hash request_text = Inr ''sha256:1''"
proof -
  have "json_loads request_text = Inr (JObj [(''content_hash'', JStr ''sha256:1'')])"
    unfolding request_text_def by (rule json_roundtrip) simp
  then show ?thesis by (simp add: request_hash_def)
qed

theorem publish_reports_registry_witness:
  "\<exists>st' out ev. agent_publish (demo_scen (\<lambda>rq. Inr (json_answer 200 JNull))) demo_agent (new_task ''p'' ''t'') ''text'' demo_rst = (st', Inr out)
     \<and> ao_ctx_id out = ''acdp://a/1'' \<and> ao_content_hash out = ''sha256:1'' \<and> adds [ev] demo_rst st' \<and> se_ctx_id ev = Some ''acdp://a/1''"
proof -
  let ?sn = "demo_scen (\<lambda>rq. Inr (json_answer 200 JNull))"
  obtain st' r where p: "agent_publish ?sn demo_agent (new_task ''p'' ''t'') ''text'' demo_rst = (st', r)" by (metis prod.collapse)
  moreover have "\<exists>out. snd (agent_publish ?sn demo_agent (new_task ''p'' ''t'') ''text'' demo_rst) = Inr out"
    by (simp add: agent_publish_def demo_agent_def demo_signer_def send_request_def mbind_def mlift_def mcall_def demo_scen_def
        demo_publish_call new_task_def request_text_hash Let_def emit_eq mret_def demo_rst_def stub_io_def)
  ultimately obtain out where r: "r = Inr out" by auto
  have call: "publish_context (sn_env ?sn) (sn_client ?sn) (ag_client demo_agent) req None io tm
     = (io\<lparr>sent := sent io @ [content_post ''http://r/contexts'' req
          [(''Content-Type'', ''application/json''), (''Accept'', ''application/acdp+json, application/json'')]]\<rparr>, tm,
        Inr \<lparr>pr_ctx_id = ''acdp://a/1'', pr_lineage_id = ''lin:1'', pr_version = 1, pr_created_at = 0, pr_status = ''active''\<rparr>)" for req io tm
    using demo_publish_call by (simp add: demo_scen_def demo_agent_def)
  have req: "build_publish_request (ag_producer demo_agent) kw = Inr request_text" for kw
    by (simp add: demo_agent_def demo_signer_def)
  from publish_reports_registry[OF p, THEN conjunct2, rule_format, OF r] p r show ?thesis
    by (auto simp: call req request_text_hash new_task_def)
qed

lemma adds_retrieve:
  assumes "agent_retrieve sn ag c st = (st', Inr ctx)"
  shows "\<exists>e. adds [e] st st' \<and> se_type e = ''acdp.retrieve'' \<and> se_ctx_id e = Some c"
proof -
  let ?upd = "\<lambda>e. e\<lparr>se_ctx_id := Some c\<rparr>"
  obtain st1 where "adds [] st st1" "st' = st1\<lparr>r_ctx := put_event (agent_event sn ag ''acdp.retrieve'' ?upd st1) (r_ctx st1)\<rparr>"
    using assms unfolding agent_retrieve_def mbind_Inr by (auto simp: emit_eq dest: adds_mcall)
  moreover from this(2) have "adds [agent_event sn ag ''acdp.retrieve'' ?upd st1] st1 st'" by (simp add: adds_def)
  ultimately have "adds [agent_event sn ag ''acdp.retrieve'' ?upd st1] st st'" using adds_trans by fastforce
  then show ?thesis by (auto simp: agent_event_def mk_step_event_def)
qed

lemma adds_retrievals:
  "mfor (\<lambda>c. mbind (agent_retrieve sn ag c) (\<lambda>ctx. mret (ground_text ctx))) cs st = (st', Inr gs) \<Longrightarrow>
     \<exists>es. adds es st st' \<and> map se_type es = replicate (length cs) ''acdp.retrieve'' \<and> map se_ctx_id es = map Some cs"
proof (induction cs arbitrary: st gs)
  case (Cons c cs)
  then obtain st1 ctx gs' where r: "agent_retrieve sn ag c st = (st1, Inr ctx)"
    and rest: "mfor (\<lambda>c. mbind (agent_retrieve sn ag c) (\<lambda>ctx. mret (ground_text ctx))) cs st1 = (st', Inr gs')"
    by (auto simp: mbind_Inr)
  obtain e where e: "adds [e] st st1" "se_type e = ''acdp.retrieve''" "se_ctx_id e = Some c" using adds_retrieve[OF r] by blast
  obtain es where "adds es st1 st'" "map se_type es = replicate (length cs) ''acdp.retrieve''" "map se_ctx_id es = map Some cs"
    using Cons.IH[OF rest] by blast
  with e adds_trans[OF e(1)] show ?case by (intro exI[of _ "e # es"]) fastforce
qed (auto intro: exI[of _ "[]"])

text \<open>
  A run of an agent tells its story in order. A successful run announces its start, one retrieval for each of the first
  two contexts it derives from, that it asks the model (followed by the notice of an exhausted quota, if that was the
  moment it ran out) unless the response was given, and last the context it published.
\<close>

theorem agent_run_story:
  assumes "agent_run sn ag task st = (st', Inr out)"
  shows "\<exists>es note. adds es st st' \<and> set note \<subseteq> {''llm.quota_exceeded''} \<and> length note \<le> 1
    \<and> map se_type es = ''agent.started'' # replicate (min 2 (length (tk_derived_from task))) ''acdp.retrieve''
        @ (if tk_override_response task = None then ''llm.thinking'' # note else []) @ [''acdp.publish'']
    \<and> se_ctx_id (last es) = Some (ao_ctx_id out)"
proof -
  let ?ret = "mfor (\<lambda>c. mbind (agent_retrieve sn ag c) (\<lambda>ctx. mret (ground_text ctx))) (take 2 (tk_derived_from task))"
  let ?start = "agent_event sn ag ''agent.started'' (\<lambda>e. e\<lparr>se_title := Some (tk_title task)\<rparr>) st"
  obtain st1 st2 st3 gs ans where
    e1: "emit sn ag ''agent.started'' (\<lambda>e. e\<lparr>se_title := Some (tk_title task)\<rparr>) st = (st1, Inr ())"
    and e2: "?ret st1 = (st2, Inr gs)"
    and e3: "(case tk_override_response task of Some r \<Rightarrow> mret r
            | None \<Rightarrow> mbind (emit sn ag ''llm.thinking'' (\<lambda>e. e\<lparr>se_preview := Some (py_take 100 (grounded_prompt (tk_prompt task) (concat gs)))\<rparr>))
                (\<lambda>_. call_llm sn ag (grounded_prompt (tk_prompt task) (concat gs)))) st2 = (st3, Inr ans)"
    and e4: "agent_publish sn ag task ans st3 = (st', Inr out)"
    using assms unfolding agent_run_def Let_def mbind_Inr by auto
  have a1: "adds [?start] st st1" using adds_emit[OF e1] by simp
  obtain rs where a2: "adds rs st1 st2" and t2: "map se_type rs = replicate (min 2 (length (tk_derived_from task))) ''acdp.retrieve''"
    using adds_retrievals[OF e2] by (auto simp: min.commute)
  have "\<exists>es note. adds es st2 st3 \<and> set note \<subseteq> {''llm.quota_exceeded''} \<and> length note \<le> 1
     \<and> map se_type es = (if tk_override_response task = None then ''llm.thinking'' # note else [])"
  proof (cases "tk_override_response task")
    case None
    let ?p = "grounded_prompt (tk_prompt task) (concat gs)"
    let ?think = "agent_event sn ag ''llm.thinking'' (\<lambda>e. e\<lparr>se_preview := Some (py_take 100 ?p)\<rparr>) st2"
    obtain st4 where t: "emit sn ag ''llm.thinking'' (\<lambda>e. e\<lparr>se_preview := Some (py_take 100 ?p)\<rparr>) st2 = (st4, Inr ())"
      and c: "call_llm sn ag ?p st4 = (st3, Inr ans)" using e3 None by (auto simp: mbind_Inr)
    obtain qs where q: "adds qs st4 st3" "quota_note qs" using call_llm_adds[OF c] by blast
    have "adds (?think # qs) st2 st3" using adds_trans[of "[?think]" st2 st4 qs st3] adds_emit[OF t] q(1) by simp
    moreover have "se_type ?think = ''llm.thinking''" by (rule se_type_agent_event) simp
    ultimately show ?thesis using q(2) None
      by (intro exI[of _ "?think # qs"] exI[of _ "map se_type qs"]) (auto simp: quota_note_def)
  next
    case (Some r)
    with e3 show ?thesis by (auto intro!: exI[of _ "[]"])
  qed
  then obtain ls nt where a3: "adds ls st2 st3" and n: "set nt \<subseteq> {''llm.quota_exceeded''}" "length nt \<le> 1"
    and t3: "map se_type ls = (if tk_override_response task = None then ''llm.thinking'' # nt else [])" by blast
  obtain req where "send_request sn ag task ans (tk_idempotency_key task) req st3 = (st', Inr out)"
    using e4 by (auto simp: agent_publish_def mbind_Inr)
  from send_request_outcome[OF this] obtain ev where a4: "adds [ev] st3 st'" "se_type ev = ''acdp.publish''" "se_ctx_id ev = Some (ao_ctx_id out)"
    by blast
  have "adds ([?start] @ rs @ ls @ [ev]) st st'"
    using adds_trans[OF a1 adds_trans[OF a2 adds_trans[OF a3 a4(1)]]] .
  moreover have "se_type ?start = ''agent.started''" by (rule se_type_agent_event) simp
  ultimately show ?thesis using t2 t3 a4 n by (intro exI[of _ "[?start] @ rs @ ls @ [ev]"] exI[of _ nt]) simp
qed


theorem agent_run_story_witness:
  "\<exists>st' out es. agent_run (demo_scen (\<lambda>rq. Inr (json_answer 200 JNull))) demo_agent (new_task ''p'' ''t'') demo_rst = (st', Inr out)
     \<and> adds es demo_rst st' \<and> se_type (hd es) = ''agent.started'' \<and> se_type (last es) = ''acdp.publish''"
proof -
  let ?sn = "demo_scen (\<lambda>rq. Inr (json_answer 200 JNull))"
  have "\<exists>x. mock_ainvoke ''p'' = Inr (JStr x)"
    by (simp add: mock_ainvoke_def first_line_def py_strip_def py_lstrip_def py_rstrip_def is_space_char_def)
  then obtain x where x: "mock_ainvoke ''p'' = Inr (JStr x)" by blast
  have "\<exists>st' out. agent_run ?sn demo_agent (new_task ''p'' ''t'') demo_rst = (st', Inr out)"
    by (simp add: agent_run_def new_task_def Let_def mbind_def emit_eq mret_def grounded_prompt_def call_llm_def demo_agent_def ask_def
        ainvoke_def x mlift_def response_text_def agent_publish_def demo_signer_def send_request_def mcall_def demo_scen_def
        demo_publish_call request_text_hash demo_rst_def stub_io_def)
  then obtain st' out where r: "agent_run ?sn demo_agent (new_task ''p'' ''t'') demo_rst = (st', Inr out)" by blast
  obtain es mid where es: "adds es demo_rst st'" "map se_type es = ''agent.started'' # mid @ [''acdp.publish'']"
    using agent_run_story[OF r] by (fastforce simp: new_task_def)
  have "se_type (hd es) = hd (map se_type es)" "se_type (last es) = last (map se_type es)" if "es \<noteq> []"
    using that by (simp_all add: hd_map last_map)
  with es(2) have "se_type (hd es) = ''agent.started''" "se_type (last es) = ''acdp.publish''" by (force, force)
  with r es(1) show ?thesis by blast
qed

end
