(* ===== verification/Factory.thy ===== *)
theory Factory
  imports Agents
begin

text \<open>
  playground/scenarios/\_factory.py: the deterministic identities of a run's agents, the per-run cache of registry
  clients (\<^verbatim>\<open>AgentBundle\<close>) and the construction of an agent.

  The cache and the token manager the bundle makes on demand are part of the run's state. The HTTP connections the bundle closes at
  the end have no counterpart.
\<close>

section \<open>Identities\<close>

datatype did_method = Did_web | Did_key

definition did_for :: "string \<Rightarrow> string \<Rightarrow> string" where
  "did_for authority slug = ''did:web:'' @ authority @ '':agents:'' @ slug"

definition key_id_for :: "string \<Rightarrow> string \<Rightarrow> string" where
  "key_id_for authority slug = did_for authority slug @ ''#key-1''"

text \<open>The loop of \<^verbatim>\<open>_p256_seed\<close>, with the number of attempts left.\<close>

fun p256_attempts :: "(bytes \<Rightarrow> producer result) \<Rightarrow> nat \<Rightarrow> bytes \<Rightarrow> bytes result" where
  "p256_attempts probe 0 candidate = Inl ValueError"
| "p256_attempts probe (Suc n) candidate =
     (case probe candidate of
        Inr _ \<Rightarrow> Inr candidate
      | Inl e \<Rightarrow> if is_ValueError e then p256_attempts probe n (sha256 candidate) else Inl e)"

definition p256_seed :: "'w scen_env \<Rightarrow> bytes \<Rightarrow> bytes result" where
  "p256_seed sn seed =
     (case p256_from_seed sn of
        None \<Rightarrow> Inl (RuntimeError (''ECDSA-P256 requested but the installed acdp SDK lacks AcdpP256Producer '' @ em_dash
                  @ '' rebuild acdp-py (maturin) to enable it.''))
      | Some probe \<Rightarrow>
          p256_attempts (\<lambda>c. probe c ''did:web:probe:agents:x'' ''did:web:probe:agents:x#k'') 8 seed)"

text \<open>
  Python looks up the constructor before it evaluates the seed, so that a missing P-256 class is an
  \<^verbatim>\<open>AttributeError\<close> on None.
\<close>

definition producer_for :: "'w scen_env \<Rightarrow> run_spec \<Rightarrow> string \<Rightarrow> string \<Rightarrow> string \<Rightarrow> did_method \<Rightarrow> producer result" where
  "producer_for sn spec slug authority algorithm method =
     (let seed = agent_seed spec slug; did = did_for authority slug; key = key_id_for authority slug in
      if algorithm = ALG_P256
      then (case p256_from_seed sn of
              None \<Rightarrow> Inl AttributeError
            | Some p256 \<Rightarrow>
                rbind (p256_seed sn seed) (\<lambda>s. if method = Did_key then p256_from_seed_did_key sn s else p256 s did key))
      else if method = Did_key then from_seed_did_key sn seed else from_seed sn seed did key)"

section \<open>The bundle of clients\<close>

definition registry_url :: "settings \<Rightarrow> registry \<Rightarrow> string" where
  "registry_url s reg = (if reg = Registry_A then registry_a_url s else registry_b_url s)"

definition ensure_token_manager :: "'w rst \<Rightarrow> 'w rst" where
  "ensure_token_manager st = (if r_has_tm st then st else st\<lparr>r_tm := new_token_manager 30, r_has_tm := True\<rparr>)"

definition bundle_client ::
  "'w scen_env \<Rightarrow> string \<Rightarrow> registry \<Rightarrow> producer option \<Rightarrow> string option \<Rightarrow> tenant_mode \<Rightarrow> ('w, client) act" where
  "bundle_client sn run_id reg p tenant mode st =
     (let key = (reg, map_option agent_did p, tenant, mode) in
      case map_of (r_clients st) key of
        Some cl \<Rightarrow> (st, Inr cl)
      | None \<Rightarrow>
          (let st1 = (if p \<noteq> None then ensure_token_manager st else st) in
           case new_client (registry_url (sn_settings sn) reg) None (Some run_id) p (p \<noteq> None) tenant mode True of
             Inl e \<Rightarrow> (st1, Inl e)
           | Inr cl \<Rightarrow> (st1\<lparr>r_clients := AList.update key cl (r_clients st1)\<rparr>, Inr cl)))"

definition anonymous_client ::
  "'w scen_env \<Rightarrow> string \<Rightarrow> registry \<Rightarrow> string option \<Rightarrow> tenant_mode \<Rightarrow> ('w, client) act" where
  "anonymous_client sn run_id reg tenant mode = bundle_client sn run_id reg None tenant mode"

definition authority_map ::
  "'w scen_env \<Rightarrow> string \<Rightarrow> producer option \<Rightarrow> string option \<Rightarrow> tenant_mode \<Rightarrow> ('w, (string, client) dict) act" where
  "authority_map sn run_id p tenant mode =
     mbind (bundle_client sn run_id Registry_A p tenant mode) (\<lambda>a.
     mbind (bundle_client sn run_id Registry_B p tenant mode) (\<lambda>b.
     mret (AList.update (registry_b_authority (sn_settings sn)) b [(registry_a_authority (sn_settings sn), a)])))"

record agent_options =
  op_registry :: registry
  op_authority :: "string option"
  op_authenticated :: bool
  op_algorithm :: string
  op_method :: did_method
  op_tenant :: "string option"
  op_mode :: tenant_mode

text \<open>The defaults of \<^verbatim>\<open>make_langchain_agent\<close>.\<close>

definition agent_defaults :: agent_options where
  "agent_defaults = \<lparr>op_registry = Registry_A, op_authority = None, op_authenticated = False, op_algorithm = ALG_ED25519,
     op_method = Did_web, op_tenant = None, op_mode = tenant_mode.Fallback\<rparr>"

definition make_langchain_agent :: "'w scen_env \<Rightarrow> run_spec \<Rightarrow> string \<Rightarrow> agent_options \<Rightarrow> ('w, agent) act" where
  "make_langchain_agent sn spec slug opt =
     (let s = sn_settings sn;
          auth = (case nonempty_str (op_authority opt) of
                    Some a \<Rightarrow> a
                  | None \<Rightarrow> if op_registry opt = Registry_A then registry_a_authority s else registry_b_authority s) in
      mbind (mlift (producer_for sn spec slug auth (op_algorithm opt) (op_method opt))) (\<lambda>p.
      let bound = (if op_authenticated opt then Some p else None) in
      mbind (bundle_client sn (sp_run_id spec) (op_registry opt) bound (op_tenant opt) (op_mode opt)) (\<lambda>cl.
      mbind (authority_map sn (sp_run_id spec) bound (op_tenant opt) (op_mode opt)) (\<lambda>am.
      mbind (mlift (llm_for_settings sn)) (\<lambda>llm.
      mret \<lparr>ag_producer = p, ag_client = cl, ag_run_id = sp_run_id spec, ag_authority_map = am, ag_slug = Some slug,
            ag_kind = LangChainAgent llm\<rparr>)))))"

section \<open>Construction is quiet and gives civil agents\<close>

lemma p256_attempts_ordinary: "(\<And>c. ordinary (probe c)) \<Longrightarrow> ordinary (p256_attempts probe n c)"
  by (induction n arbitrary: c) (auto simp: ordinary_def split: sum.splits)

lemma pred_sum_ordinary: "pred_sum is_Exception Q r \<Longrightarrow> ordinary r"
  by (cases r) auto

lemma pred_sum_value: "pred_sum E Q r \<Longrightarrow> r = Inr a \<Longrightarrow> Q a"
  by auto

lemma producer_for_civil:
  assumes "civil_scen sn"
  shows "pred_sum is_Exception civil_producer (producer_for sn spec slug authority algorithm method)"
proof (cases "p256_from_seed sn")
  case (Some p256)
  with assms have p: "pred_sum is_Exception civil_producer (p256 s d k)" for s d k by (simp add: civil_scen_def)
  then have "ordinary (p256_seed sn seed)" for seed
    by (simp add: p256_seed_def Some) (rule p256_attempts_ordinary, rule pred_sum_ordinary, rule p)
  then show ?thesis using assms p
    by (cases "p256_seed sn (agent_seed spec slug)") (auto simp: producer_for_def Let_def Some civil_scen_def rbind_def, metis ordinary_simps(2))
qed (use assms in \<open>simp add: producer_for_def Let_def civil_scen_def\<close>)

lemma update_absent: "map_of al k = None \<Longrightarrow> AList.update k v al = al @ [(k, v)]"
  by (induction al) (auto split: if_splits)

lemma bundle_client_cases:
  assumes "bundle_client sn run_id reg p tenant mode st = (st', r)"
  obtains (cached) cl where "map_of (r_clients st) (reg, map_option agent_did p, tenant, mode) = Some cl" "st' = st" "r = Inr cl"
    | (refused) "map_of (r_clients st) (reg, map_option agent_did p, tenant, mode) = None" "r = Inl ValueError"
        "tenant = Some ''default''" "st' = (if p \<noteq> None then ensure_token_manager st else st)"
    | (made) cl where "map_of (r_clients st) (reg, map_option agent_did p, tenant, mode) = None" "r = Inr cl"
        "new_client (registry_url (sn_settings sn) reg) None (Some run_id) p (p \<noteq> None) tenant mode True = Inr cl"
        "st' = (if p \<noteq> None then ensure_token_manager st else st)\<lparr>r_clients := AList.update (reg, map_option agent_did p, tenant, mode) cl (r_clients st)\<rparr>"
proof (cases "map_of (r_clients st) (reg, map_option agent_did p, tenant, mode)")
  case (Some cl)
  with assms show ?thesis by (intro cached) (auto simp: bundle_client_def Let_def)
next
  case None
  have same: "r_clients (if p \<noteq> None then ensure_token_manager st else st) = r_clients st" by (simp add: ensure_token_manager_def)
  show ?thesis
  proof (cases "new_client (registry_url (sn_settings sn) reg) None (Some run_id) p (p \<noteq> None) tenant mode True")
    case (Inl e)
    then have "e = ValueError" "tenant = Some ''default''" by (auto simp: new_client_def rbind_eq_Inl)
    with None Inl assms show ?thesis by (intro refused) (auto simp: bundle_client_def Let_def)
  next
    case (Inr cl)
    with None assms same show ?thesis by (intro made[of cl]) (auto simp: bundle_client_def Let_def)
  qed
qed

lemma new_client_civil:
  "new_client base b run_id p h t m v = Inr cl \<Longrightarrow> (\<And>q. p = Some q \<Longrightarrow> civil_producer q) \<Longrightarrow> civil_client cl"
  by (auto simp: new_client_def rbind_eq_Inr civil_client_def)

lemma quietly_bundle_client:
  assumes p: "\<And>q. p = Some q \<Longrightarrow> civil_producer q"
  shows "quietly civil_client (bundle_client sn run_id reg p tenant mode)"
proof -
  have "adds_quietly st st' \<and> ordinary r \<and> (\<forall>cl. r = Inr cl \<longrightarrow> civil_client cl)"
    if st: "civil_state st" and b: "bundle_client sn run_id reg p tenant mode st = (st', r)" for st st' r
    using b
  proof (cases rule: bundle_client_cases)
    case (cached cl)
    then have "civil_client cl" using st map_of_SomeD[OF cached(1)] by (force simp: civil_state_def)
    with cached st show ?thesis by (auto intro: adds_quietly_same)
  next
    case refused
    with st show ?thesis by (auto simp: ensure_token_manager_def civil_state_def intro!: adds_quietly_same)
  next
    case (made cl)
    have cl: "civil_client cl" by (rule new_client_civil[OF made(3) p])
    then have "civil_state st'" using st by (auto simp: made(4) civil_state_def update_absent[OF made(1)])
    with made cl show ?thesis by (auto simp: ensure_token_manager_def intro!: adds_quietly_same)
  qed
  then show ?thesis by (auto simp: quietly_def quiet_act_def)
qed

lemma quietly_authority_map:
  assumes p: "\<And>q. p = Some q \<Longrightarrow> civil_producer q"
  shows "quietly (\<lambda>am. \<forall>cl \<in> snd ` set am. civil_client cl) (authority_map sn run_id p tenant mode)"
  unfolding authority_map_def
  by (rule quietly_post[OF quietly_bundle_client[OF p]], assumption, rule quietly_post[OF quietly_bundle_client[OF p]], assumption)
     (auto intro!: vcg)

lemma llm_for_settings_ordinary: "civil_scen sn \<Longrightarrow> ordinary (llm_for_settings sn)"
  by (auto simp: civil_scen_def llm_for_settings_def build_llm_def Let_def intro!: ordinary_rbind split: llm_provider.splits)

lemma quietly_make_agent:
  assumes sn: "civil_scen sn"
  shows "quietly civil_agent (make_langchain_agent sn spec slug opt)"
  unfolding make_langchain_agent_def Let_def
proof (rule quietly_post[where Q = civil_producer])
  fix p
  assume p: "civil_producer p"
  let ?bound = "if op_authenticated opt then Some p else None"
  have b: "\<And>q. ?bound = Some q \<Longrightarrow> civil_producer q" using p by (simp split: if_splits)
  show "quietly civil_agent (mbind (bundle_client sn (sp_run_id spec) (op_registry opt) ?bound (op_tenant opt) (op_mode opt)) (\<lambda>cl.
      mbind (authority_map sn (sp_run_id spec) ?bound (op_tenant opt) (op_mode opt)) (\<lambda>am.
      mbind (mlift (llm_for_settings sn)) (\<lambda>llm.
      mret \<lparr>ag_producer = p, ag_client = cl, ag_run_id = sp_run_id spec, ag_authority_map = am, ag_slug = Some slug,
            ag_kind = LangChainAgent llm\<rparr>))))"
    by (rule quietly_post[OF quietly_bundle_client[OF b]], assumption, rule quietly_post[OF quietly_authority_map[OF b]], assumption)
       (intro vcg llm_for_settings_ordinary[OF sn] TrueI, simp add: civil_agent_def p)
qed (use producer_for_civil[OF sn] in \<open>fastforce intro: vcg dest: pred_sum_ordinary pred_sum_value\<close>)

section \<open>Properties\<close>

text \<open>The client a key of the bundle stands for.\<close>

definition configured :: "'w scen_env \<Rightarrow> string \<Rightarrow> client_key \<Rightarrow> client \<Rightarrow> bool" where
  "configured sn run_id key cl \<longleftrightarrow>
     (case key of (reg, did, tenant, mode) \<Rightarrow>
        cl_base cl = rstrip_char CHR ''/'' (registry_url (sn_settings sn) reg) \<and> cl_run_id cl = Some run_id
      \<and> map_option agent_did (cl_producer cl) = did \<and> (managed cl = None \<longleftrightarrow> did = None) \<and> cl_static_bearer cl = None
      \<and> cl_tenant_id cl = tenant \<and> cl_tenant_mode cl = mode \<and> tenant \<noteq> Some ''default'' \<and> cl_verify_binding cl)"

definition bundle_ok :: "'w scen_env \<Rightarrow> string \<Rightarrow> 'w rst \<Rightarrow> bool" where
  "bundle_ok sn run_id st \<longleftrightarrow> distinct (map fst (r_clients st))
     \<and> (\<forall>(key, cl) \<in> set (r_clients st). configured sn run_id key cl \<and> (fst (snd key) \<noteq> None \<longrightarrow> r_has_tm st))"

lemma new_client_configured:
  "new_client (registry_url (sn_settings sn) reg) None (Some run_id) p (p \<noteq> None) tenant mode True = Inr cl \<Longrightarrow>
     configured sn run_id (reg, map_option agent_did p, tenant, mode) cl"
  by (auto simp: new_client_def rbind_eq_Inr configured_def managed_def)

text \<open>
  C30. A run's clients are the ones asked for. From a well-formed bundle, asking for a client keeps it
  well-formed: one client for each registry, identity, tenant and header mode, each bound to its registry's URL, the run's id and
  its tenant, authenticated exactly when an identity was given, and never for the reserved tenant. The
  client returned is the one of its key, asking again gives the same one and changes nothing, the clients already
  made and their tokens stay, and the only refusal is that of the reserved tenant.
\<close>

theorem bundle_client_configured:
  assumes "bundle_ok sn run_id st" and "bundle_client sn run_id reg p tenant mode st = (st', r)"
  shows "bundle_ok sn run_id st'
    \<and> (\<forall>cl. r = Inr cl \<longrightarrow> configured sn run_id (reg, map_option agent_did p, tenant, mode) cl
         \<and> bundle_client sn run_id reg p tenant mode st' = (st', Inr cl))
    \<and> (\<forall>e. r = Inl e \<longrightarrow> e = ValueError \<and> tenant = Some ''default'')
    \<and> (\<forall>key cl. map_of (r_clients st) key = Some cl \<longrightarrow> map_of (r_clients st') key = Some cl)
    \<and> (r_has_tm st \<longrightarrow> r_tm st' = r_tm st)"
  using assms(2)
proof (cases rule: bundle_client_cases)
  case (cached cl)
  with assms(1) map_of_SomeD[OF cached(1)] show ?thesis by (auto simp: bundle_ok_def bundle_client_def Let_def)
next
  case refused
  with assms(1) show ?thesis by (auto simp: bundle_ok_def ensure_token_manager_def)
next
  case (made cl)
  have c: "r_clients st' = r_clients st @ [((reg, map_option agent_did p, tenant, mode), cl)]"
    using update_absent[OF made(1), of cl] by (simp add: made(4))
  have fresh: "(reg, map_option agent_did p, tenant, mode) \<notin> fst ` set (r_clients st)" using made(1) by (simp add: map_of_eq_None_iff)
  have t: "r_has_tm st' = (p \<noteq> None \<or> r_has_tm st)" "r_has_tm st \<longrightarrow> r_tm st' = r_tm st"
    by (auto simp: made(4) ensure_token_manager_def)
  note conf = new_client_configured[OF made(3)]
  have "bundle_ok sn run_id st'" using assms(1) conf t(1) fresh by (auto simp: bundle_ok_def c)
  moreover have "map_of (r_clients st') key = Some cl'" if "map_of (r_clients st) key = Some cl'" for key cl'
    using that by (simp add: c map_of_append)
  moreover have "map_of (r_clients st') (reg, map_option agent_did p, tenant, mode) = Some cl"
    using made(1) by (simp add: c map_add_def)
  ultimately show ?thesis using made(2) conf t(2) by (auto simp: bundle_client_def Let_def)
qed

theorem bundle_client_configured_witness:
  "\<exists>st' cl. bundle_client (demo_scen (\<lambda>rq. Inl HTTPError)) ''r1'' Registry_A (Some demo_signer) None Always demo_rst = (st', Inr cl)
     \<and> bundle_ok (demo_scen (\<lambda>rq. Inl HTTPError)) ''r1'' st' \<and> managed cl \<noteq> None
     \<and> bundle_client (demo_scen (\<lambda>rq. Inl HTTPError)) ''r1'' Registry_A (Some demo_signer) None Always st' = (st', Inr cl)"
proof -
  let ?sn = "demo_scen (\<lambda>rq. Inl HTTPError)"
  obtain st' cl where b: "bundle_client ?sn ''r1'' Registry_A (Some demo_signer) None Always demo_rst = (st', Inr cl)"
    by (cases "bundle_client ?sn ''r1'' Registry_A (Some demo_signer) None Always demo_rst") (auto elim: bundle_client_cases)
  have "bundle_ok ?sn ''r1'' demo_rst" by (simp add: bundle_ok_def demo_rst_def)
  from bundle_client_configured[OF this b] b show ?thesis by (auto simp: configured_def)
qed

text \<open>The candidates tried: the seed hashed again and again, up to the first that is accepted.\<close>

definition first_accepted :: "(bytes \<Rightarrow> producer result) \<Rightarrow> bytes \<Rightarrow> nat \<Rightarrow> bool" where
  "first_accepted probe seed k \<longleftrightarrow> \<not> isl (probe ((sha256 ^^ k) seed))
     \<and> (\<forall>j < k. \<exists>e. probe ((sha256 ^^ j) seed) = Inl e \<and> is_ValueError e)"

lemma first_accepted_0: "first_accepted probe seed 0 \<longleftrightarrow> \<not> isl (probe seed)"
  by (simp add: first_accepted_def)

lemma first_accepted_Suc:
  "first_accepted probe seed (Suc k) \<longleftrightarrow> (\<exists>e. probe seed = Inl e \<and> is_ValueError e) \<and> first_accepted probe (sha256 seed) k"
  by (auto simp: first_accepted_def funpow_swap1 less_Suc_eq_0_disj)

lemma p256_attempts_Inr:
  "p256_attempts probe n seed = Inr c \<longleftrightarrow> (\<exists>k < n. c = (sha256 ^^ k) seed \<and> first_accepted probe seed k)"
proof (induction n arbitrary: seed)
  case (Suc n)
  have split: "(\<exists>k < Suc n. Q k) \<longleftrightarrow> Q 0 \<or> (\<exists>k < n. Q (Suc k))" for Q by (auto simp: less_Suc_eq_0_disj)
  show ?case
  proof (cases "probe seed")
    case (Inl e)
    then show ?thesis unfolding split first_accepted_0 first_accepted_Suc by (auto simp: Suc.IH funpow_swap1)
  next
    case (Inr p)
    then show ?thesis unfolding split first_accepted_0 first_accepted_Suc by auto
  qed
qed simp

lemma p256_attempts_exhausted:
  "(\<forall>k < n. \<exists>e. probe ((sha256 ^^ k) seed) = Inl e \<and> is_ValueError e) \<Longrightarrow> p256_attempts probe n seed = Inl ValueError"
proof (induction n arbitrary: seed)
  case (Suc n)
  have "\<exists>e. probe ((sha256 ^^ k) (sha256 seed)) = Inl e \<and> is_ValueError e" if "k < n" for k
    using Suc.prems that by (auto dest!: spec[of _ "Suc k"] simp: funpow_swap1)
  moreover obtain e where "probe seed = Inl e" "is_ValueError e" using Suc.prems by (auto dest!: spec[of _ 0])
  ultimately show ?case using Suc.IH by auto
qed simp

text \<open>
  C31. The search for a P-256 scalar is bounded and deterministic. The seed returned is the first of the eight candidates, the digest
  hashed zero to seven times, that the SDK accepts; if it refuses all eight as invalid the result is
  a ValueError. A candidate is always 32 bytes long, as the digest it starts from.
\<close>

theorem p256_seed_bounded:
  assumes "p256_from_seed sn = Some mk"
  shows "(p256_seed sn seed = Inr c \<longleftrightarrow>
      (\<exists>k < 8. c = (sha256 ^^ k) seed \<and> first_accepted (\<lambda>c. mk c ''did:web:probe:agents:x'' ''did:web:probe:agents:x#k'') seed k))
    \<and> ((\<forall>k < 8. \<exists>e. mk ((sha256 ^^ k) seed) ''did:web:probe:agents:x'' ''did:web:probe:agents:x#k'' = Inl e \<and> is_ValueError e)
         \<longrightarrow> p256_seed sn seed = Inl ValueError)
    \<and> (length seed = 32 \<longrightarrow> p256_seed sn seed = Inr c \<longrightarrow> length c = 32)"
proof -
  have len: "length ((sha256 ^^ k) s) = 32" if "length s = 32" for k s using that by (cases k) simp_all
  show ?thesis using assms by (auto simp: p256_seed_def p256_attempts_Inr len intro: p256_attempts_exhausted)
qed

theorem p256_seed_bounded_witness:
  "p256_seed (demo_scen (\<lambda>rq. Inl HTTPError)) (replicate 32 0) = Inr (replicate 32 0)
   \<and> p256_seed ((demo_scen (\<lambda>rq. Inl HTTPError))\<lparr>p256_from_seed := Some (\<lambda>c d k. Inl ValueError)\<rparr>) (replicate 32 0) = Inl ValueError"
proof -
  let ?sn = "demo_scen (\<lambda>rq. Inl HTTPError)"
  have s: "p256_from_seed ?sn = Some (\<lambda>s d k. Inr demo_signer)"
    "p256_from_seed (?sn\<lparr>p256_from_seed := Some (\<lambda>c d k. Inl ValueError)\<rparr>) = Some (\<lambda>c d k. Inl ValueError)"
    by (simp_all add: demo_scen_def)
  show ?thesis
    using p256_seed_bounded[OF s(1), of "replicate 32 0" "replicate 32 0"] p256_seed_bounded[OF s(2), of "replicate 32 0" "[]"]
    by (auto simp: first_accepted_0 intro!: exI[of _ 0])
qed

text \<open>A missing P-256 class is never reported by the message written for it.\<close>

lemma missing_p256_is_attribute_error:
  assumes "p256_from_seed sn = None"
  shows "producer_for sn spec slug authority ALG_P256 method = Inl AttributeError"
  using assms by (simp add: producer_for_def Let_def)

end
