(* ===== verification/Scenario_Kit.thy ===== *)
theory Scenario_Kit
  imports Factory
begin

text \<open>
  What the catalogue's scenarios share: reading an input, telling a note, naming the result, and the contract
  every scenario keeps. The contract is a locale; each scenario's theory interprets it on its own \<^verbatim>\<open>run\<close>.

  An em dash is written as in the theory of the agents; an arrow and a section sign, which Windows-1252 lacks or
  which is not ASCII, as the constants \<open>arrow\<close> and \<open>section_sign\<close>. Log lines are left out.
\<close>

section \<open>Inputs, notes and results\<close>

definition arrow :: string where
  "arrow = [CHR 0x1A]"

definition section_sign :: string where
  "section_sign = [CHR 0xA7]"

abbreviation je :: "'w scen_env \<Rightarrow> jwt_env" where
  "je sn \<equiv> ce_jwt (sn_client sn)"

text \<open>\<^verbatim>\<open>spec.inputs.get(key, default)\<close>, as an f-string prints it.\<close>

definition input_text :: "'w scen_env \<Rightarrow> run_spec \<Rightarrow> string \<Rightarrow> string \<Rightarrow> string" where
  "input_text sn spec key dflt = str_json (je sn) (dict_get_default (sp_inputs spec) key (JStr dflt))"

definition py_bool :: "bool \<Rightarrow> string" where
  "py_bool b = (if b then ''True'' else ''False'')"

definition py_opt_bool :: "bool option \<Rightarrow> string" where
  "py_opt_bool b = (case b of None \<Rightarrow> ''None'' | Some x \<Rightarrow> py_bool x)"

definition opt_bool :: "bool option \<Rightarrow> json" where
  "opt_bool b = (case b of None \<Rightarrow> JNull | Some x \<Rightarrow> JBool x)"

definition py_opt_str :: "string option \<Rightarrow> string" where
  "py_opt_str s = (case s of None \<Rightarrow> ''None'' | Some x \<Rightarrow> x)"

definition scenario_def ::
  "string \<Rightarrow> string \<Rightarrow> string \<Rightarrow> string \<Rightarrow> int \<Rightarrow> (string, json) dict \<Rightarrow> 'w scenario" where
  "scenario_def sid name description mode agents inputs =
     \<lparr>sc_id = sid, sc_name = name, sc_description = description, sc_registry_mode = mode, sc_agent_count = agents,
      sc_framework = ''langchain'', sc_default_inputs = inputs, sc_run = None\<rparr>"

text \<open>An event of the scenario itself, put on the run's queue.\<close>

definition tell :: "'w scen_env \<Rightarrow> run_spec \<Rightarrow> string \<Rightarrow> string option \<Rightarrow> string \<Rightarrow> string \<Rightarrow> ('w, unit) act" where
  "tell sn spec typ agent_id title preview =
     mbind (mnow sn) (\<lambda>ts. mput ((mk_step_event typ (sp_run_id spec) ts)\<lparr>
       se_agent_id := agent_id, se_title := Some title, se_preview := Some preview\<rparr>))"

definition note_event :: "'w scen_env \<Rightarrow> run_spec \<Rightarrow> string \<Rightarrow> string \<Rightarrow> ('w, unit) act" where
  "note_event sn spec title preview = tell sn spec ''scenario.note'' None title preview"

definition run_result_of ::
  "run_spec \<Rightarrow> string \<Rightarrow> string list \<Rightarrow> lineage_graph option \<Rightarrow> obj \<Rightarrow> string option \<Rightarrow> run_result" where
  "run_result_of spec sid contexts graph summary error =
     \<lparr>rr_run_id = sp_run_id spec, rr_scenario_id = sid, rr_status = (if error = None then ''complete'' else ''failed''),
      rr_contexts = contexts, rr_lineage_graph = graph, rr_summary = summary, rr_error = error\<rparr>"

definition node :: "string \<Rightarrow> agent \<Rightarrow> string \<Rightarrow> string \<Rightarrow> string \<Rightarrow> int \<Rightarrow> lineage_node" where
  "node ctx_id ag title context_type authority step =
     \<lparr>ln_ctx_id = ctx_id, ln_agent_id = agent_did (ag_producer ag), ln_title = title, ln_context_type = context_type,
      ln_registry_authority = authority, ln_step = step\<rparr>"

definition graph :: "lineage_node list \<Rightarrow> (string \<times> string) list \<Rightarrow> lineage_graph option" where
  "graph nodes edges = Some \<lparr>lg_nodes = nodes, lg_edges = edges\<rparr>"

text \<open>The exceptions \<^verbatim>\<open>except AcdpHTTPError\<close> and \<^verbatim>\<open>except TokenError\<close> catch.\<close>

fun as_http_error :: "exn \<Rightarrow> acdp_http_error option" where
  "as_http_error (AcdpHTTPError h) = Some h"
| "as_http_error _ = None"

lemma as_http_error_Some [simp]: "as_http_error e = Some h \<longleftrightarrow> e = AcdpHTTPError h"
  by (cases e) auto

definition is_TokenError :: "exn \<Rightarrow> bool" where
  "is_TokenError e \<longleftrightarrow> e = ChallengeError \<or> e = TokenIssueError"

section \<open>The contract of a scenario\<close>

text \<open>
  A result names its run and scenario, says failed exactly when it carries an error, and its
  lineage graph has nodes for contexts of the run only and edges that go from an earlier step to a later one.
\<close>

definition graph_ok :: "string list \<Rightarrow> lineage_graph \<Rightarrow> bool" where
  "graph_ok contexts g \<longleftrightarrow>
     (\<forall>n \<in> set (lg_nodes g). ln_ctx_id n \<in> set contexts)
   \<and> (\<forall>(a, b) \<in> set (lg_edges g). \<exists>m \<in> set (lg_nodes g). \<exists>n \<in> set (lg_nodes g).
        ln_ctx_id m = a \<and> ln_ctx_id n = b \<and> ln_step m < ln_step n)"

definition result_ok :: "run_spec \<Rightarrow> string \<Rightarrow> run_result \<Rightarrow> bool" where
  "result_ok spec sid r \<longleftrightarrow> rr_run_id r = sp_run_id spec \<and> rr_scenario_id r = sid
     \<and> rr_status r = (if rr_error r = None then ''complete'' else ''failed'')
     \<and> (\<forall>g. rr_lineage_graph r = Some g \<longrightarrow> graph_ok (rr_contexts r) g)"

lemma result_ok_of [simp]:
  "result_ok spec sid (run_result_of spec sid' cs g s e) \<longleftrightarrow> sid = sid' \<and> (\<forall>g'. g = Some g' \<longrightarrow> graph_ok cs g')"
  by (auto simp: result_ok_def run_result_of_def)

lemma rr_of [simp]:
  "rr_status (run_result_of spec sid cs g s e) = (if e = None then ''complete'' else ''failed'')"
  "rr_error (run_result_of spec sid cs g s e) = e" "rr_contexts (run_result_of spec sid cs g s e) = cs"
  "rr_summary (run_result_of spec sid cs g s e) = s" "rr_lineage_graph (run_result_of spec sid cs g s e) = g"
  by (simp_all add: run_result_of_def)

lemmas graph_simps = graph_def graph_ok_def node_def

type_synonym 'w scenario_act = "'w scen_env \<Rightarrow> run_spec \<Rightarrow> ('w, run_result) act"

text \<open>A scenario as the runner calls it: a fresh bundle for each run.\<close>

definition fresh_rst :: "'w io \<Rightarrow> quota_ctx \<Rightarrow> 'w rst" where
  "fresh_rst io ctx = \<lparr>r_io = io, r_ctx = ctx, r_tm = new_token_manager 30, r_has_tm = False, r_clients = []\<rparr>"

definition as_body :: "'w scenario_act \<Rightarrow> 'w scen_env \<Rightarrow> 'w scenario_body" where
  "as_body run sn spec st =
     (case run sn spec (fresh_rst (fst st) (snd st)) of (st', r) \<Rightarrow> ((r_io st', r_ctx st'), r))"

text \<open>
  Where the result of a run comes from. When the deadline struck, it is a failure that names the deadline; otherwise it is the result of the body
  with nothing changed but the summary, or the failure with the body's exception.
\<close>

definition own_outcome :: "exn_texts \<Rightarrow> settings \<Rightarrow> 'w scenario_body \<Rightarrow> ('w scenario_state \<Rightarrow> 'w scenario_state option) \<Rightarrow> run_spec
    \<Rightarrow> 'w scenario_state \<Rightarrow> run_result \<Rightarrow> bool" where
  "own_outcome txt s body dl spec st result \<longleftrightarrow>
     (case dl st of
        Some st' \<Rightarrow> rr_status result = ''failed'' \<and> rr_contexts result = []
          \<and> rr_error result = Some (et_name txt TimeoutError @ '': '' @ ''run exceeded RUN_TIMEOUT_SECONDS='' @ et_g txt (run_timeout_seconds s)
              @ [newline] @ et_tb txt TimeoutError)
      | None \<Rightarrow>
          (case snd (body spec st) of
             Inr own \<Rightarrow> rr_status result = rr_status own \<and> rr_contexts result = rr_contexts own
               \<and> rr_lineage_graph result = rr_lineage_graph own \<and> rr_error result = rr_error own
           | Inl e \<Rightarrow> rr_status result = ''failed'' \<and> rr_contexts result = []
               \<and> (\<exists>m. rr_error result = Some (et_name txt e @ '': '' @ m))))"

locale scenario_contract =
  fixes run :: "'w scen_env \<Rightarrow> run_spec \<Rightarrow> ('w, run_result) act" and sid :: string
  assumes kept: "civil_scen sn \<Longrightarrow> quietly (result_ok spec sid) (run sn spec)"
begin

lemma body_cases:
  assumes "civil_scen sn" "as_body run sn spec (io, ctx) = ((io', ctx'), r)"
  shows "(\<exists>es. qc_events ctx' = map_option (\<lambda>q. q @ es) (qc_events ctx) \<and> (\<forall>e \<in> set es. \<not> is_terminal e))
    \<and> ordinary r \<and> (\<forall>result. r = Inr result \<longrightarrow> result_ok spec sid result)"
proof -
  obtain st' where run: "run sn spec (fresh_rst io ctx) = (st', r)" and st': "io' = r_io st'" "ctx' = r_ctx st'"
    using assms(2) by (auto simp: as_body_def split: prod.splits)
  have civil: "civil_state (fresh_rst io ctx)" by (simp add: civil_state_def fresh_rst_def)
  note q = quietlyD(1)[OF kept[OF assms(1)]]
  have "adds_quietly (fresh_rst io ctx) st'" using quiet_actD(1)[OF q civil run] .
  moreover have "ordinary r" using quiet_actD(4)[OF q civil run] .
  moreover have "result_ok spec sid result" if "r = Inr result" for result
    using quietlyD(2)[OF kept[OF assms(1)] civil] run that by blast
  ultimately show ?thesis by (auto simp: adds_quietly_def fresh_rst_def st')
qed

lemma well_behaved: "civil_scen sn \<Longrightarrow> well_behaved (as_body run sn) spec"
  unfolding well_behaved_def
proof (intro allI)
  fix io ctx
  assume "civil_scen sn"
  moreover obtain io' ctx' r where b: "as_body run sn spec (io, ctx) = ((io', ctx'), r)" by (metis prod.collapse)
  ultimately show "(\<exists>es. qc_events (snd (fst (as_body run sn spec (io, ctx)))) = map_option (\<lambda>q. q @ es) (qc_events ctx)
      \<and> (\<forall>e \<in> set es. \<not> is_terminal e)) \<and> (\<forall>e. snd (as_body run sn spec (io, ctx)) = Inl e \<longrightarrow> is_Exception e)"
    using body_cases[of sn spec io ctx io' ctx' r] by (auto simp: ordinary_def)
qed

text \<open>
  Run by the runner under a deadline, the scenario leaves one terminal event and a result that is in order: its own, with the quota's summary
  added, or a failure that names the deadline when it struck.
\<close>

lemma run_to_end:
  assumes "civil_scen sn" "network_ok env" "sc_run sc = Some (as_body run sn)" "sc_id sc = sid" "cuts_quietly dl"
    and "execute env s txt (timed dl sc) spec ip io results queue = (st, r)"
  shows "\<exists>result first es last. r = Inr result \<and> map_of (st_results st) (sp_run_id spec) = Some result
    \<and> qc_events (st_ctx st) = Some (queue @ first # es) \<and> se_type first = ''run.started'' \<and> filter is_terminal es = [last]
    \<and> se_run_id last = sp_run_id spec \<and> se_status last = Some (rr_status result) \<and> result_ok spec sid result
    \<and> own_outcome txt s (as_body run sn) dl spec (body_start env s sid spec ip io queue first) result"
proof (rule execute_concluded[OF assms(2) _ well_behaved_wait_for[OF well_behaved[OF assms(1)] assms(5)] assms(6)])
  show "sc_run (timed dl sc) = Some (wait_for dl (as_body run sn))" using assms(3) by (simp add: timed_def)
  fix io0 ctx0 st2 out result first mid
  assume b: "wait_for dl (as_body run sn) spec (io0, ctx0) = (st2, out)"
    and c: "conclude env s txt (timed dl sc) spec st2 out = (st_ctx st, Inr result)" and r: "r = Inr result"
    "map_of (st_results st) (sp_run_id spec) = Some result" "qc_events (snd st2) = Some (queue @ first # mid)"
    "se_type first = ''run.started''" "\<forall>e \<in> set mid. \<not> is_terminal e"
    and start: "(io0, ctx0) = body_start env s (sc_id (timed dl sc)) spec ip io queue first"
  obtain io2 ctx2 where st2: "st2 = (io2, ctx2)" by (cases st2)
  obtain last where last: "st_ctx st = put_event last ctx2" "is_terminal last" "se_run_id last = sp_run_id spec" "se_status last = Some (rr_status result)"
    using conclude_Inr[OF c[unfolded st2]] by blast
  have sid: "sc_id (timed dl sc) = sid" using assms(4) by (simp add: timed_def)
  have out: "case dl (io0, ctx0) of Some st' \<Rightarrow> out = Inl TimeoutError | None \<Rightarrow> snd (as_body run sn spec (io0, ctx0)) = out"
    using b by (auto simp: wait_for_def split: option.splits)
  have "ordinary out \<and> (\<forall>res. out = Inr res \<longrightarrow> result_ok spec sid res)"
    using body_cases[OF assms(1), of spec io0 ctx0] out
    by (cases "as_body run sn spec (io0, ctx0)") (auto simp: ordinary_def split: option.splits)
  then have "result_ok spec sid result" using c sid
    by (cases out) (auto simp: conclude_def Let_def failed_result_def result_ok_def)
  moreover have "own_outcome txt s (as_body run sn) dl spec (io0, ctx0) result" using c out
    by (cases out) (auto simp: own_outcome_def conclude_def Let_def failed_result_def exn_message_def split: option.splits if_splits)
  moreover have "filter is_terminal (mid @ [last]) = [last]" using r(5) last(2) by (simp add: filter_empty_conv)
  moreover have "qc_events (st_ctx st) = Some (queue @ first # mid @ [last])" using r(3) last(1) st2 by simp
  ultimately show ?thesis using r(1,2,4) last(3,4) start sid by auto
qed

end

section \<open>Rules for the scenarios' own steps\<close>

lemma is_terminal_mk [simp]:
  "is_terminal ((mk_step_event typ rid ts)\<lparr>se_agent_id := a, se_title := t, se_preview := p\<rparr>) \<longleftrightarrow> typ \<in> {''run.complete'', ''run.error''}"
  by (auto simp: is_terminal_def mk_step_event_def)

lemma vcg_tell [vcg]:
  "typ \<notin> {''run.complete'', ''run.error''} \<Longrightarrow> quietly (\<lambda>_. True) (tell sn spec typ a t p)"
  unfolding tell_def by (auto intro!: vcg)

lemma vcg_note [vcg]: "quietly (\<lambda>_. True) (note_event sn spec t p)"
  unfolding note_event_def by (auto intro!: vcg)

text \<open>The steps of an agent, for an agent the factory made.\<close>

lemma vcg_agent:
  assumes "civil_scen sn" "civil_agent ag"
  shows "quietly (\<lambda>_. True) (agent_run sn ag task)" "quietly (\<lambda>_. True) (agent_publish sn ag task txt)"
    "quietly (\<lambda>_. True) (agent_supersede sn ag prev task txt l)" "quietly (\<lambda>_. True) (agent_retrieve sn ag c)"
    "quietly (\<lambda>_. True) (call_llm sn ag p)"
  using assms by (auto intro!: quietly_any quiet_agent_run quiet_agent_publish quiet_agent_supersede quiet_agent_retrieve quiet_call_llm)

lemma vcg_emit [vcg]:
  "typ \<noteq> ''run.complete'' \<Longrightarrow> typ \<noteq> ''run.error'' \<Longrightarrow> (\<And>e. se_type (upd e) = se_type e) \<Longrightarrow> quietly (\<lambda>_. True) (emit sn ag typ upd)"
  by (rule quietly_any[OF quiet_emit])

lemma vcg_client:
  assumes "civil_scen sn" "civil_client cl"
  shows "quietly (\<lambda>_. True) (mcall (publish_context (sn_env sn) (sn_client sn) cl req key))"
    "quietly (\<lambda>_. True) (mcall (retrieve (sn_env sn) (sn_client sn) cl c))"
    "quietly (\<lambda>_. True) (mcall (retrieve_raw (sn_env sn) (sn_client sn) cl c v))"
    "quietly (\<lambda>_. True) (mcall (lineage (sn_env sn) (sn_client sn) cl l))"
    "quietly (\<lambda>_. True) (mcall (current (sn_env sn) (sn_client sn) cl l))"
    "quietly (\<lambda>_. True) (mcall (search (sn_env sn) (sn_client sn) cl sq limit cursor))"
    "quietly (\<lambda>_. True) (mcall (log_checkpoint (sn_env sn) (sn_client sn) cl))"
    "quietly (\<lambda>_. True) (mcall (log_proof (sn_env sn) (sn_client sn) cl co li ts fi se))"
    "quietly (\<lambda>_. True) (mcall (retract (sn_env sn) (sn_client sn) cl c ev))"
    "quietly (\<lambda>_. True) (mcall (republish (sn_env sn) (sn_client sn) cl c ev))"
  using assms by (auto intro!: vcg_mcall safe_calls civil_scen_env)

lemma civil_agentD: "civil_agent ag \<Longrightarrow> civil_client (ag_client ag)" "civil_agent ag \<Longrightarrow> civil_producer (ag_producer ag)"
  by (simp_all add: civil_agent_def)

lemma vcg_spawn:
  assumes "civil_scen sn" "\<And>ag. civil_agent ag \<Longrightarrow> quietly P (f ag)"
  shows "quietly P (mbind (make_langchain_agent sn spec slug opt) f)"
  using quietly_post[OF quietly_make_agent[OF assms(1)]] assms(2) .

lemma vcg_gather:
  assumes "\<And>m. m \<in> set ms \<Longrightarrow> quietly (\<lambda>_. True) m" "\<And>as. length as = length ms \<Longrightarrow> quietly P (f as)"
  shows "quietly P (mbind (mgather sn ms) f)"
  by (rule quietly_post[OF vcg_mgather]) (auto simp: list_all_iff assms)

lemma build_ordinary:
  "civil_producer p \<Longrightarrow> ordinary (build_publish_request p kw)"
  "civil_producer p \<Longrightarrow> ordinary (build_supersede_request p kw)"
  "civil_producer p \<Longrightarrow> ordinary (sign_challenge p j)"
  "civil_producer p \<Longrightarrow> ordinary (did_verification_method p k d)"
  by (simp_all add: civil_producer_def)

lemmas scenario_rules = vcg_spawn vcg_gather vcg_agent vcg_client vcg civil_agentD build_ordinary TrueI

section \<open>Blocks cut short by an exception\<close>

text \<open>\<^verbatim>\<open>try: m except Exception as e\<close>, with the exception as a value.\<close>

definition mcatch :: "('w, 'a) act \<Rightarrow> ('w, 'a result) act" where
  "mcatch m = mtry (mbind m (\<lambda>a. mret (Inr a))) (\<lambda>e. if is_Exception e then mret (Inl e) else mraise e)"

lemma vcg_mcatch [vcg]: "quietly (\<lambda>_. True) m \<Longrightarrow> quietly (\<lambda>_. True) (mcatch m)"
  unfolding mcatch_def by (rule vcg TrueI | assumption)+

lemma json_loads_ordinary [simp]: "ordinary (json_loads s)"
  by (auto simp: json_loads_def split: option.splits)

lemma sdk_fun_ordinary: "civil_scen sn \<Longrightarrow> ordinary (sdk_fun sn f xs)"
  "civil_scen sn \<Longrightarrow> ordinary (verify_content_hash (sn_sdk sn) s h)" "civil_scen sn \<Longrightarrow> ordinary (verify_body_offline (sn_sdk sn) s)"
  by (simp_all add: civil_scen_def)

lemma vcg_sum [vcg]:
  "(\<And>e. r = Inl e \<Longrightarrow> quietly P (f e)) \<Longrightarrow> (\<And>a. r = Inr a \<Longrightarrow> quietly P (g a)) \<Longrightarrow> quietly P (case r of Inl e \<Rightarrow> f e | Inr a \<Rightarrow> g a)"
  by (simp split: sum.split)

lemma guarded_ordinary:
  "ordinary c \<Longrightarrow> ordinary (run_guarded allow c)" "ordinary c \<Longrightarrow> ordinary (expect_rejection str allow c)"
  by (auto simp: expect_rejection_def run_guarded_def ordinary_def rbind_eq_Inl split: sum.splits if_splits)

section \<open>What gathered computations did\<close>

lemma run_all_results:
  "run_all ms st = (st', rs) \<Longrightarrow> map fst rs = map fst ms \<and> (\<forall>(i, r) \<in> set rs. \<exists>m s s'. (i, m) \<in> set ms \<and> m s = (s', r))"
  by (induction ms arbitrary: st st' rs rule: list.induct) (fastforce split: prod.splits)+

lemma first_failure_None: "first_failure rs = None \<Longrightarrow> (i, r) \<in> set rs \<Longrightarrow> \<not> isl r"
  by (induction rs) (auto simp: first_failure_def split: list.splits sum.splits)

text \<open>Each value gathered is one its coroutine returned.\<close>

lemma mgather_results:
  assumes "mgather sn ms st = (st', Inr as)" "i < length ms"
  shows "\<exists>s s'. (ms ! i) s = (s', Inr (as ! i))"
proof -
  let ?o = "schedule_order (length ms) (gather_order sn (world (r_io st)))"
  obtain rs where run: "run_all (map (\<lambda>i. (i, ms ! i)) ?o) st = (st', rs)" and none: "first_failure rs = None"
    and as: "as = map (\<lambda>i. projr (the (map_of rs i))) [0..<length ms]"
    using assms(1) by (auto simp: mgather_def Let_def split: prod.splits option.splits)
  have "i \<in> set (map fst rs)" using run_all_results[OF run] schedule_order_perm(2)[of "length ms"] assms(2) by (auto simp: comp_def)
  then obtain r where r: "map_of rs i = Some r" using weak_map_of_SomeI by force
  then have "(i, r) \<in> set rs" by (rule map_of_SomeD)
  moreover from this none have "\<not> isl r" by (rule first_failure_None[rotated])
  ultimately show ?thesis using run_all_results[OF run] r as assms(2) by (cases r) fastforce+
qed

definition sure :: "('w, 'a) act \<Rightarrow> bool" where
  "sure m \<longleftrightarrow> (\<forall>s s' r. civil_state s \<longrightarrow> m s = (s', r) \<longrightarrow> civil_state s' \<and> \<not> isl r)"

lemma run_all_sure:
  "run_all ms st = (st', rs) \<Longrightarrow> civil_state st \<Longrightarrow> (\<forall>m \<in> snd ` set ms. sure m) \<Longrightarrow> \<forall>r \<in> snd ` set rs. \<not> isl r"
proof (induction ms arbitrary: st st' rs)
  case (Cons im ms)
  obtain i m where im: "im = (i, m)" by (cases im)
  obtain st1 r where m: "m st = (st1, r)" by (cases "m st")
  obtain rs' where rest: "run_all ms st1 = (st', rs')" "rs = (i, r) # rs'"
    using Cons.prems(1) im m by (auto split: prod.splits)
  have "civil_state st1 \<and> \<not> isl r" using Cons.prems(2,3) im m by (auto simp: sure_def)
  then show ?case using Cons.IH[OF rest(1)] Cons.prems(3) rest(2) by auto
qed simp

lemma mgather_sure:
  assumes "\<And>m. m \<in> set ms \<Longrightarrow> sure m" "civil_state st"
  shows "\<exists>st' as. mgather sn ms st = (st', Inr as)"
proof -
  let ?o = "schedule_order (length ms) (gather_order sn (world (r_io st)))"
  obtain st' rs where run: "run_all (map (\<lambda>i. (i, ms ! i)) ?o) st = (st', rs)" by (cases "run_all (map (\<lambda>i. (i, ms ! i)) ?o) st")
  have "\<forall>r \<in> snd ` set rs. \<not> isl r"
    by (rule run_all_sure[OF run assms(2)]) (use schedule_order_perm(2)[of "length ms"] assms(1) in auto)
  then have "first_failure rs = None" by (metis first_failure_in image_eqI isl_def not_Some_eq snd_conv)
  with run show ?thesis by (simp add: mgather_def Let_def)
qed

section \<open>What a computation returns\<close>

text \<open>\<open>returns P m\<close>: whatever \<open>m\<close> returns satisfies \<open>P\<close>. A bound step hands on that it returned its value.\<close>

named_theorems ret \<open>rules for the values a computation returns\<close>

definition returns :: "('a \<Rightarrow> bool) \<Rightarrow> ('w, 'a) act \<Rightarrow> bool" where
  "returns P m \<longleftrightarrow> (\<forall>st st' a. m st = (st', Inr a) \<longrightarrow> P a)"

lemma returnsD: "returns P m \<Longrightarrow> m st = (st', Inr a) \<Longrightarrow> P a"
  by (simp add: returns_def)

lemma ret_mbind [ret]: "(\<And>a s s'. m s = (s', Inr a) \<Longrightarrow> returns P (f a)) \<Longrightarrow> returns P (mbind m f)"
  by (fastforce simp: returns_def mbind_Inr)

lemma ret_simple [ret]: "P a \<Longrightarrow> returns P (mret a)" "returns P (mraise e)"
  by (simp_all add: returns_def)

lemma ret_branches [ret]:
  "(c \<Longrightarrow> returns P a) \<Longrightarrow> (\<not> c \<Longrightarrow> returns P b) \<Longrightarrow> returns P (if c then a else b)"
  "(v = None \<Longrightarrow> returns P a) \<Longrightarrow> (\<And>x. v = Some x \<Longrightarrow> returns P (f x)) \<Longrightarrow> returns P (case v of None \<Rightarrow> a | Some x \<Rightarrow> f x)"
  "(\<And>x y. p = (x, y) \<Longrightarrow> returns P (g x y)) \<Longrightarrow> returns P (case p of (x, y) \<Rightarrow> g x y)"
  by (auto split: option.split prod.split)

section \<open>An environment for witnesses\<close>

lemma civil_demo_signer [simp]: "civil_producer demo_signer"
  by (simp add: civil_producer_def demo_signer_def demo_producer_def)

lemma civil_demo_scen: "(\<And>rq. ordinary (answer rq)) \<Longrightarrow> civil_scen (demo_scen answer)"
  by (auto simp: civil_scen_def demo_scen_def civil_env_def stub_env_def demo_client_env_def Client.demo_env_def civil_call_def
      Quota.demo_env_def plain_sdk_def civil_ssrf_def split: option.splits)

lemma civil_demo_agent [simp]: "civil_agent demo_agent"
  by (simp add: civil_agent_def demo_agent_def civil_client_def plain_client_def)

lemma civil_demo_rst [simp]: "civil_state demo_rst"
  by (simp add: civil_state_def demo_rst_def)

lemma demo_bundle_client:
  assumes "bundle_ok (demo_scen answer) rid st"
  shows "\<exists>st' cl. bundle_client (demo_scen answer) rid reg None None mode st = (st', Inr cl) \<and> bundle_ok (demo_scen answer) rid st'
     \<and> managed cl = None \<and> cl_static_bearer cl = None"
proof -
  obtain st' r where b: "bundle_client (demo_scen answer) rid reg None None mode st = (st', r)" by (metis prod.collapse)
  from b show ?thesis
  proof (cases rule: bundle_client_cases)
    case (cached cl)
    have "configured (demo_scen answer) rid (reg, None, None, mode) cl"
      using assms map_of_SomeD[OF cached(1)] by (auto simp: bundle_ok_def)
    with cached b assms show ?thesis by (auto simp: configured_def)
  next
    case (made cl)
    have cl: "configured (demo_scen answer) rid (reg, None, None, mode) cl" using new_client_configured[OF made(3)] by simp
    have "(reg, None, None, mode) \<notin> fst ` set (r_clients st)" using made(1) by (simp add: map_of_eq_None_iff)
    then have "bundle_ok (demo_scen answer) rid st'" using assms cl update_absent[OF made(1), of cl] by (auto simp: bundle_ok_def made(4))
    with b made cl show ?thesis by (auto simp: configured_def)
  qed simp
qed

lemma demo_make_agent:
  assumes "bundle_ok (demo_scen answer) (sp_run_id spec) st" "\<not> op_authenticated opt" "op_tenant opt = None" "op_algorithm opt \<noteq> ALG_P256"
  shows "\<exists>st' ag. make_langchain_agent (demo_scen answer) spec slug opt st = (st', Inr ag) \<and> bundle_ok (demo_scen answer) (sp_run_id spec) st'
     \<and> ag_producer ag = demo_signer \<and> managed (ag_client ag) = None \<and> cl_static_bearer (ag_client ag) = None"
proof -
  have p: "producer_for (demo_scen answer) spec slug auth (op_algorithm opt) did_kind = Inr demo_signer" for auth did_kind
    using assms(4) by (simp add: producer_for_def Let_def demo_scen_def)
  have l: "llm_for_settings (demo_scen answer) = Inr MockLLM" by (simp add: llm_for_settings_def demo_scen_def Let_def)
  obtain st1 cl where 1: "bundle_client (demo_scen answer) (sp_run_id spec) (op_registry opt) None None (op_mode opt) st = (st1, Inr cl)"
    "bundle_ok (demo_scen answer) (sp_run_id spec) st1" "managed cl = None" "cl_static_bearer cl = None"
    using demo_bundle_client[OF assms(1)] by blast
  obtain st2 a where 2: "bundle_client (demo_scen answer) (sp_run_id spec) Registry_A None None (op_mode opt) st1 = (st2, Inr a)"
    "bundle_ok (demo_scen answer) (sp_run_id spec) st2" using demo_bundle_client[OF 1(2)] by blast
  obtain st3 b where 3: "bundle_client (demo_scen answer) (sp_run_id spec) Registry_B None None (op_mode opt) st2 = (st3, Inr b)"
    "bundle_ok (demo_scen answer) (sp_run_id spec) st3" using demo_bundle_client[OF 2(2)] by blast
  show ?thesis using assms(2,3) 1 2 3
    by (simp add: make_langchain_agent_def Let_def p l authority_map_def) (simp add: mbind_def mret_def)
qed

lemma bundle_ok_demo_rst [simp]: "bundle_ok sn rid demo_rst"
  by (simp add: bundle_ok_def demo_rst_def)

lemma demo_publish_any:
  assumes "managed cl = None" "cl_static_bearer cl = None"
  shows "\<exists>io'. publish_context (stub_env (\<lambda>rq. Inr (json_answer 200 j))) demo_client_env cl req key io tm
     = (io', tm, Inr \<lparr>pr_ctx_id = ''acdp://a/1'', pr_lineage_id = ''lin:1'', pr_version = 1, pr_created_at = 0, pr_status = ''active''\<rparr>)"
  using assms
  by (simp add: publish_context_def fetch_json_def retrying_def abind_def client_headers_def bearer_token_def areturn_def nonempty_str_def
      http_call_def raise_for_status_def json_of_def alift_def demo_client_env_def json_answer_def)

lemma demo_retrieve_raw_any:
  assumes "managed cl = None" "cl_static_bearer cl = None" "bind_served_ctx_id ce cl j Envelope (Some c) v = Inr ()"
  shows "\<exists>io'. retrieve_raw (stub_env (\<lambda>rq. Inr (json_answer 200 j))) ce cl c v io tm = (io', tm, Inr j)"
  using assms
  by (simp add: retrieve_raw_def get_full_context_def Let_def fetch_json_def retrying_def abind_def client_headers_def bearer_token_def
      areturn_def nonempty_str_def http_call_def raise_for_status_def json_of_def alift_def json_answer_def)

lemma down_publish: "publish_context (stub_env (\<lambda>rq. Inl HTTPError)) ce cl req key io tm \<noteq> (io', tm', Inr x)"
  by (auto simp: publish_context_def fetch_json_def retrying_def abind_Inr http_call_Inr)

end
