(* ===== verification/Scenarios_Lineage.thy ===== *)
theory Scenarios_Lineage
  imports Scenario_Kit
begin

text \<open>
  The scenarios of the catalogue that publish and derive (S1 to S5, S8): one context, producer and consumer, fan-out, a
  chain, a chain across two registries, two isolated organisations. Each \<^verbatim>\<open>run\<close> is a definition and interprets the
  contract of scenarios.
\<close>

section \<open>S1: single publish\<close>

definition did_key_opts :: agent_options where
  "did_key_opts = agent_defaults\<lparr>op_method := Did_key\<rparr>"

definition did_key_opts_b :: agent_options where
  "did_key_opts_b = did_key_opts\<lparr>op_registry := Registry_B\<rparr>"

definition S1 :: "'w scenario" where
  "S1 = scenario_def ''s1_single_publish'' ''Single Publish''
     ''One agent publishes one context. Smallest possible round-trip through the SDK + registry.''
     ''single'' 1 [(''topic'', JStr ''quarterly cash flow'')]"

definition s1_run :: "'w scenario_act" where
  "s1_run sn spec =
     (let topic = input_text sn spec ''topic'' ''quarterly cash flow'' in
      mbind (make_langchain_agent sn spec ''solo'' did_key_opts) (\<lambda>ag.
      mbind (agent_run sn ag ((new_task (''Summarize three notable trends in '' @ topic @ '' in 4 sentences.'')
                                 (topic @ '' '' @ em_dash @ '' notable trends''))\<lparr>
               tk_context_type := ''data_snapshot'', tk_domain := Some ''finance'', tk_tags := [''trends'', ''summary'']\<rparr>)) (\<lambda>out.
      mret (run_result_of spec ''s1_single_publish'' [ao_ctx_id out]
              (graph [node (ao_ctx_id out) ag (ao_title out) ''data_snapshot'' (registry_a_authority (sn_settings sn)) 1] [])
              [(''agent'', JStr (agent_did (ag_producer ag))), (''ctx_id'', JStr (ao_ctx_id out))] None))))"

interpretation s1: scenario_contract s1_run "''s1_single_publish''"
  by unfold_locales
     (simp only: s1_run_def Let_def, (rule scenario_rules | assumption | simp add: graph_simps)+)

section \<open>S2: producer and consumer\<close>

definition S2 :: "'w scenario" where
  "S2 = scenario_def ''s2_producer_consumer'' (''Producer '' @ arrow @ '' Consumer'')
     ''One agent publishes raw data; a second agent retrieves it, analyses it, and publishes a derivative tagged derived_from=[producer].''
     ''single'' 2 [(''topic'', JStr ''renewable energy capacity by region'')]"

definition s2_run :: "'w scenario_act" where
  "s2_run sn spec =
     (let topic = input_text sn spec ''topic'' ''renewable energy capacity by region'';
          auth = registry_a_authority (sn_settings sn) in
      mbind (make_langchain_agent sn spec ''producer'' did_key_opts) (\<lambda>prod.
      mbind (make_langchain_agent sn spec ''consumer'' did_key_opts) (\<lambda>cons.
      mbind (agent_run sn prod ((new_task (''List 5 datapoints about '' @ topic @ ''. Be specific.'')
                                   (''Raw data '' @ em_dash @ '' '' @ topic))\<lparr>
               tk_context_type := ''data_snapshot'', tk_tags := [''raw'', ''data''], tk_domain := Some ''energy''\<rparr>)) (\<lambda>prod_out.
      mbind (agent_run sn cons ((new_task ''Given the raw data, produce a 3-bullet executive analysis.''
                                   (''Analysis '' @ em_dash @ '' '' @ topic))\<lparr>
               tk_context_type := ''analysis'', tk_tags := [''analysis''], tk_domain := Some ''energy'',
               tk_derived_from := [ao_ctx_id prod_out]\<rparr>)) (\<lambda>cons_out.
      mret (run_result_of spec ''s2_producer_consumer'' [ao_ctx_id prod_out, ao_ctx_id cons_out]
              (graph [node (ao_ctx_id prod_out) prod (ao_title prod_out) ''data_snapshot'' auth 1,
                      node (ao_ctx_id cons_out) cons (ao_title cons_out) ''analysis'' auth 2]
                     [(ao_ctx_id prod_out, ao_ctx_id cons_out)])
              [] None))))))"

interpretation s2: scenario_contract s2_run "''s2_producer_consumer''"
  by unfold_locales
     (simp only: s2_run_def Let_def, (rule scenario_rules | assumption | simp add: graph_simps)+)

section \<open>S3: fan-out\<close>

definition S3 :: "'w scenario" where
  "S3 = scenario_def ''s3_fanout'' (''Fan-out (1 '' @ arrow @ '' N)'')
     ''One producer publishes a base context. Three consumers run in parallel, each producing a domain-specific derivative.''
     ''single'' 4
     [(''topic'', JStr ''GLP-1 drug pipeline''),
      (''facets'', JList [JStr ''clinical-trial outcomes'', JStr ''manufacturing capacity'', JStr ''payer dynamics''])]"

text \<open>\<^verbatim>\<open>facet.split()[0]\<close>.\<close>

definition first_word :: "json \<Rightarrow> string result" where
  "first_word facet =
     (case facet of
        JStr s \<Rightarrow> (case dropWhile is_space_char s of [] \<Rightarrow> Inl IndexError | t \<Rightarrow> Inr (takeWhile (\<lambda>c. \<not> is_space_char c) t))
      | _ \<Rightarrow> Inl AttributeError)"

definition make_derivative :: "'w scen_env \<Rightarrow> string \<Rightarrow> string \<Rightarrow> agent \<Rightarrow> json \<Rightarrow> ('w, agent_output) act" where
  "make_derivative sn topic source consumer facet =
     mbind (mlift (first_word facet)) (\<lambda>word.
     let f = str_json (je sn) facet in
     agent_run sn consumer ((new_task (''From the brief, write a 4-sentence analysis focused on '' @ [CHR 0x27] @ f @ [CHR 0x27] @ ''.'')
                               (''Facet ('' @ f @ '') '' @ em_dash @ '' '' @ topic))\<lparr>
         tk_context_type := ''analysis'', tk_domain := Some ''pharma'', tk_tags := [''facet'', word], tk_derived_from := [source]\<rparr>))"

definition s3_run :: "'w scenario_act" where
  "s3_run sn spec =
     (let topic = input_text sn spec ''topic'' ''GLP-1 drug pipeline'';
          facets = dict_get_default (sp_inputs spec) ''facets''
            (JList [JStr ''clinical-trial outcomes'', JStr ''manufacturing capacity'', JStr ''payer dynamics'']);
          auth = registry_a_authority (sn_settings sn) in
      mbind (make_langchain_agent sn spec ''producer'' did_key_opts) (\<lambda>prod.
      mbind (mlift (py_iter facets)) (\<lambda>fs.
      mbind (mfor (\<lambda>i. make_langchain_agent sn spec (''facet-'' @ nat_digits i) did_key_opts) [0..<length fs]) (\<lambda>consumers.
      mbind (agent_run sn prod ((new_task (''Write a structured brief on '' @ topic @ ''. Include market size, key players, and unknowns.'')
                                   (''Brief '' @ em_dash @ '' '' @ topic))\<lparr>
               tk_context_type := ''data_snapshot'', tk_domain := Some ''pharma'', tk_tags := [''brief'', ''raw'']\<rparr>)) (\<lambda>prod_out.
      mbind (mgather sn (map (\<lambda>(c, f). make_derivative sn topic (ao_ctx_id prod_out) c f) (zip consumers fs))) (\<lambda>outs.
      mret (run_result_of spec ''s3_fanout'' (ao_ctx_id prod_out # map ao_ctx_id outs)
              (graph (node (ao_ctx_id prod_out) prod (ao_title prod_out) ''data_snapshot'' auth 1
                        # map (\<lambda>(i, out). node (ao_ctx_id out) (consumers ! i) (ao_title out) ''analysis'' auth 2) (enumerate 0 outs))
                     (map (\<lambda>out. (ao_ctx_id prod_out, ao_ctx_id out)) outs))
              [] None)))))))"

lemma first_word_ordinary: "ordinary (first_word j)"
  by (auto simp: first_word_def split: json.splits list.splits)

lemma quietly_make_derivative:
  "civil_scen sn \<Longrightarrow> civil_agent ag \<Longrightarrow> quietly (\<lambda>_. True) (make_derivative sn topic src ag f)"
  unfolding make_derivative_def by (rule scenario_rules first_word_ordinary | assumption)+

lemma fanout_graph_ok:
  "graph_ok (c # map ao_ctx_id outs)
     \<lparr>lg_nodes = node c p t ct auth 1 # map (\<lambda>(i, out). node (ao_ctx_id out) (ag i) (ao_title out) ct' auth 2) (enumerate k outs),
      lg_edges = map (\<lambda>out. (c, ao_ctx_id out)) outs\<rparr>"
proof -
  define ns where "ns = map (\<lambda>(i, out). node (ao_ctx_id out) (ag i) (ao_title out) ct' auth 2) (enumerate k outs)"
  have "map ln_ctx_id ns = map ao_ctx_id (map snd (enumerate k outs))"
    unfolding ns_def map_map by (rule map_cong[OF refl]) (auto simp: node_def)
  then have "set (map ln_ctx_id ns) = set (map ao_ctx_id outs)" by (simp only: map_snd_enumerate)
  then have ids: "ln_ctx_id ` set ns = ao_ctx_id ` set outs" by (simp only: set_map)
  have step: "ln_step n = 2" if "n \<in> set ns" for n using that by (auto simp: ns_def node_def)
  have "\<exists>n \<in> set ns. ln_ctx_id n = ao_ctx_id out \<and> ln_step n = 2" if "out \<in> set outs" for out
    using imageI[OF that, of ao_ctx_id] step unfolding ids[symmetric] by force
  moreover have "ln_ctx_id n \<in> ao_ctx_id ` set outs" if "n \<in> set ns" for n
    using imageI[OF that, of ln_ctx_id] by (simp add: ids)
  ultimately show ?thesis unfolding ns_def[symmetric] by (force simp: graph_ok_def node_def)
qed

interpretation s3: scenario_contract s3_run "''s3_fanout''"
proof
  fix sn spec
  assume sn: "civil_scen sn"
  note agents = quietly_mfor[OF quietly_make_agent[OF sn]]
  show "quietly (result_ok spec ''s3_fanout'') (s3_run sn spec)"
    unfolding s3_run_def Let_def
  proof (rule vcg_spawn[OF sn], rule vcg_mbind, rule vcg_mlift, goal_cases)
    case (3 prod fs)
    show ?case
      by (rule quietly_post[OF agents], rule vcg_mbind, rule vcg_agent[OF sn 3], rule vcg_gather)
         (auto simp: list_all_iff graph_def fanout_graph_ok
            intro!: vcg quietly_make_derivative[OF sn] dest!: set_zip_leftD)
  qed auto
qed

section \<open>S4: chain\<close>

definition S4 :: "'w scenario" where
  "S4 = scenario_def ''s4_chain'' (''Linear Chain A '' @ arrow @ '' B '' @ arrow @ '' C'')
     (''Each agent grounds on the previous agent'' @ [CHR 0x27] @ ''s published context. Agent C grounds on both A and B. Lineage query reconstructs the full DAG.'')
     ''single'' 3 [(''topic'', JStr ''global semiconductor supply chains'')]"

definition s4_run :: "'w scenario_act" where
  "s4_run sn spec =
     (let topic = input_text sn spec ''topic'' ''global semiconductor supply chains'';
          auth = registry_a_authority (sn_settings sn) in
      mbind (make_langchain_agent sn spec ''agent-alpha'' did_key_opts) (\<lambda>a.
      mbind (make_langchain_agent sn spec ''agent-beta'' did_key_opts) (\<lambda>b.
      mbind (make_langchain_agent sn spec ''agent-gamma'' did_key_opts) (\<lambda>c.
      mbind (agent_run sn a ((new_task (''Research and summarize the top 5 risks in '' @ topic @ ''. Be specific and cite recent trends.'')
                                (''Risk landscape '' @ em_dash @ '' '' @ topic))\<lparr>
               tk_context_type := ''data_snapshot'', tk_domain := Some ''supply_chain'', tk_tags := [''research'', ''risk'']\<rparr>)) (\<lambda>out_a.
      mbind (agent_run sn b ((new_task (''Based on the risk analysis, identify the top 3 investment opportunities in '' @ topic @ ''.'')
                                (''Investment opportunities '' @ em_dash @ '' '' @ topic))\<lparr>
               tk_context_type := ''analysis'', tk_domain := Some ''supply_chain'', tk_tags := [''investment'', ''analysis''],
               tk_derived_from := [ao_ctx_id out_a]\<rparr>)) (\<lambda>out_b.
      mbind (agent_run sn c ((new_task (''Draft a 3-paragraph executive recommendation for a CFO considering exposure to '' @ topic @ ''.'')
                                (''CFO recommendation '' @ em_dash @ '' '' @ topic))\<lparr>
               tk_context_type := ''analysis'', tk_domain := Some ''supply_chain'', tk_tags := [''recommendation'', ''executive''],
               tk_derived_from := [ao_ctx_id out_a, ao_ctx_id out_b]\<rparr>)) (\<lambda>out_c.
      mret (run_result_of spec ''s4_chain'' [ao_ctx_id out_a, ao_ctx_id out_b, ao_ctx_id out_c]
              (graph [node (ao_ctx_id out_a) a (ao_title out_a) ''data_snapshot'' auth 1,
                      node (ao_ctx_id out_b) b (ao_title out_b) ''analysis'' auth 2,
                      node (ao_ctx_id out_c) c (ao_title out_c) ''analysis'' auth 3]
                     [(ao_ctx_id out_a, ao_ctx_id out_b), (ao_ctx_id out_a, ao_ctx_id out_c), (ao_ctx_id out_b, ao_ctx_id out_c)])
              [] None))))))))"

interpretation s4: scenario_contract s4_run "''s4_chain''"
  by unfold_locales
     (simp only: s4_run_def Let_def, (rule scenario_rules | assumption | simp add: graph_simps)+)

section \<open>S5: across registries\<close>

definition S5 :: "'w scenario" where
  "S5 = scenario_def ''s5_cross_registry'' ''Cross-Registry Chain''
     ''Agent A publishes to registry-a; agent B (on registry-b) retrieves cross-registry and publishes a derivative. Verifies cross-registry resolution and that lineage edges span authorities.''
     ''dual'' 2 [(''topic'', JStr ''Arctic shipping routes'')]"

definition s5_run :: "'w scenario_act" where
  "s5_run sn spec =
     (let topic = input_text sn spec ''topic'' ''Arctic shipping routes'' in
      mbind (make_langchain_agent sn spec ''cross-a'' did_key_opts) (\<lambda>a.
      mbind (make_langchain_agent sn spec ''cross-b'' did_key_opts_b) (\<lambda>b.
      mbind (agent_run sn a ((new_task (''Write 5 bullet points on '' @ topic @ '' (geopolitical risks).'')
                                (''Cross-registry source '' @ em_dash @ '' '' @ topic))\<lparr>
               tk_context_type := ''data_snapshot'', tk_domain := Some ''geopolitics'', tk_tags := [''cross-registry'', ''source'']\<rparr>)) (\<lambda>out_a.
      mbind (agent_run sn b ((new_task ''Given the source, write a 4-sentence analysis of shipping investment implications.''
                                (''Cross-registry derivative '' @ em_dash @ '' '' @ topic))\<lparr>
               tk_context_type := ''analysis'', tk_domain := Some ''geopolitics'', tk_tags := [''cross-registry'', ''derivative''],
               tk_derived_from := [ao_ctx_id out_a]\<rparr>)) (\<lambda>out_b.
      mret (run_result_of spec ''s5_cross_registry'' [ao_ctx_id out_a, ao_ctx_id out_b]
              (graph [node (ao_ctx_id out_a) a (ao_title out_a) ''data_snapshot'' (registry_a_authority (sn_settings sn)) 1,
                      node (ao_ctx_id out_b) b (ao_title out_b) ''analysis'' (registry_b_authority (sn_settings sn)) 2]
                     [(ao_ctx_id out_a, ao_ctx_id out_b)])
              [(''cross_registry_edge'', JBool True)] None))))))"

interpretation s5: scenario_contract s5_run "''s5_cross_registry''"
  by unfold_locales
     (simp only: s5_run_def Let_def, (rule scenario_rules | assumption | simp add: graph_simps)+)

section \<open>S8: isolated organisations\<close>

definition S8 :: "'w scenario" where
  "S8 = scenario_def ''s8_cross_org'' ''Cross-Org Isolation''
     (''Two organizations publish independently on different registries. No cross-references '' @ em_dash
      @ '' verifies that authorities are isolated and the control plane sees both sides without merging identities.'')
     ''cross_org'' 2
     [(''topic_org_a'', JStr ''European market entry''), (''topic_org_b'', JStr ''Asia-Pacific supply contracts'')]"

definition s8_run :: "'w scenario_act" where
  "s8_run sn spec =
     (let topic_a = input_text sn spec ''topic_org_a'' ''European market entry'';
          topic_b = input_text sn spec ''topic_org_b'' ''Asia-Pacific supply contracts'' in
      mbind (make_langchain_agent sn spec ''org-a'' did_key_opts) (\<lambda>a.
      mbind (make_langchain_agent sn spec ''org-b'' did_key_opts_b) (\<lambda>b.
      mbind (mgather sn
        [agent_run sn a ((new_task (''3 bullets on '' @ topic_a @ ''.'') (''Org A '' @ em_dash @ '' '' @ topic_a))\<lparr>
           tk_context_type := ''data_snapshot'', tk_tags := [''org-a'']\<rparr>),
         agent_run sn b ((new_task (''3 bullets on '' @ topic_b @ ''.'') (''Org B '' @ em_dash @ '' '' @ topic_b))\<lparr>
           tk_context_type := ''data_snapshot'', tk_tags := [''org-b'']\<rparr>)]) (\<lambda>outs.
      let out_a = outs ! 0; out_b = outs ! 1 in
      mret (run_result_of spec ''s8_cross_org'' [ao_ctx_id out_a, ao_ctx_id out_b]
              (graph [node (ao_ctx_id out_a) a (ao_title out_a) ''data_snapshot'' (registry_a_authority (sn_settings sn)) 1,
                      node (ao_ctx_id out_b) b (ao_title out_b) ''data_snapshot'' (registry_b_authority (sn_settings sn)) 1] [])
              [(''isolated_orgs'', JBool True)] None)))))"

interpretation s8: scenario_contract s8_run "''s8_cross_org''"
  by unfold_locales
     (simp only: s8_run_def Let_def, (rule scenario_rules | assumption | simp add: graph_simps
        | (auto intro!: vcg_agent)[1])+)

end
