(* ===== verification/Scenarios_Offline.thy ===== *)
theory Scenarios_Offline
  imports Scenario_Kit Pinned_Keys
begin

text \<open>
  The scenarios of the catalogue that need no registry: key rotation (S12), authorisation and domain packs at the control plane
  (S13, S14), the SSRF guard (S16) and the reserved tenant (S20).
\<close>

text \<open>A step that uses the network but neither the bundle nor the events.\<close>

definition mio :: "('w io \<Rightarrow> 'w io \<times> 'a result) \<Rightarrow> ('w, 'a) act" where
  "mio f st = (case f (r_io st) of (io, r) \<Rightarrow> (st\<lparr>r_io := io\<rparr>, r))"

lemma vcg_mio: "(\<And>io. ordinary (snd (f io))) \<Longrightarrow> quietly (\<lambda>_. True) (mio f)"
  by (auto simp: quietly_def quiet_act_def mio_def civil_state_def intro!: adds_quietly_same split: prod.splits) (metis snd_conv)

lemma vcg_mhttp: "civil_scen sn \<Longrightarrow> quietly (\<lambda>_. True) (mhttp sn rq)"
  by (rule quietly_any[OF quiet_mhttp[OF civil_scen_env]])

text \<open>\<^verbatim>\<open>except httpx.HTTPError as e\<close>.\<close>

definition on_http_error :: "('w, 'a) act \<Rightarrow> (exn \<Rightarrow> ('w, 'a) act) \<Rightarrow> ('w, 'a) act" where
  "on_http_error m h = mtry m (\<lambda>e. if e = HTTPError then h e else mraise e)"

lemma vcg_on_http_error:
  "quietly P m \<Longrightarrow> quietly P (h HTTPError) \<Longrightarrow> quietly P (on_http_error m h)"
  unfolding on_http_error_def by (rule vcg | assumption | simp)+

section \<open>S12: key rotation\<close>

definition S12 :: "'w scenario" where
  "S12 = scenario_def ''s12_key_rotation'' ''Key Rotation + Admin Reload''
     ''Overlapping pinned-key validity windows: outgoing and incoming keys both verify during the overlap; an admin reload rotates without a restart.''
     ''single'' 1 []"

definition ROTATING_DID :: string where
  "ROTATING_DID = ''did:web:registry-a.playground.local:agents:rotating-publisher''"

definition OLD_KEY :: pinned_key where
  "OLD_KEY = \<lparr>pk_agent_did = ROTATING_DID, pk_public_key = ''9tsbbuOon0zOWgZYlL3m+nQ0PTVS9/MWOmQ/EQXgpRk='', pk_algorithm = ''ed25519'',
     pk_valid_from = None, pk_valid_until = Some 1780358400\<rparr>"

definition NEW_KEY :: pinned_key where
  "NEW_KEY = \<lparr>pk_agent_did = ROTATING_DID, pk_public_key = ''V/U68CudHahBq0B1x0+vUM8XQ4ZkmpGwe8G4EScYagI='', pk_algorithm = ''ed25519'',
     pk_valid_from = Some 1780272000, pk_valid_until = None\<rparr>"

definition BEFORE :: int where "BEFORE = 1780185600"
definition OVERLAP :: int where "OVERLAP = 1780300000"
definition AFTER :: int where "AFTER = 1780444800"

definition count_at :: "int \<Rightarrow> int" where
  "count_at now = int (length (active_keys [OLD_KEY, NEW_KEY] now))"

definition s12_run :: "'w scenario_act" where
  "s12_run sn spec =
     (let s = sn_settings sn; before = count_at BEFORE; overlap = count_at OVERLAP; after = count_at AFTER;
          window_ok = (before = 1 \<and> overlap = 2 \<and> after = 1) in
      mbind (note_event sn spec ''pinned-key window evaluation''
               (''before='' @ str_int before @ '' overlap='' @ str_int overlap @ '' after='' @ str_int after)) (\<lambda>_.
      mbind (if control_plane_enabled s \<and> control_plane_admin_token s \<noteq> []
             then mbind (mio (reload_pinned_keys (sn_env sn) s)) (\<lambda>result. mret (case result of Some j \<Rightarrow> j | None \<Rightarrow> JStr ''unavailable''))
             else mret (JStr ''skipped (no control plane / admin token)'')) (\<lambda>cp_reload.
      mret (run_result_of spec ''s12_key_rotation'' [] None
              [(''window_ok'', JBool window_ok), (''active_before'', JInt before), (''active_overlap'', JInt overlap),
               (''active_after'', JInt after), (''cp_reload'', cp_reload)]
              (if window_ok then None else Some ''S12 rotation window evaluation failed'')))))"

lemma cp_query_ordinary: "civil_scen sn \<Longrightarrow> ordinary (snd (cp_query (sn_env sn) io rq))"
  using civil_envD(1)[OF civil_scen_env, of sn io rq]
  by (cases "http_send (sn_env sn) io rq") (auto simp: cp_query_def split: sum.splits exn.splits option.splits)

lemma reload_ordinary: "civil_scen sn \<Longrightarrow> ordinary (snd (reload_pinned_keys (sn_env sn) s io))"
  by (simp add: reload_pinned_keys_def admin_query_def cp_query_ordinary split: option.splits)

interpretation s12: scenario_contract s12_run "''s12_key_rotation''"
  by unfold_locales
     (simp only: s12_run_def Let_def, (rule scenario_rules vcg_mio reload_ordinary | assumption | (simp add: graph_simps)[1])+)

section \<open>S13: authorisation\<close>

definition S13 :: "'w scenario" where
  "S13 = scenario_def ''s13_policy_deny'' ''Policy / Authz Enforcement''
     ''An unauthenticated request to a guarded control-plane endpoint is denied (401/403); the same request with an admin token is allowed. Exercises AuthGuard + PolicyGuard.''
     ''single'' 0 []"

definition revocations_request :: "settings \<Rightarrow> (string, string) dict \<Rightarrow> request" where
  "revocations_request s headers = get_request (rstrip_char CHR ''/'' (control_plane_url s) @ ''/auth/revocations'') [(''since'', JInt 0), (''limit'', JInt 1)] headers"

text \<open>The admin request's status, None when there is no admin token or the request failed, and what the summary then says.\<close>

definition s13_admin :: "'w scen_env \<Rightarrow> obj \<Rightarrow> ('w, int option \<times> obj) act" where
  "s13_admin sn summary =
     (let s = sn_settings sn in
      if control_plane_admin_token s = [] then mret (None, summary)
      else on_http_error
        (mbind (mhttp sn (revocations_request s [(''Authorization'', ''Bearer '' @ control_plane_admin_token s)])) (\<lambda>r.
           mret (Some (status_code r), summary)))
        (\<lambda>e. mret (None, AList.update ''error_admin'' (JStr (py_take 160 (et_str (sn_texts sn) e))) summary)))"

definition s13_run :: "'w scenario_act" where
  "s13_run sn spec =
     (let s = sn_settings sn in
      if \<not> control_plane_enabled s
      then mret (run_result_of spec ''s13_policy_deny'' [] None
             [(''degraded'', JBool True), (''reason'', JStr ''no control plane configured'')] None)
      else
        mbind (on_http_error (mbind (mhttp sn (revocations_request s [])) (\<lambda>r. mret (Inr (status_code r))))
                 (\<lambda>e. mret (Inl (py_take 160 (et_str (sn_texts sn) e))))) (\<lambda>anon.
        if isl anon
        then mret (run_result_of spec ''s13_policy_deny'' [] None [(''degraded'', JBool True), (''error'', JStr (projl anon))] None)
        else
          let anon_status = projr anon in
          mbind (s13_admin sn [(''degraded'', JBool False)]) (\<lambda>(admin_status, summary).
          let denied_ok = (anon_status \<in> {401, 403});
              allowed_ok = (admin_status = None \<or> admin_status = Some 200);
              admin = (case admin_status of Some c \<Rightarrow> JInt c | None \<Rightarrow> JNull);
              summary' = dict_update summary
                [(''anonymous_status'', JInt anon_status), (''admin_status'', admin),
                 (''denied_unauthenticated'', JBool denied_ok), (''allowed_with_admin'', JBool allowed_ok)] in
          mbind (tell sn spec ''policy.check'' None ''authz enforcement'' (''anon='' @ str_int anon_status
                   @ '' admin='' @ (case admin_status of Some c \<Rightarrow> str_int c | None \<Rightarrow> ''None''))) (\<lambda>_.
          mret (run_result_of spec ''s13_policy_deny'' [] None summary'
                  (if denied_ok \<and> allowed_ok then None
                   else Some (''S13 authz expectations failed: '' @ str_json (je sn) (JObj summary'))))))))"

lemma quietly_s13_admin: "civil_scen sn \<Longrightarrow> quietly (\<lambda>_. True) (s13_admin sn s)"
  unfolding s13_admin_def Let_def by (rule vcg vcg_mhttp vcg_on_http_error TrueI | assumption)+

interpretation s13: scenario_contract s13_run "''s13_policy_deny''"
  by unfold_locales
     (simp only: s13_run_def Let_def,
      (rule scenario_rules vcg_mhttp vcg_on_http_error quietly_s13_admin | assumption | (simp add: graph_simps)[1])+)

section \<open>S14: domain packs\<close>

definition S14 :: "'w scenario" where
  "S14 = scenario_def ''s14_domain_pack'' ''Domain-Pack Gating''
     ''Lists active domain packs and exercises the ingest context-type gate: a base type is accepted, an unknown pack-gated type is rejected (400).''
     ''single'' 0 []"

definition PROBE_AUTHORITY :: string where
  "PROBE_AUTHORITY = ''registry-a.playground.local''"

definition PROBE_CTX_ID :: string where
  "PROBE_CTX_ID = projr (synthetic_ctx_id PROBE_AUTHORITY ''s14-domain-pack-probe'')"

definition s14_event :: "'w scen_env \<Rightarrow> string \<Rightarrow> string \<Rightarrow> bytes" where
  "s14_event sn ctx_type now = utf8_encode (dumps sn (JObj
     [(''type'', JStr ''context_published''), (''ctx_id'', JStr PROBE_CTX_ID),
      (''agent_id'', JStr (''did:web:'' @ PROBE_AUTHORITY @ '':agents:probe'')), (''context_type'', JStr ctx_type),
      (''visibility'', JStr ''public''), (''version'', JInt 1), (''derived_from'', JList []),
      (''registry_authority'', JStr PROBE_AUTHORITY), (''created_at'', JStr now)]))"

text \<open>The status of one ingest, or the text of the transport error.\<close>

definition s14_ingest :: "'w scen_env \<Rightarrow> string \<Rightarrow> ('w, json) act" where
  "s14_ingest sn ctx_type =
     (let s = sn_settings sn; secret = control_plane_hmac_secret s in
      mbind (mnow sn) (\<lambda>now.
      let body = s14_event sn ctx_type now;
          headers = [(''Content-Type'', ''application/json'')]
            @ (if secret = [] then [] else [(''X-ACDP-Signature'', cp_sign secret body)]) in
      on_http_error
        (mbind (mhttp sn \<lparr>rq_method = ''POST'', rq_url = rstrip_char CHR ''/'' (control_plane_url s) @ ''/ingest/acdp'',
                          rq_headers = headers, rq_params = [], rq_body = Content body\<rparr>) (\<lambda>r. mret (JInt (status_code r))))
        (\<lambda>e. mret (JStr (''error:'' @ et_str (sn_texts sn) e)))))"

text \<open>\<^verbatim>\<open>r.json().get("packs", []) if r.is_success else []\<close>, and the identifiers of what it holds.\<close>

definition pack_ids :: "response \<Rightarrow> json list result" where
  "pack_ids r =
     rbind (if is_success r
            then rbind (json_of r) (\<lambda>j. case as_obj j of Some kvs \<Rightarrow> Inr (dict_get_default kvs ''packs'' (JList [])) | None \<Rightarrow> Inl AttributeError)
            else Inr (JList [])) (\<lambda>packs.
     rbind (py_iter packs) (map_result (\<lambda>p. case as_obj p of Some kvs \<Rightarrow> Inr (obj_get kvs ''id'') | None \<Rightarrow> Inl AttributeError)))"

definition s14_run :: "'w scenario_act" where
  "s14_run sn spec =
     (let s = sn_settings sn in
      if \<not> control_plane_enabled s
      then mret (run_result_of spec ''s14_domain_pack'' [] None
             [(''degraded'', JBool True), (''reason'', JStr ''no control plane configured'')] None)
      else
        mbind (on_http_error
                 (mbind (mhttp sn (get_request (rstrip_char CHR ''/'' (control_plane_url s) @ ''/domain-packs'') [] [])) (\<lambda>r.
                  mbind (mlift (pack_ids r)) (\<lambda>ids. mret (Inr ids))))
                 (\<lambda>e. mret (Inl (py_take 160 (et_str (sn_texts sn) e))))) (\<lambda>listed.
        if isl listed
        then mret (run_result_of spec ''s14_domain_pack'' [] None [(''degraded'', JBool True), (''error'', JStr (projl listed))] None)
        else
          let packs = projr listed in
          mbind (s14_ingest sn ''data_snapshot'') (\<lambda>base_status.
          mbind (s14_ingest sn ''zzz_unknown_pack_type'') (\<lambda>unknown_status.
          let base_ok = (case base_status of JInt c \<Rightarrow> 200 \<le> c \<and> c < 300 | _ \<Rightarrow> False);
              unknown_rejected = (unknown_status = JInt 400);
              gating_active = (packs \<noteq> []);
              ok = (base_ok \<and> (unknown_rejected \<or> \<not> gating_active));
              summary = [(''degraded'', JBool False), (''packs'', JList packs), (''base_type_status'', base_status),
                         (''unknown_type_status'', unknown_status)]
                @ (if gating_active \<and> \<not> unknown_rejected then [(''note'', JStr ''packs registered but unknown type not rejected'')] else []) in
          mbind (note_event sn spec ''domain-pack gating'' (''packs='' @ str_json (je sn) (JList packs)
                   @ '' base='' @ str_json (je sn) base_status @ '' unknown='' @ str_json (je sn) unknown_status)) (\<lambda>_.
          mret (run_result_of spec ''s14_domain_pack'' [] None summary
                  (if ok then None else Some (''S14 domain-pack gating unexpected: '' @ str_json (je sn) (JObj summary)))))))))"

lemma pack_ids_ordinary: "ordinary (pack_ids r)"
  unfolding pack_ids_def
  by (intro ordinary_rbind map_result_ordinary) (auto simp: json_of_def intro!: ordinary_rbind split: option.splits)

lemma quietly_s14_ingest: "civil_scen sn \<Longrightarrow> quietly (\<lambda>_. True) (s14_ingest sn t)"
  unfolding s14_ingest_def Let_def by (rule vcg vcg_mhttp vcg_on_http_error TrueI | assumption)+

interpretation s14: scenario_contract s14_run "''s14_domain_pack''"
  by unfold_locales
     (simp only: s14_run_def Let_def,
      (rule scenario_rules vcg_mhttp vcg_on_http_error pack_ids_ordinary quietly_s14_ingest | assumption | (simp add: graph_simps)[1])+)

section \<open>S16: the SSRF guard\<close>

definition S16 :: "'w scenario" where
  "S16 = scenario_def ''s16_dataref_ssrf'' ''Consumer SSRF guard (data_refs)''
     (''A consumer following a data_refs[].location is screened for private/loopback/IMDS targets, mixed DNS answers, cross-port redirects, and non-https schemes (RFC-ACDP-0008 ''
      @ section_sign @ ''4.9). Runs fully offline with an injected resolver.'')
     ''single'' 0 []"

definition s16_DNS :: "(string, string list) dict" where
  "s16_DNS = [(''data.attacker.example'', [''203.0.113.10'', ''10.0.0.1'']), (''imds.attacker.example'', [''169.254.169.254'']),
     (''loopback.attacker.example'', [''127.0.0.1'']), (''data.example.com'', [''203.0.113.50''])]"

definition s16_resolver :: "'w \<Rightarrow> string \<Rightarrow> string list result" where
  "s16_resolver w host = Inr (dict_get_default s16_DNS host [''203.0.113.99''])"

text \<open>\<^verbatim>\<open>try: ...; outcome = passed except SsrfError as e: outcome = prefix + e.reason\<close>.\<close>

definition ssrf_outcome :: "'a result \<Rightarrow> string \<Rightarrow> string \<Rightarrow> string result" where
  "ssrf_outcome r passed prefix =
     (case r of Inr _ \<Rightarrow> Inr passed | Inl (SsrfError reason) \<Rightarrow> Inr (prefix @ reason) | Inl e \<Rightarrow> Inl e)"

definition s16_screen :: "'w scen_env \<Rightarrow> string \<Rightarrow> 'w rst \<Rightarrow> string list result" where
  "s16_screen sn host st = screen_host (sn_ssrf sn) (world (r_io st)) host production (Some s16_resolver)"

definition s16_run :: "'w scenario_act" where
  "s16_run sn spec =
     (let se = sn_ssrf sn in
      mbind (mget (s16_screen sn ''imds.attacker.example'')) (\<lambda>r1.
      mbind (mlift (ssrf_outcome r1 ''NOT-BLOCKED'' ''blocked:'')) (\<lambda>imds.
      mbind (note_event sn spec ''IMDS data_ref'' imds) (\<lambda>_.
      mbind (mget (s16_screen sn ''data.attacker.example'')) (\<lambda>r2.
      mbind (mlift (ssrf_outcome r2 ''NOT-BLOCKED'' ''blocked:'')) (\<lambda>mixed_answer.
      mbind (note_event sn spec ''mixed DNS answer'' mixed_answer) (\<lambda>_.
      mbind (mlift (same_authority se ''https://data.example.com/file'' ''https://data.example.com:8443/file'')) (\<lambda>cross_port.
      mbind (mlift (same_authority se ''https://data.example.com/file'' ''https://data.example.com:443/file'')) (\<lambda>same_port.
      let cross_port_redirect = (if \<not> cross_port \<and> same_port then ''refused'' else ''WRONG'') in
      mbind (note_event sn spec ''cross-port redirect'' cross_port_redirect) (\<lambda>_.
      mbind (mlift (ssrf_outcome (check_url se ''http://data.example.com/file'' production) ''NOT-BLOCKED'' ''blocked:'')) (\<lambda>http_scheme.
      mbind (note_event sn spec ''http scheme'' http_scheme) (\<lambda>_.
      mbind (mget (s16_screen sn ''data.example.com'')) (\<lambda>r5.
      mbind (mlift (ssrf_outcome r5 ''passed'' ''unexpected-block:'')) (\<lambda>public_screen.
      mbind (note_event sn spec ''public location screen'' public_screen) (\<lambda>_.
      let ok = (py_startswith imds ''blocked'' \<and> py_startswith mixed_answer ''blocked'' \<and> cross_port_redirect = ''refused''
                \<and> py_startswith http_scheme ''blocked'' \<and> public_screen = ''passed'') in
      mret (run_result_of spec ''s16_dataref_ssrf'' [] None
              [(''ssrf_guard'', JObj [(''imds'', JStr imds), (''mixed_answer'', JStr mixed_answer),
                 (''cross_port_redirect'', JStr cross_port_redirect), (''http_scheme'', JStr http_scheme), (''public_screen'', JStr public_screen)])]
              (if ok then None else Some ''S16 SSRF-guard assertions failed'')))))))))))))))))"

lemma ssrf_outcome_ordinary: "ordinary r \<Longrightarrow> ordinary (ssrf_outcome r p q)"
  by (auto simp: ssrf_outcome_def split: sum.splits exn.splits)

lemma ssrf_ordinary:
  assumes "civil_ssrf se"
  shows "ordinary (check_url se url pol)" "ordinary (same_authority se a b)" "ordinary (screen_host se w host pol (Some s16_resolver))"
proof -
  have "ordinary (url_netloc url)" by (auto simp: url_netloc_def Let_def)
  moreover have "ordinary (check_url_sdk se (allow_loopback pol) url)" using assms by (simp add: civil_ssrf_def)
  ultimately show "ordinary (check_url se url pol)" unfolding check_url_def
    by (intro ordinary_rbind) (auto split: sum.splits exn.splits)
  have "ordinary (check_redirect_authority se a b)" using assms by (simp add: civil_ssrf_def)
  then show "ordinary (same_authority se a b)" by (auto simp: same_authority_def split: sum.splits exn.splits)
  have "ordinary (check_ip se (allow_loopback pol) ip)" for ip using assms by (simp add: civil_ssrf_def)
  then have "ordinary (ip_is_forbidden se ip pol)" for ip
    by (cases "check_ip se (allow_loopback pol) ip") (auto simp: ip_is_forbidden_def split: exn.splits, (metis ordinary_simps(2) is_Exception.simps(1,2))+)
  then have "ordinary (screen_addrs se pol as)" for as by (induction as) (auto intro!: ordinary_rbind split: option.splits)
  then show "ordinary (screen_host se w host pol (Some s16_resolver))"
    by (auto simp: screen_host_def s16_resolver_def intro!: ordinary_rbind)
qed

lemma vcg_screen:
  "civil_scen sn \<Longrightarrow> (\<And>r. ordinary r \<Longrightarrow> quietly P (f r)) \<Longrightarrow> quietly P (mbind (mget (s16_screen sn host)) f)"
  by (rule quietly_post[where Q = ordinary]) (auto simp: s16_screen_def civil_scen_def intro!: vcg ssrf_ordinary)

lemma civil_scen_ssrf: "civil_scen sn \<Longrightarrow> civil_ssrf (sn_ssrf sn)"
  by (simp add: civil_scen_def)

interpretation s16: scenario_contract s16_run "''s16_dataref_ssrf''"
  by unfold_locales
     (simp only: s16_run_def Let_def,
      (rule vcg_screen scenario_rules ssrf_outcome_ordinary ssrf_ordinary civil_scen_ssrf | assumption | (simp add: graph_simps)[1])+)

section \<open>S20: the reserved tenant\<close>

definition S20 :: "'w scenario" where
  "S20 = scenario_def ''s20_reserved_tenant'' ''Reserved-tenant rejection''
     (''Asserting the reserved '' @ [CHR 0x27] @ ''default'' @ [CHR 0x27] @ '' tenant (via X-Tenant-Id or a token claim) is refused '' @ em_dash
      @ '' it would alias the untenanted bucket. Registry 400 schema_violation / CP 403 not_authorized; mirrored client-side. Runs fully offline.'')
     ''single'' 0 []"

text \<open>\<^verbatim>\<open>try: ...; outcome = passed except ValueError: outcome = caught\<close>.\<close>

definition value_error_outcome :: "'a result \<Rightarrow> string \<Rightarrow> string \<Rightarrow> string result" where
  "value_error_outcome r passed caught =
     (case r of Inr _ \<Rightarrow> Inr passed | Inl e \<Rightarrow> if is_ValueError e then Inr caught else Inl e)"

definition s20_run :: "'w scenario_act" where
  "s20_run sn spec =
     mbind (mlift (value_error_outcome (reject_reserved_tenant (Some RESERVED_TENANT)) ''NOT-BLOCKED'' ''blocked'')) (\<lambda>guard.
     mbind (note_event sn spec ''reserved sentinel'' guard) (\<lambda>_.
     mbind (mlift (value_error_outcome (reject_reserved_tenant None) ''allowed'' ''WRONGLY-BLOCKED'')) (\<lambda>untenanted.
     mbind (note_event sn spec ''untenanted (no assertion)'' untenanted) (\<lambda>_.
     mbind (mlift (value_error_outcome (reject_reserved_tenant (Some ''tenant-a'')) ''allowed'' ''WRONGLY-BLOCKED'')) (\<lambda>real_tenant.
     mbind (note_event sn spec ''real tenant'' real_tenant) (\<lambda>_.
     mbind (mlift (value_error_outcome (new_client ''http://reg.invalid'' None None None False (Some RESERVED_TENANT) tenant_mode.Fallback True)
                     ''NOT-BLOCKED'' ''blocked'')) (\<lambda>client_ctor.
     mbind (note_event sn spec (''AcdpClient(tenant_id='' @ [CHR 0x27] @ ''default'' @ [CHR 0x27] @ '')'') client_ctor) (\<lambda>_.
     mbind (mlift (value_error_outcome (tenant_header (Some RESERVED_TENANT)) ''NOT-BLOCKED'' ''blocked'')) (\<lambda>cp_bridge.
     mbind (note_event sn spec ''CP bridge X-Tenant-Id'' cp_bridge) (\<lambda>_.
     let ok = (guard = ''blocked'' \<and> untenanted = ''allowed'' \<and> real_tenant = ''allowed'' \<and> client_ctor = ''blocked'' \<and> cp_bridge = ''blocked'') in
     mret (run_result_of spec ''s20_reserved_tenant'' [] None
             [(''reserved_tenant_guard'', JObj [(''guard'', JStr guard), (''untenanted'', JStr untenanted), (''real_tenant'', JStr real_tenant),
                (''client_ctor'', JStr client_ctor), (''cp_bridge'', JStr cp_bridge)]),
              (''server_contract'', JStr ''registry 400 schema_violation / CP 403 not_authorized'')]
             (if ok then None else Some ''S20 reserved-tenant guard assertions failed''))))))))))))"

lemma tenant_guards:
  "reject_reserved_tenant (Some RESERVED_TENANT) = Inl ValueError" "reject_reserved_tenant None = Inr ()"
  "reject_reserved_tenant (Some ''tenant-a'') = Inr ()" "tenant_header (Some RESERVED_TENANT) = Inl ValueError"
  "new_client u b r p h (Some RESERVED_TENANT) m v = Inl ValueError"
  by (simp_all add: reject_reserved_tenant_def is_reserved_tenant_def RESERVED_TENANT_def tenant_header_def new_client_def)

interpretation s20: scenario_contract s20_run "''s20_reserved_tenant''"
  by unfold_locales
     (simp only: s20_run_def Let_def tenant_guards value_error_outcome_def sum.case is_ValueError.simps if_True,
      (rule scenario_rules | assumption | (simp add: graph_simps)[1])+)

section \<open>Properties\<close>

text \<open>
  A key rotation never leaves a gap. At every instant at least one of the two pinned keys is active, both are active
  exactly from the start of the new key's window to the end of the old one's, and S12, which samples three instants, is complete
  whenever it returns, whatever the control plane answers.
\<close>

theorem s12_no_gap:
  "1 \<le> count_at now \<and> count_at now \<le> 2 \<and> (count_at now = 2 \<longleftrightarrow> 1780272000 \<le> now \<and> now < 1780358400)
   \<and> pred_sum (\<lambda>_. True) (\<lambda>r. rr_status r = ''complete'') (snd (s12_run sn spec st))"
proof -
  have c: "count_at t = (if t < 1780358400 then 1 else 0) + (if t < 1780272000 then 0 else 1)" for t
    by (simp add: count_at_def active_keys_def active_at_def OLD_KEY_def NEW_KEY_def)
  have "count_at BEFORE = 1" "count_at OVERLAP = 2" "count_at AFTER = 1" by (simp_all add: c BEFORE_def OVERLAP_def AFTER_def)
  then have "returns (\<lambda>r. rr_status r = ''complete'') (s12_run sn spec)" unfolding s12_run_def Let_def by (intro ret) simp
  then have "pred_sum (\<lambda>_. True) (\<lambda>r. rr_status r = ''complete'') (snd (s12_run sn spec st))"
    by (cases "s12_run sn spec st"; cases "snd (s12_run sn spec st)") (auto dest: returnsD)
  then show ?thesis by (simp add: c)
qed

text \<open>
  The reserved tenant is refused at every door, whatever the environment: S20 always returns, is complete, and leaves one note for
  each of its five checks.
\<close>

theorem s20_always_complete:
  "\<exists>st' r es. s20_run sn spec st = (st', Inr r) \<and> rr_status r = ''complete'' \<and> adds es st st'
     \<and> map se_preview es = map Some [''blocked'', ''allowed'', ''allowed'', ''blocked'', ''blocked'']"
  by (simp add: s20_run_def tenant_guards value_error_outcome_def note_event_def tell_def mbind_def mlift_def mnow_def mget_def mput_def mret_def
        adds_def put_event_def option.map_comp comp_def mk_step_event_def, intro exI conjI, rule refl, simp)

text \<open>
  S16 passes only a guard that works. If the run is complete, the policy refused the metadata address and one of the two
  addresses of the mixed answer, so that neither host was accepted, refused the plain-http location and the redirect to another
  port, and accepted the public address and the explicit default port.
\<close>

theorem s16_complete_means_guarded:
  assumes "s16_run sn spec st = (st', Inr r)" and "rr_status r = ''complete''"
  shows "check_ip (sn_ssrf sn) False ''169.254.169.254'' \<noteq> Inr ()
    \<and> (check_ip (sn_ssrf sn) False ''203.0.113.10'' \<noteq> Inr () \<or> check_ip (sn_ssrf sn) False ''10.0.0.1'' \<noteq> Inr ())
    \<and> check_ip (sn_ssrf sn) False ''203.0.113.50'' = Inr ()
    \<and> check_url (sn_ssrf sn) ''http://data.example.com/file'' production \<noteq> Inr ()
    \<and> check_redirect_authority (sn_ssrf sn) ''https://data.example.com/file'' ''https://data.example.com:8443/file'' \<noteq> Inr ()
    \<and> check_redirect_authority (sn_ssrf sn) ''https://data.example.com/file'' ''https://data.example.com:443/file'' = Inr ()"
proof -
  let ?se = "sn_ssrf sn"
  let ?C = "check_ip ?se False ''169.254.169.254'' \<noteq> Inr ()
    \<and> (check_ip ?se False ''203.0.113.10'' \<noteq> Inr () \<or> check_ip ?se False ''10.0.0.1'' \<noteq> Inr ())
    \<and> check_ip ?se False ''203.0.113.50'' = Inr ()
    \<and> check_url ?se ''http://data.example.com/file'' production \<noteq> Inr ()
    \<and> check_redirect_authority ?se ''https://data.example.com/file'' ''https://data.example.com:8443/file'' \<noteq> Inr ()
    \<and> check_redirect_authority ?se ''https://data.example.com/file'' ''https://data.example.com:443/file'' = Inr ()"
  have screen: "s16_screen sn host s = Inr addrs \<longleftrightarrow> dict_get_default s16_DNS host [''203.0.113.99''] = addrs
      \<and> addrs \<noteq> [] \<and> (\<forall>a \<in> set addrs. check_ip ?se False a = Inr ())" for host s addrs
    by (auto simp: s16_screen_def screen_host_Inr s16_resolver_def production_def)
  have guarded: "?C" if
    "ssrf_outcome (s16_screen sn ''imds.attacker.example'' s1) ''NOT-BLOCKED'' ''blocked:'' = Inr imds" "py_startswith imds ''blocked''"
    "ssrf_outcome (s16_screen sn ''data.attacker.example'' s2) ''NOT-BLOCKED'' ''blocked:'' = Inr mixed" "py_startswith mixed ''blocked''"
    "same_authority ?se ''https://data.example.com/file'' ''https://data.example.com:8443/file'' = Inr False"
    "same_authority ?se ''https://data.example.com/file'' ''https://data.example.com:443/file'' = Inr True"
    "ssrf_outcome (check_url ?se ''http://data.example.com/file'' production) ''NOT-BLOCKED'' ''blocked:'' = Inr scheme" "py_startswith scheme ''blocked''"
    "ssrf_outcome (s16_screen sn ''data.example.com'' s5) ''passed'' ''unexpected-block:'' = Inr ''passed''"
    for s1 s2 s5 imds mixed scheme
  proof -
    have blocked: "x \<noteq> Inr a" if "ssrf_outcome x ''NOT-BLOCKED'' ''blocked:'' = Inr y" "py_startswith y ''blocked''" for x :: "'b result" and y a
      using that by (auto simp: ssrf_outcome_def py_startswith_def)
    have ok: "\<exists>a. x = Inr a" if "ssrf_outcome x ''passed'' ''unexpected-block:'' = Inr ''passed''" for x :: "'b result"
      using that by (auto simp: ssrf_outcome_def split: sum.splits exn.splits)
    show ?thesis
      using blocked[OF that(1,2), of "[''169.254.169.254'']"] blocked[OF that(3,4), of "[''203.0.113.10'', ''10.0.0.1'']"]
        blocked[OF that(7,8), of "()"] ok[OF that(9)] that(5)
        same_authority_True[of ?se "''https://data.example.com/file''" "''https://data.example.com:8443/file''"]
        same_authority_True[of ?se "''https://data.example.com/file''" "''https://data.example.com:443/file''", THEN iffD1, OF that(6)]
      by (auto simp: screen s16_DNS_def dict_get_default_def)
  qed
  have "returns (\<lambda>r. rr_status r = ''complete'' \<longrightarrow> ?C) (s16_run sn spec)"
    unfolding s16_run_def Let_def
  proof (intro ret impI, goal_cases)
    case (1 r1 s1 _ imds _ _ _ _ _ r2 s2 _ mixed _ _ _ _ _ cross _ _ port _ _ _ _ _ scheme _ _ _ _ _ r5 s5 _ public)
    then show ?case by (intro guarded[of s1 imds s2 mixed scheme s5]) (simp_all split: if_splits)
  qed
  from returnsD[OF this assms(1)] assms(2) show ?thesis by blast
qed

definition demo_guard :: "unit ssrf_env" where
  "demo_guard = \<lparr>check_ip = (\<lambda>l a. if a \<in> {''169.254.169.254'', ''10.0.0.1''} then Inl (SsrfRejected ''forbidden_ip'') else Inr ()),
     check_url_sdk = (\<lambda>l u. if py_startswith u ''https:'' then Inr () else Inl (SsrfRejected ''scheme'')),
     check_redirect_authority = (\<lambda>a b. if b = ''https://data.example.com:443/file'' then Inr () else Inl (SsrfRejected ''cross'')),
     getaddrinfo = (\<lambda>w h. Inr []), url_join = (\<lambda>a b. Inr b)\<rparr>"

theorem s16_complete_means_guarded_witness:
  "\<exists>st' r. s16_run ((demo_scen (\<lambda>rq. Inl HTTPError))\<lparr>sn_ssrf := demo_guard\<rparr>) demo_spec demo_rst = (st', Inr r)
     \<and> rr_status r = ''complete'' \<and> check_ip demo_guard False ''169.254.169.254'' \<noteq> Inr ()"
proof -
  let ?sn = "(demo_scen (\<lambda>rq. Inl HTTPError))\<lparr>sn_ssrf := demo_guard\<rparr>"
  have scr: "s16_screen ?sn ''imds.attacker.example'' s = Inl (SsrfError ''forbidden_ip'')"
    "s16_screen ?sn ''data.attacker.example'' s = Inl (SsrfError ''forbidden_ip'')" "s16_screen ?sn ''data.example.com'' s = Inr [''203.0.113.50'']" for s
    by (simp_all add: s16_screen_def screen_host_def s16_resolver_def s16_DNS_def dict_get_default_def demo_guard_def ip_is_forbidden_def)
  have url: "check_url demo_guard ''http://data.example.com/file'' production = Inl (SsrfError ''scheme'')" by code_simp
  have "\<exists>st' r. s16_run ?sn demo_spec demo_rst = (st', Inr r) \<and> rr_status r = ''complete''"
    by (simp add: s16_run_def Let_def mbind_def mget_def mlift_def scr url ssrf_outcome_def note_event_def tell_def mnow_def mput_def mret_def
        same_authority_def, simp add: demo_guard_def py_startswith_def)
  then obtain st' r where run: "s16_run ?sn demo_spec demo_rst = (st', Inr r)" "rr_status r = ''complete''" by blast
  from s16_complete_means_guarded[OF run] run show ?thesis by simp
qed

end
