(* ===== verification/Scenarios_Access.thy ===== *)
theory Scenarios_Access
  imports Scenario_Kit
begin

text \<open>
  The scenarios of the catalogue on access: restricted visibility (S6), tenant isolation (S10) and token revocation (S11).
\<close>

definition authenticated_did_key :: agent_options where
  "authenticated_did_key = agent_defaults\<lparr>op_authenticated := True, op_method := Did_key\<rparr>"

definition authenticated_did_web :: agent_options where
  "authenticated_did_web = agent_defaults\<lparr>op_authenticated := True\<rparr>"

abbreviation exn_str :: "'w scen_env \<Rightarrow> exn \<Rightarrow> string" where
  "exn_str sn e \<equiv> et_str (sn_texts sn) e"

definition outcome_of :: "obj \<Rightarrow> string" where
  "outcome_of report = (case obj_get report ''outcome'' of JStr s \<Rightarrow> s | _ \<Rightarrow> [])"

section \<open>S6: restricted visibility\<close>

definition S6 :: "'w scenario" where
  "S6 = scenario_def ''s6_restricted'' ''Restricted Visibility (V2 auth)''
     ''Producer publishes a restricted context with an explicit audience. Three retrieval attempts demonstrate the model: anonymous denied, outsider denied, audience member allowed.''
     ''single'' 3 [(''topic'', JStr ''internal margin analysis'')]"

definition DENIED_STATUSES :: "int list" where
  "DENIED_STATUSES = [401, 403, 404]"

definition s6_attempt :: "'w scen_env \<Rightarrow> string \<Rightarrow> ('w, full_context) act \<Rightarrow> ('w, obj) act" where
  "s6_attempt sn label coro =
     mtry (mbind coro (\<lambda>ctx. mret [(''label'', JStr label), (''outcome'', JStr ''allowed''), (''title'', JStr (b_title (fc_body ctx)))]))
       (\<lambda>e. case as_http_error e of
          Some h \<Rightarrow> mret [(''label'', JStr label),
                     (''outcome'', JStr (if he_status h \<in> set DENIED_STATUSES then ''denied'' else ''error'')),
                     (''status'', JInt (he_status h)), (''body_preview'', JStr (py_take 200 (he_body h)))]
        | None \<Rightarrow>
            if is_TokenError e then mret [(''label'', JStr label), (''outcome'', JStr ''auth_error''), (''detail'', JStr (exn_str sn e))]
            else if is_Exception e
            then mret [(''label'', JStr label), (''outcome'', JStr ''error''), (''detail'', JStr (et_repr (sn_texts sn) e))]
            else mraise e)"

text \<open>What follows the restricted publish: three attempts at once, and the verdict on them.\<close>

definition s6_check ::
  "'w scen_env \<Rightarrow> run_spec \<Rightarrow> agent \<Rightarrow> agent \<Rightarrow> agent \<Rightarrow> agent_output \<Rightarrow> ('w, run_result) act" where
  "s6_check sn spec owner member outsider out =
     mbind (anonymous_client sn (sp_run_id spec) Registry_A None tenant_mode.Fallback) (\<lambda>anon.
     mbind (mgather sn
       [s6_attempt sn ''anonymous'' (mcall (retrieve (sn_env sn) (sn_client sn) anon (ao_ctx_id out))),
        s6_attempt sn ''outsider'' (mcall (retrieve (sn_env sn) (sn_client sn) (ag_client outsider) (ao_ctx_id out))),
        s6_attempt sn ''audience_member'' (mcall (retrieve (sn_env sn) (sn_client sn) (ag_client member) (ao_ctx_id out)))]) (\<lambda>attempts.
     let a0 = attempts ! 0; a1 = attempts ! 1; a2 = attempts ! 2;
         outcomes = JObj [(''anonymous'', JObj a0), (''outsider'', JObj a1), (''audience_member'', JObj a2)];
         all_correct = (outcome_of a0 = ''denied'' \<and> outcome_of a1 = ''denied'' \<and> outcome_of a2 = ''allowed'') in
     mbind (note_event sn spec ''restricted-visibility outcomes''
              (''anon='' @ outcome_of a0 @ '' outsider='' @ outcome_of a1 @ '' audience='' @ outcome_of a2)) (\<lambda>_.
     mret (run_result_of spec ''s6_restricted'' [ao_ctx_id out]
             (graph [node (ao_ctx_id out) owner (ao_title out) ''analysis'' (registry_a_authority (sn_settings sn)) 1] [])
             [(''audience'', JList [JStr (agent_did (ag_producer member))]),
              (''outsider_did'', JStr (agent_did (ag_producer outsider))), (''outcomes'', outcomes),
              (''all_assertions_passed'', JBool all_correct)]
             (if all_correct then None
              else Some (''S6 expected anonymous=denied, outsider=denied, audience_member=allowed; got '' @ str_json (je sn) outcomes))))))"

definition s6_run :: "'w scenario_act" where
  "s6_run sn spec =
     (let topic = input_text sn spec ''topic'' ''internal margin analysis'' in
      mbind (make_langchain_agent sn spec ''confidant-producer'' authenticated_did_key) (\<lambda>owner.
      mbind (make_langchain_agent sn spec ''confidant-reader'' authenticated_did_key) (\<lambda>member.
      mbind (make_langchain_agent sn spec ''confidant-outsider'' authenticated_did_key) (\<lambda>outsider.
      mbind (mtry
        (mbind (agent_run sn owner ((new_task (''Summarize a confidential 4-point analysis of '' @ topic @ ''.'')
                                      (''Confidential '' @ em_dash @ '' '' @ topic))\<lparr>
            tk_context_type := ''analysis'', tk_visibility := ''restricted'', tk_domain := Some ''finance'',
            tk_tags := [''confidential'', ''restricted''], tk_audience := [agent_did (ag_producer member)],
            tk_metadata := Some [(''sensitivity'', JStr ''internal-only'')]\<rparr>)) (\<lambda>out. mret (Inr out)))
        (\<lambda>e. if is_TokenError e
             then mbind (tell sn spec ''acdp.search'' None ''restricted publish degraded (auth unavailable)'' (py_take 100 (exn_str sn e))) (\<lambda>_.
                  mret (Inl (exn_str sn e)))
             else mraise e)) (\<lambda>published.
      if isl published
      then mret (run_result_of spec ''s6_restricted'' [] (graph [] [])
             [(''degraded'', JBool True), (''audience'', JList [JStr (agent_did (ag_producer member))]),
              (''outsider_did'', JStr (agent_did (ag_producer outsider))),
              (''publish'', JStr (''auth_unavailable: '' @ py_take 120 (projl published)))] None)
      else s6_check sn spec owner member outsider (projr published))))))"

lemma vcg_anonymous: "(\<And>cl. civil_client cl \<Longrightarrow> quietly P (f cl)) \<Longrightarrow> quietly P (mbind (anonymous_client sn rid reg t m) f)"
  unfolding anonymous_client_def by (rule quietly_post[OF quietly_bundle_client]) simp_all

lemma vcg_s6_attempt:
  "quietly (\<lambda>_. True) m \<Longrightarrow> quietly (\<lambda>_. True) (s6_attempt sn label m)"
  unfolding s6_attempt_def by (rule vcg TrueI | assumption | simp)+

lemma quietly_s6_check:
  assumes "civil_scen sn" "civil_agent member" "civil_agent outsider"
  shows "quietly (result_ok spec ''s6_restricted'') (s6_check sn spec owner member outsider out)"
  unfolding s6_check_def Let_def
  by (rule vcg_anonymous, rule vcg_gather)
     (auto simp: graph_simps assms intro!: vcg_mbind vcg_mret vcg_note vcg_s6_attempt vcg_client(2) civil_agentD)

interpretation s6: scenario_contract s6_run "''s6_restricted''"
  by unfold_locales
     (simp only: s6_run_def Let_def, (rule scenario_rules quietly_s6_check | assumption | simp add: graph_simps)+)

section \<open>S10: tenant isolation\<close>

definition S10 :: "'w scenario" where
  "S10 = scenario_def ''s10_tenant_isolation'' ''Tenant Isolation''
     (''Two tenant-bound agents. tenant-b cannot read tenant-a'' @ [CHR 0x27] @ ''s context (404); tenant-a can; a conflicting X-Tenant-Id header is rejected. JWT tenant claim is authoritative.'')
     ''single'' 2 [(''topic'', JStr ''tenant-scoped revenue model'')]"

definition s10_attempt :: "'w scen_env \<Rightarrow> string \<Rightarrow> ('w, full_context) act \<Rightarrow> ('w, obj) act" where
  "s10_attempt sn label coro =
     mtry (mbind coro (\<lambda>ctx. mret [(''label'', JStr label), (''outcome'', JStr ''allowed''), (''title'', JStr (b_title (fc_body ctx)))]))
       (\<lambda>e. case as_http_error e of
          Some h \<Rightarrow> mret [(''label'', JStr label),
                     (''outcome'', JStr (if he_status h \<in> set DENIED_STATUSES then ''denied'' else ''error'')),
                     (''status'', JInt (he_status h))]
        | None \<Rightarrow>
            if is_TokenError e
            then mret [(''label'', JStr label), (''outcome'', JStr ''auth_unavailable''), (''detail'', JStr (py_take 160 (exn_str sn e)))]
            else if is_Exception e
            then mret [(''label'', JStr label), (''outcome'', JStr ''error''), (''detail'', JStr (py_take 160 (et_repr (sn_texts sn) e)))]
            else mraise e)"

text \<open>The publish: the context's id if it succeeded, whether the run is degraded, and the outcome noted.\<close>

definition s10_publish :: "'w scen_env \<Rightarrow> agent \<Rightarrow> string \<Rightarrow> ('w, string option \<times> bool \<times> string) act" where
  "s10_publish sn tenant_a topic =
     mtry (mbind (agent_run sn tenant_a ((new_task (''Summarize a tenant-scoped analysis of '' @ topic @ ''.'')
                                            (''Tenant-A '' @ em_dash @ '' '' @ topic))\<lparr>
              tk_context_type := ''analysis'', tk_visibility := ''public'', tk_domain := Some ''finance'', tk_tags := [''tenant-a'']\<rparr>)) (\<lambda>out.
           mret (Some (ao_ctx_id out), False, ''published'')))
       (\<lambda>e. if is_TokenError e then mret (None, True, ''auth_unavailable: '' @ py_take 120 (exn_str sn e))
            else case as_http_error e of
              Some h \<Rightarrow> mret (None, False, ''http_'' @ str_int (he_status h))
            | None \<Rightarrow> mraise e)"

text \<open>The three reads: cross-tenant, own, and own with a conflicting tenant header.\<close>

definition s10_reads :: "'w scen_env \<Rightarrow> agent \<Rightarrow> agent \<Rightarrow> client \<Rightarrow> string option \<Rightarrow> ('w, obj list) act" where
  "s10_reads sn tenant_a tenant_b conflict ctx_id =
     (case nonempty_str ctx_id of
        None \<Rightarrow> mret []
      | Some c \<Rightarrow> mgather sn
          [s10_attempt sn ''tenant_b_cross_read'' (mcall (retrieve (sn_env sn) (sn_client sn) (ag_client tenant_b) c)),
           s10_attempt sn ''tenant_a_own_read'' (mcall (retrieve (sn_env sn) (sn_client sn) (ag_client tenant_a) c)),
           s10_attempt sn ''conflict_header'' (mcall (retrieve (sn_env sn) (sn_client sn) conflict c))])"

record s10_verdict =
  v_cross :: "bool option"
  v_own :: "bool option"
  v_conflict :: "bool option"
  v_degraded :: bool

definition s10_judge :: "bool \<Rightarrow> obj list \<Rightarrow> s10_verdict" where
  "s10_judge degraded results =
     (case results of
        [b, a, c] \<Rightarrow> \<lparr>v_cross = Some (outcome_of b = ''denied''), v_own = Some (outcome_of a = ''allowed''),
                      v_conflict = Some (outcome_of c \<in> {''denied'', ''error''}),
                      v_degraded = (degraded \<or> (\<exists>r \<in> set results. outcome_of r = ''auth_unavailable''))\<rparr>
      | _ \<Rightarrow> \<lparr>v_cross = None, v_own = None, v_conflict = None, v_degraded = degraded\<rparr>)"

definition s10_passed :: "s10_verdict \<Rightarrow> bool" where
  "s10_passed v \<longleftrightarrow> (v_cross v = Some True \<and> v_own v = Some True \<and> v_conflict v = Some True) \<or> v_degraded v"

definition s10_run :: "'w scenario_act" where
  "s10_run sn spec =
     (let topic = input_text sn spec ''topic'' ''tenant-scoped revenue model'' in
      mbind (make_langchain_agent sn spec ''tenant-a-agent'' authenticated_did_web) (\<lambda>tenant_a.
      mbind (make_langchain_agent sn spec ''tenant-b-agent'' authenticated_did_web) (\<lambda>tenant_b.
      mbind (bundle_client sn (sp_run_id spec) Registry_A (Some (ag_producer tenant_a)) (Some ''tenant-b'') Always) (\<lambda>conflict.
      mbind (s10_publish sn tenant_a topic) (\<lambda>(ctx_id, degraded, publish_outcome).
      mbind (s10_reads sn tenant_a tenant_b conflict ctx_id) (\<lambda>results.
      let v = s10_judge degraded results;
          outcomes = dict_update [(''publish'', JStr publish_outcome)]
            (map (\<lambda>r. (str_json (je sn) (obj_get r ''label''), JObj r)) results);
          contexts = (case nonempty_str ctx_id of Some c \<Rightarrow> [c] | None \<Rightarrow> []) in
      mbind (note_event sn spec ''tenant isolation outcomes''
               (''cross_denied='' @ py_opt_bool (v_cross v) @ '' own_allowed='' @ py_opt_bool (v_own v)
                @ '' conflict_rejected='' @ py_opt_bool (v_conflict v) @ '' degraded='' @ py_bool (v_degraded v))) (\<lambda>_.
      mret (run_result_of spec ''s10_tenant_isolation'' contexts
              (graph (map (\<lambda>c. node c tenant_a (''Tenant-A '' @ em_dash @ '' '' @ topic) ''analysis'' (registry_a_authority (sn_settings sn)) 1) contexts) [])
              [(''tenant_a_did'', JStr (agent_did (ag_producer tenant_a))), (''tenant_b_did'', JStr (agent_did (ag_producer tenant_b))),
               (''degraded'', JBool (v_degraded v)),
               (''assertions'', JObj [(''cross_tenant_denied'', opt_bool (v_cross v)), (''own_tenant_allowed'', opt_bool (v_own v)),
                                      (''conflict_header_rejected'', opt_bool (v_conflict v))]),
               (''outcomes'', JObj outcomes)]
              (if s10_passed v then None
               else Some (''S10 tenant isolation assertions failed: '' @ str_json (je sn) (JObj outcomes)))))))))))"

lemma vcg_bundle_client:
  "(\<And>q. p = Some q \<Longrightarrow> civil_producer q) \<Longrightarrow> (\<And>cl. civil_client cl \<Longrightarrow> quietly P (f cl)) \<Longrightarrow>
     quietly P (mbind (bundle_client sn rid reg p t m) f)"
  by (rule quietly_post[OF quietly_bundle_client])

lemma vcg_s10_attempt: "quietly (\<lambda>_. True) m \<Longrightarrow> quietly (\<lambda>_. True) (s10_attempt sn label m)"
  unfolding s10_attempt_def by (rule vcg TrueI | assumption | simp)+

lemma quietly_s10_publish: "civil_scen sn \<Longrightarrow> civil_agent ag \<Longrightarrow> quietly (\<lambda>_. True) (s10_publish sn ag topic)"
  unfolding s10_publish_def by (rule scenario_rules | assumption | simp)+

lemma quietly_s10_reads:
  assumes "civil_scen sn" "civil_agent a" "civil_agent b" "civil_client c"
  shows "quietly (\<lambda>_. True) (s10_reads sn a b c ctx_id)"
  unfolding s10_reads_def
  by (rule vcg(10) vcg TrueI quietly_conseq[OF vcg_mgather])+
     (auto intro!: vcg_s10_attempt vcg_client(2) assms civil_agentD simp: assms)

interpretation s10: scenario_contract s10_run "''s10_tenant_isolation''"
  by unfold_locales
     (simp only: s10_run_def Let_def,
      (rule vcg_bundle_client quietly_s10_publish quietly_s10_reads scenario_rules | assumption
        | (simp add: graph_simps split: option.split)[1] | (auto dest: civil_agentD)[1])+)

section \<open>S11: token revocation\<close>

definition S11 :: "'w scenario" where
  "S11 = scenario_def ''s11_revocation'' ''Token Revocation''
     ''Mint a token, use it, revoke it (RFC 7009), then confirm it no longer works and (with a control plane) introspects as inactive.''
     ''single'' 1 [(''topic'', JStr ''revocable session'')]"

text \<open>\<^verbatim>\<open>bundle.token_manager\<close>.\<close>

definition need_token_manager :: "('w, unit) act" where
  "need_token_manager st = (ensure_token_manager st, Inr ())"

definition mtoken_for :: "'w scen_env \<Rightarrow> producer \<Rightarrow> string \<Rightarrow> ('w, cached_token) act" where
  "mtoken_for sn p base = mcall (\<lambda>io tm. token_for (sn_env sn) (je sn) io tm p base)"

definition mrevoke :: "'w scen_env \<Rightarrow> producer \<Rightarrow> string \<Rightarrow> ('w, bool) act" where
  "mrevoke sn p base = mcall (\<lambda>io tm. revoke (sn_env sn) (je sn) io tm p base)"

definition s11_degrade :: "'w scen_env \<Rightarrow> string \<Rightarrow> obj \<Rightarrow> exn \<Rightarrow> ('w, obj \<times> bool) act" where
  "s11_degrade sn key summary e =
     (if is_TokenError e then mret (AList.update key (JStr (''auth_unavailable: '' @ py_take 120 (exn_str sn e))) summary, True)
      else mraise e)"

text \<open>Mint and use. What the summary holds when an exception cuts the block short is kept.\<close>

definition s11_mint :: "'w scen_env \<Rightarrow> run_spec \<Rightarrow> agent \<Rightarrow> string \<Rightarrow> string \<Rightarrow> obj \<Rightarrow> ('w, obj \<times> bool) act" where
  "s11_mint sn spec ag base topic summary =
     mtry (mbind (mtoken_for sn (ag_producer ag) base) (\<lambda>cached.
        let summary1 = dict_update summary [(''minted_jti'', str_or_none (ct_jti cached)), (''tenant_claim'', str_or_none (ct_tenant cached))] in
        mtry (mbind (agent_run sn ag ((new_task (''Publish a short note on '' @ topic @ ''.'') (topic @ '' '' @ em_dash @ '' pre-revoke''))\<lparr>
                 tk_context_type := ''data_snapshot'', tk_visibility := ''public''\<rparr>)) (\<lambda>_.
              mbind (tell sn spec ''auth.token'' (Some (agent_did (ag_producer ag))) ''token minted + used'' (''jti='' @ py_opt_str (ct_jti cached))) (\<lambda>_.
              mret (summary1, False))))
          (s11_degrade sn ''mint'' summary1)))
       (s11_degrade sn ''mint'' summary)"

definition s11_revoke :: "'w scen_env \<Rightarrow> run_spec \<Rightarrow> agent \<Rightarrow> string \<Rightarrow> obj \<Rightarrow> ('w, bool \<times> obj \<times> bool) act" where
  "s11_revoke sn spec ag base summary =
     mtry (mbind (mrevoke sn (ag_producer ag) base) (\<lambda>revoked.
           mbind (tell sn spec ''auth.revoke'' (Some (agent_did (ag_producer ag))) ''token revoked'' (''revoked='' @ py_bool revoked)) (\<lambda>_.
           mret (revoked, AList.update ''revoked'' (JBool revoked) summary, False))))
       (\<lambda>e. mbind (s11_degrade sn ''revoke'' summary e) (\<lambda>(s, d). mret (False, s, d)))"

definition s11_run :: "'w scenario_act" where
  "s11_run sn spec =
     (let topic = input_text sn spec ''topic'' ''revocable session''; s = sn_settings sn; base = registry_a_url s in
      mbind (make_langchain_agent sn spec ''revocable'' authenticated_did_key) (\<lambda>ag.
      mbind need_token_manager (\<lambda>_.
      mbind (s11_mint sn spec ag base topic [(''degraded'', JBool False)]) (\<lambda>(summary1, degraded1).
      mbind (if degraded1 then mret (False, summary1, True) else s11_revoke sn spec ag base summary1) (\<lambda>(revoked, summary2, degraded).
      let summary3 = (if control_plane_enabled s \<and> control_plane_admin_token s \<noteq> [] \<and> truthy (obj_get summary2 ''minted_jti'')
                      then AList.update ''cp_introspect'' (JStr ''attempted'') summary2 else summary2);
          summary4 = AList.update ''degraded'' (JBool degraded) summary3 in
      mret (run_result_of spec ''s11_revocation'' [] None summary4
              (if revoked \<or> degraded then None else Some ''S11 revoke did not succeed with auth available'')))))))"

lemma vcg_need_token_manager: "quietly (\<lambda>_. True) need_token_manager"
  by (auto simp: quietly_def quiet_act_def need_token_manager_def ensure_token_manager_def civil_state_def intro!: adds_quietly_same)

lemma vcg_tokens:
  assumes "civil_scen sn" "civil_producer p"
  shows "quietly (\<lambda>_. True) (mtoken_for sn p base)" "quietly (\<lambda>_. True) (mrevoke sn p base)"
  using token_for_ordinary[OF civil_scen_env[OF assms(1)] assms(2)] revoke_ordinary[OF civil_scen_env[OF assms(1)] assms(2)]
  by (auto simp: mtoken_for_def mrevoke_def safe_call_def intro!: vcg_mcall)

lemma vcg_s11_degrade: "is_Exception e \<Longrightarrow> quietly (\<lambda>_. True) (s11_degrade sn key s e)"
  unfolding s11_degrade_def by (rule vcg TrueI | assumption)+

lemma quietly_s11_steps:
  assumes "civil_scen sn" "civil_agent ag"
  shows "quietly (\<lambda>_. True) (s11_mint sn spec ag base topic s)" "quietly (\<lambda>_. True) (s11_revoke sn spec ag base s)"
  unfolding s11_mint_def s11_revoke_def
  by (rule scenario_rules vcg_tokens vcg_s11_degrade assms | assumption | simp)+

interpretation s11: scenario_contract s11_run "''s11_revocation''"
  by unfold_locales
     (simp only: s11_run_def Let_def, (rule scenario_rules vcg_need_token_manager quietly_s11_steps | assumption | (simp add: graph_simps)[1])+)

section \<open>Verdicts\<close>

definition report_faithful :: "('w, full_context) act \<Rightarrow> 'w rst \<Rightarrow> 'w rst \<Rightarrow> obj \<Rightarrow> bool" where
  "report_faithful m s s' rep \<longleftrightarrow>
     (outcome_of rep = ''denied'' \<longleftrightarrow> (\<exists>h. m s = (s', Inl (AcdpHTTPError h)) \<and> he_status h \<in> {401, 403, 404}))
   \<and> (outcome_of rep = ''allowed'' \<longleftrightarrow> (\<exists>ctx. m s = (s', Inr ctx)))"

lemma attempt_faithful:
  "s6_attempt sn label m s = (s', Inr rep) \<Longrightarrow> report_faithful m s s' rep"
  "s10_attempt sn label m s = (s', Inr rep) \<Longrightarrow> report_faithful m s s' rep"
  unfolding s6_attempt_def s10_attempt_def report_faithful_def
  by (auto elim!: mtry_cases mbind_cases simp: outcome_of_def obj_get_def dict_get_default_def mbind_Inr DENIED_STATUSES_def
      split: if_splits option.splits)

lemma attempt_sure:
  "quietly (\<lambda>_. True) m \<Longrightarrow> sure (s6_attempt sn label m)"
  "quietly (\<lambda>_. True) m \<Longrightarrow> sure (s10_attempt sn label m)"
proof -
  assume m: "quietly (\<lambda>_. True) m"
  have "\<not> isl r" if "civil_state s" "s6_attempt sn label m s = (s', r) \<or> s10_attempt sn label m s = (s', r)" for s s' r
  proof -
    obtain s1 x where x: "m s = (s1, x)" by (cases "m s")
    have "ordinary x" using quiet_actD(4)[OF quietlyD(1)[OF m] that(1) x] .
    then show ?thesis using that(2) x
      by (auto simp: s6_attempt_def s10_attempt_def mtry_def mbind_def mret_def split: sum.splits option.splits if_splits)
  qed
  then show "sure (s6_attempt sn label m)" "sure (s10_attempt sn label m)"
    using quietlyD(1)[OF vcg_s6_attempt[OF m]] quietlyD(1)[OF vcg_s10_attempt[OF m]] quiet_actD(3) unfolding sure_def by blast+
qed

lemma anonymous_client_sure: "\<exists>st' cl. anonymous_client sn rid reg None mode st = (st', Inr cl)"
  by (cases "anonymous_client sn rid reg None mode st") (auto simp: anonymous_client_def elim: bundle_client_cases)

lemma gathered_reports:
  assumes "mgather sn [s6_attempt sn l0 m0, s6_attempt sn l1 m1, s6_attempt sn l2 m2] st = (st', Inr reps)"
  shows "(\<exists>s s'. report_faithful m0 s s' (reps ! 0)) \<and> (\<exists>s s'. report_faithful m1 s s' (reps ! 1)) \<and> (\<exists>s s'. report_faithful m2 s s' (reps ! 2))"
  using mgather_results[OF assms, of 0] mgather_results[OF assms, of 1] mgather_results[OF assms, of 2]
  by (simp add: numeral_2_eq_2) (meson attempt_faithful(1))

text \<open>
  C32. The access check of S6 always comes to a verdict, and the verdict is what was observed. In a civil environment it
  returns a result whatever the registry answers: each of the three reports in its summary tells truly whether that client's retrieval (the anonymous client is the bundle's) was refused
  with 401, 403 or 404 or was served, and the run is complete exactly when the anonymous and the outsider's
  retrieval were refused and the audience member's was served.
\<close>

theorem s6_verdict:
  assumes "civil_scen sn" "civil_agent member" "civil_agent outsider" "civil_state st"
  shows "\<exists>st0 st' r anon reps. s6_check sn spec owner member outsider out st = (st', Inr r) \<and> rr_contexts r = [ao_ctx_id out]
    \<and> anonymous_client sn (sp_run_id spec) Registry_A None tenant_mode.Fallback st = (st0, Inr anon)
    \<and> map_of (rr_summary r) ''outcomes'' = Some (JObj [(''anonymous'', JObj (reps ! 0)), (''outsider'', JObj (reps ! 1)),
          (''audience_member'', JObj (reps ! 2))])
    \<and> (\<exists>s s'. report_faithful (mcall (retrieve (sn_env sn) (sn_client sn) anon (ao_ctx_id out))) s s' (reps ! 0))
    \<and> (\<exists>s s'. report_faithful (mcall (retrieve (sn_env sn) (sn_client sn) (ag_client outsider) (ao_ctx_id out))) s s' (reps ! 1))
    \<and> (\<exists>s s'. report_faithful (mcall (retrieve (sn_env sn) (sn_client sn) (ag_client member) (ao_ctx_id out))) s s' (reps ! 2))
    \<and> (rr_status r = ''complete'' \<longleftrightarrow>
         outcome_of (reps ! 0) = ''denied'' \<and> outcome_of (reps ! 1) = ''denied'' \<and> outcome_of (reps ! 2) = ''allowed'')"
proof -
  let ?get = "\<lambda>cl. mcall (retrieve (sn_env sn) (sn_client sn) cl (ao_ctx_id out))"
  obtain st1 anon where a: "anonymous_client sn (sp_run_id spec) Registry_A None tenant_mode.Fallback st = (st1, Inr anon)"
    using anonymous_client_sure by blast
  have q: "quietly civil_client (anonymous_client sn (sp_run_id spec) Registry_A None tenant_mode.Fallback)"
    unfolding anonymous_client_def by (rule quietly_bundle_client) simp
  have civil: "civil_client anon" "civil_state st1" using quietlyD(2)[OF q assms(4) a] quiet_actD(3)[OF quietlyD(1)[OF q] assms(4) a] .
  let ?ms = "[s6_attempt sn ''anonymous'' (?get anon), s6_attempt sn ''outsider'' (?get (ag_client outsider)),
      s6_attempt sn ''audience_member'' (?get (ag_client member))]"
  have "sure m" if "m \<in> set ?ms" for m
    using that civil(1) civil_agentD(1) assms(2,3) by (auto intro!: attempt_sure vcg_client(2)[OF assms(1)])
  then obtain st2 reps where g: "mgather sn ?ms st1 = (st2, Inr reps)" using mgather_sure civil(2) by blast
  have "\<exists>st' r. s6_check sn spec owner member outsider out st = (st', Inr r) \<and> rr_contexts r = [ao_ctx_id out]
    \<and> map_of (rr_summary r) ''outcomes'' = Some (JObj [(''anonymous'', JObj (reps ! 0)), (''outsider'', JObj (reps ! 1)),
          (''audience_member'', JObj (reps ! 2))])
    \<and> (rr_status r = ''complete'' \<longleftrightarrow>
         outcome_of (reps ! 0) = ''denied'' \<and> outcome_of (reps ! 1) = ''denied'' \<and> outcome_of (reps ! 2) = ''allowed'')"
    by (simp add: s6_check_def mbind_def a g Let_def note_event_def tell_def mnow_def mget_def mput_def mret_def)
  with a gathered_reports[OF g] show ?thesis by blast
qed

theorem s6_verdict_witness:
  "\<exists>st' r. s6_check (demo_scen (\<lambda>rq. Inl HTTPError)) demo_spec demo_agent demo_agent demo_agent
      \<lparr>ao_ctx_id = ''acdp://a/1'', ao_lineage_id = ''lin:1'', ao_version = 1, ao_title = ''t'', ao_llm_response = [], ao_content_hash = []\<rparr>
      demo_rst = (st', Inr r) \<and> rr_contexts r = [''acdp://a/1''] \<and> rr_status r = ''failed''"
proof -
  let ?sn = "demo_scen (\<lambda>rq. Inl HTTPError)"
  let ?out = "\<lparr>ao_ctx_id = ''acdp://a/1'', ao_lineage_id = ''lin:1'', ao_version = 1, ao_title = ''t'', ao_llm_response = [], ao_content_hash = []\<rparr>"
  have sn: "civil_scen ?sn" by (rule civil_demo_scen) simp
  obtain st0 st' r anon reps where r: "s6_check ?sn demo_spec demo_agent demo_agent demo_agent ?out demo_rst = (st', Inr r)"
      "rr_contexts r = [''acdp://a/1'']"
    and m: "\<exists>s s'. report_faithful (mcall (retrieve (sn_env ?sn) (sn_client ?sn) (ag_client demo_agent) ''acdp://a/1'')) s s' (reps ! 2)"
    and v: "rr_status r = ''complete'' \<longleftrightarrow>
         outcome_of (reps ! 0) = ''denied'' \<and> outcome_of (reps ! 1) = ''denied'' \<and> outcome_of (reps ! 2) = ''allowed''"
    using s6_verdict[OF sn civil_demo_agent civil_demo_agent civil_demo_rst, of demo_spec demo_agent ?out]
    unfolding agent_output.select_convs by blast
  have "retrieve (sn_env ?sn) (sn_client ?sn) (ag_client demo_agent) ''acdp://a/1'' io tm \<noteq> (io', tm', Inr ctx)" for io tm io' tm' ctx
    by (auto simp: demo_scen_def demo_agent_def retrieve_def get_full_context_def fetch_json_def retrying_def abind_Inr Let_def http_call_Inr)
  then have "mcall (retrieve (sn_env ?sn) (sn_client ?sn) (ag_client demo_agent) ''acdp://a/1'') s \<noteq> (s', Inr ctx)" for s s' ctx
    by (cases "retrieve (sn_env ?sn) (sn_client ?sn) (ag_client demo_agent) ''acdp://a/1'' (r_io s) (r_tm s)") (auto simp: mcall_def)
  then have "outcome_of (reps ! 2) \<noteq> ''allowed''" using m by (auto simp: report_faithful_def)
  with v have "rr_status r \<noteq> ''complete''" by simp
  moreover have "rr_status r \<in> {''complete'', ''failed''}"
    using quietlyD(2)[OF quietly_s6_check[OF sn civil_demo_agent civil_demo_agent] civil_demo_rst r(1)] by (simp add: result_ok_def)
  ultimately show ?thesis using r by blast
qed

end
