(* ===== verification/Scenarios_Versions.thy ===== *)
theory Scenarios_Versions
  imports Scenarios_Lineage
begin

text \<open>
  The scenarios of the catalogue on versions of a context: supersession (S7), supersession with a lineage guard (S15), who may
  supersede (S17) and idempotent publishing (S18).
\<close>

abbreviation publish_with :: "'w scen_env \<Rightarrow> agent \<Rightarrow> string \<Rightarrow> string option \<Rightarrow> ('w, publish_response) act" where
  "publish_with sn ag req key \<equiv> mcall (publish_context (sn_env sn) (sn_client sn) (ag_client ag) req key)"

abbreviation retrieve_raw_with :: "'w scen_env \<Rightarrow> agent \<Rightarrow> string \<Rightarrow> ('w, json) act" where
  "retrieve_raw_with sn ag c \<equiv> mcall (retrieve_raw (sn_env sn) (sn_client sn) (ag_client ag) c None)"

section \<open>S7: supersession\<close>

definition S7 :: "'w scenario" where
  "S7 = scenario_def ''s7_supersession'' (''Supersession (v1 '' @ arrow @ '' v2)'')
     ''One agent publishes v1, then publishes a revised v2 that supersedes v1 (same lineage, new version). Lineage query returns both; current returns v2.''
     ''single'' 1 [(''topic'', JStr ''Q3 product roadmap'')]"

text \<open>\<^verbatim>\<open>body.get(key, default)\<close> of a decoded value.\<close>

definition json_get_attr :: "json \<Rightarrow> string \<Rightarrow> json \<Rightarrow> json result" where
  "json_get_attr j k d = (case as_obj j of Some kvs \<Rightarrow> Inr (dict_get_default kvs k d) | None \<Rightarrow> Inl AttributeError)"

definition s7_run :: "'w scenario_act" where
  "s7_run sn spec =
     (let topic = input_text sn spec ''topic'' ''Q3 product roadmap''; auth = registry_a_authority (sn_settings sn) in
      mbind (make_langchain_agent sn spec ''curator'' did_key_opts) (\<lambda>ag.
      mbind (agent_run sn ag ((new_task (''Draft a 3-bullet v1 of the '' @ topic @ ''.'') (topic @ '' '' @ em_dash @ '' v1''))\<lparr>
               tk_context_type := ''data_snapshot'', tk_tags := [''draft'', ''v1''],
               tk_metadata := Some [(''version_label'', JStr ''v1'')]\<rparr>)) (\<lambda>v1.
      mbind (retrieve_raw_with sn ag (ao_ctx_id v1)) (\<lambda>v1_full.
      mbind (mlift (json_index v1_full ''body'')) (\<lambda>v1_body.
      mbind (mlift (json_get_attr v1_body ''summary'' (JStr []))) (\<lambda>summary.
      let prompt = ''Revise this v1 draft into a sharper v2 with one extra bullet:'' @ [newline, newline] @ str_json (je sn) summary in
      mbind (emit sn ag ''llm.thinking'' (\<lambda>e. e\<lparr>se_preview := Some (py_take 100 prompt)\<rparr>)) (\<lambda>_.
      mbind (call_llm sn ag prompt) (\<lambda>llm_result.
      mbind (agent_supersede sn ag (dumps sn v1_body)
               ((new_task prompt (topic @ '' '' @ em_dash @ '' v2''))\<lparr>
                  tk_context_type := ''data_snapshot'', tk_tags := [''draft'', ''v2''],
                  tk_metadata := Some [(''version_label'', JStr ''v2'')]\<rparr>) llm_result None) (\<lambda>v2.
      mbind (mcall (lineage (sn_env sn) (sn_client sn) (ag_client ag) (ao_lineage_id v1))) (\<lambda>lin.
      mbind (mcall (current (sn_env sn) (sn_client sn) (ag_client ag) (ao_lineage_id v1))) (\<lambda>cur.
      let same_lineage = (ao_lineage_id v2 = ao_lineage_id v1);
          current_ctx_id = b_ctx_id (fc_body cur);
          ok = (same_lineage \<and> length lin = 2 \<and> current_ctx_id = ao_ctx_id v2) in
      mret (run_result_of spec ''s7_supersession'' [ao_ctx_id v1, ao_ctx_id v2]
              (graph [node (ao_ctx_id v1) ag (ao_title v1) ''data_snapshot'' auth 1,
                      node (ao_ctx_id v2) ag (ao_title v2) ''data_snapshot'' auth 2] [(ao_ctx_id v1, ao_ctx_id v2)])
              [(''same_lineage'', JBool same_lineage), (''lineage_length'', JInt (int (length lin))), (''current_ctx_id'', JStr current_ctx_id)]
              (if ok then None else Some ''S7 supersession assertions failed'')))))))))))))"

lemma json_get_attr_ordinary: "ordinary (json_get_attr j k d)"
  by (simp add: json_get_attr_def split: option.splits)

lemmas version_rules = scenario_rules json_get_attr_ordinary json_index_ordinary

interpretation s7: scenario_contract s7_run "''s7_supersession''"
  by unfold_locales
     (simp only: s7_run_def Let_def, (rule version_rules | assumption | (simp add: graph_simps)[1])+)

section \<open>S15: the expected lineage\<close>

definition S15 :: "'w scenario" where
  "S15 = scenario_def ''s15_supersession_lineage'' ''Supersession w/ expected_lineage_id''
     ''v1 then v2 via build_supersede_request with an expected_lineage_id concurrency guard. Lineage returns both; current returns v2. Exercises the SDK supersede path.''
     ''single'' 1 [(''topic'', JStr ''incident postmortem'')]"

text \<open>The two queries: what the first gave is kept when the second fails.\<close>

definition s15_queries :: "'w scen_env \<Rightarrow> agent \<Rightarrow> string \<Rightarrow> ('w, int \<times> string option) act" where
  "s15_queries sn ag lin =
     mtry (mbind (mcall (lineage (sn_env sn) (sn_client sn) (ag_client ag) lin)) (\<lambda>l.
           mtry (mbind (mcall (current (sn_env sn) (sn_client sn) (ag_client ag) lin)) (\<lambda>cur.
                 mret (int (length l), Some (b_ctx_id (fc_body cur)))))
             (\<lambda>e. if is_Exception e then mret (int (length l), None) else mraise e)))
       (\<lambda>e. if is_Exception e then mret (-1, None) else mraise e)"

definition s15_run :: "'w scenario_act" where
  "s15_run sn spec =
     (let topic = input_text sn spec ''topic'' ''incident postmortem''; authority = registry_a_authority (sn_settings sn);
          title1 = topic @ '' '' @ em_dash @ '' v1''; title2 = topic @ '' '' @ em_dash @ '' v2'' in
      mbind (make_langchain_agent sn spec ''versioner'' did_key_opts) (\<lambda>ag.
      mbind (mlift (expect_rejection (et_str (sn_texts sn)) SDK_REJECTIONS (build_publish_request (ag_producer ag)
               [(''title'', JStr ''probe''), (''context_type'', JStr ''data_snapshot''),
                (''expected_lineage_id'', JStr (''lin:sha256:'' @ replicate 64 CHR ''0''))]))) (\<lambda>(v1_guard_rejected, _).
      mbind (mlift (build_publish_request (ag_producer ag)
               [(''title'', JStr title1), (''context_type'', JStr ''data_snapshot''), (''visibility'', JStr ''public''),
                (''summary'', JStr ''Initial writeup of the incident.''), (''tags'', JList [JStr ''postmortem'', JStr ''v1'']),
                (''metadata'', JStr (dumps sn (JObj [(''version_label'', JStr ''v1''), (''run_id'', JStr (sp_run_id spec))])))])) (\<lambda>v1_raw.
      mbind (publish_with sn ag v1_raw None) (\<lambda>v1.
      mbind (emit sn ag ''acdp.publish'' (\<lambda>e. e\<lparr>se_ctx_id := Some (pr_ctx_id v1), se_title := Some title1\<rparr>)) (\<lambda>_.
      mbind (retrieve_raw_with sn ag (pr_ctx_id v1)) (\<lambda>v1_full.
      mbind (mlift (json_index v1_full ''body'')) (\<lambda>v1_body.
      mbind (agent_supersede sn ag (dumps sn v1_body)
               ((new_task [] title2)\<lparr>tk_context_type := ''data_snapshot'', tk_tags := [''postmortem'', ''v2''],
                  tk_metadata := Some [(''version_label'', JStr ''v2'')]\<rparr>)
               ''Revised writeup with root-cause and remediation.'' (Some (pr_lineage_id v1))) (\<lambda>v2.
      let same_lineage = (ao_lineage_id v2 = pr_lineage_id v1) in
      mbind (s15_queries sn ag (pr_lineage_id v1)) (\<lambda>(lineage_len, current_ctx).
      let ok = (v1_guard_rejected \<and> same_lineage \<and> 2 \<le> ao_version v2) in
      mbind (note_event sn spec ''supersession outcome'' (''v1_guard_rejected='' @ py_bool v1_guard_rejected
               @ '' same_lineage='' @ py_bool same_lineage @ '' v2_version='' @ str_int (ao_version v2))) (\<lambda>_.
      mret (run_result_of spec ''s15_supersession_lineage'' [pr_ctx_id v1, ao_ctx_id v2]
              (graph [node (pr_ctx_id v1) ag title1 ''data_snapshot'' authority 1, node (ao_ctx_id v2) ag title2 ''data_snapshot'' authority 2]
                     [(pr_ctx_id v1, ao_ctx_id v2)])
              [(''v1_guard_rejected'', JBool v1_guard_rejected), (''same_lineage'', JBool same_lineage),
               (''v2_version'', JInt (ao_version v2)), (''lineage_length'', JInt lineage_len), (''current_ctx_id'', str_or_none current_ctx)]
              (if ok then None else Some ''S15 supersession assertions failed'')))))))))))))"

lemma quietly_s15_queries: "civil_scen sn \<Longrightarrow> civil_agent ag \<Longrightarrow> quietly (\<lambda>_. True) (s15_queries sn ag l)"
  unfolding s15_queries_def by (rule scenario_rules | assumption)+

interpretation s15: scenario_contract s15_run "''s15_supersession_lineage''"
  by unfold_locales
     (simp only: s15_run_def Let_def,
      (rule version_rules guarded_ordinary quietly_s15_queries | assumption | (simp add: graph_simps)[1])+)

section \<open>S17: who may supersede\<close>

definition S17 :: "'w scenario" where
  "S17 = scenario_def ''s17_supersession_authz'' ''Supersession authorization''
     (''A non-owner agent'' @ [CHR 0x27] @ ''s attempt to supersede another producer'' @ [CHR 0x27]
      @ ''s context is rejected with superseded_target/not_found (lineage-takeover prevention; registry 34aee21). Degrades gracefully without the registry.'')
     ''single'' 2 [(''topic'', JStr ''quarterly forecast'')]"

text \<open>The owner's publish; None when it failed and the run degrades.\<close>

definition s17_owner :: "'w scen_env \<Rightarrow> run_spec \<Rightarrow> agent \<Rightarrow> string \<Rightarrow> ('w, (publish_response \<times> json) option) act" where
  "s17_owner sn spec owner title =
     mtry (mbind (mlift (build_publish_request (ag_producer owner)
              [(''title'', JStr title), (''context_type'', JStr ''data_snapshot''), (''visibility'', JStr ''public''),
               (''summary'', JStr (''Owner'' @ [CHR 0x27] @ ''s initial version.'')),
               (''metadata'', JStr (dumps sn (JObj [(''run_id'', JStr (sp_run_id spec)), (''role'', JStr ''owner'')])))])) (\<lambda>v1_raw.
           mbind (publish_with sn owner v1_raw None) (\<lambda>v1.
           mbind (emit sn owner ''acdp.publish'' (\<lambda>e. e\<lparr>se_ctx_id := Some (pr_ctx_id v1), se_title := Some title\<rparr>)) (\<lambda>_.
           mbind (retrieve_raw_with sn owner (pr_ctx_id v1)) (\<lambda>v1_full.
           mret (Some (v1, v1_full)))))))
       (\<lambda>e. if is_Exception e
            then mbind (note_event sn spec ''degraded'' (''registry unavailable: '' @ et_name (sn_texts sn) e)) (\<lambda>_. mret None)
            else mraise e)"

text \<open>The attacker's publish: whether it was blocked and why; None for a transport failure.\<close>

definition s17_attack :: "'w scen_env \<Rightarrow> run_spec \<Rightarrow> agent \<Rightarrow> string option \<times> exn option \<Rightarrow> ('w, (bool \<times> string option) option) act" where
  "s17_attack sn spec attacker built =
     (case snd built of
        Some rejection \<Rightarrow> mret (Some (True, Some (''client:'' @ et_name (sn_texts sn) rejection)))
      | None \<Rightarrow>
          mtry (mbind (publish_with sn attacker (the (fst built)) None) (\<lambda>_. mret (Some (False, None))))
            (\<lambda>e. case as_http_error e of
               Some h \<Rightarrow> if he_class h = SupersededError then mret (Some (True, he_reason h))
                         else mret (Some (he_status h \<in> {401, 403}, he_code h))
             | None \<Rightarrow>
                 if e = HTTPError
                 then mbind (note_event sn spec ''degraded'' (''registry unavailable mid-run: '' @ et_name (sn_texts sn) e)) (\<lambda>_. mret None)
                 else mraise e))"

definition s17_run :: "'w scenario_act" where
  "s17_run sn spec =
     (let topic = input_text sn spec ''topic'' ''quarterly forecast'' in
      mbind (make_langchain_agent sn spec ''owner'' did_key_opts) (\<lambda>owner.
      mbind (make_langchain_agent sn spec ''attacker'' did_key_opts) (\<lambda>attacker.
      mbind (s17_owner sn spec owner (topic @ '' '' @ em_dash @ '' v1'')) (\<lambda>owned.
      case owned of
        None \<Rightarrow> mret (run_result_of spec ''s17_supersession_authz'' [] None [(''degraded'', JBool True)] None)
      | Some (v1, v1_full) \<Rightarrow>
          mbind (mlift (json_index v1_full ''body'')) (\<lambda>v1_body.
          mbind (mlift (run_guarded SDK_REJECTIONS (build_supersede_request (ag_producer attacker)
                   [(''previous_body_json'', JStr (dumps sn v1_body)), (''title'', JStr (topic @ '' '' @ em_dash @ '' hijacked'')),
                    (''summary'', JStr ''Attacker attempts a lineage takeover.''),
                    (''metadata'', JStr (dumps sn (JObj [(''role'', JStr ''attacker'')])))]))) (\<lambda>built.
          mbind (s17_attack sn spec attacker built) (\<lambda>verdict.
          case verdict of
            None \<Rightarrow> mret (run_result_of spec ''s17_supersession_authz'' [pr_ctx_id v1] None [(''degraded'', JBool True)] None)
          | Some (attacker_blocked, reason) \<Rightarrow>
              mbind (note_event sn spec ''takeover attempt'' (''blocked='' @ py_bool attacker_blocked @ '' reason='' @ py_opt_str reason)) (\<lambda>_.
              mbind (note_event sn spec ''tenant continuity'' ''a cross-tenant successor is rejected with the same not_found shape (no tenant-membership oracle, registry #24)'') (\<lambda>_.
              mret (run_result_of spec ''s17_supersession_authz'' [pr_ctx_id v1] None
                      [(''degraded'', JBool False), (''owner_ctx'', JStr (pr_ctx_id v1)), (''attacker_blocked'', JBool attacker_blocked),
                       (''rejection_reason'', str_or_none reason),
                       (''tenant_continuity'', JStr (''cross-tenant supersession '' @ arrow @ '' superseded_target/not_found''))]
                      (if attacker_blocked then None else Some ''S17: non-owner supersession was NOT rejected'')))))))))))"

lemma quietly_s17_owner: "civil_scen sn \<Longrightarrow> civil_agent ag \<Longrightarrow> quietly (\<lambda>_. True) (s17_owner sn spec ag t)"
  unfolding s17_owner_def by (rule scenario_rules | assumption | simp)+

lemma quietly_s17_attack: "civil_scen sn \<Longrightarrow> civil_agent ag \<Longrightarrow> quietly (\<lambda>_. True) (s17_attack sn spec ag b)"
  unfolding s17_attack_def by (rule scenario_rules | assumption)+

interpretation s17: scenario_contract s17_run "''s17_supersession_authz''"
  by unfold_locales
     (simp only: s17_run_def Let_def,
      (rule version_rules guarded_ordinary quietly_s17_owner quietly_s17_attack | assumption | (simp add: graph_simps)[1])+)

section \<open>S18: idempotent publishing\<close>

definition S18 :: "'w scenario" where
  "S18 = scenario_def ''s18_idempotency'' ''Idempotent publish''
     (''Re-sending a publish with the same Idempotency-Key replays the first response '' @ em_dash
      @ '' one context, never two (registry #24). Degrades gracefully without the registry.'')
     ''single'' 1 [(''topic'', JStr ''quarterly forecast'')]"

definition s18_sends ::
  "'w scen_env \<Rightarrow> run_spec \<Rightarrow> agent \<Rightarrow> string \<Rightarrow> string \<Rightarrow> string \<Rightarrow> ('w, (publish_response \<times> publish_response) option) act" where
  "s18_sends sn spec ag title idem_key request_json =
     mtry (mbind (publish_with sn ag request_json (Some idem_key)) (\<lambda>first.
           mbind (emit sn ag ''acdp.publish'' (\<lambda>e. e\<lparr>se_ctx_id := Some (pr_ctx_id first), se_title := Some title\<rparr>)) (\<lambda>_.
           mbind (publish_with sn ag request_json (Some idem_key)) (\<lambda>second.
           mret (Some (first, second))))))
       (\<lambda>e. if is_Exception e
            then mbind (note_event sn spec ''degraded'' (''registry unavailable: ''
                   @ (case as_http_error e of Some h \<Rightarrow> str_int (he_status h) | None \<Rightarrow> et_name (sn_texts sn) e))) (\<lambda>_. mret None)
            else mraise e)"

definition s18_run :: "'w scenario_act" where
  "s18_run sn spec =
     (let topic = input_text sn spec ''topic'' ''quarterly forecast''; idem_key = ''s18-'' @ sp_run_id spec;
          title = topic @ '' '' @ em_dash @ '' idempotent'' in
      mbind (make_langchain_agent sn spec ''publisher'' did_key_opts) (\<lambda>ag.
      mbind (mlift (build_publish_request (ag_producer ag)
               [(''title'', JStr title), (''context_type'', JStr ''data_snapshot''), (''visibility'', JStr ''public''),
                (''summary'', JStr ''A context published twice under one idempotency key.''),
                (''metadata'', JStr (dumps sn (JObj [(''run_id'', JStr (sp_run_id spec)), (''scenario'', JStr ''s18_idempotency'')])))])) (\<lambda>request_json.
      mbind (s18_sends sn spec ag title idem_key request_json) (\<lambda>sent_twice.
      case sent_twice of
        None \<Rightarrow> mret (run_result_of spec ''s18_idempotency'' [] None
                  [(''degraded'', JBool True), (''idempotency_key'', JStr idem_key)] None)
      | Some (first, second) \<Rightarrow>
          let replayed = (pr_ctx_id first = pr_ctx_id second) in
          mbind (note_event sn spec ''idempotent replay'' (''replayed='' @ py_bool replayed @ '' ctx='' @ pr_ctx_id first)) (\<lambda>_.
          mret (run_result_of spec ''s18_idempotency'' [pr_ctx_id first] None
                  [(''degraded'', JBool False), (''idempotency_key'', JStr idem_key), (''first_ctx'', JStr (pr_ctx_id first)),
                   (''second_ctx'', JStr (pr_ctx_id second)), (''replayed'', JBool replayed)]
                  (if replayed then None else Some ''S18: duplicate Idempotency-Key produced two contexts'')))))))"

lemma quietly_s18_sends: "civil_scen sn \<Longrightarrow> civil_agent ag \<Longrightarrow> quietly (\<lambda>_. True) (s18_sends sn spec ag t k r)"
  unfolding s18_sends_def by (rule scenario_rules | assumption | simp)+

interpretation s18: scenario_contract s18_run "''s18_idempotency''"
  by unfold_locales
     (simp only: s18_run_def Let_def,
      (rule version_rules quietly_s18_sends | assumption | (simp add: graph_simps)[1])+)

section \<open>Verdicts\<close>

lemma s17_attack_Some:
  assumes "s17_attack sn spec attacker built s = (s', Inr (Some (blocked, reason)))"
  shows "blocked \<longleftrightarrow> snd built \<noteq> None \<or> (\<exists>h. publish_with sn attacker (the (fst built)) None s = (s', Inl (AcdpHTTPError h))
      \<and> (he_class h = SupersededError \<or> he_status h \<in> {401, 403}))"
  using assms unfolding s17_attack_def
  by (auto split: option.splits if_splits elim!: mtry_cases simp: mbind_Inr elim: mbind_cases)

text \<open>
  S17 counts only a recognised refusal as the ownership check working. A run that returns either degraded, and says so, or came to a
  verdict on the attacker's request; it is complete exactly when the attacker was blocked, and the
  attacker was blocked exactly when the SDK refused to build the request or the registry refused to
  take it with a superseded-target error or a 401 or 403. An accepted takeover or any other error fails the run.
\<close>

theorem s17_verdict:
  assumes "s17_run sn spec st = (st', Inr r)"
  shows "(map_of (rr_summary r) ''degraded'' = Some (JBool True) \<and> rr_status r = ''complete'')
    \<or> (\<exists>attacker built s s' blocked reason. map_of (rr_summary r) ''degraded'' = Some (JBool False)
        \<and> s17_attack sn spec attacker built s = (s', Inr (Some (blocked, reason)))
        \<and> (rr_status r = ''complete'' \<longleftrightarrow> blocked)
        \<and> (blocked \<longleftrightarrow> snd built \<noteq> None \<or> (\<exists>h. publish_with sn attacker (the (fst built)) None s = (s', Inl (AcdpHTTPError h))
             \<and> (he_class h = SupersededError \<or> he_status h \<in> {401, 403}))))"
proof -
  let ?P = "\<lambda>r. (map_of (rr_summary r) ''degraded'' = Some (JBool True) \<and> rr_status r = ''complete'')
    \<or> (\<exists>attacker built s s' blocked reason. map_of (rr_summary r) ''degraded'' = Some (JBool False)
        \<and> s17_attack sn spec attacker built s = (s', Inr (Some (blocked, reason)))
        \<and> (rr_status r = ''complete'' \<longleftrightarrow> blocked)
        \<and> (blocked \<longleftrightarrow> snd built \<noteq> None \<or> (\<exists>h. publish_with sn attacker (the (fst built)) None s = (s', Inl (AcdpHTTPError h))
             \<and> (he_class h = SupersededError \<or> he_status h \<in> {401, 403}))))"
  have attacked: "?P r'" if "s17_attack sn spec attacker built s = (s', Inr (Some (blocked, reason)))"
      "r' = run_result_of spec sid cs None ((''degraded'', JBool False) # sum) (if blocked then None else Some e)"
    for r' attacker built s s' blocked reason sid cs sum e
    using that s17_attack_Some[OF that(1)]
    by (intro disjI2 exI[of _ attacker] exI[of _ built] exI[of _ s] exI[of _ s'] exI[of _ blocked] exI[of _ reason] conjI) simp_all
  have "returns ?P (s17_run sn spec)"
    unfolding s17_run_def Let_def by (intro ret) (simp, simp, rule attacked[OF _ refl], simp)
  from returnsD[OF this assms] show ?thesis .
qed

theorem s17_verdict_witness:
  "\<exists>st' r. s17_run (demo_scen (\<lambda>rq. Inl HTTPError)) demo_spec demo_rst = (st', Inr r)
     \<and> (rr_status r = ''complete'' \<or> map_of (rr_summary r) ''degraded'' = Some (JBool False))"
proof -
  let ?sn = "demo_scen (\<lambda>rq. Inl HTTPError)"
  have opts: "\<not> op_authenticated did_key_opts" "op_tenant did_key_opts = None" "op_algorithm did_key_opts \<noteq> ALG_P256"
    by (simp_all add: did_key_opts_def agent_defaults_def ALG_ED25519_def ALG_P256_def)
  obtain st1 owner where 1: "make_langchain_agent ?sn demo_spec ''owner'' did_key_opts demo_rst = (st1, Inr owner)"
    "bundle_ok ?sn (sp_run_id demo_spec) st1" "ag_producer owner = demo_signer"
    using demo_make_agent[OF bundle_ok_demo_rst opts] by blast
  obtain st2 attacker where 2: "make_langchain_agent ?sn demo_spec ''attacker'' did_key_opts st1 = (st2, Inr attacker)"
    using demo_make_agent[OF 1(2) opts] by blast
  have sn: "civil_scen ?sn" by (rule civil_demo_scen) simp
  have owner: "civil_agent owner" using quietlyD(2)[OF quietly_make_agent[OF sn] civil_demo_rst 1(1)] .
  have degraded: "\<exists>st3. s17_owner ?sn demo_spec owner t st2 = (st3, Inr None)" for t
  proof -
    obtain io' tm' y where p: "publish_context (sn_env ?sn) (sn_client ?sn) (ag_client owner) request_text None (r_io st2) (r_tm st2) = (io', tm', y)"
      by (metis prod.collapse)
    then obtain e where y: "y = Inl e" using down_publish by (cases y) (auto simp: demo_scen_def)
    moreover have "is_Exception e"
      using safe_calls(1)[OF civil_scen_env[OF sn] civil_agentD(1)[OF owner]] p y unfolding safe_call_def by (metis ordinary_simps(2) snd_conv)
    ultimately show ?thesis using p 1(3)
      by (simp add: s17_owner_def mtry_def mbind_def mlift_def demo_signer_def mcall_def note_event_def tell_def mnow_def mget_def mput_def mret_def)
  qed
  obtain st' r where run: "s17_run ?sn demo_spec demo_rst = (st', Inr r)"
    using degraded[of "input_text ?sn demo_spec ''topic'' ''quarterly forecast'' @ '' '' @ em_dash @ '' v1''"]
    by (auto simp: s17_run_def Let_def mbind_def 1(1) 2 mret_def)
  from s17_verdict[OF run] run show ?thesis by blast
qed

text \<open>
  S18 sends one request twice and judges by the answers. A run that returns and did not degrade published the same signed request twice,
  through the same client and under the same key, which names the run; it reports the first context, and it
  is complete exactly when both answers name the same context.
\<close>

theorem s18_verdict:
  assumes "s18_run sn spec st = (st', Inr r)" and "map_of (rr_summary r) ''degraded'' = Some (JBool False)"
  shows "\<exists>ag req first second s1 s2 s3 s4.
      publish_with sn ag req (Some (''s18-'' @ sp_run_id spec)) s1 = (s2, Inr first)
    \<and> publish_with sn ag req (Some (''s18-'' @ sp_run_id spec)) s3 = (s4, Inr second)
    \<and> rr_contexts r = [pr_ctx_id first] \<and> (rr_status r = ''complete'' \<longleftrightarrow> pr_ctx_id first = pr_ctx_id second)"
proof -
  let ?key = "Some (''s18-'' @ sp_run_id spec)"
  let ?Q = "\<lambda>ag req x. case x of None \<Rightarrow> True | Some (first, second) \<Rightarrow>
     \<exists>s1 s2 s3 s4. publish_with sn ag req ?key s1 = (s2, Inr first) \<and> publish_with sn ag req ?key s3 = (s4, Inr second)"
  have sends: "?Q ag req x" if "s18_sends sn spec ag t (''s18-'' @ sp_run_id spec) req s = (s', Inr x)" for ag t req s s' x
    using that unfolding s18_sends_def
    by (auto elim!: mtry_cases simp: mbind_Inr split: if_splits option.splits) blast+
  let ?P = "\<lambda>r. map_of (rr_summary r) ''degraded'' = Some (JBool False) \<longrightarrow> (\<exists>ag req first second s1 s2 s3 s4.
      publish_with sn ag req ?key s1 = (s2, Inr first) \<and> publish_with sn ag req ?key s3 = (s4, Inr second)
    \<and> rr_contexts r = [pr_ctx_id first] \<and> (rr_status r = ''complete'' \<longleftrightarrow> pr_ctx_id first = pr_ctx_id second))"
  have verdict: "?P (run_result_of spec sid [pr_ctx_id first] None sum (if pr_ctx_id first = pr_ctx_id second then None else Some e))"
    if "s18_sends sn spec ag t (''s18-'' @ sp_run_id spec) req s = (s', Inr (Some (first, second)))" for sid first second sum e ag t req s s'
    using sends[OF that] by (simp split: if_splits) blast
  have "returns ?P (s18_run sn spec)"
    unfolding s18_run_def Let_def by (intro ret) (simp, rule verdict, simp)
  from returnsD[OF this assms(1)] assms(2) show ?thesis by blast
qed

theorem s18_verdict_witness:
  "\<exists>st' r. s18_run (demo_scen (\<lambda>rq. Inr (json_answer 200 JNull))) demo_spec demo_rst = (st', Inr r)
     \<and> rr_status r = ''complete'' \<and> rr_contexts r = [''acdp://a/1'']"
proof -
  let ?sn = "demo_scen (\<lambda>rq. Inr (json_answer 200 JNull))"
  have opts: "\<not> op_authenticated did_key_opts" "op_tenant did_key_opts = None" "op_algorithm did_key_opts \<noteq> ALG_P256"
    by (simp_all add: did_key_opts_def agent_defaults_def ALG_ED25519_def ALG_P256_def)
  obtain st1 ag where 1: "make_langchain_agent ?sn demo_spec ''publisher'' did_key_opts demo_rst = (st1, Inr ag)" "ag_producer ag = demo_signer"
    "managed (ag_client ag) = None" "cl_static_bearer (ag_client ag) = None"
    using demo_make_agent[OF bundle_ok_demo_rst opts] by blast
  let ?ok = "\<lparr>pr_ctx_id = ''acdp://a/1'', pr_lineage_id = ''lin:1'', pr_version = 1, pr_created_at = 0, pr_status = ''active''\<rparr>"
  have pub: "\<exists>s'. publish_with ?sn ag req key s = (s', Inr ?ok)" for req key s
    using demo_publish_any[OF 1(3,4), of JNull req key "r_io s" "r_tm s"] by (auto simp: mcall_def demo_scen_def)
  have "\<exists>s'. s18_sends ?sn demo_spec ag t k req s = (s', Inr (Some (?ok, ?ok)))" for t k req s
  proof -
    obtain s1 where s1: "publish_with ?sn ag req (Some k) s = (s1, Inr ?ok)" using pub by blast
    let ?s2 = "s1\<lparr>r_ctx := put_event (agent_event ?sn ag ''acdp.publish'' (\<lambda>e. e\<lparr>se_ctx_id := Some ''acdp://a/1'', se_title := Some t\<rparr>) s1) (r_ctx s1)\<rparr>"
    obtain s3 where s3: "publish_with ?sn ag req (Some k) ?s2 = (s3, Inr ?ok)" using pub by blast
    show ?thesis by (simp add: s18_sends_def mtry_def mbind_def s1 emit_eq s3 mret_def)
  qed
  then obtain s2 where s2: "s18_sends ?sn demo_spec ag (input_text ?sn demo_spec ''topic'' ''quarterly forecast'' @ '' '' @ em_dash @ '' idempotent'')
      (''s18-'' @ sp_run_id demo_spec) request_text st1 = (s2, Inr (Some (?ok, ?ok)))" by blast
  have "\<exists>st' r. s18_run ?sn demo_spec demo_rst = (st', Inr r) \<and> map_of (rr_summary r) ''degraded'' = Some (JBool False)
      \<and> map_of (rr_summary r) ''second_ctx'' = Some (JStr ''acdp://a/1'') \<and> rr_contexts r = [''acdp://a/1''] \<and> rr_status r = ''complete''"
    using s2 1(1,2)
    by (simp add: s18_run_def Let_def mbind_def demo_signer_def mlift_def note_event_def tell_def mnow_def mget_def mput_def mret_def)
  then obtain st' r where run: "s18_run ?sn demo_spec demo_rst = (st', Inr r)" "map_of (rr_summary r) ''degraded'' = Some (JBool False)"
    "rr_contexts r = [''acdp://a/1'']" "rr_status r = ''complete''" by blast
  from s18_verdict[OF run(1,2)] run show ?thesis by blast
qed

end
