(* ===== verification/Scenarios_Signing.thy ===== *)
theory Scenarios_Signing
  imports Scenario_Kit
begin

text \<open>
  The scenarios of the catalogue on ECDSA-P256 identities: publishing (S9), the verification method of a did:web document (S19) and a
  capability declaration (S21). The SDK's verifiers are parameters.
\<close>

section \<open>Verifying a signature (acdp\_client/signing.py)\<close>

definition verify_signature :: "'w scen_env \<Rightarrow> json \<Rightarrow> json \<Rightarrow> json \<Rightarrow> json \<Rightarrow> json result" where
  "verify_signature sn algorithm key signature_b64 content_hash =
     (if algorithm = JStr ALG_ED25519 then sdk_fun sn ''AcdpVerifier.verify_signature'' [key, signature_b64, content_hash]
      else if algorithm = JStr ALG_P256 then sdk_fun sn ''AcdpVerifier.verify_signature_p256'' [key, signature_b64, content_hash]
      else Inl ValueError)"

lemma verify_signature_ordinary: "civil_scen sn \<Longrightarrow> ordinary (verify_signature sn a k s h)"
  by (simp add: verify_signature_def sdk_fun_ordinary)

text \<open>\<^verbatim>\<open>assert alg == "ecdsa-p256"\<close>.\<close>

definition assert_p256 :: "producer \<Rightarrow> ('w, unit) act" where
  "assert_p256 p = (if producer_algorithm p = ALG_P256 then mret () else mraise AssertionError)"

section \<open>S9: publishing with P-256\<close>

definition S9 :: "'w scenario" where
  "S9 = scenario_def ''s9_p256_publish'' ''ECDSA-P256 Publish''
     ''An agent signs with ECDSA-P256 instead of Ed25519, publishes a public context, and the P-256 wire signature is verified end-to-end. Proves the SDK P-256 producer/verifier parity.''
     ''single'' 1 [(''topic'', JStr ''post-quantum signature migration'')]"

definition p256_opts :: agent_options where
  "p256_opts = agent_defaults\<lparr>op_algorithm := ALG_P256, op_method := Did_key\<rparr>"

definition s9_failure :: "'w scen_env \<Rightarrow> exn \<Rightarrow> string" where
  "s9_failure sn e =
     (case as_http_error e of Some h \<Rightarrow> ''http_'' @ str_int (he_status h) | None \<Rightarrow> ''error:'' @ et_name (sn_texts sn) e)"

text \<open>The round trip with the registry: the context's id as far as it got, and the outcome.\<close>

definition s9_round_trip :: "'w scen_env \<Rightarrow> agent \<Rightarrow> string \<Rightarrow> string \<Rightarrow> ('w, string option \<times> string) act" where
  "s9_round_trip sn ag title raw =
     mbind (mcatch (mcall (publish_context (sn_env sn) (sn_client sn) (ag_client ag) raw None))) (\<lambda>p.
     case p of
       Inl e \<Rightarrow> mret (None, s9_failure sn e)
     | Inr resp \<Rightarrow>
         mbind (emit sn ag ''acdp.publish'' (\<lambda>e. e\<lparr>se_ctx_id := Some (pr_ctx_id resp), se_title := Some title, se_preview := Some ''ecdsa-p256''\<rparr>)) (\<lambda>_.
         mbind (mcatch (mbind (mcall (retrieve (sn_env sn) (sn_client sn) (ag_client ag) (pr_ctx_id resp))) (\<lambda>full.
                  let sg = b_signature (fc_body full) in
                  mlift (verify_signature sn (JStr (sig_algorithm sg)) (JStr (public_key_material (ag_producer ag))) (JStr (sig_value sg))
                           (JStr (b_content_hash (fc_body full))))))) (\<lambda>v.
         case v of Inl e \<Rightarrow> mret (Some (pr_ctx_id resp), s9_failure sn e) | Inr _ \<Rightarrow> mret (Some (pr_ctx_id resp), ''verified''))))"

definition s9_run :: "'w scenario_act" where
  "s9_run sn spec =
     (let topic = input_text sn spec ''topic'' ''post-quantum signature migration''; authority = registry_a_authority (sn_settings sn);
          title = topic @ '' '' @ em_dash @ '' P-256 signed'' in
      mbind (make_langchain_agent sn spec ''p256-signer'' p256_opts) (\<lambda>ag.
      mbind (assert_p256 (ag_producer ag)) (\<lambda>_.
      mbind (mlift (build_publish_request (ag_producer ag)
               [(''title'', JStr title), (''context_type'', JStr ''analysis''), (''visibility'', JStr ''public''),
                (''summary'', JStr ''Signed with ECDSA-P256 per RFC-ACDP signature-algorithms.''), (''domain'', JStr ''security''),
                (''tags'', JList [JStr ''p256'', JStr ''signatures''])])) (\<lambda>raw.
      mbind (mlift (json_loads raw)) (\<lambda>req.
      mbind (mlift (json_index req ''signature'')) (\<lambda>sig.
      mbind (mlift (json_index sig ''algorithm'')) (\<lambda>wire_alg.
      mbind (mlift (case as_obj req of Some kvs \<Rightarrow> Inr (filter (\<lambda>(k, v). k \<noteq> ''content_hash'') kvs) | None \<Rightarrow> Inl AttributeError)) (\<lambda>body.
      mbind (mlift (json_index req ''content_hash'')) (\<lambda>content_hash.
      mbind (mlift (verify_content_hash (sn_sdk sn) (dumps sn (JObj body)) content_hash)) (\<lambda>_.
      mbind (mlift (json_index sig ''value'')) (\<lambda>value.
      mbind (mlift (verify_signature sn wire_alg (JStr (public_key_material (ag_producer ag))) value content_hash)) (\<lambda>sig_ok.
      mbind (tell sn spec ''acdp.verify'' (Some (agent_did (ag_producer ag))) ''P-256 signature verified locally''
               (''algorithm='' @ str_json (je sn) wire_alg @ '' verified='' @ str_json (je sn) sig_ok)) (\<lambda>_.
      let crypto_ok = (if wire_alg = JStr ''ecdsa-p256'' then sig_ok else JBool False) in
      mbind (s9_round_trip sn ag title raw) (\<lambda>(ctx_id, registry_outcome).
      let contexts = (case nonempty_str ctx_id of Some c \<Rightarrow> [c] | None \<Rightarrow> []) in
      mbind (mlift (json_loads (public_key_jwk (ag_producer ag)))) (\<lambda>jwk.
      mret (run_result_of spec ''s9_p256_publish'' contexts
              (graph (map (\<lambda>c. node c ag title ''analysis'' authority 1) contexts) [])
              [(''algorithm'', wire_alg), (''local_signature_verified'', sig_ok), (''crypto_ok'', crypto_ok),
               (''registry_round_trip'', JStr registry_outcome), (''public_key_jwk'', jwk)]
              (if truthy crypto_ok then None else Some (''P-256 verification failed (alg='' @ str_json (je sn) wire_alg @ '')''))))))))))))))))))"

lemma vcg_assert_p256 [vcg]: "quietly (\<lambda>_. True) (assert_p256 p)"
  unfolding assert_p256_def by (rule vcg TrueI | simp)+

lemma quietly_s9_round_trip: "civil_scen sn \<Longrightarrow> civil_agent ag \<Longrightarrow> quietly (\<lambda>_. True) (s9_round_trip sn ag t r)"
  unfolding s9_round_trip_def Let_def
  by (rule scenario_rules vcg_mcatch vcg_sum verify_signature_ordinary | assumption | simp)+

interpretation s9: scenario_contract s9_run "''s9_p256_publish''"
  by unfold_locales
     (simp only: s9_run_def Let_def,
      (rule scenario_rules vcg_assert_p256 json_loads_ordinary json_index_ordinary sdk_fun_ordinary verify_signature_ordinary quietly_s9_round_trip
       | assumption | (simp add: graph_simps split: option.split)[1])+)

section \<open>S19: a did:web document with P-256\<close>

definition S19 :: "'w scenario" where
  "S19 = scenario_def ''s19_cp_did_web_p256'' ''CP did:web P-256 conformance''
     (''The playground'' @ [CHR 0x27] @ ''s P-256 agent emits the JWK-only JsonWebKey2020 verification method the control plane'' @ [CHR 0x27]
      @ ''s did:web resolver now accepts (CP #49). Fully offline + deterministic.'')
     ''single'' 1 []"

definition CP_ACCEPTED_VM_TYPES :: "string list" where
  "CP_ACCEPTED_VM_TYPES = [''Ed25519VerificationKey2018'', ''Ed25519VerificationKey2020'', ''EcdsaSecp256r1VerificationKey2019'',
     ''JsonWebKey2020'', ''Multikey'']"

text \<open>\<^verbatim>\<open>x in a set of strings\<close>: hashing a list or a dict raises.\<close>

definition in_string_set :: "json \<Rightarrow> string list \<Rightarrow> bool result" where
  "in_string_set x xs = (case x of JList _ \<Rightarrow> Inl TypeError | JObj _ \<Rightarrow> Inl TypeError | JStr s \<Rightarrow> Inr (s \<in> set xs) | _ \<Rightarrow> Inr False)"

definition DidResolutionError :: exn where
  "DidResolutionError = OtherException ''DidResolutionError''"

text \<open>Whether the document resolves to the producer's key, and what to say about it.\<close>

definition s19_resolve :: "'w scen_env \<Rightarrow> producer \<Rightarrow> obj \<Rightarrow> string \<Rightarrow> string \<Rightarrow> ('w, bool \<times> string) act" where
  "s19_resolve sn p document did kid =
     mtry (mbind (mlift (sdk_fun sn ''AcdpDidDocument.parse'' [JStr (dumps sn (JObj document)), JStr did])) (\<lambda>doc.
           mbind (mlift (sdk_fun sn ''AcdpDidDocument.key_for_algorithm'' [doc, JStr kid, JStr ''ecdsa-p256''])) (\<lambda>resolved.
           mbind (mlift (json_index resolved ''public_key_b64'')) (\<lambda>key.
           let resolvable = (key = JStr (public_key_sec1_b64 p)) in
           mret (resolvable, if resolvable then ''key matches producer'' else ''key mismatch'')))))
       (\<lambda>e. if e = DidResolutionError then mret (False, ''rejected: '' @ exn_reason sn e) else mraise e)"

definition s19_run :: "'w scenario_act" where
  "s19_run sn spec =
     (let authority = registry_a_authority (sn_settings sn); slug = ''p256-did-agent'';
          did = did_for authority slug; kid = key_id_for authority slug in
      mbind (mlift (producer_for sn spec slug authority ALG_P256 Did_web)) (\<lambda>p.
      mbind (assert_p256 p) (\<lambda>_.
      mbind (mlift (rbind (did_verification_method p kid did) json_loads)) (\<lambda>vm_json.
      mbind (mlift (case as_obj vm_json of Some kvs \<Rightarrow> Inr kvs | None \<Rightarrow> Inl AttributeError)) (\<lambda>vm.
      let jwk_json = dict_get_default vm ''publicKeyJwk'' (JObj []) in
      mbind (mlift (in_string_set (obj_get vm ''type'') CP_ACCEPTED_VM_TYPES)) (\<lambda>type_ok.
      let jwk_only = (''publicKeyJwk'' \<in> fst ` set vm \<and> ''publicKeyMultibase'' \<notin> fst ` set vm) in
      mbind (mlift (case as_obj jwk_json of Some kvs \<Rightarrow> Inr kvs | None \<Rightarrow> Inl AttributeError)) (\<lambda>jwk.
      let jwk_p256 = (obj_get jwk ''kty'' = JStr ''EC'' \<and> obj_get jwk ''crv'' = JStr ''P-256'');
          id_ok = (obj_get vm ''id'' = JStr kid \<and> obj_get vm ''controller'' = JStr did);
          document = [(''@context'', JList [JStr ''https://www.w3.org/ns/did/v1'', JStr ''https://w3id.org/security/suites/jws-2020/v1'']),
            (''id'', JStr did), (''verificationMethod'', JList [vm_json]), (''assertionMethod'', JList [JStr kid]),
            (''authentication'', JList [JStr kid])] in
      mbind (s19_resolve sn p document did kid) (\<lambda>(resolvable, resolve_detail).
      let conformant = (type_ok \<and> jwk_only \<and> jwk_p256 \<and> id_ok \<and> resolvable) in
      mbind (note_event sn spec ''P-256 verification method'' (''type='' @ str_json (je sn) (obj_get vm ''type'')
               @ '' jwk_only='' @ py_bool jwk_only @ '' crv='' @ str_json (je sn) (obj_get jwk ''crv''))) (\<lambda>_.
      mbind (tell sn spec ''acdp.verify'' (Some did) ''did:web document is CP-resolvable (P-256, JWK-only)''
               (''conformant='' @ py_bool conformant @ '' resolve='' @ resolve_detail)) (\<lambda>_.
      mret (run_result_of spec ''s19_cp_did_web_p256'' [] None
              [(''algorithm'', JStr (producer_algorithm p)), (''vm_type'', obj_get vm ''type''), (''jwk_only'', JBool jwk_only),
               (''jwk_curve'', obj_get jwk ''crv''), (''cp_resolvable'', JBool conformant), (''did_resolves'', JBool resolvable),
               (''verification_method'', vm_json), (''did_document'', JObj document)]
              (if conformant then None else Some ''S19: P-256 verification method is not CP-resolvable''))))))))))))"

lemma vcg_producer:
  "civil_scen sn \<Longrightarrow> (\<And>p. civil_producer p \<Longrightarrow> quietly P (f p)) \<Longrightarrow> quietly P (mbind (mlift (producer_for sn spec slug auth alg method)) f)"
  by (rule quietly_post[where Q = civil_producer])
     (auto intro!: vcg dest: producer_for_civil[THEN pred_sum_ordinary] producer_for_civil[THEN pred_sum_value])

lemma quietly_s19_resolve: "civil_scen sn \<Longrightarrow> quietly (\<lambda>_. True) (s19_resolve sn p d did kid)"
  unfolding s19_resolve_def Let_def by (rule scenario_rules sdk_fun_ordinary json_index_ordinary | assumption | simp)+

lemma in_string_set_ordinary: "ordinary (in_string_set x xs)"
  by (simp add: in_string_set_def split: json.splits)

interpretation s19: scenario_contract s19_run "''s19_cp_did_web_p256''"
  by unfold_locales
     (simp only: s19_run_def Let_def,
      (rule vcg_producer scenario_rules vcg_assert_p256 in_string_set_ordinary quietly_s19_resolve ordinary_rbind json_loads_ordinary
       | assumption | (simp add: graph_simps split: option.split)[1])+)

section \<open>S21: a capability declaration\<close>

definition S21 :: "'w scenario" where
  "S21 = scenario_def ''s21_capabilities_p256'' ''CP capability P-256 declaration''
     (''A P-256 agent self-declares a capability with the ecdsa-p256 signature the control plane'' @ [CHR 0x27]
      @ ''s capability DTO now accepts (CP #51). Fully offline + deterministic; signature self-verified.'')
     ''single'' 1 []"

definition CP_ACCEPTED_ALGS :: "string list" where
  "CP_ACCEPTED_ALGS = [''ed25519'', ''ecdsa-p256'']"

definition capability_signing_input :: "string \<Rightarrow> string \<Rightarrow> string \<Rightarrow> string" where
  "capability_signing_input did capability_uri declared_at =
     ''acdp-cap:v1:'' @ did @ '':'' @ capability_uri @ '':'' @ declared_at"

definition s21_run :: "'w scenario_act" where
  "s21_run sn spec =
     (let authority = registry_a_authority (sn_settings sn); slug = ''p256-cap-agent'';
          capability_uri = ''urn:acdp:cap:publish:data_snapshot:finance'';
          did = did_for authority slug; kid = key_id_for authority slug in
      mbind (mlift (producer_for sn spec slug authority ALG_P256 Did_web)) (\<lambda>p.
      mbind (assert_p256 p) (\<lambda>_.
      let alg = producer_algorithm p in
      mbind (mget (\<lambda>st. now_z sn (world (r_io st)))) (\<lambda>declared_at.
      let signing_input = capability_signing_input did capability_uri declared_at in
      mbind (mlift (sign_challenge p (JStr signing_input))) (\<lambda>signature.
      let declaration = [(''agent_did'', JStr did), (''capability_uri'', JStr capability_uri), (''declared_at'', JStr declared_at),
            (''key_id'', JStr kid), (''algorithm'', JStr alg), (''signature'', JStr signature)];
          alg_ok = (alg \<in> set CP_ACCEPTED_ALGS);
          shape_ok = (obj_get declaration ''agent_did'' = JStr did \<and> obj_get declaration ''key_id'' = JStr kid \<and> signature \<noteq> []) in
      mbind (mlift (run_guarded SDK_REJECTIONS (sdk_fun sn ''AcdpVerifier.verify_signature_p256''
               [JStr (public_key_sec1_b64 p), JStr signature, JStr signing_input]))) (\<lambda>(verified, rejection).
      let sig_ok = (case verified of Some v \<Rightarrow> truthy v | None \<Rightarrow> False);
          conformant = (alg_ok \<and> shape_ok \<and> sig_ok) in
      mbind (note_event sn spec ''P-256 capability declaration''
               (''algorithm='' @ alg @ '' signed_ok='' @ py_bool sig_ok @ '' uri='' @ capability_uri)) (\<lambda>_.
      mbind (tell sn spec ''acdp.verify'' (Some did) ''capability declaration is CP-acceptable (P-256, self-verified)''
               (''conformant='' @ py_bool conformant)) (\<lambda>_.
      mret (run_result_of spec ''s21_capabilities_p256'' [] None
              [(''algorithm'', JStr alg), (''capability_uri'', JStr capability_uri), (''signature_verified'', JBool sig_ok),
               (''cp_acceptable'', JBool conformant), (''declaration'', JObj declaration), (''signing_input'', JStr signing_input)]
              (if conformant then None else Some ''S21: P-256 capability declaration is not CP-acceptable''))))))))))"

interpretation s21: scenario_contract s21_run "''s21_capabilities_p256''"
  by unfold_locales
     (simp only: s21_run_def Let_def,
      (rule vcg_producer scenario_rules vcg_assert_p256 guarded_ordinary sdk_fun_ordinary | assumption | (simp add: graph_simps)[1])+)

end
