(* ===== verification/Trust_Kit.thy ===== *)
theory Trust_Kit
  imports Scenarios_Access Scenarios_Versions Scenarios_Signing
begin

text \<open>
  What the scenarios on receipts and trust share: blocks whose local variables keep their values when an exception cuts them
  short, producers made from a seed, events with fields of their own, and the receipt key of the settings.
\<close>

section \<open>Blocks that keep their locals\<close>

text \<open>
  The body of a \<^verbatim>\<open>try\<close> as a list of steps over the local variables. A step assigns after its last call that can raise, so
  that the variables after an exception are those before the step that raised.
\<close>

fun run_steps :: "('l \<Rightarrow> ('w, 'l) act) list \<Rightarrow> 'l \<Rightarrow> ('w, 'l \<times> exn option) act" where
  "run_steps [] l = mret (l, None)"
| "run_steps (f # fs) l =
     mbind (mcatch (f l)) (\<lambda>r. case r of Inl e \<Rightarrow> mret (l, Some e) | Inr l' \<Rightarrow> run_steps fs l')"

lemma mcatch_Inr: "mcatch m st = (st', Inr r) \<longleftrightarrow> (m st = (st', r) \<and> (\<forall>e. r = Inl e \<longrightarrow> is_Exception e))"
  by (auto simp: mcatch_def mtry_def mbind_def mret_def mraise_def split: prod.splits sum.splits)

lemma vcg_run_steps:
  "(\<And>f l. f \<in> set fs \<Longrightarrow> quietly (\<lambda>_. True) (f l)) \<Longrightarrow> quietly (\<lambda>_. True) (run_steps fs l)"
proof (induction fs arbitrary: l)
  case (Cons f fs)
  then show ?case by (auto intro!: vcg_mbind vcg_mcatch vcg_mret vcg_sum)
qed (auto intro: vcg)

text \<open>A property of the locals that every step keeps holds in the end, however the block ended.\<close>

lemma run_steps_inv:
  assumes "run_steps fs l st = (st', Inr (l', err))" "Q l" "\<And>f l. f \<in> set fs \<Longrightarrow> Q l \<Longrightarrow> returns Q (f l)"
  shows "Q l'"
  using assms
proof (induction fs arbitrary: l st)
  case (Cons f fs)
  from Cons.prems(1) obtain st1 r where f: "f l st = (st1, r)"
    and rest: "(case r of Inl e \<Rightarrow> mret (l, Some e) | Inr l1 \<Rightarrow> run_steps fs l1) st1 = (st', Inr (l', err))"
    by (auto simp: mbind_Inr mcatch_Inr)
  show ?case
  proof (cases r)
    case (Inl e)
    with rest Cons.prems(2) show ?thesis by auto
  next
    case (Inr l1)
    have q: "Q l1" using returnsD[OF Cons.prems(3)[of f, OF _ Cons.prems(2)]] f Inr by auto
    have "run_steps fs l1 st1 = (st', Inr (l', err))" using rest Inr by simp
    from Cons.IH[OF this q] Cons.prems(3) show ?thesis by simp
  qed
qed auto

text \<open>A block that was not cut short ran all its steps.\<close>

lemma run_steps_all:
  "run_steps (f # fs) l st = (st', Inr (l', None)) \<longleftrightarrow>
     (\<exists>st1 l1. f l st = (st1, Inr l1) \<and> run_steps fs l1 st1 = (st', Inr (l', None)))"
  "run_steps [] l st = (st', Inr (l', None)) \<longleftrightarrow> st' = st \<and> l' = l"
proof -
  obtain st1 r where f: "f l st = (st1, r)" by (cases "f l st")
  show "run_steps (f # fs) l st = (st', Inr (l', None)) \<longleftrightarrow>
     (\<exists>st1 l1. f l st = (st1, Inr l1) \<and> run_steps fs l1 st1 = (st', Inr (l', None)))"
    by (cases r) (auto simp: mbind_Inr mcatch_Inr f)
qed auto

lemma run_steps_append:
  "run_steps (fs @ gs) l st = (st', Inr (l', err)) \<longleftrightarrow>
     (\<exists>e. err = Some e \<and> run_steps fs l st = (st', Inr (l', Some e)))
   \<or> (\<exists>st1 l1. run_steps fs l st = (st1, Inr (l1, None)) \<and> run_steps gs l1 st1 = (st', Inr (l', err)))"
proof (induction fs arbitrary: l st)
  case (Cons f fs)
  obtain st1 r where f: "f l st = (st1, r)" by (cases "f l st")
  show ?case using Cons.IH by (cases r) (auto simp: mbind_Inr mcatch_Inr f split: sum.splits)
qed auto

text \<open>What only the last step establishes means, when it holds, that no step raised.\<close>

lemma run_steps_reached:
  assumes "run_steps (fs @ [g]) l st = (st', Inr (l', err))" "\<not> Q l" "Q l'"
    and "\<And>f l. f \<in> set fs \<Longrightarrow> \<not> Q l \<Longrightarrow> returns (\<lambda>l'. \<not> Q l') (f l)"
  shows "run_steps (fs @ [g]) l st = (st', Inr (l', None))"
proof -
  have no: "\<not> Q l1" if "run_steps fs l st = (st1, Inr (l1, e1))" for st1 l1 e1
    using run_steps_inv[where Q = "\<lambda>l. \<not> Q l", OF that assms(2)] assms(4) by blast
  then show ?thesis using assms(1,3) by (auto simp: run_steps_append mbind_Inr mcatch_Inr split: sum.splits)
qed

section \<open>Events, nodes and values\<close>

definition put_event_with :: "'w scen_env \<Rightarrow> run_spec \<Rightarrow> string \<Rightarrow> (step_event \<Rightarrow> step_event) \<Rightarrow> ('w, unit) act" where
  "put_event_with sn spec typ upd = mbind (mnow sn) (\<lambda>ts. mput (upd (mk_step_event typ (sp_run_id spec) ts)))"

lemma vcg_put_event [vcg]:
  "typ \<noteq> ''run.complete'' \<Longrightarrow> typ \<noteq> ''run.error'' \<Longrightarrow> (\<And>e. se_type (upd e) = se_type e) \<Longrightarrow>
     quietly (\<lambda>_. True) (put_event_with sn spec typ upd)"
  unfolding put_event_with_def by (rule vcg_mbind, rule vcg) (auto intro!: vcg simp: is_terminal_def mk_step_event_def)

definition did_node :: "string \<Rightarrow> string \<Rightarrow> string \<Rightarrow> string \<Rightarrow> string \<Rightarrow> int \<Rightarrow> lineage_node" where
  "did_node ctx_id did title context_type authority step =
     \<lparr>ln_ctx_id = ctx_id, ln_agent_id = did, ln_title = title, ln_context_type = context_type,
      ln_registry_authority = authority, ln_step = step\<rparr>"

text \<open>\<^verbatim>\<open>x + suffix\<close> for a decoded value and a string.\<close>

fun str_concat :: "json \<Rightarrow> string \<Rightarrow> json result" where
  "str_concat (JStr s) suffix = Inr (JStr (s @ suffix))"
| "str_concat _ suffix = Inl TypeError"

lemma str_concat_ordinary [simp]: "ordinary (str_concat j s)"
  by (cases j) auto

text \<open>\<^verbatim>\<open>x[k] = v\<close>.\<close>

fun json_set :: "json \<Rightarrow> string \<Rightarrow> json \<Rightarrow> json result" where
  "json_set (JObj kvs) k v = Inr (JObj (AList.update k v kvs))"
| "json_set _ k v = Inl TypeError"

lemma json_set_ordinary [simp]: "ordinary (json_set j k v)"
  by (cases j) auto

text \<open>\<^verbatim>\<open>x.items()\<close>.\<close>

definition json_items :: "json \<Rightarrow> obj result" where
  "json_items j = (case as_obj j of Some kvs \<Rightarrow> Inr kvs | None \<Rightarrow> Inl AttributeError)"

lemma json_items_ordinary [simp]: "ordinary (json_items j)"
  by (simp add: json_items_def split: option.split)

lemma py_in_ordinary [simp]: "ordinary (py_in k j)"
  by (cases "(k, j)" rule: py_in.cases) auto

text \<open>\<^verbatim>\<open>s.splitlines()[-1]\<close>.\<close>

definition last_line :: "string \<Rightarrow> string result" where
  "last_line s =
     (if s = [] then Inl IndexError
      else let t = (if drop (length s - 2) s = [CHR 0x0D, CHR 0x0A] then butlast (butlast s)
                    else if is_line_break (last s) then butlast s else s)
           in Inr (rev (takeWhile (\<lambda>c. \<not> is_line_break c) (rev t))))"

lemma last_line_ordinary [simp]: "ordinary (last_line s)"
  by (simp add: last_line_def Let_def)

text \<open>\<^verbatim>\<open>settings.receipt_verification_public_key_b64()\<close>.\<close>

definition receipt_pub :: "'w scen_env \<Rightarrow> string option result" where
  "receipt_pub sn = receipt_verification_public_key_b64 b64decode
     (\<lambda>seed did kid. rbind (from_seed sn seed did kid) (\<lambda>p. Inr (public_key_b64 p))) (sn_settings sn)"

text \<open>A scenario's own exception class, derived from \<^verbatim>\<open>RuntimeError\<close>, with its message.\<close>

definition ReceiptRequired :: "string \<Rightarrow> exn" where
  "ReceiptRequired msg = LocalError ''ReceiptRequired'' msg"

fun as_local :: "string \<Rightarrow> exn \<Rightarrow> string option" where
  "as_local cls (LocalError c msg) = (if c = cls then Some msg else None)"
| "as_local cls _ = None"

definition as_receipt_required :: "exn \<Rightarrow> string option" where
  "as_receipt_required e = as_local ''ReceiptRequired'' e"

lemma as_receipt_required [simp]: "as_receipt_required (ReceiptRequired msg) = Some msg"
  by (simp add: as_receipt_required_def ReceiptRequired_def)

text \<open>\<^verbatim>\<open>except AcdpHTTPError\<close> and \<^verbatim>\<open>except Exception\<close> of a registry round trip.\<close>

definition round_trip_failure :: "'w scen_env \<Rightarrow> exn \<Rightarrow> string" where
  "round_trip_failure sn e =
     (case as_http_error e of
        Some h \<Rightarrow> ''http_'' @ str_int (he_status h) @ '':'' @ py_opt_str (he_code h)
      | None \<Rightarrow> ''unreachable:'' @ et_name (sn_texts sn) e)"

section \<open>Rules\<close>

lemma ordinary_b64decode [simp]: "ordinary (b64decode s)"
proof -
  have "ordinary (a2b_base64 a b c t)" for a b c t
    by (induction a b c t rule: a2b_base64.induct) (auto intro!: ordinary_rbind split: option.splits)
  then show ?thesis by (simp add: b64decode_def)
qed

lemma seed_ordinary:
  assumes "civil_scen sn"
  shows "ordinary (from_seed sn s d k)" "ordinary (from_seed_did_key sn s)" "ordinary (receipt_pub sn)"
proof -
  have "pred_sum is_Exception civil_producer (from_seed sn s d k)" "pred_sum is_Exception civil_producer (from_seed_did_key sn s)" for s d k
    using assms by (simp_all add: civil_scen_def)
  from this[THEN pred_sum_ordinary] show s: "ordinary (from_seed sn s d k)" "ordinary (from_seed_did_key sn s)" for s d k .
  show "ordinary (receipt_pub sn)"
    unfolding receipt_pub_def receipt_verification_public_key_b64_def by (auto intro!: ordinary_rbind s(1))
qed

lemma seed_civil:
  "civil_scen sn \<Longrightarrow> from_seed_did_key sn s = Inr p \<Longrightarrow> civil_producer p" "civil_scen sn \<Longrightarrow> from_seed sn s d k = Inr p \<Longrightarrow> civil_producer p"
  unfolding civil_scen_def by (metis pred_sum_value)+

lemma vcg_seeded:
  assumes "civil_scen sn" "\<And>p. civil_producer p \<Longrightarrow> quietly P (f p)"
  shows "quietly P (mbind (mlift (from_seed_did_key sn s)) f)" "quietly P (mbind (mlift (from_seed sn s d k)) f)"
  using assms by (auto intro!: quietly_post[where Q = civil_producer] vcg_mlift seed_ordinary dest: seed_civil)

lemma vcg_new_client:
  assumes "\<And>cl. civil_client cl \<Longrightarrow> quietly P (f cl)"
  shows "quietly P (mbind (mlift (new_client base b rid None h t m v)) f)"
  by (rule quietly_post[where Q = civil_client])
     (auto intro!: vcg assms new_client_civil simp: new_client_def ordinary_def reject_reserved_tenant_Inl rbind_eq_Inl)

lemma vcg_list:
  "(xs = [] \<Longrightarrow> quietly P a) \<Longrightarrow> (\<And>y ys. xs = y # ys \<Longrightarrow> quietly P (f y ys)) \<Longrightarrow> quietly P (case xs of [] \<Rightarrow> a | y # ys \<Rightarrow> f y ys)"
  by (cases xs) auto

lemmas trust_rules = vcg_list vcg_put_event vcg_seeded vcg_new_client vcg_producer scenario_rules vcg_mcatch vcg_sum sdk_fun_ordinary json_index_ordinary
  json_loads_ordinary json_get_attr_ordinary seed_ordinary guarded_ordinary

end
