(* ===== verification/Scenarios_Receipts.thy ===== *)
theory Scenarios_Receipts
  imports Trust_Kit
begin

text \<open>
  The scenarios of the catalogue on receipts and self-certifying identities: the receipt's happy path (S22), tampered receipts
  (S23), \<^verbatim>\<open>did:key\<close> agents (S25) and diverging hashes (S26).
\<close>

section \<open>S22: a receipt required and verified\<close>

definition S22 :: "'w scenario" where
  "S22 = scenario_def ''s22_receipts'' ''Registry Receipts (happy path)''
     (''A did:key agent publishes to the receipts-profile registry; the consumer verifies the registry-signed receipt under a Require policy ''
      @ em_dash @ '' recomputed body hash, signature, and the serving-authority + origin bindings. The standing end-to-end receipts demo.'')
     ''single'' 1 [(''topic'', JStr ''supply-chain risk snapshot'')]"

definition require_receipt :: "json \<Rightarrow> json result" where
  "require_receipt receipt =
     (if receipt = JNull then Inl (ReceiptRequired ''registry advertised receipts but served none'') else Inr receipt)"

text \<open>The local variables of the live part.\<close>

record s22_live =
  lv_ctx_id :: "string option"
  lv_body :: json
  lv_receipt :: json
  lv_content_hash :: json
  lv_receipt_present :: bool
  lv_body_offline_ok :: json
  lv_receipt_verified :: json
  lv_authority_binding_ok :: bool
  lv_origin_binding_ok :: bool
  lv_require_policy_fail_closed :: bool

definition s22_start :: s22_live where
  "s22_start = \<lparr>lv_ctx_id = None, lv_body = JNull, lv_receipt = JNull, lv_content_hash = JNull, lv_receipt_present = False,
     lv_body_offline_ok = JBool False, lv_receipt_verified = JBool False, lv_authority_binding_ok = False,
     lv_origin_binding_ok = False, lv_require_policy_fail_closed = False\<rparr>"

definition s22_publish :: "'w scen_env \<Rightarrow> run_spec \<Rightarrow> client \<Rightarrow> producer \<Rightarrow> string \<Rightarrow> string \<Rightarrow> string \<Rightarrow> s22_live \<Rightarrow> ('w, s22_live) act" where
  "s22_publish sn spec cl p fp title raw l =
     mbind (mcall (publish_context (sn_env sn) (sn_client sn) cl raw None)) (\<lambda>resp.
     mbind (put_event_with sn spec ''acdp.publish'' (\<lambda>e. e\<lparr>se_agent_id := Some (agent_did p), se_ctx_id := Some (pr_ctx_id resp),
              se_title := Some title, se_preview := Some (''did:key '' @ arrow @ '' receipts registry''), se_key_fingerprint := Some fp\<rparr>)) (\<lambda>_.
     mret (l\<lparr>lv_ctx_id := Some (pr_ctx_id resp)\<rparr>)))"

definition s22_retrieve :: "'w scen_env \<Rightarrow> client \<Rightarrow> s22_live \<Rightarrow> ('w, s22_live) act" where
  "s22_retrieve sn cl l =
     mbind (mcall (retrieve_raw (sn_env sn) (sn_client sn) cl (the (lv_ctx_id l)) None)) (\<lambda>full.
     mbind (mlift (json_index full ''body'')) (\<lambda>body.
     mbind (mlift (json_get_attr full ''registry_receipt'' JNull)) (\<lambda>receipt.
     mret (l\<lparr>lv_body := body, lv_receipt := receipt, lv_receipt_present := (receipt \<noteq> JNull)\<rparr>))))"

definition s22_require :: "string option \<Rightarrow> s22_live \<Rightarrow> ('w, s22_live) act" where
  "s22_require pub l =
     (if pub = None then mraise (ReceiptRequired ''no registry receipt key provisioned'')
      else mbind (mlift (require_receipt (lv_receipt l))) (\<lambda>receipt. mret (l\<lparr>lv_receipt := receipt\<rparr>)))"

text \<open>\<^verbatim>\<open>verify_body_offline\<close> for its value.\<close>

definition s22_check_body :: "'w scen_env \<Rightarrow> s22_live \<Rightarrow> ('w, s22_live) act" where
  "s22_check_body sn l =
     mbind (mlift (json_index (lv_body l) ''content_hash'')) (\<lambda>echoed_hash.
     mbind (mlift (verify_content_hash (sn_sdk sn) (dumps sn (lv_body l)) echoed_hash)) (\<lambda>_.
     mbind (mlift (sdk_fun sn ''AcdpVerifier.verify_body_offline'' [JStr (dumps sn (lv_body l))])) (\<lambda>ok.
     mret (l\<lparr>lv_content_hash := echoed_hash, lv_body_offline_ok := ok\<rparr>))))"

definition s22_verify :: "'w scen_env \<Rightarrow> string \<Rightarrow> string \<Rightarrow> s22_live \<Rightarrow> ('w, s22_live) act" where
  "s22_verify sn pub fp l =
     mbind (mlift (sdk_fun sn ''AcdpVerifier.verify_receipt'' [JStr (dumps sn (lv_receipt l)), JStr (dumps sn (lv_body l)), JStr pub,
              JStr (the (lv_ctx_id l)), lv_content_hash l, JStr fp])) (\<lambda>ok.
     mret (l\<lparr>lv_receipt_verified := ok\<rparr>))"

definition s22_bindings :: "string \<Rightarrow> s22_live \<Rightarrow> ('w, s22_live) act" where
  "s22_bindings authority l =
     mbind (mlift (json_get_attr (lv_receipt l) ''registry_did'' JNull)) (\<lambda>did.
     mbind (mlift (json_get_attr (lv_receipt l) ''origin_registry'' JNull)) (\<lambda>origin.
     mret (l\<lparr>lv_authority_binding_ok := (did = JStr (''did:web:'' @ authority)), lv_origin_binding_ok := (origin = JStr authority)\<rparr>)))"

definition s22_fail_closed :: "'w scen_env \<Rightarrow> run_spec \<Rightarrow> producer \<Rightarrow> string \<Rightarrow> s22_live \<Rightarrow> ('w, s22_live) act" where
  "s22_fail_closed sn spec p fp l =
     mbind (put_event_with sn spec ''acdp.verify'' (\<lambda>e. e\<lparr>se_agent_id := Some (agent_did p), se_ctx_id := lv_ctx_id l,
              se_title := Some ''Registry receipt verified'',
              se_preview := Some (''verified='' @ str_json (je sn) (lv_receipt_verified l) @ '' authority_binding='' @ py_bool (lv_authority_binding_ok l)),
              se_key_fingerprint := Some fp, se_receipt_present := Some (lv_receipt_present l)\<rparr>)) (\<lambda>_.
     mret (l\<lparr>lv_require_policy_fail_closed := isl (require_receipt JNull)\<rparr>))"

definition s22_steps :: "'w scen_env \<Rightarrow> run_spec \<Rightarrow> client \<Rightarrow> producer \<Rightarrow> string \<Rightarrow> string option \<Rightarrow> string \<Rightarrow> string
     \<Rightarrow> (s22_live \<Rightarrow> ('w, s22_live) act) list" where
  "s22_steps sn spec cl p fp pub title raw =
     [s22_publish sn spec cl p fp title raw, s22_retrieve sn cl, s22_require pub, s22_check_body sn, s22_verify sn (the pub) fp,
      s22_bindings (registry_a_authority (sn_settings sn))] @ [s22_fail_closed sn spec p fp]"

definition s22_outcome :: "'w scen_env \<Rightarrow> s22_live \<times> exn option \<Rightarrow> string" where
  "s22_outcome sn lived =
     (case snd lived of
        None \<Rightarrow> if truthy (lv_receipt_verified (fst lived)) then ''verified'' else ''verify_failed''
      | Some e \<Rightarrow> (case as_receipt_required e of Some msg \<Rightarrow> ''require_failed:'' @ msg | None \<Rightarrow> round_trip_failure sn e))"

definition s22_live_ok :: "s22_live \<Rightarrow> bool" where
  "s22_live_ok l \<longleftrightarrow> lv_receipt_present l \<and> truthy (lv_receipt_verified l) \<and> truthy (lv_body_offline_ok l)
     \<and> lv_authority_binding_ok l \<and> lv_origin_binding_ok l \<and> lv_require_policy_fail_closed l"

definition s22_summary :: "'w scen_env \<Rightarrow> json \<Rightarrow> s22_live \<times> exn option \<Rightarrow> obj" where
  "s22_summary sn offline lived =
     (let l = fst lived in
      [(''producer_did_method'', JStr ''did:key''), (''offline_publish_verified'', offline),
       (''registry_round_trip'', JStr (s22_outcome sn lived)), (''receipt_present'', JBool (lv_receipt_present l)),
       (''receipt_verified'', lv_receipt_verified l), (''body_offline_verified'', lv_body_offline_ok l),
       (''authority_binding_ok'', JBool (lv_authority_binding_ok l)), (''origin_binding_ok'', JBool (lv_origin_binding_ok l)),
       (''require_policy_fail_closed'', JBool (lv_require_policy_fail_closed l))]
      @ (if s22_live_ok l then [] else [(''degraded'', JBool True)]))"

definition s22_run :: "'w scenario_act" where
  "s22_run sn spec =
     (let title = input_text sn spec ''topic'' ''supply-chain risk snapshot'' @ '' '' @ em_dash @ '' receipted'';
          authority = registry_a_authority (sn_settings sn) in
      mbind (mlift (from_seed_did_key sn (agent_seed spec ''receipt-publisher''))) (\<lambda>p.
      mbind (mlift (rbind (sdk_fun sn ''AcdpVerifier.fingerprint_ed25519_b64'' [JStr (public_key_b64 p)])
               (\<lambda>j. Inr (str_json (je sn) j)))) (\<lambda>fp.
      mbind (mlift (receipt_pub sn)) (\<lambda>pub.
      mbind (mlift (new_client (registry_a_url (sn_settings sn)) None (Some (sp_run_id spec)) None False None tenant_mode.Fallback True)) (\<lambda>cl.
      mbind (mlift (build_publish_request p
               [(''title'', JStr title), (''context_type'', JStr ''data_snapshot''), (''visibility'', JStr ''public''),
                (''summary'', JStr ''Published to a receipts-profile registry.''), (''domain'', JStr ''supply-chain''),
                (''tags'', JList [JStr ''receipts'', JStr ''trust''])])) (\<lambda>raw.
      mbind (mlift (sdk_fun sn ''AcdpVerifier.verify_publish_request_offline'' [JStr raw])) (\<lambda>offline.
      mbind (run_steps (s22_steps sn spec cl p fp pub title raw) s22_start) (\<lambda>lived.
      let contexts = (case nonempty_str (lv_ctx_id (fst lived)) of Some c \<Rightarrow> [c] | None \<Rightarrow> []) in
      mret (run_result_of spec ''s22_receipts'' contexts
              (graph (map (\<lambda>c. did_node c (agent_did p) title ''data_snapshot'' authority 1) contexts) [])
              (s22_summary sn offline lived)
              (if truthy offline then None else Some ''did:key publish request failed offline verification''))))))))))"

lemma quietly_s22_steps:
  assumes "civil_scen sn" "civil_client cl" "civil_producer p"
  shows "quietly (\<lambda>_. True) (run_steps (s22_steps sn spec cl p fp pub title raw) l)"
proof (rule vcg_run_steps)
  fix f and l :: s22_live
  assume "f \<in> set (s22_steps sn spec cl p fp pub title raw)"
  then consider "f = s22_publish sn spec cl p fp title raw" | "f = s22_retrieve sn cl" | "f = s22_require pub" | "f = s22_check_body sn"
    | "f = s22_verify sn (the pub) fp" | "f = s22_bindings (registry_a_authority (sn_settings sn))" | "f = s22_fail_closed sn spec p fp"
    by (auto simp: s22_steps_def)
  then show "quietly (\<lambda>_. True) (f l)"
    using assms(1,2)
    by cases (simp_all only: s22_publish_def s22_retrieve_def s22_require_def s22_check_body_def s22_verify_def s22_bindings_def s22_fail_closed_def,
       (rule trust_rules | assumption | (simp add: require_receipt_def ReceiptRequired_def)[1])+)
qed

interpretation s22: scenario_contract s22_run "''s22_receipts''"
  by unfold_locales
     (simp only: s22_run_def Let_def,
      (rule quietly_s22_steps ordinary_rbind trust_rules | assumption
       | (simp add: graph_simps did_node_def seed_ordinary split: option.split)[1])+)

section \<open>S25: did:key agents\<close>

definition S25 :: "'w scenario" where
  "S25 = scenario_def ''s25_did_key'' ''did:key Ephemeral Agents''
     (''Short-lived did:key agents publish with keys embedded in the DID; consumers verify entirely offline (no DID fetch). A rotated did:key is a new identity, so it cannot supersede ''
      @ em_dash @ '' pinning the documented lineage-continuity tradeoff.'')
     ''single'' 3 [(''agent_count'', JInt 3)]"

definition did_key_producer :: "'w scen_env \<Rightarrow> run_spec \<Rightarrow> string \<Rightarrow> producer result" where
  "did_key_producer sn spec slug = from_seed_did_key sn (agent_seed spec slug)"

text \<open>One agent's request and whether it verifies offline.\<close>

definition s25_prepare :: "'w scen_env \<Rightarrow> run_spec \<Rightarrow> int \<Rightarrow> ('w, producer \<times> string \<times> bool) act" where
  "s25_prepare sn spec i =
     mbind (mlift (did_key_producer sn spec (''ephemeral-'' @ str_int i))) (\<lambda>p.
     mbind (if py_startswith (agent_did p) ''did:key:'' then mret () else mraise AssertionError) (\<lambda>_.
     mbind (mlift (build_publish_request p
              [(''title'', JStr (''ephemeral snapshot '' @ str_int i)), (''context_type'', JStr ''data_snapshot''),
               (''visibility'', JStr ''public''), (''summary'', JStr (''Published by ephemeral did:key agent '' @ str_int i @ ''.'')),
               (''tags'', JList [JStr ''did-key'', JStr ''ephemeral''])])) (\<lambda>raw.
     mbind (mlift (sdk_fun sn ''AcdpVerifier.verify_publish_request_offline'' [JStr raw])) (\<lambda>ok.
     mret (p, raw, truthy ok)))))"

definition s25_tamper :: "'w scen_env \<Rightarrow> string \<Rightarrow> ('w, bool) act" where
  "s25_tamper sn sample =
     mbind (mlift (json_loads sample)) (\<lambda>request.
     mbind (mlift (json_index request ''title'')) (\<lambda>title.
     mbind (mlift (str_concat title '' (tampered)'')) (\<lambda>title'.
     mbind (mlift (json_set request ''title'' title')) (\<lambda>tampered.
     mbind (mlift (expect_rejection (et_str (sn_texts sn)) SDK_REJECTIONS
              (sdk_fun sn ''AcdpVerifier.verify_publish_request_offline'' [JStr (dumps sn tampered)]))) (\<lambda>(rejected, why).
     mret rejected)))))"

record s25_live =
  kv_published :: "(string \<times> string) list"
  kv_outcome :: string
  kv_retrieved_verified :: int
  kv_supersede_rejected :: bool
  kv_supersede_outcome :: string

definition s25_start :: s25_live where
  "s25_start = \<lparr>kv_published = [], kv_outcome = ''skipped'', kv_retrieved_verified = 0, kv_supersede_rejected = False,
     kv_supersede_outcome = ''skipped''\<rparr>"

definition s25_publish :: "'w scen_env \<Rightarrow> run_spec \<Rightarrow> client \<Rightarrow> producer \<times> string \<times> bool \<Rightarrow> s25_live \<Rightarrow> ('w, s25_live) act" where
  "s25_publish sn spec cl req l =
     (case req of (p, raw, ok) \<Rightarrow>
        mbind (mcall (publish_context (sn_env sn) (sn_client sn) cl raw None)) (\<lambda>resp.
        mbind (put_event_with sn spec ''acdp.publish'' (\<lambda>e. e\<lparr>se_agent_id := Some (agent_did p), se_ctx_id := Some (pr_ctx_id resp),
                 se_title := Some ''ephemeral did:key publish'', se_preview := Some ''did:key''\<rparr>)) (\<lambda>_.
        mret (l\<lparr>kv_published := kv_published l @ [(pr_ctx_id resp, agent_did p)]\<rparr>))))"

definition s25_retrieve :: "'w scen_env \<Rightarrow> client \<Rightarrow> string \<times> string \<Rightarrow> s25_live \<Rightarrow> ('w, s25_live) act" where
  "s25_retrieve sn cl pub l =
     mbind (mcall (retrieve_raw (sn_env sn) (sn_client sn) cl (fst pub) None)) (\<lambda>full.
     mbind (mlift (json_index full ''body'')) (\<lambda>body.
     mbind (mlift (sdk_fun sn ''AcdpVerifier.verify_body_offline'' [JStr (dumps sn body)])) (\<lambda>ok.
     mret (l\<lparr>kv_retrieved_verified := kv_retrieved_verified l + (if truthy ok then 1 else 0)\<rparr>))))"

definition s25_published :: "s25_live \<Rightarrow> ('w, s25_live) act" where
  "s25_published l = mret (l\<lparr>kv_outcome := ''published_'' @ str_int (int (length (kv_published l)))\<rparr>)"

definition ACCEPTED_CROSS_IDENTITY :: string where
  "ACCEPTED_CROSS_IDENTITY = ''accepted_cross_identity_supersede''"

text \<open>The rotated identity tries to supersede the first context.\<close>

definition s25_supersede :: "'w scen_env \<Rightarrow> client \<Rightarrow> producer \<Rightarrow> s25_live \<Rightarrow> ('w, s25_live) act" where
  "s25_supersede sn cl rotated l =
     (case kv_published l of
        [] \<Rightarrow> mret l
      | (first_ctx, _) # _ \<Rightarrow>
          mbind (mcall (retrieve_raw (sn_env sn) (sn_client sn) cl first_ctx None)) (\<lambda>prev_raw.
          mbind (mlift (json_index prev_raw ''body'')) (\<lambda>prev_body.
          mbind (mlift (build_supersede_request rotated
                   [(''previous_body_json'', JStr (dumps sn prev_body)), (''title'', JStr ''hostile supersession by a rotated identity''),
                    (''summary'', JStr ''should be rejected: rotated did:key is not the original producer.'')])) (\<lambda>supersede_raw.
          mtry (mbind (mcall (publish_context (sn_env sn) (sn_client sn) cl supersede_raw None)) (\<lambda>_.
                mret (l\<lparr>kv_supersede_outcome := ACCEPTED_CROSS_IDENTITY\<rparr>)))
            (\<lambda>e. case as_http_error e of
               Some h \<Rightarrow> mret (l\<lparr>kv_supersede_outcome := ''http_'' @ str_int (he_status h) @ '':'' @ py_opt_str (he_code h),
                               kv_supersede_rejected := (400 \<le> he_status h \<and> he_status h < 500)\<rparr>)
             | None \<Rightarrow> mraise e)))))"

definition s25_live_part :: "'w scen_env \<Rightarrow> run_spec \<Rightarrow> client \<Rightarrow> producer \<Rightarrow> (producer \<times> string \<times> bool) list \<Rightarrow> ('w, s25_live) act" where
  "s25_live_part sn spec cl rotated requests =
     (let ended = (\<lambda>(l, err). mret (case err of None \<Rightarrow> l | Some e \<Rightarrow> l\<lparr>kv_outcome := round_trip_failure sn e\<rparr>)) in
      mbind (run_steps (map (s25_publish sn spec cl) requests) s25_start) (\<lambda>(l, err).
      if err \<noteq> None then ended (l, err)
      else mbind (run_steps (map (s25_retrieve sn cl) (kv_published l) @ [s25_published, s25_supersede sn cl rotated]) l) ended))"

definition s25_run :: "'w scenario_act" where
  "s25_run sn spec =
     (let authority = registry_a_authority (sn_settings sn) in
      mbind (mlift (py_int (dict_get_default (sp_inputs spec) ''agent_count'' (JInt 3)))) (\<lambda>n.
      mbind (anonymous_client sn (sp_run_id spec) Registry_A None tenant_mode.Fallback) (\<lambda>cl.
      mbind (mfor (s25_prepare sn spec) (map int [0..<nat n])) (\<lambda>requests.
      let offline_verified = int (length (filter (\<lambda>(p, raw, ok). ok) requests)) in
      case requests of
        [] \<Rightarrow> mraise IndexError
      | (original, sample, _) # _ \<Rightarrow>
      mbind (s25_tamper sn sample) (\<lambda>tamper_rejected.
      mbind (mlift (did_key_producer sn spec ''ephemeral-0-rotated'')) (\<lambda>rotated.
      let identity_changed = (agent_did original \<noteq> agent_did rotated);
          offline_core_ok = (offline_verified = n \<and> tamper_rejected \<and> identity_changed) in
      mbind (tell sn spec ''acdp.verify'' (Some (agent_did original)) ''did:key bodies verified offline''
               (str_int offline_verified @ ''/'' @ str_int n @ '' verified offline; rotation_is_new_identity='' @ py_bool identity_changed)) (\<lambda>_.
      mbind (s25_live_part sn spec cl rotated requests) (\<lambda>l.
      let live_ok = (int (length (kv_published l)) = n \<and> kv_retrieved_verified l = n \<and> kv_supersede_rejected l);
          ok = (offline_core_ok \<and> kv_supersede_outcome l \<noteq> ACCEPTED_CROSS_IDENTITY) in
      mret (run_result_of spec ''s25_did_key'' (map fst (kv_published l))
              (graph (map (\<lambda>(i, c, did). did_node c did (''ephemeral snapshot '' @ str_int (int i)) ''data_snapshot'' authority (int i + 1))
                        (zip [0..<length (kv_published l)] (kv_published l))) [])
              ([(''agent_count'', JInt n), (''offline_verified'', JInt offline_verified), (''tamper_rejected'', JBool tamper_rejected),
                (''rotation_is_new_identity'', JBool identity_changed), (''offline_core_ok'', JBool offline_core_ok),
                (''registry_round_trip'', JStr (kv_outcome l)), (''retrieved_verified_offline'', JInt (kv_retrieved_verified l)),
                (''supersede_outcome'', JStr (kv_supersede_outcome l)), (''supersede_rejected'', JBool (kv_supersede_rejected l))]
               @ (if live_ok then [] else [(''degraded'', JBool True)]))
              (if ok then None else Some ''did:key offline core failed or registry accepted a cross-identity supersession''))))))))))"

lemma vcg_did_key:
  "civil_scen sn \<Longrightarrow> (\<And>p. civil_producer p \<Longrightarrow> quietly P (f p)) \<Longrightarrow> quietly P (mbind (mlift (did_key_producer sn spec slug)) f)"
  unfolding did_key_producer_def by (rule vcg_seeded)

lemma quietly_s25_prepare: "civil_scen sn \<Longrightarrow> quietly (\<lambda>_. True) (s25_prepare sn spec i)"
  unfolding s25_prepare_def by (rule vcg_did_key trust_rules | assumption | simp)+

lemma quietly_s25_tamper: "civil_scen sn \<Longrightarrow> quietly (\<lambda>_. True) (s25_tamper sn sample)"
  unfolding s25_tamper_def by (rule trust_rules | assumption | simp)+

lemma quietly_s25_step:
  assumes "civil_scen sn" "civil_client cl"
  shows "quietly (\<lambda>_. True) (s25_publish sn spec cl req l)" "quietly (\<lambda>_. True) (s25_retrieve sn cl pub l)"
    "quietly (\<lambda>_. True) (s25_published l)"
    "civil_producer p \<Longrightarrow> quietly (\<lambda>_. True) (s25_supersede sn cl p l)"
proof -
  show "quietly (\<lambda>_. True) (s25_publish sn spec cl req l)"
    unfolding s25_publish_def by (rule trust_rules assms | simp)+
  show "quietly (\<lambda>_. True) (s25_retrieve sn cl pub l)" "quietly (\<lambda>_. True) (s25_published l)"
    unfolding s25_retrieve_def s25_published_def by (rule trust_rules assms | simp)+
  assume p: "civil_producer p"
  show "quietly (\<lambda>_. True) (s25_supersede sn cl p l)"
    unfolding s25_supersede_def by (rule trust_rules assms p | simp)+
qed

lemma quietly_s25_live_part:
  assumes "civil_scen sn" "civil_client cl" "civil_producer p"
  shows "quietly (\<lambda>_. True) (s25_live_part sn spec cl p reqs)"
proof -
  have "quietly (\<lambda>_. True) (run_steps (map (s25_publish sn spec cl) reqs) l)"
    "quietly (\<lambda>_. True) (run_steps (map (s25_retrieve sn cl) ps @ [s25_published, s25_supersede sn cl p]) l)" for ps l
    by (rule vcg_run_steps, auto simp: quietly_s25_step(1-3)[OF assms(1,2)] quietly_s25_step(4)[OF assms])+
  then show ?thesis unfolding s25_live_part_def Let_def by (auto intro!: vcg split: prod.splits)
qed

interpretation s25: scenario_contract s25_run "''s25_did_key''"
  by unfold_locales
     (simp only: s25_run_def Let_def,
      (rule vcg_anonymous vcg_did_key quietly_s25_prepare quietly_s25_tamper quietly_s25_live_part vcg_mfor trust_rules | assumption
       | (force simp: graph_simps did_node_def in_set_zip in_set_conv_nth)[1] | simp)+)

section \<open>S26: diverging hashes\<close>

definition S26 :: "'w scenario" where
  "S26 = scenario_def ''s26_divergence'' ''Divergence Diagnostics''
     ''A deliberately buggy producer emits non-reproducible content hashes (omitted acdp_version, sub-millisecond timestamps); the ACDP 0.2 explain_hash_mismatch / canonical_preimage API names the cause. Doubles as a registry hash_mismatch rejection demo.''
     ''single'' 1 [(''topic'', JStr ''quarterly revenue model'')]"

definition body_of :: "json \<Rightarrow> obj result" where
  "body_of request = rbind (json_items request) (\<lambda>kvs. Inr (filter (\<lambda>(k, v). k \<noteq> ''signature'') kvs))"

text \<open>The first divergence: the explicit request, its hash, and whether hashes differ and the cause is named.\<close>

definition s26_version :: "'w scen_env \<Rightarrow> run_spec \<Rightarrow> producer \<Rightarrow> obj \<Rightarrow> ('w, json \<times> bool \<times> bool) act" where
  "s26_version sn spec p common =
     mbind (mlift (rbind (build_publish_request p (common @ [(''acdp_version'', JStr ''0.2.0'')])) json_loads)) (\<lambda>req_explicit.
     mbind (mlift (rbind (build_publish_request p (common @ [(''omit_acdp_version'', JBool True)])) json_loads)) (\<lambda>req_omitted.
     mbind (mlift (json_index req_explicit ''content_hash'')) (\<lambda>hash_explicit.
     mbind (mlift (json_index req_omitted ''content_hash'')) (\<lambda>hash_omitted.
     mbind (mlift (body_of req_omitted)) (\<lambda>body.
     mbind (mlift (sdk_fun sn ''AcdpVerifier.explain_hash_mismatch'' [JStr (dumps sn (JObj body)), hash_explicit])) (\<lambda>explanation.
     mbind (mlift (py_in ''acdp_version'' explanation)) (\<lambda>identified.
     mbind (mlift (case as_str explanation of Some t \<Rightarrow> last_line t | None \<Rightarrow> Inl AttributeError)) (\<lambda>line.
     mbind (tell sn spec ''acdp.verify'' (Some (agent_did p)) ''acdp_version divergence diagnosed'' (py_take 160 line)) (\<lambda>_.
     mret (req_explicit, hash_explicit \<noteq> hash_omitted, identified))))))))))"

text \<open>The second: whether the preimages localise the mutated timestamp.\<close>

definition s26_timestamp :: "'w scen_env \<Rightarrow> producer \<Rightarrow> obj \<Rightarrow> ('w, bool) act" where
  "s26_timestamp sn p common =
     mbind (mlift (rbind (build_publish_request p (common @ [(''expires_at'', JStr ''2026-12-31T23:59:59.000Z'')])) json_loads)) (\<lambda>req_ttl.
     mbind (mlift (json_index req_ttl ''content_hash'')) (\<lambda>clean_hash.
     mbind (mlift (body_of req_ttl)) (\<lambda>clean_body.
     let buggy_body = AList.update ''expires_at'' (JStr ''2026-12-31T23:59:59.000123Z'') clean_body in
     mbind (mlift (sdk_fun sn ''AcdpVerifier.explain_hash_mismatch'' [JStr (dumps sn (JObj buggy_body)), clean_hash])) (\<lambda>explanation.
     mbind (mlift (sdk_fun sn ''AcdpVerifier.canonical_preimage'' [JStr (dumps sn (JObj clean_body))])) (\<lambda>clean_preimage.
     mbind (mlift (sdk_fun sn ''AcdpVerifier.canonical_preimage'' [JStr (dumps sn (JObj buggy_body))])) (\<lambda>buggy_preimage.
     mbind (mlift (py_in ''mismatch'' explanation)) (\<lambda>named.
     if named \<and> clean_preimage \<noteq> buggy_preimage then mlift (py_in ''000123'' buggy_preimage) else mret False)))))))"

definition ACCEPTED_TAMPERED :: string where
  "ACCEPTED_TAMPERED = ''accepted_tampered_body''"

definition s26_send_tampered :: "'w scen_env \<Rightarrow> agent \<Rightarrow> json \<Rightarrow> ('w, string \<times> bool) act" where
  "s26_send_tampered sn ag req_explicit =
     mbind (mlift (json_index req_explicit ''title'')) (\<lambda>title.
     mbind (mlift (str_concat title '' (tampered post-hash)'')) (\<lambda>title'.
     mbind (mlift (json_set req_explicit ''title'' title')) (\<lambda>tampered.
     mbind (mcatch (publish_with sn ag (dumps sn tampered) None)) (\<lambda>r.
     mret (case r of
             Inr _ \<Rightarrow> (ACCEPTED_TAMPERED, False)
           | Inl e \<Rightarrow> (round_trip_failure sn e,
                (case as_http_error e of Some h \<Rightarrow> he_status h = 400 \<and> he_code h = Some ''hash_mismatch'' | None \<Rightarrow> False)))))))"

definition s26_run :: "'w scenario_act" where
  "s26_run sn spec =
     (let topic = input_text sn spec ''topic'' ''quarterly revenue model'';
          common = [(''title'', JStr (topic @ '' '' @ em_dash @ '' divergence probe'')), (''context_type'', JStr ''analysis''),
            (''visibility'', JStr ''public''), (''summary'', JStr ''content_hash reproduction across SDK versions.''),
            (''domain'', JStr ''finance'')] in
      mbind (make_langchain_agent sn spec ''buggy-producer'' did_key_opts) (\<lambda>ag.
      mbind (s26_version sn spec (ag_producer ag) common) (\<lambda>(req_explicit, hashes_differ, cause_identified).
      mbind (s26_timestamp sn (ag_producer ag) common) (\<lambda>localized.
      let diagnostics_ok = (hashes_differ \<and> cause_identified \<and> localized) in
      mbind (s26_send_tampered sn ag req_explicit) (\<lambda>(outcome, rejected_as_expected).
      let ok = (diagnostics_ok \<and> outcome \<noteq> ACCEPTED_TAMPERED) in
      mret (run_result_of spec ''s26_divergence'' [] (graph [] [])
              ([(''version_hashes_differ'', JBool hashes_differ), (''version_cause_identified'', JBool cause_identified),
                (''preimage_diff_localized'', JBool localized), (''diagnostics_ok'', JBool diagnostics_ok),
                (''registry_rejection'', JStr outcome), (''rejected_as_hash_mismatch'', JBool rejected_as_expected)]
               @ (if py_startswith outcome ''unreachable'' then [(''degraded'', JBool True)] else []))
              (if ok then None
               else Some (''divergence diagnostics or hash-mismatch rejection failed ('' @ outcome @ '')''))))))))"

lemma body_of_ordinary [simp]: "ordinary (body_of j)"
  unfolding body_of_def by (rule ordinary_rbind) simp_all

lemma quietly_s26:
  assumes "civil_scen sn"
  shows "civil_producer p \<Longrightarrow> quietly (\<lambda>_. True) (s26_version sn spec p common)"
    "civil_producer p \<Longrightarrow> quietly (\<lambda>_. True) (s26_timestamp sn p common)"
    "civil_agent ag \<Longrightarrow> quietly (\<lambda>_. True) (s26_send_tampered sn ag j)"
  unfolding s26_version_def s26_timestamp_def s26_send_tampered_def Let_def
  by (rule ordinary_rbind trust_rules assms | assumption | (simp split: option.split)[1])+

interpretation s26: scenario_contract s26_run "''s26_divergence''"
  by unfold_locales
     (simp only: s26_run_def Let_def, (rule quietly_s26 trust_rules | assumption | (simp add: graph_simps)[1])+)

section \<open>S23: tampered receipts\<close>

definition S23 :: "'w scenario" where
  "S23 = scenario_def ''s23_receipt_tamper'' ''Receipt Tamper (fail-closed)''
     ''A misbehaving registry serves missing/mutated/mismatched receipts; the SDK fails closed on every one under a Require policy. Deterministic offline proof that a forged receipt is rejected on the exact binding it violates.''
     ''single'' 1 []"

definition expect_rejected ::
  "'w scen_env \<Rightarrow> obj \<Rightarrow> obj \<Rightarrow> string \<Rightarrow> string \<Rightarrow> json \<Rightarrow> string \<Rightarrow> (bool \<times> string) result" where
  "expect_rejected sn receipt body pub expected_ctx recomputed_hash fp =
     rbind (expect_rejection (et_str (sn_texts sn)) SDK_REJECTIONS
       (sdk_fun sn ''AcdpVerifier.verify_receipt'' [JStr (dumps sn (JObj receipt)), JStr (dumps sn (JObj body)), JStr pub,
          JStr expected_ctx, recomputed_hash, JStr fp])) (\<lambda>(rejected, why).
     Inr (if rejected then (True, why) else (False, ''verify_receipt accepted a tampered receipt'')))"

definition ADVERSARY_URL :: string where
  "ADVERSARY_URL = ''http://s23-substituting-registry.invalid''"

text \<open>The registry of the substitution case answers every request with the one body; it is a mock transport, so nothing is sent.\<close>

definition adversary_env :: "'w scen_env \<Rightarrow> obj \<Rightarrow> 'w env" where
  "adversary_env sn served =
     (sn_env sn)\<lparr>transport := (\<lambda>w rq. (w, Inr (json_answer 200
        (JObj [(''body'', JObj served), (''registry_state'', JObj [(''status'', JStr ''active'')])]))))\<rparr>"

definition report :: "bool \<Rightarrow> string \<Rightarrow> obj" where
  "report rejected why = [(''rejected'', JBool rejected), (''why'', JStr why)]"

definition substituted_body_rejected :: "'w scen_env \<Rightarrow> obj \<Rightarrow> string \<Rightarrow> ('w, obj) act" where
  "substituted_body_rejected sn served requested =
     mbind (mget (\<lambda>st. snd (snd (retrieve (adversary_env sn served) (sn_client sn) (plain_client ADVERSARY_URL) requested (r_io st) (r_tm st))))) (\<lambda>r.
     case r of
       Inr _ \<Rightarrow> mret (report False ''the client accepted a substituted body (fail-open)'')
     | Inl e \<Rightarrow>
         (case e of
            CtxIdBindingError reason req served_id \<Rightarrow>
              mret (report (reason = Mismatch \<and> req = Some requested \<and> served_id = obj_get served ''ctx_id'') (py_take 200 (exn_str sn e)))
          | _ \<Rightarrow> mraise e))"

definition s23_base :: "string \<Rightarrow> string \<Rightarrow> string \<Rightarrow> string \<Rightarrow> json \<Rightarrow> string \<Rightarrow> obj" where
  "s23_base authority ctx_id lineage_id created_at body_hash fp =
     [(''registry_did'', JStr (''did:web:'' @ authority)), (''ctx_id'', JStr ctx_id), (''lineage_id'', JStr lineage_id),
      (''origin_registry'', JStr authority), (''created_at'', JStr created_at), (''content_hash'', body_hash), (''key_fingerprint'', JStr fp),
      (''signature'', JObj [(''algorithm'', JStr ''ed25519''), (''key_id'', JStr (''did:web:'' @ authority @ ''#receipt-key-1'')),
         (''value'', JStr (replicate 86 CHR ''A'' @ ''==''))])]"

text \<open>A tampered case: its name, the receipt served, the hash recomputed, what the refusal has to mention and how much of it is kept.\<close>

record s23_case =
  tc_name :: string
  tc_receipt :: obj
  tc_hash :: json
  tc_mentions :: string
  tc_kept :: int

definition tampered_case :: "string \<Rightarrow> obj \<Rightarrow> json \<Rightarrow> s23_case" where
  "tampered_case name receipt hash = \<lparr>tc_name = name, tc_receipt = receipt, tc_hash = hash, tc_mentions = [], tc_kept = 120\<rparr>"

definition s23_cases :: "obj \<Rightarrow> json \<Rightarrow> string \<Rightarrow> string \<Rightarrow> s23_case list" where
  "s23_cases base body_hash other_ctx other_authority =
     [tampered_case ''mutated_created_at'' (AList.update ''created_at'' (JStr ''2026-06-12T00:00:00.000123Z'') base) body_hash,
      tampered_case ''mismatched_fingerprint'' (AList.update ''key_fingerprint'' (JStr (''sha256:'' @ concat (replicate 32 ''00''))) base) body_hash,
      tampered_case ''rebound_ctx_id'' (AList.update ''ctx_id'' (JStr other_ctx) base) body_hash,
      tampered_case ''mismatched_content_hash'' base (JStr (''sha256:'' @ concat (replicate 32 ''cd''))),
      tampered_case ''forged_signature'' base body_hash,
      (tampered_case ''rebound_lineage_id'' (AList.update ''lineage_id'' (JStr (synthetic_lineage_id ''s23-tamper-other-lineage'')) base) body_hash)
        \<lparr>tc_mentions := ''body lineage_id'', tc_kept := 200\<rparr>,
      (tampered_case ''rebound_origin_registry''
         (AList.update ''signature'' (JObj [(''algorithm'', JStr ''ed25519''), (''key_id'', JStr (''did:web:'' @ other_authority @ ''#receipt-key-1'')),
             (''value'', JStr (replicate 86 CHR ''A'' @ ''==''))])
           (AList.update ''registry_did'' (JStr (''did:web:'' @ other_authority))
              (AList.update ''origin_registry'' (JStr other_authority) base))) body_hash)
        \<lparr>tc_mentions := ''body origin_registry'', tc_kept := 200\<rparr>]"

definition s23_check :: "'w scen_env \<Rightarrow> obj \<Rightarrow> string \<Rightarrow> string \<Rightarrow> string \<Rightarrow> s23_case \<Rightarrow> ('w, string \<times> obj) act" where
  "s23_check sn body pub ctx_id fp c =
     mbind (mlift (expect_rejected sn (tc_receipt c) body pub ctx_id (tc_hash c) fp)) (\<lambda>(rejected, why).
     mret (tc_name c, report (rejected \<and> py_contains (tc_mentions c) why) (py_take (tc_kept c) why)))"

definition was_rejected :: "string \<times> obj \<Rightarrow> bool" where
  "was_rejected check \<longleftrightarrow> obj_get (snd check) ''rejected'' = JBool True"

definition s23_missing :: "string \<times> obj" where
  "s23_missing =
     (''missing_receipt'',
      (case require_receipt JNull of
         Inr _ \<Rightarrow> report False ''policy passed''
       | Inl e \<Rightarrow> report True (case as_receipt_required e of Some msg \<Rightarrow> msg | None \<Rightarrow> [])))"

text \<open>The body the honest registry served, and the fingerprint of its producer.\<close>

definition s23_body :: "'w scen_env \<Rightarrow> producer \<Rightarrow> string \<Rightarrow> ('w, obj) act" where
  "s23_body sn p ctx_id =
     mlift (rbind (build_publish_request p
        [(''title'', JStr ''Receipted context under attack''), (''context_type'', JStr ''analysis''), (''visibility'', JStr ''public''),
         (''summary'', JStr ''The body a misbehaving registry serves tampered receipts for.''), (''domain'', JStr ''provenance''),
         (''tags'', JList [JStr ''receipts'', JStr ''tamper''])]) (\<lambda>raw.
      synthesize_retrieval_body (float_repr (sn_env sn)) (et_str (sn_texts sn)) (sn_sdk sn) raw ctx_id
        (synthetic_lineage_id ''s23-tamper-victim'') (registry_a_authority (sn_settings sn)) ''2026-06-12T00:00:00.000Z''))"

definition s23_run :: "'w scenario_act" where
  "s23_run sn spec =
     (let authority = registry_a_authority (sn_settings sn); other_authority = registry_b_authority (sn_settings sn) in
      mbind (mlift (receipt_pub sn)) (\<lambda>key.
      case key of
        None \<Rightarrow> mret (run_result_of spec ''s23_receipt_tamper'' [] (graph [] [])
                  [(''degraded'', JBool True), (''reason'', JStr ''no receipt_signing_seed provisioned'')] None)
      | Some pub \<Rightarrow>
      mbind (mlift (producer_for sn spec ''tamper-victim'' authority ALG_ED25519 Did_web)) (\<lambda>p.
      mbind (mlift (rbind (sdk_fun sn ''AcdpVerifier.fingerprint_ed25519_b64'' [JStr (public_key_b64 p)])
               (\<lambda>j. Inr (str_json (je sn) j)))) (\<lambda>fp.
      mbind (mlift (synthetic_ctx_id authority ''s23-tamper-victim'')) (\<lambda>ctx_id.
      mbind (s23_body sn p ctx_id) (\<lambda>body.
      mbind (mlift (json_index (JObj body) ''content_hash'')) (\<lambda>body_hash.
      mbind (mlift (synthetic_ctx_id authority ''s23-tamper-other-context'')) (\<lambda>other_ctx.
      mbind (mfor (s23_check sn body pub ctx_id fp)
               (s23_cases (s23_base authority ctx_id (synthetic_lineage_id ''s23-tamper-victim'') ''2026-06-12T00:00:00.000Z'' body_hash fp)
                  body_hash other_ctx other_authority)) (\<lambda>checked.
      mbind (mlift (synthetic_ctx_id authority ''s23-substitution-requested'')) (\<lambda>requested.
      mbind (substituted_body_rejected sn body requested) (\<lambda>substituted.
      let checks = s23_missing # checked @ [(''substituted_body'', substituted)];
          all_failed_closed = list_all was_rejected checks in
      mbind (tell sn spec ''acdp.verify'' (Some (agent_did p)) ''All tampered receipts rejected''
               (str_int (int (length (filter was_rejected checks))) @ ''/'' @ str_int (int (length checks))
                @ '' dishonest receipts failed closed'')) (\<lambda>_.
      mret (run_result_of spec ''s23_receipt_tamper'' [] (graph [] [])
              [(''all_failed_closed'', JBool all_failed_closed), (''checks'', JObj (map (\<lambda>(name, c). (name, JObj c)) checks))]
              (if all_failed_closed then None else Some ''a tampered receipt was NOT rejected (fail-open)''))))))))))))))"

lemma synthesize_ordinary:
  assumes "civil_scen sn"
  shows "ordinary (synthesize_retrieval_body fr str_exn (sn_sdk sn) raw c l og ca)"
proof -
  have "ordinary (collisions j fs)" for j fs
    by (induction fs) (auto intro!: ordinary_rbind)
  moreover have "ordinary (offline_check str_exn (sn_sdk sn) req body_text)" for req body_text
    using sdk_fun_ordinary(3)[OF assms, of body_text] by (auto simp: offline_check_def split: sum.splits)
  ultimately show ?thesis unfolding synthesize_retrieval_body_def Let_def
    by (auto intro!: ordinary_rbind sdk_fun_ordinary(2)[OF assms] split: json.splits option.splits)
qed

lemma synthetic_ctx_id_ordinary [simp]: "ordinary (synthetic_ctx_id a s)"
  by (simp add: synthetic_ctx_id_def Let_def)

lemma quietly_substituted:
  assumes "civil_scen sn"
  shows "quietly (\<lambda>_. True) (substituted_body_rejected sn served requested)"
proof -
  have "civil_env (adversary_env sn served) (sn_client sn)"
    using civil_scen_env[OF assms] by (auto simp: civil_env_def adversary_env_def)
  moreover have "civil_client (plain_client ADVERSARY_URL)" by (simp add: civil_client_def plain_client_def)
  ultimately have o: "ordinary (snd (snd (retrieve (adversary_env sn served) (sn_client sn) (plain_client ADVERSARY_URL) requested io tm)))" for io tm
    using safe_calls(2)[of _ _ _ requested] unfolding safe_call_def by blast
  show ?thesis unfolding substituted_body_rejected_def
    by (rule quietly_post[where Q = ordinary], rule vcg_mget, rule o) (auto intro!: vcg split: sum.splits exn.splits simp: ordinary_def)
qed

lemma quietly_s23_check: "civil_scen sn \<Longrightarrow> quietly (\<lambda>_. True) (s23_check sn body pub c fp tc)"
  unfolding s23_check_def expect_rejected_def by (rule ordinary_rbind trust_rules | assumption | (simp split: prod.split)[1])+

interpretation s23: scenario_contract s23_run "''s23_receipt_tamper''"
  by unfold_locales
     (simp only: s23_run_def s23_body_def Let_def,
      (rule quietly_substituted quietly_s23_check synthesize_ordinary ordinary_rbind trust_rules | assumption
       | (simp add: graph_simps seed_ordinary)[1])+)

end
