(* ===== verification/Receipt_Verdicts.thy ===== *)
theory Receipt_Verdicts
  imports Scenarios_Receipts
begin

text \<open>
  What the verdicts of the receipt scenarios mean: a run of S22 that is not degraded verified a receipt in full, and S23 with a
  receipt key passes exactly an SDK that refuses the seven tampered receipts written out below.
\<close>

lemma mlift_Inr: "mlift r st = (st', Inr a) \<longleftrightarrow> st' = st \<and> r = Inr a"
  by (auto simp: mlift_def)

section \<open>S22\<close>

lemma s22_before_last:
  assumes "f \<in> set [s22_publish sn spec cl p fp title raw, s22_retrieve sn cl, s22_require pub, s22_check_body sn, s22_verify sn (the pub) fp,
      s22_bindings a]" "\<not> lv_require_policy_fail_closed l"
  shows "returns (\<lambda>l'. \<not> lv_require_policy_fail_closed l') (f l)"
  using assms by (auto simp: s22_publish_def s22_retrieve_def s22_require_def s22_check_body_def s22_verify_def s22_bindings_def returns_def mbind_Inr split: if_splits)

text \<open>The checks a body and a receipt went through when the live part went well.\<close>

definition receipt_checked :: "'w scen_env \<Rightarrow> client \<Rightarrow> string \<Rightarrow> string \<Rightarrow> string \<Rightarrow> bool" where
  "receipt_checked sn cl fp pub ctx_id \<longleftrightarrow>
     (\<exists>s s' full body receipt h v. mcall (retrieve_raw (sn_env sn) (sn_client sn) cl ctx_id None) s = (s', Inr full)
      \<and> json_index full ''body'' = Inr body \<and> json_get_attr full ''registry_receipt'' JNull = Inr receipt \<and> receipt \<noteq> JNull
      \<and> json_index body ''content_hash'' = Inr h \<and> verify_content_hash (sn_sdk sn) (dumps sn body) h = Inr ()
      \<and> sdk_fun sn ''AcdpVerifier.verify_receipt'' [JStr (dumps sn receipt), JStr (dumps sn body), JStr pub, JStr ctx_id, h, JStr fp] = Inr v
      \<and> truthy v
      \<and> json_get_attr receipt ''registry_did'' JNull = Inr (JStr (''did:web:'' @ registry_a_authority (sn_settings sn)))
      \<and> json_get_attr receipt ''origin_registry'' JNull = Inr (JStr (registry_a_authority (sn_settings sn))))"

lemma s22_live_checked:
  assumes "run_steps (s22_steps sn spec cl p fp pub title raw) s22_start st = (st', Inr (l, err))" "s22_live_ok l"
  shows "\<exists>key ctx_id. pub = Some key \<and> lv_ctx_id l = Some ctx_id \<and> receipt_checked sn cl fp key ctx_id"
proof -
  have "run_steps (s22_steps sn spec cl p fp pub title raw) s22_start st = (st', Inr (l, None))"
    unfolding s22_steps_def
    by (rule run_steps_reached[OF assms(1)[unfolded s22_steps_def], where Q = lv_require_policy_fail_closed])
       (use assms(2) in \<open>auto simp: s22_start_def s22_live_ok_def intro: s22_before_last\<close>)
  with assms(2) show ?thesis
    unfolding receipt_checked_def s22_live_ok_def
    by (auto simp: s22_steps_def run_steps_all s22_start_def s22_publish_def s22_retrieve_def s22_require_def s22_check_body_def s22_verify_def
        s22_bindings_def s22_fail_closed_def mbind_Inr mlift_Inr require_receipt_def simp del: run_steps.simps mlift_iff split: if_splits) metis
qed

text \<open>
  C33. A run of S22 that is not degraded verified a receipt in full. The receipt was served with the context the run published, the
  content hash of the served body was recomputed, the SDK accepted the receipt for that body, that hash, the context's id, the registry's key and
  the fingerprint of the producer's key, and the receipt names the authority it was fetched from as registry and as origin. A
  missing receipt, a missing key or any error on the way is reported as degraded.
\<close>

theorem s22_undegraded_verified:
  assumes "s22_run sn spec st = (st', Inr r)" and "map_of (rr_summary r) ''degraded'' = None"
  shows "\<exists>p j key cl ctx_id. from_seed_did_key sn (agent_seed spec ''receipt-publisher'') = Inr p
    \<and> sdk_fun sn ''AcdpVerifier.fingerprint_ed25519_b64'' [JStr (public_key_b64 p)] = Inr j \<and> receipt_pub sn = Inr (Some key)
    \<and> cl_base cl = rstrip_char CHR ''/'' (registry_a_url (sn_settings sn)) \<and> cl_verify_binding cl
    \<and> rr_contexts r = (if ctx_id = [] then [] else [ctx_id]) \<and> receipt_checked sn cl (str_json (je sn) j) key ctx_id"
proof -
  from assms(1) obtain p j pub cl title raw offline s s' l err where
    run: "from_seed_did_key sn (agent_seed spec ''receipt-publisher'') = Inr p"
      "sdk_fun sn ''AcdpVerifier.fingerprint_ed25519_b64'' [JStr (public_key_b64 p)] = Inr j" "receipt_pub sn = Inr pub"
      "new_client (registry_a_url (sn_settings sn)) None (Some (sp_run_id spec)) None False None tenant_mode.Fallback True = Inr cl"
      "run_steps (s22_steps sn spec cl p (str_json (je sn) j) pub title raw) s22_start s = (s', Inr (l, err))"
    and r: "rr_summary r = s22_summary sn offline (l, err)"
      "rr_contexts r = (case nonempty_str (lv_ctx_id l) of Some c \<Rightarrow> [c] | None \<Rightarrow> [])"
    by (auto simp: s22_run_def Let_def mbind_Inr mlift_Inr rbind_eq_Inr simp del: mlift_iff)
  have ok: "s22_live_ok l" using assms(2) r(1) by (auto simp: s22_summary_def Let_def split: if_splits)
  obtain key ctx_id where k: "pub = Some key" "lv_ctx_id l = Some ctx_id" "receipt_checked sn cl (str_json (je sn) j) key ctx_id"
    using s22_live_checked[OF run(5) ok] by blast
  have "cl_base cl = rstrip_char CHR ''/'' (registry_a_url (sn_settings sn))" "cl_verify_binding cl"
    using run(4) by (auto simp: new_client_def rbind_eq_Inr)
  moreover have "rr_contexts r = (if ctx_id = [] then [] else [ctx_id])" using k(2) r(2) by (auto simp: nonempty_str_def split: list.splits)
  ultimately show ?thesis using run(1-3) k(1,3) by blast
qed

lemma put_event_sure: "\<exists>st' u. put_event_with sn spec typ upd st = (st', Inr u)"
  by (simp add: put_event_with_def mbind_def mnow_def mget_def mput_def)

lemma demo_receipt_pub: "receipt_pub (demo_scen answer) = Inr (Some [])"
proof -
  have "\<not> isl (b64decode ''9NKlBoCp1saUEzMgFonzReHSPbkEN9ba8NrAyR2TYYY='')" by code_simp
  then obtain bs where "b64decode ''9NKlBoCp1saUEzMgFonzReHSPbkEN9ba8NrAyR2TYYY='' = Inr bs" by (metis isl_def sum.exhaust_disc sum.collapse(2))
  then show ?thesis
    by (simp add: receipt_pub_def receipt_verification_public_key_b64_def demo_scen_def default_settings_def demo_signer_def demo_producer_def)
qed

definition receipted :: json where
  "receipted = JObj [(''body'', JObj [(''ctx_id'', JStr ''acdp://a/1''), (''content_hash'', JStr ''sha256:1'')]),
     (''registry_receipt'', JObj [(''registry_did'', JStr ''did:web:registry-a.playground.local''),
        (''origin_registry'', JStr ''registry-a.playground.local'')])]"

lemma receipted_parts:
  "json_index receipted ''body'' = Inr (JObj [(''ctx_id'', JStr ''acdp://a/1''), (''content_hash'', JStr ''sha256:1'')])"
  "json_get_attr receipted ''registry_receipt'' JNull = Inr (JObj [(''registry_did'', JStr ''did:web:registry-a.playground.local''),
        (''origin_registry'', JStr ''registry-a.playground.local'')])"
  "json_get_attr (JObj kvs) k d = Inr (dict_get_default kvs k d)"
  by (simp_all add: receipted_def json_get_attr_def dict_get_default_def)

lemma demo_authority: "registry_a_authority (sn_settings (demo_scen answer)) = ''registry-a.playground.local''"
  by (simp add: demo_scen_def default_settings_def)

lemma demo_seeds:
  "from_seed_did_key (demo_scen answer) s = Inr demo_signer" "from_seed (demo_scen answer) s d k = Inr demo_signer"
  "build_publish_request demo_signer kw = Inr request_text"
  by (simp_all add: demo_scen_def demo_signer_def)

theorem s22_undegraded_verified_witness:
  "\<exists>st' r cl fp. s22_run (demo_scen (\<lambda>rq. Inr (json_answer 200 receipted))) demo_spec demo_rst = (st', Inr r)
     \<and> rr_contexts r = [''acdp://a/1''] \<and> receipt_checked (demo_scen (\<lambda>rq. Inr (json_answer 200 receipted))) cl fp [] ''acdp://a/1''"
proof -
  let ?sn = "demo_scen (\<lambda>rq. Inr (json_answer 200 receipted))"
  let ?cl = "\<lparr>cl_base = ''http://localhost:8100'', cl_static_bearer = None, cl_run_id = Some (sp_run_id demo_spec), cl_producer = None,
      cl_has_token_manager = False, cl_tenant_id = None, cl_tenant_mode = tenant_mode.Fallback, cl_verify_binding = True\<rparr>"
  let ?ok = "\<lparr>pr_ctx_id = ''acdp://a/1'', pr_lineage_id = ''lin:1'', pr_version = 1, pr_created_at = 0, pr_status = ''active''\<rparr>"
  have cl: "managed ?cl = None" "cl_static_bearer ?cl = None" by (simp_all add: managed_def)
  have new: "new_client (registry_a_url (sn_settings ?sn)) None (Some (sp_run_id demo_spec)) None False None tenant_mode.Fallback True = Inr ?cl"
    by (simp add: new_client_def reject_reserved_tenant_def is_reserved_tenant_def demo_scen_def default_settings_def rstrip_char_def)
  have "\<exists>s'. mcall (publish_context (sn_env ?sn) (sn_client ?sn) ?cl req None) s = (s', Inr ?ok)" for req s
    using demo_publish_any[OF cl, of receipted req None "r_io s" "r_tm s"] by (auto simp: mcall_def demo_scen_def)
  then obtain after_publish where pub:
    "mcall (publish_context (sn_env ?sn) (sn_client ?sn) ?cl req None) s = (after_publish req s, Inr ?ok)" for req s by metis
  have bound: "bind_served_ctx_id demo_client_env ?cl receipted Envelope (Some ''acdp://a/1'') None = Inr ()"
    by (simp add: bind_served_ctx_id_def served_bodies_def envelope_bodies_def receipted_def bind_body_def obj_get_def dict_get_default_def
        demo_client_env_def Client.demo_env_def)
  have "\<exists>s'. mcall (retrieve_raw (sn_env ?sn) (sn_client ?sn) ?cl ''acdp://a/1'' None) s = (s', Inr receipted)" for s
    using demo_retrieve_raw_any[OF cl bound, of "r_io s" "r_tm s"] by (auto simp: mcall_def demo_scen_def)
  then obtain after_get where get:
    "mcall (retrieve_raw (sn_env ?sn) (sn_client ?sn) ?cl ''acdp://a/1'' None) s = (after_get s, Inr receipted)" for s by metis
  have sdk: "sdk_fun ?sn f xs = Inr (JBool True)" "verify_content_hash (sn_sdk ?sn) x h = Inr ()" for f xs x h
    by (simp_all add: demo_scen_def plain_sdk_def)
  have run: "\<exists>s' l. run_steps (s22_steps ?sn demo_spec ?cl demo_signer fp (Some []) title raw) s22_start s = (s', Inr (l, None))
      \<and> s22_live_ok l \<and> lv_ctx_id l = Some ''acdp://a/1''" for fp title raw s
    unfolding s22_steps_def append.simps run_steps_all
    by (simp add: s22_publish_def s22_retrieve_def s22_require_def s22_check_body_def s22_verify_def s22_bindings_def s22_fail_closed_def
        mbind_def pub get sdk put_event_with_def mnow_def mget_def mput_def mlift_def mret_def receipted_parts require_receipt_def s22_live_ok_def
        demo_authority s22_start_def dict_get_default_def)
  have "\<exists>st' r. s22_run ?sn demo_spec demo_rst = (st', Inr r) \<and> map_of (rr_summary r) ''degraded'' = None \<and> rr_contexts r = [''acdp://a/1'']"
  proof -
    let ?title = "input_text ?sn demo_spec ''topic'' ''supply-chain risk snapshot'' @ '' '' @ em_dash @ '' receipted''"
    obtain s' l where "run_steps (s22_steps ?sn demo_spec ?cl demo_signer (str_json (je ?sn) (JBool True)) (Some []) ?title request_text) s22_start demo_rst
        = (s', Inr (l, None))" "s22_live_ok l" "lv_ctx_id l = Some ''acdp://a/1''" using run by blast
    then show ?thesis
      by (simp add: s22_run_def Let_def mbind_def mlift_def mret_def new demo_receipt_pub sdk demo_seeds s22_summary_def nonempty_str_def)
  qed
  then obtain st' r where r: "s22_run ?sn demo_spec demo_rst = (st', Inr r)" "map_of (rr_summary r) ''degraded'' = None"
    "rr_contexts r = [''acdp://a/1'']" by blast
  from s22_undegraded_verified[OF r(1,2)] obtain j key cl ctx_id where "receipt_pub ?sn = Inr (Some key)"
    "rr_contexts r = (if ctx_id = [] then [] else [ctx_id])" "receipt_checked ?sn cl (str_json (je ?sn) j) key ctx_id" by blast
  with r show ?thesis by (auto simp: demo_receipt_pub split: if_splits)
qed

section \<open>S23\<close>

lemma RuntimeError_not_ValueError: "is_RuntimeError e \<Longrightarrow> \<not> is_ValueError e"
  by (cases e) auto

lemma adversary_fetch:
  "snd (snd (fetch_json (adversary_env sn served) ce (plain_client url) mk extra io tm))
     = Inr (JObj [(''body'', JObj served), (''registry_state'', JObj [(''status'', JStr ''active'')])])"
proof -
  have "client_headers (adversary_env sn served) ce (plain_client url) extra io tm = (io, tm, Inr (header_dict (plain_client url) None extra))"
    by (auto simp: client_headers_iff bearer_token_def plain_client_def nonempty_str_def managed_def)
  then show ?thesis
    by (simp add: fetch_json_def retrying_def abind_def http_call_def managed_def plain_client_def areturn_def alift_def http_send_def
        adversary_env_def raise_for_status_def json_of_def)
qed

text \<open>
  What the SDK documents of its binding check: for conformant ids it passes exactly the id asked for and raises a
  \<^verbatim>\<open>RuntimeError\<close> for any other.
\<close>

definition sdk_binds :: "client_env \<Rightarrow> bool" where
  "sdk_binds ce \<longleftrightarrow> (\<forall>kvs c x. is_conformant_ctx_id c \<longrightarrow> is_conformant_ctx_id x \<longrightarrow> map_of kvs ''ctx_id'' = Some (JStr c) \<longrightarrow>
     (if c = x then verify_ctx_id_binding ce (JObj kvs) x = Inr ()
      else \<exists>e. verify_ctx_id_binding ce (JObj kvs) x = Inl e \<and> is_RuntimeError e))"

text \<open>A body served under another id never gets past the client, whatever else is right about it.\<close>

lemma substitution_outcome:
  assumes "sdk_binds (sn_client sn)" "map_of served ''ctx_id'' = Some (JStr c)" "is_conformant_ctx_id c" "is_conformant_ctx_id requested"
  shows "snd (snd (retrieve (adversary_env sn served) (sn_client sn) (plain_client ADVERSARY_URL) requested io tm))
     = (if c = requested then validate_context (sn_client sn) (JObj [(''body'', JObj served), (''registry_state'', JObj [(''status'', JStr ''active'')])])
        else Inl (CtxIdBindingError Mismatch (Some requested) (JStr c)))"
proof -
  let ?payload = "JObj [(''body'', JObj served), (''registry_state'', JObj [(''status'', JStr ''active'')])]"
  have v: "if c = requested then verify_ctx_id_binding (sn_client sn) (JObj served) requested = Inr ()
      else \<exists>e. verify_ctx_id_binding (sn_client sn) (JObj served) requested = Inl e \<and> is_RuntimeError e"
    using assms(1)[unfolded sdk_binds_def, rule_format, OF assms(3,4,2)] .
  then have bound: "bind_served_ctx_id (sn_client sn) (plain_client ADVERSARY_URL) ?payload Envelope (Some requested) None
      = (if c = requested then Inr () else Inl (CtxIdBindingError Mismatch (Some requested) (JStr c)))"
    using assms(2) by (auto simp: bind_served_ctx_id_def plain_client_def served_bodies_def envelope_bodies_def bind_body_def obj_get_def
        dict_get_default_def RuntimeError_not_ValueError split: if_splits)
  let ?fetch = "fetch_json (adversary_env sn served) (sn_client sn) (plain_client ADVERSARY_URL)
      (get_request (context_url (plain_client ADVERSARY_URL) requested []) []) [] io tm"
  obtain io1 tm1 where "?fetch = (io1, tm1, Inr ?payload)" using adversary_fetch by (metis prod.collapse)
  then show ?thesis by (simp add: retrieve_def get_full_context_def Let_def abind_def alift_def bound)
qed

lemma substituted_rejected:
  assumes "sdk_binds (sn_client sn)" "\<And>j e. validate_context (sn_client sn) j = Inl e \<Longrightarrow> e = ValidationError"
    and "map_of served ''ctx_id'' = Some (JStr c)" "is_conformant_ctx_id c" "is_conformant_ctx_id requested"
    and "substituted_body_rejected sn served requested st = (st', Inr rep)"
  shows "was_rejected (n, rep) \<longleftrightarrow> c \<noteq> requested"
proof -
  let ?payload = "JObj [(''body'', JObj served), (''registry_state'', JObj [(''status'', JStr ''active'')])]"
  note out = substitution_outcome[OF assms(1,3-5), of "r_io st" "r_tm st"]
  show ?thesis
  proof (cases "c = requested")
    case True
    then show ?thesis using assms(6) out assms(2)[of ?payload]
      by (cases "validate_context (sn_client sn) ?payload")
         (auto simp: substituted_body_rejected_def mbind_Inr report_def was_rejected_def obj_get_def dict_get_default_def)
  next
    case False
    then show ?thesis using assms(3,6) out
      by (auto simp: substituted_body_rejected_def mbind_Inr report_def was_rejected_def obj_get_def dict_get_default_def)
  qed
qed

text \<open>
  A refusal of the SDK: a receipt presented for a body, a key, a context, a recomputed hash and a producer's fingerprint raises one of the
  SDK's rejections, and its message has the given words in it (any message, when there are none).
\<close>

definition refuses :: "'w scen_env \<Rightarrow> obj \<Rightarrow> string \<Rightarrow> string \<Rightarrow> string \<Rightarrow> obj \<Rightarrow> json \<Rightarrow> string \<Rightarrow> bool" where
  "refuses sn body pub ctx_id fp receipt hash words \<longleftrightarrow>
     (\<exists>e a b. sdk_fun sn ''AcdpVerifier.verify_receipt'' [JStr (dumps sn (JObj receipt)), JStr (dumps sn (JObj body)), JStr pub,
          JStr ctx_id, hash, JStr fp] = Inl e \<and> SDK_REJECTIONS e \<and> exn_str sn e = a @ words @ b)"

text \<open>
  The seven attacks: what is changed in the receipt, the hash the consumer recomputed, and the words the refusal must have. Only the
  last two ask for words.
\<close>

definition s23_attacks :: "json \<Rightarrow> string \<Rightarrow> string \<Rightarrow> (obj \<times> json \<times> string) list" where
  "s23_attacks hash other_ctx other =
     [([(''created_at'', JStr ''2026-06-12T00:00:00.000123Z'')], hash, []),
      ([(''key_fingerprint'', JStr (''sha256:'' @ replicate 64 CHR ''0''))], hash, []),
      ([(''ctx_id'', JStr other_ctx)], hash, []),
      ([], JStr (''sha256:'' @ concat (replicate 32 ''cd'')), []),
      ([], hash, []),
      ([(''lineage_id'', JStr (synthetic_lineage_id ''s23-tamper-other-lineage''))], hash, ''body lineage_id''),
      ([(''origin_registry'', JStr other), (''registry_did'', JStr (''did:web:'' @ other)),
        (''signature'', JObj [(''algorithm'', JStr ''ed25519''), (''key_id'', JStr (''did:web:'' @ other @ ''#receipt-key-1'')),
           (''value'', JStr (replicate 86 CHR ''A'' @ ''==''))])], hash, ''body origin_registry'')]"

lemma s23_cases_attacks:
  "map (\<lambda>c. (tc_receipt c, tc_hash c, tc_mentions c)) (s23_cases base hash other_ctx other)
     = map (\<lambda>(changes, h, words). (dict_update base changes, h, words)) (s23_attacks hash other_ctx other)"
proof -
  have "concat (replicate 32 ''00'') = replicate 64 CHR ''0''" by (simp add: numeral_eq_Suc)
  then show ?thesis by (simp add: s23_cases_def s23_attacks_def tampered_case_def dict_update_def)
qed

lemma s23_check_refused:
  "s23_check sn body pub ctx_id fp c st = (st', Inr check) \<Longrightarrow>
     was_rejected check = refuses sn body pub ctx_id fp (tc_receipt c) (tc_hash c) (tc_mentions c)"
  by (auto simp: s23_check_def mbind_Inr mlift_Inr expect_rejected_def expect_rejection_def run_guarded_def rbind_eq_Inr refuses_def
      was_rejected_def report_def obj_get_def dict_get_default_def py_contains_iff simp del: mlift_iff json_dumps.simps split: sum.splits if_splits)

lemma s23_checks_refused:
  "mfor (s23_check sn body pub ctx_id fp) cs st = (st', Inr checks) \<Longrightarrow>
     list_all was_rejected checks = list_all (\<lambda>(receipt, h, words). refuses sn body pub ctx_id fp receipt h words)
       (map (\<lambda>c. (tc_receipt c, tc_hash c, tc_mentions c)) cs)"
  by (induction cs arbitrary: st checks) (auto simp: mbind_Inr dest: s23_check_refused)

lemma synthetic_conformant: "synthetic_ctx_id a s = Inr c \<Longrightarrow> is_conformant_ctx_id c"
  by (auto simp: synthetic_ctx_id_def Let_def conformant_ctx_idI[simplified] uuid_str_v4 split: if_splits)

lemma synthesized_ctx_id:
  "synthesize_retrieval_body fr str_exn sdk raw c l og ca = Inr body \<Longrightarrow> map_of body ''ctx_id'' = Some (JStr c)"
  by (auto simp: synthesize_retrieval_body_def Let_def rbind_eq_Inr map_of_served_body split: if_splits json.splits)

text \<open>The receipt the attacks start from: every binding is the body's, the signature is not one.\<close>

definition honest_bindings :: "string \<Rightarrow> string \<Rightarrow> json \<Rightarrow> string \<Rightarrow> obj" where
  "honest_bindings authority ctx_id hash fp =
     [(''registry_did'', JStr (''did:web:'' @ authority)), (''ctx_id'', JStr ctx_id),
      (''lineage_id'', JStr (synthetic_lineage_id ''s23-tamper-victim'')), (''origin_registry'', JStr authority),
      (''created_at'', JStr ''2026-06-12T00:00:00.000Z''), (''content_hash'', hash), (''key_fingerprint'', JStr fp),
      (''signature'', JObj [(''algorithm'', JStr ''ed25519''), (''key_id'', JStr (''did:web:'' @ authority @ ''#receipt-key-1'')),
         (''value'', JStr (replicate 86 CHR ''A'' @ ''==''))])]"

text \<open>
  C34. The verdict of S23, exactly. A run without a receipt key checks nothing: it is complete, and its summary says degraded. With a key, a
  run that returns is complete if and only if the SDK refused all seven tampered receipts presented for the victim's body, and the id of
  that body is not the one that the substituting registry was asked for. Five of the receipts (time, fingerprint, context, recomputed hash, forged signature)
  count as refused on any of the SDK's rejections, whatever it says; the rebound lineage and the rebound origin only when the message names the
  binding. The missing receipt never gets past the require policy, and a body served under another id than the requested one never gets
  past the client, which reports the mismatch.
\<close>

theorem s23_verdict_exact:
  assumes "sdk_binds (sn_client sn)" and "\<And>j e. validate_context (sn_client sn) j = Inl e \<Longrightarrow> e = ValidationError"
    and "s23_run sn spec st = (st', Inr r)"
  shows "(receipt_pub sn = Inr None \<and> rr_status r = ''complete'' \<and> map_of (rr_summary r) ''degraded'' = Some (JBool True)
      \<and> map_of (rr_summary r) ''checks'' = None)
    \<or> (\<exists>pub p fp body hash ctx_id other_ctx requested. receipt_pub sn = Inr (Some pub)
        \<and> producer_for sn spec ''tamper-victim'' (registry_a_authority (sn_settings sn)) ALG_ED25519 Did_web = Inr p
        \<and> sdk_fun sn ''AcdpVerifier.fingerprint_ed25519_b64'' [JStr (public_key_b64 p)] = Inr fp
        \<and> synthetic_ctx_id (registry_a_authority (sn_settings sn)) ''s23-tamper-victim'' = Inr ctx_id
        \<and> synthetic_ctx_id (registry_a_authority (sn_settings sn)) ''s23-tamper-other-context'' = Inr other_ctx
        \<and> synthetic_ctx_id (registry_a_authority (sn_settings sn)) ''s23-substitution-requested'' = Inr requested
        \<and> map_of body ''ctx_id'' = Some (JStr ctx_id) \<and> map_of body ''content_hash'' = Some hash
        \<and> (\<exists>raw. synthesize_retrieval_body (float_repr (sn_env sn)) (et_str (sn_texts sn)) (sn_sdk sn) raw ctx_id
             (synthetic_lineage_id ''s23-tamper-victim'') (registry_a_authority (sn_settings sn)) ''2026-06-12T00:00:00.000Z'' = Inr body)
        \<and> (rr_status r = ''complete'' \<longleftrightarrow>
             (\<forall>(changes, h, words) \<in> set (s23_attacks hash other_ctx (registry_b_authority (sn_settings sn))).
                refuses sn body pub ctx_id (str_json (je sn) fp)
                  (dict_update (honest_bindings (registry_a_authority (sn_settings sn)) ctx_id hash (str_json (je sn) fp)) changes) h words)
             \<and> ctx_id \<noteq> requested))"
proof (cases "receipt_pub sn = Inr None")
  case True
  with assms(3) show ?thesis by (auto simp: s23_run_def Let_def mbind_Inr run_result_of_def)
next
  case False
  let ?a = "registry_a_authority (sn_settings sn)"
  have "\<not> isl (receipt_pub sn)" using assms(3) by (cases "receipt_pub sn") (auto simp: s23_run_def Let_def mbind_Inr)
  with False obtain pub where pub: "receipt_pub sn = Inr (Some pub)" by (cases "receipt_pub sn") auto
  from assms(3) obtain ctx_id requested body hash other_ctx p fp checked rep s1 s2 s3 raw where
    run: "producer_for sn spec ''tamper-victim'' ?a ALG_ED25519 Did_web = Inr p"
      "sdk_fun sn ''AcdpVerifier.fingerprint_ed25519_b64'' [JStr (public_key_b64 p)] = Inr fp"
    and ids: "synthetic_ctx_id ?a ''s23-tamper-victim'' = Inr ctx_id" "synthetic_ctx_id ?a ''s23-substitution-requested'' = Inr requested"
      "synthetic_ctx_id ?a ''s23-tamper-other-context'' = Inr other_ctx"
    and body: "synthesize_retrieval_body (float_repr (sn_env sn)) (et_str (sn_texts sn)) (sn_sdk sn) raw ctx_id
        (synthetic_lineage_id ''s23-tamper-victim'') ?a ''2026-06-12T00:00:00.000Z'' = Inr body" "json_index (JObj body) ''content_hash'' = Inr hash"
    and checked: "mfor (s23_check sn body pub ctx_id (str_json (je sn) fp))
        (s23_cases (s23_base ?a ctx_id (synthetic_lineage_id ''s23-tamper-victim'') ''2026-06-12T00:00:00.000Z'' hash (str_json (je sn) fp))
           hash other_ctx (registry_b_authority (sn_settings sn))) s1 = (s2, Inr checked)"
    and rep: "substituted_body_rejected sn body requested s2 = (s3, Inr rep)"
    and r: "rr_status r = (if list_all was_rejected (s23_missing # checked @ [(''substituted_body'', rep)]) then ''complete'' else ''failed'')"
    by (auto simp: s23_run_def s23_body_def Let_def mbind_Inr mlift_Inr pub rbind_eq_Inr simp del: mlift_iff mfor.simps json_index.simps)
  note c = synthesized_ctx_id[OF body(1)]
  have hash: "map_of body ''content_hash'' = Some hash" using body(2) by (auto split: option.splits)
  have base: "s23_base ?a ctx_id (synthetic_lineage_id ''s23-tamper-victim'') ''2026-06-12T00:00:00.000Z'' hash f = honest_bindings ?a ctx_id hash f" for f
    by (simp add: s23_base_def honest_bindings_def)
  have "was_rejected s23_missing"
    by (simp add: s23_missing_def require_receipt_def was_rejected_def report_def obj_get_def dict_get_default_def)
  moreover have "was_rejected (''substituted_body'', rep) \<longleftrightarrow> ctx_id \<noteq> requested"
    using substituted_rejected[OF assms(1,2) c ids(1,2)[THEN synthetic_conformant] rep] .
  ultimately have "rr_status r = ''complete'' \<longleftrightarrow> list_all was_rejected checked \<and> ctx_id \<noteq> requested" using r by simp
  moreover have "list_all was_rejected checked \<longleftrightarrow> (\<forall>(changes, h, words) \<in> set (s23_attacks hash other_ctx (registry_b_authority (sn_settings sn))).
      refuses sn body pub ctx_id (str_json (je sn) fp) (dict_update (honest_bindings ?a ctx_id hash (str_json (je sn) fp)) changes) h words)"
    using s23_checks_refused[OF checked] unfolding s23_cases_attacks base by (auto simp: list_all_iff)
  ultimately show ?thesis using pub run ids c hash body(1) by blast
qed

definition strict_scen :: "unit scen_env" where
  "strict_scen = (demo_scen (\<lambda>rq. Inl HTTPError))\<lparr>sdk_fun := (\<lambda>f xs. if f = ''AcdpVerifier.verify_receipt'' then Inl ValueError else Inr (JStr f)),
     sn_sdk := plain_sdk\<lparr>verify_body_offline := (\<lambda>s. Inr ())\<rparr>,
     sn_client := demo_client_env\<lparr>validate_context := (\<lambda>j. Inr (demo_context [] []))\<rparr>\<rparr>"

lemma mfor_total: "(\<And>x st. \<exists>st' a. f x st = (st', Inr a)) \<Longrightarrow> \<exists>st' as. mfor f xs st = (st', Inr as)"
proof (induction xs arbitrary: st)
  case (Cons x xs)
  obtain s1 a where "f x st = (s1, Inr a)" using Cons.prems by blast
  moreover obtain s2 as where "mfor f xs s1 = (s2, Inr as)" using Cons.IH[OF Cons.prems] by blast
  ultimately show ?case by (simp add: mbind_def mret_def)
qed (simp add: mret_def)

lemma request_text_loads: "json_loads request_text = Inr (JObj [(''content_hash'', JStr ''sha256:1'')])"
  unfolding request_text_def by (rule json_roundtrip) simp

theorem s23_verdict_exact_witness:
  "\<exists>st' r. s23_run strict_scen demo_spec demo_rst = (st', Inr r) \<and> rr_status r \<noteq> ''complete''"
proof -
  have binds: "sdk_binds (sn_client strict_scen)"
    by (simp add: sdk_binds_def strict_scen_def demo_client_env_def Client.demo_env_def)
  have valid: "validate_context (sn_client strict_scen) j = Inr (demo_context [] [])" for j by (simp add: strict_scen_def)
  have pub: "receipt_pub strict_scen = Inr (Some [])"
    using demo_receipt_pub by (simp add: strict_scen_def receipt_pub_def demo_scen_def)
  have auth: "registry_a_authority (sn_settings strict_scen) = ''registry-a.playground.local''" by (simp add: strict_scen_def demo_authority)
  have "is_valid_authority ''registry-a.playground.local''" by code_simp
  then have id: "\<exists>c. synthetic_ctx_id ''registry-a.playground.local'' s = Inr c" for s by (simp add: synthetic_ctx_id_def Let_def)
  obtain victim other requested where ids: "synthetic_ctx_id ''registry-a.playground.local'' ''s23-tamper-victim'' = Inr victim"
    "synthetic_ctx_id ''registry-a.playground.local'' ''s23-tamper-other-context'' = Inr other"
    "synthetic_ctx_id ''registry-a.playground.local'' ''s23-substitution-requested'' = Inr requested" using id by metis
  have ms: "ms_rfc3339_match ''2026-06-12T00:00:00.000Z''" by code_simp
  obtain body where body: "s23_body strict_scen demo_signer victim s = (s, Inr body)" "map_of body ''ctx_id'' = Some (JStr victim)"
    "map_of body ''content_hash'' = Some (JStr ''sha256:1'')" for s
    by (simp add: s23_body_def mlift_def demo_seeds synthesize_retrieval_body_def ms request_text_loads collisions_obj REGISTRY_ONLY_FIELDS_def
        obj_get_def dict_get_default_def Let_def offline_check_def strict_scen_def map_of_served_body plain_sdk_def)
  have "\<exists>st' a. s23_check strict_scen body [] victim fp c st = (st', Inr a)" for fp c st
    by (simp add: s23_check_def mbind_def expect_rejected_def expect_rejection_def run_guarded_def strict_scen_def SDK_REJECTIONS_def mlift_def mret_def)
  then have "\<exists>st' as. mfor (s23_check strict_scen body [] victim fp) cs st = (st', Inr as)" for fp cs st by (rule mfor_total)
  then obtain checked_st checked where checks:
    "mfor (s23_check strict_scen body [] victim fp) cs st = (checked_st fp cs st, Inr (checked fp cs st))" for fp cs st by metis
  have "\<exists>st' a. substituted_body_rejected strict_scen body requested st = (st', Inr a)" for st
    using substitution_outcome[OF binds body(2) ids(1,3)[THEN synthetic_conformant], of "r_io st" "r_tm st"]
    by (simp add: substituted_body_rejected_def mbind_def mget_def valid mret_def)
  then obtain sub_st sub where sub: "substituted_body_rejected strict_scen body requested st = (sub_st st, Inr (sub st))" for st by metis
  have signer: "producer_for strict_scen demo_spec slug a ALG_ED25519 Did_web = Inr demo_signer" for slug a
    by (simp add: producer_for_def Let_def ALG_ED25519_def ALG_P256_def strict_scen_def demo_seeds)
  have fp: "sdk_fun strict_scen ''AcdpVerifier.fingerprint_ed25519_b64'' xs = Inr (JStr ''AcdpVerifier.fingerprint_ed25519_b64'')" for xs
    by (simp add: strict_scen_def)
  have "\<exists>st' r. s23_run strict_scen demo_spec demo_rst = (st', Inr r)"
    by (simp add: s23_run_def Let_def mbind_def mlift_def pub signer fp auth ids body checks sub tell_def mnow_def mget_def mput_def mret_def)
  then obtain st' r where run: "s23_run strict_scen demo_spec demo_rst = (st', Inr r)" by blast
  have no: "\<not> refuses strict_scen b p c f rc h ''body lineage_id''" for b p c f rc h
    by (auto simp: refuses_def strict_scen_def demo_scen_def demo_texts_def Cons_eq_append_conv)
  have attack: "\<exists>x \<in> set (s23_attacks h o1 o2). snd (snd x) = ''body lineage_id''" for h o1 o2 by (simp add: s23_attacks_def)
  have "rr_status r \<noteq> ''complete''"
    using s23_verdict_exact[OF binds _ run] valid pub no attack by fastforce
  with run show ?thesis by blast
qed

end
