(* ===== verification/Scenarios_Rotation.thy ===== *)
theory Scenarios_Rotation
  imports Scenarios_Receipts
begin

text \<open>
  The scenarios of the catalogue on keys that were rotated: a producer's key verified after its retirement (S24) and a registry's
  receipt key (S27). Which keys a DID document resolves is the SDK's answer, a parameter.
\<close>

definition fp_of :: "'w scen_env \<Rightarrow> json \<Rightarrow> json result" where
  "fp_of sn pub = sdk_fun sn ''AcdpVerifier.fingerprint_ed25519_b64'' [pub]"

text \<open>\<^verbatim>\<open>AcdpDidDocument.parse(did_document(...), did)\<close> for \<^verbatim>\<open>JsonWebKey2020\<close> methods.\<close>

definition parse_did_document :: "'w scen_env \<Rightarrow> string \<Rightarrow> obj list \<Rightarrow> obj list option \<Rightarrow> json result" where
  "parse_did_document sn did vms retired =
     rbind (did_document (float_repr (sn_env sn)) did vms retired) (\<lambda>doc. sdk_fun sn ''AcdpDidDocument.parse'' [JStr doc, JStr did])"

definition receipt_key :: "'w scen_env \<Rightarrow> json \<Rightarrow> json \<Rightarrow> json \<Rightarrow> json result" where
  "receipt_key sn doc kid alg = sdk_fun sn ''AcdpDidDocument.receipt_key_for_algorithm'' [doc, kid, alg]"

definition catches :: "(exn \<Rightarrow> bool) \<Rightarrow> 'a result \<Rightarrow> bool result" where
  "catches c r = (case r of Inr _ \<Rightarrow> Inr False | Inl e \<Rightarrow> if c e then Inr True else Inl e)"

section \<open>S24: a producer's retired key\<close>

definition S24 :: "'w scenario" where
  "S24 = scenario_def ''s24_historical_key'' ''Historical Key Verification''
     ''A producer rotates its key; a consumer verifies a pre-rotation context as HistoricallyAuthorized via the receipt fingerprint (old key retained), and fails closed when the receipt is stripped or the old key is removed.''
     ''single'' 1 [(''topic'', JStr ''long-lived provenance record'')]"

definition HistoricalAuthFailed :: "string \<Rightarrow> exn" where
  "HistoricalAuthFailed msg = LocalError ''HistoricalAuthFailed'' msg"

definition is_HistoricalAuthFailed :: "exn \<Rightarrow> bool" where
  "is_HistoricalAuthFailed e \<longleftrightarrow> as_local ''HistoricalAuthFailed'' e \<noteq> None"

definition stable_seed :: bytes where
  "stable_seed = sha256 (utf8_encode ''acdp-playground-fixed-identity:rotating-historical'')"

text \<open>The loop over the candidate keys.\<close>

fun find_retained ::
  "'w scen_env \<Rightarrow> json \<Rightarrow> json \<Rightarrow> json \<Rightarrow> json \<Rightarrow> string list \<Rightarrow> (json \<times> bool) result" where
  "find_retained sn fp sigv content_hash doc [] =
     Inl (HistoricalAuthFailed (''receipt key_fingerprint '' @ str_json (je sn) fp
       @ '' resolves to no retained key (rotated key was removed from the DID document)''))"
| "find_retained sn fp sigv content_hash doc (kid # kids) =
     (case receipt_key sn doc (JStr kid) (JStr ''ed25519'') of
        Inl e \<Rightarrow> if e = DidResolutionError then find_retained sn fp sigv content_hash doc kids else Inl e
      | Inr resolved \<Rightarrow>
          rbind (json_index resolved ''public_key_b64'') (\<lambda>key.
          rbind (fp_of sn key) (\<lambda>f.
          if f \<noteq> fp then find_retained sn fp sigv content_hash doc kids
          else rbind (verify_signature sn (JStr ''ed25519'') key sigv content_hash) (\<lambda>authorized.
               rbind (json_index resolved ''historical'') (\<lambda>h. Inr (authorized, h = JStr ''true''))))))"

definition historically_authorized ::
  "'w scen_env \<Rightarrow> json \<Rightarrow> json \<Rightarrow> json \<Rightarrow> json \<Rightarrow> string list \<Rightarrow> (json \<times> bool) result" where
  "historically_authorized sn receipt sigv content_hash doc candidate_key_ids =
     (if receipt = JNull
      then Inl (HistoricalAuthFailed (''no receipt '' @ em_dash @ '' cannot prove the signing key was authorized at publish time''))
      else rbind (json_get_attr receipt ''key_fingerprint'' JNull) (\<lambda>fp.
           find_retained sn fp sigv content_hash doc candidate_key_ids))"

text \<open>The two keys of the one identity.\<close>

record s24_keys =
  hk_did :: string
  hk_kids :: "string list"
  hk_v1 :: producer
  hk_v2 :: producer
  hk_fp_v1 :: json
  hk_fp_v2 :: json

definition s24_make_keys :: "'w scen_env \<Rightarrow> s24_keys result" where
  "s24_make_keys sn =
     (let did = did_for (registry_a_authority (sn_settings sn)) ''rotating-historical''; kid_v1 = did @ ''#key-1''; kid_v2 = did @ ''#key-2'' in
      rbind (from_seed sn (sha256 (stable_seed @ utf8_encode '':v1'')) did kid_v1) (\<lambda>key_v1.
      rbind (from_seed sn (sha256 (stable_seed @ utf8_encode '':v2'')) did kid_v2) (\<lambda>key_v2.
      rbind (fp_of sn (JStr (public_key_b64 key_v1))) (\<lambda>fp_v1.
      rbind (fp_of sn (JStr (public_key_b64 key_v2))) (\<lambda>fp_v2.
      Inr \<lparr>hk_did = did, hk_kids = [kid_v1, kid_v2], hk_v1 = key_v1, hk_v2 = key_v2, hk_fp_v1 = fp_v1, hk_fp_v2 = fp_v2\<rparr>)))))"

text \<open>What the offline part found.\<close>

record s24_core =
  hc_rotation_distinct :: bool
  hc_pre_verifies_old :: json
  hc_new_key_rejects :: bool
  hc_authorized :: json
  hc_historical :: bool
  hc_stripped :: bool
  hc_removed :: bool

definition s24_offline :: "'w scen_env \<Rightarrow> s24_keys \<Rightarrow> string \<Rightarrow> (string \<times> s24_core) result" where
  "s24_offline sn k title =
     (let did = hk_did k; kids = hk_kids k; pub_v1 = public_key_b64 (hk_v1 k); pub_v2 = public_key_b64 (hk_v2 k);
          receipt_v1 = JObj [(''key_fingerprint'', hk_fp_v1 k)] in
      rbind (ed25519_jwk_vm (JStr (kids ! 0)) did pub_v1) (\<lambda>vm_v1.
      rbind (ed25519_jwk_vm (JStr (kids ! 1)) did pub_v2) (\<lambda>vm_v2.
      rbind (build_publish_request (hk_v1 k)
               [(''title'', JStr title), (''context_type'', JStr ''analysis''), (''visibility'', JStr ''public''),
                (''summary'', JStr ''Signed with the pre-rotation key.''), (''domain'', JStr ''provenance''),
                (''tags'', JList [JStr ''rotation'', JStr ''historical''])]) (\<lambda>raw_v1.
      rbind (json_loads raw_v1) (\<lambda>req_v1.
      rbind (json_index req_v1 ''content_hash'') (\<lambda>ch_v1.
      rbind (rbind (json_index req_v1 ''signature'') (\<lambda>s. json_index s ''value'')) (\<lambda>sig_v1.
      rbind (verify_signature sn (JStr ''ed25519'') (JStr pub_v1) sig_v1 ch_v1) (\<lambda>pre_verifies_old.
      rbind (expect_rejection (et_str (sn_texts sn)) SDK_REJECTIONS
               (verify_signature sn (JStr ''ed25519'') (JStr pub_v2) sig_v1 ch_v1)) (\<lambda>(new_key_rejects, _).
      rbind (parse_did_document sn did [vm_v2] (Some [vm_v1])) (\<lambda>doc_retained.
      rbind (historically_authorized sn receipt_v1 sig_v1 ch_v1 doc_retained kids) (\<lambda>(authorized, historical).
      rbind (catches is_HistoricalAuthFailed (historically_authorized sn JNull sig_v1 ch_v1 doc_retained kids)) (\<lambda>stripped.
      rbind (parse_did_document sn did [vm_v2] None) (\<lambda>doc_removed.
      rbind (catches is_HistoricalAuthFailed (historically_authorized sn receipt_v1 sig_v1 ch_v1 doc_removed kids)) (\<lambda>removed.
      Inr (raw_v1, \<lparr>hc_rotation_distinct = (pub_v1 \<noteq> pub_v2 \<and> hk_fp_v1 k \<noteq> hk_fp_v2 k), hc_pre_verifies_old = pre_verifies_old,
           hc_new_key_rejects = new_key_rejects, hc_authorized = authorized, hc_historical = historical, hc_stripped = stripped,
           hc_removed = removed\<rparr>)))))))))))))))"

text \<open>The value of the conjunction: the first of its members that is false, else the last.\<close>

definition s24_core_ok :: "s24_core \<Rightarrow> json" where
  "s24_core_ok c =
     (if \<not> hc_rotation_distinct c then JBool False
      else if \<not> truthy (hc_pre_verifies_old c) then hc_pre_verifies_old c
      else if \<not> hc_new_key_rejects c then JBool False
      else if \<not> truthy (hc_authorized c) then hc_authorized c
      else JBool (hc_historical c \<and> hc_stripped c \<and> hc_removed c))"

record s24_live =
  hl_ctx_id :: "string option"
  hl_records_publish_key :: bool
  hl_outcome :: string

definition s24_start :: s24_live where
  "s24_start = \<lparr>hl_ctx_id = None, hl_records_publish_key = False, hl_outcome = ''skipped''\<rparr>"

definition s24_publish :: "'w scen_env \<Rightarrow> run_spec \<Rightarrow> client \<Rightarrow> s24_keys \<Rightarrow> string \<Rightarrow> string \<Rightarrow> s24_live \<Rightarrow> ('w, s24_live) act" where
  "s24_publish sn spec cl k title raw l =
     mbind (mcall (publish_context (sn_env sn) (sn_client sn) cl raw None)) (\<lambda>resp.
     mbind (put_event_with sn spec ''acdp.publish'' (\<lambda>e. e\<lparr>se_agent_id := Some (hk_did k), se_ctx_id := Some (pr_ctx_id resp),
              se_title := Some title, se_preview := Some ''pre-rotation key'', se_key_fingerprint := Some (str_json (je sn) (hk_fp_v1 k))\<rparr>)) (\<lambda>_.
     mret (l\<lparr>hl_ctx_id := Some (pr_ctx_id resp)\<rparr>)))"

text \<open>The served receipt: whether it records the key, and the outcome.\<close>

definition s24_check_receipt :: "'w scen_env \<Rightarrow> s24_keys \<Rightarrow> string \<Rightarrow> string option \<Rightarrow> json \<Rightarrow> json \<Rightarrow> (bool \<times> string) result" where
  "s24_check_receipt sn k ctx_id registry_pub full receipt =
     (case registry_pub of
        Some pub \<Rightarrow>
          if receipt = JNull then Inr (False, ''no_receipt'')
          else rbind (json_index full ''body'') (\<lambda>body.
               rbind (json_index body ''content_hash'') (\<lambda>h.
               rbind (verify_content_hash (sn_sdk sn) (dumps sn body) h) (\<lambda>_.
               rbind (sdk_fun sn ''AcdpVerifier.verify_receipt'' [JStr (dumps sn receipt), JStr (dumps sn body), JStr pub, JStr ctx_id, h, hk_fp_v1 k]) (\<lambda>_.
               rbind (json_get_attr receipt ''key_fingerprint'' JNull) (\<lambda>f.
               Inr (f = hk_fp_v1 k, if f = hk_fp_v1 k then ''verified'' else ''fp_mismatch''))))))
      | None \<Rightarrow> Inr (False, ''no_receipt''))"

definition s24_retrieve :: "'w scen_env \<Rightarrow> run_spec \<Rightarrow> client \<Rightarrow> s24_keys \<Rightarrow> string option \<Rightarrow> s24_live \<Rightarrow> ('w, s24_live) act" where
  "s24_retrieve sn spec cl k registry_pub l =
     mbind (mcall (retrieve_raw (sn_env sn) (sn_client sn) cl (the (hl_ctx_id l)) None)) (\<lambda>full.
     mbind (mlift (json_get_attr full ''registry_receipt'' JNull)) (\<lambda>receipt.
     mbind (mlift (s24_check_receipt sn k (the (hl_ctx_id l)) registry_pub full receipt)) (\<lambda>(records, outcome).
     mbind (put_event_with sn spec ''acdp.verify'' (\<lambda>e. e\<lparr>se_agent_id := Some (hk_did k), se_ctx_id := hl_ctx_id l,
              se_title := Some ''Receipt records the publish-time key'', se_preview := Some (''records_publish_key='' @ py_bool records),
              se_key_fingerprint := Some (str_json (je sn) (hk_fp_v1 k)), se_receipt_present := Some (receipt \<noteq> JNull)\<rparr>)) (\<lambda>_.
     mret (l\<lparr>hl_records_publish_key := records, hl_outcome := outcome\<rparr>)))))"

definition s24_outcome :: "'w scen_env \<Rightarrow> s24_live \<times> exn option \<Rightarrow> string" where
  "s24_outcome sn lived = (case snd lived of None \<Rightarrow> hl_outcome (fst lived) | Some e \<Rightarrow> round_trip_failure sn e)"

definition s24_summary :: "'w scen_env \<Rightarrow> s24_core \<Rightarrow> s24_live \<times> exn option \<Rightarrow> obj" where
  "s24_summary sn c lived =
     [(''rotation_distinct'', JBool (hc_rotation_distinct c)), (''pre_rotation_verifies_under_old_key'', hc_pre_verifies_old c),
      (''new_key_rejects_old_signature'', JBool (hc_new_key_rejects c)), (''historically_authorized'', hc_authorized c),
      (''resolved_as_historical'', JBool (hc_historical c)), (''stripped_receipt_fail_closed'', JBool (hc_stripped c)),
      (''removed_key_fail_closed'', JBool (hc_removed c)), (''offline_core_ok'', s24_core_ok c),
      (''registry_round_trip'', JStr (s24_outcome sn lived)), (''receipt_records_publish_key'', JBool (hl_records_publish_key (fst lived)))]
     @ (if hl_records_publish_key (fst lived) then [] else [(''degraded'', JBool True)])"

definition s24_run :: "'w scenario_act" where
  "s24_run sn spec =
     (let title = input_text sn spec ''topic'' ''long-lived provenance record'' @ '' '' @ em_dash @ '' pre-rotation'';
          authority = registry_a_authority (sn_settings sn) in
      mbind (mlift (s24_make_keys sn)) (\<lambda>k.
      mbind (mlift (s24_offline sn k title)) (\<lambda>(raw_v1, c).
      mbind (tell sn spec ''acdp.verify'' (Some (hk_did k)) ''Historical key verification''
               (''historically_authorized='' @ str_json (je sn) (hc_authorized c) @ '' (historical='' @ py_bool (hc_historical c)
                @ ''); stripped_fail_closed='' @ py_bool (hc_stripped c) @ ''; removed_key_fail_closed='' @ py_bool (hc_removed c))) (\<lambda>_.
      mbind (anonymous_client sn (sp_run_id spec) Registry_A None tenant_mode.Fallback) (\<lambda>cl.
      mbind (mlift (receipt_pub sn)) (\<lambda>registry_pub.
      mbind (run_steps [s24_publish sn spec cl k title raw_v1, s24_retrieve sn spec cl k registry_pub] s24_start) (\<lambda>lived.
      let contexts = (case nonempty_str (hl_ctx_id (fst lived)) of Some c \<Rightarrow> [c] | None \<Rightarrow> []) in
      mret (run_result_of spec ''s24_historical_key'' contexts
              (graph (map (\<lambda>c. did_node c (hk_did k) title ''analysis'' authority 1) contexts) [])
              (s24_summary sn c lived)
              (if truthy (s24_core_ok c) then None else Some ''historical key verification core failed'')))))))))"

lemma did_document_ordinary [simp]: "ordinary (did_document fr did vms retired)"
proof -
  have "ordinary (vm_ids vms)" by (induction vms) (auto intro!: ordinary_rbind split: option.split)
  then show ?thesis unfolding did_document_def did_document_value_def Let_def by (auto intro!: ordinary_rbind)
qed

lemma rotation_ordinary:
  assumes "civil_scen sn"
  shows "ordinary (fp_of sn pub)" "ordinary (receipt_key sn doc kid alg)" "ordinary (parse_did_document sn did vms retired)"
    "ordinary (ed25519_jwk_vm kid' did key)"
  by (auto simp: fp_of_def receipt_key_def parse_did_document_def ed25519_jwk_vm_def Let_def intro!: sdk_fun_ordinary(1) assms ordinary_rbind)

lemmas value_ordinary = ordinary_rbind json_get_attr_ordinary json_index_ordinary json_loads_ordinary sdk_fun_ordinary rotation_ordinary
  verify_signature_ordinary guarded_ordinary build_ordinary

lemma catches_ordinary: "ordinary r \<Longrightarrow> ordinary (catches c r)"
  by (auto simp: catches_def ordinary_def split: sum.splits)

lemma historically_authorized_ordinary:
  assumes "civil_scen sn"
  shows "ordinary (historically_authorized sn receipt sig h doc kids)"
proof -
  have "ordinary (find_retained sn fp sig h doc kids)" for fp
  proof (induction kids)
    case (Cons kid kids)
    have "ordinary (receipt_key sn doc (JStr kid) (JStr ''ed25519''))" by (rule rotation_ordinary(2)[OF assms])
    with Cons show ?case
      by (auto simp: ordinary_def[of "Inl _"] split: sum.split intro!: value_ordinary assms)
  qed (simp add: HistoricalAuthFailed_def)
  then show ?thesis by (auto simp: historically_authorized_def HistoricalAuthFailed_def intro!: value_ordinary)
qed

lemma s24_keys_civil: "civil_scen sn \<Longrightarrow> s24_make_keys sn = Inr k \<Longrightarrow> civil_producer (hk_v1 k) \<and> civil_producer (hk_v2 k)"
  by (auto simp: s24_make_keys_def Let_def rbind_eq_Inr dest: seed_civil)

lemma s24_ordinary:
  assumes "civil_scen sn"
  shows "ordinary (s24_make_keys sn)" "civil_producer (hk_v1 k) \<Longrightarrow> ordinary (s24_offline sn k title)"
    "ordinary (s24_check_receipt sn k c pub full receipt)"
proof -
  show "ordinary (s24_make_keys sn)"
    unfolding s24_make_keys_def Let_def by (rule ordinary_rbind seed_ordinary rotation_ordinary assms | simp)+
  show "ordinary (s24_check_receipt sn k c pub full receipt)"
    unfolding s24_check_receipt_def by (auto intro!: value_ordinary assms split: option.split)
  assume "civil_producer (hk_v1 k)"
  then show "ordinary (s24_offline sn k title)"
    unfolding s24_offline_def Let_def
    by (auto intro!: value_ordinary historically_authorized_ordinary catches_ordinary assms split: prod.split)
qed

lemma quietly_s24_step:
  assumes "civil_scen sn" "civil_client cl"
  shows "quietly (\<lambda>_. True) (s24_publish sn spec cl k title raw l)" "quietly (\<lambda>_. True) (s24_retrieve sn spec cl k pub l)"
  unfolding s24_publish_def s24_retrieve_def by (rule trust_rules s24_ordinary assms | simp)+

lemma vcg_s24_keys:
  assumes "civil_scen sn" "\<And>k. civil_producer (hk_v1 k) \<Longrightarrow> quietly P (f k)"
  shows "quietly P (mbind (mlift (s24_make_keys sn)) f)"
  by (rule quietly_post[where Q = "\<lambda>k. civil_producer (hk_v1 k)"])
     (use assms s24_keys_civil in \<open>auto intro!: vcg_mlift s24_ordinary\<close>)

interpretation s24: scenario_contract s24_run "''s24_historical_key''"
  by unfold_locales
     (simp only: s24_run_def Let_def,
      (rule vcg_s24_keys s24_ordinary vcg_anonymous vcg_run_steps trust_rules | assumption
       | (force simp: quietly_s24_step)[1] | (simp add: graph_simps did_node_def seed_ordinary split: option.split)[1])+)

section \<open>S27: a registry's retired receipt key\<close>

definition S27 :: "'w scenario" where
  "S27 = scenario_def ''s27_receipt_key_rotation'' ''Registry Receipt-Key Rotation''
     (''A registry rotates its receipt-signing key; a consumer verifies a historical receipt under the retired key via the SDK'' @ [CHR 0x27]
      @ ''s receipt_key_for_algorithm (historical=true '' @ arrow @ '' verified_historical), and fails closed when the retired key is removed or downgraded.'')
     ''single'' 1 [(''topic'', JStr ''long-lived registry attestation'')]"

definition ReceiptUnverifiable :: "string \<Rightarrow> exn" where
  "ReceiptUnverifiable msg = LocalError ''ReceiptUnverifiable'' msg"

definition is_ReceiptUnverifiable :: "exn \<Rightarrow> bool" where
  "is_ReceiptUnverifiable e \<longleftrightarrow> as_local ''ReceiptUnverifiable'' e \<noteq> None"

definition verify_via_did :: "'w scen_env \<Rightarrow> json \<Rightarrow> json \<Rightarrow> json \<Rightarrow> string \<Rightarrow> json \<Rightarrow> json \<Rightarrow> string result" where
  "verify_via_did sn receipt doc body ctx_id content_hash key_fingerprint =
     rbind (json_index receipt ''signature'') (\<lambda>sig.
     rbind (json_index sig ''key_id'') (\<lambda>kid.
     rbind (json_index sig ''algorithm'') (\<lambda>alg.
     case receipt_key sn doc kid alg of
       Inl e \<Rightarrow> Inl (if e = DidResolutionError
                    then ReceiptUnverifiable (''receipt key '' @ str_json (je sn) kid @ '' unresolvable: '' @ exn_reason sn e) else e)
     | Inr resolved \<Rightarrow>
         rbind (json_index resolved ''public_key_b64'') (\<lambda>key.
         rbind (sdk_fun sn ''AcdpVerifier.verify_receipt'' [JStr (dumps sn receipt), JStr (dumps sn body), key, JStr ctx_id, content_hash, key_fingerprint]) (\<lambda>_.
         rbind (json_index resolved ''historical'') (\<lambda>h. Inr (if h = JStr ''true'' then ''verified_historical'' else ''verified'')))))))"

text \<open>The attested context as the registry serves it before and after the rotation, and the receipts minted for it.\<close>

record s27_parts =
  rk_v1 :: producer
  rk_v2 :: producer
  rk_producer :: producer
  rk_fp :: json
  rk_ctx_id :: string
  rk_historical_body :: json
  rk_current_body :: json
  rk_content_hash :: json
  rk_historical_receipt :: json
  rk_current_receipt :: json

definition registry_did_of :: "'w scen_env \<Rightarrow> string" where
  "registry_did_of sn = ''did:web:'' @ registry_a_authority (sn_settings sn)"

definition s27_kid :: "'w scen_env \<Rightarrow> string \<Rightarrow> string" where
  "s27_kid sn version = registry_did_of sn @ ''#receipt-key-'' @ version"

definition s27_served :: "'w scen_env \<Rightarrow> string \<Rightarrow> string \<Rightarrow> string \<Rightarrow> string \<Rightarrow> obj result" where
  "s27_served sn raw ctx_id lineage_id created_at =
     synthesize_retrieval_body (float_repr (sn_env sn)) (et_str (sn_texts sn)) (sn_sdk sn) raw ctx_id lineage_id
       (registry_a_authority (sn_settings sn)) created_at"

definition s27_mint :: "'w scen_env \<Rightarrow> producer \<Rightarrow> string \<Rightarrow> string \<Rightarrow> string \<Rightarrow> string \<Rightarrow> json \<Rightarrow> json \<Rightarrow> obj result" where
  "s27_mint sn signer kid ctx_id lineage_id created_at content_hash key_fingerprint =
     mint_receipt (float_repr (sn_env sn)) (sn_sdk sn) signer kid (registry_did_of sn) ctx_id lineage_id (registry_a_authority (sn_settings sn))
       created_at content_hash key_fingerprint"

definition s27_setup :: "'w scen_env \<Rightarrow> run_spec \<Rightarrow> s27_parts result" where
  "s27_setup sn spec =
     (let did = registry_did_of sn; seed = agent_seed spec ''registry-c-receipt''; attested = sp_run_id spec @ '':s27-attested-context'';
          lineage_id = synthetic_lineage_id attested in
      rbind (from_seed sn (sha256 (seed @ utf8_encode '':v1'')) did (s27_kid sn ''1'')) (\<lambda>reg_v1.
      rbind (from_seed sn (sha256 (seed @ utf8_encode '':v2'')) did (s27_kid sn ''2'')) (\<lambda>reg_v2.
      rbind (from_seed_did_key sn (agent_seed spec ''attested-producer'')) (\<lambda>p.
      rbind (fp_of sn (JStr (public_key_b64 p))) (\<lambda>fp.
      rbind (synthetic_ctx_id (registry_a_authority (sn_settings sn)) attested) (\<lambda>ctx_id.
      rbind (build_publish_request p
               [(''title'', JStr ''Long-lived attested record''), (''context_type'', JStr ''data_snapshot''), (''visibility'', JStr ''public''),
                (''summary'', JStr ''The context two registry receipts attest across a key rotation.''), (''domain'', JStr ''provenance''),
                (''tags'', JList [JStr ''receipts'', JStr ''rotation''])]) (\<lambda>raw.
      rbind (s27_served sn raw ctx_id lineage_id ''2026-01-01T00:00:00.000Z'') (\<lambda>historical_body.
      rbind (s27_served sn raw ctx_id lineage_id ''2026-06-01T00:00:00.000Z'') (\<lambda>current_body.
      rbind (json_index (JObj historical_body) ''content_hash'') (\<lambda>content_hash.
      rbind (s27_mint sn reg_v1 (s27_kid sn ''1'') ctx_id lineage_id ''2026-01-01T00:00:00.000Z'' content_hash fp) (\<lambda>historical_receipt.
      rbind (s27_mint sn reg_v2 (s27_kid sn ''2'') ctx_id lineage_id ''2026-06-01T00:00:00.000Z'' content_hash fp) (\<lambda>current_receipt.
      Inr \<lparr>rk_v1 = reg_v1, rk_v2 = reg_v2, rk_producer = p, rk_fp = fp, rk_ctx_id = ctx_id,
           rk_historical_body = JObj historical_body, rk_current_body = JObj current_body, rk_content_hash = content_hash,
           rk_historical_receipt = JObj historical_receipt, rk_current_receipt = JObj current_receipt\<rparr>))))))))))))"

record s27_core =
  rc_historical_status :: string
  rc_current_status :: string
  rc_removed :: bool
  rc_downgrade :: bool
  rc_tampered :: bool
  rc_cross_bound :: bool
  rc_cross_bound_why :: string

definition s27_offline :: "'w scen_env \<Rightarrow> s27_parts \<Rightarrow> s27_core result" where
  "s27_offline sn k =
     (let did = registry_did_of sn; verify = (\<lambda>receipt doc body content_hash.
            verify_via_did sn receipt doc body (rk_ctx_id k) content_hash (rk_fp k)) in
      rbind (ed25519_jwk_vm (JStr (s27_kid sn ''1'')) did (public_key_b64 (rk_v1 k))) (\<lambda>vm_v1.
      rbind (ed25519_jwk_vm (JStr (s27_kid sn ''2'')) did (public_key_b64 (rk_v2 k))) (\<lambda>vm_v2.
      rbind (parse_did_document sn did [vm_v2] (Some [vm_v1])) (\<lambda>doc_rotated.
      rbind (verify (rk_historical_receipt k) doc_rotated (rk_historical_body k) (rk_content_hash k)) (\<lambda>historical_status.
      rbind (verify (rk_current_receipt k) doc_rotated (rk_current_body k) (rk_content_hash k)) (\<lambda>current_status.
      rbind (parse_did_document sn did [vm_v2] None) (\<lambda>doc_removed.
      rbind (catches is_ReceiptUnverifiable
               (verify (rk_historical_receipt k) doc_removed (rk_historical_body k) (rk_content_hash k))) (\<lambda>removed.
      rbind (catches (\<lambda>e. e = DidResolutionError) (receipt_key sn doc_rotated (JStr (s27_kid sn ''1'')) (JStr ''ecdsa-p256''))) (\<lambda>downgrade.
      rbind (expect_rejection (et_str (sn_texts sn)) SDK_REJECTIONS
               (verify (rk_historical_receipt k) doc_rotated (rk_historical_body k) (JStr (''sha256:'' @ concat (replicate 32 ''ff''))))) (\<lambda>(tampered, _).
      rbind (expect_rejection (et_str (sn_texts sn)) SDK_REJECTIONS
               (verify (rk_historical_receipt k) doc_rotated (rk_current_body k) (rk_content_hash k))) (\<lambda>(cross_bound, why).
      Inr \<lparr>rc_historical_status = historical_status, rc_current_status = current_status, rc_removed = removed, rc_downgrade = downgrade,
           rc_tampered = tampered, rc_cross_bound = (cross_bound \<and> py_contains ''body created_at'' why), rc_cross_bound_why = why\<rparr>)))))))))))"

definition s27_core_ok :: "s27_core \<Rightarrow> bool" where
  "s27_core_ok c \<longleftrightarrow> rc_historical_status c = ''verified_historical'' \<and> rc_current_status c = ''verified'' \<and> rc_removed c \<and> rc_downgrade c
     \<and> rc_tampered c \<and> rc_cross_bound c"

record s27_live =
  rl_ctx_id :: "string option"
  rl_status :: string
  rl_ok :: bool
  rl_outcome :: string

definition s27_start :: s27_live where
  "s27_start = \<lparr>rl_ctx_id = None, rl_status = ''none'', rl_ok = False, rl_outcome = ''skipped''\<rparr>"

definition s27_publish :: "'w scen_env \<Rightarrow> run_spec \<Rightarrow> client \<Rightarrow> producer \<Rightarrow> string \<Rightarrow> s27_live \<Rightarrow> ('w, s27_live) act" where
  "s27_publish sn spec cl p title l =
     mbind (mlift (build_publish_request p
              [(''title'', JStr title), (''context_type'', JStr ''data_snapshot''), (''visibility'', JStr ''public''),
               (''summary'', JStr ''Attested by a rotating receipt key.''), (''domain'', JStr ''provenance''),
               (''tags'', JList [JStr ''receipts'', JStr ''rotation''])])) (\<lambda>raw.
     mbind (mcall (publish_context (sn_env sn) (sn_client sn) cl raw None)) (\<lambda>resp.
     mbind (put_event_with sn spec ''acdp.publish'' (\<lambda>e. e\<lparr>se_agent_id := Some (agent_did p), se_ctx_id := Some (pr_ctx_id resp),
              se_title := Some title, se_preview := Some (''did:key '' @ arrow @ '' receipts registry'')\<rparr>)) (\<lambda>_.
     mret (l\<lparr>rl_ctx_id := Some (pr_ctx_id resp)\<rparr>))))"

text \<open>The status of the served receipt, none without a receipt or a key.\<close>

definition s27_resolve :: "'w scen_env \<Rightarrow> json \<Rightarrow> string \<Rightarrow> json \<Rightarrow> json \<Rightarrow> string option \<Rightarrow> string option result" where
  "s27_resolve sn fp ctx_id body receipt registry_pub =
     (case registry_pub of
        Some pub \<Rightarrow>
          if receipt = JNull then Inr None
          else rbind (json_index body ''content_hash'') (\<lambda>h.
               rbind (verify_content_hash (sn_sdk sn) (dumps sn body) h) (\<lambda>_.
               rbind (rbind (json_index receipt ''signature'') (\<lambda>s. json_index s ''key_id'')) (\<lambda>live_kid.
               rbind (ed25519_jwk_vm live_kid (registry_did_of sn) pub) (\<lambda>live_vm.
               rbind (parse_did_document sn (registry_did_of sn) [live_vm] None) (\<lambda>live_doc.
               rbind (verify_via_did sn receipt live_doc body ctx_id h fp) (\<lambda>status. Inr (Some status)))))))
      | None \<Rightarrow> Inr None)"

definition s27_retrieve :: "'w scen_env \<Rightarrow> client \<Rightarrow> json \<Rightarrow> s27_live \<Rightarrow> ('w, s27_live) act" where
  "s27_retrieve sn cl fp l =
     mbind (mcall (retrieve_raw (sn_env sn) (sn_client sn) cl (the (rl_ctx_id l)) None)) (\<lambda>full.
     mbind (mlift (json_index full ''body'')) (\<lambda>body.
     mbind (mlift (json_get_attr full ''registry_receipt'' JNull)) (\<lambda>receipt.
     mbind (mlift (receipt_pub sn)) (\<lambda>registry_pub.
     mbind (mlift (s27_resolve sn fp (the (rl_ctx_id l)) body receipt registry_pub)) (\<lambda>status.
     mret (case status of
             Some s \<Rightarrow> l\<lparr>rl_status := s, rl_ok := (s = ''verified''), rl_outcome := (if s = ''verified'' then ''verified'' else s)\<rparr>
           | None \<Rightarrow> l\<lparr>rl_outcome := ''no_receipt''\<rparr>))))))"

definition s27_outcome :: "'w scen_env \<Rightarrow> s27_live \<times> exn option \<Rightarrow> string" where
  "s27_outcome sn lived = (case snd lived of None \<Rightarrow> rl_outcome (fst lived) | Some e \<Rightarrow> round_trip_failure sn e)"

definition s27_summary :: "'w scen_env \<Rightarrow> s27_core \<Rightarrow> s27_live \<times> exn option \<Rightarrow> obj" where
  "s27_summary sn c lived =
     [(''historical_receipt_verified'', JBool (rc_historical_status c = ''verified_historical'')),
      (''historical_status'', JStr (rc_historical_status c)), (''current_receipt_verified'', JBool (rc_current_status c = ''verified'')),
      (''current_status'', JStr (rc_current_status c)), (''removed_key_fail_closed'', JBool (rc_removed c)),
      (''downgrade_rejected'', JBool (rc_downgrade c)), (''tampered_historical_rejected'', JBool (rc_tampered c)),
      (''cross_bound_body_rejected'', JBool (rc_cross_bound c)), (''cross_bound_body_why'', JStr (py_take 160 (rc_cross_bound_why c))),
      (''offline_core_ok'', JBool (s27_core_ok c)), (''live_round_trip'', JStr (s27_outcome sn lived)),
      (''live_receipt_status'', JStr (rl_status (fst lived)))]
     @ (if rl_ok (fst lived) then [] else [(''degraded'', JBool True)])"

definition s27_run :: "'w scenario_act" where
  "s27_run sn spec =
     (let title = input_text sn spec ''topic'' ''long-lived registry attestation'' @ '' '' @ em_dash @ '' receipted'';
          authority = registry_a_authority (sn_settings sn) in
      mbind (mlift (s27_setup sn spec)) (\<lambda>k.
      mbind (mlift (s27_offline sn k)) (\<lambda>c.
      mbind (tell sn spec ''acdp.verify'' (Some (registry_did_of sn)) ''Registry receipt-key rotation verified''
               (''historical='' @ rc_historical_status c @ ''; current='' @ rc_current_status c @ ''; removed_fail_closed='' @ py_bool (rc_removed c)
                @ ''; downgrade_rejected='' @ py_bool (rc_downgrade c))) (\<lambda>_.
      mbind (mlift (new_client (registry_a_url (sn_settings sn)) None (Some (sp_run_id spec)) None False None tenant_mode.Fallback True)) (\<lambda>cl.
      mbind (run_steps [s27_publish sn spec cl (rk_producer k) title, s27_retrieve sn cl (rk_fp k)] s27_start) (\<lambda>lived.
      let contexts = (case nonempty_str (rl_ctx_id (fst lived)) of Some c \<Rightarrow> [c] | None \<Rightarrow> []) in
      mret (run_result_of spec ''s27_receipt_key_rotation'' contexts
              (graph (map (\<lambda>c. did_node c (agent_did (rk_producer k)) title ''data_snapshot'' authority 1) contexts) [])
              (s27_summary sn c lived)
              (if s27_core_ok c then None else Some ''registry receipt-key rotation core failed''))))))))"

lemma signed_ordinary:
  assumes "civil_scen sn" "civil_producer p"
  shows "ordinary (signed fr (sn_sdk sn) x p kid)"
  using assms build_ordinary(3)[OF assms(2)] by (auto simp: signed_def preimage_def civil_scen_def intro!: ordinary_rbind)

lemma verify_via_did_ordinary: "civil_scen sn \<Longrightarrow> ordinary (verify_via_did sn receipt doc body c h fp)"
  using rotation_ordinary(2)[of sn doc] unfolding verify_via_did_def ReceiptUnverifiable_def
  by (auto simp: ordinary_def[of "Inl _"] split: sum.split intro!: value_ordinary) (metis ordinary_def)

lemma s27_ordinary:
  assumes "civil_scen sn"
  shows "ordinary (s27_setup sn spec)" "ordinary (s27_offline sn k)" "ordinary (s27_resolve sn fp c body receipt pub)"
proof -
  show "ordinary (s27_setup sn spec)"
    unfolding s27_setup_def s27_served_def s27_mint_def mint_receipt_def Let_def
    by (rule ordinary_rbind | rule signed_ordinary synthesize_ordinary seed_ordinary rotation_ordinary build_ordinary json_index_ordinary assms
        | erule seed_civil[rotated] | simp)+
  show "ordinary (s27_offline sn k)" unfolding s27_offline_def Let_def
    by (auto intro!: value_ordinary verify_via_did_ordinary catches_ordinary assms split: prod.split)
  show "ordinary (s27_resolve sn fp c body receipt pub)" unfolding s27_resolve_def
    by (auto intro!: value_ordinary verify_via_did_ordinary assms split: option.split)
qed

lemma s27_setup_civil: "civil_scen sn \<Longrightarrow> s27_setup sn spec = Inr k \<Longrightarrow> civil_producer (rk_producer k)"
  by (auto simp: s27_setup_def Let_def rbind_eq_Inr dest: seed_civil)

lemma vcg_s27_setup:
  assumes "civil_scen sn" "\<And>k. civil_producer (rk_producer k) \<Longrightarrow> quietly P (f k)"
  shows "quietly P (mbind (mlift (s27_setup sn spec)) f)"
  by (rule quietly_post[where Q = "\<lambda>k. civil_producer (rk_producer k)"])
     (use assms s27_setup_civil in \<open>auto intro!: vcg_mlift s27_ordinary\<close>)

lemma quietly_s27_step:
  assumes "civil_scen sn" "civil_client cl"
  shows "civil_producer p \<Longrightarrow> quietly (\<lambda>_. True) (s27_publish sn spec cl p title l)" "quietly (\<lambda>_. True) (s27_retrieve sn cl fp l)"
  unfolding s27_publish_def s27_retrieve_def by (rule trust_rules s27_ordinary assms | assumption | simp)+

interpretation s27: scenario_contract s27_run "''s27_receipt_key_rotation''"
  by unfold_locales
     (simp only: s27_run_def Let_def,
      (rule vcg_s27_setup s27_ordinary vcg_run_steps trust_rules | assumption
       | (force simp: quietly_s27_step)[1] | (simp add: graph_simps did_node_def split: option.split)[1])+)

end
