(* ===== verification/Verdict_Kit.thy ===== *)
theory Verdict_Kit
  imports Scenarios_Rotation
begin

text \<open>
  What the scenarios on lifecycle events, logs, revocations and embedded content share: Python's comparison of decoded values, the JSON
  verdicts of the SDK's verifiers, identifiers and instants drawn from the outside, and the registry's own DID document.
\<close>

section \<open>Comparing decoded values\<close>

text \<open>A number by its size, infinities at the ends; not-a-number is marked and equals nothing.\<close>

fun num_key :: "json \<Rightarrow> (int \<times> rat) option" where
  "num_key (JBool b) = Some (0, if b then 1 else 0)"
| "num_key (JInt i) = Some (0, of_int i)"
| "num_key (JFloat (Fin q)) = Some (0, q)"
| "num_key (JFloat PosInf) = Some (1, 0)"
| "num_key (JFloat NegInf) = Some (-1, 0)"
| "num_key (JFloat NaN) = Some (2, 0)"
| "num_key _ = None"

text \<open>\<^verbatim>\<open>a == b\<close>: numbers by size, lists by their members, dicts whatever the order of their keys.\<close>

fun json_eq :: "json \<Rightarrow> json \<Rightarrow> bool" and json_eqs :: "json list \<Rightarrow> json list \<Rightarrow> bool" where
  "json_eq (JList xs) b = (case b of JList ys \<Rightarrow> json_eqs xs ys | _ \<Rightarrow> False)"
| "json_eq (JObj kvs) b =
     (case b of
        JObj kws \<Rightarrow> length kvs = length kws
          \<and> list_all (\<lambda>kv. case map_of kws (fst kv) of Some w \<Rightarrow> json_eq (snd kv) w | None \<Rightarrow> False) kvs
      | _ \<Rightarrow> False)"
| "json_eq a b = (case (num_key a, num_key b) of (Some x, Some y) \<Rightarrow> x = y \<and> fst x \<noteq> 2 | _ \<Rightarrow> a = b)"
| "json_eqs (x # xs) (y # ys) = (json_eq x y \<and> json_eqs xs ys)"
| "json_eqs xs ys = (xs = [] \<and> ys = [])"

text \<open>\<^verbatim>\<open>a > b\<close>.\<close>

fun json_gt :: "json \<Rightarrow> json \<Rightarrow> bool result" where
  "json_gt (JStr s) (JStr t) = Inr (map (of_char :: char \<Rightarrow> nat) t < map of_char s)"
| "json_gt (JList (x # xs)) (JList (y # ys)) = (if json_eq x y then json_gt (JList xs) (JList ys) else json_gt x y)"
| "json_gt (JList xs) (JList ys) = Inr (xs \<noteq> [])"
| "json_gt a b =
     (case (num_key a, num_key b) of
        (Some x, Some y) \<Rightarrow> Inr (fst x \<noteq> 2 \<and> fst y \<noteq> 2 \<and> (fst y < fst x \<or> fst y = fst x \<and> snd y < snd x))
      | _ \<Rightarrow> Inl TypeError)"

lemma json_eq_JStr [simp]: "json_eq j (JStr s) \<longleftrightarrow> j = JStr s"
  by (cases j) (auto split: option.splits prod.splits)

lemma json_gt_ordinary [simp]: "ordinary (json_gt a b)"
  by (induction a b rule: json_gt.induct) (auto split: option.splits prod.splits)

section \<open>Verdicts\<close>

text \<open>\<^verbatim>\<open>json.loads(x)\<close> for what the SDK returned, and its verdict read so.\<close>

definition loads_value :: "json \<Rightarrow> json result" where
  "loads_value j = (case as_str j of Some s \<Rightarrow> json_loads s | None \<Rightarrow> Inl TypeError)"

definition verdict :: "'w scen_env \<Rightarrow> string \<Rightarrow> json list \<Rightarrow> json result" where
  "verdict sn f xs = rbind (sdk_fun sn f xs) loads_value"

text \<open>\<^verbatim>\<open>v.get(k) is True\<close> and \<^verbatim>\<open>v.get(k) is False\<close>.\<close>

definition says :: "json \<Rightarrow> string \<Rightarrow> bool \<Rightarrow> bool result" where
  "says v k b = rbind (json_get_attr v k JNull) (\<lambda>x. Inr (x = JBool b))"

text \<open>\<^verbatim>\<open>v.get(k) == x\<close>.\<close>

definition tells :: "json \<Rightarrow> string \<Rightarrow> json \<Rightarrow> bool result" where
  "tells v k x = rbind (json_get_attr v k JNull) (\<lambda>y. Inr (json_eq y x))"

text \<open>\<^verbatim>\<open>a and b and ...\<close> and \<^verbatim>\<open>all(f(x) for x in xs)\<close>: nothing after the first that is false.\<close>

fun all_of :: "('a \<Rightarrow> bool result) \<Rightarrow> 'a list \<Rightarrow> bool result" where
  "all_of f [] = Inr True"
| "all_of f (x # xs) = rbind (f x) (\<lambda>b. if b then all_of f xs else Inr False)"

abbreviation rand :: "bool result \<Rightarrow> bool result \<Rightarrow> bool result" where
  "rand a b \<equiv> rbind a (\<lambda>x. if x then b else Inr False)"

lemma all_of_ordinary: "(\<And>x. x \<in> set xs \<Longrightarrow> ordinary (f x)) \<Longrightarrow> ordinary (all_of f xs)"
  by (induction xs) (auto intro!: ordinary_rbind)

lemma all_of_True: "all_of f xs = Inr True \<longleftrightarrow> (\<forall>x \<in> set xs. f x = Inr True)"
  by (induction xs) (auto simp: rbind_eq_Inr)

lemma says_ordinary [simp]: "ordinary (says v k b)" "ordinary (tells v k x)" "ordinary (loads_value j)"
  by (auto simp: says_def tells_def loads_value_def intro!: value_ordinary split: option.split)

lemma verdict_ordinary: "civil_scen sn \<Longrightarrow> ordinary (verdict sn f xs)"
  unfolding verdict_def by (auto intro!: value_ordinary)

section \<open>Identifiers, instants and documents\<close>

definition muuid :: "'w scen_env \<Rightarrow> ('w, string) act" where
  "muuid sn st = (case fresh_uuid sn (world (r_io st)) of (w, u) \<Rightarrow> (st\<lparr>r_io := (r_io st)\<lparr>world := w\<rparr>\<rparr>, Inr u))"

definition mnow_ms :: "'w scen_env \<Rightarrow> ('w, string) act" where
  "mnow_ms sn = mget (\<lambda>st. now_ms sn (world (r_io st)))"

lemma vcg_outside [vcg]: "quietly (\<lambda>_. True) (muuid sn)" "quietly (\<lambda>_. True) (mnow_ms sn)"
proof -
  have "quiet_act (muuid sn)"
    by (rule quiet_actI) (auto simp: muuid_def civil_state_def intro!: adds_quietly_same split: prod.splits)
  then show "quietly (\<lambda>_. True) (muuid sn)" by (rule quietly_any)
qed (simp add: mnow_ms_def vcg)

text \<open>\<^verbatim>\<open>did_document(did, current=[ed25519_jwk_vm(kid, did, pub)])\<close>.\<close>

definition one_key_document :: "'w scen_env \<Rightarrow> json \<Rightarrow> string \<Rightarrow> string \<Rightarrow> string result" where
  "one_key_document sn kid did pub = rbind (ed25519_jwk_vm kid did pub) (\<lambda>vm. did_document (float_repr (sn_env sn)) did [vm] None)"

definition new_registry_client :: "'w scen_env \<Rightarrow> run_spec \<Rightarrow> client result" where
  "new_registry_client sn spec =
     new_client (registry_a_url (sn_settings sn)) None (Some (sp_run_id spec)) None False None tenant_mode.Fallback True"

text \<open>\<^verbatim>\<open>settings.receipt_verification_public_key_b64()\<close>, which has to be there.\<close>

definition required_receipt_pub :: "'w scen_env \<Rightarrow> string result" where
  "required_receipt_pub sn =
     rbind (receipt_pub sn) (\<lambda>pub. case pub of Some key \<Rightarrow> Inr key | None \<Rightarrow> Inl (RuntimeError ''no registry receipt key provisioned''))"

text \<open>The contexts that have an id, and the outcome of a live part.\<close>

definition known :: "string option list \<Rightarrow> string list" where
  "known cs = concat (map (\<lambda>c. case nonempty_str c of Some x \<Rightarrow> [x] | None \<Rightarrow> []) cs)"

definition live_outcome :: "'w scen_env \<Rightarrow> string \<Rightarrow> exn option \<Rightarrow> string" where
  "live_outcome sn good err = (case err of None \<Rightarrow> good | Some e \<Rightarrow> round_trip_failure sn e)"

text \<open>A lineage of two versions: its nodes and its edge.\<close>

definition two_versions :: "string \<Rightarrow> string \<Rightarrow> string \<Rightarrow> string option \<Rightarrow> string option \<Rightarrow> lineage_graph option" where
  "two_versions did title authority ctx_v1 ctx_v2 =
     (case (nonempty_str ctx_v1, nonempty_str ctx_v2) of
        (None, _) \<Rightarrow> graph [] []
      | (Some c1, None) \<Rightarrow> graph [did_node c1 did (title @ '' (v1)'') ''data_snapshot'' authority 1] []
      | (Some c1, Some c2) \<Rightarrow>
          graph [did_node c1 did (title @ '' (v1)'') ''data_snapshot'' authority 1, did_node c2 did (title @ '' (v2)'') ''data_snapshot'' authority 2]
            [(c1, c2)])"

lemma two_versions_ok: "two_versions did title authority c1 c2 = Some g \<Longrightarrow> graph_ok (known [c1, c2]) g"
  by (auto simp: two_versions_def graph_simps did_node_def known_def split: option.splits)

lemma kit_ordinary:
  assumes "civil_scen sn"
  shows "ordinary (one_key_document sn kid did pub)" "ordinary (required_receipt_pub sn)"
  by (auto simp: one_key_document_def required_receipt_pub_def intro!: value_ordinary seed_ordinary assms split: option.split)

lemma vcg_registry_client:
  "(\<And>cl. civil_client cl \<Longrightarrow> quietly P (f cl)) \<Longrightarrow> quietly P (mbind (mlift (new_registry_client sn spec)) f)"
  unfolding new_registry_client_def by (rule vcg_new_client)

lemma ordinary_branches:
  "(c \<Longrightarrow> ordinary a) \<Longrightarrow> (\<not> c \<Longrightarrow> ordinary b) \<Longrightarrow> ordinary (if c then a else b)"
  "(v = None \<Longrightarrow> ordinary a) \<Longrightarrow> (\<And>x. v = Some x \<Longrightarrow> ordinary (f x)) \<Longrightarrow> ordinary (case v of None \<Rightarrow> a | Some x \<Rightarrow> f x)"
  "(\<And>x y. q = (x, y) \<Longrightarrow> ordinary (g x y)) \<Longrightarrow> ordinary (case q of (x, y) \<Rightarrow> g x y)"
  by (auto split: option.split prod.split)

lemmas verdict_rules = ordinary_branches vcg_registry_client vcg_outside kit_ordinary verdict_ordinary all_of_ordinary signed_ordinary rotation_ordinary
  verify_signature_ordinary trust_rules ordinary_rbind

end
