(* ===== verification/Scenarios_Lifecycle.thy ===== *)
theory Scenarios_Lifecycle
  imports Verdict_Kit
begin

text \<open>
  The scenarios of the catalogue on the state of a lineage: signed retraction and republication (S28) and the freshness of
  lineage-head receipts (S30).
\<close>

section \<open>S28: retraction and republication\<close>

definition S28 :: "'w scenario" where
  "S28 = scenario_def ''s28_lifecycle_retraction'' ''Lifecycle Events & Retraction''
     (''A producer retracts a context with a signed lifecycle event (mark-not-delete): status flips to retracted while the body stays retrievable, default search excludes it, /current applies the ''
      @ section_sign @ ''8.3 head exclusion, a double retract is refused invalid_lifecycle_transition, and a republish reverses it. Every event verifies offline via verify_lifecycle_event.'')
     ''single'' 1 [(''topic'', JStr ''flash sales estimate'')]"

definition verify_event :: "'w scen_env \<Rightarrow> json \<Rightarrow> string \<Rightarrow> json result" where
  "verify_event sn event ctx_id = verdict sn ''AcdpVerifier.verify_lifecycle_event'' [JStr (dumps sn event), JNull, JStr ctx_id]"

text \<open>\<^verbatim>\<open>for event in reversed(events)\<close>.\<close>

fun retraction_scan :: "obj list \<Rightarrow> bool" where
  "retraction_scan [] = False"
| "retraction_scan (event # rest) =
     (if obj_get event ''event_type'' = JStr ''retracted'' then True
      else if obj_get event ''event_type'' = JStr ''republished'' then False
      else retraction_scan rest)"

definition retraction_state :: "obj list \<Rightarrow> bool" where
  "retraction_state events = retraction_scan (rev events)"

definition s28_mint :: "'w scen_env \<Rightarrow> producer \<Rightarrow> string \<Rightarrow> string \<Rightarrow> string option \<Rightarrow> ('w, obj) act" where
  "s28_mint sn p ctx_id event_type reason =
     mbind (muuid sn) (\<lambda>event_id.
     mbind (mnow_ms sn) (\<lambda>occurred_at.
     mlift (mint_lifecycle_event (float_repr (sn_env sn)) (sn_sdk sn) p event_id ctx_id event_type occurred_at reason None)))"

record s28_core =
  lc_event_verified :: bool
  lc_replay_rejected :: bool
  lc_tamper_rejected :: bool
  lc_unsigned_rejected :: bool
  lc_derivation_ok :: bool
  lc_authz_ok :: bool

definition s28_core_ok :: "s28_core \<Rightarrow> bool" where
  "s28_core_ok c \<longleftrightarrow> lc_event_verified c \<and> lc_replay_rejected c \<and> lc_tamper_rejected c \<and> lc_unsigned_rejected c \<and> lc_derivation_ok c
     \<and> lc_authz_ok c"

definition derivation_ok :: "obj \<Rightarrow> obj \<Rightarrow> bool" where
  "derivation_ok retract_event republish_event \<longleftrightarrow>
     retraction_state [retract_event] \<and> \<not> retraction_state [retract_event, republish_event]
   \<and> retraction_state [retract_event, republish_event, retract_event]
   \<and> \<not> retraction_state [retract_event, republish_event, AList.update ''event_type'' (JStr ''annotated'') retract_event]"

definition s28_offline :: "'w scen_env \<Rightarrow> run_spec \<Rightarrow> producer \<Rightarrow> ('w, s28_core) act" where
  "s28_offline sn spec p =
     (let authority = registry_a_authority (sn_settings sn); valid = (\<lambda>event ctx_id b. rbind (verify_event sn event ctx_id) (\<lambda>v. says v ''valid'' b)) in
      mbind (mlift (synthetic_ctx_id authority ''s28-retractable-context'')) (\<lambda>ctx.
      mbind (s28_mint sn p ctx ''retracted'' (Some ''underlying data source found to be fabricated'')) (\<lambda>retract_event.
      mbind (s28_mint sn p ctx ''republished'' (Some ''source re-validated'')) (\<lambda>republish_event.
      mbind (mlift (valid (JObj retract_event) ctx True)) (\<lambda>event_verified.
      mbind (mlift (synthetic_ctx_id authority ''s28-replay-target-context'')) (\<lambda>other_ctx.
      mbind (mlift (valid (JObj retract_event) other_ctx False)) (\<lambda>replay_rejected.
      mbind (mlift (valid (JObj (AList.update ''reason'' (JStr ''innocuous edit'') retract_event)) ctx False)) (\<lambda>tamper_rejected.
      mbind (mlift (valid (JObj (filter (\<lambda>(k, v). k \<noteq> ''signature'') retract_event)) ctx False)) (\<lambda>unsigned_rejected.
      mbind (mlift (from_seed_did_key sn (agent_seed spec ''lifecycle-stranger''))) (\<lambda>stranger.
      mbind (s28_mint sn stranger ctx ''retracted'' None) (\<lambda>stranger_event.
      mbind (mlift (verify_event sn (JObj stranger_event) ctx)) (\<lambda>v.
      mbind (mlift (rand (says v ''valid'' True) (rand (tells v ''actor'' (JStr (agent_did stranger)))
               (rbind (tells v ''actor'' (JStr (agent_did p))) (\<lambda>own. Inr (\<not> own)))))) (\<lambda>authz_ok.
      mret \<lparr>lc_event_verified = event_verified, lc_replay_rejected = replay_rejected, lc_tamper_rejected = tamper_rejected,
            lc_unsigned_rejected = unsigned_rejected, lc_derivation_ok = derivation_ok retract_event republish_event,
            lc_authz_ok = authz_ok\<rparr>)))))))))))))"

record s28_live =
  cv_ctx_v1 :: "string option"
  cv_ctx_v2 :: "string option"
  cv_lineage_id :: string
  cv_raw_v2 :: string
  cv_full :: json
  cv_republished :: "full_context option"
  cv_retracted_status_ok :: bool
  cv_body_still_retrievable :: bool
  cv_served_events_verified :: bool
  cv_search_excludes_retracted :: bool
  cv_current_head_excluded :: bool
  cv_double_retract_conflict :: bool
  cv_republished_active_ok :: bool
  cv_current_restored :: bool

definition s28_start :: s28_live where
  "s28_start = \<lparr>cv_ctx_v1 = None, cv_ctx_v2 = None, cv_lineage_id = [], cv_raw_v2 = [], cv_full = JNull, cv_republished = None,
     cv_retracted_status_ok = False, cv_body_still_retrievable = False, cv_served_events_verified = False,
     cv_search_excludes_retracted = False, cv_current_head_excluded = False, cv_double_retract_conflict = False,
     cv_republished_active_ok = False, cv_current_restored = False\<rparr>"

abbreviation s28_v2 :: "s28_live \<Rightarrow> string" where
  "s28_v2 l \<equiv> the (cv_ctx_v2 l)"

definition s28_publish :: "'w scen_env \<Rightarrow> run_spec \<Rightarrow> client \<Rightarrow> producer \<Rightarrow> string \<Rightarrow> s28_live \<Rightarrow> ('w, s28_live) act" where
  "s28_publish sn spec cl p title l =
     mbind (mlift (build_publish_request p
              [(''title'', JStr title), (''context_type'', JStr ''data_snapshot''), (''visibility'', JStr ''public''),
               (''summary'', JStr (''v1 '' @ em_dash @ '' will be superseded.'')), (''domain'', JStr ''finance''),
               (''tags'', JList [JStr ''lifecycle'', JStr ''retraction''])])) (\<lambda>raw_v1.
     mbind (mcall (publish_context (sn_env sn) (sn_client sn) cl raw_v1 None)) (\<lambda>resp.
     mbind (put_event_with sn spec ''acdp.publish'' (\<lambda>e. e\<lparr>se_agent_id := Some (agent_did p), se_ctx_id := Some (pr_ctx_id resp),
              se_title := Some (title @ '' (v1)''), se_preview := Some (''did:key '' @ arrow @ '' lifecycle registry'')\<rparr>)) (\<lambda>_.
     mret (l\<lparr>cv_ctx_v1 := Some (pr_ctx_id resp), cv_lineage_id := pr_lineage_id resp\<rparr>))))"

definition s28_supersede :: "'w scen_env \<Rightarrow> run_spec \<Rightarrow> client \<Rightarrow> producer \<Rightarrow> string \<Rightarrow> s28_live \<Rightarrow> ('w, s28_live) act" where
  "s28_supersede sn spec cl p title l =
     mbind (mcall (retrieve_raw (sn_env sn) (sn_client sn) cl (the (cv_ctx_v1 l)) None)) (\<lambda>prev.
     mbind (mlift (json_index prev ''body'')) (\<lambda>prev_body.
     mbind (mlift (build_supersede_request p
              [(''previous_body_json'', JStr (dumps sn prev_body)), (''summary'', JStr (''v2 '' @ em_dash @ '' corrected figures; will be retracted.'')),
               (''expected_lineage_id'', JStr (cv_lineage_id l))])) (\<lambda>raw_v2.
     mbind (mcall (publish_context (sn_env sn) (sn_client sn) cl raw_v2 None)) (\<lambda>resp.
     mbind (put_event_with sn spec ''acdp.publish'' (\<lambda>e. e\<lparr>se_agent_id := Some (agent_did p), se_ctx_id := Some (pr_ctx_id resp),
              se_title := Some (title @ '' (v2)''), se_derived_from := [the (cv_ctx_v1 l)], se_preview := Some ''supersedes v1''\<rparr>)) (\<lambda>_.
     mret (l\<lparr>cv_ctx_v2 := Some (pr_ctx_id resp), cv_raw_v2 := raw_v2\<rparr>))))))"

definition s28_retract :: "'w scen_env \<Rightarrow> run_spec \<Rightarrow> client \<Rightarrow> producer \<Rightarrow> s28_live \<Rightarrow> ('w, s28_live) act" where
  "s28_retract sn spec cl p l =
     mbind (s28_mint sn p (s28_v2 l) ''retracted'' (Some ''figures withdrawn pending re-audit'')) (\<lambda>event.
     mbind (mcall (retract (sn_env sn) (sn_client sn) cl (s28_v2 l) (dumps sn (JObj event)))) (\<lambda>after.
     mbind (put_event_with sn spec ''acdp.verify'' (\<lambda>e. e\<lparr>se_agent_id := Some (agent_did p), se_ctx_id := cv_ctx_v2 l,
              se_title := Some ''Context retracted'', se_preview := Some (''status='' @ rs_status (fc_registry_state after))\<rparr>)) (\<lambda>_.
     mret (l\<lparr>cv_retracted_status_ok := (rs_status (fc_registry_state after) = ''retracted'' \<and> fc_is_retracted after)\<rparr>))))"

text \<open>Whether the body is still the one signed, in state retracted; then whether each event served with it verifies and is the producer's.\<close>

definition s28_observe :: "'w scen_env \<Rightarrow> client \<Rightarrow> s28_live \<Rightarrow> ('w, s28_live) act" where
  "s28_observe sn cl l =
     mbind (mcall (retrieve_raw (sn_env sn) (sn_client sn) cl (s28_v2 l) None)) (\<lambda>full.
     mbind (mlift (rand
              (rbind (json_index full ''body'') (\<lambda>body. rbind (json_index body ''content_hash'') (\<lambda>served.
               rbind (json_loads (cv_raw_v2 l)) (\<lambda>req. rbind (json_index req ''content_hash'') (\<lambda>published. Inr (json_eq served published))))))
              (rbind (json_index full ''registry_state'') (\<lambda>state. rbind (json_index state ''status'') (\<lambda>s. Inr (json_eq s (JStr ''retracted''))))))) (\<lambda>ok.
     mret (l\<lparr>cv_full := full, cv_body_still_retrievable := ok\<rparr>)))"

definition s28_event_ok :: "'w scen_env \<Rightarrow> json \<Rightarrow> string \<Rightarrow> json \<Rightarrow> bool result" where
  "s28_event_ok sn full ctx_id event =
     rand (rbind (verify_event sn event ctx_id) (\<lambda>v. says v ''valid'' True))
       (rbind (json_get_attr event ''actor'' JNull) (\<lambda>actor.
        rbind (json_index full ''body'') (\<lambda>body. rbind (json_index body ''agent_id'') (\<lambda>owner. Inr (json_eq actor owner)))))"

definition s28_check_events :: "'w scen_env \<Rightarrow> s28_live \<Rightarrow> ('w, s28_live) act" where
  "s28_check_events sn l =
     mbind (mlift (rbind (json_index (cv_full l) ''registry_state'') (\<lambda>state. json_get_attr state ''lifecycle_events'' JNull))) (\<lambda>served.
     mbind (mlift (if truthy served then rbind (py_iter served) (all_of (s28_event_ok sn (cv_full l) (s28_v2 l))) else Inr False)) (\<lambda>ok.
     mret (l\<lparr>cv_served_events_verified := ok\<rparr>)))"

definition s28_search :: "'w scen_env \<Rightarrow> client \<Rightarrow> producer \<Rightarrow> s28_live \<Rightarrow> ('w, s28_live) act" where
  "s28_search sn cl p l =
     mbind (mcall (search (sn_env sn) (sn_client sn) cl
              \<lparr>sq_q = None, sq_context_type = None, sq_domain = None, sq_agent_id = Some (agent_did p), sq_tags = None, sq_derived_from = None,
               sq_visibility = None\<rparr> 50 None)) (\<lambda>hits.
     mret (l\<lparr>cv_search_excludes_retracted := list_all (\<lambda>h. sh_ctx_id h \<noteq> s28_v2 l) (sr_matches hits)\<rparr>))"

definition s28_current :: "'w scen_env \<Rightarrow> client \<Rightarrow> s28_live \<Rightarrow> ('w, s28_live) act" where
  "s28_current sn cl l =
     mtry (mbind (mcall (current (sn_env sn) (sn_client sn) cl (cv_lineage_id l))) (\<lambda>_. mret l))
       (\<lambda>e. case as_http_error e of Some h \<Rightarrow> mret (l\<lparr>cv_current_head_excluded := (he_status h = 404)\<rparr>) | None \<Rightarrow> mraise e)"

definition s28_retract_again :: "'w scen_env \<Rightarrow> client \<Rightarrow> producer \<Rightarrow> s28_live \<Rightarrow> ('w, s28_live) act" where
  "s28_retract_again sn cl p l =
     mbind (s28_mint sn p (s28_v2 l) ''retracted'' None) (\<lambda>event.
     mtry (mbind (mcall (retract (sn_env sn) (sn_client sn) cl (s28_v2 l) (dumps sn (JObj event)))) (\<lambda>_. mret l))
       (\<lambda>e. case as_http_error e of
          Some h \<Rightarrow> if he_class h = InvalidLifecycleTransitionError then mret (l\<lparr>cv_double_retract_conflict := (he_status h = 409)\<rparr>) else mraise e
        | None \<Rightarrow> mraise e))"

definition history_of :: "full_context \<Rightarrow> obj list" where
  "history_of fc = (case rs_lifecycle_events (fc_registry_state fc) of Some events \<Rightarrow> events | None \<Rightarrow> [])"

definition s28_republish :: "'w scen_env \<Rightarrow> client \<Rightarrow> producer \<Rightarrow> s28_live \<Rightarrow> ('w, s28_live) act" where
  "s28_republish sn cl p l =
     mbind (s28_mint sn p (s28_v2 l) ''republished'' (Some ''re-audit complete'')) (\<lambda>event.
     mbind (mcall (republish (sn_env sn) (sn_client sn) cl (s28_v2 l) (dumps sn (JObj event)))) (\<lambda>after.
     mret (l\<lparr>cv_republished := Some after,
             cv_republished_active_ok := (rs_status (fc_registry_state after) = ''active'' \<and> \<not> fc_is_retracted after
               \<and> 2 \<le> length (history_of after) \<and> \<not> retraction_state (history_of after))\<rparr>)))"

definition s28_restored :: "'w scen_env \<Rightarrow> run_spec \<Rightarrow> client \<Rightarrow> producer \<Rightarrow> s28_live \<Rightarrow> ('w, s28_live) act" where
  "s28_restored sn spec cl p l =
     mbind (mcall (current (sn_env sn) (sn_client sn) cl (cv_lineage_id l))) (\<lambda>restored.
     mbind (put_event_with sn spec ''acdp.verify'' (\<lambda>e. e\<lparr>se_agent_id := Some (agent_did p), se_ctx_id := cv_ctx_v2 l,
              se_title := Some ''Context republished'',
              se_preview := Some (''status='' @ rs_status (fc_registry_state (the (cv_republished l))) @ '' events=''
                @ str_int (int (length (history_of (the (cv_republished l))))))\<rparr>)) (\<lambda>_.
     mret (l\<lparr>cv_current_restored := (b_ctx_id (fc_body restored) = s28_v2 l)\<rparr>)))"

definition s28_steps :: "'w scen_env \<Rightarrow> run_spec \<Rightarrow> client \<Rightarrow> producer \<Rightarrow> string \<Rightarrow> (s28_live \<Rightarrow> ('w, s28_live) act) list" where
  "s28_steps sn spec cl p title =
     [s28_publish sn spec cl p title, s28_supersede sn spec cl p title, s28_retract sn spec cl p, s28_observe sn cl, s28_check_events sn,
      s28_search sn cl p, s28_current sn cl, s28_retract_again sn cl p, s28_republish sn cl p, s28_restored sn spec cl p]"

definition s28_live_ok :: "s28_live \<Rightarrow> bool" where
  "s28_live_ok l \<longleftrightarrow> cv_retracted_status_ok l \<and> cv_body_still_retrievable l \<and> cv_served_events_verified l \<and> cv_search_excludes_retracted l
     \<and> cv_current_head_excluded l \<and> cv_double_retract_conflict l \<and> cv_republished_active_ok l \<and> cv_current_restored l"

definition s28_summary :: "'w scen_env \<Rightarrow> s28_core \<Rightarrow> s28_live \<times> exn option \<Rightarrow> obj" where
  "s28_summary sn c lived =
     (let l = fst lived in
      [(''producer_did_method'', JStr ''did:key''), (''event_verified'', JBool (lc_event_verified c)),
       (''replay_rejected'', JBool (lc_replay_rejected c)), (''tamper_rejected'', JBool (lc_tamper_rejected c)),
       (''unsigned_rejected'', JBool (lc_unsigned_rejected c)), (''derivation_ok'', JBool (lc_derivation_ok c)),
       (''authz_check_ok'', JBool (lc_authz_ok c)), (''offline_core_ok'', JBool (s28_core_ok c)),
       (''live_round_trip'', JStr (live_outcome sn ''verified'' (snd lived))), (''retracted_status_ok'', JBool (cv_retracted_status_ok l)),
       (''body_still_retrievable'', JBool (cv_body_still_retrievable l)), (''served_events_verified'', JBool (cv_served_events_verified l)),
       (''search_excludes_retracted'', JBool (cv_search_excludes_retracted l)), (''current_head_excluded'', JBool (cv_current_head_excluded l)),
       (''double_retract_conflict'', JBool (cv_double_retract_conflict l)), (''republished_active_ok'', JBool (cv_republished_active_ok l)),
       (''current_restored'', JBool (cv_current_restored l))]
      @ (if s28_live_ok l then [] else [(''degraded'', JBool True)]))"

definition s28_run :: "'w scenario_act" where
  "s28_run sn spec =
     (let title = input_text sn spec ''topic'' ''flash sales estimate'' @ '' '' @ em_dash @ '' retractable'';
          authority = registry_a_authority (sn_settings sn) in
      mbind (mlift (from_seed_did_key sn (agent_seed spec ''lifecycle-producer''))) (\<lambda>p.
      mbind (s28_offline sn spec p) (\<lambda>c.
      mbind (tell sn spec ''acdp.verify'' (Some (agent_did p)) ''Lifecycle event construction verified''
               (''signed='' @ py_bool (lc_event_verified c) @ '' replay_rejected='' @ py_bool (lc_replay_rejected c)
                @ '' tamper_rejected='' @ py_bool (lc_tamper_rejected c) @ '' derivation_ok='' @ py_bool (lc_derivation_ok c))) (\<lambda>_.
      mbind (mlift (new_registry_client sn spec)) (\<lambda>cl.
      mbind (run_steps (s28_steps sn spec cl p title) s28_start) (\<lambda>lived.
      let v1 = cv_ctx_v1 (fst lived); v2 = cv_ctx_v2 (fst lived) in
      mret (run_result_of spec ''s28_lifecycle_retraction'' (known [v1, v2]) (two_versions (agent_did p) title authority v1 v2)
              (s28_summary sn c lived)
              (if s28_core_ok c then None else Some ''lifecycle event core failed offline verification''))))))))"

lemma verify_event_ordinary: "civil_scen sn \<Longrightarrow> ordinary (verify_event sn e c)"
  by (simp add: verify_event_def verdict_ordinary)

lemma quietly_s28_mint: "civil_scen sn \<Longrightarrow> civil_producer p \<Longrightarrow> quietly (\<lambda>_. True) (s28_mint sn p c ty r)"
  unfolding s28_mint_def mint_lifecycle_event_def by (rule verdict_rules | assumption | simp)+

lemma quietly_s28_offline: "civil_scen sn \<Longrightarrow> civil_producer p \<Longrightarrow> quietly (\<lambda>_. True) (s28_offline sn spec p)"
  unfolding s28_offline_def Let_def by (rule quietly_s28_mint verify_event_ordinary verdict_rules | assumption | simp)+

lemma s28_event_ok_ordinary: "civil_scen sn \<Longrightarrow> ordinary (s28_event_ok sn full c e)"
  unfolding s28_event_ok_def by (auto intro!: value_ordinary verify_event_ordinary)

lemma quietly_s28_steps:
  assumes "civil_scen sn" "civil_client cl" "civil_producer p"
  shows "quietly (\<lambda>_. True) (run_steps (s28_steps sn spec cl p title) l)"
proof (rule vcg_run_steps)
  fix f and l :: s28_live
  note defs = s28_publish_def s28_supersede_def s28_retract_def s28_observe_def s28_check_events_def s28_search_def s28_current_def
    s28_retract_again_def s28_republish_def s28_restored_def
  assume "f \<in> set (s28_steps sn spec cl p title)"
  then show "quietly (\<lambda>_. True) (f l)"
    by (simp only: s28_steps_def list.set insert_iff empty_iff, elim disjE; simp only: defs)
       (rule quietly_s28_mint verify_event_ordinary s28_event_ok_ordinary py_iter_ordinary verdict_rules vcg_mtry assms | simp)+
qed

interpretation s28: scenario_contract s28_run "''s28_lifecycle_retraction''"
  by unfold_locales
     (simp only: s28_run_def Let_def,
      (rule quietly_s28_offline quietly_s28_steps verdict_rules | assumption | (simp add: two_versions_ok)[1])+)

section \<open>S30: lineage-head receipts\<close>

definition S30 :: "'w scenario" where
  "S30 = scenario_def ''s30_head_receipt_freshness'' ''Lineage-Head Receipt Freshness''
     (''/current answers are registry-signed: the lineage-head receipt binds the newest ctx_id/version/status at a signed as_of instant. The consumer verifies the bindings against its own expectations, ages the receipt (stale is policy, not failure), rejects future-dated receipts, and ''
      @ em_dash @ '' after a supersession '' @ em_dash @ '' proves a replayed pre-supersession receipt no longer matches the new head.'')
     ''single'' 1 [(''topic'', JStr ''vendor risk register'')]"

definition verify_head :: "'w scen_env \<Rightarrow> json \<Rightarrow> json \<Rightarrow> string \<Rightarrow> json \<Rightarrow> json result" where
  "verify_head sn receipt expected doc now =
     verdict sn ''AcdpVerifier.verify_lineage_head_receipt'' [JStr (dumps sn receipt), JStr (dumps sn expected), JStr doc, now]"

definition head_expectation :: "string \<Rightarrow> string \<Rightarrow> string \<Rightarrow> int \<Rightarrow> string \<Rightarrow> obj" where
  "head_expectation authority lineage_id head_ctx_id head_version head_status =
     [(''authority'', JStr authority), (''lineage_id'', JStr lineage_id), (''head_ctx_id'', JStr head_ctx_id), (''head_version'', JInt head_version),
      (''head_status'', JStr head_status)]"

record s30_core =
  hd_fresh_ok :: bool
  hd_stale_flag_ok :: bool
  hd_future_rejected :: bool
  hd_supersession_binding_ok :: bool
  hd_tamper_rejected :: bool

definition s30_core_ok :: "s30_core \<Rightarrow> bool" where
  "s30_core_ok c \<longleftrightarrow> hd_fresh_ok c \<and> hd_stale_flag_ok c \<and> hd_future_rejected c \<and> hd_supersession_binding_ok c \<and> hd_tamper_rejected c"

text \<open>The minted receipts of the two heads, and the registry's document.\<close>

definition s30_mint :: "'w scen_env \<Rightarrow> run_spec \<Rightarrow> (string \<times> string \<times> string \<times> string \<times> obj \<times> obj) result" where
  "s30_mint sn spec =
     (let did = registry_did_of sn; kid = did @ ''#receipt-key-1''; authority = registry_a_authority (sn_settings sn);
          lineage_id = synthetic_lineage_id (sp_run_id spec);
          mint = (\<lambda>reg ctx_id version as_of. mint_lineage_head_receipt (float_repr (sn_env sn)) (sn_sdk sn) reg kid did lineage_id ctx_id version
            ''active'' as_of) in
      rbind (from_seed sn (sha256 (agent_seed spec ''registry-c-heads'' @ utf8_encode '':signer'')) did kid) (\<lambda>reg.
      rbind (one_key_document sn (JStr kid) did (public_key_b64 reg)) (\<lambda>doc.
      rbind (synthetic_ctx_id authority ''s30-head-v1'') (\<lambda>ctx_a.
      rbind (synthetic_ctx_id authority ''s30-head-v2'') (\<lambda>ctx_b.
      rbind (mint reg ctx_a 1 ''2026-07-05T09:00:00.000Z'') (\<lambda>receipt_v1.
      rbind (mint reg ctx_b 2 ''2026-07-05T09:05:00.000Z'') (\<lambda>receipt_v2.
      Inr (lineage_id, doc, ctx_a, ctx_b, receipt_v1, receipt_v2))))))))"

definition s30_judge ::
  "'w scen_env \<Rightarrow> string \<Rightarrow> string \<Rightarrow> string \<Rightarrow> string \<Rightarrow> obj \<Rightarrow> obj \<Rightarrow> s30_core result" where
  "s30_judge sn lineage_id doc ctx_a ctx_b receipt_v1 receipt_v2 =
     (let expect = (\<lambda>ctx_id version. JObj (head_expectation (registry_a_authority (sn_settings sn)) lineage_id ctx_id version ''active''));
          verify = (\<lambda>receipt expected now. verify_head sn (JObj receipt) expected doc (JStr now)) in
      rbind (verify receipt_v1 (expect ctx_a 1) ''2026-07-05T09:00:30.000Z'') (\<lambda>fresh.
      rbind (rand (says fresh ''valid'' True) (rand (says fresh ''stale'' False) (tells fresh ''age_secs'' (JInt 30)))) (\<lambda>fresh_ok.
      rbind (verify receipt_v1 (expect ctx_a 1) ''2026-07-05T09:10:00.000Z'') (\<lambda>aged.
      rbind (rand (says aged ''valid'' True) (says aged ''stale'' True)) (\<lambda>stale_flag_ok.
      rbind (verify receipt_v1 (expect ctx_a 1) ''2026-07-05T08:50:00.000Z'') (\<lambda>future.
      rbind (says future ''valid'' False) (\<lambda>future_rejected.
      rbind (verify receipt_v2 (expect ctx_b 2) ''2026-07-05T09:05:30.000Z'') (\<lambda>v2_bound.
      rbind (verify receipt_v1 (expect ctx_b 2) ''2026-07-05T09:05:30.000Z'') (\<lambda>replayed.
      rbind (rand (says v2_bound ''valid'' True) (says replayed ''valid'' False)) (\<lambda>supersession_binding_ok.
      rbind (verify (AList.update ''head_status'' (JStr ''expired'') receipt_v1) (expect ctx_a 1) ''2026-07-05T09:00:30.000Z'') (\<lambda>tampered.
      rbind (says tampered ''valid'' False) (\<lambda>tamper_rejected.
      Inr \<lparr>hd_fresh_ok = fresh_ok, hd_stale_flag_ok = stale_flag_ok, hd_future_rejected = future_rejected,
           hd_supersession_binding_ok = supersession_binding_ok, hd_tamper_rejected = tamper_rejected\<rparr>))))))))))))"

record s30_live =
  fv_ctx_v1 :: "string option"
  fv_ctx_v2 :: "string option"
  fv_pub :: string
  fv_lineage_id :: string
  fv_cur1 :: "full_context option"
  fv_receipt1 :: json
  fv_doc :: string
  fv_expected :: json
  fv_v1_receipt_ok :: bool
  fv_v2_receipt_ok :: bool
  fv_replay_rejected :: bool

definition s30_start :: s30_live where
  "s30_start = \<lparr>fv_ctx_v1 = None, fv_ctx_v2 = None, fv_pub = [], fv_lineage_id = [], fv_cur1 = None, fv_receipt1 = JNull, fv_doc = [],
     fv_expected = JNull, fv_v1_receipt_ok = False, fv_v2_receipt_ok = False, fv_replay_rejected = False\<rparr>"

definition live_expect :: "'w scen_env \<Rightarrow> string \<Rightarrow> full_context \<Rightarrow> json" where
  "live_expect sn lineage_id cur =
     JObj (head_expectation (registry_a_authority (sn_settings sn)) lineage_id (b_ctx_id (fc_body cur)) (b_version (fc_body cur))
             (rs_status (fc_registry_state cur)) @ [(''on_current_endpoint'', JBool True)])"

definition head_receipt_of :: "string \<Rightarrow> full_context \<Rightarrow> json result" where
  "head_receipt_of msg cur = (case fc_lineage_head_receipt cur of Some r \<Rightarrow> Inr (JObj r) | None \<Rightarrow> Inl (RuntimeError msg))"

definition s30_publish :: "'w scen_env \<Rightarrow> run_spec \<Rightarrow> client \<Rightarrow> producer \<Rightarrow> string \<Rightarrow> s30_live \<Rightarrow> ('w, s30_live) act" where
  "s30_publish sn spec cl p title l =
     mbind (mlift (required_receipt_pub sn)) (\<lambda>pub.
     mbind (mlift (build_publish_request p
              [(''title'', JStr title), (''context_type'', JStr ''data_snapshot''), (''visibility'', JStr ''public''),
               (''summary'', JStr (''v1 '' @ em_dash @ '' head of a fresh lineage.'')), (''domain'', JStr ''risk''),
               (''tags'', JList [JStr ''head-receipts''])])) (\<lambda>raw.
     mbind (mcall (publish_context (sn_env sn) (sn_client sn) cl raw None)) (\<lambda>resp.
     mbind (put_event_with sn spec ''acdp.publish'' (\<lambda>e. e\<lparr>se_agent_id := Some (agent_did p), se_ctx_id := Some (pr_ctx_id resp),
              se_title := Some (title @ '' (v1)''), se_preview := Some (''did:key '' @ arrow @ '' head-receipts registry'')\<rparr>)) (\<lambda>_.
     mret (l\<lparr>fv_ctx_v1 := Some (pr_ctx_id resp), fv_pub := pub, fv_lineage_id := pr_lineage_id resp\<rparr>)))))"

definition s30_first_head :: "'w scen_env \<Rightarrow> client \<Rightarrow> s30_live \<Rightarrow> ('w, s30_live) act" where
  "s30_first_head sn cl l =
     mbind (mcall (current (sn_env sn) (sn_client sn) cl (fv_lineage_id l))) (\<lambda>cur1.
     mbind (mlift (head_receipt_of ''head-receipts registry served no lineage_head_receipt'' cur1)) (\<lambda>receipt1.
     mbind (mlift (rbind (json_index receipt1 ''signature'') (\<lambda>s. json_index s ''key_id''))) (\<lambda>live_kid.
     mbind (mlift (one_key_document sn live_kid (registry_did_of sn) (fv_pub l))) (\<lambda>doc.
     mbind (mlift (verify_head sn receipt1 (live_expect sn (fv_lineage_id l) cur1) doc JNull)) (\<lambda>v.
     mbind (mlift (rand (says v ''valid'' True) (rand (says v ''stale'' False) (Inr (b_ctx_id (fc_body cur1) = the (fv_ctx_v1 l)))))) (\<lambda>ok.
     mret (l\<lparr>fv_cur1 := Some cur1, fv_receipt1 := receipt1, fv_doc := doc, fv_v1_receipt_ok := ok\<rparr>)))))))"

definition s30_supersede :: "'w scen_env \<Rightarrow> client \<Rightarrow> producer \<Rightarrow> s30_live \<Rightarrow> ('w, s30_live) act" where
  "s30_supersede sn cl p l =
     mbind (mcall (retrieve_raw (sn_env sn) (sn_client sn) cl (the (fv_ctx_v1 l)) None)) (\<lambda>prev.
     mbind (mlift (json_index prev ''body'')) (\<lambda>prev_body.
     mbind (mlift (build_supersede_request p
              [(''previous_body_json'', JStr (dumps sn prev_body)), (''summary'', JStr (''v2 '' @ em_dash @ '' refreshed register.'')),
               (''expected_lineage_id'', JStr (fv_lineage_id l))])) (\<lambda>raw.
     mbind (mcall (publish_context (sn_env sn) (sn_client sn) cl raw None)) (\<lambda>resp.
     mret (l\<lparr>fv_ctx_v2 := Some (pr_ctx_id resp)\<rparr>)))))"

definition s30_second_head :: "'w scen_env \<Rightarrow> client \<Rightarrow> s30_live \<Rightarrow> ('w, s30_live) act" where
  "s30_second_head sn cl l =
     mbind (mcall (current (sn_env sn) (sn_client sn) cl (fv_lineage_id l))) (\<lambda>cur2.
     mbind (mlift (head_receipt_of ''post-supersession /current served no lineage_head_receipt'' cur2)) (\<lambda>receipt2.
     let expected = live_expect sn (fv_lineage_id l) cur2 in
     mbind (mlift (verify_head sn receipt2 expected (fv_doc l) JNull)) (\<lambda>v.
     mbind (mlift (rand (says v ''valid'' True) (rand (says v ''stale'' False)
              (Inr (b_ctx_id (fc_body cur2) = the (fv_ctx_v2 l) \<and> b_version (fc_body cur2) = b_version (fc_body (the (fv_cur1 l))) + 1))))) (\<lambda>ok.
     mret (l\<lparr>fv_expected := expected, fv_v2_receipt_ok := ok\<rparr>)))))"

text \<open>The receipt of the first head, replayed against the second.\<close>

definition s30_replay :: "'w scen_env \<Rightarrow> run_spec \<Rightarrow> producer \<Rightarrow> s30_live \<Rightarrow> ('w, s30_live) act" where
  "s30_replay sn spec p l =
     mbind (mlift (verify_head sn (fv_receipt1 l) (fv_expected l) (fv_doc l) JNull)) (\<lambda>v.
     mbind (mlift (says v ''valid'' False)) (\<lambda>rejected.
     mbind (put_event_with sn spec ''acdp.verify'' (\<lambda>e. e\<lparr>se_agent_id := Some (agent_did p), se_ctx_id := fv_ctx_v2 l,
              se_title := Some ''Fresh head receipt binds the new head'',
              se_preview := Some (''v1_receipt='' @ py_bool (fv_v1_receipt_ok l) @ '' v2_receipt='' @ py_bool (fv_v2_receipt_ok l)
                @ '' replay_rejected='' @ py_bool rejected)\<rparr>)) (\<lambda>_.
     mret (l\<lparr>fv_replay_rejected := rejected\<rparr>))))"

definition s30_steps :: "'w scen_env \<Rightarrow> run_spec \<Rightarrow> client \<Rightarrow> producer \<Rightarrow> string \<Rightarrow> (s30_live \<Rightarrow> ('w, s30_live) act) list" where
  "s30_steps sn spec cl p title =
     [s30_publish sn spec cl p title, s30_first_head sn cl, s30_supersede sn cl p, s30_second_head sn cl, s30_replay sn spec p]"

definition s30_summary :: "'w scen_env \<Rightarrow> s30_core \<Rightarrow> s30_live \<times> exn option \<Rightarrow> obj" where
  "s30_summary sn c lived =
     (let l = fst lived in
      [(''fresh_ok'', JBool (hd_fresh_ok c)), (''stale_flag_ok'', JBool (hd_stale_flag_ok c)), (''future_rejected'', JBool (hd_future_rejected c)),
       (''supersession_binding_ok'', JBool (hd_supersession_binding_ok c)), (''tamper_rejected'', JBool (hd_tamper_rejected c)),
       (''offline_core_ok'', JBool (s30_core_ok c)), (''live_round_trip'', JStr (live_outcome sn ''verified'' (snd lived))),
       (''live_v1_receipt_ok'', JBool (fv_v1_receipt_ok l)), (''live_v2_receipt_ok'', JBool (fv_v2_receipt_ok l)),
       (''live_replay_rejected'', JBool (fv_replay_rejected l))]
      @ (if fv_v1_receipt_ok l \<and> fv_v2_receipt_ok l \<and> fv_replay_rejected l then [] else [(''degraded'', JBool True)]))"

definition s30_run :: "'w scenario_act" where
  "s30_run sn spec =
     (let title = input_text sn spec ''topic'' ''vendor risk register'' @ '' '' @ em_dash @ '' head-receipted'';
          authority = registry_a_authority (sn_settings sn) in
      mbind (mlift (s30_mint sn spec)) (\<lambda>(lineage_id, doc, ctx_a, ctx_b, receipt_v1, receipt_v2).
      mbind (mlift (s30_judge sn lineage_id doc ctx_a ctx_b receipt_v1 receipt_v2)) (\<lambda>c.
      mbind (tell sn spec ''acdp.verify'' (Some (registry_did_of sn)) ''Lineage-head receipt semantics verified (minted)''
               (''fresh='' @ py_bool (hd_fresh_ok c) @ '' stale_flag='' @ py_bool (hd_stale_flag_ok c) @ '' future_rejected=''
                @ py_bool (hd_future_rejected c) @ '' supersession_binding='' @ py_bool (hd_supersession_binding_ok c))) (\<lambda>_.
      mbind (mlift (from_seed_did_key sn (agent_seed spec ''head-producer''))) (\<lambda>p.
      mbind (mlift (new_registry_client sn spec)) (\<lambda>cl.
      mbind (run_steps (s30_steps sn spec cl p title) s30_start) (\<lambda>lived.
      let v1 = fv_ctx_v1 (fst lived); v2 = fv_ctx_v2 (fst lived) in
      mret (run_result_of spec ''s30_head_receipt_freshness'' (known [v1, v2]) (two_versions (agent_did p) title authority v1 v2)
              (s30_summary sn c lived)
              (if s30_core_ok c then None else Some ''lineage-head receipt core failed offline verification'')))))))))"

lemma verify_head_ordinary: "civil_scen sn \<Longrightarrow> ordinary (verify_head sn r e d n)"
  by (simp add: verify_head_def verdict_ordinary)

lemma head_receipt_of_ordinary [simp]: "ordinary (head_receipt_of msg cur)"
  by (simp add: head_receipt_of_def split: option.split)

lemma s30_ordinary:
  assumes "civil_scen sn"
  shows "ordinary (s30_mint sn spec)" "ordinary (s30_judge sn lin doc a b r1 r2)"
  unfolding s30_mint_def s30_judge_def mint_lineage_head_receipt_def Let_def
  by (rule verify_head_ordinary verdict_rules assms | erule seed_civil[rotated] | simp)+

lemma quietly_s30_steps:
  assumes "civil_scen sn" "civil_client cl" "civil_producer p"
  shows "quietly (\<lambda>_. True) (run_steps (s30_steps sn spec cl p title) l)"
proof (rule vcg_run_steps)
  fix f and l :: s30_live
  note defs = s30_publish_def s30_first_head_def s30_supersede_def s30_second_head_def s30_replay_def Let_def
  assume "f \<in> set (s30_steps sn spec cl p title)"
  then show "quietly (\<lambda>_. True) (f l)"
    by (simp only: s30_steps_def list.set insert_iff empty_iff, elim disjE; simp only: defs)
       (rule verify_head_ordinary verdict_rules assms | simp)+
qed

interpretation s30: scenario_contract s30_run "''s30_head_receipt_freshness''"
  by unfold_locales
     (simp only: s30_run_def Let_def,
      (rule quietly_s30_steps s30_ordinary verdict_rules | assumption | (simp add: two_versions_ok)[1])+)

end
