(* ===== verification/Scenarios_Log.thy ===== *)
theory Scenarios_Log
  imports Verdict_Kit
begin

text \<open>
  The scenarios of the catalogue on the transparency log: inclusion and consistency proofs (S29) and the cosignature of a witness (S31).
  Both mint the same two-entry log offline and make the same consistency check of the registry's own log.
\<close>

section \<open>The minted log\<close>

record minted_log =
  ml_reg :: producer
  ml_doc :: string
  ml_producer :: producer
  ml_fp :: json
  ml_leaf0 :: json
  ml_leaf1 :: json
  ml_h0 :: json
  ml_h1 :: json
  ml_root1 :: json
  ml_root2 :: json

definition log_kid :: "'w scen_env \<Rightarrow> string" where
  "log_kid sn = registry_did_of sn @ ''#receipt-key-1''"

definition log_id_of :: "'w scen_env \<Rightarrow> string" where
  "log_id_of sn = registry_did_of sn @ ''/log/1''"

text \<open>The leaf of the receipt minted for the \<open>n\<close>-th context.\<close>

definition minted_receipt :: "'w scen_env \<Rightarrow> run_spec \<Rightarrow> string \<Rightarrow> producer \<Rightarrow> json \<Rightarrow> string \<Rightarrow> string \<Rightarrow> obj result" where
  "minted_receipt sn spec label reg fp n created_at =
     (let authority = registry_a_authority (sn_settings sn) in
      rbind (synthetic_ctx_id authority (label @ ''-logged-context-'' @ n)) (\<lambda>ctx_id.
      mint_receipt (float_repr (sn_env sn)) (sn_sdk sn) reg (log_kid sn) (registry_did_of sn) ctx_id (synthetic_lineage_id (sp_run_id spec)) authority
        created_at (JStr (''sha256:'' @ hexdigest (sha256 (utf8_encode (sp_run_id spec @ '':'' @ n))))) fp))"

definition mint_log :: "'w scen_env \<Rightarrow> run_spec \<Rightarrow> string \<Rightarrow> minted_log result" where
  "mint_log sn spec label =
     (let did = registry_did_of sn; leaf_of = (\<lambda>receipt. sdk_fun sn ''AcdpVerifier.build_log_leaf'' [JStr (dumps sn (JObj receipt))]);
          hash_of = (\<lambda>leaf. sdk_fun sn ''AcdpMerkle.leaf_hash'' [leaf]); root_of = (\<lambda>hs. sdk_fun sn ''AcdpMerkle.root_hash'' [JStr (dumps sn (JList hs))]) in
      rbind (from_seed sn (sha256 (agent_seed spec ''registry-c-log'' @ utf8_encode '':signer'')) did (log_kid sn)) (\<lambda>reg.
      rbind (one_key_document sn (JStr (log_kid sn)) did (public_key_b64 reg)) (\<lambda>doc.
      rbind (from_seed_did_key sn (agent_seed spec ''logged-producer'')) (\<lambda>p.
      rbind (fp_of sn (JStr (public_key_b64 p))) (\<lambda>fp.
      rbind (minted_receipt sn spec label reg fp ''0'' ''2026-07-05T08:00:00.000Z'') (\<lambda>rcpt0.
      rbind (minted_receipt sn spec label reg fp ''1'' ''2026-07-05T08:30:00.000Z'') (\<lambda>rcpt1.
      rbind (leaf_of rcpt0) (\<lambda>leaf0.
      rbind (leaf_of rcpt1) (\<lambda>leaf1.
      rbind (hash_of leaf0) (\<lambda>h0.
      rbind (hash_of leaf1) (\<lambda>h1.
      rbind (root_of [h0]) (\<lambda>root1.
      rbind (root_of [h0, h1]) (\<lambda>root2.
      Inr \<lparr>ml_reg = reg, ml_doc = doc, ml_producer = p, ml_fp = fp, ml_leaf0 = leaf0, ml_leaf1 = leaf1, ml_h0 = h0, ml_h1 = h1,
           ml_root1 = root1, ml_root2 = root2\<rparr>)))))))))))))"

definition minted_checkpoint :: "'w scen_env \<Rightarrow> producer \<Rightarrow> int \<Rightarrow> json \<Rightarrow> string \<Rightarrow> obj result" where
  "minted_checkpoint sn reg tree_size root_hash timestamp =
     mint_log_checkpoint (float_repr (sn_env sn)) (sn_sdk sn) reg (log_kid sn) (log_id_of sn) tree_size root_hash timestamp"

definition verify_checkpoint :: "'w scen_env \<Rightarrow> json \<Rightarrow> string \<Rightarrow> json \<Rightarrow> json list \<Rightarrow> json result" where
  "verify_checkpoint sn ckpt doc log_id now = verdict sn ''AcdpVerifier.verify_log_checkpoint'' ([JStr (dumps sn ckpt), JStr doc, log_id] @ now)"

definition verify_inclusion :: "'w scen_env \<Rightarrow> json \<Rightarrow> json \<Rightarrow> json \<Rightarrow> json result" where
  "verify_inclusion sn proof_json ckpt leaf =
     verdict sn ''AcdpVerifier.verify_log_inclusion'' [JStr (dumps sn proof_json), JStr (dumps sn ckpt), leaf]"

definition verify_consistency :: "'w scen_env \<Rightarrow> json \<Rightarrow> json \<Rightarrow> json \<Rightarrow> json result" where
  "verify_consistency sn proof_json ckpt retained =
     verdict sn ''AcdpVerifier.verify_log_consistency'' [JStr (dumps sn proof_json), JStr (dumps sn ckpt), retained]"

definition consistency_proof :: "'w scen_env \<Rightarrow> json \<Rightarrow> json" where
  "consistency_proof sn h1 =
     JObj [(''log_id'', JStr (log_id_of sn)), (''first_tree_size'', JInt 1), (''second_tree_size'', JInt 2), (''consistency_path'', JList [h1])]"

text \<open>\<^verbatim>\<open>v.get("valid") is False and v.get("code") == code\<close>.\<close>

definition refused_as :: "string \<Rightarrow> json \<Rightarrow> bool result" where
  "refused_as code v = rand (says v ''valid'' False) (tells v ''code'' (JStr code))"

section \<open>The registry's own log\<close>

record log_live =
  lg_ctx1 :: "string option"
  lg_ctx2 :: "string option"
  lg_pub :: string
  lg_ckpt_a :: json
  lg_doc :: string
  lg_log_id :: json
  lg_size_a :: json
  lg_root_a :: json
  lg_size_b :: json
  lg_consistency :: json
  lg_con_ckpt :: json
  lg_consistent :: bool

definition publish_logged :: "'w scen_env \<Rightarrow> client \<Rightarrow> producer \<Rightarrow> string \<Rightarrow> string \<Rightarrow> string \<Rightarrow> ('w, string) act" where
  "publish_logged sn cl p title summary tag =
     mbind (mlift (build_publish_request p
              [(''title'', JStr title), (''context_type'', JStr ''data_snapshot''), (''visibility'', JStr ''public''), (''summary'', JStr summary),
               (''domain'', JStr ''markets''), (''tags'', JList [JStr tag])])) (\<lambda>raw.
     mbind (mcall (publish_context (sn_env sn) (sn_client sn) cl raw None)) (\<lambda>resp. mret (pr_ctx_id resp)))"

definition log_publish ::
  "'w scen_env \<Rightarrow> run_spec \<Rightarrow> client \<Rightarrow> producer \<Rightarrow> string \<Rightarrow> string \<Rightarrow> string \<Rightarrow> 'a log_live_scheme \<Rightarrow> ('w, 'a log_live_scheme) act" where
  "log_publish sn spec cl p title summary tag l =
     mbind (mlift (required_receipt_pub sn)) (\<lambda>pub.
     mbind (publish_logged sn cl p title summary tag) (\<lambda>ctx1.
     mbind (put_event_with sn spec ''acdp.publish'' (\<lambda>e. e\<lparr>se_agent_id := Some (agent_did p), se_ctx_id := Some ctx1, se_title := Some title,
              se_preview := Some (''did:key '' @ arrow @ '' transparency-log registry'')\<rparr>)) (\<lambda>_.
     mret (l\<lparr>lg_ctx1 := Some ctx1, lg_pub := pub\<rparr>))))"

definition log_follow_up ::
  "'w scen_env \<Rightarrow> client \<Rightarrow> producer \<Rightarrow> string \<Rightarrow> string \<Rightarrow> string \<Rightarrow> 'a log_live_scheme \<Rightarrow> ('w, 'a log_live_scheme) act" where
  "log_follow_up sn cl p title summary tag l =
     mbind (publish_logged sn cl p (title @ '' (follow-up)'') summary tag) (\<lambda>ctx2. mret (l\<lparr>lg_ctx2 := Some ctx2\<rparr>))"

text \<open>Checkpoint A, the document its key is looked up in, and what is retained of it.\<close>

definition log_fetch :: "'w scen_env \<Rightarrow> client \<Rightarrow> 'a log_live_scheme \<Rightarrow> ('w, 'a log_live_scheme) act" where
  "log_fetch sn cl l =
     mbind (mcall (log_checkpoint (sn_env sn) (sn_client sn) cl)) (\<lambda>ckpt_a.
     mbind (mlift (rbind (json_index ckpt_a ''signature'') (\<lambda>s. json_index s ''key_id''))) (\<lambda>live_kid.
     mbind (mlift (one_key_document sn live_kid (registry_did_of sn) (lg_pub l))) (\<lambda>doc.
     mbind (mlift (json_index ckpt_a ''log_id'')) (\<lambda>log_id.
     mret (l\<lparr>lg_ckpt_a := ckpt_a, lg_doc := doc, lg_log_id := log_id\<rparr>)))))"

definition log_retain :: "'a log_live_scheme \<Rightarrow> ('w, 'a log_live_scheme) act" where
  "log_retain l =
     mbind (mlift (json_index (lg_ckpt_a l) ''tree_size'')) (\<lambda>size_a.
     mbind (mlift (json_index (lg_ckpt_a l) ''root_hash'')) (\<lambda>root_a.
     mret (l\<lparr>lg_size_a := size_a, lg_root_a := root_a\<rparr>)))"

text \<open>The grown tree is consistent with the retained root: the two checkpoints verify, agree on the size, and the proof holds.\<close>

definition log_prove :: "'w scen_env \<Rightarrow> client \<Rightarrow> 'a log_live_scheme \<Rightarrow> ('w, 'a log_live_scheme) act" where
  "log_prove sn cl l =
     mbind (mcall (log_checkpoint (sn_env sn) (sn_client sn) cl)) (\<lambda>ckpt_b.
     mbind (mlift (json_index ckpt_b ''tree_size'')) (\<lambda>size_b.
     mbind (mlift (verify_checkpoint sn ckpt_b (lg_doc l) (lg_log_id l) [])) (\<lambda>ck_b_v.
     mbind (mcall (log_proof (sn_env sn) (sn_client sn) cl None None None (lg_size_a l) size_b)) (\<lambda>consistency.
     mbind (mlift (json_get_attr consistency ''log_checkpoint'' ckpt_b)) (\<lambda>con_ckpt.
     mbind (mlift (verify_checkpoint sn con_ckpt (lg_doc l) (lg_log_id l) [])) (\<lambda>con_ckpt_v.
     mbind (mlift (verify_consistency sn consistency con_ckpt (lg_root_a l))) (\<lambda>con_live_v.
     mbind (mlift (rand (says ck_b_v ''valid'' True) (rand (says con_ckpt_v ''valid'' True)
              (rand (rbind (json_index con_ckpt ''tree_size'') (\<lambda>n. Inr (json_eq n size_b)))
                (rand (json_gt size_b (lg_size_a l)) (says con_live_v ''valid'' True)))))) (\<lambda>ok.
     mret (l\<lparr>lg_size_b := size_b, lg_consistency := consistency, lg_con_ckpt := con_ckpt, lg_consistent := ok\<rparr>)))))))))"

text \<open>The nodes of the two publications.\<close>

definition log_nodes :: "string \<Rightarrow> string \<Rightarrow> string \<Rightarrow> 'a log_live_scheme \<Rightarrow> lineage_node list" where
  "log_nodes did title authority l =
     concat (map (\<lambda>(i, c, t). case nonempty_str c of Some x \<Rightarrow> [did_node x did t ''data_snapshot'' authority i] | None \<Rightarrow> [])
       [(1, lg_ctx1 l, title), (2, lg_ctx2 l, title @ '' (follow-up)'')])"

lemma log_nodes_ok: "graph (log_nodes did title authority l) [] = Some g \<Longrightarrow> graph_ok (known [lg_ctx1 l, lg_ctx2 l]) g"
  by (auto simp: log_nodes_def graph_simps did_node_def known_def split: option.splits)

lemma minted_receipt_ordinary:
  "civil_scen sn \<Longrightarrow> civil_producer reg \<Longrightarrow> ordinary (minted_receipt sn spec label reg fp n t)"
  "civil_scen sn \<Longrightarrow> civil_producer reg \<Longrightarrow> ordinary (minted_checkpoint sn reg k r t)"
  unfolding minted_receipt_def mint_receipt_def minted_checkpoint_def mint_log_checkpoint_def Let_def
  by (rule verdict_rules | assumption | simp)+

lemma mint_log_ordinary: "civil_scen sn \<Longrightarrow> ordinary (mint_log sn spec label)"
  unfolding mint_log_def Let_def by (rule minted_receipt_ordinary verdict_rules | assumption | erule seed_civil[rotated] | simp)+

lemma mint_log_civil: "civil_scen sn \<Longrightarrow> mint_log sn spec label = Inr k \<Longrightarrow> civil_producer (ml_reg k) \<and> civil_producer (ml_producer k)"
  by (auto simp: mint_log_def Let_def rbind_eq_Inr dest: seed_civil)

lemma vcg_mint_log:
  assumes "civil_scen sn" "\<And>k. civil_producer (ml_reg k) \<Longrightarrow> civil_producer (ml_producer k) \<Longrightarrow> quietly P (f k)"
  shows "quietly P (mbind (mlift (mint_log sn spec label)) f)"
  by (rule quietly_post[where Q = "\<lambda>k. civil_producer (ml_reg k) \<and> civil_producer (ml_producer k)"])
     (use assms in \<open>auto intro!: vcg_mlift mint_log_ordinary dest: mint_log_civil\<close>)

lemma log_verdict_ordinary:
  assumes "civil_scen sn"
  shows "ordinary (verify_checkpoint sn c d i n)" "ordinary (verify_inclusion sn a b k)" "ordinary (verify_consistency sn a b r)"
    "ordinary (refused_as code v)"
  by (auto simp: verify_checkpoint_def verify_inclusion_def verify_consistency_def refused_as_def assms intro!: verdict_ordinary ordinary_rbind)

lemma quietly_publish_logged:
  "civil_scen sn \<Longrightarrow> civil_client cl \<Longrightarrow> civil_producer p \<Longrightarrow> quietly (\<lambda>_. True) (publish_logged sn cl p title summary tag)"
  unfolding publish_logged_def by (rule verdict_rules | assumption | simp)+

lemma quietly_log_steps:
  assumes "civil_scen sn" "civil_client cl"
  shows "civil_producer p \<Longrightarrow> quietly (\<lambda>_. True) (log_publish sn spec cl p title summary tag l)"
    "civil_producer p \<Longrightarrow> quietly (\<lambda>_. True) (log_follow_up sn cl p title summary tag l)"
    "quietly (\<lambda>_. True) (log_fetch sn cl l)" "quietly (\<lambda>_. True) (log_retain l)" "quietly (\<lambda>_. True) (log_prove sn cl l)"
  unfolding log_publish_def log_follow_up_def log_fetch_def log_retain_def log_prove_def
  by (rule quietly_publish_logged log_verdict_ordinary verdict_rules assms | assumption | simp)+

section \<open>S29: inclusion and consistency\<close>

definition S29 :: "'w scenario" where
  "S29 = scenario_def ''s29_transparency_log'' ''Transparency Log Proofs''
     (''Publishes are logged in a Merkle tree: the consumer verifies the signed checkpoint, rebuilds the leaf from the verified receipt and folds the inclusion path, then ''
      @ em_dash @ '' after the tree grows '' @ em_dash @ '' proves consistency against its own retained root. Every tampered proof fails closed as invalid_log_proof.'')
     ''single'' 1 [(''topic'', JStr ''audit-logged market snapshot'')]"

record s29_core =
  pc_checkpoints :: bool
  pc_inclusion :: bool
  pc_consistency :: bool
  pc_tamper :: bool

definition s29_core_ok :: "s29_core \<Rightarrow> bool" where
  "s29_core_ok c \<longleftrightarrow> pc_checkpoints c \<and> pc_inclusion c \<and> pc_consistency c \<and> pc_tamper c"

definition inclusion_proof :: "'w scen_env \<Rightarrow> int \<Rightarrow> int \<Rightarrow> json list \<Rightarrow> obj" where
  "inclusion_proof sn leaf_index tree_size path =
     [(''log_id'', JStr (log_id_of sn)), (''leaf_index'', JInt leaf_index), (''tree_size'', JInt tree_size), (''inclusion_path'', JList path)]"

text \<open>The four tampered artifacts: a wrong path, a wrong root, a rewritten history and a substituted checkpoint.\<close>

definition s29_tampered :: "'w scen_env \<Rightarrow> minted_log \<Rightarrow> obj \<Rightarrow> bool result" where
  "s29_tampered sn k ckpt2 =
     (let inc1 = inclusion_proof sn 1 2 [ml_h0 k] in
      rbind (verify_inclusion sn (JObj (AList.update ''inclusion_path'' (JList [JStr (''sha256:'' @ replicate 64 CHR ''0'')]) inc1)) (JObj ckpt2)
               (ml_leaf1 k)) (\<lambda>bad_path.
      rbind (verify_checkpoint sn (JObj (AList.update ''root_hash'' (JStr (''sha256:'' @ replicate 64 CHR ''f'')) ckpt2)) (ml_doc k) (JStr (log_id_of sn))
               [JStr ''2026-07-05T08:40:05.000Z'']) (\<lambda>bad_root.
      rbind (verify_consistency sn (consistency_proof sn (ml_h1 k)) (JObj ckpt2) (JStr (''sha256:'' @ replicate 64 CHR ''e''))) (\<lambda>rewrite.
      rbind (verify_inclusion sn (JObj (AList.update ''log_checkpoint'' (JObj (AList.update ''tree_size'' (JInt 3) ckpt2)) inc1)) (JObj ckpt2)
               (ml_leaf1 k)) (\<lambda>substituted.
      all_of (refused_as ''invalid_log_proof'') [bad_path, bad_root, rewrite, substituted])))))"

definition s29_offline :: "'w scen_env \<Rightarrow> minted_log \<Rightarrow> s29_core result" where
  "s29_offline sn k =
     rbind (minted_checkpoint sn (ml_reg k) 1 (ml_root1 k) ''2026-07-05T08:10:00.000Z'') (\<lambda>ckpt1.
     rbind (minted_checkpoint sn (ml_reg k) 2 (ml_root2 k) ''2026-07-05T08:40:00.000Z'') (\<lambda>ckpt2.
     rbind (verify_checkpoint sn (JObj ckpt1) (ml_doc k) (JStr (log_id_of sn)) [JStr ''2026-07-05T08:10:05.000Z'']) (\<lambda>ck1_v.
     rbind (verify_checkpoint sn (JObj ckpt2) (ml_doc k) (JStr (log_id_of sn)) [JStr ''2026-07-05T08:40:05.000Z'']) (\<lambda>ck2_v.
     rbind (rand (says ck1_v ''valid'' True) (says ck2_v ''valid'' True)) (\<lambda>checkpoints.
     rbind (verify_inclusion sn (JObj (inclusion_proof sn 0 1 [])) (JObj ckpt1) (ml_leaf0 k)) (\<lambda>inc0_v.
     rbind (verify_inclusion sn (JObj (inclusion_proof sn 1 2 [ml_h0 k])) (JObj ckpt2) (ml_leaf1 k)) (\<lambda>inc1_v.
     rbind (rand (says inc0_v ''valid'' True) (rand (tells inc0_v ''leaf_hash'' (ml_h0 k))
              (rand (says inc1_v ''valid'' True) (tells inc1_v ''leaf_hash'' (ml_h1 k))))) (\<lambda>inclusion.
     rbind (verify_consistency sn (consistency_proof sn (ml_h1 k)) (JObj ckpt2) (ml_root1 k)) (\<lambda>con_v.
     rbind (says con_v ''valid'' True) (\<lambda>consistency.
     rbind (s29_tampered sn k ckpt2) (\<lambda>tamper.
     Inr \<lparr>pc_checkpoints = checkpoints, pc_inclusion = inclusion, pc_consistency = consistency, pc_tamper = tamper\<rparr>)))))))))))"

record s29_live = log_live +
  lv_ck_a_v :: json
  lv_proof_ckpt :: json
  lv_inc_v :: json
  lv_checkpoint_verified :: bool
  lv_inclusion_verified :: bool
  lv_tamper_fail_closed :: bool

definition s29_start :: s29_live where
  "s29_start = \<lparr>lg_ctx1 = None, lg_ctx2 = None, lg_pub = [], lg_ckpt_a = JNull, lg_doc = [], lg_log_id = JNull, lg_size_a = JNull,
     lg_root_a = JNull, lg_size_b = JNull, lg_consistency = JNull, lg_con_ckpt = JNull, lg_consistent = False, lv_ck_a_v = JNull,
     lv_proof_ckpt = JNull, lv_inc_v = JNull, lv_checkpoint_verified = False, lv_inclusion_verified = False, lv_tamper_fail_closed = False\<rparr>"

definition s29_check_a :: "'w scen_env \<Rightarrow> s29_live \<Rightarrow> ('w, s29_live) act" where
  "s29_check_a sn l =
     mbind (mlift (verify_checkpoint sn (lg_ckpt_a l) (lg_doc l) (lg_log_id l) [])) (\<lambda>v. mret (l\<lparr>lv_ck_a_v := v\<rparr>))"

text \<open>The receipt is verified before the leaf is rebuilt from it, and the proof's own checkpoint before the proof is used.\<close>

definition s29_include :: "'w scen_env \<Rightarrow> client \<Rightarrow> producer \<Rightarrow> s29_live \<Rightarrow> ('w, s29_live) act" where
  "s29_include sn cl p l =
     mbind (mcall (retrieve_raw (sn_env sn) (sn_client sn) cl (the (lg_ctx1 l)) None)) (\<lambda>full1.
     mbind (mlift (json_index full1 ''registry_receipt'')) (\<lambda>receipt1.
     mbind (mlift (json_index full1 ''body'')) (\<lambda>body.
     mbind (mlift (json_index body ''content_hash'')) (\<lambda>h.
     mbind (mlift (verify_content_hash (sn_sdk sn) (dumps sn body) h)) (\<lambda>_.
     mbind (mlift (fp_of sn (JStr (public_key_b64 p)))) (\<lambda>fp.
     mbind (mlift (sdk_fun sn ''AcdpVerifier.verify_receipt''
              [JStr (dumps sn receipt1), JStr (dumps sn body), JStr (lg_pub l), JStr (the (lg_ctx1 l)), h, fp])) (\<lambda>_.
     mbind (mlift (sdk_fun sn ''AcdpVerifier.build_log_leaf'' [JStr (dumps sn receipt1)])) (\<lambda>leaf.
     mbind (mcall (log_proof (sn_env sn) (sn_client sn) cl (lg_ctx1 l) None None JNull JNull)) (\<lambda>proof1.
     mbind (mlift (json_get_attr proof1 ''log_checkpoint'' (lg_ckpt_a l))) (\<lambda>proof_ckpt.
     mbind (mlift (verify_checkpoint sn proof_ckpt (lg_doc l) (lg_log_id l) [])) (\<lambda>pc_v.
     mbind (mlift (verify_inclusion sn proof1 proof_ckpt leaf)) (\<lambda>inc_v.
     mbind (mlift (rand (says (lv_ck_a_v l) ''valid'' True) (says pc_v ''valid'' True))) (\<lambda>checkpoint_verified.
     mbind (mlift (says inc_v ''valid'' True)) (\<lambda>inclusion_verified.
     mret (l\<lparr>lv_proof_ckpt := proof_ckpt, lv_inc_v := inc_v, lv_checkpoint_verified := checkpoint_verified,
             lv_inclusion_verified := inclusion_verified\<rparr>)))))))))))))))"

text \<open>\<^verbatim>\<open>x[:n]\<close> as an f-string prints it.\<close>

definition slice_text :: "'w scen_env \<Rightarrow> nat \<Rightarrow> json \<Rightarrow> string result" where
  "slice_text sn n j =
     (case j of JStr s \<Rightarrow> Inr (take n s) | JList xs \<Rightarrow> Inr (str_json (je sn) (JList (take n xs))) | JObj _ \<Rightarrow> Inl KeyError | _ \<Rightarrow> Inl TypeError)"

definition s29_tell_inclusion :: "'w scen_env \<Rightarrow> run_spec \<Rightarrow> producer \<Rightarrow> s29_live \<Rightarrow> ('w, s29_live) act" where
  "s29_tell_inclusion sn spec p l =
     mbind (mlift (json_get_attr (lv_proof_ckpt l) ''tree_size'' JNull)) (\<lambda>tree_size.
     mbind (mlift (rbind (json_get_attr (lv_inc_v l) ''leaf_hash'' (JStr [])) (slice_text sn 23))) (\<lambda>leaf_hash.
     mbind (put_event_with sn spec ''acdp.verify'' (\<lambda>e. e\<lparr>se_agent_id := Some (agent_did p), se_ctx_id := lg_ctx1 l,
              se_title := Some ''Log inclusion verified'',
              se_preview := Some (''tree_size='' @ str_json (je sn) tree_size @ '' leaf_hash='' @ leaf_hash @ [CHR 0x85])\<rparr>)) (\<lambda>_.
     mret l)))"

definition s29_rewrite :: "'w scen_env \<Rightarrow> run_spec \<Rightarrow> producer \<Rightarrow> s29_live \<Rightarrow> ('w, s29_live) act" where
  "s29_rewrite sn spec p l =
     mbind (mlift (verify_consistency sn (lg_consistency l) (lg_con_ckpt l) (JStr (''sha256:'' @ replicate 64 CHR ''e'')))) (\<lambda>v.
     mbind (mlift (refused_as ''invalid_log_proof'' v)) (\<lambda>refused.
     mbind (put_event_with sn spec ''acdp.verify'' (\<lambda>e. e\<lparr>se_agent_id := Some (agent_did p), se_ctx_id := lg_ctx2 l,
              se_title := Some ''Log consistency verified'',
              se_preview := Some (str_json (je sn) (lg_size_a l) @ arrow @ str_json (je sn) (lg_size_b l) @ '' against retained root'')\<rparr>)) (\<lambda>_.
     mret (l\<lparr>lv_tamper_fail_closed := refused\<rparr>))))"

definition s29_steps :: "'w scen_env \<Rightarrow> run_spec \<Rightarrow> client \<Rightarrow> producer \<Rightarrow> string \<Rightarrow> (s29_live \<Rightarrow> ('w, s29_live) act) list" where
  "s29_steps sn spec cl p title =
     [log_publish sn spec cl p title ''First logged publish.'' ''transparency-log'', log_fetch sn cl, s29_check_a sn, log_retain,
      s29_include sn cl p, s29_tell_inclusion sn spec p,
      log_follow_up sn cl p title (''Second logged publish '' @ em_dash @ '' grows the tree.'') ''transparency-log'',
      log_prove sn cl, s29_rewrite sn spec p]"

definition s29_live_ok :: "s29_live \<Rightarrow> bool" where
  "s29_live_ok l \<longleftrightarrow> lv_checkpoint_verified l \<and> lv_inclusion_verified l \<and> lg_consistent l \<and> lv_tamper_fail_closed l"

definition s29_summary :: "'w scen_env \<Rightarrow> s29_core \<Rightarrow> s29_live \<times> exn option \<Rightarrow> obj" where
  "s29_summary sn c lived =
     (let l = fst lived in
      [(''checkpoints_verified'', JBool (pc_checkpoints c)), (''inclusion_verified'', JBool (pc_inclusion c)),
       (''consistency_verified'', JBool (pc_consistency c)), (''tamper_fail_closed'', JBool (pc_tamper c)),
       (''offline_core_ok'', JBool (s29_core_ok c)), (''live_round_trip'', JStr (live_outcome sn ''verified'' (snd lived))),
       (''live_checkpoint_verified'', JBool (lv_checkpoint_verified l)), (''live_inclusion_verified'', JBool (lv_inclusion_verified l)),
       (''live_consistency_verified'', JBool (lg_consistent l)), (''live_tamper_fail_closed'', JBool (lv_tamper_fail_closed l))]
      @ (if s29_live_ok l then [] else [(''degraded'', JBool True)]))"

definition s29_run :: "'w scenario_act" where
  "s29_run sn spec =
     (let title = input_text sn spec ''topic'' ''audit-logged market snapshot'' @ '' '' @ em_dash @ '' logged'';
          authority = registry_a_authority (sn_settings sn) in
      mbind (mlift (mint_log sn spec ''s29'')) (\<lambda>k.
      mbind (mlift (s29_offline sn k)) (\<lambda>c.
      mbind (tell sn spec ''acdp.verify'' (Some (registry_did_of sn)) ''Transparency-log proofs verified (minted log)''
               (''checkpoints='' @ py_bool (pc_checkpoints c) @ '' inclusion='' @ py_bool (pc_inclusion c) @ '' consistency='' @ py_bool (pc_consistency c)
                @ '' tamper_fail_closed='' @ py_bool (pc_tamper c))) (\<lambda>_.
      mbind (mlift (new_registry_client sn spec)) (\<lambda>cl.
      mbind (run_steps (s29_steps sn spec cl (ml_producer k) title) s29_start) (\<lambda>lived.
      mret (run_result_of spec ''s29_transparency_log'' (known [lg_ctx1 (fst lived), lg_ctx2 (fst lived)])
              (graph (log_nodes (agent_did (ml_producer k)) title authority (fst lived)) [])
              (s29_summary sn c lived)
              (if s29_core_ok c then None else Some ''transparency-log core failed offline verification''))))))))"

lemma s29_ordinary: "civil_scen sn \<Longrightarrow> civil_producer (ml_reg k) \<Longrightarrow> ordinary (s29_offline sn k)"
  unfolding s29_offline_def s29_tampered_def Let_def by (rule minted_receipt_ordinary log_verdict_ordinary verdict_rules | assumption | simp)+

lemma slice_text_ordinary [simp]: "ordinary (slice_text sn n j)"
  by (simp add: slice_text_def split: json.split)

lemma quietly_s29_steps:
  assumes "civil_scen sn" "civil_client cl" "civil_producer p"
  shows "quietly (\<lambda>_. True) (run_steps (s29_steps sn spec cl p title) l)"
proof (rule vcg_run_steps)
  fix f and l :: s29_live
  note defs = s29_check_a_def s29_include_def s29_tell_inclusion_def s29_rewrite_def
  assume "f \<in> set (s29_steps sn spec cl p title)"
  then show "quietly (\<lambda>_. True) (f l)"
    by (simp only: s29_steps_def list.set insert_iff empty_iff, elim disjE; simp only: defs)
       (rule quietly_log_steps log_verdict_ordinary verdict_rules assms | simp)+
qed

interpretation s29: scenario_contract s29_run "''s29_transparency_log''"
  by unfold_locales
     (simp only: s29_run_def Let_def,
      (rule vcg_mint_log s29_ordinary quietly_s29_steps verdict_rules | assumption | (simp add: log_nodes_ok)[1])+)

section \<open>S31: a witness cosigns\<close>

definition S31 :: "'w scenario" where
  "S31 = scenario_def ''s31_witness_cosigning'' ''Transparency-Log Witness Cosigning''
     (''An independent witness discharges the '' @ section_sign @ ''7 obligation (checkpoint signature + consistency against a retained root), then cosigns the checkpoint with its own did:key. A consumer verifies the cosignature and evaluates an N-witnessed quorum; a cosignature over a tampered root fails closed as invalid_witness_cosignature (RFC-ACDP-0015).'')
     ''single'' 1 [(''topic'', JStr ''witness-cosigned market snapshot'')]"

definition WITNESS_KEY_FRAGMENT :: string where
  "WITNESS_KEY_FRAGMENT = ''witness-key-1''"

definition witnessed_subset :: "json \<Rightarrow> obj result" where
  "witnessed_subset checkpoint =
     rbind (json_index checkpoint ''log_id'') (\<lambda>log_id.
     rbind (json_index checkpoint ''tree_size'') (\<lambda>tree_size.
     rbind (json_index checkpoint ''root_hash'') (\<lambda>root_hash.
     rbind (json_index checkpoint ''timestamp'') (\<lambda>timestamp.
     Inr [(''log_id'', log_id), (''tree_size'', tree_size), (''root_hash'', root_hash), (''timestamp'', timestamp)]))))"

definition witness_identity :: "'w scen_env \<Rightarrow> bytes \<Rightarrow> (string \<times> string \<times> string) result" where
  "witness_identity sn seed =
     rbind (from_seed_did_key sn seed) (\<lambda>wp.
     rbind (one_key_document sn (JStr (agent_did wp @ ''#'' @ WITNESS_KEY_FRAGMENT)) (agent_did wp) (public_key_b64 wp)) (\<lambda>doc.
     Inr (agent_did wp, hexdigest seed, doc)))"

definition witness_seed :: "run_spec \<Rightarrow> string \<Rightarrow> bytes" where
  "witness_seed spec suffix = sha256 (agent_seed spec ''independent-witness'' @ utf8_encode suffix)"

definition cosign :: "'w scen_env \<Rightarrow> obj \<Rightarrow> string \<times> string \<times> string \<Rightarrow> string \<Rightarrow> json result" where
  "cosign sn sub witness witnessed_at =
     (case witness of (did, seed_hex, doc) \<Rightarrow>
        sdk_fun sn ''AcdpVerifier.build_witness_cosignature'' [JStr (dumps sn (JObj sub)), JStr did, JStr seed_hex, JStr witnessed_at])"

definition verify_cosignature :: "'w scen_env \<Rightarrow> json \<Rightarrow> string \<times> string \<times> string \<Rightarrow> json \<Rightarrow> json list \<Rightarrow> json result" where
  "verify_cosignature sn cosig witness ckpt now =
     (case witness of (did, seed_hex, doc) \<Rightarrow>
        verdict sn ''AcdpVerifier.verify_witness_cosignature'' ([cosig, JStr doc, JStr (dumps sn ckpt)] @ now))"

definition quorum_of :: "'w scen_env \<Rightarrow> json \<Rightarrow> string \<times> string \<times> string \<Rightarrow> json \<Rightarrow> json list \<Rightarrow> json result" where
  "quorum_of sn cosig witness ckpt now =
     (case witness of (did, seed_hex, doc) \<Rightarrow>
        rbind (loads_value cosig) (\<lambda>c.
        rbind (json_loads doc) (\<lambda>d.
        verdict sn ''AcdpVerifier.evaluate_witness_quorum''
          ([JStr (dumps sn (JList [c])), JStr (dumps sn ckpt), JStr (dumps sn (JList [JStr did])), JStr (dumps sn (JObj [(did, d)])),
            JStr (dumps sn (JObj [(''min_witnesses'', JInt 1)]))] @ now))))"

definition cosignature_ok :: "string \<Rightarrow> json \<Rightarrow> bool result" where
  "cosignature_ok did v = rand (says v ''valid'' True) (tells v ''witness_id'' (JStr did))"

record s31_core =
  wc_did :: string
  wc_checkpoint :: bool
  wc_consistency :: bool
  wc_cosig :: bool
  wc_quorum :: bool
  wc_count :: json
  wc_meets :: json
  wc_tamper :: bool

definition s31_core_ok :: "s31_core \<Rightarrow> bool" where
  "s31_core_ok c \<longleftrightarrow> (wc_checkpoint c \<and> wc_consistency c) \<and> wc_cosig c \<and> wc_quorum c \<and> wc_tamper c"

text \<open>The cosignature over a tampered root: refused as such, and without credit.\<close>

definition s31_lie :: "'w scen_env \<Rightarrow> json \<Rightarrow> obj \<Rightarrow> string \<times> string \<times> string \<Rightarrow> bool result" where
  "s31_lie sn ckpt2 sub witness =
     rbind (cosign sn (AList.update ''root_hash'' (JStr (''sha256:'' @ replicate 64 CHR ''f'')) sub) witness ''2026-07-05T08:40:10.000Z'') (\<lambda>lie_cosig.
     rbind (verify_cosignature sn lie_cosig witness ckpt2 [JStr ''2026-07-05T08:41:00.000Z'']) (\<lambda>lie_v.
     rbind (refused_as ''invalid_witness_cosignature'' lie_v) (\<lambda>direct.
     rbind (quorum_of sn lie_cosig witness ckpt2 [JStr ''2026-07-05T08:41:00.000Z'']) (\<lambda>q.
     rbind (rand (tells q ''witnessed_count'' (JInt 0)) (says q ''meets_quorum'' False)) (\<lambda>no_credit.
     Inr (direct \<and> no_credit))))))"

definition quorum_ok :: "string \<Rightarrow> json \<Rightarrow> bool result" where
  "quorum_ok did q =
     rand (tells q ''witnessed_count'' (JInt 1)) (rand (says q ''meets_quorum'' True) (rand (tells q ''witnesses'' (JList [JStr did]))
       (rand (tells q ''fresh_witnessed_count'' (JInt 1)) (says q ''meets_fresh_quorum'' True))))"

definition s31_offline :: "'w scen_env \<Rightarrow> run_spec \<Rightarrow> minted_log \<Rightarrow> s31_core result" where
  "s31_offline sn spec k =
     rbind (minted_checkpoint sn (ml_reg k) 2 (ml_root2 k) ''2026-07-05T08:40:00.000Z'') (\<lambda>ckpt.
     let ckpt2 = JObj ckpt; now = [JStr ''2026-07-05T08:41:00.000Z''] in
     rbind (verify_checkpoint sn ckpt2 (ml_doc k) (JStr (log_id_of sn)) [JStr ''2026-07-05T08:40:05.000Z'']) (\<lambda>ck2_v.
     rbind (says ck2_v ''valid'' True) (\<lambda>checkpoint_verified.
     rbind (verify_consistency sn (consistency_proof sn (ml_h1 k)) ckpt2 (ml_root1 k)) (\<lambda>con_v.
     rbind (says con_v ''valid'' True) (\<lambda>consistency_verified.
     rbind (witness_identity sn (witness_seed spec '':witness'')) (\<lambda>witness.
     rbind (witnessed_subset ckpt2) (\<lambda>sub.
     rbind (cosign sn sub witness ''2026-07-05T08:40:10.000Z'') (\<lambda>cosig.
     rbind (verify_cosignature sn cosig witness ckpt2 now) (\<lambda>cosig_v.
     rbind (cosignature_ok (fst witness) cosig_v) (\<lambda>cosig_verified.
     rbind (quorum_of sn cosig witness ckpt2 now) (\<lambda>quorum.
     rbind (quorum_ok (fst witness) quorum) (\<lambda>q_ok.
     rbind (s31_lie sn ckpt2 sub witness) (\<lambda>tamper.
     rbind (json_get_attr quorum ''witnessed_count'' JNull) (\<lambda>count.
     rbind (json_get_attr quorum ''meets_quorum'' JNull) (\<lambda>meets.
     Inr \<lparr>wc_did = fst witness, wc_checkpoint = checkpoint_verified, wc_consistency = consistency_verified, wc_cosig = cosig_verified,
          wc_quorum = q_ok, wc_count = count, wc_meets = meets, wc_tamper = tamper\<rparr>)))))))))))))))"

record s31_live = log_live +
  wv_witness :: "string \<times> string \<times> string"
  wv_cosig :: json
  wv_cosig_verified :: bool
  wv_quorum_ok :: bool
  wv_tamper_fail_closed :: bool

definition s31_start :: s31_live where
  "s31_start = \<lparr>lg_ctx1 = None, lg_ctx2 = None, lg_pub = [], lg_ckpt_a = JNull, lg_doc = [], lg_log_id = JNull, lg_size_a = JNull,
     lg_root_a = JNull, lg_size_b = JNull, lg_consistency = JNull, lg_con_ckpt = JNull, lg_consistent = False, wv_witness = ([], [], []),
     wv_cosig = JNull, wv_cosig_verified = False, wv_quorum_ok = False, wv_tamper_fail_closed = False\<rparr>"

text \<open>\<^verbatim>\<open>datetime.now(UTC).strftime("%Y-%m-%dT%H:%M:%S.000Z")\<close>.\<close>

definition mnow_000 :: "'w scen_env \<Rightarrow> ('w, string) act" where
  "mnow_000 sn = mget (\<lambda>st. butlast (now_z sn (world (r_io st))) @ ''.000Z'')"

text \<open>The witness cosigns the checkpoint of the consistency proof.\<close>

definition s31_cosign :: "'w scen_env \<Rightarrow> run_spec \<Rightarrow> s31_live \<Rightarrow> ('w, s31_live) act" where
  "s31_cosign sn spec l =
     mbind (mlift (witness_identity sn (witness_seed spec '':live-witness''))) (\<lambda>witness.
     mbind (mlift (witnessed_subset (lg_con_ckpt l))) (\<lambda>sub.
     mbind (mnow_000 sn) (\<lambda>now.
     mbind (mlift (cosign sn sub witness now)) (\<lambda>cosig.
     mbind (mlift (rbind (verify_cosignature sn cosig witness (lg_con_ckpt l) []) (cosignature_ok (fst witness)))) (\<lambda>ok.
     mret (l\<lparr>wv_witness := witness, wv_cosig := cosig, wv_cosig_verified := ok\<rparr>))))))"

definition s31_quorum :: "'w scen_env \<Rightarrow> s31_live \<Rightarrow> ('w, s31_live) act" where
  "s31_quorum sn l =
     mbind (mlift (quorum_of sn (wv_cosig l) (wv_witness l) (lg_con_ckpt l) [])) (\<lambda>q.
     mbind (mlift (rand (tells q ''witnessed_count'' (JInt 1)) (says q ''meets_quorum'' True))) (\<lambda>ok.
     mret (l\<lparr>wv_quorum_ok := ok\<rparr>)))"

definition s31_live_lie :: "'w scen_env \<Rightarrow> run_spec \<Rightarrow> s31_live \<Rightarrow> ('w, s31_live) act" where
  "s31_live_lie sn spec l =
     mbind (mlift (witnessed_subset (lg_con_ckpt l))) (\<lambda>sub.
     mbind (mnow_000 sn) (\<lambda>now.
     mbind (mlift (cosign sn (AList.update ''root_hash'' (JStr (''sha256:'' @ replicate 64 CHR ''e'')) sub) (wv_witness l) now)) (\<lambda>lie.
     mbind (mlift (rbind (verify_cosignature sn lie (wv_witness l) (lg_con_ckpt l) []) (refused_as ''invalid_witness_cosignature''))) (\<lambda>refused.
     mbind (put_event_with sn spec ''acdp.verify'' (\<lambda>e. e\<lparr>se_agent_id := Some (fst (wv_witness l)), se_ctx_id := lg_ctx2 l,
              se_title := Some ''Live checkpoint cosigned + quorum met'',
              se_preview := Some (str_json (je sn) (lg_size_a l) @ arrow @ str_json (je sn) (lg_size_b l) @ '' obligation='' @ py_bool (lg_consistent l)
                @ '' cosig='' @ py_bool (wv_cosig_verified l) @ '' quorum='' @ py_bool (wv_quorum_ok l))\<rparr>)) (\<lambda>_.
     mret (l\<lparr>wv_tamper_fail_closed := refused\<rparr>))))))"

definition s31_steps :: "'w scen_env \<Rightarrow> run_spec \<Rightarrow> client \<Rightarrow> producer \<Rightarrow> string \<Rightarrow> (s31_live \<Rightarrow> ('w, s31_live) act) list" where
  "s31_steps sn spec cl p title =
     [log_publish sn spec cl p title ''First witnessed publish.'' ''witness-cosigning'', log_fetch sn cl, log_retain,
      log_follow_up sn cl p title (''Second witnessed publish '' @ em_dash @ '' grows the tree.'') ''witness-cosigning'',
      log_prove sn cl, s31_cosign sn spec, s31_quorum sn, s31_live_lie sn spec]"

definition s31_live_ok :: "s31_live \<Rightarrow> bool" where
  "s31_live_ok l \<longleftrightarrow> lg_consistent l \<and> wv_cosig_verified l \<and> wv_quorum_ok l \<and> wv_tamper_fail_closed l"

definition s31_summary :: "'w scen_env \<Rightarrow> s31_core \<Rightarrow> s31_live \<times> exn option \<Rightarrow> obj" where
  "s31_summary sn c lived =
     (let l = fst lived in
      [(''witness_did_method'', JStr ''did:key''), (''witness_did'', JStr (wc_did c)), (''checkpoint_verified'', JBool (wc_checkpoint c)),
       (''consistency_verified'', JBool (wc_consistency c)), (''obligation_ok'', JBool (wc_checkpoint c \<and> wc_consistency c)),
       (''cosig_verified'', JBool (wc_cosig c)), (''quorum_ok'', JBool (wc_quorum c)), (''witnessed_count'', wc_count c),
       (''meets_quorum'', wc_meets c), (''tamper_fail_closed'', JBool (wc_tamper c)), (''offline_core_ok'', JBool (s31_core_ok c)),
       (''live_round_trip'', JStr (live_outcome sn ''verified'' (snd lived))), (''live_obligation_ok'', JBool (lg_consistent l)),
       (''live_cosig_verified'', JBool (wv_cosig_verified l)), (''live_quorum_ok'', JBool (wv_quorum_ok l)),
       (''live_tamper_fail_closed'', JBool (wv_tamper_fail_closed l))]
      @ (if s31_live_ok l then [] else [(''degraded'', JBool True)]))"

definition s31_run :: "'w scenario_act" where
  "s31_run sn spec =
     (let title = input_text sn spec ''topic'' ''witness-cosigned market snapshot'' @ '' '' @ em_dash @ '' witnessed'';
          authority = registry_a_authority (sn_settings sn) in
      mbind (mlift (mint_log sn spec ''s31'')) (\<lambda>k.
      mbind (mlift (s31_offline sn spec k)) (\<lambda>c.
      mbind (tell sn spec ''acdp.verify'' (Some (wc_did c)) ''Witness cosignature minted + quorum met (offline)''
               (''obligation='' @ py_bool (wc_checkpoint c \<and> wc_consistency c) @ '' cosig_verified='' @ py_bool (wc_cosig c)
                @ '' quorum='' @ py_bool (wc_quorum c) @ '' tamper_fail_closed='' @ py_bool (wc_tamper c))) (\<lambda>_.
      mbind (mlift (new_registry_client sn spec)) (\<lambda>cl.
      mbind (run_steps (s31_steps sn spec cl (ml_producer k) title) s31_start) (\<lambda>lived.
      mret (run_result_of spec ''s31_witness_cosigning'' (known [lg_ctx1 (fst lived), lg_ctx2 (fst lived)])
              (graph (log_nodes (agent_did (ml_producer k)) title authority (fst lived)) [])
              (s31_summary sn c lived)
              (if s31_core_ok c then None else Some ''witness-cosigning core failed offline verification''))))))))"

lemma witness_ordinary:
  assumes "civil_scen sn"
  shows "ordinary (witness_identity sn seed)" "ordinary (cosign sn sub w t)" "ordinary (verify_cosignature sn c w k now)"
    "ordinary (quorum_of sn c w k now)" "ordinary (witnessed_subset k)" "ordinary (cosignature_ok did v)" "ordinary (quorum_ok did v)"
  unfolding witness_identity_def cosign_def verify_cosignature_def quorum_of_def witnessed_subset_def cosignature_ok_def quorum_ok_def
  by (rule verdict_rules assms | simp)+

lemma s31_ordinary: "civil_scen sn \<Longrightarrow> civil_producer (ml_reg k) \<Longrightarrow> ordinary (s31_offline sn spec k)"
  unfolding s31_offline_def s31_lie_def Let_def
  by (rule minted_receipt_ordinary witness_ordinary log_verdict_ordinary verdict_rules | assumption | simp)+

lemma quietly_mnow_000: "quietly (\<lambda>_. True) (mnow_000 sn)"
  by (simp add: mnow_000_def vcg)

lemma quietly_s31_steps:
  assumes "civil_scen sn" "civil_client cl" "civil_producer p"
  shows "quietly (\<lambda>_. True) (run_steps (s31_steps sn spec cl p title) l)"
proof (rule vcg_run_steps)
  fix f and l :: s31_live
  note defs = s31_cosign_def s31_quorum_def s31_live_lie_def
  assume "f \<in> set (s31_steps sn spec cl p title)"
  then show "quietly (\<lambda>_. True) (f l)"
    by (simp only: s31_steps_def list.set insert_iff empty_iff, elim disjE; simp only: defs)
       (rule quietly_log_steps quietly_mnow_000 witness_ordinary log_verdict_ordinary verdict_rules assms | simp)+
qed

interpretation s31: scenario_contract s31_run "''s31_witness_cosigning''"
  by unfold_locales
     (simp only: s31_run_def Let_def,
      (rule vcg_mint_log s31_ordinary quietly_s31_steps verdict_rules | assumption | (simp add: log_nodes_ok)[1])+)

end
