(* ===== verification/Timestamps.thy ===== *)
theory Timestamps
  imports Receipts
begin

text \<open>
  The calendar arithmetic of Python's \<^verbatim>\<open>datetime\<close> that the sources use: \<^verbatim>\<open>strptime(t, "%Y-%m-%dT%H:%M:%S.%fZ")\<close>, a second added, and
  \<^verbatim>\<open>strftime("%Y-%m-%dT%H:%M:%S.%f")[:-3] + "Z"\<close>.
\<close>

section \<open>Dates\<close>

record date_time =
  dt_year :: nat
  dt_month :: nat
  dt_day :: nat
  dt_hour :: nat
  dt_minute :: nat
  dt_second :: nat
  dt_micro :: nat

definition leap_year :: "nat \<Rightarrow> bool" where
  "leap_year y \<longleftrightarrow> y mod 4 = 0 \<and> (y mod 100 \<noteq> 0 \<or> y mod 400 = 0)"

definition days_in_month :: "nat \<Rightarrow> nat \<Rightarrow> nat" where
  "days_in_month y m = (if m = 2 then (if leap_year y then 29 else 28) else if m \<in> {4, 6, 9, 11} then 30 else 31)"

definition valid_dt :: "date_time \<Rightarrow> bool" where
  "valid_dt t \<longleftrightarrow> 1 \<le> dt_year t \<and> dt_year t \<le> 9999 \<and> 1 \<le> dt_month t \<and> dt_month t \<le> 12
     \<and> 1 \<le> dt_day t \<and> dt_day t \<le> days_in_month (dt_year t) (dt_month t)
     \<and> dt_hour t < 24 \<and> dt_minute t < 60 \<and> dt_second t < 60 \<and> dt_micro t < 1000000"

section \<open>Reading\<close>

text \<open>One or more digits, at most so many, with a value in the range.\<close>

definition field :: "nat \<Rightarrow> nat \<Rightarrow> nat \<Rightarrow> nat \<Rightarrow> string \<Rightarrow> nat option" where
  "field shortest longest lo hi s =
     (if list_all is_ascii_digit s \<and> shortest \<le> length s \<and> length s \<le> longest \<and> lo \<le> digits_value s 0 \<and> digits_value s 0 \<le> hi
      then Some (digits_value s 0) else None)"

text \<open>A day may be padded with a space.\<close>

definition day_field :: "string \<Rightarrow> nat option" where
  "day_field s = (case s of c # d \<Rightarrow> if c = CHR '' '' then field 1 1 1 9 d else field 1 2 1 31 s | [] \<Rightarrow> None)"

definition micro_field :: "string \<Rightarrow> nat option" where
  "micro_field s = map_option (\<lambda>n. n * 10 ^ (6 - length s)) (field 1 6 0 999999 s)"

text \<open>The text before the first of two characters (the format matches letters in either case), and the text after it.\<close>

fun cut :: "char \<Rightarrow> char \<Rightarrow> string \<Rightarrow> (string \<times> string) option" where
  "cut a b [] = None"
| "cut a b (c # cs) = (if c = a \<or> c = b then Some ([], cs) else map_option (\<lambda>(x, y). (c # x, y)) (cut a b cs))"

definition strptime :: "string \<Rightarrow> date_time result" where
  "strptime s =
     (let parsed =
        Option.bind (cut CHR ''-'' CHR ''-'' s) (\<lambda>(y, s). Option.bind (field 4 4 0 9999 y) (\<lambda>y.
        Option.bind (cut CHR ''-'' CHR ''-'' s) (\<lambda>(m, s). Option.bind (field 1 2 1 12 m) (\<lambda>m.
        Option.bind (cut CHR ''T'' CHR ''t'' s) (\<lambda>(d, s). Option.bind (day_field d) (\<lambda>d.
        Option.bind (cut CHR '':'' CHR '':'' s) (\<lambda>(h, s). Option.bind (field 1 2 0 23 h) (\<lambda>h.
        Option.bind (cut CHR '':'' CHR '':'' s) (\<lambda>(mi, s). Option.bind (field 1 2 0 59 mi) (\<lambda>mi.
        Option.bind (cut CHR ''.'' CHR ''.'' s) (\<lambda>(sec, s). Option.bind (field 1 2 0 61 sec) (\<lambda>sec.
        Option.bind (cut CHR ''Z'' CHR ''z'' s) (\<lambda>(f, rest). Option.bind (micro_field f) (\<lambda>us.
        if rest = [] then Some \<lparr>dt_year = y, dt_month = m, dt_day = d, dt_hour = h, dt_minute = mi, dt_second = sec, dt_micro = us\<rparr>
        else None)))))))))))))) in
      case parsed of Some t \<Rightarrow> if valid_dt t then Inr t else Inl ValueError | None \<Rightarrow> Inl ValueError)"

section \<open>A second later\<close>

definition plus_second :: "date_time \<Rightarrow> date_time result" where
  "plus_second t =
     (if dt_second t < 59 then Inr (t\<lparr>dt_second := dt_second t + 1\<rparr>)
      else if dt_minute t < 59 then Inr (t\<lparr>dt_second := 0, dt_minute := dt_minute t + 1\<rparr>)
      else if dt_hour t < 23 then Inr (t\<lparr>dt_second := 0, dt_minute := 0, dt_hour := dt_hour t + 1\<rparr>)
      else let t = t\<lparr>dt_second := 0, dt_minute := 0, dt_hour := 0\<rparr> in
           if dt_day t < days_in_month (dt_year t) (dt_month t) then Inr (t\<lparr>dt_day := dt_day t + 1\<rparr>)
           else if dt_month t < 12 then Inr (t\<lparr>dt_day := 1, dt_month := dt_month t + 1\<rparr>)
           else if dt_year t < 9999 then Inr (t\<lparr>dt_day := 1, dt_month := 1, dt_year := dt_year t + 1\<rparr>)
           else Inl OverflowError)"

section \<open>Printing\<close>

definition pad :: "nat \<Rightarrow> nat \<Rightarrow> string" where
  "pad k n = map (\<lambda>i. char_of (48 + n div 10 ^ i mod 10)) (rev [0..<k])"

definition strftime_ms :: "date_time \<Rightarrow> string" where
  "strftime_ms t =
     pad 4 (dt_year t) @ ''-'' @ pad 2 (dt_month t) @ ''-'' @ pad 2 (dt_day t) @ ''T'' @ pad 2 (dt_hour t) @ '':'' @ pad 2 (dt_minute t)
     @ '':'' @ pad 2 (dt_second t) @ ''.'' @ take 3 (pad 6 (dt_micro t)) @ ''Z''"

definition second_after :: "string \<Rightarrow> string result" where
  "second_after s = rbind (strptime s) (\<lambda>t. rbind (plus_second t) (\<lambda>u. Inr (strftime_ms u)))"

section \<open>The instant a date names\<close>

text \<open>Seconds since the first of January of the year 1, as \<^verbatim>\<open>toordinal\<close> counts the days.\<close>

definition days_before_year :: "nat \<Rightarrow> nat" where
  "days_before_year y = (y - 1) * 365 + (y - 1) div 4 - (y - 1) div 100 + (y - 1) div 400"

definition days_before_month :: "nat \<Rightarrow> nat \<Rightarrow> nat" where
  "days_before_month y m = sum_list (map (days_in_month y) [1..<m])"

definition toordinal :: "date_time \<Rightarrow> nat" where
  "toordinal t = days_before_year (dt_year t) + days_before_month (dt_year t) (dt_month t) + dt_day t"

definition instant :: "date_time \<Rightarrow> nat" where
  "instant t = ((toordinal t * 24 + dt_hour t) * 60 + dt_minute t) * 60 + dt_second t"

lemma days_before_next_year: "1 \<le> y \<Longrightarrow> days_before_year (y + 1) = days_before_year y + (if leap_year y then 366 else 365)"
proof -
  assume "1 \<le> y"
  then obtain k where y: "y = Suc k" by (cases y) auto
  have le: "k div 100 \<le> k div 4" by (simp add: div_le_mono2)
  have dvd: "Suc k mod 100 = 0 \<Longrightarrow> Suc k mod 4 = 0" "Suc k mod 400 = 0 \<Longrightarrow> Suc k mod 100 = 0" by presburger+
  show ?thesis
    unfolding days_before_year_def leap_year_def y using le dvd by (simp add: div_Suc add_ac)
qed

lemma days_before_next_month: "1 \<le> m \<Longrightarrow> days_before_month y (m + 1) = days_before_month y m + days_in_month y m"
  by (simp add: days_before_month_def)

lemma days_of_year: "days_before_month y 12 + days_in_month y 12 = (if leap_year y then 366 else 365)" "days_before_month y 1 = 0"
  by (simp_all add: days_before_month_def days_in_month_def upt_rec)

lemma plus_second_later:
  assumes "valid_dt t" "plus_second t = Inr u"
  shows "valid_dt u \<and> instant u = instant t + 1 \<and> dt_micro u = dt_micro t"
proof -
  note t = assms(1)[unfolded valid_dt_def]
  have "dt_second t < 59 \<or> dt_second t = 59" "dt_minute t < 59 \<or> dt_minute t = 59" "dt_hour t < 23 \<or> dt_hour t = 23"
    "dt_day t < days_in_month (dt_year t) (dt_month t) \<or> dt_day t = days_in_month (dt_year t) (dt_month t)"
    "dt_month t < 12 \<or> dt_month t = 12" "dt_year t < 9999 \<or> \<not> dt_year t < 9999"
    using t by linarith+
  then consider (sec) "dt_second t < 59" | (min) "dt_second t = 59" "dt_minute t < 59"
    | (hour) "dt_second t = 59" "dt_minute t = 59" "dt_hour t < 23"
    | (day) "dt_second t = 59" "dt_minute t = 59" "dt_hour t = 23" "dt_day t < days_in_month (dt_year t) (dt_month t)"
    | (month) "dt_second t = 59" "dt_minute t = 59" "dt_hour t = 23" "dt_day t = days_in_month (dt_year t) (dt_month t)" "dt_month t < 12"
    | (year) "dt_second t = 59" "dt_minute t = 59" "dt_hour t = 23" "dt_day t = days_in_month (dt_year t) 12" "dt_month t = 12" "dt_year t < 9999"
    | (never) "dt_second t = 59" "dt_minute t = 59" "dt_hour t = 23" "dt_day t = days_in_month (dt_year t) 12" "dt_month t = 12" "\<not> dt_year t < 9999"
    by metis
  then show ?thesis
  proof cases
    case month
    have pos: "1 \<le> days_in_month (dt_year t) (dt_month t + 1)" by (simp add: days_in_month_def)
    have u: "u = t\<lparr>dt_second := 0, dt_minute := 0, dt_hour := 0, dt_day := 1, dt_month := dt_month t + 1\<rparr>"
      using month assms(2) by (simp add: plus_second_def Let_def)
    from t month pos days_before_next_month[of "dt_month t" "dt_year t"] show ?thesis
      by (simp add: u valid_dt_def instant_def toordinal_def)
  next
    case year
    have pos: "1 \<le> days_in_month (dt_year t + 1) 1" by (simp add: days_in_month_def)
    have u: "u = t\<lparr>dt_second := 0, dt_minute := 0, dt_hour := 0, dt_day := 1, dt_month := 1, dt_year := dt_year t + 1\<rparr>"
      using year assms(2) by (simp add: plus_second_def Let_def)
    from t year pos days_before_next_year[of "dt_year t"] days_of_year(1)[of "dt_year t"] days_of_year(2)[of "dt_year t + 1"] show ?thesis
      by (simp add: u valid_dt_def instant_def toordinal_def)
  qed (use assms in \<open>auto simp: plus_second_def valid_dt_def instant_def toordinal_def Let_def\<close>)
qed

definition last_second :: "date_time \<Rightarrow> bool" where
  "last_second t \<longleftrightarrow> dt_year t = 9999 \<and> dt_month t = 12 \<and> dt_day t = 31 \<and> dt_hour t = 23 \<and> dt_minute t = 59 \<and> dt_second t = 59"

lemma plus_second_total: "valid_dt t \<Longrightarrow> (\<exists>u. plus_second t = Inr u) \<longleftrightarrow> \<not> last_second t"
  by (auto simp: plus_second_def Let_def last_second_def valid_dt_def days_in_month_def)

section \<open>Printing and reading\<close>

lemma cut_at: "a \<notin> set x \<Longrightarrow> b \<notin> set x \<Longrightarrow> cut a b (x @ a # y) = Some (x, y)"
  by (induction x) auto

lemma pad_Suc: "pad (Suc k) n = char_of (48 + n div 10 ^ k mod 10) # pad k n" "pad 0 n = []"
  by (simp_all add: pad_def)

lemma length_pad [simp]: "length (pad k n) = k"
  by (simp add: pad_def)

lemma pad_digits: "list_all is_ascii_digit (pad k n)"
  by (auto simp: pad_def list_all_iff is_ascii_digit_def)

lemma pad_no: "\<not> is_ascii_digit c \<Longrightarrow> c \<notin> set (pad k n)"
  using pad_digits[of k n] by (auto simp: list_all_iff)

lemma digits_value_pad: "digits_value (pad k n) a = a * 10 ^ k + n mod 10 ^ k"
proof (induction k arbitrary: a)
  case (Suc k)
  have "n mod 10 ^ Suc k = (n div 10 ^ k mod 10) * 10 ^ k + n mod 10 ^ k"
    by (simp add: mod_mult2_eq mult.commute[of 10])
  with Suc show ?case by (simp add: pad_Suc algebra_simps)
qed (simp add: pad_Suc)

lemma field_pad: "n < 10 ^ k \<Longrightarrow> lo \<le> n \<Longrightarrow> n \<le> hi \<Longrightarrow> shortest \<le> k \<Longrightarrow> k \<le> longest \<Longrightarrow> field shortest longest lo hi (pad k n) = Some n"
  by (simp add: field_def pad_digits digits_value_pad)

lemma day_field_pad: "n < 32 \<Longrightarrow> 1 \<le> n \<Longrightarrow> day_field (pad 2 n) = Some n"
proof -
  assume n: "n < 32" "1 \<le> n"
  obtain c d where cd: "pad 2 n = c # d" by (simp add: numeral_2_eq_2 pad_Suc)
  have "c \<noteq> CHR '' ''" using pad_digits[of 2 n] cd by (auto simp: is_ascii_digit_def)
  then have "day_field (pad 2 n) = field 1 2 1 31 (pad 2 n)" by (simp add: day_field_def cd)
  also have "\<dots> = Some n" using n by (simp add: field_pad)
  finally show ?thesis .
qed

lemma take_micro: "take 3 (pad 6 us) = pad 3 (us div 1000)"
  by (simp add: pad_def upt_rec div_mult2_eq[symmetric])

lemma micro_field_pad: "m < 1000 \<Longrightarrow> micro_field (pad 3 m) = Some (m * 1000)"
  by (simp add: micro_field_def field_pad)

lemma days_in_month_le: "days_in_month y m \<le> 31"
  by (simp add: days_in_month_def)

text \<open>What is printed is read back, to the millisecond.\<close>

lemma strptime_strftime:
  assumes "valid_dt t"
  shows "strptime (strftime_ms t) = Inr (t\<lparr>dt_micro := dt_micro t div 1000 * 1000\<rparr>)"
proof -
  note t = assms[unfolded valid_dt_def]
  have day: "dt_day t < 32" using t days_in_month_le[of "dt_year t" "dt_month t"] by linarith
  have no: "CHR ''-'' \<notin> set (pad k n)" "CHR ''T'' \<notin> set (pad k n)" "CHR ''t'' \<notin> set (pad k n)" "CHR '':'' \<notin> set (pad k n)"
    "CHR ''.'' \<notin> set (pad k n)" "CHR ''Z'' \<notin> set (pad k n)" "CHR ''z'' \<notin> set (pad k n)" for k n
    by (rule pad_no, simp add: is_ascii_digit_def)+
  have "strftime_ms t = pad 4 (dt_year t) @ CHR ''-'' # pad 2 (dt_month t) @ CHR ''-'' # pad 2 (dt_day t) @ CHR ''T'' # pad 2 (dt_hour t)
    @ CHR '':'' # pad 2 (dt_minute t) @ CHR '':'' # pad 2 (dt_second t) @ CHR ''.'' # pad 3 (dt_micro t div 1000) @ CHR ''Z'' # []"
    by (simp add: strftime_ms_def take_micro)
  moreover have ms: "dt_micro t div 1000 < 1000" using t by (intro less_mult_imp_div_less) simp
  moreover have "valid_dt \<lparr>dt_year = dt_year t, dt_month = dt_month t, dt_day = dt_day t, dt_hour = dt_hour t, dt_minute = dt_minute t,
      dt_second = dt_second t, dt_micro = dt_micro t div 1000 * 1000\<rparr>" using t ms by (simp add: valid_dt_def)
  ultimately show ?thesis
    using t day by (simp add: strptime_def cut_at no field_pad day_field_pad micro_field_pad)
qed

lemma strftime_canonical: "ms_rfc3339_match (strftime_ms t)"
proof -
  have d: "list_all2 (\<lambda>p c. if p = CHR ''d'' then is_ascii_digit c else c = p) (replicate k CHR ''d'') (pad k n)" for k n
    using pad_digits[of k n] by (simp add: list_all2_conv_all_nth list_all_length)
  have ms: "MS_RFC3339 = replicate 4 CHR ''d'' @ ''-'' @ replicate 2 CHR ''d'' @ ''-'' @ replicate 2 CHR ''d'' @ ''T'' @ replicate 2 CHR ''d'' @ '':''
      @ replicate 2 CHR ''d'' @ '':'' @ replicate 2 CHR ''d'' @ ''.'' @ replicate 3 CHR ''d'' @ ''Z''"
    by (simp add: MS_RFC3339_def eval_nat_numeral)
  show ?thesis unfolding ms_rfc3339_match_def strftime_ms_def take_micro ms by (intro list_all2_appendI d; simp)
qed

lemma strptime_valid: "strptime s = Inr t \<Longrightarrow> valid_dt t"
  by (auto simp: strptime_def Let_def split: option.splits if_splits)

section \<open>Properties\<close>

text \<open>
  C40. The boundary a revocation is given lies exactly one second after the attested time. For a time that can be read, the result is
  the canonical millisecond text of a date that is one second later on the calendar, leap years and the ends of months and years
  included, with the microseconds cut to milliseconds; only the very last second of the year 9999 has no successor and raises.
\<close>

theorem second_after_exact:
  assumes "strptime s = Inr t"
  shows "if last_second t then second_after s = Inl OverflowError
     else \<exists>b u. second_after s = Inr b \<and> ms_rfc3339_match b \<and> strptime b = Inr u \<and> instant u = instant t + 1
       \<and> dt_micro u = dt_micro t div 1000 * 1000"
proof -
  have v: "valid_dt t" using assms by (rule strptime_valid)
  show ?thesis
  proof (cases "plus_second t")
    case (Inl e)
    then have "last_second t" using plus_second_total[OF v] by auto
    moreover have "e = OverflowError" using Inl by (auto simp: plus_second_def Let_def split: if_splits)
    ultimately show ?thesis using assms Inl by (simp add: second_after_def)
  next
    case (Inr u)
    have u: "valid_dt u" "instant u = instant t + 1" "dt_micro u = dt_micro t" using plus_second_later[OF v Inr] by auto
    have "instant (u\<lparr>dt_micro := k\<rparr>) = instant u" for k by (simp add: instant_def toordinal_def)
    then show ?thesis
      using assms Inr u strftime_canonical[of u] strptime_strftime[OF u(1)] plus_second_total[OF v] by (auto simp: second_after_def)
  qed
qed

theorem second_after_exact_witness:
  "second_after ''2024-02-28T23:59:59.500Z'' = Inr ''2024-02-29T00:00:00.500Z''
   \<and> (\<exists>t u. strptime ''2024-02-28T23:59:59.500Z'' = Inr t \<and> strptime ''2024-02-29T00:00:00.500Z'' = Inr u \<and> instant u = instant t + 1)"
proof -
  have b: "second_after ''2024-02-28T23:59:59.500Z'' = Inr ''2024-02-29T00:00:00.500Z''"
    by (simp add: second_after_def strptime_def field_def day_field_def micro_field_def is_ascii_digit_def plus_second_def strftime_ms_def pad_def
        valid_dt_def days_in_month_def leap_year_def upt_rec char_of_def bit_0)
  obtain t where t: "strptime ''2024-02-28T23:59:59.500Z'' = Inr t" using b by (auto simp: second_after_def rbind_eq_Inr)
  have "\<not> last_second t" using second_after_exact[OF t] b by (auto split: if_splits)
  with second_after_exact[OF t] b t show ?thesis by auto
qed

end
