(* ===== verification/Scenarios_Revocation.thy ===== *)
theory Scenarios_Revocation
  imports Verdict_Kit Timestamps
begin

text \<open>
  The scenario of the catalogue on the revocation of a compromised key (S32): the trust rules for a revocation, and what a context signed
  by the revoked key is worth before and after the compromise.
\<close>

definition S32 :: "'w scenario" where
  "S32 = scenario_def ''s32_key_revocation'' ''Producer Key-Revocation Signal''
     (''A producer rotates K1'' @ arrow @ ''K2 and publishes a signed key-revocation context (revoked_key_fingerprint=K1, compromised_since=T). A consumer uses parse_key_revocation + classify_under_revocation: a K1-signed context with a receipt-attested created_at before T is historically authorized (pre-compromise); at/after T or with no receipt it fails closed; a K1-signed revocation of K1 is rejected (not self-signed) ''
      @ em_dash @ '' RFC-ACDP-0014.'')
     ''single'' 1 [(''topic'', JStr ''compromise-scoped provenance record'')]"

definition BOUNDARY_T :: string where
  "BOUNDARY_T = ''2026-05-01T00:00:00.000Z''"

definition BEFORE_T :: string where
  "BEFORE_T = ''2026-04-16T10:30:15.123Z''"

definition AFTER_T :: string where
  "AFTER_T = ''2026-05-03T09:00:00.000Z''"

definition s32_authz :: "'w scen_env \<Rightarrow> json list \<Rightarrow> json \<Rightarrow> json \<Rightarrow> json result" where
  "s32_authz sn revs signer_fp created_at =
     verdict sn ''AcdpVerifier.classify_under_revocation'' [JStr (dumps sn (JList revs)), signer_fp, created_at]"

definition revocation_request :: "'w scen_env \<Rightarrow> producer \<Rightarrow> string \<Rightarrow> json \<Rightarrow> string \<Rightarrow> string \<Rightarrow> string result" where
  "revocation_request sn signer title revoked since reason =
     build_publish_request signer
       [(''title'', JStr title), (''context_type'', JStr ''key-revocation''), (''visibility'', JStr ''public''),
        (''summary'', JStr (''Revocation of '' @ str_json (je sn) revoked @ '', compromised since '' @ since @ ''.'')), (''acdp_version'', JStr ''0.3.0''),
        (''metadata'', JStr (dumps sn (JObj [(''revoked_key_fingerprint'', revoked), (''compromised_since'', JStr since), (''reason'', JStr reason)])))]"

definition build_revocation_body :: "'w scen_env \<Rightarrow> producer \<Rightarrow> json \<Rightarrow> string \<Rightarrow> string \<Rightarrow> string \<Rightarrow> obj result" where
  "build_revocation_body sn signer revoked since reason ctx_id =
     rbind (revocation_request sn signer (''Key revocation '' @ em_dash @ '' key-1 compromised'') revoked since reason) (\<lambda>raw.
     rbind (json_loads raw) (\<lambda>j.
     rbind (json_items j) (\<lambda>body.
     Inr (served_body body ctx_id (synthetic_lineage_id ctx_id) (registry_a_authority (sn_settings sn)) AFTER_T))))"

section \<open>The offline part\<close>

record s32_parts =
  vk_did :: string
  vk_k1 :: producer
  vk_k2 :: producer
  vk_fp_k1 :: json
  vk_fp_k2 :: json
  vk_victim_ctx :: string
  vk_raw_victim :: string
  vk_hash :: json
  vk_rev_body :: obj

definition s32_setup :: "'w scen_env \<Rightarrow> run_spec \<Rightarrow> s32_parts result" where
  "s32_setup sn spec =
     (let authority = registry_a_authority (sn_settings sn); did = did_for authority ''revoking-producer''; seed = agent_seed spec ''revoking-producer'' in
      rbind (from_seed sn (sha256 (seed @ utf8_encode '':k1'')) did (did @ ''#key-1'')) (\<lambda>k1.
      rbind (from_seed sn (sha256 (seed @ utf8_encode '':k2'')) did (did @ ''#key-2'')) (\<lambda>k2.
      rbind (fp_of sn (JStr (public_key_b64 k1))) (\<lambda>fp_k1.
      rbind (fp_of sn (JStr (public_key_b64 k2))) (\<lambda>fp_k2.
      rbind (synthetic_ctx_id authority ''s32-victim-context'') (\<lambda>victim_ctx.
      rbind (build_publish_request k1
               [(''title'', JStr (input_text sn spec ''topic'' ''compromise-scoped provenance record'' @ '' '' @ em_dash @ '' signed by key-1'')),
                (''context_type'', JStr ''analysis''), (''visibility'', JStr ''public''),
                (''summary'', JStr ''A context signed by the key that is later declared compromised.''), (''domain'', JStr ''provenance''),
                (''tags'', JList [JStr ''revocation'', JStr ''pre-compromise''])]) (\<lambda>raw_victim.
      rbind (rbind (json_loads raw_victim) (\<lambda>req. json_index req ''content_hash'')) (\<lambda>h.
      rbind (synthetic_ctx_id authority ''s32-revocation-context'') (\<lambda>rev_ctx.
      rbind (build_revocation_body sn k2 fp_k1 BOUNDARY_T ''laptop theft; private key material presumed exfiltrated'' rev_ctx) (\<lambda>rev_body.
      Inr \<lparr>vk_did = did, vk_k1 = k1, vk_k2 = k2, vk_fp_k1 = fp_k1, vk_fp_k2 = fp_k2, vk_victim_ctx = victim_ctx, vk_raw_victim = raw_victim,
           vk_hash = h, vk_rev_body = rev_body\<rparr>))))))))))"

text \<open>The revocation verifies under the current key, and is the producer's own by its class, the key it names and its boundary.\<close>

definition s32_trust :: "'w scen_env \<Rightarrow> s32_parts \<Rightarrow> (json \<times> json \<times> bool) result" where
  "s32_trust sn k =
     (let body = JObj (vk_rev_body k) in
      rbind (json_index body ''content_hash'') (\<lambda>h.
      rbind (verify_content_hash (sn_sdk sn) (dumps sn body) h) (\<lambda>_.
      rbind (rbind (json_index body ''signature'') (\<lambda>s. json_index s ''value'')) (\<lambda>sigv.
      rbind (verify_signature sn (JStr ''ed25519'') (JStr (public_key_b64 (vk_k2 k))) sigv h) (\<lambda>verified.
      rbind (verdict sn ''AcdpVerifier.parse_key_revocation'' [JStr (dumps sn body), vk_fp_k2 k]) (\<lambda>parsed.
      rbind (rand (tells parsed ''trust_class'' (JStr ''producer_signed'')) (rand (tells parsed ''revoked_key_fingerprint'' (vk_fp_k1 k))
               (tells parsed ''compromised_since'' (JStr BOUNDARY_T)))) (\<lambda>trusted.
      Inr (verified, parsed, trusted))))))))"

text \<open>The receipt-attested time of the victim context, of a receipt that was verified with the body it attests.\<close>

definition attested_created_at :: "'w scen_env \<Rightarrow> s32_parts \<Rightarrow> producer \<Rightarrow> string \<Rightarrow> json result" where
  "attested_created_at sn k reg created_at =
     (let authority = registry_a_authority (sn_settings sn); lineage_id = synthetic_lineage_id (vk_victim_ctx k) in
      rbind (synthesize_retrieval_body (float_repr (sn_env sn)) (et_str (sn_texts sn)) (sn_sdk sn) (vk_raw_victim k) (vk_victim_ctx k) lineage_id
               authority created_at) (\<lambda>body.
      rbind (mint_receipt (float_repr (sn_env sn)) (sn_sdk sn) reg (registry_did_of sn @ ''#receipt-key-1'') (registry_did_of sn) (vk_victim_ctx k)
               lineage_id authority created_at (vk_hash k) (vk_fp_k1 k)) (\<lambda>receipt.
      rbind (sdk_fun sn ''AcdpVerifier.verify_receipt'' [JStr (dumps sn (JObj receipt)), JStr (dumps sn (JObj body)), JStr (public_key_b64 reg),
               JStr (vk_victim_ctx k), vk_hash k, vk_fp_k1 k]) (\<lambda>_.
      json_index (JObj receipt) ''created_at''))))"

definition refused_after :: "json \<Rightarrow> bool result" where
  "refused_after v =
     rand (tells v ''authorization'' (JStr ''none'')) (rand (tells v ''boundary'' (JStr BOUNDARY_T))
       (rbind (json_get_attr v ''error'' JNull) (\<lambda>e. Inr (truthy e))))"

record s32_core =
  vc_rotation_distinct :: bool
  vc_verified :: json
  vc_trust_class :: json
  vc_producer_signed :: bool
  vc_pre :: bool
  vc_post :: bool
  vc_no_receipt :: bool
  vc_self_signed_rejected :: bool

definition s32_offline :: "'w scen_env \<Rightarrow> run_spec \<Rightarrow> s32_parts \<Rightarrow> s32_core result" where
  "s32_offline sn spec k =
     (let authority = registry_a_authority (sn_settings sn); did = registry_did_of sn in
      rbind (s32_trust sn k) (\<lambda>(verified, parsed, trusted).
      rbind (from_seed sn (sha256 (agent_seed spec ''registry-a-receipt'' @ utf8_encode '':signer'')) did (did @ ''#receipt-key-1'')) (\<lambda>reg.
      rbind (rbind (attested_created_at sn k reg BEFORE_T) (s32_authz sn [parsed] (vk_fp_k1 k))) (\<lambda>before.
      rbind (rand (tells before ''authorization'' (JStr ''historically_authorized_pre_compromise'')) (tells before ''boundary'' (JStr BOUNDARY_T))) (\<lambda>pre.
      rbind (rbind (attested_created_at sn k reg AFTER_T) (s32_authz sn [parsed] (vk_fp_k1 k))) (\<lambda>after.
      rbind (refused_after after) (\<lambda>post.
      rbind (s32_authz sn [parsed] (vk_fp_k1 k) JNull) (\<lambda>none.
      rbind (refused_after none) (\<lambda>no_receipt.
      rbind (synthetic_ctx_id authority ''s32-self-signed-revocation-context'') (\<lambda>self_ctx.
      rbind (build_revocation_body sn (vk_k1 k) (vk_fp_k1 k) BOUNDARY_T
               (''self-signed revocation '' @ em_dash @ '' proves only possession of the compromised key'') self_ctx) (\<lambda>self_body.
      rbind (catches is_RuntimeError (sdk_fun sn ''AcdpVerifier.parse_key_revocation'' [JStr (dumps sn (JObj self_body)), vk_fp_k1 k])) (\<lambda>self_signed.
      rbind (json_get_attr parsed ''trust_class'' JNull) (\<lambda>trust_class.
      Inr \<lparr>vc_rotation_distinct = (public_key_b64 (vk_k1 k) \<noteq> public_key_b64 (vk_k2 k) \<and> \<not> json_eq (vk_fp_k1 k) (vk_fp_k2 k)), vc_verified = verified,
           vc_trust_class = trust_class, vc_producer_signed = trusted, vc_pre = pre, vc_post = post, vc_no_receipt = no_receipt,
           vc_self_signed_rejected = self_signed\<rparr>)))))))))))))"

text \<open>The value of the conjunction, as for S24.\<close>

definition s32_core_ok :: "s32_core \<Rightarrow> json" where
  "s32_core_ok c =
     (if \<not> vc_rotation_distinct c then JBool False
      else if \<not> truthy (vc_verified c) then vc_verified c
      else JBool (vc_producer_signed c \<and> vc_pre c \<and> vc_post c \<and> vc_no_receipt c \<and> vc_self_signed_rejected c))"

section \<open>The live part\<close>

record s32_live =
  vl_ctx :: "string option"
  vl_fp :: json
  vl_t_pub :: json
  vl_revoker :: string
  vl_parsed :: json
  vl_type_admitted :: bool
  vl_revocation_parsed :: bool
  vl_pre_compromise :: bool
  vl_post_fail_closed :: bool

definition s32_start :: s32_live where
  "s32_start = \<lparr>vl_ctx = None, vl_fp = JNull, vl_t_pub = JNull, vl_revoker = [], vl_parsed = JNull, vl_type_admitted = False,
     vl_revocation_parsed = False, vl_pre_compromise = False, vl_post_fail_closed = False\<rparr>"

definition s32_victim :: "'w scen_env \<Rightarrow> run_spec \<Rightarrow> client \<Rightarrow> s32_live \<Rightarrow> ('w, s32_live) act" where
  "s32_victim sn spec cl l =
     mbind (mlift (required_receipt_pub sn)) (\<lambda>pub.
     mbind (mlift (from_seed_did_key sn (agent_seed spec ''live-victim''))) (\<lambda>victim.
     mbind (mlift (fp_of sn (JStr (public_key_b64 victim)))) (\<lambda>fp.
     mbind (mlift (build_publish_request victim
              [(''title'', JStr (input_text sn spec ''topic'' ''compromise-scoped provenance record'' @ '' '' @ em_dash @ '' live victim'')),
               (''context_type'', JStr ''data_snapshot''), (''visibility'', JStr ''public''),
               (''summary'', JStr ''Published by the key a revocation will name.''), (''domain'', JStr ''markets''),
               (''tags'', JList [JStr ''revocation''])])) (\<lambda>raw.
     mbind (mcall (publish_context (sn_env sn) (sn_client sn) cl raw None)) (\<lambda>resp.
     mbind (mcall (retrieve_raw (sn_env sn) (sn_client sn) cl (pr_ctx_id resp) None)) (\<lambda>full.
     mbind (mlift (json_get_attr full ''registry_receipt'' JNull)) (\<lambda>receipt.
     mbind (if receipt = JNull then mraise (RuntimeError ''registry served no receipt for the victim context'') else mret ()) (\<lambda>_.
     mbind (mlift (json_index full ''body'')) (\<lambda>body.
     mbind (mlift (json_index body ''content_hash'')) (\<lambda>h.
     mbind (mlift (verify_content_hash (sn_sdk sn) (dumps sn body) h)) (\<lambda>_.
     mbind (mlift (sdk_fun sn ''AcdpVerifier.verify_receipt''
              [JStr (dumps sn receipt), JStr (dumps sn body), JStr pub, JStr (pr_ctx_id resp), h, fp])) (\<lambda>_.
     mbind (mlift (json_index receipt ''created_at'')) (\<lambda>t_pub.
     mret (l\<lparr>vl_fp := fp, vl_t_pub := t_pub\<rparr>))))))))))))))"

text \<open>The boundary: a second after the attested time, which has to be a string.\<close>

definition boundary_after :: "json \<Rightarrow> string result" where
  "boundary_after t_pub = (case as_str t_pub of Some s \<Rightarrow> second_after s | None \<Rightarrow> Inl TypeError)"

definition s32_revoke :: "'w scen_env \<Rightarrow> run_spec \<Rightarrow> client \<Rightarrow> s32_live \<Rightarrow> ('w, s32_live) act" where
  "s32_revoke sn spec cl l =
     mbind (mlift (from_seed_did_key sn (agent_seed spec ''live-revoker''))) (\<lambda>revoker.
     mbind (mlift (boundary_after (vl_t_pub l))) (\<lambda>t_boundary.
     mbind (mlift (revocation_request sn revoker (''Key revocation '' @ em_dash @ '' live victim key compromised'') (vl_fp l) t_boundary
              ''live conformance revocation'')) (\<lambda>raw.
     mbind (mcall (publish_context (sn_env sn) (sn_client sn) cl raw None)) (\<lambda>resp.
     mbind (put_event_with sn spec ''acdp.publish'' (\<lambda>e. e\<lparr>se_agent_id := Some (agent_did revoker), se_ctx_id := Some (pr_ctx_id resp),
              se_title := Some ''key-revocation context published'',
              se_preview := Some (''did:key '' @ arrow @ '' 0.3.0 registry (type admitted)'')\<rparr>)) (\<lambda>_.
     mret (l\<lparr>vl_ctx := Some (pr_ctx_id resp), vl_revoker := agent_did revoker, vl_type_admitted := True\<rparr>))))))"

definition s32_parse :: "'w scen_env \<Rightarrow> client \<Rightarrow> s32_live \<Rightarrow> ('w, s32_live) act" where
  "s32_parse sn cl l =
     mbind (mcall (retrieve_raw (sn_env sn) (sn_client sn) cl (the (vl_ctx l)) None)) (\<lambda>full.
     mbind (mlift (json_index full ''body'')) (\<lambda>body.
     mbind (mlift (json_index body ''content_hash'')) (\<lambda>h.
     mbind (mlift (verify_content_hash (sn_sdk sn) (dumps sn body) h)) (\<lambda>_.
     mbind (mlift (verdict sn ''AcdpVerifier.parse_key_revocation'' [JStr (dumps sn body)])) (\<lambda>parsed.
     mbind (mlift (rand (tells parsed ''trust_class'' (JStr ''producer_signed'')) (tells parsed ''revoked_key_fingerprint'' (vl_fp l)))) (\<lambda>ok.
     mret (l\<lparr>vl_parsed := parsed, vl_revocation_parsed := ok\<rparr>)))))))"

definition s32_before :: "'w scen_env \<Rightarrow> s32_live \<Rightarrow> ('w, s32_live) act" where
  "s32_before sn l =
     mbind (mlift (s32_authz sn [vl_parsed l] (vl_fp l) (vl_t_pub l))) (\<lambda>v.
     mbind (mlift (tells v ''authorization'' (JStr ''historically_authorized_pre_compromise''))) (\<lambda>pre.
     mret (l\<lparr>vl_pre_compromise := pre\<rparr>)))"

definition s32_after :: "'w scen_env \<Rightarrow> run_spec \<Rightarrow> s32_live \<Rightarrow> ('w, s32_live) act" where
  "s32_after sn spec l =
     mbind (mlift (json_set (vl_parsed l) ''compromised_since'' (JStr BEFORE_T))) (\<lambda>earlier.
     mbind (mlift (s32_authz sn [earlier] (vl_fp l) (vl_t_pub l))) (\<lambda>v.
     mbind (mlift (rand (tells v ''authorization'' (JStr ''none'')) (rbind (json_get_attr v ''error'' JNull) (\<lambda>e. Inr (truthy e))))) (\<lambda>refused.
     mbind (put_event_with sn spec ''acdp.verify'' (\<lambda>e. e\<lparr>se_agent_id := Some (vl_revoker l), se_ctx_id := vl_ctx l,
              se_title := Some (''Live '' @ section_sign @ ''7 boundary vs a genuine receipt''),
              se_preview := Some (''parsed='' @ py_bool (vl_revocation_parsed l) @ '' pre_compromise='' @ py_bool (vl_pre_compromise l)
                @ '' post_fail_closed='' @ py_bool refused)\<rparr>)) (\<lambda>_.
     mret (l\<lparr>vl_post_fail_closed := refused\<rparr>)))))"

definition s32_steps :: "'w scen_env \<Rightarrow> run_spec \<Rightarrow> client \<Rightarrow> (s32_live \<Rightarrow> ('w, s32_live) act) list" where
  "s32_steps sn spec cl = [s32_victim sn spec cl, s32_revoke sn spec cl, s32_parse sn cl, s32_before sn, s32_after sn spec]"

definition s32_live_ok :: "s32_live \<Rightarrow> bool" where
  "s32_live_ok l \<longleftrightarrow> vl_type_admitted l \<and> vl_revocation_parsed l \<and> vl_pre_compromise l \<and> vl_post_fail_closed l"

definition s32_summary :: "'w scen_env \<Rightarrow> s32_parts \<Rightarrow> s32_core \<Rightarrow> s32_live \<times> exn option \<Rightarrow> obj" where
  "s32_summary sn k c lived =
     (let l = fst lived in
      [(''producer_did_method'', JStr ''did:web''), (''revoked_key_fingerprint'', vk_fp_k1 k), (''compromise_boundary'', JStr BOUNDARY_T),
       (''rotation_distinct'', JBool (vc_rotation_distinct c)), (''revocation_verified'', vc_verified c), (''trust_class'', vc_trust_class c),
       (''trust_class_producer_signed'', JBool (vc_producer_signed c)), (''pre_compromise_authorized'', JBool (vc_pre c)),
       (''post_compromise_fail_closed'', JBool (vc_post c)), (''no_receipt_fail_closed'', JBool (vc_no_receipt c)),
       (''self_signed_rejected'', JBool (vc_self_signed_rejected c)), (''offline_core_ok'', s32_core_ok c),
       (''live_round_trip'', JStr (live_outcome sn ''verified'' (snd lived))), (''live_type_admitted'', JBool (vl_type_admitted l)),
       (''live_revocation_parsed'', JBool (vl_revocation_parsed l)), (''live_pre_compromise'', JBool (vl_pre_compromise l)),
       (''live_post_fail_closed'', JBool (vl_post_fail_closed l))]
      @ (if s32_live_ok l then [] else [(''degraded'', JBool True)]))"

definition s32_run :: "'w scenario_act" where
  "s32_run sn spec =
     mbind (mlift (s32_setup sn spec)) (\<lambda>k.
     mbind (mlift (s32_offline sn spec k)) (\<lambda>c.
     mbind (tell sn spec ''acdp.verify'' (Some (vk_did k)) ''Key-revocation boundary verified (offline)''
              (''producer_signed='' @ py_bool (vc_producer_signed c) @ '' pre_compromise='' @ py_bool (vc_pre c) @ '' post_fail_closed='' @ py_bool (vc_post c)
               @ '' self_signed_rejected='' @ py_bool (vc_self_signed_rejected c))) (\<lambda>_.
     mbind (mlift (new_registry_client sn spec)) (\<lambda>cl.
     mbind (run_steps (s32_steps sn spec cl) s32_start) (\<lambda>lived.
     let contexts = known [vl_ctx (fst lived)] in
     mret (run_result_of spec ''s32_key_revocation'' contexts
             (graph (map (\<lambda>c. did_node c ''did:key (revoker)'' ''key-revocation context'' ''key-revocation'' (registry_a_authority (sn_settings sn)) 1)
                       contexts) [])
             (s32_summary sn k c lived)
             (if truthy (s32_core_ok c) then None else Some ''key-revocation core failed offline verification'')))))))"

section \<open>The contract\<close>

lemma second_after_ordinary [simp]: "ordinary (second_after s)" "ordinary (boundary_after j)"
proof -
  have "ordinary (strptime t)" "ordinary (plus_second u)" for t u
    unfolding strptime_def plus_second_def Let_def by (rule ordinary_branches | simp)+
  then show *: "ordinary (second_after s)" for s unfolding second_after_def by (auto intro!: ordinary_rbind)
  show "ordinary (boundary_after j)" by (simp add: boundary_after_def * split: option.split)
qed

lemma revocation_ordinary:
  assumes "civil_scen sn"
  shows "civil_producer p \<Longrightarrow> ordinary (revocation_request sn p title fp t r)" "civil_producer p \<Longrightarrow> ordinary (build_revocation_body sn p fp t r c)"
    "ordinary (s32_authz sn revs fp tj)" "ordinary (refused_after v)" "ordinary (s32_trust sn k)"
    "civil_producer p \<Longrightarrow> ordinary (attested_created_at sn k p t)"
  unfolding build_revocation_body_def revocation_request_def s32_authz_def refused_after_def s32_trust_def attested_created_at_def mint_receipt_def Let_def
  by (rule synthesize_ordinary verdict_rules assms | assumption | simp)+

lemma s32_setup_civil: "civil_scen sn \<Longrightarrow> s32_setup sn spec = Inr k \<Longrightarrow> civil_producer (vk_k1 k)"
  by (auto simp: s32_setup_def Let_def rbind_eq_Inr dest: seed_civil)

lemma s32_ordinary:
  assumes "civil_scen sn"
  shows "ordinary (s32_setup sn spec)" "civil_producer (vk_k1 k) \<Longrightarrow> ordinary (s32_offline sn spec k)"
  unfolding s32_setup_def s32_offline_def Let_def
  by (rule revocation_ordinary catches_ordinary verdict_rules assms | assumption | erule seed_civil[rotated] | simp)+

lemma vcg_s32_setup:
  assumes "civil_scen sn" "\<And>k. civil_producer (vk_k1 k) \<Longrightarrow> quietly P (f k)"
  shows "quietly P (mbind (mlift (s32_setup sn spec)) f)"
  by (rule quietly_post[where Q = "\<lambda>k. civil_producer (vk_k1 k)"])
     (use assms in \<open>auto intro!: vcg_mlift s32_ordinary dest: s32_setup_civil\<close>)

lemma quietly_s32_steps:
  assumes "civil_scen sn" "civil_client cl"
  shows "quietly (\<lambda>_. True) (run_steps (s32_steps sn spec cl) l)"
proof (rule vcg_run_steps)
  fix f and l :: s32_live
  note defs = s32_victim_def s32_revoke_def s32_parse_def s32_before_def s32_after_def
  assume "f \<in> set (s32_steps sn spec cl)"
  then show "quietly (\<lambda>_. True) (f l)"
    by (simp only: s32_steps_def list.set insert_iff empty_iff, elim disjE; simp only: defs)
       (rule revocation_ordinary verdict_rules assms | assumption | simp)+
qed

interpretation s32: scenario_contract s32_run "''s32_key_revocation''"
  by unfold_locales
     (simp only: s32_run_def Let_def,
      (rule vcg_s32_setup s32_ordinary quietly_s32_steps verdict_rules | assumption
       | (simp add: graph_simps did_node_def known_def split: option.split)[1])+)

end
