(* ===== verification/Scenarios_Embedded.thy ===== *)
theory Scenarios_Embedded
  imports Verdict_Kit
begin

text \<open>
  The scenarios of the catalogue on what a signed body carries: anchors that are never dereferenced (S33) and embedded content under its own
  hash (S34). A topic that is no string is kept as the decoded value it is; the models of an event and of a node refuse it.
\<close>

section \<open>Decoded titles, paths and versions\<close>

definition event_title :: "json \<Rightarrow> string option result" where
  "event_title j = (case j of JStr s \<Rightarrow> Inr (Some s) | JNull \<Rightarrow> Inr None | _ \<Rightarrow> Inl ValidationError)"

definition node_title :: "json \<Rightarrow> string result" where
  "node_title j = (case j of JStr s \<Rightarrow> Inr s | _ \<Rightarrow> Inl ValidationError)"

text \<open>\<^verbatim>\<open>x[a][b]... = v\<close> for names and list positions.\<close>

datatype path_step = Key string | Pos nat

fun json_set_at :: "json \<Rightarrow> path_step list \<Rightarrow> json \<Rightarrow> json result" where
  "json_set_at j [] v = Inr v"
| "json_set_at j [Key k] v = json_set j k v"
| "json_set_at j (Key k # ps) v = rbind (json_index j k) (\<lambda>x. rbind (json_set_at x ps v) (\<lambda>y. json_set j k y))"
| "json_set_at (JList xs) (Pos n # ps) v =
     (if n < length xs then rbind (json_set_at (xs ! n) ps v) (\<lambda>y. Inr (JList (xs[n := y]))) else Inl IndexError)"
| "json_set_at (JObj kvs) (Pos n # ps) v = Inl KeyError"
| "json_set_at (JStr s) (Pos n # ps) v = Inl (if n < length s then TypeError else IndexError)"
| "json_set_at j (Pos n # ps) v = Inl TypeError"

text \<open>The nodes and edges of successive versions, those without an id left out.\<close>

fun version_nodes :: "string \<Rightarrow> string \<Rightarrow> int \<Rightarrow> (string option \<times> json) list \<Rightarrow> lineage_node list result" where
  "version_nodes did authority i [] = Inr []"
| "version_nodes did authority i ((c, t) # rest) =
     (case nonempty_str c of
        None \<Rightarrow> version_nodes did authority (i + 1) rest
      | Some x \<Rightarrow>
          rbind (node_title t) (\<lambda>title.
          rbind (version_nodes did authority (i + 1) rest) (\<lambda>ns. Inr (did_node x did title ''data_snapshot'' authority i # ns))))"

fun version_edges :: "string option list \<Rightarrow> (string \<times> string) list" where
  "version_edges (a # b # cs) =
     (case (nonempty_str a, nonempty_str b) of (Some x, Some y) \<Rightarrow> [(x, y)] | _ \<Rightarrow> []) @ version_edges (b # cs)"
| "version_edges _ = []"

lemma version_nodes_at:
  "version_nodes did authority i cts = Inr ns \<Longrightarrow> j < length cts \<Longrightarrow> nonempty_str (fst (cts ! j)) = Some x
     \<Longrightarrow> \<exists>n \<in> set ns. ln_ctx_id n = x \<and> ln_step n = i + int j"
proof (induction cts arbitrary: i j ns)
  case (Cons ct cts)
  obtain c t where ct: "ct = (c, t)" by (cases ct)
  show ?case
  proof (cases j)
    case 0
    with Cons.prems ct show ?thesis by (auto simp: rbind_eq_Inr did_node_def)
  next
    case (Suc k)
    from Cons.prems(1) ct obtain ns' where ns': "version_nodes did authority (i + 1) cts = Inr ns'" "set ns' \<subseteq> set ns"
      by (auto simp: rbind_eq_Inr split: option.splits) blast
    from Cons.IH[OF ns'(1), of k] Cons.prems(2,3) Suc ns'(2) show ?thesis by fastforce
  qed
qed simp

lemma version_nodes_known: "version_nodes did authority i cts = Inr ns \<Longrightarrow> n \<in> set ns \<Longrightarrow> ln_ctx_id n \<in> set (known (map fst cts))"
  by (induction cts arbitrary: i ns) (fastforce simp: rbind_eq_Inr did_node_def known_def split: option.splits)+

lemma version_edges_at:
  "(x, y) \<in> set (version_edges cs) \<Longrightarrow> \<exists>j. Suc j < length cs \<and> nonempty_str (cs ! j) = Some x \<and> nonempty_str (cs ! Suc j) = Some y"
proof (induction cs rule: version_edges.induct)
  case (1 a b cs)
  then consider "nonempty_str a = Some x" "nonempty_str b = Some y" | "(x, y) \<in> set (version_edges (b # cs))"
    by (auto split: option.splits)
  then show ?case
  proof cases
    case 2
    from 1(1)[OF this] obtain j where "Suc j < length (b # cs)" "nonempty_str ((b # cs) ! j) = Some x" "nonempty_str ((b # cs) ! Suc j) = Some y"
      by blast
    then show ?thesis by (intro exI[of _ "Suc j"]) simp
  qed (intro exI[of _ 0], simp)
qed auto

lemma versions_ok:
  assumes "version_nodes did authority i cts = Inr ns"
  shows "graph_ok (known (map fst cts)) \<lparr>lg_nodes = ns, lg_edges = version_edges (map fst cts)\<rparr>"
proof -
  have "\<exists>m \<in> set ns. \<exists>n \<in> set ns. ln_ctx_id m = x \<and> ln_ctx_id n = y \<and> ln_step m < ln_step n"
    if e: "(x, y) \<in> set (version_edges (map fst cts))" for x y
  proof -
    obtain j where j: "Suc j < length cts" "nonempty_str (fst (cts ! j)) = Some x" "nonempty_str (fst (cts ! Suc j)) = Some y"
      using version_edges_at[OF e] by auto
    from version_nodes_at[OF assms _ j(2)] version_nodes_at[OF assms _ j(3)] j(1) show ?thesis by fastforce
  qed
  then show ?thesis using version_nodes_known[OF assms] by (auto simp: graph_ok_def)
qed

lemma embedded_ordinary [simp]: "ordinary (event_title j)" "ordinary (node_title j)" "ordinary (json_set_at j ps v)"
  "ordinary (version_nodes did authority i cts)"
proof -
  show "ordinary (event_title j)" "ordinary (node_title j)" by (simp_all add: event_title_def node_title_def split: json.split)
  have n: "ordinary (node_title j)" for j by (simp add: node_title_def split: json.split)
  show "ordinary (json_set_at j ps v)" by (induction j ps v rule: json_set_at.induct) (auto intro!: ordinary_rbind)
  show "ordinary (version_nodes did authority i cts)"
    by (induction did authority i cts rule: version_nodes.induct) (auto intro!: ordinary_rbind n split: option.split)
qed

lemma vcg_versions:
  assumes "\<And>ns. graph_ok (known (map fst cts)) \<lparr>lg_nodes = ns, lg_edges = version_edges (map fst cts)\<rparr> \<Longrightarrow> quietly P (f ns)"
  shows "quietly P (mbind (mlift (version_nodes did authority i cts)) f)"
  by (rule quietly_post[where Q = "\<lambda>ns. graph_ok (known (map fst cts)) \<lparr>lg_nodes = ns, lg_edges = version_edges (map fst cts)\<rparr>"])
     (auto intro!: vcg_mlift assms dest: versions_ok)

section \<open>S33: anchors\<close>

definition S33 :: "'w scenario" where
  "S33 = scenario_def ''s33_anchors'' ''External Anchors''
     (''A well-formed anchors entry is accepted and signed like any other field (anc-001); a scheme-unaware verifier still produces a valid verdict while structurally never dereferencing anchors[].uri (anc-005, RFC-ACDP-0016 ''
      @ section_sign @ ''6). A tampered anchor fails closed. The live half supersedes twice to exercise the anchors carry-forward / clear_anchors fix in Producer::new_version_from.'')
     ''single'' 1 [(''topic'', JStr ''anchored settlement snapshot'')]"

definition POISON_HOST :: string where
  "POISON_HOST = ''anchor-must-not-be-dereferenced.invalid.acdp-playground.test''"

definition KNOWN_SCHEME :: string where
  "KNOWN_SCHEME = ''macp.commitment''"

definition UNKNOWN_SCHEME :: string where
  "UNKNOWN_SCHEME = ''a-scheme.this-verifier.does-not-recognize''"

text \<open>
  A call of the SDK inside \<^verbatim>\<open>with _dns_trap()\<close>: it raises when the call asks the \<^verbatim>\<open>socket\<close> module for the poisoned host. The
  registry client's own requests ask for the registry's host, which the trap lets through.
\<close>

definition dns_trap :: "'w scen_env \<Rightarrow> string \<Rightarrow> json list \<Rightarrow> json result" where
  "dns_trap sn f xs = (if POISON_HOST \<in> set (sdk_hosts sn f xs) then Inl AssertionError else sdk_fun sn f xs)"

definition anchor :: "string \<Rightarrow> string \<Rightarrow> json" where
  "anchor scheme seed =
     JObj [(''scheme'', JStr scheme), (''content_hash'', JStr (''sha256:'' @ hexdigest (sha256 (utf8_encode seed)))),
           (''uri'', JStr (''https://'' @ POISON_HOST @ ''/'' @ scheme @ ''/'' @ seed))]"

definition anchor_known :: json where
  "anchor_known = anchor KNOWN_SCHEME ''settlement-finalized''"

definition anchored_request :: "'w scen_env \<Rightarrow> producer \<Rightarrow> json \<Rightarrow> string \<Rightarrow> json \<Rightarrow> string result" where
  "anchored_request sn p title summary anc =
     build_publish_request p
       [(''title'', title), (''context_type'', JStr ''data_snapshot''), (''visibility'', JStr ''public''), (''summary'', JStr summary),
        (''tags'', JList [JStr ''anchors'']), (''anchors'', JStr (dumps sn (JList [anc]))), (''acdp_version'', JStr ''0.5.0'')]"

definition s33_offline :: "'w scen_env \<Rightarrow> producer \<Rightarrow> json \<Rightarrow> (string \<times> json \<times> json \<times> bool) result" where
  "s33_offline sn p topic =
     rbind (anchored_request sn p topic ''Well-formed anchors entry, recognized scheme (anc-001).'' anchor_known) (\<lambda>raw1.
     rbind (anchored_request sn p (JStr (str_json (je sn) topic @ '' (scheme-unaware)''))
              ''Anchor with a scheme this verifier does not recognize (anc-005).'' (anchor UNKNOWN_SCHEME ''opaque-external-claim'')) (\<lambda>raw5.
     rbind (dns_trap sn ''AcdpVerifier.verify_publish_request_offline'' [JStr raw1]) (\<lambda>anc001.
     rbind (dns_trap sn ''AcdpVerifier.verify_publish_request_offline'' [JStr raw5]) (\<lambda>anc005.
     rbind (rbind (json_loads raw1) (\<lambda>j. json_set_at j [Key ''anchors'', Pos 0, Key ''content_hash''] (JStr (''sha256:'' @ replicate 64 CHR ''0'')))) (\<lambda>tampered.
     rbind (expect_rejection (et_str (sn_texts sn)) SDK_REJECTIONS
              (dns_trap sn ''AcdpVerifier.verify_publish_request_offline'' [JStr (dumps sn tampered)])) (\<lambda>(rejected, _).
     Inr (raw1, anc001, anc005, rejected)))))))"

record s33_live =
  xl_ctx1 :: "string option"
  xl_ctx2 :: "string option"
  xl_ctx3 :: "string option"
  xl_body :: json
  xl_match :: json
  xl_carry :: bool
  xl_clear :: bool

definition s33_start :: s33_live where
  "s33_start = \<lparr>xl_ctx1 = None, xl_ctx2 = None, xl_ctx3 = None, xl_body = JNull, xl_match = JBool False, xl_carry = False, xl_clear = False\<rparr>"

definition publish_id :: "'w scen_env \<Rightarrow> client \<Rightarrow> string \<Rightarrow> ('w, string) act" where
  "publish_id sn cl raw = mbind (mcall (publish_context (sn_env sn) (sn_client sn) cl raw None)) (\<lambda>resp. mret (pr_ctx_id resp))"

definition served_body_of :: "'w scen_env \<Rightarrow> client \<Rightarrow> string option \<Rightarrow> ('w, json) act" where
  "served_body_of sn cl c = mbind (mcall (retrieve_raw (sn_env sn) (sn_client sn) cl (the c) None)) (\<lambda>full. mlift (json_index full ''body''))"

definition s33_publish :: "'w scen_env \<Rightarrow> client \<Rightarrow> string \<Rightarrow> s33_live \<Rightarrow> ('w, s33_live) act" where
  "s33_publish sn cl raw l = mbind (publish_id sn cl raw) (\<lambda>c. mret (l\<lparr>xl_ctx1 := Some c\<rparr>))"

definition s33_tell :: "'w scen_env \<Rightarrow> run_spec \<Rightarrow> producer \<Rightarrow> json \<Rightarrow> s33_live \<Rightarrow> ('w, s33_live) act" where
  "s33_tell sn spec p topic l =
     mbind (mlift (event_title topic)) (\<lambda>title.
     mbind (put_event_with sn spec ''acdp.publish'' (\<lambda>e. e\<lparr>se_agent_id := Some (agent_did p), se_ctx_id := xl_ctx1 l, se_title := title,
              se_preview := Some (''anchors: '' @ KNOWN_SCHEME)\<rparr>)) (\<lambda>_. mret l))"

definition s33_retrieve :: "'w scen_env \<Rightarrow> client \<Rightarrow> s33_live \<Rightarrow> ('w, s33_live) act" where
  "s33_retrieve sn cl l =
     mbind (served_body_of sn cl (xl_ctx1 l)) (\<lambda>body.
     mbind (mlift (dns_trap sn ''AcdpVerifier.verify_body_offline'' [JStr (dumps sn body)])) (\<lambda>verified.
     mbind (mlift (if truthy verified then rbind (tells body ''anchors'' (JList [anchor_known])) (\<lambda>b. Inr (JBool b)) else Inr verified)) (\<lambda>m.
     mret (l\<lparr>xl_body := body, xl_match := m\<rparr>))))"

definition supersede_id :: "'w scen_env \<Rightarrow> client \<Rightarrow> producer \<Rightarrow> json \<Rightarrow> obj \<Rightarrow> ('w, string) act" where
  "supersede_id sn cl p prev_body kw =
     mbind (mlift (build_supersede_request p ((''previous_body_json'', JStr (dumps sn prev_body)) # kw @ [(''acdp_version'', JStr ''0.5.0'')]))) (publish_id sn cl)"

definition s33_supersede :: "'w scen_env \<Rightarrow> client \<Rightarrow> producer \<Rightarrow> string \<Rightarrow> s33_live \<Rightarrow> ('w, s33_live) act" where
  "s33_supersede sn cl p title l =
     mbind (supersede_id sn cl p (xl_body l) [(''title'', JStr (title @ '' (v2, anchors carried forward)'')),
              (''summary'', JStr (''Supersede with no anchors param '' @ em_dash @ '' must inherit v1'' @ [CHR 0x27] @ ''s anchor.''))]) (\<lambda>c.
     mret (l\<lparr>xl_ctx2 := Some c\<rparr>))"

definition s33_carried :: "'w scen_env \<Rightarrow> client \<Rightarrow> s33_live \<Rightarrow> ('w, s33_live) act" where
  "s33_carried sn cl l =
     mbind (served_body_of sn cl (xl_ctx2 l)) (\<lambda>body.
     mbind (mlift (tells body ''anchors'' (JList [anchor_known]))) (\<lambda>b.
     mret (l\<lparr>xl_body := body, xl_carry := b\<rparr>)))"

definition s33_clear :: "'w scen_env \<Rightarrow> client \<Rightarrow> producer \<Rightarrow> string \<Rightarrow> s33_live \<Rightarrow> ('w, s33_live) act" where
  "s33_clear sn cl p title l =
     mbind (supersede_id sn cl p (xl_body l) [(''title'', JStr (title @ '' (v3, anchors cleared)'')),
              (''summary'', JStr (''Supersede with clear_anchors=True '' @ em_dash @ '' must drop the anchor.'')), (''clear_anchors'', JBool True)]) (\<lambda>c.
     mret (l\<lparr>xl_ctx3 := Some c\<rparr>))"

definition s33_cleared :: "'w scen_env \<Rightarrow> run_spec \<Rightarrow> client \<Rightarrow> producer \<Rightarrow> s33_live \<Rightarrow> ('w, s33_live) act" where
  "s33_cleared sn spec cl p l =
     mbind (served_body_of sn cl (xl_ctx3 l)) (\<lambda>body.
     mbind (mlift (json_get_attr body ''anchors'' JNull)) (\<lambda>a.
     mbind (put_event_with sn spec ''acdp.verify'' (\<lambda>e. e\<lparr>se_agent_id := Some (agent_did p), se_ctx_id := xl_ctx3 l,
              se_title := Some ''Supersede anchors carry-forward + clear_anchors verified live'',
              se_preview := Some (''carry_forward='' @ py_bool (xl_carry l) @ '' clear_anchors='' @ py_bool (\<not> truthy a))\<rparr>)) (\<lambda>_.
     mret (l\<lparr>xl_clear := (\<not> truthy a)\<rparr>))))"

definition s33_steps :: "'w scen_env \<Rightarrow> run_spec \<Rightarrow> client \<Rightarrow> producer \<Rightarrow> json \<Rightarrow> string \<Rightarrow> (s33_live \<Rightarrow> ('w, s33_live) act) list" where
  "s33_steps sn spec cl p topic raw =
     (let title = str_json (je sn) topic in
      [s33_publish sn cl raw, s33_tell sn spec p topic, s33_retrieve sn cl, s33_supersede sn cl p title, s33_carried sn cl, s33_clear sn cl p title,
       s33_cleared sn spec cl p])"

definition s33_summary :: "'w scen_env \<Rightarrow> json \<Rightarrow> json \<Rightarrow> bool \<Rightarrow> s33_live \<times> exn option \<Rightarrow> obj" where
  "s33_summary sn anc001 anc005 rejected lived =
     (let l = fst lived in
      [(''anc001_well_formed_anchor_verified'', JBool (truthy anc001)), (''anc005_scheme_unaware_verified'', JBool (truthy anc005)),
       (''tamper_rejected'', JBool rejected), (''anchor_uri_dereferenced'', JBool False),
       (''offline_core_ok'', JBool (truthy anc001 \<and> truthy anc005 \<and> rejected)),
       (''registry_round_trip'', JStr (live_outcome sn ''published_3'' (snd lived))), (''retrieved_anchors_match'', xl_match l),
       (''carry_forward_ok'', JBool (xl_carry l)), (''clear_anchors_ok'', JBool (xl_clear l))]
      @ (if truthy (xl_match l) \<and> xl_carry l \<and> xl_clear l then [] else [(''degraded'', JBool True)]))"

definition s33_run :: "'w scenario_act" where
  "s33_run sn spec =
     (let topic = dict_get_default (sp_inputs spec) ''topic'' (JStr ''anchored settlement snapshot''); title = str_json (je sn) topic in
      mbind (mlift (from_seed_did_key sn (agent_seed spec ''anchor-producer''))) (\<lambda>p.
      mbind (mlift (s33_offline sn p topic)) (\<lambda>(raw, anc001, anc005, rejected).
      mbind (tell sn spec ''acdp.verify'' (Some (agent_did p)) ''Anchored bodies verified offline (anchors[].uri never dereferenced)''
               (''anc-001='' @ str_json (je sn) anc001 @ '' anc-005='' @ str_json (je sn) anc005 @ '' tamper_rejected='' @ py_bool rejected)) (\<lambda>_.
      mbind (anonymous_client sn (sp_run_id spec) Registry_A None tenant_mode.Fallback) (\<lambda>cl.
      mbind (run_steps (s33_steps sn spec cl p topic raw) s33_start) (\<lambda>lived.
      let versions = [(xl_ctx1 (fst lived), topic), (xl_ctx2 (fst lived), JStr (title @ '' (v2, anchors carried forward)'')),
            (xl_ctx3 (fst lived), JStr (title @ '' (v3, anchors cleared)''))] in
      mbind (mlift (version_nodes (agent_did p) (registry_a_authority (sn_settings sn)) 1 versions)) (\<lambda>nodes.
      mret (run_result_of spec ''s33_anchors'' (known (map fst versions)) (graph nodes (version_edges (map fst versions)))
              (s33_summary sn anc001 anc005 rejected lived)
              (if truthy anc001 \<and> truthy anc005 \<and> rejected then None else Some ''anchors offline core failed verification'')))))))))"

lemma dns_trap_ordinary: "civil_scen sn \<Longrightarrow> ordinary (dns_trap sn f xs)"
  by (simp add: dns_trap_def sdk_fun_ordinary)

lemma s33_offline_ordinary: "civil_scen sn \<Longrightarrow> civil_producer p \<Longrightarrow> ordinary (s33_offline sn p topic)"
  unfolding s33_offline_def anchored_request_def by (rule dns_trap_ordinary verdict_rules | assumption | simp)+

lemma quietly_ids:
  assumes "civil_scen sn" "civil_client cl"
  shows "quietly (\<lambda>_. True) (publish_id sn cl raw)" "quietly (\<lambda>_. True) (served_body_of sn cl c)"
    "civil_producer p \<Longrightarrow> quietly (\<lambda>_. True) (supersede_id sn cl p b kw)"
  unfolding publish_id_def served_body_of_def supersede_id_def by (rule verdict_rules assms | assumption | simp)+

lemma quietly_s33_steps:
  assumes "civil_scen sn" "civil_client cl" "civil_producer p"
  shows "quietly (\<lambda>_. True) (run_steps (s33_steps sn spec cl p topic raw) l)"
proof (rule vcg_run_steps)
  fix f and l :: s33_live
  note defs = s33_publish_def s33_tell_def s33_retrieve_def s33_supersede_def s33_carried_def s33_clear_def s33_cleared_def
  assume "f \<in> set (s33_steps sn spec cl p topic raw)"
  then show "quietly (\<lambda>_. True) (f l)"
    by (simp only: s33_steps_def Let_def list.set insert_iff empty_iff, elim disjE; simp only: defs)
       (rule quietly_ids dns_trap_ordinary verdict_rules assms | simp)+
qed

interpretation s33: scenario_contract s33_run "''s33_anchors''"
  by unfold_locales
     (simp only: s33_run_def Let_def,
      (rule s33_offline_ordinary quietly_s33_steps vcg_anonymous vcg_versions verdict_rules | assumption
       | (simp add: graph_def)[1])+)

section \<open>S34: embedded content\<close>

definition S34 :: "'w scenario" where
  "S34 = scenario_def ''s34_embedded_content'' ''Embedded Content Integrity''
     (''A data_refs[].embedded payload'' @ [CHR 0x27] @ ''s own content_hash (RFC-ACDP-0002 '' @ section_sign @ ''6.3/'' @ section_sign
      @ ''6.6 Check 8) is verified over the decoded bytes '' @ em_dash @ '' JCS form for json, raw UTF-8 for utf8, decoded bytes for base64. It is independent of the DataRef-root content_hash (''
      @ section_sign @ ''6.1): one foreign digest is accepted in the root slot and rejected in the embedded slot. Absent is legal, explicit null is a deserialization failure, and tampered content fails closed at both the body and data-ref layers.'')
     ''single'' 1 [(''topic'', JStr ''inline sensor snapshot'')]"

definition ACDP_VERSION_S34 :: string where
  "ACDP_VERSION_S34 = ''0.5.0''"

definition SERVED_AT :: string where
  "SERVED_AT = ''2026-01-01T00:00:00.000Z''"

definition sha256_hash :: "bytes \<Rightarrow> json" where
  "sha256_hash payload = JStr (''sha256:'' @ hexdigest (sha256 payload))"

definition json_hash :: "'w scen_env \<Rightarrow> json \<Rightarrow> json result" where
  "json_hash sn value = sdk_fun sn ''AcdpCanonicalizer.content_hash'' [JStr (dumps sn value)]"

text \<open>A reference; an absent hash is \<^const>\<open>None\<close>, an explicit null \<^term>\<open>Some JNull\<close>.\<close>

definition data_ref :: "string \<Rightarrow> string \<Rightarrow> json \<Rightarrow> json option \<Rightarrow> json option \<Rightarrow> string option \<Rightarrow> json" where
  "data_ref ref_type encoding content embedded_hash root_hash fmt =
     JObj ([(''type'', JStr ref_type),
            (''embedded'', JObj ([(''encoding'', JStr encoding), (''content'', content)] @ opt_param ''content_hash'' id embedded_hash))]
           @ opt_param ''format'' JStr fmt @ opt_param ''content_hash'' id root_hash)"

definition json_payload :: "json \<Rightarrow> json" where
  "json_payload topic =
     JObj [(''station'', topic), (''unit'', JStr ''celsius''),
           (''readings'', JList [JFloat (Fin (43 / 2)), JFloat (Fin (6108006994621235 / 281474976710656)), JFloat (Fin 22)])]"

text \<open>The text with its em dash and degree sign, and its UTF-8 bytes.\<close>

definition utf8_payload :: string where
  "utf8_payload = ''inlet probe '' @ em_dash @ '' 21.5 '' @ [CHR 0xB0] @ ''C, drifting''"

definition utf8_payload_bytes :: bytes where
  "utf8_payload_bytes = utf8_encode ''inlet probe '' @ [0xE2, 0x80, 0x94] @ utf8_encode ('' 21.5 '' @ [CHR 0xB0] @ ''C, drifting'')"

definition binary_payload :: bytes where
  "binary_payload = map of_nat [0..<32]"

definition json_ref :: "json \<Rightarrow> json option \<Rightarrow> json option \<Rightarrow> json" where
  "json_ref topic embedded_hash root_hash =
     data_ref ''primary_result'' ''json'' (json_payload topic) embedded_hash root_hash (Some ''application/json'')"

definition honest_refs :: "json \<Rightarrow> json \<Rightarrow> json list" where
  "honest_refs topic h =
     [json_ref topic (Some h) None,
      data_ref ''supporting_info'' ''utf8'' (JStr utf8_payload) (Some (sha256_hash utf8_payload_bytes)) None None,
      data_ref ''raw_data'' ''base64'' (JStr (b64encode binary_payload)) (Some (sha256_hash binary_payload)) None None]"

definition embedded_request :: "'w scen_env \<Rightarrow> producer \<Rightarrow> json \<Rightarrow> json list \<Rightarrow> string \<Rightarrow> string result" where
  "embedded_request sn p title refs summary =
     build_publish_request p
       [(''title'', title), (''context_type'', JStr ''data_snapshot''), (''visibility'', JStr ''public''), (''summary'', JStr summary),
        (''tags'', JList [JStr ''embedded'']), (''data_refs'', JStr (dumps sn (JList refs))), (''acdp_version'', JStr ACDP_VERSION_S34)]"

abbreviation verify_request :: "'w scen_env \<Rightarrow> string \<Rightarrow> json result" where
  "verify_request sn raw \<equiv> sdk_fun sn ''AcdpVerifier.verify_publish_request_offline'' [JStr raw]"

abbreviation verify_body :: "'w scen_env \<Rightarrow> json \<Rightarrow> json result" where
  "verify_body sn body \<equiv> sdk_fun sn ''AcdpVerifier.verify_body_offline'' [JStr (dumps sn body)]"

definition rejection :: "'w scen_env \<Rightarrow> 'a result \<Rightarrow> (bool \<times> string) result" where
  "rejection sn call = expect_rejection (et_str (sn_texts sn)) SDK_REJECTIONS call"

text \<open>The honest references: as a request and as a served body.\<close>

record s34_honest =
  eh_refs :: "json list"
  eh_raw :: string
  eh_ctx :: string
  eh_body :: json
  eh_json_hash :: json
  eh_utf8_as_json :: json
  eh_verified :: bool
  eh_served :: bool

definition s34_make_honest :: "'w scen_env \<Rightarrow> run_spec \<Rightarrow> producer \<Rightarrow> json \<Rightarrow> s34_honest result" where
  "s34_make_honest sn spec p topic =
     (let authority = registry_a_authority (sn_settings sn); label = sp_run_id spec @ '':s34-embedded'' in
      rbind (json_hash sn (json_payload topic)) (\<lambda>h.
      rbind (json_hash sn (JStr utf8_payload)) (\<lambda>as_json.
      let refs = honest_refs topic h in
      rbind (embedded_request sn p topic refs ''One embedded ref per encoding, each with a correct embedded.content_hash.'') (\<lambda>raw.
      rbind (verify_request sn raw) (\<lambda>verified.
      rbind (synthetic_ctx_id authority label) (\<lambda>ctx.
      rbind (synthesize_retrieval_body (float_repr (sn_env sn)) (et_str (sn_texts sn)) (sn_sdk sn) raw ctx (synthetic_lineage_id label) authority SERVED_AT) (\<lambda>body.
      rbind (verify_body sn (JObj body)) (\<lambda>served.
      Inr \<lparr>eh_refs = refs, eh_raw = raw, eh_ctx = ctx, eh_body = JObj body, eh_json_hash = h, eh_utf8_as_json = as_json,
           eh_verified = truthy verified, eh_served = truthy served\<rparr>))))))))"

text \<open>The wrong preimage, and one digest in two slots: accepted in the root, refused in the embedded one.\<close>

definition s34_wrong_preimage :: "'w scen_env \<Rightarrow> producer \<Rightarrow> string \<Rightarrow> json \<Rightarrow> bool result" where
  "s34_wrong_preimage sn p title as_json =
     rbind (rejection sn (embedded_request sn p (JStr (title @ '' (utf8 with a json preimage)''))
              [data_ref ''supporting_info'' ''utf8'' (JStr utf8_payload) (Some as_json) None None]
              ''A utf8 ref declaring the JCS digest of the same text.'')) (\<lambda>(rejected, why).
     Inr (rejected \<and> py_contains ''embedded.content_hash mismatch'' why))"

definition s34_foreign_root :: "'w scen_env \<Rightarrow> producer \<Rightarrow> json \<Rightarrow> json \<Rightarrow> bool result" where
  "s34_foreign_root sn p topic h =
     rbind (run_guarded SDK_REJECTIONS (embedded_request sn p (JStr (str_json (je sn) topic @ '' (foreign root content_hash)''))
              [json_ref topic (Some h) (Some (sha256_hash utf8_payload_bytes))]
              ''Root DataRef.content_hash disagrees; embedded.content_hash is correct.'')) (\<lambda>(raw, err).
     case err of Some _ \<Rightarrow> Inr False | None \<Rightarrow> rbind (verify_request sn (the raw)) (\<lambda>v. Inr (truthy v)))"

definition s34_foreign_embedded :: "'w scen_env \<Rightarrow> producer \<Rightarrow> json \<Rightarrow> json \<Rightarrow> bool result" where
  "s34_foreign_embedded sn p topic h =
     rbind (rejection sn (embedded_request sn p (JStr (str_json (je sn) topic @ '' (foreign embedded content_hash)''))
              [json_ref topic (Some (sha256_hash utf8_payload_bytes)) (Some h)]
              ''Root DataRef.content_hash is correct; embedded.content_hash is not.'')) (\<lambda>(rejected, why).
     Inr (rejected \<and> py_contains ''embedded.content_hash mismatch'' why
          \<and> py_contains (str_json (je sn) (sha256_hash utf8_payload_bytes)) why))"

text \<open>Absent is legal, an explicit null injected into the signed request is not.\<close>

definition s34_absent :: "'w scen_env \<Rightarrow> producer \<Rightarrow> json \<Rightarrow> (bool \<times> bool) result" where
  "s34_absent sn p topic =
     rbind (embedded_request sn p (JStr (str_json (je sn) topic @ '' (no embedded content_hash)'')) [json_ref topic None None]
              (''embedded.content_hash omitted '' @ em_dash @ '' optional, so Check 8 has nothing to do.'')) (\<lambda>raw.
     rbind (verify_request sn raw) (\<lambda>v.
     rbind (rbind (json_loads raw) (\<lambda>j. json_set_at j [Key ''data_refs'', Pos 0, Key ''embedded'', Key ''content_hash''] JNull)) (\<lambda>null_wire.
     rbind (rejection sn (verify_request sn (dumps sn null_wire))) (\<lambda>(rejected, why).
     Inr (truthy v, rejected \<and> py_contains ''invalid type: null'' why)))))"

definition unit_path :: "path_step list" where
  "unit_path = [Key ''data_refs'', Pos 0, Key ''embedded'', Key ''content'', Key ''unit'']"

text \<open>Tampering, caught by the body's hash in a request and by the reference's own hash in a served body.\<close>

definition s34_tampered :: "'w scen_env \<Rightarrow> string \<Rightarrow> json \<Rightarrow> (bool \<times> bool) result" where
  "s34_tampered sn raw body =
     rbind (rbind (json_loads raw) (\<lambda>j. json_set_at j unit_path (JStr ''fahrenheit''))) (\<lambda>request.
     rbind (rejection sn (verify_request sn (dumps sn request))) (\<lambda>(request_rejected, request_why).
     rbind (rbind (json_loads (dumps sn body)) (\<lambda>j. json_set_at j unit_path (JStr ''fahrenheit''))) (\<lambda>served.
     rbind (rejection sn (verify_body sn served)) (\<lambda>(body_rejected, body_why).
     Inr (request_rejected \<and> py_contains ''content_hash mismatch'' request_why \<and> \<not> py_contains ''embedded.'' request_why,
          body_rejected \<and> py_contains ''embedded.content_hash mismatch'' body_why)))))"

record s34_core =
  ec_distinct :: bool
  ec_wrong_preimage :: bool
  ec_foreign_root :: bool
  ec_foreign_embedded :: bool
  ec_both :: bool
  ec_absent :: bool
  ec_null :: bool
  ec_request_tamper :: bool
  ec_body_tamper :: bool

definition s34_offline :: "'w scen_env \<Rightarrow> producer \<Rightarrow> json \<Rightarrow> s34_honest \<Rightarrow> s34_core result" where
  "s34_offline sn p topic h =
     rbind (s34_wrong_preimage sn p (str_json (je sn) topic) (eh_utf8_as_json h)) (\<lambda>wrong_preimage.
     rbind (s34_foreign_root sn p topic (eh_json_hash h)) (\<lambda>foreign_root.
     rbind (s34_foreign_embedded sn p topic (eh_json_hash h)) (\<lambda>foreign_embedded.
     rbind (embedded_request sn p (JStr (str_json (je sn) topic @ '' (root + embedded content_hash)''))
              [json_ref topic (Some (eh_json_hash h)) (Some (eh_json_hash h))] ''Both content_hash fields present and both correct.'') (\<lambda>both_raw.
     rbind (verify_request sn both_raw) (\<lambda>both.
     rbind (s34_absent sn p topic) (\<lambda>(absent, null).
     rbind (s34_tampered sn (eh_raw h) (eh_body h)) (\<lambda>(request_tamper, body_tamper).
     Inr \<lparr>ec_distinct = (\<not> json_eq (eh_utf8_as_json h) (sha256_hash utf8_payload_bytes)), ec_wrong_preimage = wrong_preimage,
          ec_foreign_root = foreign_root, ec_foreign_embedded = foreign_embedded, ec_both = truthy both, ec_absent = absent, ec_null = null,
          ec_request_tamper = request_tamper, ec_body_tamper = body_tamper\<rparr>)))))))"

definition s34_core_ok :: "s34_honest \<Rightarrow> s34_core \<Rightarrow> bool" where
  "s34_core_ok h c \<longleftrightarrow> eh_verified h \<and> eh_served h \<and> ec_distinct c \<and> ec_wrong_preimage c \<and> (ec_foreign_root c \<and> ec_foreign_embedded c)
     \<and> ec_both c \<and> ec_absent c \<and> ec_null c \<and> ec_request_tamper c \<and> ec_body_tamper c"

record s34_live =
  el_ctx1 :: "string option"
  el_ctx2 :: "string option"
  el_body :: json
  el_verified :: bool
  el_round_trip :: bool
  el_carry :: bool

definition s34_start :: s34_live where
  "s34_start = \<lparr>el_ctx1 = None, el_ctx2 = None, el_body = JNull, el_verified = False, el_round_trip = False, el_carry = False\<rparr>"

definition s34_publish :: "'w scen_env \<Rightarrow> client \<Rightarrow> string \<Rightarrow> s34_live \<Rightarrow> ('w, s34_live) act" where
  "s34_publish sn cl raw l = mbind (publish_id sn cl raw) (\<lambda>c. mret (l\<lparr>el_ctx1 := Some c\<rparr>))"

definition s34_tell :: "'w scen_env \<Rightarrow> run_spec \<Rightarrow> producer \<Rightarrow> json \<Rightarrow> s34_live \<Rightarrow> ('w, s34_live) act" where
  "s34_tell sn spec p topic l =
     mbind (mlift (event_title topic)) (\<lambda>title.
     mbind (put_event_with sn spec ''acdp.publish'' (\<lambda>e. e\<lparr>se_agent_id := Some (agent_did p), se_ctx_id := el_ctx1 l, se_title := title,
              se_preview := Some ''3 embedded data_refs (json, utf8, base64)''\<rparr>)) (\<lambda>_. mret l))"

definition s34_verify :: "'w scen_env \<Rightarrow> client \<Rightarrow> s34_live \<Rightarrow> ('w, s34_live) act" where
  "s34_verify sn cl l =
     mbind (served_body_of sn cl (el_ctx1 l)) (\<lambda>body.
     mbind (mlift (verify_body sn body)) (\<lambda>ok. mret (l\<lparr>el_body := body, el_verified := truthy ok\<rparr>)))"

definition s34_round_trip :: "json list \<Rightarrow> s34_live \<Rightarrow> ('w, s34_live) act" where
  "s34_round_trip refs l = mbind (mlift (tells (el_body l) ''data_refs'' (JList refs))) (\<lambda>b. mret (l\<lparr>el_round_trip := b\<rparr>))"

definition s34_supersede :: "'w scen_env \<Rightarrow> client \<Rightarrow> producer \<Rightarrow> string \<Rightarrow> s34_live \<Rightarrow> ('w, s34_live) act" where
  "s34_supersede sn cl p title l =
     mbind (supersede_id sn cl p (el_body l) [(''title'', JStr (title @ '' (v2, embedded refs carried forward)'')),
              (''summary'', JStr (''Supersede with no data_refs param '' @ em_dash @ '' must inherit v1'' @ [CHR 0x27] @ ''s embedded refs.''))]) (\<lambda>c.
     mret (l\<lparr>el_ctx2 := Some c\<rparr>))"

definition s34_carried :: "'w scen_env \<Rightarrow> run_spec \<Rightarrow> client \<Rightarrow> producer \<Rightarrow> json list \<Rightarrow> s34_live \<Rightarrow> ('w, s34_live) act" where
  "s34_carried sn spec cl p refs l =
     mbind (served_body_of sn cl (el_ctx2 l)) (\<lambda>body.
     mbind (mlift (rand (tells body ''data_refs'' (JList refs)) (rbind (verify_body sn body) (\<lambda>v. Inr (truthy v))))) (\<lambda>carry.
     mbind (put_event_with sn spec ''acdp.verify'' (\<lambda>e. e\<lparr>se_agent_id := Some (agent_did p), se_ctx_id := el_ctx2 l,
              se_title := Some ''Embedded refs round-tripped and carried forward on supersede'',
              se_preview := Some (''round_trip='' @ py_bool (el_round_trip l) @ '' carry_forward='' @ py_bool carry)\<rparr>)) (\<lambda>_.
     mret (l\<lparr>el_carry := carry\<rparr>))))"

definition s34_steps ::
  "'w scen_env \<Rightarrow> run_spec \<Rightarrow> client \<Rightarrow> producer \<Rightarrow> json \<Rightarrow> s34_honest \<Rightarrow> (s34_live \<Rightarrow> ('w, s34_live) act) list" where
  "s34_steps sn spec cl p topic h =
     [s34_publish sn cl (eh_raw h), s34_tell sn spec p topic, s34_verify sn cl, s34_round_trip (eh_refs h),
      s34_supersede sn cl p (str_json (je sn) topic), s34_carried sn spec cl p (eh_refs h)]"

definition s34_summary :: "'w scen_env \<Rightarrow> s34_honest \<Rightarrow> s34_core \<Rightarrow> s34_live \<times> exn option \<Rightarrow> obj" where
  "s34_summary sn h c lived =
     (let l = fst lived in
      [(''encodings_verified'', JList [JStr ''json'', JStr ''utf8'', JStr ''base64'']), (''embedded_refs_verified'', JBool (eh_verified h)),
       (''served_body_verified'', JBool (eh_served h)), (''encoding_preimages_distinct'', JBool (ec_distinct c)),
       (''utf8_wrong_preimage_rejected'', JBool (ec_wrong_preimage c)), (''foreign_root_hash_accepted'', JBool (ec_foreign_root c)),
       (''foreign_embedded_hash_rejected'', JBool (ec_foreign_embedded c)),
       (''root_embedded_independent'', JBool (ec_foreign_root c \<and> ec_foreign_embedded c)), (''both_hashes_verified'', JBool (ec_both c)),
       (''absent_content_hash_verified'', JBool (ec_absent c)), (''explicit_null_rejected'', JBool (ec_null c)),
       (''request_tamper_rejected'', JBool (ec_request_tamper c)), (''served_body_tamper_rejected'', JBool (ec_body_tamper c)),
       (''offline_core_ok'', JBool (s34_core_ok h c)), (''registry_round_trip'', JStr (live_outcome sn ''published_2'' (snd lived))),
       (''live_body_verified'', JBool (el_verified l)), (''live_refs_round_trip'', JBool (el_round_trip l)),
       (''live_carry_forward'', JBool (el_carry l))]
      @ (if el_verified l \<and> el_round_trip l \<and> el_carry l then [] else [(''degraded'', JBool True)]))"

definition s34_run :: "'w scenario_act" where
  "s34_run sn spec =
     (let topic = dict_get_default (sp_inputs spec) ''topic'' (JStr ''inline sensor snapshot''); authority = registry_a_authority (sn_settings sn) in
      mbind (mlift (producer_for sn spec ''embedded-producer'' authority ALG_ED25519 Did_key)) (\<lambda>p.
      mbind (mlift (s34_make_honest sn spec p topic)) (\<lambda>h.
      mbind (mlift (s34_offline sn p topic h)) (\<lambda>c.
      mbind (put_event_with sn spec ''acdp.verify'' (\<lambda>e. e\<lparr>se_agent_id := Some (agent_did p), se_ctx_id := Some (eh_ctx h),
               se_title := Some ''Embedded content_hash verified over decoded bytes (Check 8)'',
               se_preview := Some (''encodings=json/utf8/base64 root_vs_embedded_independent='' @ py_bool (ec_foreign_root c \<and> ec_foreign_embedded c)
                 @ '' null_rejected='' @ py_bool (ec_null c) @ '' tamper_rejected='' @ py_bool (ec_request_tamper c \<and> ec_body_tamper c))\<rparr>)) (\<lambda>_.
      mbind (anonymous_client sn (sp_run_id spec) Registry_A None tenant_mode.Fallback) (\<lambda>cl.
      mbind (run_steps (s34_steps sn spec cl p topic h) s34_start) (\<lambda>lived.
      let versions = [(el_ctx1 (fst lived), topic),
            (el_ctx2 (fst lived), JStr (str_json (je sn) topic @ '' (v2, embedded refs carried forward)''))] in
      mbind (mlift (version_nodes (agent_did p) authority 1 versions)) (\<lambda>nodes.
      mret (run_result_of spec ''s34_embedded_content'' (known (map fst versions)) (graph nodes (version_edges (map fst versions)))
              (s34_summary sn h c lived)
              (if s34_core_ok h c then None else Some ''embedded content_hash core failed verification''))))))))))"

lemma s34_ordinary:
  assumes "civil_scen sn" "civil_producer p"
  shows "ordinary (s34_make_honest sn spec p topic)" "ordinary (s34_offline sn p topic h)"
  unfolding s34_make_honest_def s34_offline_def s34_wrong_preimage_def s34_foreign_root_def s34_foreign_embedded_def s34_absent_def s34_tampered_def
    embedded_request_def rejection_def json_hash_def Let_def
  by (rule synthesize_ordinary verdict_rules assms | simp)+

lemma quietly_s34_steps:
  assumes "civil_scen sn" "civil_client cl" "civil_producer p"
  shows "quietly (\<lambda>_. True) (run_steps (s34_steps sn spec cl p topic h) l)"
proof (rule vcg_run_steps)
  fix f and l :: s34_live
  note defs = s34_publish_def s34_tell_def s34_verify_def s34_round_trip_def s34_supersede_def s34_carried_def
  assume "f \<in> set (s34_steps sn spec cl p topic h)"
  then show "quietly (\<lambda>_. True) (f l)"
    by (simp only: s34_steps_def list.set insert_iff empty_iff, elim disjE; simp only: defs)
       (rule quietly_ids verdict_rules assms | simp)+
qed

interpretation s34: scenario_contract s34_run "''s34_embedded_content''"
  by unfold_locales
     (simp only: s34_run_def Let_def,
      (rule s34_ordinary quietly_s34_steps vcg_anonymous vcg_versions verdict_rules | assumption
       | (simp add: graph_def)[1])+)

end
