(* ===== verification/Catalog.thy ===== *)
theory Catalog
  imports Scenarios_Lineage Scenarios_Offline Receipt_Verdicts Scenarios_Lifecycle Scenarios_Log Scenarios_Revocation Scenarios_Embedded
begin

text \<open>
  The catalogue of the scenarios (playground/scenarios/catalog), in the order their modules are found,
  and what the runner makes of any of them.
\<close>

definition catalog_entries :: "('w scenario \<times> 'w scenario_act) list" where
  "catalog_entries =
     [(S10, s10_run), (S11, s11_run), (S12, s12_run), (S13, s13_run), (S14, s14_run), (S15, s15_run), (S16, s16_run),
      (S17, s17_run), (S18, s18_run), (S19, s19_run), (S1, s1_run), (S20, s20_run), (S21, s21_run), (S22, s22_run), (S23, s23_run),
      (S24, s24_run), (S25, s25_run), (S26, s26_run), (S27, s27_run), (S28, s28_run), (S29, s29_run), (S2, s2_run), (S30, s30_run), (S31, s31_run),
      (S32, s32_run), (S33, s33_run), (S34, s34_run), (S3, s3_run),
      (S4, s4_run), (S5, s5_run), (S6, s6_run), (S7, s7_run), (S8, s8_run), (S9, s9_run)]"

definition catalog :: "'w scen_env \<Rightarrow> (string, 'w scenario) dict" where
  "catalog sn = load_catalog (map (\<lambda>(sc, run). (Some sc, Some (as_body run sn))) catalog_entries)"

lemma scenario_ids [simp]:
  "sc_id S1 = ''s1_single_publish''" "sc_id S2 = ''s2_producer_consumer''" "sc_id S3 = ''s3_fanout''"
  "sc_id S4 = ''s4_chain''" "sc_id S5 = ''s5_cross_registry''" "sc_id S6 = ''s6_restricted''"
  "sc_id S7 = ''s7_supersession''" "sc_id S8 = ''s8_cross_org''" "sc_id S9 = ''s9_p256_publish''"
  "sc_id S10 = ''s10_tenant_isolation''" "sc_id S11 = ''s11_revocation''" "sc_id S12 = ''s12_key_rotation''"
  "sc_id S13 = ''s13_policy_deny''" "sc_id S14 = ''s14_domain_pack''" "sc_id S15 = ''s15_supersession_lineage''"
  "sc_id S16 = ''s16_dataref_ssrf''" "sc_id S17 = ''s17_supersession_authz''" "sc_id S18 = ''s18_idempotency''"
  "sc_id S19 = ''s19_cp_did_web_p256''" "sc_id S20 = ''s20_reserved_tenant''" "sc_id S21 = ''s21_capabilities_p256''"
  "sc_id S22 = ''s22_receipts''" "sc_id S23 = ''s23_receipt_tamper''" "sc_id S24 = ''s24_historical_key''"
  "sc_id S25 = ''s25_did_key''" "sc_id S26 = ''s26_divergence''" "sc_id S27 = ''s27_receipt_key_rotation''"
  "sc_id S28 = ''s28_lifecycle_retraction''" "sc_id S29 = ''s29_transparency_log''" "sc_id S30 = ''s30_head_receipt_freshness''"
  "sc_id S31 = ''s31_witness_cosigning''" "sc_id S32 = ''s32_key_revocation''" "sc_id S33 = ''s33_anchors''" "sc_id S34 = ''s34_embedded_content''"
  by (simp_all add: S1_def S2_def S3_def S4_def S5_def S6_def S7_def S8_def S9_def S10_def S11_def S12_def S13_def S14_def S15_def S16_def S17_def S18_def S19_def S20_def S21_def S22_def S23_def S24_def
      S25_def S26_def S27_def S28_def S29_def S30_def S31_def S32_def S33_def S34_def scenario_def_def)

lemmas contracts = s1.scenario_contract_axioms s2.scenario_contract_axioms s3.scenario_contract_axioms s4.scenario_contract_axioms
  s5.scenario_contract_axioms s6.scenario_contract_axioms s7.scenario_contract_axioms s8.scenario_contract_axioms s9.scenario_contract_axioms
  s10.scenario_contract_axioms s11.scenario_contract_axioms s12.scenario_contract_axioms s13.scenario_contract_axioms
  s14.scenario_contract_axioms s15.scenario_contract_axioms s16.scenario_contract_axioms s17.scenario_contract_axioms
  s18.scenario_contract_axioms s19.scenario_contract_axioms s20.scenario_contract_axioms s21.scenario_contract_axioms
  s22.scenario_contract_axioms s23.scenario_contract_axioms s24.scenario_contract_axioms s25.scenario_contract_axioms
  s26.scenario_contract_axioms s27.scenario_contract_axioms s28.scenario_contract_axioms s29.scenario_contract_axioms
  s30.scenario_contract_axioms s31.scenario_contract_axioms s32.scenario_contract_axioms s33.scenario_contract_axioms s34.scenario_contract_axioms

text \<open>Every entry of the catalogue keeps the contract under its own id.\<close>

lemma entries_keep_contract: "list_all (\<lambda>(sc, run). scenario_contract run (sc_id sc)) catalog_entries"
  by (simp add: catalog_entries_def contracts)

lemma load_catalog_entry:
  assumes "get_scenario (load_catalog (map (\<lambda>(sc, run). (Some sc, Some (body run))) entries)) sid = Some sc"
  shows "\<exists>sc0 run. (sc0, run) \<in> set entries \<and> sc = sc0\<lparr>sc_run := Some (body run)\<rparr> \<and> sc_id sc0 = sid"
proof -
  have "map_of (fold (\<lambda>m out. case m of (Some sc, Some run) \<Rightarrow> AList.update (sc_id sc) (sc\<lparr>sc_run := Some run\<rparr>) out | _ \<Rightarrow> out)
       (map (\<lambda>(sc, run). (Some sc, Some (body run))) es) out) sid = Some sc \<Longrightarrow>
     map_of out sid = Some sc \<or> (\<exists>sc0 run. (sc0, run) \<in> set es \<and> sc = sc0\<lparr>sc_run := Some (body run)\<rparr> \<and> sc_id sc0 = sid)" for es out
    by (induction es arbitrary: out) (fastforce simp: update_conv' split: if_splits)+
  from this[of entries "[]"] assms show ?thesis by (auto simp: get_scenario_def load_catalog_def)
qed

text \<open>
  C26. Every result of the catalogue is in order. Take any scenario of the catalogue, run by the runner with or without its deadline striking, on
  a network as in the control-plane property (httpx errors only, no digit-like \<^verbatim>\<open>Retry-After\<close> outside ASCII), with an SDK, models and
  registries that answer anything and raise only ordinary exceptions. The result is stored under the run's id. It names the run and the
  scenario, says failed exactly when it carries an error, and has a lineage graph over the contexts it reports whose edges lead from an earlier to a later
  step. It is the scenario's own result up to the summary; if the scenario raised, it is a failure with that exception, and if the deadline struck, a failure that names
  the deadline. The queue received \<^verbatim>\<open>run.started\<close>, and after it exactly one terminal event, which carries the status of the result.
  (Coroutines that a failed \<^verbatim>\<open>asyncio.gather\<close> leaves behind may put further step events at any later time, so nothing is claimed about which
  event is last; that a body comes to an end is what the deadline is for, and is not claimed either.)
\<close>

theorem catalogue_results_proper:
  assumes "civil_scen sn" and "network_ok env" and "cuts_quietly dl" and "get_scenario (catalog sn) sid = Some sc"
    and "execute env s txt (timed dl sc) spec ip io results queue = (st, r)"
  shows "\<exists>body result first es last. sc_run sc = Some body \<and> r = Inr result \<and> map_of (st_results st) (sp_run_id spec) = Some result
    \<and> qc_events (st_ctx st) = Some (queue @ first # es) \<and> se_type first = ''run.started'' \<and> filter is_terminal es = [last]
    \<and> se_run_id last = sp_run_id spec \<and> se_status last = Some (rr_status result) \<and> result_ok spec sid result
    \<and> own_outcome txt s body dl spec (body_start env s sid spec ip io queue first) result"
proof -
  obtain sc0 run where e: "(sc0, run) \<in> set catalog_entries" "sc = sc0\<lparr>sc_run := Some (as_body run sn)\<rparr>" "sc_id sc0 = sid"
    using load_catalog_entry[OF assms(4)[unfolded catalog_def]] by blast
  have "scenario_contract run sid" using entries_keep_contract e(1,3) by (auto simp: list_all_iff)
  from scenario_contract.run_to_end[OF this assms(1,2) _ _ assms(3,5)] e show ?thesis by simp
qed

theorem catalogue_results_proper_witness:
  "\<exists>sc st result. get_scenario (catalog (demo_scen (\<lambda>rq. Inl HTTPError))) ''s20_reserved_tenant'' = Some sc
     \<and> execute (stub_env (\<lambda>rq. Inl HTTPError)) default_settings demo_texts (timed (\<lambda>st. Some st) sc) demo_spec None stub_io [] [] = (st, Inr result)
     \<and> result_ok demo_spec ''s20_reserved_tenant'' result \<and> rr_error result = Some (''E: run exceeded RUN_TIMEOUT_SECONDS=600'' @ [newline])"
proof -
  let ?sn = "demo_scen (\<lambda>rq. Inl HTTPError)"
  have sn: "civil_scen ?sn" by (rule civil_demo_scen) simp
  have net: "network_ok (stub_env (\<lambda>rq. Inl HTTPError))" by (simp add: network_ok_def stub_env_def)
  have dl: "cuts_quietly (\<lambda>st. Some st)" by (auto simp: cuts_quietly_def option.map_ident intro!: exI[of _ "[]"])
  have "get_scenario (catalog ?sn) ''s20_reserved_tenant'' = Some (S20\<lparr>sc_run := Some (as_body s20_run ?sn)\<rparr>)"
    by (simp add: catalog_def catalog_entries_def load_catalog_def get_scenario_def)
  then obtain sc where sc: "get_scenario (catalog ?sn) ''s20_reserved_tenant'' = Some sc" by blast
  obtain st r where ex: "execute (stub_env (\<lambda>rq. Inl HTTPError)) default_settings demo_texts (timed (\<lambda>st. Some st) sc) demo_spec None stub_io [] [] = (st, r)"
    by (metis prod.collapse)
  from catalogue_results_proper[OF sn net dl sc ex] sc ex show ?thesis by (auto simp: own_outcome_def demo_texts_def)
qed

end
