(* ===== verification/Trust_Verdicts.thy ===== *)
theory Trust_Verdicts
  imports Scenarios_Lifecycle Receipt_Verdicts
begin

text \<open>
  What the verdicts of the scenarios on keys and on lifecycle events mean: the state S28 derives from a history is the one its events lead
  to, and a complete run of S24 has shown that a retired key stays usable while it is retained, and only then.
\<close>

section \<open>S28: the state of a history\<close>

text \<open>What one event does to the state: only the two registered types change it.\<close>

definition lifecycle_step :: "obj \<Rightarrow> bool \<Rightarrow> bool" where
  "lifecycle_step event retracted =
     (if obj_get event ''event_type'' = JStr ''retracted'' then True
      else if obj_get event ''event_type'' = JStr ''republished'' then False
      else retracted)"

definition registered :: "obj \<Rightarrow> bool" where
  "registered event \<longleftrightarrow> obj_get event ''event_type'' \<in> {JStr ''retracted'', JStr ''republished''}"

lemma retraction_scan_foldr: "retraction_scan events = foldr lifecycle_step events False"
  by (induction events) (auto simp: lifecycle_step_def)

lemma fold_last_registered:
  "fold lifecycle_step events False \<longleftrightarrow>
     filter registered events \<noteq> [] \<and> obj_get (last (filter registered events)) ''event_type'' = JStr ''retracted''"
  by (induction events rule: rev_induct) (auto simp: lifecycle_step_def registered_def)

text \<open>
  C36. The state S28 derives from a history of lifecycle events, scanning it backwards, is the state its events lead to when they are
  applied in order to a context that starts active: retracted exactly when the last event of a registered type is a retraction. Events
  of other types are inert wherever they stand.
\<close>

theorem retraction_state_last_wins:
  "retraction_state events = fold lifecycle_step events False
   \<and> (retraction_state events \<longleftrightarrow>
       filter registered events \<noteq> [] \<and> obj_get (last (filter registered events)) ''event_type'' = JStr ''retracted'')"
  by (simp add: retraction_state_def retraction_scan_foldr foldr_conv_fold fold_last_registered[symmetric])

section \<open>S24: a key that was retired\<close>

text \<open>The key a document resolves for an identifier has the fingerprint.\<close>

definition resolves_to :: "'w scen_env \<Rightarrow> json \<Rightarrow> json \<Rightarrow> string \<Rightarrow> json \<Rightarrow> json \<Rightarrow> bool" where
  "resolves_to sn doc fp kid resolved key \<longleftrightarrow>
     receipt_key sn doc (JStr kid) (JStr ''ed25519'') = Inr resolved \<and> json_index resolved ''public_key_b64'' = Inr key \<and> fp_of sn key = Inr fp"

lemma find_retained_Inr:
  "find_retained sn fp sigv h doc kids = Inr (authorized, historical) \<Longrightarrow>
     \<exists>kid \<in> set kids. \<exists>resolved key v. resolves_to sn doc fp kid resolved key
       \<and> verify_signature sn (JStr ''ed25519'') key sigv h = Inr authorized
       \<and> json_index resolved ''historical'' = Inr v \<and> historical = (v = JStr ''true'')"
  by (induction kids) (auto simp: resolves_to_def rbind_eq_Inr split: sum.splits if_splits)

text \<open>What is known of the SDK: it does not raise the exception this scenario defines for itself.\<close>

definition sdk_own_errors :: "'w scen_env \<Rightarrow> bool" where
  "sdk_own_errors sn \<longleftrightarrow> (\<forall>f xs e. sdk_fun sn f xs = Inl e \<longrightarrow> \<not> is_HistoricalAuthFailed e)"

lemma json_index_own: "json_index j k = Inl e \<Longrightarrow> \<not> is_HistoricalAuthFailed e"
  by (cases j) (auto simp: is_HistoricalAuthFailed_def split: option.splits)

lemma find_retained_refused:
  assumes "sdk_own_errors sn" "find_retained sn fp sigv h doc kids = Inl e" "is_HistoricalAuthFailed e"
  shows "list_all (\<lambda>kid. \<forall>resolved key. \<not> resolves_to sn doc fp kid resolved key) kids"
  using assms(2)
proof (induction kids)
  case (Cons kid kids)
  have own: "sdk_fun sn f xs = Inl e \<Longrightarrow> False" "json_index j k = Inl e \<Longrightarrow> False" for f xs j k
    using assms(1,3) json_index_own by (auto simp: sdk_own_errors_def)
  then have "verify_signature sn (JStr ''ed25519'') key s c \<noteq> Inl e" for key s c
    by (auto simp: verify_signature_def ALG_ED25519_def)
  with Cons own show ?case
    by (auto simp: resolves_to_def receipt_key_def fp_of_def rbind_eq_Inl split: sum.splits if_splits)
qed simp

text \<open>What the offline part compares: the signed request, and the two documents, with the first key retained and with it removed.\<close>

definition s24_signed :: "s24_keys \<Rightarrow> json \<Rightarrow> json \<Rightarrow> bool" where
  "s24_signed k sigv h \<longleftrightarrow>
     (\<exists>kw raw req s. build_publish_request (hk_v1 k) kw = Inr raw \<and> json_loads raw = Inr req \<and> json_index req ''content_hash'' = Inr h
        \<and> json_index req ''signature'' = Inr s \<and> json_index s ''value'' = Inr sigv)"

definition s24_documents :: "'w scen_env \<Rightarrow> s24_keys \<Rightarrow> json \<Rightarrow> json \<Rightarrow> bool" where
  "s24_documents sn k retained removed \<longleftrightarrow>
     (\<exists>vm_v1 vm_v2. ed25519_jwk_vm (JStr (hk_kids k ! 0)) (hk_did k) (public_key_b64 (hk_v1 k)) = Inr vm_v1
        \<and> ed25519_jwk_vm (JStr (hk_kids k ! 1)) (hk_did k) (public_key_b64 (hk_v2 k)) = Inr vm_v2
        \<and> parse_did_document sn (hk_did k) [vm_v2] (Some [vm_v1]) = Inr retained \<and> parse_did_document sn (hk_did k) [vm_v2] None = Inr removed)"

lemma expect_rejection_True: "expect_rejection str allow call = Inr (True, why) \<longleftrightarrow> (\<exists>e. call = Inl e \<and> allow e \<and> why = str e)"
  by (auto simp: expect_rejection_def run_guarded_def split: sum.splits)

lemma catches_True: "catches c call = Inr True \<longleftrightarrow> (\<exists>e. call = Inl e \<and> c e)"
  by (auto simp: catches_def split: sum.splits)

lemma s24_offline_parts:
  assumes "s24_offline sn k title = Inr (raw, c)" "truthy (s24_core_ok c)"
  shows "\<exists>sigv h retained removed v e a e'. s24_signed k sigv h \<and> s24_documents sn k retained removed
    \<and> public_key_b64 (hk_v1 k) \<noteq> public_key_b64 (hk_v2 k) \<and> hk_fp_v1 k \<noteq> hk_fp_v2 k
    \<and> verify_signature sn (JStr ''ed25519'') (JStr (public_key_b64 (hk_v1 k))) sigv h = Inr v \<and> truthy v
    \<and> verify_signature sn (JStr ''ed25519'') (JStr (public_key_b64 (hk_v2 k))) sigv h = Inl e \<and> SDK_REJECTIONS e
    \<and> find_retained sn (hk_fp_v1 k) sigv h retained (hk_kids k) = Inr (a, True) \<and> truthy a
    \<and> find_retained sn (hk_fp_v1 k) sigv h removed (hk_kids k) = Inl e' \<and> is_HistoricalAuthFailed e'"
proof -
  have c: "hc_rotation_distinct c" "truthy (hc_pre_verifies_old c)" "hc_new_key_rejects c" "truthy (hc_authorized c)" "hc_historical c" "hc_removed c"
    using assms(2) by (auto simp: s24_core_ok_def split: if_splits)
  from assms(1) obtain vm_v1 vm_v2 kw req h s sigv v e retained removed a e' where
    request: "build_publish_request (hk_v1 k) kw = Inr raw" "json_loads raw = Inr req" "json_index req ''content_hash'' = Inr h"
      "json_index req ''signature'' = Inr s" "json_index s ''value'' = Inr sigv"
    and docs: "ed25519_jwk_vm (JStr (hk_kids k ! 0)) (hk_did k) (public_key_b64 (hk_v1 k)) = Inr vm_v1"
      "ed25519_jwk_vm (JStr (hk_kids k ! 1)) (hk_did k) (public_key_b64 (hk_v2 k)) = Inr vm_v2"
      "parse_did_document sn (hk_did k) [vm_v2] (Some [vm_v1]) = Inr retained" "parse_did_document sn (hk_did k) [vm_v2] None = Inr removed"
    and checks: "public_key_b64 (hk_v1 k) \<noteq> public_key_b64 (hk_v2 k)" "hk_fp_v1 k \<noteq> hk_fp_v2 k"
      "verify_signature sn (JStr ''ed25519'') (JStr (public_key_b64 (hk_v1 k))) sigv h = Inr v" "truthy v"
      "verify_signature sn (JStr ''ed25519'') (JStr (public_key_b64 (hk_v2 k))) sigv h = Inl e" "SDK_REJECTIONS e"
      "find_retained sn (hk_fp_v1 k) sigv h retained (hk_kids k) = Inr (a, True)" "truthy a"
      "find_retained sn (hk_fp_v1 k) sigv h removed (hk_kids k) = Inl e'" "is_HistoricalAuthFailed e'"
    using c by (clarsimp simp: s24_offline_def Let_def rbind_eq_Inr expect_rejection_True catches_True historically_authorized_def
        json_get_attr_def dict_get_default_def)
  have "s24_signed k sigv h" "s24_documents sn k retained removed"
    unfolding s24_signed_def s24_documents_def using request docs by blast+
  with checks show ?thesis by blast
qed

text \<open>
  C35. A complete run of S24 means that retention decides. The two keys of the identity are distinct; the context signed before the
  rotation verifies under the old key and the SDK refuses it under the new one. With the old key retained in the DID document, a key that
  the document resolves as historical has the fingerprint of the old key and verifies the signature; with it removed, no
  candidate resolves to that fingerprint. This holds whatever the registry answers, or if it is not there.
\<close>

theorem s24_complete_means:
  assumes "sdk_own_errors sn" and "s24_run sn spec st = (st', Inr r)" and "rr_status r = ''complete''"
  shows "\<exists>k sigv h retained removed. s24_make_keys sn = Inr k \<and> s24_signed k sigv h \<and> s24_documents sn k retained removed
    \<and> public_key_b64 (hk_v1 k) \<noteq> public_key_b64 (hk_v2 k) \<and> hk_fp_v1 k \<noteq> hk_fp_v2 k
    \<and> (\<exists>v. verify_signature sn (JStr ''ed25519'') (JStr (public_key_b64 (hk_v1 k))) sigv h = Inr v \<and> truthy v)
    \<and> (\<exists>e. verify_signature sn (JStr ''ed25519'') (JStr (public_key_b64 (hk_v2 k))) sigv h = Inl e \<and> SDK_REJECTIONS e)
    \<and> list_ex (\<lambda>kid. \<exists>resolved key a. resolves_to sn retained (hk_fp_v1 k) kid resolved key \<and> json_index resolved ''historical'' = Inr (JStr ''true'')
         \<and> verify_signature sn (JStr ''ed25519'') key sigv h = Inr a \<and> truthy a) (hk_kids k)
    \<and> list_all (\<lambda>kid. \<forall>resolved key. \<not> resolves_to sn removed (hk_fp_v1 k) kid resolved key) (hk_kids k)"
proof -
  from assms(2) obtain k title raw c where k: "s24_make_keys sn = Inr k" "s24_offline sn k title = Inr (raw, c)"
    and "rr_status r = (if truthy (s24_core_ok c) then ''complete'' else ''failed'')"
    by (auto simp: s24_run_def Let_def mbind_Inr mlift_Inr simp del: mlift_iff append.simps append_Cons)
  with assms(3) have "truthy (s24_core_ok c)" by (auto split: if_splits)
  from s24_offline_parts[OF k(2) this] obtain sigv h retained removed v e a e' where
    parts: "s24_signed k sigv h" "s24_documents sn k retained removed" "public_key_b64 (hk_v1 k) \<noteq> public_key_b64 (hk_v2 k)" "hk_fp_v1 k \<noteq> hk_fp_v2 k"
      "verify_signature sn (JStr ''ed25519'') (JStr (public_key_b64 (hk_v1 k))) sigv h = Inr v" "truthy v"
      "verify_signature sn (JStr ''ed25519'') (JStr (public_key_b64 (hk_v2 k))) sigv h = Inl e" "SDK_REJECTIONS e"
    and retained: "find_retained sn (hk_fp_v1 k) sigv h retained (hk_kids k) = Inr (a, True)" "truthy a"
    and removed: "find_retained sn (hk_fp_v1 k) sigv h removed (hk_kids k) = Inl e'" "is_HistoricalAuthFailed e'" by blast
  have "list_ex (\<lambda>kid. \<exists>resolved key a. resolves_to sn retained (hk_fp_v1 k) kid resolved key \<and> json_index resolved ''historical'' = Inr (JStr ''true'')
         \<and> verify_signature sn (JStr ''ed25519'') key sigv h = Inr a \<and> truthy a) (hk_kids k)"
    using find_retained_Inr[OF retained(1)] retained(2) by (fastforce simp: list_ex_iff)
  with k(1) parts find_retained_refused[OF assms(1) removed] show ?thesis by blast
qed

text \<open>An SDK in small: fingerprints are the keys, a document resolves what it lists, only the first key verifies.\<close>

definition small_sdk :: "string \<Rightarrow> json list \<Rightarrow> json result" where
  "small_sdk f xs =
     (if f = ''AcdpVerifier.fingerprint_ed25519_b64'' then Inr (hd xs)
      else if f = ''AcdpVerifier.verify_signature'' then if hd xs = JStr ''AAEC'' then Inr (JBool True) else Inl ValueError
      else if f = ''AcdpDidDocument.parse'' then case loads_value (hd xs) of Inr doc \<Rightarrow> Inr doc | Inl _ \<Rightarrow> Inl ValueError
      else if f = ''AcdpDidDocument.receipt_key_for_algorithm'' then
        case hd xs of
          JObj kvs \<Rightarrow>
            if list_ex (\<lambda>vm. json_index vm ''id'' = Inr (xs ! 1)) (case obj_get kvs ''verificationMethod'' of JList vms \<Rightarrow> vms | _ \<Rightarrow> [])
            then let current = obj_get kvs ''assertionMethod'' = JList [xs ! 1] in
              Inr (JObj [(''public_key_b64'', JStr (if current then ''AwQF'' else ''AAEC'')), (''historical'', JStr (if current then ''false'' else ''true''))])
            else Inl DidResolutionError
        | _ \<Rightarrow> Inl DidResolutionError
      else Inr JNull)"

definition signed_text :: string where
  "signed_text = json_dumps (\<lambda>f. []) (JObj [(''content_hash'', JStr ''sha256:1''), (''signature'', JObj [(''value'', JStr ''s'')])])"

definition rotating_scen :: "unit scen_env" where
  "rotating_scen = (demo_scen (\<lambda>rq. Inl HTTPError))\<lparr>sdk_fun := small_sdk,
     from_seed := (\<lambda>s d kid. Inr (demo_producer\<lparr>public_key_b64 := (if last kid = CHR ''1'' then ''AAEC'' else ''AwQF''),
        build_publish_request := (\<lambda>kw. Inr signed_text)\<rparr>))\<rparr>"

lemma small_sdk_raises: "small_sdk f xs = Inl e \<Longrightarrow> e \<in> {ValueError, DidResolutionError}"
  by (auto simp: small_sdk_def Let_def split: if_splits sum.splits json.splits)

lemma small_sdk_own: "sdk_own_errors rotating_scen" "ordinary (small_sdk f xs)"
  using small_sdk_raises by (fastforce simp: sdk_own_errors_def rotating_scen_def is_HistoricalAuthFailed_def ordinary_def DidResolutionError_def)+

lemma run_steps_Inl: "run_steps fs l st = (st', Inl e) \<Longrightarrow> \<not> is_Exception e"
proof (induction fs arbitrary: l st)
  case (Cons f fs)
  then show ?case
    by (auto simp: mbind_def mcatch_def mtry_def mret_def mraise_def split: prod.splits sum.splits if_splits)
qed (simp add: mret_def)

lemma civil_rotating: "civil_scen rotating_scen"
  using civil_demo_scen[of "\<lambda>rq. Inl HTTPError"] small_sdk_own(2)
  by (simp add: civil_scen_def rotating_scen_def civil_producer_def demo_producer_def)

text \<open>The offline part against this SDK, for the keys it makes.\<close>

definition rotating_keys :: s24_keys where
  "rotating_keys =
     (let did = did_for ''registry-a.playground.local'' ''rotating-historical''; signer = demo_producer\<lparr>build_publish_request := (\<lambda>kw. Inr signed_text)\<rparr> in
      \<lparr>hk_did = did, hk_kids = [did @ ''#key-1'', did @ ''#key-2''], hk_v1 = signer\<lparr>public_key_b64 := ''AAEC''\<rparr>, hk_v2 = signer\<lparr>public_key_b64 := ''AwQF''\<rparr>,
       hk_fp_v1 = JStr ''AAEC'', hk_fp_v2 = JStr ''AwQF''\<rparr>)"

lemma rotating_make_keys: "s24_make_keys rotating_scen = Inr rotating_keys"
  by (simp add: s24_make_keys_def rotating_keys_def rotating_scen_def Let_def fp_of_def small_sdk_def demo_authority)

lemma small_sdk_eqs:
  "fp_of rotating_scen key = Inr key"
  "verify_signature rotating_scen (JStr ''ed25519'') key sigv h = (if key = JStr ''AAEC'' then Inr (JBool True) else Inl ValueError)"
  "sdk_fun rotating_scen ''AcdpDidDocument.parse'' [JStr doc, d] = (case json_loads doc of Inr j \<Rightarrow> Inr j | Inl _ \<Rightarrow> Inl ValueError)"
  by (simp_all add: fp_of_def rotating_scen_def small_sdk_def verify_signature_def ALG_ED25519_def loads_value_def)

lemma rotating_offline: "\<exists>raw c. s24_offline rotating_scen rotating_keys title = Inr (raw, c) \<and> truthy (s24_core_ok c)"
proof -
  let ?did = "did_for ''registry-a.playground.local'' ''rotating-historical''"
  have "b64decode ''AAEC'' = Inr [0, 1, 2]" "b64decode ''AwQF'' = Inr [3, 4, 5]" by code_simp+
  then obtain old new where vm: "ed25519_jwk_vm (JStr (?did @ ''#key-1'')) ?did ''AAEC'' = Inr old"
    "ed25519_jwk_vm (JStr (?did @ ''#key-2'')) ?did ''AwQF'' = Inr new" by (auto simp: ed25519_jwk_vm_def Let_def)
  note plain = ed25519_jwk_vm_plain[OF vm(1)] ed25519_jwk_vm_plain[OF vm(2)]
  let ?doc = "\<lambda>vms. JObj [(''@context'', JList [JStr ''https://www.w3.org/ns/did/v1'']), (''id'', JStr ?did),
     (''verificationMethod'', JList (map JObj vms)), (''assertionMethod'', JList [JStr (?did @ ''#key-2'')])]"
  have docs: "parse_did_document rotating_scen ?did [new] (Some [old]) = Inr (?doc [old, new])"
    "parse_did_document rotating_scen ?did [new] None = Inr (?doc [new])"
    using did_document_lifecycle[of "[old]" "[new]" "[JStr (?did @ ''#key-2'')]" "float_repr (sn_env rotating_scen)" ?did]
      did_document_lifecycle[of "[]" "[new]" "[JStr (?did @ ''#key-2'')]" "float_repr (sn_env rotating_scen)" ?did] plain
    by (auto simp: parse_did_document_def small_sdk_eqs did_document_def did_document_value_def)
  have keys: "receipt_key rotating_scen (?doc vms) (JStr kid) alg =
      (if list_ex (\<lambda>vm. map_of vm ''id'' = Some (JStr kid)) vms
       then Inr (JObj [(''public_key_b64'', JStr (if kid = ?did @ ''#key-2'' then ''AwQF'' else ''AAEC'')),
              (''historical'', JStr (if kid = ?did @ ''#key-2'' then ''false'' else ''true''))]) else Inl DidResolutionError)" for vms kid alg
    by (auto simp: receipt_key_def rotating_scen_def small_sdk_def obj_get_def dict_get_default_def list_ex_iff Let_def split: option.splits)
  have ids: "map_of old ''id'' = Some (JStr (?did @ ''#key-1''))" "map_of new ''id'' = Some (JStr (?did @ ''#key-2''))" using plain by simp_all
  have req: "json_loads signed_text = Inr (JObj [(''content_hash'', JStr ''sha256:1''), (''signature'', JObj [(''value'', JStr ''s'')])])"
    unfolding signed_text_def by (rule json_roundtrip) simp
  note find = keys[of "[old, new]", simplified] keys[of "[new]", simplified]
  show ?thesis
    by (simp add: s24_offline_def rotating_keys_def Let_def vm req docs small_sdk_eqs expect_rejection_def run_guarded_def SDK_REJECTIONS_def
        historically_authorized_def json_get_attr_def dict_get_default_def find ids catches_def HistoricalAuthFailed_def is_HistoricalAuthFailed_def
        s24_core_ok_def)
qed

theorem s24_complete_means_witness:
  "\<exists>st' r. s24_run rotating_scen demo_spec demo_rst = (st', Inr r) \<and> rr_status r = ''complete''
     \<and> (\<exists>k retained removed. s24_documents rotating_scen k retained removed
          \<and> list_all (\<lambda>kid. \<forall>resolved key. \<not> resolves_to rotating_scen removed (hk_fp_v1 k) kid resolved key) (hk_kids k))"
proof -
  let ?sn = rotating_scen and ?title = "input_text rotating_scen demo_spec ''topic'' ''long-lived provenance record'' @ '' '' @ em_dash @ '' pre-rotation''"
  obtain raw c where off: "s24_offline ?sn rotating_keys ?title = Inr (raw, c)" and ok: "truthy (s24_core_ok c)" using rotating_offline by blast
  have "\<exists>cl s'. anonymous_client ?sn rid Registry_A None tenant_mode.Fallback s = (s', Inr cl)" for rid s
    by (auto simp: anonymous_client_def bundle_client_def Let_def new_client_def reject_reserved_tenant_def is_reserved_tenant_def split: option.split)
  then obtain cl after_cl where cl: "anonymous_client ?sn rid Registry_A None tenant_mode.Fallback s = (after_cl rid s, Inr (cl rid s))" for rid s by metis
  have "\<exists>pub. receipt_pub ?sn = Inr pub"
    using demo_receipt_pub[of "\<lambda>rq. Inl HTTPError"]
    by (auto simp: receipt_pub_def rotating_scen_def demo_scen_def receipt_verification_public_key_b64_def default_settings_def rbind_eq_Inr)
  then obtain pub where pub: "receipt_pub ?sn = Inr pub" by blast
  let ?steps = "\<lambda>s. run_steps [s24_publish ?sn demo_spec (cl (sp_run_id demo_spec) s) rotating_keys ?title raw,
      s24_retrieve ?sn demo_spec (cl (sp_run_id demo_spec) s) rotating_keys pub] s24_start (after_cl (sp_run_id demo_spec) s)"
  obtain s1 where told: "tell ?sn demo_spec ''acdp.verify'' (Some (hk_did rotating_keys)) ''Historical key verification''
      (''historically_authorized='' @ str_json (je ?sn) (hc_authorized c) @ '' (historical='' @ py_bool (hc_historical c)
        @ ''); stripped_fail_closed='' @ py_bool (hc_stripped c) @ ''; removed_key_fail_closed='' @ py_bool (hc_removed c)) demo_rst = (s1, Inr ())"
    by (simp add: tell_def mbind_def mnow_def mget_def mput_def)
  obtain st' res where run: "s24_run ?sn demo_spec demo_rst = (st', res)" by (metis prod.collapse)
  have "is_Exception e" if "res = Inl e" for e
    using quiet_actD(2)[OF quietlyD(1)[OF s24.kept[OF civil_rotating]] civil_demo_rst] run that by blast
  moreover have "(\<exists>r. res = Inr r \<and> rr_status r = ''complete'') \<or> (\<exists>s2 e. ?steps s1 = (s2, Inl e) \<and> res = Inl e)"
    using run[symmetric] ok
    by (cases "?steps s1"; cases "snd (?steps s1)")
       (simp_all add: s24_run_def Let_def mbind_def mlift_def rotating_make_keys off told cl pub mret_def del: append.simps run_steps.simps)
  ultimately obtain r where r: "res = Inr r" "rr_status r = ''complete''" using run_steps_Inl by fastforce
  from s24_complete_means[OF small_sdk_own(1) run[unfolded r(1)] r(2)] run r show ?thesis by blast
qed

end
