(* ===== verification/Anchor_Verdicts.thy ===== *)
theory Anchor_Verdicts
  imports Scenarios_Embedded Trust_Verdicts
begin

text \<open>
  What the verdict of the anchors scenario means. The trap of the scenario replaces \<^verbatim>\<open>socket.getaddrinfo\<close>, so what it can see, and what is said
  here, is a look-up of the anchors' host through Python's socket module.
\<close>

text \<open>A call of the SDK on one text that did not ask for the host the anchors name, and its outcome.\<close>

definition unfollowed :: "'w scen_env \<Rightarrow> string \<Rightarrow> string \<Rightarrow> json result \<Rightarrow> bool" where
  "unfollowed sn f text r \<longleftrightarrow>
     ''anchor-must-not-be-dereferenced.invalid.acdp-playground.test'' \<notin> set (sdk_hosts sn f [JStr text]) \<and> sdk_fun sn f [JStr text] = r"

lemma dns_trap_Inr: "dns_trap sn f [JStr text] = Inr v \<longleftrightarrow> unfollowed sn f text (Inr v)"
  by (simp add: dns_trap_def unfollowed_def POISON_HOST_def)

lemma dns_trap_rejected:
  "dns_trap sn f [JStr text] = Inl e \<and> SDK_REJECTIONS e \<longleftrightarrow> unfollowed sn f text (Inl e) \<and> SDK_REJECTIONS e"
  by (auto simp: dns_trap_def unfollowed_def POISON_HOST_def SDK_REJECTIONS_def)

section \<open>The offline half\<close>

text \<open>The request with an anchor of the given scheme, as the producer signs it; its URI lies on the poisoned host.\<close>

definition anchor_of :: "string \<Rightarrow> string \<Rightarrow> json" where
  "anchor_of scheme seed =
     JObj [(''scheme'', JStr scheme), (''content_hash'', JStr (''sha256:'' @ hexdigest (sha256 (utf8_encode seed)))),
           (''uri'', JStr (''https://anchor-must-not-be-dereferenced.invalid.acdp-playground.test/'' @ scheme @ ''/'' @ seed))]"

definition anchors_verified :: "'w scen_env \<Rightarrow> producer \<Rightarrow> json \<Rightarrow> bool" where
  "anchors_verified sn p topic \<longleftrightarrow> (\<exists>raw raw5 j tampered v v5 e.
     anchored_request sn p topic ''Well-formed anchors entry, recognized scheme (anc-001).'' (anchor_of ''macp.commitment'' ''settlement-finalized'') = Inr raw
     \<and> anchored_request sn p (JStr (str_json (je sn) topic @ '' (scheme-unaware)'')) ''Anchor with a scheme this verifier does not recognize (anc-005).''
         (anchor_of ''a-scheme.this-verifier.does-not-recognize'' ''opaque-external-claim'') = Inr raw5
     \<and> unfollowed sn ''AcdpVerifier.verify_publish_request_offline'' raw (Inr v) \<and> truthy v
     \<and> unfollowed sn ''AcdpVerifier.verify_publish_request_offline'' raw5 (Inr v5) \<and> truthy v5
     \<and> json_loads raw = Inr j
     \<and> json_set_at j [Key ''anchors'', Pos 0, Key ''content_hash''] (JStr (''sha256:'' @ replicate 64 CHR ''0'')) = Inr tampered
     \<and> unfollowed sn ''AcdpVerifier.verify_publish_request_offline'' (dumps sn tampered) (Inl e) \<and> SDK_REJECTIONS e)"

lemma anchor_of_eq: "anchor scheme seed = anchor_of scheme seed"
  by (simp add: anchor_def anchor_of_def POISON_HOST_def)

lemma expect_rejection_fst: "expect_rejection str allow call = Inr (b, why) \<Longrightarrow> b \<longleftrightarrow> (\<exists>e. call = Inl e \<and> allow e)"
  by (auto simp: expect_rejection_def run_guarded_def rbind_eq_Inr split: sum.splits if_splits)

lemma s33_offline_verdict:
  assumes "s33_offline sn p topic = Inr (raw, v, v5, rejected)"
  shows "truthy v \<and> truthy v5 \<and> rejected \<longleftrightarrow> anchors_verified sn p topic"
proof -
  let ?f = "''AcdpVerifier.verify_publish_request_offline''"
  from assms obtain raw5 j tampered why where
    parts: "anchored_request sn p topic ''Well-formed anchors entry, recognized scheme (anc-001).'' (anchor_of ''macp.commitment'' ''settlement-finalized'') = Inr raw"
      "anchored_request sn p (JStr (str_json (je sn) topic @ '' (scheme-unaware)'')) ''Anchor with a scheme this verifier does not recognize (anc-005).''
         (anchor_of ''a-scheme.this-verifier.does-not-recognize'' ''opaque-external-claim'') = Inr raw5"
      "unfollowed sn ?f raw (Inr v)" "unfollowed sn ?f raw5 (Inr v5)" "json_loads raw = Inr j"
      "json_set_at j [Key ''anchors'', Pos 0, Key ''content_hash''] (JStr (''sha256:'' @ replicate 64 CHR ''0'')) = Inr tampered"
    and third: "expect_rejection (et_str (sn_texts sn)) SDK_REJECTIONS (dns_trap sn ?f [JStr (dumps sn tampered)]) = Inr (rejected, why)"
    unfolding s33_offline_def rbind_eq_Inr dns_trap_Inr anchor_known_def anchor_of_eq KNOWN_SCHEME_def UNKNOWN_SCHEME_def
    by (auto simp del: json_set_at.simps replicate.simps append.simps)
  have "rejected \<longleftrightarrow> (\<exists>e. unfollowed sn ?f (dumps sn tampered) (Inl e) \<and> SDK_REJECTIONS e)"
    unfolding expect_rejection_fst[OF third] dns_trap_rejected ..
  with parts show ?thesis unfolding anchors_verified_def unfollowed_def by (metis Inr_inject)
qed

section \<open>The live half\<close>

definition serves :: "'w scen_env \<Rightarrow> client \<Rightarrow> string \<Rightarrow> json \<Rightarrow> bool" where
  "serves sn cl c body \<longleftrightarrow> (\<exists>s s' full. mcall (retrieve_raw (sn_env sn) (sn_client sn) cl c None) s = (s', Inr full) \<and> json_index full ''body'' = Inr body)"

text \<open>
  What a live half without a blemish showed: the served first version carries the very anchor and was verified without following it, the second
  version inherited the anchor, and the third has none.
\<close>

definition anchors_lived :: "'w scen_env \<Rightarrow> client \<Rightarrow> string \<Rightarrow> string \<Rightarrow> string \<Rightarrow> bool" where
  "anchors_lived sn cl c1 c2 c3 \<longleftrightarrow> (\<exists>b1 b2 b3 v a. serves sn cl c1 b1 \<and> serves sn cl c2 b2 \<and> serves sn cl c3 b3
     \<and> unfollowed sn ''AcdpVerifier.verify_body_offline'' (dumps sn b1) (Inr v) \<and> truthy v
     \<and> tells b1 ''anchors'' (JList [anchor_of ''macp.commitment'' ''settlement-finalized'']) = Inr True
     \<and> tells b2 ''anchors'' (JList [anchor_of ''macp.commitment'' ''settlement-finalized'']) = Inr True
     \<and> json_get_attr b3 ''anchors'' JNull = Inr a \<and> \<not> truthy a)"

lemma s33_before_last:
  assumes "f \<in> set [s33_publish sn cl raw, s33_tell sn spec p topic, s33_retrieve sn cl, s33_supersede sn cl p title, s33_carried sn cl, s33_clear sn cl p title]"
    "\<not> xl_clear l"
  shows "returns (\<lambda>l'. \<not> xl_clear l') (f l)"
  using assms by (auto simp: s33_publish_def s33_tell_def s33_retrieve_def s33_supersede_def s33_carried_def s33_clear_def returns_def mbind_Inr)

lemma served_body_serves: "served_body_of sn cl (Some c) s = (s', Inr body) \<Longrightarrow> serves sn cl c body"
  by (auto simp: served_body_of_def serves_def mbind_Inr mlift_Inr simp del: mlift_iff)

lemma s33_retrieve_step:
  assumes "s33_retrieve sn cl l s = (s', Inr l')" "truthy (xl_match l')" "xl_ctx1 l = Some c"
  shows "\<exists>b v. serves sn cl c b \<and> unfollowed sn ''AcdpVerifier.verify_body_offline'' (dumps sn b) (Inr v) \<and> truthy v
    \<and> tells b ''anchors'' (JList [anchor_of ''macp.commitment'' ''settlement-finalized'']) = Inr True"
proof -
  from assms(1,3) obtain s1 b v m where "served_body_of sn cl (Some c) s = (s1, Inr b)" and v: "unfollowed sn ''AcdpVerifier.verify_body_offline'' (dumps sn b) (Inr v)"
    and m: "(if truthy v then rbind (tells b ''anchors'' (JList [anchor_known])) (\<lambda>x. Inr (JBool x)) else Inr v) = Inr m" "xl_match l' = m"
    by (auto simp: s33_retrieve_def mbind_Inr mlift_Inr dns_trap_Inr simp del: mlift_iff)
  moreover have "truthy v \<and> tells b ''anchors'' (JList [anchor_of ''macp.commitment'' ''settlement-finalized'']) = Inr True"
    using m(1) assms(2)[unfolded m(2)] by (auto simp: rbind_eq_Inr anchor_known_def anchor_of_eq KNOWN_SCHEME_def split: if_splits)
  ultimately show ?thesis using served_body_serves by blast
qed

lemma s33_carried_step:
  assumes "s33_carried sn cl l s = (s', Inr l')" "xl_carry l'" "xl_ctx2 l = Some c"
  shows "\<exists>b. serves sn cl c b \<and> tells b ''anchors'' (JList [anchor_of ''macp.commitment'' ''settlement-finalized'']) = Inr True"
proof -
  from assms obtain s1 b where "served_body_of sn cl (Some c) s = (s1, Inr b)" "tells b ''anchors'' (JList [anchor_known]) = Inr True"
    by (auto simp: s33_carried_def mbind_Inr mlift_Inr simp del: mlift_iff)
  then show ?thesis using served_body_serves unfolding anchor_known_def anchor_of_eq KNOWN_SCHEME_def by blast
qed

lemma s33_cleared_step:
  assumes "s33_cleared sn spec cl p l s = (s', Inr l')" "xl_clear l'" "xl_ctx3 l = Some c"
  shows "\<exists>b a. serves sn cl c b \<and> json_get_attr b ''anchors'' JNull = Inr a \<and> \<not> truthy a"
proof -
  from assms obtain s1 b a where "served_body_of sn cl (Some c) s = (s1, Inr b)" "json_get_attr b ''anchors'' JNull = Inr a" "\<not> truthy a"
    by (auto simp: s33_cleared_def mbind_Inr mlift_Inr simp del: mlift_iff)
  then show ?thesis using served_body_serves by blast
qed

lemma s33_lived:
  assumes "run_steps (s33_steps sn spec cl p topic raw) s33_start st = (st', Inr (l, err))" "truthy (xl_match l)" "xl_carry l" "xl_clear l"
  shows "\<exists>c1 c2 c3. xl_ctx1 l = Some c1 \<and> xl_ctx2 l = Some c2 \<and> xl_ctx3 l = Some c3 \<and> anchors_lived sn cl c1 c2 c3"
proof -
  have split: "s33_steps sn spec cl p topic raw = [s33_publish sn cl raw, s33_tell sn spec p topic, s33_retrieve sn cl,
      s33_supersede sn cl p (str_json (je sn) topic), s33_carried sn cl, s33_clear sn cl p (str_json (je sn) topic)] @ [s33_cleared sn spec cl p]"
    by (simp add: s33_steps_def Let_def)
  have "run_steps (s33_steps sn spec cl p topic raw) s33_start st = (st', Inr (l, None))"
    unfolding split
    by (rule run_steps_reached[OF assms(1)[unfolded split], where Q = xl_clear]) (use assms(4) in \<open>auto simp: s33_start_def intro: s33_before_last\<close>)
  then obtain l1 l2 l3 l4 l5 l6 t0 t1 t2 t3 t4 t5 t6 where steps: "s33_publish sn cl raw s33_start t0 = (t1, Inr l1)" "s33_tell sn spec p topic l1 t1 = (t2, Inr l2)"
      "s33_retrieve sn cl l2 t2 = (t3, Inr l3)" "s33_supersede sn cl p (str_json (je sn) topic) l3 t3 = (t4, Inr l4)"
      "s33_carried sn cl l4 t4 = (t5, Inr l5)" "s33_clear sn cl p (str_json (je sn) topic) l5 t5 = (t6, Inr l6)"
      "s33_cleared sn spec cl p l6 t6 = (st', Inr l)"
    unfolding s33_steps_def Let_def run_steps_all by blast
  obtain c1 c2 c3 where ids: "xl_ctx1 l = Some c1" "xl_ctx1 l2 = Some c1" "xl_ctx2 l = Some c2" "xl_ctx2 l4 = Some c2" "xl_ctx3 l = Some c3" "xl_ctx3 l6 = Some c3"
    and kept: "xl_match l = xl_match l3" "xl_carry l = xl_carry l5"
    using steps by (auto simp: s33_publish_def s33_tell_def s33_retrieve_def s33_supersede_def s33_carried_def s33_clear_def s33_cleared_def mbind_Inr)
  from s33_retrieve_step[OF steps(3)] s33_carried_step[OF steps(5)] s33_cleared_step[OF steps(7)] assms(2-4) ids kept
  show ?thesis unfolding anchors_lived_def by auto blast
qed

text \<open>
  C37. The verdict of S33, exactly, and what it leaves out. A run that returns is complete if and only if the SDK accepted the request with an anchor of
  a known scheme and the one with an unknown scheme, and refused the first with its anchor's hash replaced, and in none of these three calls looked
  up the host of the anchors' URIs through Python's socket module. The live half has no say in the status, so a look-up there leaves the run complete: it
  shows only as degraded. A run that is not degraded has in addition published three versions, of which the registry served the first with the very
  anchor, verified by the SDK again without a look-up, the second with the anchor carried forward, and the third without anchors.
\<close>

theorem s33_verdict_exact:
  assumes "s33_run sn spec st = (st', Inr r)"
  shows "\<exists>p. from_seed_did_key sn (agent_seed spec ''anchor-producer'') = Inr p
    \<and> (rr_status r = ''complete'' \<longleftrightarrow>
         anchors_verified sn p (dict_get_default (sp_inputs spec) ''topic'' (JStr ''anchored settlement snapshot'')))
    \<and> (map_of (rr_summary r) ''degraded'' = None \<longrightarrow>
         (\<exists>cl c1 c2 c3 s s'. anonymous_client sn (sp_run_id spec) Registry_A None tenant_mode.Fallback s = (s', Inr cl)
            \<and> rr_contexts r = known [Some c1, Some c2, Some c3] \<and> anchors_lived sn cl c1 c2 c3))"
proof -
  let ?topic = "dict_get_default (sp_inputs spec) ''topic'' (JStr ''anchored settlement snapshot'')"
  from assms obtain p raw v v5 rejected cl s0 s1 s2 s3 l err where run: "from_seed_did_key sn (agent_seed spec ''anchor-producer'') = Inr p"
      "s33_offline sn p ?topic = Inr (raw, v, v5, rejected)"
      "run_steps (s33_steps sn spec cl p ?topic raw) s33_start s1 = (s2, Inr (l, err))"
    and client: "anonymous_client sn (sp_run_id spec) Registry_A None tenant_mode.Fallback s0 = (s3, Inr cl)"
    and r: "rr_status r = (if truthy v \<and> truthy v5 \<and> rejected then ''complete'' else ''failed'')"
      "rr_summary r = s33_summary sn v v5 rejected (l, err)" "rr_contexts r = known [xl_ctx1 l, xl_ctx2 l, xl_ctx3 l]"
    by (auto simp: s33_run_def Let_def mbind_Inr mlift_Inr simp del: mlift_iff append.simps version_nodes.simps version_edges.simps)
  have "rr_status r = ''complete'' \<longleftrightarrow> anchors_verified sn p ?topic" using r(1) s33_offline_verdict[OF run(2)] by simp
  moreover have "\<exists>c1 c2 c3. rr_contexts r = known [Some c1, Some c2, Some c3] \<and> anchors_lived sn cl c1 c2 c3"
    if "map_of (rr_summary r) ''degraded'' = None"
  proof -
    have "truthy (xl_match l)" "xl_carry l" "xl_clear l" using that r(2) by (auto simp: s33_summary_def Let_def split: if_splits)
    from s33_lived[OF run(3) this] r(3) show ?thesis by metis
  qed
  ultimately show ?thesis using run(1) client by (intro exI[of _ p]) blast
qed

text \<open>An SDK that accepts one text, which the producer signs for every request.\<close>

definition anchored :: json where
  "anchored = JObj [(''anchors'', JList [JObj [(''content_hash'', JStr ''h'')]])]"

definition anchored_text :: string where
  "anchored_text = json_dumps (\<lambda>f. []) anchored"

definition anchored_scen :: "unit scen_env" where
  "anchored_scen = (demo_scen (\<lambda>rq. Inl HTTPError))\<lparr>
     sdk_fun := (\<lambda>f xs. if xs = [JStr anchored_text] then Inr (JBool True) else Inl ValueError),
     from_seed_did_key := (\<lambda>s. Inr (demo_producer\<lparr>build_publish_request := (\<lambda>kw. Inr anchored_text)\<rparr>))\<rparr>"

lemma civil_anchored: "civil_scen anchored_scen"
  using civil_demo_scen[of "\<lambda>rq. Inl HTTPError"]
  by (simp add: civil_scen_def anchored_scen_def civil_producer_def demo_producer_def)

lemma version_nodes_total: "list_all (\<lambda>ct. node_title (snd ct) = Inr (f ct)) cts \<Longrightarrow> \<exists>ns. version_nodes did authority i cts = Inr ns"
proof (induction cts arbitrary: i)
  case (Cons ct cts)
  obtain ns where "version_nodes did authority (i + 1) cts = Inr ns" using Cons by auto
  with Cons.prems show ?case by (cases ct) (auto split: option.split)
qed simp

lemma anchored_offline:
  "s33_offline anchored_scen (demo_producer\<lparr>build_publish_request := (\<lambda>kw. Inr anchored_text)\<rparr>) topic = Inr (anchored_text, JBool True, JBool True, True)"
proof -
  let ?zeros = "''sha256:'' @ replicate 64 CHR ''0''"
  let ?other = "JObj [(''anchors'', JList [JObj [(''content_hash'', JStr ?zeros)]])]"
  have loads: "json_loads anchored_text = Inr anchored" unfolding anchored_text_def by (rule json_roundtrip) (simp add: anchored_def)
  have "json_loads (json_dumps (\<lambda>f. []) ?other) = Inr ?other" by (rule json_roundtrip) simp
  with loads have other: "json_dumps (\<lambda>f. []) ?other \<noteq> anchored_text" by (auto simp: anchored_def)
  have set: "json_set_at anchored [Key ''anchors'', Pos 0, Key ''content_hash''] (JStr ?zeros) = Inr ?other" by (simp add: anchored_def)
  have sn: "dumps anchored_scen = json_dumps (\<lambda>f. [])" by (simp add: anchored_scen_def demo_scen_def stub_env_def)
  have sdk: "dns_trap anchored_scen f xs = (if xs = [JStr anchored_text] then Inr (JBool True) else Inl ValueError)" for f xs
    by (simp add: dns_trap_def anchored_scen_def demo_scen_def)
  show ?thesis
    by (simp add: s33_offline_def anchored_request_def loads set sn sdk other expect_rejection_def run_guarded_def SDK_REJECTIONS_def
        del: json_set_at.simps json_dumps.simps append.simps)
qed

theorem s33_verdict_exact_witness:
  "\<exists>st' r. s33_run anchored_scen demo_spec demo_rst = (st', Inr r) \<and> rr_status r = ''complete''
     \<and> anchors_verified anchored_scen (demo_producer\<lparr>build_publish_request := (\<lambda>kw. Inr anchored_text)\<rparr>) (JStr ''anchored settlement snapshot'')"
proof -
  let ?sn = anchored_scen and ?p = "demo_producer\<lparr>build_publish_request := (\<lambda>kw. Inr anchored_text)\<rparr>"
  have seed: "from_seed_did_key ?sn s = Inr ?p" for s by (simp add: anchored_scen_def)
  have topic: "dict_get_default (sp_inputs demo_spec) ''topic'' (JStr t) = JStr t" for t by (simp add: demo_spec_def dict_get_default_def)
  have "\<exists>cl s'. anonymous_client ?sn rid Registry_A None tenant_mode.Fallback s = (s', Inr cl)" for rid s
    by (auto simp: anonymous_client_def bundle_client_def Let_def new_client_def reject_reserved_tenant_def is_reserved_tenant_def split: option.split)
  then obtain cl after_cl where cl: "anonymous_client ?sn rid Registry_A None tenant_mode.Fallback s = (after_cl rid s, Inr (cl rid s))" for rid s by metis
  have "\<exists>s'. tell ?sn demo_spec ty a t m s = (s', Inr ())" for ty a t m s by (simp add: tell_def mbind_def mnow_def mget_def mput_def)
  then obtain told where told: "tell ?sn demo_spec ty a t m s = (told ty a t m s, Inr ())" for ty a t m s by metis
  have "\<exists>ns. version_nodes did au 1 [(c1, JStr t1), (c2, JStr t2), (c3, JStr t3)] = Inr ns" for did au c1 t1 c2 t2 c3 t3
    by (rule version_nodes_total[where f = "\<lambda>ct. case snd ct of JStr t \<Rightarrow> t"]) (simp add: node_title_def)
  then obtain ns where nodes: "version_nodes did au 1 [(c1, JStr t1), (c2, JStr t2), (c3, JStr t3)] = Inr (ns did au c1 t1 c2 t2 c3 t3)"
    for did au c1 t1 c2 t2 c3 t3 by metis
  obtain st' res where run: "s33_run ?sn demo_spec demo_rst = (st', res)" by (metis prod.collapse)
  have "is_Exception e" if "res = Inl e" for e
    using quiet_actD(2)[OF quietlyD(1)[OF s33.kept[OF civil_anchored]] civil_demo_rst] run that by blast
  moreover have "(\<exists>r. res = Inr r \<and> rr_status r = ''complete'') \<or> (\<exists>fs (s1 :: unit rst) s2 e. run_steps fs s33_start s1 = (s2, Inl e) \<and> res = Inl e)"
    using run
    by (auto simp: s33_run_def Let_def mbind_def mlift_def seed topic anchored_offline cl told nodes mret_def simp del: append.simps run_steps.simps
          version_nodes.simps version_edges.simps split: prod.splits sum.splits)
  ultimately obtain r where r: "res = Inr r" "rr_status r = ''complete''" using run_steps_Inl by fastforce
  from s33_verdict_exact[OF run[unfolded r(1)]] r(2) seed topic have "anchors_verified ?sn ?p (JStr ''anchored settlement snapshot'')" by simp
  with run r show ?thesis by blast
qed

end
