(* ===== verification/A2a_Holder.thy ===== *)
theory A2a_Holder
  imports Verdict_Kit
begin

text \<open>
  The client side of the A2A demonstration (a2a/acdp\_a2a\_demo/client.py): the dataset it publishes, the attacker on the path that edits
  one part of an answer, and the holder that verifies an artifact against the body its link names. The independent verifier
  and its errors, the A2A library and the clock are parameters.
\<close>

section \<open>The surroundings\<close>

definition LINK_KEY :: string where
  "LINK_KEY = ''io.agentcontextdistributionprotocol/provenance''"

text \<open>What the verifier raises: a mismatch with its step and reason, or another exception.\<close>

datatype fault = ArtifactMismatch int string | Fault exn

text \<open>
  \<open>verify_artifact\<close> takes the body, the artifact, the trusted agents, the Card's extensions, the ids of task and context, the registry
  state and the evidence; \<open>result_status\<close> is the status of its result.
\<close>

record 'w a2a_env =
  a2_http :: "'w env"
  a2_client :: client_env
  a2_sdk :: sdk
  a2_now_ms :: "'w \<Rightarrow> string"
  verify_artifact :: "json \<Rightarrow> json \<Rightarrow> string list \<Rightarrow> json \<Rightarrow> json \<Rightarrow> json \<Rightarrow> json \<Rightarrow> json \<Rightarrow> fault + json"
  artifact_status :: "string \<Rightarrow> json \<Rightarrow> json \<Rightarrow> json \<Rightarrow> json result"
  result_status :: "json \<Rightarrow> json"
  is_AcdpError :: "exn \<Rightarrow> bool"
  fault_text :: "fault \<Rightarrow> string"
  exn_name :: "exn \<Rightarrow> string"

definition PermissionError :: exn where
  "PermissionError = OtherException ''PermissionError''"

definition ctx_authority :: "string \<Rightarrow> string" where
  "ctx_authority ctx_id = fst (py_partition ''/'' (py_removeprefix ctx_id ''acdp://''))"

section \<open>Inputs\<close>

definition dataset_refs :: "string \<Rightarrow> json \<Rightarrow> json" where
  "dataset_refs canonical content =
     JList [JObj [(''type'', JStr ''primary_result''), (''format'', JStr ''json''),
        (''embedded'', JObj [(''encoding'', JStr ''json''), (''content'', content)]),
        (''content_hash'', JStr (''sha256:'' @ hexdigest (sha256 (utf8_encode canonical))))]]"

definition publish_dataset :: "'w a2a_env \<Rightarrow> client \<Rightarrow> producer \<Rightarrow> string \<Rightarrow> json list \<Rightarrow> ('w, string) call" where
  "publish_dataset a registry owner station readings =
     (let fr = float_repr (a2_http a);
          content = JObj [(''station'', JStr station), (''unit'', JStr ''celsius''), (''readings'', JList readings)] in
      abind (alift (canonicalize (a2_sdk a) (json_dumps fr content))) (\<lambda>canonical.
      abind (alift (build_publish_request owner
               [(''title'', JStr (station @ '' readings'')), (''context_type'', JStr ''data_snapshot''), (''visibility'', JStr ''public''),
                (''domain'', JStr ''sensors.demo''), (''tags'', JList [JStr ''a2a-demo-input'']),
                (''data_refs'', JStr (json_dumps fr (dataset_refs canonical content)))])) (\<lambda>request.
      abind (publish_context (a2_http a) (a2_client a) registry request None) (\<lambda>resp.
      areturn (pr_ctx_id resp)))))"

section \<open>The attacker on the path\<close>

text \<open>\<^verbatim>\<open>s.replace(old, new, 1)\<close> for a non-empty \<open>old\<close>.\<close>

definition replace_first :: "string \<Rightarrow> string \<Rightarrow> string \<Rightarrow> string" where
  "replace_first old new s = (case py_partition old s of (a, True, b) \<Rightarrow> a @ new @ b | (a, False, b) \<Rightarrow> s)"

definition tampered_text :: "string \<Rightarrow> string" where
  "tampered_text s = replace_first ''mean'' ''mean (adjusted)'' s @ '' [edited]''"

text \<open>A loop that stops at the first element it changes, over a list or a decoded value (which may be missing or empty).\<close>

fun first_change :: "('a \<Rightarrow> (bool \<times> 'a) result) \<Rightarrow> 'a list \<Rightarrow> (bool \<times> 'a list) result" where
  "first_change f [] = Inr (False, [])"
| "first_change f (x # xs) =
     rbind (f x) (\<lambda>(b, y). if b then Inr (True, y # xs) else rbind (first_change f xs) (\<lambda>(c, ys). Inr (c, x # ys)))"

definition change_in :: "(json \<Rightarrow> (bool \<times> json) result) \<Rightarrow> string \<Rightarrow> obj \<Rightarrow> (bool \<times> obj) result" where
  "change_in f k kvs =
     (case map_of kvs k of
        None \<Rightarrow> Inr (False, kvs)
      | Some v \<Rightarrow>
          if \<not> truthy v then Inr (False, kvs)
          else case v of
            JList xs \<Rightarrow> rbind (first_change f xs) (\<lambda>(b, ys). Inr (b, if b then AList.update k (JList ys) kvs else kvs))
          | JObj _ \<Rightarrow> Inl AttributeError
          | JStr _ \<Rightarrow> Inl AttributeError
          | _ \<Rightarrow> Inl TypeError)"

definition tamper_part :: "json \<Rightarrow> (bool \<times> json) result" where
  "tamper_part part =
     (case part of
        JObj kvs \<Rightarrow>
          (case map_of kvs ''text'' of
             Some (JStr t) \<Rightarrow> Inr (True, JObj (AList.update ''text'' (JStr (tampered_text t)) kvs))
           | _ \<Rightarrow> Inr (False, part))
      | _ \<Rightarrow> Inl AttributeError)"

definition tamper_artifact :: "json \<Rightarrow> (bool \<times> json) result" where
  "tamper_artifact artifact =
     (case artifact of
        JObj kvs \<Rightarrow> rbind (change_in tamper_part ''parts'' kvs) (\<lambda>(b, kws). Inr (b, JObj kws))
      | _ \<Rightarrow> Inl AttributeError)"

fun tamper_first_text_part :: "json \<Rightarrow> (bool \<times> json) result"
  and tamper_values :: "obj \<Rightarrow> (bool \<times> obj) result"
  and tamper_list :: "json list \<Rightarrow> (bool \<times> json list) result" where
  "tamper_first_text_part (JObj kvs) =
     rbind (change_in tamper_artifact ''artifacts'' kvs) (\<lambda>(b, kws).
       if b then Inr (True, JObj kws) else rbind (tamper_values kvs) (\<lambda>(c, kws). Inr (c, JObj kws)))"
| "tamper_first_text_part (JList xs) = rbind (tamper_list xs) (\<lambda>(b, ys). Inr (b, JList ys))"
| "tamper_first_text_part doc = Inr (False, doc)"
| "tamper_values [] = Inr (False, [])"
| "tamper_values ((k, v) # kvs) =
     rbind (tamper_first_text_part v) (\<lambda>(b, w).
       if b then Inr (True, (k, w) # kvs) else rbind (tamper_values kvs) (\<lambda>(c, kws). Inr (c, (k, v) # kws)))"
| "tamper_list [] = Inr (False, [])"
| "tamper_list (x # xs) =
     rbind (tamper_first_text_part x) (\<lambda>(b, y).
       if b then Inr (True, y # xs) else rbind (tamper_list xs) (\<lambda>(c, ys). Inr (c, x # ys)))"

section \<open>The holder\<close>

record holder =
  ho_registries :: "(string, string) dict"
  ho_trusted :: "string list"

record verdict_record =
  vd_ok :: bool
  vd_step :: "int option"
  vd_reason :: string
  vd_ctx_id :: json
  vd_detail :: string
  vd_result :: "json option"
  vd_status :: "json option"
  vd_body :: "json option"

definition holder_retrieve :: "'w a2a_env \<Rightarrow> holder \<Rightarrow> string \<Rightarrow> ('w, json) call" where
  "holder_retrieve a h ctx_id =
     (case map_of (ho_registries h) (ctx_authority ctx_id) of
        None \<Rightarrow> alift (Inl PermissionError)
      | Some base \<Rightarrow> retrieve_raw (a2_http a) (a2_client a) (plain_client base) ctx_id None)"

text \<open>The evidence bundle; the id of a body that was bound is a string.\<close>

definition evidence_from :: "string \<Rightarrow> json \<Rightarrow> json result" where
  "evidence_from now raw =
     rbind (json_index raw ''body'') (\<lambda>body.
     rbind (json_get_attr raw ''registry_state'' JNull) (\<lambda>s.
     rbind (json_get_attr (if truthy s then s else JObj []) ''lifecycle_events'' JNull) (\<lambda>events.
     rbind (json_index body ''ctx_id'') (\<lambda>c.
     case as_str c of
       None \<Rightarrow> Inl TypeError
     | Some ctx_id \<Rightarrow> Inr (JObj [(''evidence_version'', JStr ''acdp-evidence/1''), (''roots'', JList [c]), (''exported_at'', JStr now),
         (''contexts'', JObj [(ctx_id, JObj ([(''body'', body)] @ (if truthy events then [(''lifecycle_events'', events)] else [])))])])))))"

definition link_ctx_id :: "json \<Rightarrow> json result" where
  "link_ctx_id artifact =
     rbind (json_get_attr artifact ''metadata'' JNull) (\<lambda>m.
     rbind (json_get_attr (if truthy m then m else JObj []) LINK_KEY JNull) (\<lambda>link.
     Inr (case link of JObj kvs \<Rightarrow> obj_get kvs ''ctx_id'' | _ \<Rightarrow> JNull)))"

definition linked_body :: "'w a2a_env \<Rightarrow> holder \<Rightarrow> json \<Rightarrow> ('w, json) call" where
  "linked_body a h ctx_id =
     (if truthy ctx_id
      then (case as_str ctx_id of Some s \<Rightarrow> holder_retrieve a h s | None \<Rightarrow> alift (Inl AttributeError))
      else areturn (JObj [(''body'', JObj [])]))"

definition judge :: "'w a2a_env \<Rightarrow> holder \<Rightarrow> json \<Rightarrow> json \<Rightarrow> json \<Rightarrow> json \<Rightarrow> json \<Rightarrow> json \<Rightarrow> ('w, verdict_record) call" where
  "judge a h artifact exts task_id context_id ctx_id raw io tm =
     (io, tm,
      rbind (json_index raw ''body'') (\<lambda>body.
      rbind (json_get_attr raw ''registry_state'' JNull) (\<lambda>state.
      rbind (if truthy ctx_id then evidence_from (a2_now_ms a (world io)) raw else Inr JNull) (\<lambda>evidence.
      case verify_artifact a body artifact (ho_trusted h) exts task_id context_id state evidence of
        Inl (Fault e) \<Rightarrow> Inl e
      | Inl (ArtifactMismatch step reason) \<Rightarrow>
          Inr \<lparr>vd_ok = False, vd_step = Some step, vd_reason = reason, vd_ctx_id = ctx_id,
               vd_detail = fault_text a (ArtifactMismatch step reason), vd_result = None, vd_status = None, vd_body = None\<rparr>
      | Inr r \<Rightarrow>
          Inr \<lparr>vd_ok = True, vd_step = None, vd_reason = ''verified'', vd_ctx_id = ctx_id,
               vd_detail = ''all '' @ section_sign @ ''8 checks passed'', vd_result = Some r, vd_status = Some (result_status a r),
               vd_body = Some body\<rparr>))))"

definition holder_verify :: "'w a2a_env \<Rightarrow> holder \<Rightarrow> json \<Rightarrow> json \<Rightarrow> json \<Rightarrow> json \<Rightarrow> ('w, verdict_record) call" where
  "holder_verify a h artifact exts task_id context_id =
     abind (alift (link_ctx_id artifact)) (\<lambda>ctx_id io tm.
       case abind (linked_body a h ctx_id) (judge a h artifact exts task_id context_id ctx_id) io tm of
         (io', tm', Inl e) \<Rightarrow>
           (io', tm',
            if is_AcdpError a e \<or> e = PermissionError
            then Inr \<lparr>vd_ok = False, vd_step = None, vd_reason = exn_name a e, vd_ctx_id = ctx_id, vd_detail = fault_text a (Fault e),
                      vd_result = None, vd_status = None, vd_body = None\<rparr>
            else Inl e)
       | res \<Rightarrow> res)"

definition recheck_status :: "'w a2a_env \<Rightarrow> holder \<Rightarrow> string \<Rightarrow> ('w, json) call" where
  "recheck_status a h ctx_id =
     abind (holder_retrieve a h ctx_id) (\<lambda>raw io tm.
       (io, tm,
        rbind (json_get_attr raw ''registry_state'' JNull) (\<lambda>state.
        rbind (evidence_from (a2_now_ms a (world io)) raw) (\<lambda>evidence.
        rbind (json_index raw ''body'') (\<lambda>body.
        artifact_status a ctx_id state evidence body)))))"

section \<open>What the attacker changes\<close>

text \<open>One text somewhere in a document is replaced by its edited form, and nothing else.\<close>

inductive edited :: "json \<Rightarrow> json \<Rightarrow> bool" where
  here: "edited (JObj (pre @ (''text'', JStr t) # post)) (JObj (pre @ (''text'', JStr (tampered_text t)) # post))"
| in_list: "edited x y \<Longrightarrow> edited (JList (pre @ x # post)) (JList (pre @ y # post))"
| in_obj: "edited x y \<Longrightarrow> edited (JObj (pre @ (k, x) # post)) (JObj (pre @ (k, y) # post))"

lemma py_partition_length: "py_partition p s = (a, True, b) \<Longrightarrow> length s = length a + length p + length b"
  by (induction s arbitrary: a) (auto simp: py_startswith_def split: if_splits prod.splits dest: arg_cong[where f = length])

lemma tampered_text_longer: "length t < length (tampered_text t)"
  by (auto simp: tampered_text_def replace_first_def split: prod.splits bool.splits dest: py_partition_length)

lemma edited_differs: "edited x y \<Longrightarrow> x \<noteq> y"
proof (induction rule: edited.induct)
  case (here pre t post)
  have "t \<noteq> tampered_text t" using tampered_text_longer[of t] by auto
  then show ?case by simp
qed auto

lemma update_found:
  assumes "map_of kvs k = Some v"
  obtains pre post where "kvs = pre @ (k, v) # post" "AList.update k w kvs = pre @ (k, w) # post"
proof -
  from assms have "\<exists>pre post. kvs = pre @ (k, v) # post \<and> AList.update k w kvs = pre @ (k, w) # post"
  proof (induction kvs)
    case (Cons kv kvs)
    show ?case
    proof (cases "fst kv = k")
      case True
      with Cons.prems show ?thesis by (cases kv) (force intro: exI[of _ "[]"])
    next
      case False
      with Cons obtain pre post where "kvs = pre @ (k, v) # post" "AList.update k w kvs = pre @ (k, w) # post" by (cases kv) auto
      with False show ?thesis by (cases kv) (force intro: exI[of _ "kv # pre"])
    qed
  qed simp
  then show ?thesis using that by blast
qed

text \<open>What a function that may change a value does to it.\<close>

definition edits :: "json \<Rightarrow> bool \<Rightarrow> json \<Rightarrow> bool" where
  "edits x b y \<longleftrightarrow> (if b then edited x y else y = x)"

lemma first_change_edits:
  "(\<And>x b y. f x = Inr (b, y) \<Longrightarrow> edits x b y) \<Longrightarrow> first_change f xs = Inr (b, ys) \<Longrightarrow> edits (JList (pre @ xs)) b (JList (pre @ ys))"
proof (induction xs arbitrary: ys pre)
  case (Cons x xs)
  from Cons.prems(2) obtain c y where y: "f x = Inr (c, y)" by (auto simp: rbind_eq_Inr)
  show ?case
  proof (cases c)
    case True
    with Cons.prems y have "edited x y" "b" "ys = y # xs" by (auto simp: edits_def)
    then show ?thesis by (simp add: edits_def edited.in_list)
  next
    case False
    with Cons.prems y obtain zs where "first_change f xs = Inr (b, zs)" "ys = x # zs" by (auto simp: rbind_eq_Inr)
    with Cons.IH[OF Cons.prems(1), of zs "pre @ [x]"] show ?thesis by simp
  qed
qed (auto simp: edits_def)

lemma change_in_edits:
  assumes "\<And>x b y. f x = Inr (b, y) \<Longrightarrow> edits x b y" "change_in f k kvs = Inr (b, kws)"
  shows "edits (JObj kvs) b (JObj kws)"
proof (cases b)
  case True
  with assms(2) obtain xs ys where xs: "map_of kvs k = Some (JList xs)" "first_change f xs = Inr (True, ys)" "kws = AList.update k (JList ys) kvs"
    by (auto simp: change_in_def rbind_eq_Inr split: option.splits if_splits json.splits)
  have "edited (JList xs) (JList ys)" using first_change_edits[OF assms(1) xs(2), of "[]"] by (simp add: edits_def)
  moreover obtain pre post where "kvs = pre @ (k, JList xs) # post" "AList.update k (JList ys) kvs = pre @ (k, JList ys) # post"
    by (rule update_found[OF xs(1)])
  ultimately show ?thesis using True xs(3) by (simp add: edits_def edited.in_obj)
next
  case False
  then show ?thesis using assms(2) by (auto simp: change_in_def edits_def rbind_eq_Inr split: option.splits if_splits json.splits)
qed

lemma tamper_part_edits: "tamper_part x = Inr (b, y) \<Longrightarrow> edits x b y"
proof (cases x)
  case (JObj kvs)
  assume r: "tamper_part x = Inr (b, y)"
  show ?thesis
  proof (cases "\<exists>t. map_of kvs ''text'' = Some (JStr t)")
    case True
    then obtain t where t: "map_of kvs ''text'' = Some (JStr t)" by blast
    obtain pre post where "kvs = pre @ (''text'', JStr t) # post"
        "AList.update ''text'' (JStr (tampered_text t)) kvs = pre @ (''text'', JStr (tampered_text t)) # post"
      by (rule update_found[OF t])
    with r JObj t have "b" "x = JObj (pre @ (''text'', JStr t) # post)" "y = JObj (pre @ (''text'', JStr (tampered_text t)) # post)"
      by (auto simp: tamper_part_def)
    then show ?thesis by (simp add: edits_def edited.here)
  qed (use r JObj in \<open>auto simp: tamper_part_def edits_def split: option.splits json.splits\<close>)
qed (simp_all add: tamper_part_def)

lemma tamper_artifact_edits: "tamper_artifact x = Inr (b, y) \<Longrightarrow> edits x b y"
  using change_in_edits[OF tamper_part_edits] by (auto simp: tamper_artifact_def rbind_eq_Inr split: json.splits)

lemma tamper_edits:
  "tamper_first_text_part x = Inr (b, y) \<Longrightarrow> edits x b y"
  "tamper_values kvs = Inr (b, kws) \<Longrightarrow> edits (JObj (ps @ kvs)) b (JObj (ps @ kws))"
  "tamper_list xs = Inr (b, ys) \<Longrightarrow> edits (JList (pre @ xs)) b (JList (pre @ ys))"
proof (induction x and kvs and xs arbitrary: b y and b kws ps and b ys pre rule: tamper_first_text_part_tamper_values_tamper_list.induct)
  case (1 kvs)
  then obtain c kws where c: "change_in tamper_artifact ''artifacts'' kvs = Inr (c, kws)" by (auto simp: rbind_eq_Inr)
  show ?case
  proof (cases c)
    case True
    with 1 c change_in_edits[OF tamper_artifact_edits c] show ?thesis by (simp add: edits_def)
  next
    case False
    with 1 c obtain kws' where "tamper_values kvs = Inr (b, kws')" "y = JObj kws'" by (auto simp: rbind_eq_Inr)
    with 1(1)[of c b kws' "[]"] False show ?thesis by simp
  qed
next
  case (2 xs)
  then obtain ys where "tamper_list xs = Inr (b, ys)" "y = JList ys" by (auto simp: rbind_eq_Inr)
  with 2(1)[of b ys "[]"] show ?case by simp
next
  case (5 k v kvs)
  then obtain c w where c: "tamper_first_text_part v = Inr (c, w)" by (auto simp: rbind_eq_Inr)
  show ?case
  proof (cases c)
    case True
    with 5 c show ?thesis by (auto simp: edits_def intro: edited.in_obj)
  next
    case False
    with 5 c obtain kws' where "tamper_values kvs = Inr (b, kws')" "kws = (k, v) # kws'" by (auto simp: rbind_eq_Inr)
    with 5(2)[of c b kws' "ps @ [(k, v)]"] False show ?thesis by simp
  qed
next
  case (7 x xs)
  then obtain c w where c: "tamper_first_text_part x = Inr (c, w)" by (auto simp: rbind_eq_Inr)
  show ?case
  proof (cases c)
    case True
    with 7 c show ?thesis by (auto simp: edits_def intro: edited.in_list)
  next
    case False
    with 7 c obtain zs where "tamper_list xs = Inr (b, zs)" "ys = x # zs" by (auto simp: rbind_eq_Inr)
    with 7(2)[of c b zs "pre @ [x]"] False show ?thesis by simp
  qed
qed (simp_all add: edits_def)

text \<open>
  The attacker edits one text and nothing else. When the rewriting of a document ends without an exception, the document that is passed
  on is either the one received, and the rewriting says so, or it differs from it in a single text, which is the edited form of the
  one in its place and is never equal to it.
\<close>

theorem tamper_edits_one_text:
  assumes "tamper_first_text_part doc = Inr (changed, doc')"
  shows "if changed then edited doc doc' \<and> doc' \<noteq> doc else doc' = doc"
  using tamper_edits(1)[OF assms] edited_differs by (auto simp: edits_def split: if_splits)

theorem tamper_edits_one_text_witness:
  "\<exists>doc'. tamper_first_text_part (JObj [(''result'', JObj [(''artifacts'', JList [JObj [(''parts'', JList [JObj [(''text'', JStr ''mean 2'')]])]])])])
     = Inr (True, doc') \<and> edited (JObj [(''result'', JObj [(''artifacts'', JList [JObj [(''parts'', JList [JObj [(''text'', JStr ''mean 2'')]])]])])]) doc'"
proof -
  let ?doc = "JObj [(''result'', JObj [(''artifacts'', JList [JObj [(''parts'', JList [JObj [(''text'', JStr ''mean 2'')]])]])])]"
  have "\<exists>doc'. tamper_first_text_part ?doc = Inr (True, doc')"
    by (simp add: change_in_def tamper_artifact_def tamper_part_def)
  then obtain doc' where "tamper_first_text_part ?doc = Inr (True, doc')" by blast
  from this tamper_edits_one_text[OF this] show ?thesis by auto
qed

section \<open>What the holder does\<close>

lemma plain_retrieve:
  assumes "retrieve_raw env ce (plain_client base) ctx_id None io tm = (io', tm', r)"
  shows "tm' = tm \<and> (\<exists>h. sent io' = sent io @ [get_request (context_url (plain_client base) ctx_id []) [] h])"
proof -
  let ?mk = "get_request (context_url (plain_client base) ctx_id []) []" and ?h = "header_dict (plain_client base) None []"
  have "client_headers env ce (plain_client base) [] io tm = (io, tm, Inr ?h)"
    by (auto simp: client_headers_iff bearer_token_def plain_client_def nonempty_str_def managed_def)
  moreover obtain io1 x where sent: "http_send env io (?mk ?h) = (io1, x)" by (metis prod.collapse)
  moreover have "sent io1 = sent io @ [?mk ?h]" using http_send_sent[OF sent] .
  moreover have "managed (plain_client base) = None" by (simp add: managed_def plain_client_def)
  ultimately show ?thesis using assms
    by (cases x) (auto simp: retrieve_raw_def get_full_context_def fetch_json_def retrying_def abind_def http_call_def areturn_def alift_def Let_def
        split: prod.splits sum.splits)
qed

lemma plain_retrieve_bound:
  assumes "retrieve_raw env ce (plain_client base) ctx_id None io tm = (io', tm', Inr raw)" "json_index raw ''body'' = Inr body" "faithful_binding ce"
  shows "\<exists>kvs. body = JObj kvs \<and> map_of kvs ''ctx_id'' = Some (JStr ctx_id)"
proof -
  have "body \<in> set (served_bodies raw Envelope)"
    using assms(2) by (cases raw) (auto simp: served_bodies_def envelope_bodies_def split: option.splits)
  then have "bound ce (Some ctx_id) body"
    using get_full_context_bound[OF assms(1)[unfolded retrieve_raw_def]] by (simp add: plain_client_def)
  with assms(3) show ?thesis by (fastforce simp: bound_def faithful_binding_def)
qed

lemma linked_body_confined:
  assumes "linked_body a h (JStr c) io tm = (io', tm', r)"
  shows "tm' = tm \<and> (case map_of (ho_registries h) (ctx_authority c) of
      None \<Rightarrow> io' = io \<and> (c \<noteq> [] \<longrightarrow> r = Inl PermissionError)
    | Some base \<Rightarrow> c = [] \<and> io' = io \<or> c \<noteq> [] \<and> (\<exists>hd. sent io' = sent io @ [get_request (context_url (plain_client base) c []) [] hd]))"
  using assms by (auto simp: linked_body_def holder_retrieve_def split: option.splits if_splits dest: plain_retrieve)

text \<open>The verifier accepted the artifact with the body.\<close>

definition accepted :: "'w a2a_env \<Rightarrow> holder \<Rightarrow> json \<Rightarrow> json \<Rightarrow> json \<Rightarrow> json \<Rightarrow> json \<Rightarrow> bool" where
  "accepted a h artifact exts task_id context_id body \<longleftrightarrow>
     (\<exists>state evidence. \<not> isl (verify_artifact a body artifact (ho_trusted h) exts task_id context_id state evidence))"

lemma judge_ok:
  assumes "judge a h artifact exts task_id context_id c raw io tm = (io', tm', Inr v)" "vd_ok v"
  shows "\<exists>body. json_index raw ''body'' = Inr body \<and> vd_body v = Some body \<and> vd_ctx_id v = c \<and> accepted a h artifact exts task_id context_id body"
proof -
  from assms(1) obtain body state evidence where b: "json_index raw ''body'' = Inr body"
    and v: "(case verify_artifact a body artifact (ho_trusted h) exts task_id context_id state evidence of
        Inl (Fault e) \<Rightarrow> Inl e
      | Inl (ArtifactMismatch step reason) \<Rightarrow>
          Inr \<lparr>vd_ok = False, vd_step = Some step, vd_reason = reason, vd_ctx_id = c,
               vd_detail = fault_text a (ArtifactMismatch step reason), vd_result = None, vd_status = None, vd_body = None\<rparr>
      | Inr r \<Rightarrow>
          Inr \<lparr>vd_ok = True, vd_step = None, vd_reason = ''verified'', vd_ctx_id = c,
               vd_detail = ''all '' @ section_sign @ ''8 checks passed'', vd_result = Some r, vd_status = Some (result_status a r),
               vd_body = Some body\<rparr>) = Inr v"
    by (clarsimp simp: judge_def rbind_eq_Inr simp del: append.simps)
  show ?thesis
  proof (cases "verify_artifact a body artifact (ho_trusted h) exts task_id context_id state evidence")
    case (Inl f)
    with v assms(2) show ?thesis by (cases f) auto
  next
    case (Inr res)
    then have "accepted a h artifact exts task_id context_id body" unfolding accepted_def by (metis sum.disc(2))
    with v b Inr show ?thesis by auto
  qed
qed

lemma holder_verify_linked:
  assumes "link_ctx_id artifact = Inr c" "holder_verify a h artifact exts task_id context_id io tm = (io', tm', r)"
  shows "\<exists>r0. linked_body a h c io tm = (io', tm', r0)
    \<and> (r0 = Inl PermissionError \<longrightarrow> (\<exists>v. r = Inr v \<and> \<not> vd_ok v))
    \<and> (\<forall>v. r = Inr v \<longrightarrow> vd_ok v \<longrightarrow> (\<exists>raw body. r0 = Inr raw \<and> json_index raw ''body'' = Inr body \<and> vd_body v = Some body
         \<and> accepted a h artifact exts task_id context_id body \<and> vd_ctx_id v = c))"
proof -
  obtain io1 tm1 r0 where l: "linked_body a h c io tm = (io1, tm1, r0)" by (metis prod_cases3)
  show ?thesis
  proof (cases r0)
    case (Inl e)
    with l assms show ?thesis by (auto simp: holder_verify_def abind_def alift_def split: if_splits)
  next
    case (Inr raw)
    obtain res where j: "judge a h artifact exts task_id context_id c raw io1 tm1 = (io1, tm1, res)" by (simp add: judge_def)
    with l Inr assms have "io' = io1" "tm' = tm1" and r: "r = res \<or> (\<exists>v. r = Inr v \<and> \<not> vd_ok v)"
      by (cases res; auto simp: holder_verify_def abind_def alift_def split: if_splits)+
    with l Inr j judge_ok[of a h artifact exts task_id context_id c raw io1 tm1] show ?thesis by fastforce
  qed
qed

text \<open>
  C38. A holder is confined to its allowlist and believes only bodies it asked for. Whatever the artifact, its link and the Agent Card say,
  verifying sends no request but a single GET for the linked context to the base URL the holder lists for the authority of its id; a
  link to an unlisted authority is refused without a request. When the verdict is positive, the independent verifier accepted
  the artifact for the agents the holder trusts, with a body that, if there is a link, was served under exactly the linked id.
\<close>

theorem holder_confined:
  assumes "faithful_binding (a2_client a)" and "holder_verify a h artifact exts task_id context_id io tm = (io', tm', r)"
  shows "tm' = tm
    \<and> (sent io' = sent io \<or> (\<exists>c base hs. link_ctx_id artifact = Inr (JStr c) \<and> map_of (ho_registries h) (ctx_authority c) = Some base
         \<and> sent io' = sent io @ [get_request (context_url (plain_client base) c []) [] hs]))
    \<and> (\<forall>c. link_ctx_id artifact = Inr (JStr c) \<longrightarrow> c \<noteq> [] \<longrightarrow> map_of (ho_registries h) (ctx_authority c) = None \<longrightarrow>
         io' = io \<and> (\<exists>v. r = Inr v \<and> \<not> vd_ok v))
    \<and> (\<forall>v. r = Inr v \<longrightarrow> vd_ok v \<longrightarrow> (\<exists>body. vd_body v = Some body \<and> accepted a h artifact exts task_id context_id body
         \<and> (\<forall>c. vd_ctx_id v = JStr c \<longrightarrow> c \<noteq> [] \<longrightarrow> (\<exists>kvs. body = JObj kvs \<and> map_of kvs ''ctx_id'' = Some (JStr c)))))"
proof (cases "link_ctx_id artifact")
  case (Inl e)
  with assms(2) show ?thesis by (auto simp: holder_verify_def abind_def alift_def)
next
  case (Inr c)
  from holder_verify_linked[OF Inr assms(2)] obtain r0 where l: "linked_body a h c io tm = (io', tm', r0)"
    and refused: "r0 = Inl PermissionError \<longrightarrow> (\<exists>v. r = Inr v \<and> \<not> vd_ok v)"
    and good: "\<forall>v. r = Inr v \<longrightarrow> vd_ok v \<longrightarrow> (\<exists>raw body. r0 = Inr raw \<and> json_index raw ''body'' = Inr body \<and> vd_body v = Some body
         \<and> accepted a h artifact exts task_id context_id body \<and> vd_ctx_id v = c)" by (elim exE conjE)
  have served: "\<exists>kvs. body = JObj kvs \<and> map_of kvs ''ctx_id'' = Some (JStr s)"
    if "c = JStr s" "s \<noteq> []" "r0 = Inr raw" "json_index raw ''body'' = Inr body" for s raw body
    using l that plain_retrieve_bound[OF _ _ assms(1)] by (auto simp: linked_body_def holder_retrieve_def split: option.splits)
  show ?thesis
  proof (cases "\<exists>s. c = JStr s")
    case True
    then obtain s where s: "c = JStr s" by blast
    note conf = linked_body_confined[OF l[unfolded s]]
    show ?thesis
    proof (intro conjI)
      show "\<forall>v. r = Inr v \<longrightarrow> vd_ok v \<longrightarrow> (\<exists>body. vd_body v = Some body \<and> accepted a h artifact exts task_id context_id body
         \<and> (\<forall>c. vd_ctx_id v = JStr c \<longrightarrow> c \<noteq> [] \<longrightarrow> (\<exists>kvs. body = JObj kvs \<and> map_of kvs ''ctx_id'' = Some (JStr c))))"
        using good served s by (metis json.inject(4))
    qed (use conf Inr s refused in \<open>auto split: option.splits\<close>)
  next
    case False
    then have "io' = io" "tm' = tm" using l by (cases c; auto simp: linked_body_def split: if_splits)+
    moreover have "vd_ctx_id v = c" if "r = Inr v" "vd_ok v" for v using good that by blast
    ultimately show ?thesis using False Inr good by fastforce
  qed
qed

definition demo_a2a :: "json \<Rightarrow> unit a2a_env" where
  "demo_a2a served = \<lparr>a2_http = stub_env (\<lambda>rq. Inr (json_answer 200 served)), a2_client = demo_client_env, a2_sdk = plain_sdk, a2_now_ms = (\<lambda>w. []),
     verify_artifact = (\<lambda>body art trusted exts t c st ev. Inr JNull), artifact_status = (\<lambda>c st ev b. Inr JNull), result_status = id,
     is_AcdpError = (\<lambda>e. False), fault_text = (\<lambda>f. []), exn_name = (\<lambda>e. [])\<rparr>"

definition linked :: json where
  "linked = JObj [(''metadata'', JObj [(LINK_KEY, JObj [(''ctx_id'', JStr ''acdp://a/1'')])])]"

definition served_raw :: json where
  "served_raw = JObj [(''body'', JObj [(''ctx_id'', JStr ''acdp://a/1'')])]"

theorem holder_confined_witness:
  "\<exists>io' tm' v body. holder_verify (demo_a2a served_raw) \<lparr>ho_registries = [(''a'', ''http://r'')], ho_trusted = []\<rparr> linked JNull JNull JNull
       stub_io (new_token_manager 30) = (io', tm', Inr v) \<and> vd_ok v \<and> vd_body v = Some (JObj body) \<and> map_of body ''ctx_id'' = Some (JStr ''acdp://a/1'')"
proof -
  let ?a = "demo_a2a served_raw" and ?h = "\<lparr>ho_registries = [(''a'', ''http://r'')], ho_trusted = []\<rparr>" and ?cl = "plain_client ''http://r''"
  have cl: "managed ?cl = None" "cl_static_bearer ?cl = None" by (simp_all add: managed_def plain_client_def)
  have faithful: "faithful_binding (a2_client ?a)"
    by (auto simp: faithful_binding_def demo_a2a_def demo_client_env_def Client.demo_env_def split: if_splits)
  have bound: "bind_served_ctx_id demo_client_env ?cl served_raw Envelope (Some ''acdp://a/1'') None = Inr ()"
    by (simp add: bind_served_ctx_id_def served_bodies_def envelope_bodies_def served_raw_def bind_body_def obj_get_def dict_get_default_def
        demo_client_env_def Client.demo_env_def)
  obtain io1 tm1 where get: "retrieve_raw (a2_http ?a) (a2_client ?a) ?cl ''acdp://a/1'' None stub_io (new_token_manager 30) = (io1, tm1, Inr served_raw)"
    using demo_retrieve_raw_any[OF cl bound, of stub_io "new_token_manager 30"] by (auto simp: demo_a2a_def)
  have link: "link_ctx_id linked = Inr (JStr ''acdp://a/1'')"
    by (simp add: link_ctx_id_def linked_def json_get_attr_def dict_get_default_def obj_get_def)
  have parts: "json_index served_raw ''body'' = Inr (JObj [(''ctx_id'', JStr ''acdp://a/1'')])"
    "json_get_attr served_raw ''registry_state'' JNull = Inr JNull" "json_get_attr (JObj []) k JNull = Inr JNull"
    "verify_artifact ?a b art tr ex t c st ev = Inr JNull" for k b art tr ex t c st ev
    by (simp_all add: served_raw_def demo_a2a_def json_get_attr_def dict_get_default_def)
  have auth: "ctx_authority ''acdp://a/1'' = ''a''" by (simp add: ctx_authority_def py_removeprefix_def py_startswith_def)
  have "\<exists>v. holder_verify ?a ?h linked JNull JNull JNull stub_io (new_token_manager 30) = (io1, tm1, Inr v) \<and> vd_ok v \<and> vd_ctx_id v = JStr ''acdp://a/1''"
    by (simp add: holder_verify_def abind_def alift_def link linked_body_def holder_retrieve_def auth get judge_def evidence_from_def parts)
  then obtain v where v: "holder_verify ?a ?h linked JNull JNull JNull stub_io (new_token_manager 30) = (io1, tm1, Inr v)" "vd_ok v"
    "vd_ctx_id v = JStr ''acdp://a/1''" by blast
  from holder_confined[OF faithful v(1)] v show ?thesis by fastforce
qed

end
