(* ===== verification/A2a_Producer.thy ===== *)
theory A2a_Producer
  imports A2a_Holder "HOL-Library.Sublist"
begin

text \<open>
  The agent side of the A2A demonstration (a2a/acdp\_a2a\_demo/producer.py and sidecar.py): the calls to the sidecar process, which cited
  inputs count, and the route by which the agent retracts its own bodies. The sidecar, \<^verbatim>\<open>float\<close> and \<^verbatim>\<open>str\<close> of decoded values, the clock
  and random identifiers are parameters.
\<close>

record 'w agent_env = "'w a2a_env" +
  a2_float :: "json \<Rightarrow> pyfloat result"
  a2_str :: "json \<Rightarrow> string"
  a2_uuid :: "'w \<Rightarrow> 'w \<times> string"

section \<open>The sidecar\<close>

record 's sidecar =
  sc_next :: int
  sc_proc :: 's

definition SidecarError :: "string \<Rightarrow> exn" where
  "SidecarError msg = LocalError ''SidecarError'' msg"

text \<open>
  One request and the line that answers it, empty when the process is gone (its return code is left out of the message); \<open>show\<close> prints a
  decoded value.
\<close>

definition sidecar_reply :: "(json \<Rightarrow> string) \<Rightarrow> string \<Rightarrow> int \<Rightarrow> string \<Rightarrow> json result" where
  "sidecar_reply show op req_id raw =
     (if raw = [] then Inl (SidecarError (''sidecar exited during '' @ op))
      else rbind (json_loads raw) (\<lambda>reply.
           rbind (json_get_attr reply ''id'' JNull) (\<lambda>i.
           if \<not> json_eq i (JInt req_id) then Inl (SidecarError (''sidecar reply id '' @ show i @ '' for request '' @ str_int req_id))
           else rbind (json_get_attr reply ''ok'' JNull) (\<lambda>ok.
                if \<not> truthy ok
                then rbind (json_get_attr reply ''error'' JNull) (\<lambda>e. Inl (SidecarError (op @ '': '' @ show e)))
                else json_get_attr reply ''result'' JNull))))"

definition sidecar_request :: "string \<Rightarrow> obj \<Rightarrow> int \<Rightarrow> json" where
  "sidecar_request op kw req_id = JObj (fold (\<lambda>(k, v). AList.update k v) kw [(''id'', JInt req_id), (''op'', JStr op)])"

definition sidecar_call ::
  "('s \<Rightarrow> json \<Rightarrow> 's \<times> string) \<Rightarrow> (json \<Rightarrow> string) \<Rightarrow> string \<Rightarrow> obj \<Rightarrow> 's sidecar \<Rightarrow> 's sidecar \<times> json result" where
  "sidecar_call exchange show op kw sc =
     (case exchange (sc_proc sc) (sidecar_request op kw (sc_next sc)) of
        (p, raw) \<Rightarrow> (\<lparr>sc_next = sc_next sc + 1, sc_proc = p\<rparr>, sidecar_reply show op (sc_next sc) raw))"

section \<open>Cited inputs\<close>

record cited_input =
  in_ctx_id :: string
  in_station :: string
  in_unit :: string
  in_readings :: "pyfloat list"

text \<open>\<^verbatim>\<open>x.get(k) or y\<close>.\<close>

definition get_or :: "json \<Rightarrow> string \<Rightarrow> json \<Rightarrow> json result" where
  "get_or j k y = rbind (json_get_attr j k JNull) (\<lambda>v. Inr (if truthy v then v else y))"

fun first_dataset :: "json list \<Rightarrow> obj option result" where
  "first_dataset [] = Inr None"
| "first_dataset (ref # refs) =
     rbind (get_or ref ''embedded'' (JObj [])) (\<lambda>embedded.
     rbind (json_get_attr embedded ''content'' JNull) (\<lambda>content.
     rbind (json_get_attr embedded ''encoding'' JNull) (\<lambda>encoding.
     case content of
       JObj kvs \<Rightarrow> if json_eq encoding (JStr ''json'') then Inr (Some kvs) else first_dataset refs
     | _ \<Rightarrow> first_dataset refs)))"

definition embedded_dataset :: "json \<Rightarrow> obj option result" where
  "embedded_dataset body = rbind (get_or body ''data_refs'' (JList [])) (\<lambda>refs. rbind (py_iter refs) first_dataset)"

definition input_of :: "'w agent_env \<Rightarrow> string \<Rightarrow> json \<Rightarrow> cited_input result" where
  "input_of a ctx_id body =
     rbind (embedded_dataset body) (\<lambda>found.
     let dataset = (case found of Some kvs \<Rightarrow> kvs | None \<Rightarrow> []) in
     rbind (py_iter (dict_get_default dataset ''readings'' (JList []))) (\<lambda>xs.
     rbind (map_result (a2_float a) xs) (\<lambda>readings.
     rbind (json_get_attr body ''title'' (JStr ''?'')) (\<lambda>title.
     Inr \<lparr>in_ctx_id = ctx_id, in_station = a2_str a (dict_get_default dataset ''station'' title),
          in_unit = a2_str a (dict_get_default dataset ''unit'' (JStr [])), in_readings = readings\<rparr>))))"

text \<open>Retrieving and verifying one input: what stands inside the \<^verbatim>\<open>try\<close>.\<close>

definition verified_body :: "'w agent_env \<Rightarrow> client \<Rightarrow> string \<Rightarrow> ('w, json) call" where
  "verified_body a registry ctx_id =
     abind (retrieve_raw (a2_http a) (a2_client a) registry ctx_id None) (\<lambda>raw.
       alift (rbind (json_index raw ''body'') (\<lambda>body.
              rbind (verify_body_offline (a2_sdk a) (json_dumps (float_repr (a2_http a)) body)) (\<lambda>_. Inr body))))"

fun verify_inputs :: "'w agent_env \<Rightarrow> string \<Rightarrow> client \<Rightarrow> string list \<Rightarrow> ('w, cited_input list) call" where
  "verify_inputs a authority registry [] = areturn []"
| "verify_inputs a authority registry (ctx_id # cited) =
     (if ctx_authority ctx_id \<noteq> authority then verify_inputs a authority registry cited
      else (\<lambda>io tm. case verified_body a registry ctx_id io tm of
          (io', tm', Inl e) \<Rightarrow> if is_Exception e then verify_inputs a authority registry cited io' tm' else (io', tm', Inl e)
        | (io', tm', Inr body) \<Rightarrow>
            abind (alift (input_of a ctx_id body)) (\<lambda>i.
            abind (verify_inputs a authority registry cited) (\<lambda>is. areturn (i # is))) io' tm'))"

section \<open>Retraction\<close>

text \<open>The answer of \<^verbatim>\<open>/demo/retract\<close>: its status and its JSON.\<close>

definition retract_reason :: "'w agent_env \<Rightarrow> json \<Rightarrow> string result" where
  "retract_reason a payload = rbind (get_or payload ''reason'' (JStr ''withdrawn by the producing agent'')) (\<lambda>r. Inr (a2_str a r))"

definition mint_retraction :: "'w agent_env \<Rightarrow> producer \<Rightarrow> string \<Rightarrow> string \<Rightarrow> ('w, obj) call" where
  "mint_retraction a signer ctx_id reason io tm =
     (case a2_uuid a (world io) of (w, event_id) \<Rightarrow>
        (io\<lparr>world := w\<rparr>, tm, mint_lifecycle_event (float_repr (a2_http a)) (a2_sdk a) signer event_id ctx_id ''retracted'' (a2_now_ms a w) (Some reason) None))"

definition retract_route :: "'w agent_env \<Rightarrow> producer \<Rightarrow> client \<Rightarrow> json \<Rightarrow> ('w, int \<times> json) call" where
  "retract_route a signer registry payload =
     abind (alift (rbind (json_index payload ''ctx_id'') (\<lambda>c. Inr (a2_str a c)))) (\<lambda>ctx_id.
     abind (retrieve_raw (a2_http a) (a2_client a) registry ctx_id None) (\<lambda>raw.
     abind (alift (rbind (json_index raw ''body'') (\<lambda>body. json_index body ''agent_id''))) (\<lambda>owner.
     if \<not> json_eq owner (JStr (agent_did signer)) then areturn (403, JObj [(''error'', JStr (''not this agent'' @ [CHR 0x27] @ ''s body''))])
     else
       abind (alift (retract_reason a payload)) (\<lambda>reason.
       abind (mint_retraction a signer ctx_id reason) (\<lambda>event.
       abind (retract (a2_http a) (a2_client a) registry ctx_id (json_dumps (float_repr (a2_http a)) (JObj event))) (\<lambda>after.
       areturn (200, JObj [(''ctx_id'', JStr ctx_id), (''status'', JStr (rs_status (fc_registry_state after))), (''event_id'', obj_get event ''event_id'')])))))))"

section \<open>Properties\<close>

text \<open>A reply is used only for the request it names, and no two requests have the same number.\<close>

lemma sidecar_reply_matches:
  assumes "sidecar_call exchange show op kw sc = (sc', r)"
  shows "sc_next sc' = sc_next sc + 1"
    and "r = Inr v \<Longrightarrow> \<exists>raw reply i ok. snd (exchange (sc_proc sc) (sidecar_request op kw (sc_next sc))) = raw \<and> json_loads raw = Inr reply
      \<and> json_get_attr reply ''id'' JNull = Inr i \<and> json_eq i (JInt (sc_next sc)) \<and> json_get_attr reply ''ok'' JNull = Inr ok \<and> truthy ok
      \<and> json_get_attr reply ''result'' JNull = Inr v"
  using assms by (auto simp: sidecar_call_def sidecar_reply_def rbind_eq_Inr split: prod.splits if_splits)

text \<open>An input that counts: from the allowlisted authority, served under the id that was cited, and verified by the SDK.\<close>

definition sound_input :: "'w agent_env \<Rightarrow> string \<Rightarrow> cited_input \<Rightarrow> bool" where
  "sound_input a authority i \<longleftrightarrow> ctx_authority (in_ctx_id i) = authority
     \<and> (\<exists>kvs. map_of kvs ''ctx_id'' = Some (JStr (in_ctx_id i)) \<and> input_of a (in_ctx_id i) (JObj kvs) = Inr i
          \<and> verify_body_offline (a2_sdk a) (json_dumps (float_repr (a2_http a)) (JObj kvs)) = Inr ())"

lemma input_of_ctx_id: "input_of a c body = Inr i \<Longrightarrow> in_ctx_id i = c"
  by (auto simp: input_of_def Let_def rbind_eq_Inr)

lemma verified_body_sound:
  assumes "verified_body a (plain_client base) c io tm = (io', tm', r)"
  shows "tm' = tm \<and> (\<exists>h. sent io' = sent io @ [get_request (context_url (plain_client base) c []) [] h])"
    and "r = Inr body \<Longrightarrow> faithful_binding (a2_client a) \<Longrightarrow> \<exists>kvs. body = JObj kvs \<and> map_of kvs ''ctx_id'' = Some (JStr c)
      \<and> verify_body_offline (a2_sdk a) (json_dumps (float_repr (a2_http a)) body) = Inr ()"
proof -
  obtain r0 where r0: "retrieve_raw (a2_http a) (a2_client a) (plain_client base) c None io tm = (io', tm', r0)"
    using assms by (auto simp: verified_body_def abind_def alift_def split: prod.splits sum.splits)
  then show "tm' = tm \<and> (\<exists>h. sent io' = sent io @ [get_request (context_url (plain_client base) c []) [] h])" by (rule plain_retrieve)
  assume r: "r = Inr body" and f: "faithful_binding (a2_client a)"
  with assms r0 obtain raw where raw: "r0 = Inr raw" "json_index raw ''body'' = Inr body"
    "verify_body_offline (a2_sdk a) (json_dumps (float_repr (a2_http a)) body) = Inr ()"
    by (auto simp: verified_body_def abind_Inr rbind_eq_Inr simp del: json_dumps.simps)
  with plain_retrieve_bound[OF r0[unfolded raw(1)] raw(2) f] show "\<exists>kvs. body = JObj kvs \<and> map_of kvs ''ctx_id'' = Some (JStr c)
      \<and> verify_body_offline (a2_sdk a) (json_dumps (float_repr (a2_http a)) body) = Inr ()" by blast
qed

text \<open>The requests sent between two moments: one GET each for some of the cited ids of the authority, in their order.\<close>

definition asked_only :: "string \<Rightarrow> string \<Rightarrow> string list \<Rightarrow> 'w io \<Rightarrow> 'w io \<Rightarrow> bool" where
  "asked_only base authority cited io io' \<longleftrightarrow>
     (\<exists>asked hs. subseq asked (filter (\<lambda>c. ctx_authority c = authority) cited) \<and> length hs = length asked
        \<and> sent io' = sent io @ map2 (\<lambda>c h. get_request (context_url (plain_client base) c []) [] h) asked hs)"

lemma asked_only_none: "asked_only base authority cited io io"
  unfolding asked_only_def by (intro exI[of _ "[]"]) auto

lemma asked_only_other: "ctx_authority c \<noteq> authority \<Longrightarrow> asked_only base authority (c # cited) = asked_only base authority cited"
  by (intro ext) (simp add: asked_only_def)

lemma asked_only_one:
  assumes "sent io1 = sent io @ [get_request (context_url (plain_client base) c []) [] h]" "asked_only base authority cited io1 io2"
    "ctx_authority c = authority"
  shows "asked_only base authority (c # cited) io io2"
proof -
  from assms(2) obtain asked hs where "subseq asked (filter (\<lambda>c. ctx_authority c = authority) cited)" "length hs = length asked"
    "sent io2 = sent io1 @ map2 (\<lambda>c h. get_request (context_url (plain_client base) c []) [] h) asked hs" by (auto simp: asked_only_def)
  with assms(1,3) show ?thesis unfolding asked_only_def by (intro exI[of _ "c # asked"] exI[of _ "h # hs"]) auto
qed

text \<open>
  C39. Only verified inputs count. The inputs the agent works on are cited ones, in the order of the message, each with the
  allowlisted authority, served under the very id that was cited and verified by the SDK; citing anything else has no effect but,
  for an id of that authority, one GET for it. Nothing is asked of any other registry.
\<close>

theorem verify_inputs_sound:
  assumes "faithful_binding (a2_client a)" and "verify_inputs a authority (plain_client base) cited io tm = (io', tm', r)"
  shows "tm' = tm
    \<and> asked_only base authority cited io io'
    \<and> (\<forall>inputs. r = Inr inputs \<longrightarrow> subseq (map in_ctx_id inputs) cited \<and> list_all (sound_input a authority) inputs)"
  using assms(2)
proof (induction cited arbitrary: io tm r)
  case (Cons c cited)
  show ?case
  proof (cases "ctx_authority c = authority")
    case False
    with Cons show ?thesis by (auto simp: asked_only_other)
  next
    case True
    obtain io1 tm1 r1 where b: "verified_body a (plain_client base) c io tm = (io1, tm1, r1)" by (metis prod_cases3)
    obtain h where h: "tm1 = tm" "sent io1 = sent io @ [get_request (context_url (plain_client base) c []) [] h]"
      using verified_body_sound(1)[OF b] by blast
    have more: "asked_only base authority (c # cited) io io2" if "asked_only base authority cited io1 io2" for io2
      using asked_only_one[OF h(2) that True] .
    consider (stop) "io' = io1" "tm' = tm1" "isl r"
      | (skip) "verify_inputs a authority (plain_client base) cited io1 tm1 = (io', tm', r)"
      | (take) body i r2 where "r1 = Inr body" "input_of a c body = Inr i" "verify_inputs a authority (plain_client base) cited io1 tm1 = (io', tm', r2)"
          "r = map_sum id ((#) i) r2"
    proof (cases r1)
      case (Inl e)
      with Cons.prems True b that(1,2) show ?thesis by (auto split: if_splits)
    next
      case (Inr body)
      show ?thesis
      proof (cases "input_of a c body")
        case (Inl e)
        with Cons.prems True b Inr that(1) show ?thesis by (auto simp: abind_def alift_def)
      next
        case i: (Inr i)
        obtain io2 tm2 r2 where r2: "verify_inputs a authority (plain_client base) cited io1 tm1 = (io2, tm2, r2)" by (metis prod_cases3)
        with Cons.prems True b Inr i have "io' = io2" "tm' = tm2" "r = map_sum id ((#) i) r2"
          by (auto simp: abind_def alift_def areturn_def split: sum.splits)
        with Inr i r2 that(3) show ?thesis by blast
      qed
    qed
    then show ?thesis
    proof cases
      case stop
      then show ?thesis using more[OF asked_only_none] h(1) by auto
    next
      case skip
      with Cons.IH[OF skip] h(1) more show ?thesis by (auto intro: subseq_Cons')
    next
      case (take body i r2)
      have i: "in_ctx_id i = c" using input_of_ctx_id[OF take(2)] .
      have "sound_input a authority i"
        using verified_body_sound(2)[OF b take(1) assms(1)] take(2) True by (auto simp: sound_input_def i)
      with Cons.IH[OF take(3)] h(1) more take(4) i show ?thesis by (cases r2) auto
    qed
  qed
qed (auto simp: asked_only_none)

definition demo_agent_env :: "unit agent_env" where
  "demo_agent_env = \<lparr>a2_http = stub_env (\<lambda>rq. Inr (json_answer 200 served_raw)), a2_client = demo_client_env,
     a2_sdk = plain_sdk\<lparr>verify_body_offline := (\<lambda>s. Inr ())\<rparr>, a2_now_ms = (\<lambda>w. []),
     verify_artifact = (\<lambda>body art trusted exts t c st ev. Inr JNull), artifact_status = (\<lambda>c st ev b. Inr JNull), result_status = id,
     is_AcdpError = (\<lambda>e. False), fault_text = (\<lambda>f. []), exn_name = (\<lambda>e. []), a2_float = (\<lambda>j. Inr (Fin 0)), a2_str = (\<lambda>j. []),
     a2_uuid = (\<lambda>w. (w, ''u''))\<rparr>"

theorem verify_inputs_sound_witness:
  "\<exists>io' i. verify_inputs demo_agent_env ''a'' (plain_client ''http://r'') [''acdp://b/2'', ''acdp://a/1''] stub_io (new_token_manager 30)
       = (io', new_token_manager 30, Inr [i]) \<and> in_ctx_id i = ''acdp://a/1'' \<and> sound_input demo_agent_env ''a'' i"
proof -
  let ?a = demo_agent_env and ?cl = "plain_client ''http://r''"
  have cl: "managed ?cl = None" "cl_static_bearer ?cl = None" by (simp_all add: managed_def plain_client_def)
  have faithful: "faithful_binding (a2_client ?a)"
    by (auto simp: faithful_binding_def demo_agent_env_def demo_client_env_def Client.demo_env_def split: if_splits)
  have bound: "bind_served_ctx_id demo_client_env ?cl served_raw Envelope (Some ''acdp://a/1'') None = Inr ()"
    by (simp add: bind_served_ctx_id_def served_bodies_def envelope_bodies_def served_raw_def bind_body_def obj_get_def dict_get_default_def
        demo_client_env_def Client.demo_env_def)
  obtain io1 where get: "retrieve_raw (a2_http ?a) (a2_client ?a) ?cl ''acdp://a/1'' None stub_io (new_token_manager 30)
      = (io1, new_token_manager 30, Inr served_raw)"
    using demo_retrieve_raw_any[OF cl bound, of stub_io "new_token_manager 30"] by (auto simp: demo_agent_env_def)
  let ?body = "JObj [(''ctx_id'', JStr ''acdp://a/1'')]"
  have body: "json_index served_raw ''body'' = Inr ?body" "verify_body_offline (a2_sdk ?a) x = Inr ()" for x
    by (simp_all add: served_raw_def demo_agent_env_def)
  have "\<exists>i. input_of ?a ''acdp://a/1'' ?body = Inr i"
    by (simp add: input_of_def embedded_dataset_def get_or_def json_get_attr_def dict_get_default_def)
  then obtain i where i: "input_of ?a ''acdp://a/1'' ?body = Inr i" by blast
  have auth: "ctx_authority ''acdp://a/1'' = ''a''" "ctx_authority ''acdp://b/2'' = ''b''"
    by (simp_all add: ctx_authority_def py_removeprefix_def py_startswith_def)
  have run: "verify_inputs ?a ''a'' ?cl [''acdp://b/2'', ''acdp://a/1''] stub_io (new_token_manager 30) = (io1, new_token_manager 30, Inr [i])"
    by (simp add: auth verified_body_def abind_def alift_def get body i areturn_def del: json_dumps.simps)
  from verify_inputs_sound[OF faithful run] run input_of_ctx_id[OF i] show ?thesis by auto
qed

text \<open>
  The agent retracts only its own bodies: if the route sends anything but the retrieval, the body served under the requested id
  names the agent as its producer.
\<close>

theorem retract_own_only:
  assumes "faithful_binding (a2_client a)" "retract_route a signer (plain_client base) payload io tm = (io', tm', r)"
    and "sent io' = sent io @ rqs" "1 < length rqs"
  shows "\<exists>c kvs. json_index payload ''ctx_id'' = Inr c \<and> map_of kvs ''ctx_id'' = Some (JStr (a2_str a c))
    \<and> map_of kvs ''agent_id'' = Some (JStr (agent_did signer))"
proof (cases "json_index payload ''ctx_id''")
  case (Inl e)
  with assms(2-4) show ?thesis by (auto simp: retract_route_def abind_def alift_def)
next
  case (Inr c)
  obtain io1 tm1 r1 where g: "retrieve_raw (a2_http a) (a2_client a) (plain_client base) (a2_str a c) None io tm = (io1, tm1, r1)" by (metis prod_cases3)
  have one: "\<exists>h. sent io1 = sent io @ [get_request (context_url (plain_client base) (a2_str a c) []) [] h]" using plain_retrieve[OF g] by blast
  show ?thesis
  proof (cases r1)
    case (Inl e)
    with assms(2-4) g one \<open>json_index payload ''ctx_id'' = Inr c\<close> show ?thesis by (auto simp: retract_route_def abind_def alift_def)
  next
    case raw: (Inr raw)
    let ?owner = "rbind (json_index raw ''body'') (\<lambda>body. json_index body ''agent_id'')"
    have "?owner = Inr (JStr (agent_did signer))"
      using assms(2-4) g one raw Inr by (cases ?owner) (auto simp: retract_route_def abind_def alift_def areturn_def split: if_splits)
    then obtain body where body: "json_index raw ''body'' = Inr body" "json_index body ''agent_id'' = Inr (JStr (agent_did signer))"
      by (auto simp: rbind_eq_Inr)
    obtain kvs where kvs: "body = JObj kvs" "map_of kvs ''ctx_id'' = Some (JStr (a2_str a c))"
      using plain_retrieve_bound[OF g[unfolded raw] body(1) assms(1)] by blast
    with body(2) Inr show ?thesis by (auto split: option.splits)
  qed
qed

end
