(* ===== verification/Spec2Isabelle.thy ===== *)
theory Spec2Isabelle
  imports Webhooks Security Registry_Proxy Endpoints Pinned_Keys Conformance Catalog Anchor_Verdicts A2a_Producer
begin

text \<open>
  A verification development for the ACDP playground, the demonstration service and client library
  of the Agent Context Distribution Protocol.

  \<^bold>\<open>The program.\<close> The service (src/playground) lets a caller start a scenario, runs it as a task, streams its events and
  keeps its result. A gate authenticates requests and finds the client's address; a limiter and quotas bound
  launches and calls to language models; a bridge tells the control plane about runs; a receiver takes signed webhooks from
  the registries and fans them out to the runs; a proxy lets the front end read from the registries. The client
  library (src/acdp\_client) signs in to a registry, publishes, retrieves, searches, and follows data references
  under a guard. Scenarios (playground/scenarios/catalog) are scripts in which agents (playground/agents) publish and read contexts and a
  verdict is passed on what the registry did; they share a factory of agents and clients and helpers that mint receipts. Probes
  (playground/conformance.py) check a live stack against the contracts the code relies on. A demonstration (a2a) has an agent whose answers
  are published as contexts and a holder that verifies them.

  \<^bold>\<open>Theories, in the order they build on each other.\<close>

  \<^item> \<^verbatim>\<open>Prelude\<close>: Python strings, dicts (with the interface \<^verbatim>\<open>dict_store\<close>), JSON values and their text.
  \<^item> \<^verbatim>\<open>Runtime\<close>: exceptions, requests, responses, the world and its clock, acdp\_client/retry\_after.py, integers as text.
  \<^item> \<^verbatim>\<open>Sha256\<close>: SHA-256, HMAC, hex and UTF-8, executable. \<^verbatim>\<open>Url\<close>: percent encoding and its inverse.
  \<^item> \<^verbatim>\<open>Identifiers\<close>: acdp\_client/identifiers.py. \<^verbatim>\<open>Config\<close>: playground/config.py. \<^verbatim>\<open>Models\<close>: acdp\_client/models.py.
  \<^item> \<^verbatim>\<open>Rate_Limit\<close>: playground/rate\_limit.py, the state of \<^verbatim>\<open>RunLimiter\<close> as a record; the interface \<^verbatim>\<open>run_slots\<close>.
  \<^item> \<^verbatim>\<open>Quota\<close>: playground/quota.py, both stores behind the interface \<^verbatim>\<open>quota_store\<close>, and the guarded model.
  \<^item> \<^verbatim>\<open>Control_Plane\<close>: playground/control\_plane.py. \<^verbatim>\<open>Runner\<close>: playground/scenarios/runner.py, models.py, registry.py,
    \_sdk\_guard.py and api/scenarios.py.
  \<^item> \<^verbatim>\<open>Runs\<close>: playground/events.py and api/runs.py; the interleavings of requests, tasks and streams are the step relation
    \<^verbatim>\<open>app_step\<close>.
  \<^item> \<^verbatim>\<open>Security\<close>: playground/security.py with the parts of \<^verbatim>\<open>ipaddress\<close> it calls. \<^verbatim>\<open>Registry_Proxy\<close>: api/registry\_proxy.py.
    \<^verbatim>\<open>Webhooks\<close>: api/webhooks.py.
  \<^item> \<^verbatim>\<open>Token_Manager\<close>: acdp\_client/signing.py and token\_manager.py; concurrent callers are the step relation
    \<^verbatim>\<open>tm_step\<close>, and what the client relies on is the interface \<^verbatim>\<open>token_source\<close>.
  \<^item> \<^verbatim>\<open>Client\<close>: acdp\_client/client.py as calls over the world and the shared token manager. \<^verbatim>\<open>Endpoints\<close>: api/contexts.py
    and api/health.py. \<^verbatim>\<open>Safe_Http\<close>: acdp\_client/safe\_http.py with \<^verbatim>\<open>urlsplit\<close>.
  \<^item> \<^verbatim>\<open>Pinned_Keys\<close>: playground/pinned\_keys.py and scripts/pinned\_keys\_diff.py. \<^verbatim>\<open>Conformance\<close>: playground/conformance.py.

  \<^item> \<^verbatim>\<open>Json\<close> and \<^verbatim>\<open>Base64\<close>: \<^verbatim>\<open>json.loads\<close> against \<^verbatim>\<open>json.dumps\<close>, base64 both ways. \<^verbatim>\<open>Receipts\<close>:
    playground/scenarios/\_receipts.py.
  \<^item> \<^verbatim>\<open>Acts\<close>: the computations scenarios are made of (a state with exceptions, \<^verbatim>\<open>try\<close>, \<^verbatim>\<open>for\<close>, \<^verbatim>\<open>asyncio.gather\<close>), with
    one proof rule for each combinator. \<^verbatim>\<open>Agents\<close>: playground/agents. \<^verbatim>\<open>Factory\<close>: playground/scenarios/\_factory.py.
  \<^item> \<^verbatim>\<open>Scenario_Kit\<close>: what the scripts share and the interface \<^verbatim>\<open>scenario_contract\<close> every one of them is shown to keep.
    \<^verbatim>\<open>Scenarios_Lineage\<close> (S1 to S5, S8), \<^verbatim>\<open>Scenarios_Access\<close> (S6, S10, S11), \<^verbatim>\<open>Scenarios_Versions\<close> (S7, S15, S17, S18),
    \<^verbatim>\<open>Scenarios_Offline\<close> (S12, S13, S14, S16, S20), \<^verbatim>\<open>Scenarios_Signing\<close> (S9, S19, S21): one \<^verbatim>\<open>sN_run\<close> for each \<^verbatim>\<open>run\<close>.
  \<^item> \<^verbatim>\<open>Trust_Kit\<close> and \<^verbatim>\<open>Verdict_Kit\<close>: what the scenarios on receipts, keys and logs share: live parts as lists of steps that stop at the
    first exception, the exceptions scripts define for themselves, Python's equality and order of decoded values, verdicts of the SDK read
    as JSON. \<^verbatim>\<open>Timestamps\<close>: \<^verbatim>\<open>strptime\<close>, a second added, \<^verbatim>\<open>strftime\<close>. \<^verbatim>\<open>Scenarios_Receipts\<close> (S22, S23, S25, S26),
    \<^verbatim>\<open>Scenarios_Rotation\<close> (S24, S27), \<^verbatim>\<open>Scenarios_Lifecycle\<close> (S28, S30), \<^verbatim>\<open>Scenarios_Log\<close> (S29, S31), \<^verbatim>\<open>Scenarios_Revocation\<close> (S32),
    \<^verbatim>\<open>Scenarios_Embedded\<close> (S33, S34). What their verdicts mean is in \<^verbatim>\<open>Receipt_Verdicts\<close>, \<^verbatim>\<open>Trust_Verdicts\<close> and \<^verbatim>\<open>Anchor_Verdicts\<close>.
  \<^item> \<^verbatim>\<open>Catalog\<close>: the catalogue of all thirty-four, behind the runner.
  \<^item> \<^verbatim>\<open>A2a_Holder\<close> and \<^verbatim>\<open>A2a_Producer\<close>: the two sides of the A2A demonstration (a2a/acdp\_a2a\_demo/client.py, and producer.py with sidecar.py).

  \<^bold>\<open>How the code is modelled.\<close> An operation that raises returns a sum with the exception on the left; state is passed
  explicitly as a record; \<^verbatim>\<open>await\<close> points matter only where several coroutines share state (runs, streams, tokens), and
  there a step is the code between two awaits. Everything outside the repository is a parameter: httpx is a
  function from the world and a request to an answer, the ACDP SDK, pydantic, asyncpg, DNS and the clock are
  fields of environment records, and what a theorem needs of them is a named hypothesis. Instants are real
  numbers, so rounding of floats is not modelled; strings are code points below 256, which is what reaches the
  inspected fields. Texts of exceptions, log lines and summaries are left out where no code reads them.
  In scenarios the SDK's producers and verifiers are parameters (\<^verbatim>\<open>sdk_fun\<close> by name); gathered coroutines run one after the other, in an
  order the environment chooses, so what is shown of them holds for every order but not for interleavings inside one call, and siblings of a
  failed coroutine finish before the failure is raised, where the code lets them go on in the background; the runner's deadline is the parameter
  of \<^verbatim>\<open>wait_for\<close>; the dash, arrow and
  section sign of titles are single characters of their own (\<^verbatim>\<open>em_dash\<close>, \<^verbatim>\<open>arrow\<close>, \<^verbatim>\<open>section_sign\<close> and the ellipsis); the text of S34 whose bytes are hashed has its UTF-8 bytes written out;
  fresh identifiers, the formatted clock and the hosts an SDK call looks up (\<^verbatim>\<open>sdk_hosts\<close>, which S33 traps) are fields of the
  environment; a result has status failed
  exactly when it has an error text, as in every script modelled.

  \<^bold>\<open>What the theorems show.\<close>

  \<^item> Limits hold: the sliding window and the concurrency bound in every history, the quotas under every store
    failure, and the two quota stores are observably the same.
  \<^item> Runs end: on a network that answers or fails as httpx does and sends readable \<^verbatim>\<open>Retry-After\<close> headers, \<^verbatim>\<open>execute\<close> stores a result and emits
    one terminal event, and the notifications to the control plane return and are sent at most twice; streams deliver in order and
    exactly once, end only for a reason, and end.
  \<^item> The edge is closed: the gate forwards only exempt paths and the right key, addresses cannot be forged
    without it, the proxy sends only allow-listed reads, and no unsigned webhook has an effect.
  \<^item> The client is bound: contexts and lineages come back only under the requested ids and the endpoint above it never relays
    others and answers each refusal with its own status; one retry, on 401 only, under the token minted in between; tokens are minted by one coroutine at a time and shared until stale; the tenant
    header is only a fallback; paging loses nothing; guarded fetches are confined, bounded and hashed.
  \<^item> Texts round-trip: \<^verbatim>\<open>ctx_id\<close> paths, pinned keys, versions; authorities and synthetic ids follow their grammars.
  \<^item> Scenarios mean what they say: every result the runner stores for a catalogue script, under its deadline or not, is well-formed and is
    the script's own or a failure that says why; agents report what the registry acknowledged, in order; a run's clients are the configured ones; minted
    artifacts carry a signature over the canonical hash of their members; the verdicts of S6, S12, S16, S17 and S18 are exactly what was observed.
  \<^item> The trust scenarios fail closed: an undegraded S22 verified a receipt in full, S23 with a receipt key passes exactly an SDK that refuses its
    seven tampered receipts (two of them by naming the binding; without a key it checks nothing and says so), a complete S24 shows that retention decides about a retired key, a complete S33 that anchors were covered by
    the signature and their host not looked up in the offline calls, an undegraded one that the live verification did not look it up either; the state of a lifecycle history is the one its last registered event leaves, and a revocation's boundary is one
    second after the attested time.
  \<^item> The A2A parties are confined: a holder asks only the registries it lists and believes only bodies served under the linked id and
    accepted by the verifier; an agent works only on cited inputs that were verified, and retracts only its own bodies.
  \<^item> The probes mean what they say: a skip is never drift, and a passing binding probe excludes substitution.

  Theorems named by no property record where the code departs from its comments (the manifest's findings).

  \<^bold>\<open>Loops and bounds.\<close> No definition uses artificial fuel. The loops with a bound in the code recurse on it:
  \<^verbatim>\<open>search_pages\<close> on \<^verbatim>\<open>max_pages\<close>, \<^verbatim>\<open>fetch_loop\<close> on \<^verbatim>\<open>max_redirects\<close> + 1, \<^verbatim>\<open>p256_attempts\<close> on its eight candidates; the JSON reader
  on the text left; all others recurse on a list or a number. The stream
  loop, which may wait forever, is a turn function and its termination is a theorem about finished runs.

  \<^bold>\<open>Not modelled.\<close> Of the A2A demonstration, the exchange through the A2A library, the statistics of the answer (floating-point means) and
  the command line (demo.py). The other scripts are separate programs that drive a live stack. App assembly and logging (playground/main.py,
  logging\_setup.py) are framework configuration. Opening and closing HTTP clients and bundles has no effect the code observes. In
  conformance.py the signed requests are the SDK's; in pinned\_keys\_diff.py the TOML reader, the JSON rendering and the
  command line are left out. What the SDK computes (canonical forms, signatures, Merkle proofs, quorums, revocation classes) is a parameter
  everywhere, so no theorem states that a signature cannot be forged.
\<close>

end
